(* ===== verification/Prelude.thy ===== *)
theory Prelude
  imports Complex_Main "HOL-Library.AList" "HOL-Library.Product_Lexorder" "HOL-Library.Option_ord"
    "HOL-Library.List_Lexorder" "HOL-Library.Char_ord"
begin

text \<open>
  What every component shares: database tables as association lists keyed by primary key
  (rows in insertion order, so that a query's order is explicit), the single-row access
  contract as a locale, results of operations that can raise, first-match scans over
  candidate lists, order-preserving de-duplication, clamping and time units.
  The collection \<open>table_simps\<close> holds the lookup-after-update laws of tables.
\<close>

named_theorems table_simps \<open>lookup after update laws of database tables\<close>

section \<open>Scalars\<close>

type_synonym pk = nat
type_synonym instant = int

text \<open>An instant is a number of microseconds, the resolution of Python's \<open>datetime\<close>.\<close>

definition seconds :: "int \<Rightarrow> int" where
  "seconds n = n * 1000000"

definition minutes :: "int \<Rightarrow> int" where
  "minutes n = seconds (n * 60)"

definition hours :: "int \<Rightarrow> int" where
  "hours n = minutes (n * 60)"

definition days :: "int \<Rightarrow> int" where
  "days n = hours (n * 24)"

lemmas time_defs = seconds_def minutes_def hours_def days_def

text \<open>\<open>max(min(x, hi), lo)\<close>, the clamping idiom of the sources.\<close>

definition clamp :: "int \<Rightarrow> int \<Rightarrow> int \<Rightarrow> int" where
  "clamp lo hi x = max (min x hi) lo"

lemma clamp_bounds [simp]: "lo \<le> hi \<Longrightarrow> lo \<le> clamp lo hi x \<and> clamp lo hi x \<le> hi"
  by (auto simp: clamp_def)

lemma clamp_id: "lo \<le> x \<Longrightarrow> x \<le> hi \<Longrightarrow> clamp lo hi x = x"
  by (simp add: clamp_def)

text \<open>Python's \<open>x or y\<close> on optional values and on strings.\<close>

fun orelse :: "'a option \<Rightarrow> 'a option \<Rightarrow> 'a option" where
  "orelse (Some x) _ = Some x"
| "orelse None y = y"

definition str_or :: "string \<Rightarrow> string \<Rightarrow> string" where
  "str_or x y = (if x = [] then y else x)"

lemma orelse_None2 [simp]: "orelse x None = x"
  by (cases x) auto

lemma orelse_again [simp]: "orelse (orelse x y) y = orelse x y"
  by (cases x; cases y) auto

lemma orelse_Some_again [simp]: "orelse (orelse x (Some a)) (Some b) = orelse x (Some a)"
  by (cases x) auto

lemma orelse_eq_None [simp]: "orelse x y = None \<longleftrightarrow> x = None \<and> y = None"
  by (cases x) auto

text \<open>A nullable foreign key matches, or is empty: the store filters
  \<open>Q(store=store) | Q(store__isnull=True)\<close>.\<close>

definition own_or_shared :: "pk \<Rightarrow> pk option \<Rightarrow> bool" where
  "own_or_shared s fk \<longleftrightarrow> fk = None \<or> fk = Some s"

section \<open>Tables\<close>

type_synonym 'r table = "(pk \<times> 'r) list"

definition row :: "'r table \<Rightarrow> pk \<Rightarrow> 'r option" where
  "row t k = map_of t k"

definition put :: "pk \<Rightarrow> 'r \<Rightarrow> 'r table \<Rightarrow> 'r table" where
  "put k r t = AList.update k r t"

definition modify_where :: "(pk \<Rightarrow> 'r \<Rightarrow> bool) \<Rightarrow> ('r \<Rightarrow> 'r) \<Rightarrow> 'r table \<Rightarrow> 'r table" where
  "modify_where P f t = map (\<lambda>(k, r). (k, if P k r then f r else r)) t"

definition rows_where :: "(pk \<Rightarrow> 'r \<Rightarrow> bool) \<Rightarrow> 'r table \<Rightarrow> (pk \<times> 'r) list" where
  "rows_where P t = filter (\<lambda>(k, r). P k r) t"

definition exists_where :: "(pk \<Rightarrow> 'r \<Rightarrow> bool) \<Rightarrow> 'r table \<Rightarrow> bool" where
  "exists_where P t = list_ex (\<lambda>(k, r). P k r) t"

definition first_where :: "(pk \<Rightarrow> 'r \<Rightarrow> bool) \<Rightarrow> 'r table \<Rightarrow> (pk \<times> 'r) option" where
  "first_where P t = find (\<lambda>(k, r). P k r) t"

text \<open>\<open>.filter(P).order_by(key)\<close> and \<open>.filter(P).order_by(key).first()\<close>; the sort is stable.\<close>

definition ordered_where ::
  "(pk \<times> 'r \<Rightarrow> 'k::linorder) \<Rightarrow> (pk \<Rightarrow> 'r \<Rightarrow> bool) \<Rightarrow> 'r table \<Rightarrow> (pk \<times> 'r) list" where
  "ordered_where key P t = sort_key key (rows_where P t)"

fun first_of :: "'a list \<Rightarrow> 'a option" where
  "first_of [] = None"
| "first_of (x # _) = Some x"

definition fresh_pk :: "'r table \<Rightarrow> pk" where
  "fresh_pk t = Suc (foldr (\<lambda>(k, _) m. max k m) t 0)"

definition add_row :: "'r \<Rightarrow> 'r table \<Rightarrow> pk \<times> 'r table" where
  "add_row r t = (fresh_pk t, t @ [(fresh_pk t, r)])"

definition wf_table :: "'r table \<Rightarrow> bool" where
  "wf_table t \<longleftrightarrow> distinct (map fst t)"

lemma row_put [table_simps]: "row (put k r t) j = (if j = k then Some r else row t j)"
  by (simp add: row_def put_def update_conv')

lemma row_put_same [simp]: "row (put k r t) k = Some r"
  by (simp add: row_put)

lemma row_modify_where [table_simps]:
  "row (modify_where P f t) k = map_option (\<lambda>r. if P k r then f r else r) (row t k)"
  unfolding row_def modify_where_def by (induction t) auto

lemma keys_modify_where [simp]: "map fst (modify_where P f t) = map fst t"
  unfolding modify_where_def by (induction t) auto

lemma wf_put [simp]: "wf_table t \<Longrightarrow> wf_table (put k r t)"
  by (simp add: wf_table_def put_def distinct_update)

lemma wf_modify_where [simp]: "wf_table (modify_where P f t) \<longleftrightarrow> wf_table t"
  by (simp add: wf_table_def)

lemma row_key_less_fresh: "(k, r) \<in> set t \<Longrightarrow> k < fresh_pk t"
  unfolding fresh_pk_def by (induction t) (auto simp: less_Suc_eq_le max.coboundedI2)

lemma key_less_fresh: "k \<in> fst ` set t \<Longrightarrow> k < fresh_pk t"
  by (auto dest: row_key_less_fresh)

lemma fresh_not_key: "fresh_pk t \<notin> fst ` set t"
  using key_less_fresh by blast

lemma row_fresh [simp]: "row t (fresh_pk t) = None"
  using fresh_not_key by (metis map_of_eq_None_iff row_def)

lemma row_None_iff: "row t k = None \<longleftrightarrow> k \<notin> fst ` set t"
  by (simp add: row_def map_of_eq_None_iff)

lemma row_append_fresh [table_simps]:
  "row (t @ [(fresh_pk t, r)]) j = (if j = fresh_pk t then Some r else row t j)"
proof (cases "j = fresh_pk t")
  case True
  then show ?thesis using row_fresh [of t] by (auto simp: row_def map_add_def)
next
  case False
  then show ?thesis by (auto simp: row_def map_add_def split: option.splits)
qed

lemma wf_append_fresh [simp]: "wf_table t \<Longrightarrow> wf_table (t @ [(fresh_pk t, r)])"
  using fresh_not_key [of t] by (auto simp: wf_table_def)

lemma row_Some_in: "row t k = Some r \<Longrightarrow> (k, r) \<in> set t"
  by (simp add: row_def map_of_SomeD)

lemma in_row_Some: "wf_table t \<Longrightarrow> (k, r) \<in> set t \<Longrightarrow> row t k = Some r"
  by (simp add: row_def wf_table_def)

lemma set_rows_where: "(k, r) \<in> set (rows_where P t) \<longleftrightarrow> (k, r) \<in> set t \<and> P k r"
  by (auto simp: rows_where_def)

lemma exists_where_iff: "exists_where P t \<longleftrightarrow> (\<exists>k r. (k, r) \<in> set t \<and> P k r)"
  by (auto simp: exists_where_def list_ex_iff)

lemma first_where_Some: "first_where P t = Some (k, r) \<Longrightarrow> (k, r) \<in> set t \<and> P k r"
  unfolding first_where_def by (induction t) (auto split: if_splits)

lemma first_where_None: "first_where P t = None \<longleftrightarrow> \<not> exists_where P t"
  by (auto simp: first_where_def find_None_iff exists_where_iff)

lemma first_where_Some_exists: "first_where P t = Some kr \<Longrightarrow> exists_where P t"
  by (metis first_where_None option.distinct(1))

lemma first_where_put:
  "first_where P t = Some (k, r) \<Longrightarrow> P k r' \<Longrightarrow> first_where P (put k r' t) = Some (k, r')"
  unfolding first_where_def put_def by (induction t) (auto split: if_splits)

lemma first_where_add:
  "first_where P t = None \<Longrightarrow> P k r \<Longrightarrow> first_where P (t @ [(k, r)]) = Some (k, r)"
  unfolding first_where_def by (induction t) (auto split: if_splits)

lemma first_where_add_put:
  "first_where P t = None \<Longrightarrow> P k r \<Longrightarrow> P k r' \<Longrightarrow>
   first_where P (put k r' (t @ [(k, r)])) = Some (k, r')"
  by (rule first_where_put [OF first_where_add])

lemma first_where_row: "wf_table t \<Longrightarrow> first_where P t = Some (k, r) \<Longrightarrow> row t k = Some r \<and> P k r"
  by (auto dest: first_where_Some in_row_Some)

lemma set_ordered_where: "(k, r) \<in> set (ordered_where key P t) \<longleftrightarrow> (k, r) \<in> set t \<and> P k r"
  by (simp add: ordered_where_def set_rows_where)

lemma sorted_ordered_where [simp]: "sorted (map key (ordered_where key P t))"
  by (simp add: ordered_where_def)

lemma first_of_Some: "first_of xs = Some x \<Longrightarrow> x \<in> set xs"
  by (cases xs) auto

lemma first_of_None [simp]: "first_of xs = None \<longleftrightarrow> xs = []"
  by (cases xs) auto

lemma first_of_sorted:
  "sorted (map f xs) \<Longrightarrow> first_of xs = Some x \<Longrightarrow> y \<in> set xs \<Longrightarrow> f x \<le> f y"
  by (cases xs) auto

lemma set_put: "wf_table t \<Longrightarrow> (j, q) \<in> set (put k r t) \<longleftrightarrow> (if j = k then q = r else (j, q) \<in> set t)"
  by (metis (full_types) in_row_Some option.inject row_Some_in row_put wf_put)

lemma put_existing:
  "wf_table t \<Longrightarrow> k \<in> fst ` set t \<Longrightarrow> put k r t = modify_where (\<lambda>j _. j = k) (\<lambda>_. r) t"
  unfolding put_def modify_where_def wf_table_def
proof (induction t)
  case Nil
  then show ?case by simp
next
  case (Cons x t)
  obtain j y where x: "x = (j, y)" by (cases x)
  show ?case
  proof (cases "j = k")
    case True
    with Cons.prems x have "k \<notin> fst ` set t" by simp
    then have "map (\<lambda>(j, z). (j, if j = k then r else z)) t = t" by (induction t) auto
    with True x show ?thesis by simp
  next
    case False
    with Cons x show ?thesis by auto
  qed
qed

subsection \<open>The row-access contract\<close>

text \<open>
  Most operations read one row of one table of the database and write it back
  (\<open>select_for_update().get(pk=...)\<close> followed by \<open>save()\<close>). The contract of that access is
  stated once; every table of the database is an interpretation of it.
\<close>

locale row_access =
  fixes get_row :: "'s \<Rightarrow> pk \<Rightarrow> 'r option"
    and put_row :: "pk \<Rightarrow> 'r \<Rightarrow> 's \<Rightarrow> 's"
  assumes get_put: "get_row (put_row k r s) j = (if j = k then Some r else get_row s j)"
begin

lemma get_put_same [simp]: "get_row (put_row k r s) k = Some r"
  by (simp add: get_put)

lemma get_put_other [simp]: "j \<noteq> k \<Longrightarrow> get_row (put_row k r s) j = get_row s j"
  by (simp add: get_put)

lemma get_put_put: "get_row (put_row k r' (put_row k r s)) j = get_row (put_row k r' s) j"
  by (simp add: get_put)

lemma put_domain: "get_row s k \<noteq> None \<Longrightarrow> get_row (put_row k r s) j = None \<longleftrightarrow> get_row s j = None"
  by (auto simp: get_put)

lemma get_fold_put:
  "get_row (fold (\<lambda>k. put_row k (g k)) ks s) j = (if j \<in> set ks then Some (g j) else get_row s j)"
  by (induction ks arbitrary: s) (auto simp: get_put)

end

interpretation tbl: row_access row put
  by unfold_locales (rule row_put)

section \<open>Results\<close>

text \<open>\<open>Inl e\<close> is a raised \<open>ValidationError\<close> (or another error value), \<open>Inr x\<close> a return.\<close>

fun is_ok :: "'e + 'a \<Rightarrow> bool" where
  "is_ok (Inl _) = False"
| "is_ok (Inr _) = True"

lemma is_ok_iff: "is_ok r \<longleftrightarrow> (\<exists>x. r = Inr x)"
  by (cases r) auto

section \<open>Scans over candidates\<close>

text \<open>
  Several queries return the first (or every) candidate that a validator accepts, skipping the
  ones it rejects. The contract of a validator is that it returns its argument.
\<close>

fun first_ok :: "('a \<Rightarrow> 'e + 'a) \<Rightarrow> 'a list \<Rightarrow> 'a option" where
  "first_ok v [] = None"
| "first_ok v (x # xs) = (case v x of Inr y \<Rightarrow> Some y | Inl _ \<Rightarrow> first_ok v xs)"

fun all_ok :: "('a \<Rightarrow> 'e + 'a) \<Rightarrow> 'a list \<Rightarrow> 'a list" where
  "all_ok v [] = []"
| "all_ok v (x # xs) = (case v x of Inr y \<Rightarrow> y # all_ok v xs | Inl _ \<Rightarrow> all_ok v xs)"

locale validator =
  fixes validate :: "'a \<Rightarrow> 'e + 'a"
  assumes returns_argument: "validate x = Inr y \<Longrightarrow> y = x"
begin

lemma first_ok_Some:
  "first_ok validate xs = Some y \<longleftrightarrow>
   (\<exists>us vs. xs = us @ y # vs \<and> is_ok (validate y) \<and> (\<forall>u \<in> set us. \<not> is_ok (validate u)))"
proof (induction xs)
  case Nil
  then show ?case by simp
next
  case (Cons x xs)
  show ?case
  proof (cases "validate x")
    case (Inl e)
    show ?thesis
      using Inl Cons.IH
      by (auto simp: Cons_eq_append_conv) (metis is_ok.simps(1) set_ConsD Inl)+
  next
    case (Inr z)
    then have "z = x" by (rule returns_argument)
    with Inr show ?thesis by (auto simp: Cons_eq_append_conv)
  qed
qed

lemma first_ok_valid: "first_ok validate xs = Some y \<Longrightarrow> y \<in> set xs \<and> validate y = Inr y"
  by (auto simp: first_ok_Some is_ok_iff dest: returns_argument)

lemma first_ok_None: "first_ok validate xs = None \<longleftrightarrow> (\<forall>x \<in> set xs. \<not> is_ok (validate x))"
  by (induction xs) (auto split: sum.splits)

lemma first_ok_least:
  assumes "sorted (map f xs)" and "first_ok validate xs = Some y"
    and "x \<in> set xs" and "is_ok (validate x)"
  shows "f y \<le> f x"
proof -
  from assms(2) obtain us vs where xs: "xs = us @ y # vs" and "\<forall>u \<in> set us. \<not> is_ok (validate u)"
    by (auto simp: first_ok_Some)
  with assms(3,4) have "x = y \<or> x \<in> set vs" by auto
  with assms(1) xs show ?thesis by (auto simp: sorted_append)
qed

lemma all_ok_filter: "all_ok validate xs = filter (\<lambda>x. is_ok (validate x)) xs"
  by (induction xs) (auto split: sum.splits dest: returns_argument)

end

section \<open>Order-preserving de-duplication\<close>

text \<open>\<open>list(dict.fromkeys(xs))\<close>, and the \<open>seen\<close>-set loops: the first occurrence by key stays.\<close>

fun dedup_on :: "('a \<Rightarrow> 'k) \<Rightarrow> 'k set \<Rightarrow> 'a list \<Rightarrow> 'a list" where
  "dedup_on f seen [] = []"
| "dedup_on f seen (x # xs) =
     (if f x \<in> seen then dedup_on f seen xs else x # dedup_on f (insert (f x) seen) xs)"

definition unique_list :: "'a list \<Rightarrow> 'a list" where
  "unique_list xs = dedup_on (\<lambda>x. x) {} xs"

lemma dedup_on_keys: "f ` set (dedup_on f seen xs) = f ` set xs - seen"
  by (induction xs arbitrary: seen) auto

lemma dedup_on_subset: "set (dedup_on f seen xs) \<subseteq> set xs"
  by (induction xs arbitrary: seen) (auto dest: subsetD)

lemma dedup_on_distinct: "distinct (map f (dedup_on f seen xs))"
proof (induction xs arbitrary: seen)
  case Nil
  then show ?case by simp
next
  case (Cons x xs)
  have "f x \<notin> f ` set (dedup_on f (insert (f x) seen) xs)"
    by (simp add: dedup_on_keys)
  then show ?case using Cons.IH by simp
qed

lemma set_unique_list [simp]: "set (unique_list xs) = set xs"
  using dedup_on_keys [of "\<lambda>x. x" "{}" xs] by (simp add: unique_list_def)

lemma distinct_unique_list [simp]: "distinct (unique_list xs)"
  using dedup_on_distinct [of "\<lambda>x. x" "{}" xs] by (simp add: unique_list_def)

lemma unique_list_Nil [simp]: "unique_list xs = [] \<longleftrightarrow> xs = []"
  by (metis set_empty set_unique_list)

section \<open>Simulation of an abstract machine\<close>

text \<open>A step relation with an invariant, seen through an abstraction: every step is invisible or a move
  of the abstract machine. Runs then follow the machine, and a state without moves is final.\<close>

locale simulation =
  fixes inv :: "'s \<Rightarrow> bool" and step :: "'s \<Rightarrow> 's \<Rightarrow> bool"
    and abs :: "'s \<Rightarrow> 'a" and move :: "'a \<Rightarrow> 'a \<Rightarrow> bool"
  assumes inv_step: "inv s \<Longrightarrow> step s t \<Longrightarrow> inv t"
    and abs_step: "inv s \<Longrightarrow> step s t \<Longrightarrow> abs t = abs s \<or> move (abs s) (abs t)"
begin

lemma inv_steps: "step\<^sup>*\<^sup>* s t \<Longrightarrow> inv s \<Longrightarrow> inv t"
  by (induction rule: rtranclp_induct) (auto intro: inv_step)

lemma abs_steps: "step\<^sup>*\<^sup>* s t \<Longrightarrow> inv s \<Longrightarrow> move\<^sup>*\<^sup>* (abs s) (abs t)"
proof (induction rule: rtranclp_induct)
  case (step t u)
  with abs_step [OF inv_steps [OF step(1)] step(2)] show ?case
    by (auto intro: rtranclp.rtrancl_into_rtrancl)
qed simp

lemma final_steps:
  assumes "step\<^sup>*\<^sup>* s t" and "inv s" and "\<And>a. \<not> move (abs s) a"
  shows "abs t = abs s"
  using abs_steps [OF assms(1,2)] assms(3) by (metis converse_rtranclpE)

end

end
