(* ===== verification/Py_Values.thy ===== *)
theory Py_Values
  imports Prelude
begin

text \<open>
  The Python values the program stores in JSON columns (\<open>Order.metadata\<close>, \<open>VPNClient.xui_raw\<close>,
  decision and context dictionaries), their truth value, dictionaries with insertion order, and
  the ASCII string methods the modelled code calls. Characters are bytes; the case and blank
  tables are those of ASCII, so text outside ASCII passes through unchanged.
\<close>

section \<open>JSON values and dictionaries\<close>

datatype json =
    JNull
  | JBool bool
  | JInt int
  | JStr string
  | JList "json list"
  | JObj "(string \<times> json) list"

type_synonym dict = "(string \<times> json) list"

text \<open>\<open>bool(x)\<close>.\<close>

fun truthy :: "json \<Rightarrow> bool" where
  "truthy JNull = False"
| "truthy (JBool b) = b"
| "truthy (JInt n) = (n \<noteq> 0)"
| "truthy (JStr s) = (s \<noteq> [])"
| "truthy (JList xs) = (xs \<noteq> [])"
| "truthy (JObj d) = (d \<noteq> [])"

text \<open>\<open>d.get(k)\<close>, \<open>d[k] = v\<close>, \<open>d.setdefault(k, v)\<close>, \<open>d.update(e)\<close> and \<open>x or {}\<close>.\<close>

definition dget :: "string \<Rightarrow> dict \<Rightarrow> json" where
  "dget k d = (case map_of d k of None \<Rightarrow> JNull | Some v \<Rightarrow> v)"

definition dhas :: "string \<Rightarrow> dict \<Rightarrow> bool" where
  "dhas k d \<longleftrightarrow> map_of d k \<noteq> None"

definition dset :: "string \<Rightarrow> json \<Rightarrow> dict \<Rightarrow> dict" where
  "dset k v d = AList.update k v d"

definition dsetdefault :: "string \<Rightarrow> json \<Rightarrow> dict \<Rightarrow> dict" where
  "dsetdefault k v d = (if dhas k d then d else dset k v d)"

definition dupdate :: "dict \<Rightarrow> dict \<Rightarrow> dict" where
  "dupdate d e = fold (\<lambda>(k, v). dset k v) e d"

fun as_dict :: "json \<Rightarrow> dict" where
  "as_dict (JObj d) = d"
| "as_dict _ = []"

fun as_list :: "json \<Rightarrow> json list" where
  "as_list (JList xs) = xs"
| "as_list _ = []"

fun jint_opt :: "int option \<Rightarrow> json" where
  "jint_opt None = JNull"
| "jint_opt (Some n) = JInt n"

fun jpk :: "pk option \<Rightarrow> json" where
  "jpk None = JNull"
| "jpk (Some n) = JInt (int n)"

lemma dget_dset: "dget k (dset j v d) = (if k = j then v else dget k d)"
  by (simp add: dget_def dset_def update_conv')

lemma dget_dset_same [simp]: "dget k (dset k v d) = v"
  by (simp add: dget_dset)

lemma dget_dset_other [simp]: "k \<noteq> j \<Longrightarrow> dget k (dset j v d) = dget k d"
  by (simp add: dget_dset)

lemma dhas_dset [simp]: "dhas k (dset j v d) \<longleftrightarrow> k = j \<or> dhas k d"
  by (auto simp: dhas_def dset_def update_conv')

lemma dget_not_has: "\<not> dhas k d \<Longrightarrow> dget k d = JNull"
  by (simp add: dhas_def dget_def)

lemma dget_Nil [simp]: "dget k [] = JNull"
  by (simp add: dget_def)

lemma dget_Cons [simp]: "dget k ((j, v) # d) = (if k = j then v else dget k d)"
  by (simp add: dget_def)

lemma dget_setdefault:
  "dget k (dsetdefault j v d) = (if k = j \<and> \<not> dhas k d then v else dget k d)"
  by (auto simp: dsetdefault_def dget_dset)

lemma dupdate_Nil [simp]: "dupdate d [] = d"
  by (simp add: dupdate_def)

lemma dupdate_Cons [simp]: "dupdate d ((k, v) # e) = dupdate (dset k v d) e"
  by (simp add: dupdate_def)

lemma dget_dupdate_other: "k \<notin> fst ` set e \<Longrightarrow> dget k (dupdate d e) = dget k d"
  by (induction e arbitrary: d) auto

text \<open>The dictionary access contract, as the database tables have theirs.\<close>

locale dict_access =
  fixes dict_get :: "'k \<Rightarrow> 'd \<Rightarrow> 'v"
    and dict_set :: "'k \<Rightarrow> 'v \<Rightarrow> 'd \<Rightarrow> 'd"
  assumes get_set: "dict_get k (dict_set j v d) = (if k = j then v else dict_get k d)"
begin

lemma get_fold_set_other:
  "k \<notin> fst ` set kvs \<Longrightarrow> dict_get k (fold (\<lambda>(j, v). dict_set j v) kvs d) = dict_get k d"
  by (induction kvs arbitrary: d) (auto simp: get_set)

lemma get_fold_set_in:
  "distinct (map fst kvs) \<Longrightarrow> (k, v) \<in> set kvs \<Longrightarrow>
   dict_get k (fold (\<lambda>(j, v). dict_set j v) kvs d) = v"
proof (induction kvs arbitrary: d)
  case Nil
  then show ?case by simp
next
  case (Cons jw kvs)
  obtain j w where jw: "jw = (j, w)" by (cases jw)
  show ?case
  proof (cases "k = j \<and> v = w")
    case True
    with Cons.prems jw have "k \<notin> fst ` set kvs" by auto
    then show ?thesis using True jw by (simp add: get_fold_set_other get_set)
  next
    case False
    with Cons.prems jw have "(k, v) \<in> set kvs" by auto
    with Cons show ?thesis by simp
  qed
qed

end

interpretation meta: dict_access dget dset
  by unfold_locales (rule dget_dset)

lemma dget_dupdate_in:
  "distinct (map fst e) \<Longrightarrow> (k, v) \<in> set e \<Longrightarrow> dget k (dupdate d e) = v"
  unfolding dupdate_def by (rule meta.get_fold_set_in)

section \<open>String methods\<close>

definition chr_code :: "char \<Rightarrow> nat" where
  "chr_code c = of_char c"

definition blank :: "char \<Rightarrow> bool" where
  "blank c \<longleftrightarrow> chr_code c = 32 \<or> (9 \<le> chr_code c \<and> chr_code c \<le> 13) \<or> (28 \<le> chr_code c \<and> chr_code c \<le> 31)"

definition is_upper :: "char \<Rightarrow> bool" where
  "is_upper c \<longleftrightarrow> 65 \<le> chr_code c \<and> chr_code c \<le> 90"

definition is_lower :: "char \<Rightarrow> bool" where
  "is_lower c \<longleftrightarrow> 97 \<le> chr_code c \<and> chr_code c \<le> 122"

definition is_digit :: "char \<Rightarrow> bool" where
  "is_digit c \<longleftrightarrow> 48 \<le> chr_code c \<and> chr_code c \<le> 57"

definition upper_char :: "char \<Rightarrow> char" where
  "upper_char c = (if is_lower c then char_of (chr_code c - 32) else c)"

definition lower_char :: "char \<Rightarrow> char" where
  "lower_char c = (if is_upper c then char_of (chr_code c + 32) else c)"

definition upper :: "string \<Rightarrow> string" where
  "upper s = map upper_char s"

definition lower :: "string \<Rightarrow> string" where
  "lower s = map lower_char s"

definition strip :: "string \<Rightarrow> string" where
  "strip s = rev (dropWhile blank (rev (dropWhile blank s)))"

text \<open>\<open>sub in s\<close>.\<close>

fun starts_with :: "'a list \<Rightarrow> 'a list \<Rightarrow> bool" where
  "starts_with [] _ = True"
| "starts_with (x # xs) [] = False"
| "starts_with (x # xs) (y # ys) = (x = y \<and> starts_with xs ys)"

fun contains :: "'a list \<Rightarrow> 'a list \<Rightarrow> bool" where
  "contains p [] = (p = [])"
| "contains p (y # ys) = (starts_with p (y # ys) \<or> contains p ys)"

lemma starts_with_iff: "starts_with p s \<longleftrightarrow> (\<exists>t. s = p @ t)"
  by (induction p s rule: starts_with.induct) auto

lemma contains_iff: "contains p s \<longleftrightarrow> (\<exists>u v. s = u @ p @ v)"
proof (induction s)
  case Nil
  then show ?case by auto
next
  case (Cons y ys)
  show ?case
    unfolding contains.simps starts_with_iff Cons.IH
    by (auto simp: Cons_eq_append_conv)
qed

lemma code_to_upper: "is_lower c \<Longrightarrow> chr_code (char_of (chr_code c - 32)) = chr_code c - 32"
  unfolding chr_code_def is_lower_def by (simp add: take_bit_eq_mod) (rule mod_less, linarith)

lemma upper_char_idem [simp]: "upper_char (upper_char c) = upper_char c"
proof (cases "is_lower c")
  case True
  then have "chr_code (char_of (chr_code c - 32)) = chr_code c - 32" by (rule code_to_upper)
  then have "\<not> is_lower (char_of (chr_code c - 32))"
    using True by (auto simp: is_lower_def)
  then show ?thesis using True by (simp add: upper_char_def)
qed (simp add: upper_char_def)

lemma upper_idem [simp]: "upper (upper s) = upper s"
  by (simp add: upper_def)

lemma dropWhile_rev_dropWhile:
  "dropWhile P (rev (dropWhile P (rev (dropWhile P xs)))) = rev (dropWhile P (rev (dropWhile P xs)))"
proof -
  have "dropWhile P (rev (dropWhile P (rev ys))) = rev (dropWhile P (rev ys))"
    if "ys = [] \<or> \<not> P (hd ys)" for ys
    using that
    by (cases ys) (auto simp: dropWhile_append3 dropWhile_eq_Cons_conv dropWhile_append)
  moreover have "dropWhile P xs = [] \<or> \<not> P (hd (dropWhile P xs))"
    by (meson hd_dropWhile)
  ultimately show ?thesis by blast
qed

lemma strip_idem [simp]: "strip (strip s) = strip s"
proof -
  have "dropWhile blank (rev (dropWhile blank (rev (dropWhile blank s)))) =
        rev (dropWhile blank (rev (dropWhile blank s)))"
    by (rule dropWhile_rev_dropWhile)
  then show ?thesis by (simp add: strip_def dropWhile_idem)
qed

lemma blank_upper [simp]: "blank (upper_char c) = blank c"
proof (cases "is_lower c")
  case True
  then have "chr_code (char_of (chr_code c - 32)) = chr_code c - 32" by (rule code_to_upper)
  then show ?thesis using True by (auto simp: upper_char_def blank_def is_lower_def)
qed (simp add: upper_char_def)

lemma strip_upper: "strip (upper s) = upper (strip s)"
proof -
  have "dropWhile blank (map upper_char xs) = map upper_char (dropWhile blank xs)" for xs
    by (simp add: dropWhile_map comp_def)
  then show ?thesis by (simp add: strip_def upper_def rev_map)
qed

end
