(* ===== verification/Store_Models.thy ===== *)
theory Store_Models
  imports Py_Values
begin

text \<open>
  The data model of \<open>store/models.py\<close>: the choices classes as datatypes, the model classes as
  records (foreign keys are primary keys, nullable columns are options), the objects the
  constructors build from the field defaults, and the database as a record of tables.
  Columns that only carry display text, transport settings of an inbound and bookkeeping of
  features outside the modelled components are left out.
\<close>

text \<open>Text that customers type (names, digits, receipts) is a list of Unicode code points.\<close>

type_synonym code_points = "nat list"

section \<open>Choices\<close>

datatype setup_status =
    SetupProvisioned | SetupRequired | TelegramConfigured | PaymentConfigured | XuiConfigured
  | PlansConfigured | SetupReady | SetupSuspended | SetupError

datatype sales_mode = Tunnel | OperatorBased

datatype currency = TOMAN | IRR | USD

datatype discount_type = Percentage | FixedAmount

text \<open>\<open>OrderLegacyPending\<close> is the raw string \<open>"pending"\<close> that \<open>Order.save\<close> rewrites.\<close>

datatype order_status =
    PendingPayment | PendingVerification | Confirmed | Completed | Rejected | Cancelled
  | OrderLegacyPending

datatype verification_status = VerPending | VerVerified | VerRejected

datatype provisioning_status =
    ProvNotRequired | ProvPending | ProvProvisioning | ProvProvisioned | ProvFailed

datatype payment_method = ManualCard | Gateway | AdminFree

datatype discount_source = SrcNone | SrcManual | SrcWholesale

text \<open>\<open>OrderAutomation.review_status\<close>; \<open>RevNone\<close> is the empty string.\<close>

datatype review_status = RevNone | RevPending | RevVerified | RevCancelling | RevCancelled | RevCancelFailed

text \<open>\<open>cancellation_notification_status\<close>; \<open>NoteNone\<close> is the empty string.\<close>

datatype note_status = NoteNone | NoteSent | NoteFailed | NoteNoTarget

datatype referral_status = RefRegistered | RefPurchased | RefCancelled

datatype reward_type = Discount20 | Free1GBPlan

datatype reward_status = RwAvailable | RwUsed | RwCancelled

datatype ledger_status = LgPending | LgAvailable | LgRedeemed | LgCancelled

text \<open>\<open>FamBlank\<close> is the empty string of rows that predate the field.\<close>

datatype panel_family = FamBlank | FamXui | FamMarzban | FamPasarguard | FamUnknown

text \<open>\<open>Panel.capability_profile\<close>; \<open>CapEmpty\<close> is the empty string.\<close>

datatype capability_profile =
    CapEmpty | LegacySingleNode | ModernSingleNode | ModernMultiNode | PasarguardGroups | UnknownSafe

datatype xui_source = SrcLocal | SynchronizedNode | PasarguardGroup

datatype security = SecNone | SecTls | SecReality

datatype inbound_verification = Unverified | VerifiedSellable | VerificationFailed

datatype client_status =
    ClCreated | ClInactive | ClActive | ClSuspended | ClExpired | ClDeleted | ClError

datatype cup_status = CupActive | CupDisabled | CupExpired

datatype link_source = PanelGenerated | ManualLink | ImportedSubscription | ExternalSubscription | UnknownOrigin

datatype feed_status = FeedHealthy | FeedDegraded | FeedError | FeedDisabled

section \<open>Model classes\<close>

record store =
  st_name :: string
  st_english_name :: string
  st_domain :: string
  st_is_active :: bool
  st_setup_status :: setup_status
  st_sales_mode :: sales_mode
  st_plan_inbound_routing_enabled :: bool
  st_allow_global_inbound_fallback :: bool
  st_card_number :: string
  st_card_owner :: string
  st_bank_name :: string
  st_receipt_image_only_payment :: bool
  st_order_review_reminders_enabled :: bool
  st_order_auto_approve_enabled :: bool
  st_order_auto_approve_enabled_at :: "instant option"
  st_order_automation_last_run_at :: "instant option"
  st_custom_volume_price_per_gb :: rat
  st_referral_system_enabled :: bool
  st_referral_reward_gb :: rat
  st_referral_reward_duration_days :: nat
  st_referral_min_order_required :: bool
  st_broadcast_enabled :: bool
  st_broadcast_rate_limit_per_second :: nat
  st_broadcast_max_recipients_per_campaign :: nat
  st_revenue_engine_enabled :: bool
  st_revenue_engine_dry_run :: bool
  st_revenue_engine_quiet_hours_enabled :: bool
  st_revenue_engine_quiet_hours_start :: "int option"
  st_revenue_engine_quiet_hours_end :: "int option"
  st_renewal_engine_enabled :: bool
  st_upsell_engine_enabled :: bool
  st_retention_engine_enabled :: bool
  st_ai_revenue_optimizer_enabled :: bool
  st_revenue_max_offers_per_user_per_day :: nat
  st_revenue_max_offers_per_user_per_week :: nat
  st_revenue_max_total_offers_per_day :: nat
  st_revenue_min_ai_confidence :: rat
  st_revenue_offer_cooldown_hours :: nat
  st_retention_offer_cooldown_hours :: nat

definition new_store :: store where
  "new_store = \<lparr>st_name = ''VPN Store'', st_english_name = ''VPN Store'', st_domain = [],
     st_is_active = True, st_setup_status = SetupReady, st_sales_mode = Tunnel,
     st_plan_inbound_routing_enabled = True, st_allow_global_inbound_fallback = True,
     st_card_number = [], st_card_owner = [], st_bank_name = [],
     st_receipt_image_only_payment = False, st_order_review_reminders_enabled = True,
     st_order_auto_approve_enabled = False, st_order_auto_approve_enabled_at = None,
     st_order_automation_last_run_at = None, st_custom_volume_price_per_gb = 0,
     st_referral_system_enabled = True, st_referral_reward_gb = 2,
     st_referral_reward_duration_days = 30, st_referral_min_order_required = True,
     st_broadcast_enabled = True, st_broadcast_rate_limit_per_second = 5,
     st_broadcast_max_recipients_per_campaign = 1000,
     st_revenue_engine_enabled = True, st_revenue_engine_dry_run = True,
     st_revenue_engine_quiet_hours_enabled = False, st_revenue_engine_quiet_hours_start = None,
     st_revenue_engine_quiet_hours_end = None, st_renewal_engine_enabled = True,
     st_upsell_engine_enabled = True, st_retention_engine_enabled = True,
     st_ai_revenue_optimizer_enabled = True, st_revenue_max_offers_per_user_per_day = 1,
     st_revenue_max_offers_per_user_per_week = 3, st_revenue_max_total_offers_per_day = 500,
     st_revenue_min_ai_confidence = 1 / 2, st_revenue_offer_cooldown_hours = 24,
     st_retention_offer_cooldown_hours = 72\<rparr>"

record operator =
  op_store :: "pk option"
  op_name :: string
  op_is_active :: bool
  op_sort_order :: nat

record plan =
  pl_store :: "pk option"
  pl_operators :: "pk list"
  pl_name :: string
  pl_slug :: string
  pl_volume_gb :: rat
  pl_duration_days :: nat
  pl_price :: int
  pl_currency :: currency
  pl_device_limit :: nat
  pl_is_active :: bool
  pl_sort_order :: nat
  pl_is_public :: bool
  pl_is_custom_volume :: bool
  pl_multi_inbound_bundle :: bool

record discount =
  dc_code :: string
  dc_type :: discount_type
  dc_value :: int
  dc_max_usage :: "int option"
  dc_used_count :: int
  dc_valid_from :: "instant option"
  dc_valid_until :: "instant option"
  dc_is_active :: bool
  dc_applicable_plans :: "pk list"

record customer =
  cu_public_id :: string
  cu_username :: string
  cu_phone_number :: string
  cu_display_name :: string
  cu_is_wholesale :: bool
  cu_default_discount_percent :: "int option"
  cu_referral_code :: string
  cu_referred_by :: "pk option"
  cu_referral_code_used :: string
  cu_referred_at :: "instant option"
  cu_is_active :: bool

record referral =
  rf_referrer :: pk
  rf_referred_customer :: pk
  rf_referral_code :: string
  rf_status :: referral_status
  rf_first_order :: "pk option"
  rf_purchased_at :: "instant option"

record reward =
  rw_customer :: pk
  rw_referral :: "pk option"
  rw_type :: reward_type
  rw_status :: reward_status
  rw_discount_code :: "pk option"
  rw_plan :: "pk option"
  rw_milestone :: "nat option"
  rw_earned_at :: instant
  rw_used_at :: "instant option"

record ledger =
  lg_inviter :: pk
  lg_invited :: pk
  lg_order :: pk
  lg_reward_gb :: rat
  lg_reward_duration_days :: nat
  lg_status :: ledger_status
  lg_redeemed_config :: "pk option"
  lg_available_at :: "instant option"
  lg_redeemed_at :: "instant option"
  lg_applied_traffic_gb :: rat
  lg_applied_duration_days :: nat

text \<open>Of a bot configuration, what the readiness checks read; the bot is a Telegram or a Bale bot.\<close>

datatype bot_provider = Bale | Telegram

record bot_config =
  bt_store :: "pk option"
  bt_provider :: bot_provider
  bt_is_active :: bool
  bt_bot_token :: string
  bt_admin_user_id :: string

record panel =
  pn_store :: "pk option"
  pn_name :: string
  pn_family :: panel_family
  pn_url :: string
  pn_username :: string
  pn_password :: string
  pn_is_active :: bool
  pn_capability_profile :: capability_profile

record inbound =
  ib_panel :: "pk option"
  ib_inbound_id :: nat
  ib_is_active :: bool
  ib_available_for_new_orders :: bool
  ib_legacy_note :: string
  ib_current_users :: int
  ib_max_clients :: "int option"
  ib_xui_node_id :: string
  ib_xui_node_name :: string
  ib_xui_remote_key :: string
  ib_xui_source :: xui_source
  ib_verification_status :: inbound_verification
  ib_verified_at :: "instant option"
  ib_verification_method :: string
  ib_last_verified_config_count :: int
  ib_last_verification_error_code :: string
  ib_verification_attempted_at :: "instant option"
  ib_health_monitor_enabled :: bool
  ib_security :: security
  ib_pbk :: string
  ib_metadata :: dict

record route =
  rt_store :: "pk option"
  rt_plan :: pk
  rt_operator :: "pk option"
  rt_inbound :: pk
  rt_is_active :: bool
  rt_priority :: nat
  rt_weight :: nat
  rt_note :: string

record order =
  o_public_id :: string
  o_created_at :: instant
  o_store :: "pk option"
  o_customer :: "pk option"
  o_plan :: "pk option"
  o_operator :: "pk option"
  o_quantity :: int
  o_tracking_code :: string
  o_status :: order_status
  o_original_amount :: int
  o_discount_code :: "pk option"
  o_discount_code_text :: string
  o_discount_amount :: int
  o_discount_source :: discount_source
  o_amount :: int
  o_revenue_included :: "bool option"
  o_revenue_amount :: "int option"
  o_currency :: "currency option"
  o_payment_method :: payment_method
  o_is_paid :: bool
  o_payment_submitted_at :: "instant option"
  o_sender_card_name :: code_points
  o_sender_card_last4 :: code_points
  o_payment_date :: "int option"
  o_payment_time :: "int option"
  o_payment_receipt_image :: string
  o_verification_status :: verification_status
  o_verified_by :: "pk option"
  o_verified_at :: "instant option"
  o_rejection_reason :: string
  o_provisioning_status :: provisioning_status
  o_provisioning_attempts :: nat
  o_last_provisioning_error :: string
  o_provisioned_at :: "instant option"
  o_bank_tracking_code :: code_points
  o_card_last_four :: code_points
  o_inbound :: "pk option"
  o_username :: string
  o_uuid :: string
  o_sub_link :: string
  o_direct_link :: string
  o_metadata :: dict

definition new_order :: order where
  "new_order = \<lparr>o_public_id = [], o_created_at = 0, o_store = None, o_customer = None,
     o_plan = None, o_operator = None, o_quantity = 1, o_tracking_code = [],
     o_status = PendingPayment, o_original_amount = 0, o_discount_code = None,
     o_discount_code_text = [], o_discount_amount = 0, o_discount_source = SrcNone,
     o_amount = 0, o_revenue_included = None, o_revenue_amount = None,
     o_currency = Some TOMAN, o_payment_method = ManualCard, o_is_paid = False,
     o_payment_submitted_at = None, o_sender_card_name = [], o_sender_card_last4 = [],
     o_payment_date = None, o_payment_time = None, o_payment_receipt_image = [],
     o_verification_status = VerPending, o_verified_by = None, o_verified_at = None,
     o_rejection_reason = [], o_provisioning_status = ProvNotRequired,
     o_provisioning_attempts = 0, o_last_provisioning_error = [], o_provisioned_at = None,
     o_bank_tracking_code = [], o_card_last_four = [], o_inbound = None,
     o_username = ''admin'', o_uuid = [], o_sub_link = [], o_direct_link = [],
     o_metadata = []\<rparr>"

record audit =
  au_reminder_stage :: nat
  au_last_reminded_at :: "instant option"
  au_auto_approved_at :: "instant option"
  au_review_status :: review_status
  au_reviewed_at :: "instant option"
  au_reviewed_by :: "pk option"
  au_review_note :: string
  au_last_error :: string
  au_revoked_client_ids :: "pk list"
  au_notified_at :: "instant option"
  au_notification_attempted_at :: "instant option"
  au_notification_status :: note_status

definition new_audit :: audit where
  "new_audit = \<lparr>au_reminder_stage = 0, au_last_reminded_at = None, au_auto_approved_at = None,
     au_review_status = RevNone, au_reviewed_at = None, au_reviewed_by = None,
     au_review_note = [], au_last_error = [], au_revoked_client_ids = [], au_notified_at = None,
     au_notification_attempted_at = None, au_notification_status = NoteNone\<rparr>"

record vpn_client =
  vc_public_id :: string
  vc_store :: "pk option"
  vc_order :: "pk option"
  vc_plan :: "pk option"
  vc_inbound :: "pk option"
  vc_created_at :: instant
  vc_username :: string
  vc_xui_email :: string
  vc_uuid :: string
  vc_sub_id :: string
  vc_sub_link :: string
  vc_direct_link :: string
  vc_status :: client_status
  vc_traffic_limit_bytes :: int
  vc_used_upload_bytes :: int
  vc_used_download_bytes :: int
  vc_used_traffic_bytes :: int
  vc_duration_days :: int
  vc_device_limit :: nat
  vc_activated_at :: "instant option"
  vc_expires_at :: "instant option"
  vc_disabled_at :: "instant option"
  vc_deleted_at :: "instant option"
  vc_deleted_by_customer :: "pk option"
  vc_deleted_by_admin :: string
  vc_delete_reason :: string
  vc_remote_deleted_at :: "instant option"
  vc_last_online_at :: "instant option"
  vc_last_synced_at :: "instant option"
  vc_xui_node_id :: string
  vc_remote_client_key :: string
  vc_xui_raw :: dict

definition new_client :: vpn_client where
  "new_client = \<lparr>vc_public_id = [], vc_store = None, vc_order = None, vc_plan = None, vc_inbound = None,
     vc_created_at = 0, vc_username = [], vc_xui_email = [], vc_uuid = [], vc_sub_id = [],
     vc_sub_link = [], vc_direct_link = [], vc_status = ClCreated, vc_traffic_limit_bytes = 0,
     vc_used_upload_bytes = 0, vc_used_download_bytes = 0, vc_used_traffic_bytes = 0,
     vc_duration_days = 0, vc_device_limit = 2, vc_activated_at = None, vc_expires_at = None,
     vc_disabled_at = None, vc_deleted_at = None, vc_deleted_by_customer = None,
     vc_deleted_by_admin = [], vc_delete_reason = [], vc_remote_deleted_at = None,
     vc_last_online_at = None, vc_last_synced_at = None, vc_xui_node_id = [],
     vc_remote_client_key = [], vc_xui_raw = []\<rparr>"

record config_link =
  cl_raw_link :: string
  cl_normalized_hash :: string
  cl_protocol :: string
  cl_remark :: string
  cl_host :: string
  cl_port :: "int option"
  cl_source_type :: link_source
  cl_source_panel :: "pk option"
  cl_source_inbound :: "pk option"
  cl_vpn_client :: "pk option"
  cl_external_feed :: "pk option"
  cl_is_active :: bool
  cl_metadata :: dict

record cup =
  cp_customer :: "pk option"
  cp_order :: "pk option"
  cp_plan :: "pk option"
  cp_vpn_client :: "pk option"
  cp_created_at :: instant
  cp_token :: string
  cp_status :: cup_status
  cp_expires_at :: "instant option"
  cp_traffic_limit_bytes :: int
  cp_device_limit :: "nat option"
  cp_title :: string
  cp_metadata :: dict

record cup_item =
  ci_cup :: pk
  ci_config_link :: pk
  ci_position :: nat
  ci_is_active :: bool
  ci_added_reason :: string
  ci_metadata :: dict

record feed =
  fd_provider :: string
  fd_active :: bool
  fd_cup :: pk
  fd_delivery_source :: "pk option"
  fd_panel :: "pk option"
  fd_vpn_client :: "pk option"
  fd_remote_identity_ref :: string
  fd_protected_subscription_url :: string
  fd_resolved_filter_policy :: dict
  fd_refresh_interval_hours :: int
  fd_next_refresh_at :: "instant option"
  fd_last_attempt_at :: "instant option"
  fd_refresh_token :: string
  fd_refresh_lease_until :: "instant option"
  fd_last_success_at :: "instant option"
  fd_consecutive_failures :: nat
  fd_status :: feed_status
  fd_last_good_config_count :: nat
  fd_last_seen_upstream_count :: nat
  fd_last_filtered_count :: nat
  fd_last_error_code :: string
  fd_metadata :: dict

section \<open>The database\<close>

text \<open>
  One table per model class. \<open>OrderAutomation\<close> is one-to-one with its order, so its table is
  keyed by the order's primary key. \<open>db_draws\<close> counts the random codes drawn so far, and
  \<open>db_outbox\<close> records the notifications handed to the bots, latest first.
\<close>

datatype notice =
    NewOrder pk
  | OrderEvent pk string
  | DuplicateAttempt pk
  | PaymentMatch pk
  | NeedsReview pk
  | ReviewReminder pk "pk list"

record db =
  db_stores :: "store table"
  db_operators :: "operator table"
  db_bots :: "bot_config table"
  db_plans :: "plan table"
  db_discounts :: "discount table"
  db_customers :: "customer table"
  db_referrals :: "referral table"
  db_rewards :: "reward table"
  db_ledgers :: "ledger table"
  db_panels :: "panel table"
  db_inbounds :: "inbound table"
  db_routes :: "route table"
  db_orders :: "order table"
  db_audits :: "audit table"
  db_clients :: "vpn_client table"
  db_config_links :: "config_link table"
  db_cups :: "cup table"
  db_cup_items :: "cup_item table"
  db_feeds :: "feed table"
  db_draws :: nat
  db_outbox :: "notice list"

definition empty_db :: db where
  "empty_db = \<lparr>db_stores = [], db_operators = [], db_bots = [], db_plans = [], db_discounts = [],
     db_customers = [], db_referrals = [], db_rewards = [], db_ledgers = [], db_panels = [],
     db_inbounds = [], db_routes = [], db_orders = [], db_audits = [], db_clients = [],
     db_config_links = [], db_cups = [], db_cup_items = [], db_feeds = [], db_draws = 0, db_outbox = []\<rparr>"

text \<open>
  What an operation reads from outside the database: the clock, the Tehran calendar date, and
  the streams of random codes and identifiers (\<open>generate_short_code\<close>, \<open>uuid4\<close>) and of the
  display names that \<open>store/naming.py\<close> derives with Unicode tables.
\<close>

record env =
  e_now :: instant
  e_today :: int
  e_code :: "nat \<Rightarrow> string"
  e_uuid :: "nat \<Rightarrow> string"
  e_name :: "nat \<Rightarrow> string"

section \<open>Row access on the database\<close>

definition get_order :: "db \<Rightarrow> pk \<Rightarrow> order option" where
  "get_order d k = row (db_orders d) k"

definition put_order :: "pk \<Rightarrow> order \<Rightarrow> db \<Rightarrow> db" where
  "put_order k r d = d\<lparr>db_orders := put k r (db_orders d)\<rparr>"

definition get_audit :: "db \<Rightarrow> pk \<Rightarrow> audit option" where
  "get_audit d k = row (db_audits d) k"

definition put_audit :: "pk \<Rightarrow> audit \<Rightarrow> db \<Rightarrow> db" where
  "put_audit k r d = d\<lparr>db_audits := put k r (db_audits d)\<rparr>"

definition get_client :: "db \<Rightarrow> pk \<Rightarrow> vpn_client option" where
  "get_client d k = row (db_clients d) k"

definition put_client :: "pk \<Rightarrow> vpn_client \<Rightarrow> db \<Rightarrow> db" where
  "put_client k r d = d\<lparr>db_clients := put k r (db_clients d)\<rparr>"

definition get_discount :: "db \<Rightarrow> pk \<Rightarrow> discount option" where
  "get_discount d k = row (db_discounts d) k"

definition put_discount :: "pk \<Rightarrow> discount \<Rightarrow> db \<Rightarrow> db" where
  "put_discount k r d = d\<lparr>db_discounts := put k r (db_discounts d)\<rparr>"

definition get_inbound :: "db \<Rightarrow> pk \<Rightarrow> inbound option" where
  "get_inbound d k = row (db_inbounds d) k"

definition put_inbound :: "pk \<Rightarrow> inbound \<Rightarrow> db \<Rightarrow> db" where
  "put_inbound k r d = d\<lparr>db_inbounds := put k r (db_inbounds d)\<rparr>"

lemmas access_defs =
  get_order_def put_order_def get_audit_def put_audit_def get_client_def put_client_def
  get_discount_def put_discount_def get_inbound_def put_inbound_def

interpretation orders: row_access get_order put_order
  by unfold_locales (simp add: access_defs row_put)

interpretation audits: row_access get_audit put_audit
  by unfold_locales (simp add: access_defs row_put)

interpretation clients: row_access get_client put_client
  by unfold_locales (simp add: access_defs row_put)

interpretation discounts: row_access get_discount put_discount
  by unfold_locales (simp add: access_defs row_put)

interpretation inbounds: row_access get_inbound put_inbound
  by unfold_locales (simp add: access_defs row_put)

text \<open>Writing one table leaves the others alone.\<close>

lemma frame_order [simp]:
  "get_audit (put_order k r d) = get_audit d" "get_client (put_order k r d) = get_client d"
  "get_discount (put_order k r d) = get_discount d" "get_inbound (put_order k r d) = get_inbound d"
  by (simp_all add: access_defs fun_eq_iff)

lemma frame_audit [simp]:
  "get_order (put_audit k r d) = get_order d" "get_client (put_audit k r d) = get_client d"
  "get_discount (put_audit k r d) = get_discount d" "get_inbound (put_audit k r d) = get_inbound d"
  by (simp_all add: access_defs fun_eq_iff)

lemma frame_client [simp]:
  "get_order (put_client k r d) = get_order d" "get_audit (put_client k r d) = get_audit d"
  "get_discount (put_client k r d) = get_discount d" "get_inbound (put_client k r d) = get_inbound d"
  by (simp_all add: access_defs fun_eq_iff)

lemma frame_discount [simp]:
  "get_order (put_discount k r d) = get_order d" "get_audit (put_discount k r d) = get_audit d"
  "get_client (put_discount k r d) = get_client d" "get_inbound (put_discount k r d) = get_inbound d"
  by (simp_all add: access_defs fun_eq_iff)

end
