(* ===== verification/Discounts.thy ===== *)
theory Discounts
  imports Store_Models
begin

text \<open>
  Discount codes: the methods of \<open>DiscountCode\<close> and \<open>Customer.wholesale_discount_percent\<close> in
  \<open>store/models.py\<close>, and the quantity, preview, reservation and release functions of
  \<open>store/order_services.py\<close>. A raised \<open>ValidationError\<close> is an \<open>Inl\<close> value.
\<close>

section \<open>Quantities\<close>

text \<open>What \<open>Decimal(str(quantity).strip())\<close> makes of the submitted quantity.\<close>

datatype decimal_input = Absent | NotNumeric | NotFinite | Number rat

datatype discount_error =
    QuantityNotWhole | QuantityOutOfRange
  | PercentageOver100 | CodeNotActive | CodeNotValidNow | UsageLimitReached
  | CodeNotForPlan | CodeInvalid | RewardNotForAccount

definition max_order_quantity :: int where
  "max_order_quantity = 50"

fun validate_order_quantity :: "decimal_input \<Rightarrow> discount_error + int" where
  "validate_order_quantity Absent = Inr 1"
| "validate_order_quantity NotNumeric = Inl QuantityNotWhole"
| "validate_order_quantity NotFinite = Inl QuantityNotWhole"
| "validate_order_quantity (Number q) =
     (if q \<noteq> of_int \<lfloor>q\<rfloor> then Inl QuantityNotWhole
      else let n = \<lfloor>q\<rfloor> in
        if n \<le> 0 \<or> n > max_order_quantity then Inl QuantityOutOfRange else Inr n)"

lemma quantity_bounds: "validate_order_quantity q = Inr n \<Longrightarrow> 1 \<le> n \<and> n \<le> 50"
  by (cases q) (auto simp: max_order_quantity_def Let_def split: if_splits)

section \<open>The methods of a discount code\<close>

definition normalize_code :: "string \<Rightarrow> string" where
  "normalize_code c = upper (strip c)"

definition is_within_valid_window :: "instant \<Rightarrow> discount \<Rightarrow> bool" where
  "is_within_valid_window now c \<longleftrightarrow>
     (case dc_valid_from c of Some f \<Rightarrow> \<not> now < f | None \<Rightarrow> True) \<and>
     (case dc_valid_until c of Some u \<Rightarrow> \<not> now > u | None \<Rightarrow> True)"

definition has_usage_available :: "discount \<Rightarrow> bool" where
  "has_usage_available c \<longleftrightarrow>
     (case dc_max_usage c of None \<Rightarrow> True | Some m \<Rightarrow> dc_used_count c < m)"

definition is_applicable_to_plan :: "discount \<Rightarrow> pk \<Rightarrow> bool" where
  "is_applicable_to_plan c plan_pk \<longleftrightarrow>
     dc_applicable_plans c = [] \<or> plan_pk \<in> set (dc_applicable_plans c)"

definition validate_basic :: "instant \<Rightarrow> discount \<Rightarrow> discount_error + unit" where
  "validate_basic now c =
     (if dc_type c = Percentage \<and> dc_value c > 100 then Inl PercentageOver100
      else if \<not> dc_is_active c then Inl CodeNotActive
      else if \<not> is_within_valid_window now c then Inl CodeNotValidNow
      else if \<not> has_usage_available c then Inl UsageLimitReached
      else Inr ())"

definition validate_for_plan :: "instant \<Rightarrow> pk \<Rightarrow> discount \<Rightarrow> discount_error + unit" where
  "validate_for_plan now plan_pk c =
     (case validate_basic now c of
        Inl e \<Rightarrow> Inl e
      | Inr _ \<Rightarrow> if is_applicable_to_plan c plan_pk then Inr () else Inl CodeNotForPlan)"

definition calculate_discount :: "discount \<Rightarrow> int \<Rightarrow> int" where
  "calculate_discount c amount =
     (if amount \<le> 0 then 0
      else if dc_type c = Percentage then min (amount * dc_value c div 100) amount
      else min (dc_value c) amount)"

definition clean_discount :: "discount \<Rightarrow> discount_error list" where
  "clean_discount c =
     (if dc_type c = Percentage \<and> dc_value c > 100 then [PercentageOver100]
      else case (dc_valid_from c, dc_valid_until c) of
        (Some f, Some u) \<Rightarrow> if u \<le> f then [CodeNotValidNow] else []
      | _ \<Rightarrow> [])"

lemma calculate_discount_bounds:
  assumes "0 \<le> dc_value c"
  shows "0 \<le> calculate_discount c amount" and "calculate_discount c amount \<le> max amount 0"
  using assms by (auto simp: calculate_discount_def pos_imp_zdiv_nonneg_iff)

lemma validate_for_plan_ok:
  "validate_for_plan now p c = Inr () \<longleftrightarrow>
   \<not> (dc_type c = Percentage \<and> dc_value c > 100) \<and> dc_is_active c \<and>
   is_within_valid_window now c \<and> has_usage_available c \<and> is_applicable_to_plan c p"
  by (auto simp: validate_for_plan_def validate_basic_def split: if_splits)

section \<open>Wholesale customers\<close>

definition wholesale_discount_percent :: "customer \<Rightarrow> int" where
  "wholesale_discount_percent cu =
     (case cu_default_discount_percent cu of
        None \<Rightarrow> 0
      | Some p \<Rightarrow> if \<not> cu_is_wholesale cu \<or> p = 0 then 0 else clamp 0 100 p)"

definition get_customer_wholesale_discount_percent :: "customer option \<Rightarrow> int" where
  "get_customer_wholesale_discount_percent cu =
     (case cu of None \<Rightarrow> 0 | Some c \<Rightarrow> wholesale_discount_percent c)"

definition calculate_percentage_discount :: "int \<Rightarrow> int \<Rightarrow> int" where
  "calculate_percentage_discount amount percent =
     (if amount \<le> 0 \<or> percent = 0 then 0
      else min (amount * clamp 0 100 percent div 100) amount)"

lemma percentage_of_amount:
  assumes "0 \<le> (a::int)" and "0 \<le> p" and "p \<le> 100"
  shows "0 \<le> a * p div 100" and "a * p div 100 \<le> a"
proof -
  show "0 \<le> a * p div 100" using assms by (simp add: pos_imp_zdiv_nonneg_iff)
  have "a * p \<le> a * 100" using assms by (intro mult_left_mono) auto
  then have "a * p div 100 \<le> a * 100 div 100" by (rule zdiv_mono1) simp
  then show "a * p div 100 \<le> a" by simp
qed

lemma calculate_percentage_discount_bounds:
  "0 \<le> calculate_percentage_discount amount p" "calculate_percentage_discount amount p \<le> max amount 0"
  using percentage_of_amount [of amount "clamp 0 100 p"] clamp_bounds [of 0 100 p]
  by (auto simp: calculate_percentage_discount_def)

section \<open>Reward codes\<close>

text \<open>A code created as a referral reward may only be used by the customer who owns it.\<close>

definition validate_reward_discount_owner ::
  "pk \<Rightarrow> pk option \<Rightarrow> db \<Rightarrow> discount_error + unit" where
  "validate_reward_discount_owner code_pk cust d =
     (if \<not> exists_where (\<lambda>_ w. rw_discount_code w = Some code_pk) (db_rewards d) then Inr ()
      else case cust of
        None \<Rightarrow> Inl RewardNotForAccount
      | Some cu \<Rightarrow>
          if exists_where (\<lambda>_ w. rw_discount_code w = Some code_pk \<and> rw_customer w = cu \<and>
                             rw_status w = RwAvailable) (db_rewards d)
          then Inr () else Inl RewardNotForAccount)"

definition mark_customer_reward_used :: "env \<Rightarrow> pk option \<Rightarrow> pk option \<Rightarrow> db \<Rightarrow> db" where
  "mark_customer_reward_used en cust code d =
     (case (cust, code) of
        (Some cu, Some c) \<Rightarrow>
          d\<lparr>db_rewards := modify_where
              (\<lambda>_ w. rw_customer w = cu \<and> rw_discount_code w = Some c \<and> rw_status w = RwAvailable)
              (\<lambda>w. w\<lparr>rw_status := RwUsed, rw_used_at := Some (e_now en)\<rparr>) (db_rewards d)\<rparr>
      | _ \<Rightarrow> d)"

section \<open>Preview, reservation and release\<close>

definition find_discount :: "string \<Rightarrow> db \<Rightarrow> (pk \<times> discount) option" where
  "find_discount code d = first_where (\<lambda>_ c. dc_code c = code) (db_discounts d)"

text \<open>The checks a code passes before it is used: \<open>preview_discount\<close> and
  \<open>reserve_discount_usage\<close> make them in the same order.\<close>

definition check_discount ::
  "env \<Rightarrow> pk \<Rightarrow> string \<Rightarrow> pk option \<Rightarrow> db \<Rightarrow> discount_error + (pk \<times> discount)" where
  "check_discount en plan_pk code cust d =
     (case find_discount code d of
        None \<Rightarrow> Inl CodeInvalid
      | Some (k, c) \<Rightarrow>
          (case validate_reward_discount_owner k cust d of
             Inl e \<Rightarrow> Inl e
           | Inr _ \<Rightarrow>
               (case validate_for_plan (e_now en) plan_pk c of Inl e \<Rightarrow> Inl e | Inr _ \<Rightarrow> Inr (k, c))))"

definition preview_discount ::
  "env \<Rightarrow> pk \<times> plan \<Rightarrow> string \<Rightarrow> pk option \<Rightarrow> decimal_input \<Rightarrow> db \<Rightarrow>
   discount_error + (pk option \<times> int \<times> int)" where
  "preview_discount en pl code cust quantity d =
     (case validate_order_quantity quantity of
        Inl e \<Rightarrow> Inl e
      | Inr n \<Rightarrow>
          let subtotal = pl_price (snd pl) * n; normalized = normalize_code code in
          if normalized = [] then Inr (None, 0, subtotal)
          else case check_discount en (fst pl) normalized cust d of
            Inl e \<Rightarrow> Inl e
          | Inr (k, c) \<Rightarrow>
              let amount = calculate_discount c subtotal in
              Inr (Some k, amount, max (subtotal - amount) 0))"

definition reserve_discount_usage ::
  "env \<Rightarrow> pk \<times> plan \<Rightarrow> string \<Rightarrow> pk option \<Rightarrow> decimal_input \<Rightarrow> db \<Rightarrow>
   (discount_error + (pk option \<times> int)) \<times> db" where
  "reserve_discount_usage en pl code cust quantity d =
     (case validate_order_quantity quantity of
        Inl e \<Rightarrow> (Inl e, d)
      | Inr n \<Rightarrow>
          let subtotal = pl_price (snd pl) * n; normalized = normalize_code code in
          if normalized = [] then (Inr (None, 0), d)
          else case check_discount en (fst pl) normalized cust d of
            Inl e \<Rightarrow> (Inl e, d)
          | Inr (k, c) \<Rightarrow>
              (Inr (Some k, calculate_discount c subtotal),
               put_discount k (c\<lparr>dc_used_count := dc_used_count c + 1\<rparr>) d))"

definition release_discount_usage :: "pk option \<Rightarrow> db \<Rightarrow> db" where
  "release_discount_usage code d =
     (case code of
        None \<Rightarrow> d
      | Some k \<Rightarrow> d\<lparr>db_discounts := modify_where (\<lambda>j c. j = k \<and> dc_used_count c > 0)
                        (\<lambda>c. c\<lparr>dc_used_count := dc_used_count c - 1\<rparr>) (db_discounts d)\<rparr>)"

subsection \<open>Helper facts\<close>

lemma check_discount_found:
  assumes "wf_table (db_discounts d)" and "check_discount en p code cust d = Inr (k, c)"
  shows "get_discount d k = Some c" and "dc_code c = code"
    and "validate_for_plan (e_now en) p c = Inr ()"
    and "validate_reward_discount_owner k cust d = Inr ()"
proof -
  from assms(2) have f: "find_discount code d = Some (k, c)"
    and v: "validate_for_plan (e_now en) p c = Inr ()"
    and o: "validate_reward_discount_owner k cust d = Inr ()"
    by (auto simp: check_discount_def split: option.splits sum.splits)
  from f have "(k, c) \<in> set (db_discounts d)" and "dc_code c = code"
    by (auto simp: find_discount_def dest: first_where_Some)
  with assms(1) show "get_discount d k = Some c" and "dc_code c = code"
    by (auto simp: get_discount_def in_row_Some)
  from v o show "validate_for_plan (e_now en) p c = Inr ()"
    and "validate_reward_discount_owner k cust d = Inr ()" .
qed

lemma reserve_cases:
  assumes "reserve_discount_usage en pl code cust q d = (Inr (Some k, a), d')"
  obtains n c where "validate_order_quantity q = Inr n"
    and "check_discount en (fst pl) (normalize_code code) cust d = Inr (k, c)"
    and "a = calculate_discount c (pl_price (snd pl) * n)"
    and "d' = put_discount k (c\<lparr>dc_used_count := dc_used_count c + 1\<rparr>) d"
  using assms
  by (auto simp: reserve_discount_usage_def Let_def split: sum.splits if_splits prod.splits)

lemma release_get:
  "get_discount (release_discount_usage (Some k) d) j =
   map_option (\<lambda>c. if j = k \<and> dc_used_count c > 0 then c\<lparr>dc_used_count := dc_used_count c - 1\<rparr> else c)
     (get_discount d j)"
  by (simp add: release_discount_usage_def get_discount_def row_modify_where)

section \<open>Reservation as an interface\<close>

text \<open>
  Order creation relies on two operations: one that takes a unit of a counted resource and one
  that gives it back. What it needs of them is the contract below.
\<close>

locale reservation =
  fixes used :: "'s \<Rightarrow> pk \<Rightarrow> int"
    and valid :: "'s \<Rightarrow> pk \<Rightarrow> bool"
    and take_unit :: "pk \<Rightarrow> 's \<Rightarrow> 's"
    and give_back :: "pk \<Rightarrow> 's \<Rightarrow> 's"
  assumes used_take: "valid s k \<Longrightarrow> used (take_unit k s) j = used s j + (if j = k then 1 else 0)"
    and valid_take: "valid s k \<Longrightarrow> valid (take_unit k s) j = valid s j"
    and used_give: "valid s k \<Longrightarrow> 0 < used s k \<Longrightarrow>
        used (give_back k s) j = used s j - (if j = k then 1 else 0)"
    and used_nonneg: "valid s k \<Longrightarrow> 0 \<le> used s k"
begin

lemma take_give_cancel: "valid s k \<Longrightarrow> used (give_back k (take_unit k s)) j = used s j"
  using used_give [of "take_unit k s" k j] by (simp add: used_take valid_take add_pos_nonneg used_nonneg)

lemma take_n: "valid s k \<Longrightarrow> used ((take_unit k ^^ n) s) k = used s k + int n \<and> valid ((take_unit k ^^ n) s) k"
  by (induction n) (auto simp: used_take valid_take)

end

definition used_count :: "db \<Rightarrow> pk \<Rightarrow> int" where
  "used_count d k = (case get_discount d k of None \<Rightarrow> 0 | Some c \<Rightarrow> dc_used_count c)"

definition count_valid :: "db \<Rightarrow> pk \<Rightarrow> bool" where
  "count_valid d k \<longleftrightarrow> (case get_discount d k of None \<Rightarrow> False | Some c \<Rightarrow> 0 \<le> dc_used_count c)"

definition take_discount :: "pk \<Rightarrow> db \<Rightarrow> db" where
  "take_discount k d = (case get_discount d k of
     None \<Rightarrow> d | Some c \<Rightarrow> put_discount k (c\<lparr>dc_used_count := dc_used_count c + 1\<rparr>) d)"

interpretation usage: reservation used_count count_valid take_discount
    "\<lambda>k. release_discount_usage (Some k)"
proof unfold_locales
  fix d k j
  assume v: "count_valid d k"
  then obtain c where c: "get_discount d k = Some c" "0 \<le> dc_used_count c"
    by (auto simp: count_valid_def split: option.splits)
  then show "used_count (take_discount k d) j = used_count d j + (if j = k then 1 else 0)"
    by (simp add: used_count_def take_discount_def discounts.get_put)
  from c show "count_valid (take_discount k d) j = count_valid d j"
    by (auto simp: count_valid_def take_discount_def discounts.get_put)
  from c show "0 \<le> used_count d k" by (simp add: used_count_def)
  assume "0 < used_count d k"
  with c show "used_count (release_discount_usage (Some k) d) j = used_count d j - (if j = k then 1 else 0)"
    by (auto simp: used_count_def release_get split: option.splits)
qed

lemma reserve_is_take:
  assumes "wf_table (db_discounts d)"
    and "reserve_discount_usage en pl code cust q d = (Inr (Some k, a), d')"
  shows "d' = take_discount k d"
  using assms(2)
  by (elim reserve_cases) (simp add: take_discount_def check_discount_found [OF assms(1)])

end
