(* ===== verification/Referrals.thy ===== *)
theory Referrals
  imports Discounts
begin

text \<open>
  \<open>store/referrals.py\<close>: recording who invited a customer, and the discount and free-plan rewards
  that a completed order of an invited customer earns the referrer. \<open>process_referral_purchase\<close>
  runs on every save of an order (the \<open>post_save\<close> handler of \<open>store/signals.py\<close>).
\<close>

definition referral_reward_percentage :: int where
  "referral_reward_percentage = 20"

definition free_plan_referral_milestone :: nat where
  "free_plan_referral_milestone = 5"

definition normalize_referral_code :: "string \<Rightarrow> string" where
  "normalize_referral_code c = upper (strip c)"

definition get_current_store :: "db \<Rightarrow> (pk \<times> store) option" where
  "get_current_store d =
     orelse (first_of (ordered_where (\<lambda>(_, s). st_name s) (\<lambda>_ s. st_is_active s) (db_stores d)))
            (first_of (ordered_where (\<lambda>(_, s). st_name s) (\<lambda>_ _. True) (db_stores d)))"

section \<open>Assigning the referrer\<close>

datatype referral_error = CustomerMissing | ReferralExists

definition referral_received :: "pk \<Rightarrow> db \<Rightarrow> (pk \<times> referral) option" where
  "referral_received cust d = first_where (\<lambda>_ f. rf_referred_customer f = cust) (db_referrals d)"

definition assign_referrer ::
  "env \<Rightarrow> (pk \<times> customer) option \<Rightarrow> string \<Rightarrow> db \<Rightarrow> (referral_error + pk option) \<times> db" where
  "assign_referrer en cust raw_code d =
     (let code = normalize_referral_code raw_code in
      case cust of
        None \<Rightarrow> (Inr None, d)
      | Some (cpk, c) \<Rightarrow>
          if code = [] \<or> cu_referred_by c \<noteq> None then (Inr None, d)
          else case first_where (\<lambda>_ r. cu_referral_code r = code \<and> cu_is_active r) (db_customers d) of
            None \<Rightarrow> (Inr None, d)
          | Some (rpk, _) \<Rightarrow>
              if rpk = cpk then (Inr None, d)
              else case row (db_customers d) cpk of
                None \<Rightarrow> (Inl CustomerMissing, d)
              | Some locked \<Rightarrow>
                  if cu_referred_by locked \<noteq> None then (Inr (map_option fst (referral_received cpk d)), d)
                  else
                    let d1 = d\<lparr>db_customers := put cpk (locked\<lparr>cu_referred_by := Some rpk,
                               cu_referral_code_used := code,
                               cu_referred_at := Some (e_now en)\<rparr>) (db_customers d)\<rparr> in
                    case referral_received cpk d1 of
                      Some (k, f) \<Rightarrow> if rf_referrer f = rpk then (Inr (Some k), d1) else (Inl ReferralExists, d)
                    | None \<Rightarrow>
                        let (k, t) = add_row \<lparr>rf_referrer = rpk, rf_referred_customer = cpk,
                              rf_referral_code = code, rf_status = RefRegistered,
                              rf_first_order = None, rf_purchased_at = None\<rparr> (db_referrals d1)
                        in (Inr (Some k), d1\<lparr>db_referrals := t\<rparr>))"

section \<open>Reward codes\<close>

definition draw :: "(nat \<Rightarrow> string) \<Rightarrow> db \<Rightarrow> string \<times> db" where
  "draw f d = (f (db_draws d), d\<lparr>db_draws := Suc (db_draws d)\<rparr>)"

definition code_taken :: "string \<Rightarrow> db \<Rightarrow> bool" where
  "code_taken c d \<longleftrightarrow> exists_where (\<lambda>_ r. dc_code r = c) (db_discounts d)"

fun try_codes :: "env \<Rightarrow> string \<Rightarrow> nat \<Rightarrow> db \<Rightarrow> string option \<times> db" where
  "try_codes en p 0 d = (None, d)"
| "try_codes en p (Suc n) d =
     (let (s, d1) = draw (e_code en) d in
      if code_taken (p @ s) d1 then try_codes en p n d1 else (Some (p @ s), d1))"

definition generate_unique_discount_code :: "env \<Rightarrow> string \<Rightarrow> db \<Rightarrow> string \<times> db" where
  "generate_unique_discount_code en prefix d =
     (let p = normalize_referral_code prefix in
      case try_codes en p 20 d of
        (Some c, d1) \<Rightarrow> (c, d1)
      | (None, d1) \<Rightarrow> let (u, d2) = draw (e_uuid en) d1 in (p @ upper (take 10 u), d2))"

definition create_discount :: "env \<Rightarrow> string \<Rightarrow> int \<Rightarrow> pk list \<Rightarrow> db \<Rightarrow> pk \<times> db" where
  "create_discount en prefix pct plans d =
     (let (c, d1) = generate_unique_discount_code en prefix d;
          (k, t) = add_row \<lparr>dc_code = normalize_code c, dc_type = Percentage, dc_value = pct,
                     dc_max_usage = Some 1, dc_used_count = 0, dc_valid_from = Some (e_now en),
                     dc_valid_until = None, dc_is_active = True, dc_applicable_plans = plans\<rparr>
                   (db_discounts d1)
      in (k, d1\<lparr>db_discounts := t\<rparr>))"

definition create_referral_discount_reward :: "env \<Rightarrow> pk \<Rightarrow> referral \<Rightarrow> db \<Rightarrow> pk \<times> db" where
  "create_referral_discount_reward en ref_pk f d =
     (let (k, w, d1) =
        (case first_where (\<lambda>_ w. rw_customer w = rf_referrer f \<and> rw_referral w = Some ref_pk \<and>
                             rw_type w = Discount20) (db_rewards d) of
           Some (k, w) \<Rightarrow> (k, w, d)
         | None \<Rightarrow>
             let w = \<lparr>rw_customer = rf_referrer f, rw_referral = Some ref_pk, rw_type = Discount20,
                      rw_status = RwAvailable, rw_discount_code = None, rw_plan = None,
                      rw_milestone = None, rw_earned_at = e_now en, rw_used_at = None\<rparr>;
                 (k, t) = add_row w (db_rewards d)
             in (k, w, d\<lparr>db_rewards := t\<rparr>))
      in if rw_discount_code w \<noteq> None then (k, d1)
         else let (c, d2) = create_discount en ''REF20'' referral_reward_percentage [] d1
              in (k, d2\<lparr>db_rewards := put k (w\<lparr>rw_discount_code := Some c,
                                                rw_status := RwAvailable\<rparr>) (db_rewards d2)\<rparr>))"

definition get_or_create_free_referral_plan :: "pk option \<Rightarrow> db \<Rightarrow> pk \<times> db" where
  "get_or_create_free_referral_plan st d =
     (let st' = orelse st (map_option fst (get_current_store d)) in
      case first_where (\<lambda>_ p. pl_store p = st' \<and> pl_slug p = ''referral-free-1gb'') (db_plans d) of
        Some (k, p) \<Rightarrow>
          (k, d\<lparr>db_plans := put k (p\<lparr>pl_volume_gb := 1, pl_price := 0, pl_is_public := False,
                                      pl_is_active := True\<rparr>) (db_plans d)\<rparr>)
      | None \<Rightarrow>
          let (k, t) = add_row \<lparr>pl_store = st', pl_operators = [], pl_name = ''Referral Free 1GB'',
                pl_slug = ''referral-free-1gb'', pl_volume_gb = 1, pl_duration_days = 30,
                pl_price = 0, pl_currency = TOMAN, pl_device_limit = 1, pl_is_active = True,
                pl_sort_order = 9999, pl_is_public = False, pl_is_custom_volume = False,
                pl_multi_inbound_bundle = False\<rparr> (db_plans d)
          in (k, d\<lparr>db_plans := t\<rparr>))"

definition create_free_plan_reward :: "env \<Rightarrow> pk \<Rightarrow> nat \<Rightarrow> pk option \<Rightarrow> db \<Rightarrow> pk \<times> db" where
  "create_free_plan_reward en referrer milestone st d =
     (let (k, w, d1) =
        (case first_where (\<lambda>_ w. rw_customer w = referrer \<and> rw_type w = Free1GBPlan \<and>
                             rw_milestone w = Some milestone) (db_rewards d) of
           Some (k, w) \<Rightarrow> (k, w, d)
         | None \<Rightarrow>
             let w = \<lparr>rw_customer = referrer, rw_referral = None, rw_type = Free1GBPlan,
                      rw_status = RwAvailable, rw_discount_code = None, rw_plan = None,
                      rw_milestone = Some milestone, rw_earned_at = e_now en, rw_used_at = None\<rparr>;
                 (k, t) = add_row w (db_rewards d)
             in (k, w, d\<lparr>db_rewards := t\<rparr>))
      in if rw_plan w \<noteq> None then (k, d1)
         else
           let (p, d2) = get_or_create_free_referral_plan st d1;
               (c, d3) = (case rw_discount_code w of
                            Some c \<Rightarrow> (c, d2)
                          | None \<Rightarrow> create_discount en ''FREE1GB'' 100 [p] d2)
           in (k, d3\<lparr>db_rewards := put k (w\<lparr>rw_plan := Some p, rw_discount_code := Some c,
                                             rw_status := RwAvailable\<rparr>) (db_rewards d3)\<rparr>))"

section \<open>A purchase of an invited customer\<close>

definition purchase_counts :: "order \<Rightarrow> bool" where
  "purchase_counts o1 \<longleftrightarrow>
     o_customer o1 \<noteq> None \<and> o_status o1 = Completed \<and> o_verification_status o1 = VerVerified"

definition successful_count :: "pk \<Rightarrow> db \<Rightarrow> nat" where
  "successful_count referrer d =
     length (rows_where (\<lambda>_ f. rf_referrer f = referrer \<and> rf_status f = RefPurchased) (db_referrals d))"

definition ensure_referral :: "pk \<Rightarrow> pk \<Rightarrow> string \<Rightarrow> db \<Rightarrow> pk \<times> referral \<times> db" where
  "ensure_referral cust referrer code d =
     (case referral_received cust d of
        Some (k, f) \<Rightarrow> (k, f, d)
      | None \<Rightarrow>
          let f = \<lparr>rf_referrer = referrer, rf_referred_customer = cust, rf_referral_code = code,
                   rf_status = RefRegistered, rf_first_order = None, rf_purchased_at = None\<rparr>;
              (k, t) = add_row f (db_referrals d)
          in (k, f, d\<lparr>db_referrals := t\<rparr>))"

definition mark_purchased :: "env \<Rightarrow> pk \<Rightarrow> pk \<Rightarrow> referral \<Rightarrow> db \<Rightarrow> db" where
  "mark_purchased en order_pk k f d =
     d\<lparr>db_referrals := put k (f\<lparr>rf_status := RefPurchased, rf_first_order := Some order_pk,
                               rf_purchased_at := Some (e_now en)\<rparr>) (db_referrals d)\<rparr>"

text \<open>The first half of the transaction: find or create the referral and, the first time, mark it
  purchased and create the discount reward.\<close>

definition purchase_stage ::
  "env \<Rightarrow> pk \<Rightarrow> pk \<Rightarrow> pk \<Rightarrow> string \<Rightarrow> db \<Rightarrow> pk list \<times> pk \<times> db" where
  "purchase_stage en order_pk cust referrer code d =
     (let (k, f, d1) = ensure_referral cust referrer code d in
      if rf_status f \<noteq> RefPurchased then
        let (w, d2) = create_referral_discount_reward en k f (mark_purchased en order_pk k f d1)
        in ([w], rf_referrer f, d2)
      else ([], rf_referrer f, d1))"

definition process_referral_purchase :: "env \<Rightarrow> pk \<Rightarrow> order \<Rightarrow> db \<Rightarrow> pk list \<times> db" where
  "process_referral_purchase en order_pk o1 d =
     (if \<not> purchase_counts o1 then ([], d)
      else case o_customer o1 of
        None \<Rightarrow> ([], d)
      | Some cust \<Rightarrow>
          (case row (db_customers d) cust of
             None \<Rightarrow> ([], d)
           | Some c \<Rightarrow>
               (case cu_referred_by c of
                  None \<Rightarrow> ([], d)
                | Some referrer \<Rightarrow>
                    let (ws, r, d2) = purchase_stage en order_pk cust referrer (cu_referral_code_used c) d;
                        n = successful_count r d2
                    in if n \<noteq> 0 \<and> n mod free_plan_referral_milestone = 0 then
                         let (w, d3) = create_free_plan_reward en r n (o_store o1) d2 in (ws @ [w], d3)
                       else (ws, d2))))"

section \<open>Frames: what the rewards leave alone\<close>

text \<open>The reward code writes discounts, rewards, referrals, reward plans and the draw counter only.\<close>

definition reward_frame :: "db \<Rightarrow> db \<Rightarrow> bool" where
  "reward_frame d d' \<longleftrightarrow>
     db_stores d' = db_stores d \<and> db_operators d' = db_operators d \<and> db_bots d' = db_bots d \<and>
     db_customers d' = db_customers d \<and> db_ledgers d' = db_ledgers d \<and>
     db_panels d' = db_panels d \<and> db_inbounds d' = db_inbounds d \<and>
     db_routes d' = db_routes d \<and> db_orders d' = db_orders d \<and>
     db_audits d' = db_audits d \<and> db_clients d' = db_clients d \<and>
     db_config_links d' = db_config_links d \<and> db_cups d' = db_cups d \<and>
     db_cup_items d' = db_cup_items d \<and> db_feeds d' = db_feeds d \<and> db_outbox d' = db_outbox d"

lemma reward_frame_refl [simp]: "reward_frame d d"
  by (simp add: reward_frame_def)

lemma reward_frame_trans [trans]:
  "reward_frame d d1 \<Longrightarrow> reward_frame d1 d2 \<Longrightarrow> reward_frame d d2"
  by (simp add: reward_frame_def)

lemma reward_frame_updates [simp]:
  "reward_frame d (d1\<lparr>db_discounts := t\<rparr>) = reward_frame d d1"
  "reward_frame d (d1\<lparr>db_rewards := u\<rparr>) = reward_frame d d1"
  "reward_frame d (d1\<lparr>db_referrals := v\<rparr>) = reward_frame d d1"
  "reward_frame d (d1\<lparr>db_plans := w\<rparr>) = reward_frame d d1"
  "reward_frame d (d1\<lparr>db_draws := n\<rparr>) = reward_frame d d1"
  by (simp_all add: reward_frame_def)

lemma try_codes_frame:
  "try_codes en p m d = (r, d') \<Longrightarrow>
   reward_frame d d' \<and> db_discounts d' = db_discounts d \<and> db_rewards d' = db_rewards d \<and>
   db_referrals d' = db_referrals d \<and> db_plans d' = db_plans d"
proof (induction m arbitrary: d)
  case 0
  then show ?case by simp
next
  case (Suc m)
  let ?d1 = "d\<lparr>db_draws := Suc (db_draws d)\<rparr>"
  show ?case
  proof (cases "code_taken (p @ e_code en (db_draws d)) ?d1")
    case True
    with Suc.prems have "try_codes en p m ?d1 = (r, d')" by (simp add: draw_def)
    from Suc.IH [OF this] show ?thesis by (simp add: reward_frame_def)
  next
    case False
    with Suc.prems show ?thesis by (auto simp: draw_def)
  qed
qed

lemma try_codes_fresh: "try_codes en p m d = (Some c, d') \<Longrightarrow> \<not> code_taken c d"
proof (induction m arbitrary: d)
  case 0
  then show ?case by simp
next
  case (Suc m)
  let ?d1 = "d\<lparr>db_draws := Suc (db_draws d)\<rparr>"
  have same: "code_taken x ?d1 = code_taken x d" for x by (simp add: code_taken_def)
  show ?case
  proof (cases "code_taken (p @ e_code en (db_draws d)) ?d1")
    case True
    with Suc.prems have "try_codes en p m ?d1 = (Some c, d')" by (simp add: draw_def)
    from Suc.IH [OF this] show ?thesis by (simp add: same)
  next
    case False
    with Suc.prems show ?thesis by (auto simp: draw_def same)
  qed
qed

lemma generate_code_frame:
  assumes "generate_unique_discount_code en p d = (c, d')"
  shows "reward_frame d d' \<and> db_discounts d' = db_discounts d \<and> db_rewards d' = db_rewards d \<and>
    db_referrals d' = db_referrals d \<and> db_plans d' = db_plans d"
proof -
  obtain r d1 where t: "try_codes en (normalize_referral_code p) 20 d = (r, d1)"
    by (cases "try_codes en (normalize_referral_code p) 20 d")
  have "d' = d1 \<or> d' = d1\<lparr>db_draws := Suc (db_draws d1)\<rparr>"
    using assms t by (cases r) (auto simp: generate_unique_discount_code_def draw_def)
  then show ?thesis using try_codes_frame [OF t] by auto
qed

lemma create_discount_frame:
  assumes "create_discount en p v ps d = (k, d')"
  shows "reward_frame d d' \<and> db_rewards d' = db_rewards d \<and> db_referrals d' = db_referrals d \<and>
    db_plans d' = db_plans d"
proof -
  obtain c d1 where g: "generate_unique_discount_code en p d = (c, d1)"
    by (cases "generate_unique_discount_code en p d")
  have "\<exists>t. d' = d1\<lparr>db_discounts := t\<rparr>"
    using assms by (auto simp: create_discount_def g add_row_def)
  then show ?thesis using generate_code_frame [OF g] by auto
qed

lemma discount_reward_frame:
  assumes "create_referral_discount_reward en k f d = (w, d')"
  shows "reward_frame d d' \<and> db_referrals d' = db_referrals d \<and> db_plans d' = db_plans d"
  using assms
  by (auto simp: create_referral_discount_reward_def Let_def add_row_def
      split: option.splits if_splits prod.splits dest!: create_discount_frame)
     (auto simp: reward_frame_def)

lemma free_plan_frame:
  assumes "get_or_create_free_referral_plan st d = (p, d')"
  shows "reward_frame d d' \<and> db_referrals d' = db_referrals d \<and> db_rewards d' = db_rewards d"
  using assms
  by (auto simp: get_or_create_free_referral_plan_def Let_def add_row_def
      split: option.splits)

lemma free_plan_reward_frame:
  assumes "create_free_plan_reward en r n st d = (w, d')"
  shows "reward_frame d d' \<and> db_referrals d' = db_referrals d"
  using assms
  by (auto simp: create_free_plan_reward_def Let_def add_row_def
      split: option.splits if_splits prod.splits dest!: create_discount_frame free_plan_frame)
     (auto simp: reward_frame_def)

section \<open>Rewards are earned once\<close>

lemma ensure_referral_received:
  assumes "ensure_referral cust r c d = (k, f, d')"
  shows "referral_received cust d' = Some (k, f)" and "reward_frame d d'"
proof -
  have "referral_received cust d' = Some (k, f) \<and> reward_frame d d'"
  proof (cases "referral_received cust d")
    case None
    with assms show ?thesis
      by (auto simp: ensure_referral_def add_row_def Let_def referral_received_def first_where_add)
  next
    case (Some kf)
    with assms show ?thesis by (auto simp: ensure_referral_def split: prod.splits)
  qed
  then show "referral_received cust d' = Some (k, f)" and "reward_frame d d'" by auto
qed

lemma mark_purchased_received:
  assumes "referral_received cust d = Some (k, f)"
  shows "referral_received cust (mark_purchased en ord k f d) =
    Some (k, f\<lparr>rf_status := RefPurchased, rf_first_order := Some ord, rf_purchased_at := Some (e_now en)\<rparr>)"
proof -
  from assms have "rf_referred_customer f = cust"
    by (auto simp: referral_received_def dest: first_where_Some)
  with assms show ?thesis
    by (simp add: referral_received_def mark_purchased_def first_where_put)
qed

lemma free_plan_reward_again:
  assumes "create_free_plan_reward en r n st d = (w, d')"
  shows "create_free_plan_reward en2 r n st2 d' = (w, d')"
proof -
  let ?P = "\<lambda>_ w. rw_customer w = r \<and> rw_type w = Free1GBPlan \<and> rw_milestone w = Some n"
  have "\<exists>v. first_where ?P (db_rewards d') = Some (w, v) \<and> rw_plan v \<noteq> None"
  proof (cases "first_where ?P (db_rewards d)")
    case None
    with assms show ?thesis
      by (auto simp: create_free_plan_reward_def Let_def add_row_def first_where_add_put
          split: prod.splits dest!: create_discount_frame free_plan_frame)
  next
    case (Some kw)
    obtain k v where kw: "kw = (k, v)" by (cases kw)
    from Some kw have pv: "?P k v" by (auto dest: first_where_Some)
    show ?thesis
    proof (cases "rw_plan v = None")
      case True
      with assms Some kw pv show ?thesis
        by (auto simp: create_free_plan_reward_def Let_def first_where_put
            split: prod.splits option.splits dest!: create_discount_frame free_plan_frame)
    next
      case False
      with assms Some kw show ?thesis by (auto simp: create_free_plan_reward_def)
    qed
  qed
  then show ?thesis by (auto simp: create_free_plan_reward_def)
qed

lemma purchase_stage_again:
  assumes "purchase_stage en k cust r c d = (ws, q, d2)"
  shows "reward_frame d d2" and "purchase_stage en2 k2 cust r2 c2 d2 = ([], q, d2)"
    and "db_referrals d3 = db_referrals d2 \<Longrightarrow> purchase_stage en2 k2 cust r2 c2 d3 = ([], q, d3)"
proof -
  obtain i f d1 where e: "ensure_referral cust r c d = (i, f, d1)"
    by (cases "ensure_referral cust r c d")
  have "\<exists>g. referral_received cust d2 = Some (i, g) \<and> rf_status g = RefPurchased \<and>
          rf_referrer g = q \<and> reward_frame d d2"
  proof (cases "rf_status f = RefPurchased")
    case True
    with assms e ensure_referral_received [OF e] show ?thesis by (auto simp: purchase_stage_def)
  next
    case False
    with assms e obtain w
      where w: "create_referral_discount_reward en i f (mark_purchased en k i f d1) = (w, d2)"
        and q: "q = rf_referrer f"
      by (auto simp: purchase_stage_def split: prod.splits)
    have "referral_received cust d2 = referral_received cust (mark_purchased en k i f d1)"
      using discount_reward_frame [OF w] by (simp add: referral_received_def)
    moreover have "reward_frame d d2"
      using ensure_referral_received(2) [OF e] discount_reward_frame [OF w]
      by (auto simp: mark_purchased_def reward_frame_def)
    ultimately show ?thesis
      using mark_purchased_received [OF ensure_referral_received(1) [OF e]] q by auto
  qed
  then show "reward_frame d d2" and "purchase_stage en2 k2 cust r2 c2 d2 = ([], q, d2)"
    and "db_referrals d3 = db_referrals d2 \<Longrightarrow> purchase_stage en2 k2 cust r2 c2 d3 = ([], q, d3)"
    by (auto simp: purchase_stage_def ensure_referral_def referral_received_def)
qed

lemma process_referral_frame:
  assumes "process_referral_purchase en k o1 d = (ws, d')"
  shows "reward_frame d d'"
  using assms
  by (auto simp: process_referral_purchase_def Let_def split: option.splits if_splits prod.splits
      dest!: purchase_stage_again(1) free_plan_reward_frame intro: reward_frame_trans)

lemma process_referral_again:
  assumes run: "process_referral_purchase en k o1 d = (ws, d')"
  shows "snd (process_referral_purchase en2 k2 o1 d') = d'"
proof (cases "d' = d \<and> snd (process_referral_purchase en2 k2 o1 d) = d")
  case True
  then show ?thesis by simp
next
  case False
  have idle: "snd (process_referral_purchase en2 k2 o1 d) = d \<and> d' = d"
    if "\<nexists>cust cu r. purchase_counts o1 \<and> o_customer o1 = Some cust \<and>
      row (db_customers d) cust = Some cu \<and> cu_referred_by cu = Some r"
    using that run by (auto simp: process_referral_purchase_def split: option.splits if_splits)
  with False obtain cust cu r where pc: "purchase_counts o1" "o_customer o1 = Some cust"
    and cu: "row (db_customers d) cust = Some cu" "cu_referred_by cu = Some r"
    by blast
  obtain vs q d2 where s: "purchase_stage en k cust r (cu_referral_code_used cu) d = (vs, q, d2)"
    by (cases "purchase_stage en k cust r (cu_referral_code_used cu) d")
  let ?n = "successful_count q d2"
  obtain w3 d3 where w3: "create_free_plan_reward en q ?n (o_store o1) d2 = (w3, d3)"
    by (cases "create_free_plan_reward en q ?n (o_store o1) d2")
  have d': "d' = (if ?n \<noteq> 0 \<and> ?n mod free_plan_referral_milestone = 0 then d3 else d2)"
    using run pc cu s w3 by (auto simp: process_referral_purchase_def Let_def split: if_splits)
  then have refs: "db_referrals d' = db_referrals d2" using free_plan_reward_frame [OF w3] by auto
  then have n': "successful_count q d' = ?n" by (simp add: successful_count_def)
  have s': "purchase_stage en2 k2 cust r2 c2 d' = ([], q, d')" for r2 c2
    using purchase_stage_again(3) [OF s refs] .
  have cu': "row (db_customers d') cust = Some cu"
    using process_referral_frame [OF run] cu by (simp add: reward_frame_def)
  have again: "create_free_plan_reward en2 q ?n (o_store o1) d3 = (w3, d3)"
    using w3 by (rule free_plan_reward_again)
  show ?thesis
    using pc cu' cu(2) s' n' d' again by (auto simp: process_referral_purchase_def Let_def)
qed

section \<open>Recording the referrer\<close>

lemma assign_referrer_done:
  assumes "row (db_customers d) k = Some c"
    and "assign_referrer en (Some (k, c)) code d = (Inr (Some f), d')"
  obtains r rc where "first_where (\<lambda>_ r. cu_referral_code r = normalize_referral_code code \<and> cu_is_active r)
      (db_customers d) = Some (r, rc)" and "r \<noteq> k"
    and "db_customers d' = put k (c\<lparr>cu_referred_by := Some r, cu_referral_code_used := normalize_referral_code code,
           cu_referred_at := Some (e_now en)\<rparr>) (db_customers d)"
  using assms
  by (auto simp: assign_referrer_def Let_def add_row_def split: option.splits if_splits prod.splits)

end
