(* ===== verification/Receipts.thy ===== *)
theory Receipts
  imports Store_Models
begin

text \<open>
  \<open>store/receipt_analysis.py\<close>: the amounts written in the text of a payment receipt and their
  comparison with the order's amount. Text is a list of Unicode code points, because digits may
  be Persian or Arabic and the keywords are Persian. The decimal digits of the modelled alphabet
  are the ASCII, Persian and Arabic-Indic ones. The warning sentences of the result are left out.
\<close>

section \<open>Code points\<close>

definition normalize_digit :: "nat \<Rightarrow> nat" where
  "normalize_digit c =
     (if 1776 \<le> c \<and> c \<le> 1785 then c - 1776 + 48
      else if 1632 \<le> c \<and> c \<le> 1641 then c - 1632 + 48 else c)"

definition normalize_payment_digits :: "code_points \<Rightarrow> code_points" where
  "normalize_payment_digits s = map normalize_digit s"

definition normalize_receipt_text :: "code_points \<Rightarrow> code_points" where
  "normalize_receipt_text s = map normalize_digit s"

definition ascii_digit :: "nat \<Rightarrow> bool" where
  "ascii_digit c \<longleftrightarrow> 48 \<le> c \<and> c \<le> 57"

text \<open>\<open>str.isspace\<close>, which is also \<open>\s\<close> of a regular expression.\<close>

definition space_point :: "nat \<Rightarrow> bool" where
  "space_point c \<longleftrightarrow> (9 \<le> c \<and> c \<le> 13) \<or> (28 \<le> c \<and> c \<le> 32) \<or> c = 133 \<or> c = 160 \<or> c = 5760 \<or>
     (8192 \<le> c \<and> c \<le> 8202) \<or> c = 8232 \<or> c = 8233 \<or> c = 8239 \<or> c = 8287 \<or> c = 12288"

definition strip_points :: "code_points \<Rightarrow> code_points" where
  "strip_points s = rev (dropWhile space_point (rev (dropWhile space_point s)))"

definition points_value :: "code_points \<Rightarrow> nat" where
  "points_value s = foldl (\<lambda>n c. 10 * n + (c - 48)) 0 s"

text \<open>The UTF-8 bytes under which text is stored in a JSON column.\<close>

definition utf8_point :: "nat \<Rightarrow> nat list" where
  "utf8_point c =
     (if c < 128 then [c]
      else if c < 2048 then [192 + c div 64, 128 + c mod 64]
      else if c < 65536 then [224 + c div 4096, 128 + c div 64 mod 64, 128 + c mod 64]
      else [240 + c div 262144, 128 + c div 4096 mod 64, 128 + c div 64 mod 64, 128 + c mod 64])"

definition utf8 :: "code_points \<Rightarrow> string" where
  "utf8 s = map char_of (concat (map utf8_point s))"

lemma utf8_Nil [simp]: "utf8 s = [] \<longleftrightarrow> s = []"
  by (cases s) (auto simp: utf8_def utf8_point_def)

lemma normalize_digit_idem [simp]: "normalize_digit (normalize_digit c) = normalize_digit c"
  by (auto simp: normalize_digit_def)

section \<open>Finding numbers\<close>

definition kw_amount :: code_points where
  "kw_amount = [1605, 1576, 1604, 1594]"

definition kw_rial :: code_points where
  "kw_rial = [1585, 1740, 1575, 1604]"

definition kw_toman :: code_points where
  "kw_toman = [1578, 1608, 1605, 1575, 1606]"

definition amount_keywords :: "code_points list" where
  "amount_keywords =
     [kw_amount,
      [1662, 1585, 1583, 1575, 1582, 1578],
      [1662, 1585, 1583, 1575, 1582, 1578, 1740],
      [1608, 1575, 1585, 1740, 1586],
      [1608, 1575, 1585, 1740, 1586, 1740],
      [1575, 1606, 1578, 1602, 1575, 1604],
      [1576, 1585, 1583, 1575, 1588, 1578],
      [1582, 1585, 1740, 1583],
      [1578, 1585, 1575, 1705, 1606, 1588],
      [1585, 1587, 1740, 1583],
      kw_rial,
      kw_toman,
      [1705, 1575, 1585, 1578, 32, 1576, 1607, 32, 1705, 1575, 1585, 1578]]"

definition noise_keywords :: "code_points list" where
  "noise_keywords =
     [[1588, 1605, 1575, 1585, 1607],
      [1662, 1740, 1711, 1740, 1585, 1740],
      [1605, 1585, 1580, 1593],
      [1575, 1585, 1580, 1575, 1593],
      [1705, 1575, 1585, 1578],
      [1581, 1587, 1575, 1576],
      [1578, 1575, 1585, 1740, 1582],
      [1587, 1575, 1593, 1578],
      [1605, 1608, 1580, 1608, 1583, 1740],
      [1588, 1606, 1575, 1587, 1607],
      [1705, 1583]]"

text \<open>
  The spans that \<open>NUMBER_RE.finditer\<close> yields: a match starts at a digit that no digit precedes,
  runs over digits and separators, backs up to its last digit, and has at least four characters.
  (The first alternative is greedy, so it stops at the last digit of the run, where the character
  after it is not a digit; the second alternative matches only where the first one does.)
\<close>

definition number_char :: "nat \<Rightarrow> bool" where
  "number_char c \<longleftrightarrow> ascii_digit c \<or> c = 44 \<or> space_point c \<or> c = 1548 \<or> c = 1644 \<or> c = 46"

definition number_body :: "code_points \<Rightarrow> code_points" where
  "number_body s = rev (dropWhile (\<lambda>c. \<not> ascii_digit c) (rev (takeWhile number_char s)))"

function number_spans :: "nat \<Rightarrow> bool \<Rightarrow> code_points \<Rightarrow> (nat \<times> nat) list" where
  "number_spans pos prev [] = []"
| "number_spans pos prev (c # cs) =
     (if ascii_digit c \<and> \<not> prev then
        let n = length (number_body (c # cs)) in
        if 4 \<le> n then (pos, pos + n) # number_spans (pos + n) True (drop n (c # cs))
        else number_spans (Suc pos) True cs
      else number_spans (Suc pos) (ascii_digit c) cs)"
  by pat_completeness auto
termination by (relation "measure (\<lambda>(_, _, s). length s)") auto

text \<open>\<open>text[a:b]\<close> for \<open>0 \<le> a\<close>, and the window around a match.\<close>

definition slice :: "nat \<Rightarrow> nat \<Rightarrow> 'a list \<Rightarrow> 'a list" where
  "slice a b s = take (b - a) (drop a s)"

definition context_for :: "code_points \<Rightarrow> nat \<Rightarrow> nat \<Rightarrow> nat \<Rightarrow> code_points" where
  "context_for txt start stop radius = slice (start - radius) (min (length txt) (stop + radius)) txt"

definition looks_like_time_or_date :: "code_points \<Rightarrow> nat \<Rightarrow> nat \<Rightarrow> bool" where
  "looks_like_time_or_date txt start stop =
     list_ex (\<lambda>c. c = 58 \<or> c = 47 \<or> c = 45) (context_for txt start stop 2)"

definition score_candidate :: "code_points \<Rightarrow> nat \<Rightarrow> int" where
  "score_candidate ctx digit_count =
     sum_list (map (\<lambda>k. if contains k ctx
                        then (if k = kw_amount \<or> k = kw_rial \<or> k = kw_toman then 3 else 2) else 0)
                   amount_keywords)
     - sum_list (map (\<lambda>k. if contains k ctx then 2 else 0) noise_keywords)
     - (if digit_count = 4 \<or> digit_count = 6 then 2 else 0)
     - (if digit_count \<ge> 12 then 3 else 0)"

record candidate =
  cd_raw :: code_points
  cd_amount :: nat
  cd_amount_irr :: nat
  cd_score :: int
  cd_context :: code_points

text \<open>One turn of the loop over the matches: skipped, or a candidate under its \<open>seen\<close> key.\<close>

definition candidate_at :: "code_points \<Rightarrow> nat \<times> nat \<Rightarrow> ((nat \<times> nat \<times> nat) \<times> candidate) list" where
  "candidate_at txt = (\<lambda>(a, b).
     let raw = strip_points (slice a b txt);
         ds = filter ascii_digit raw;
         amount = points_value ds;
         ctx = context_for txt a b 32;
         irr = (if contains kw_toman ctx \<and> \<not> contains kw_rial ctx then amount * 10 else amount)
     in if ds = [] \<or> amount < 1000 then []
        else if looks_like_time_or_date txt a b \<and> \<not> list_ex (\<lambda>k. contains k ctx) amount_keywords then []
        else [((irr, a, b), \<lparr>cd_raw = raw, cd_amount = amount, cd_amount_irr = irr,
                cd_score = score_candidate ctx (length ds), cd_context = strip_points ctx\<rparr>)])"

fun decimal_digits :: "nat \<Rightarrow> nat" where
  "decimal_digits n = (if n < 10 then 1 else Suc (decimal_digits (n div 10)))"

declare decimal_digits.simps [simp del]

definition extract_receipt_amount_candidates :: "code_points \<Rightarrow> candidate list" where
  "extract_receipt_amount_candidates txt =
     (let normalized = normalize_receipt_text txt;
          found = dedup_on fst {} (concat (map (candidate_at normalized) (number_spans 0 False normalized)))
      in sort_key (\<lambda>c. (- cd_score c, - int (decimal_digits (cd_amount_irr c)))) (map snd found))"

section \<open>The verdict\<close>

datatype receipt_status = RcUnsupportedCurrency | RcImageOnly | RcMatched | RcMismatch | RcNotFound

record analysis =
  an_status :: receipt_status
  an_requires_admin_review :: bool
  an_expected_amount :: int
  an_expected_currency :: "currency option"
  an_expected_amount_irr :: "int option"
  an_matched_amount_irr :: "int option"
  an_matched_raw :: code_points
  an_candidates :: "candidate list"

definition expected_amount_in_rial :: "int \<Rightarrow> currency option \<Rightarrow> int option" where
  "expected_amount_in_rial amount cur =
     (case cur of Some TOMAN \<Rightarrow> Some (amount * 10) | Some IRR \<Rightarrow> Some amount | _ \<Rightarrow> None)"

definition analyze_receipt_text :: "code_points \<Rightarrow> int \<Rightarrow> currency option \<Rightarrow> analysis" where
  "analyze_receipt_text txt amount cur =
     (let expected = expected_amount_in_rial amount cur;
          base = \<lparr>an_status = RcUnsupportedCurrency, an_requires_admin_review = True,
                  an_expected_amount = amount, an_expected_currency = cur,
                  an_expected_amount_irr = expected, an_matched_amount_irr = None,
                  an_matched_raw = [], an_candidates = []\<rparr>
      in case expected of
        None \<Rightarrow> base
      | Some irr \<Rightarrow>
          if strip_points txt = [] then base\<lparr>an_status := RcImageOnly\<rparr>
          else
            let cands = extract_receipt_amount_candidates txt;
                base1 = base\<lparr>an_candidates := take 6 cands\<rparr>
            in case find (\<lambda>c. int (cd_amount_irr c) = irr) cands of
                 Some c \<Rightarrow> base1\<lparr>an_status := RcMatched, an_requires_admin_review := False,
                              an_matched_amount_irr := Some (int (cd_amount_irr c)),
                              an_matched_raw := cd_raw c\<rparr>
               | None \<Rightarrow>
                   (case filter (\<lambda>c. cd_score c \<ge> -1) cands of
                      best # _ \<Rightarrow> base1\<lparr>an_status := RcMismatch,
                                   an_matched_amount_irr := Some (int (cd_amount_irr best)),
                                   an_matched_raw := cd_raw best\<rparr>
                    | [] \<Rightarrow> base1\<lparr>an_status := RcNotFound\<rparr>))"

definition analysis_json :: "analysis \<Rightarrow> json" where
  "analysis_json a =
     JObj [(''status'', JStr (case an_status a of
              RcUnsupportedCurrency \<Rightarrow> ''unsupported_currency'' | RcImageOnly \<Rightarrow> ''image_only''
            | RcMatched \<Rightarrow> ''matched'' | RcMismatch \<Rightarrow> ''mismatch'' | RcNotFound \<Rightarrow> ''not_found'')),
           (''requires_admin_review'', JBool (an_requires_admin_review a)),
           (''expected_amount'', JInt (an_expected_amount a)),
           (''expected_amount_irr'', jint_opt (an_expected_amount_irr a)),
           (''matched_amount_irr'', jint_opt (an_matched_amount_irr a)),
           (''matched_raw'', JStr (utf8 (an_matched_raw a)))]"

section \<open>Spans of numbers\<close>

lemma number_body_take:
  assumes "ascii_digit c"
  obtains n where "number_body (c # cs) = take n (c # cs)" and "n = length (number_body (c # cs))"
    and "0 < n" and "ascii_digit (last (number_body (c # cs)))" and "list_all number_char (number_body (c # cs))"
proof -
  let ?t = "takeWhile number_char (c # cs)"
  let ?b = "number_body (c # cs)"
  have c: "number_char c" using assms by (simp add: number_char_def)
  have split: "?t = ?b @ rev (takeWhile (\<lambda>c. \<not> ascii_digit c) (rev ?t))"
    unfolding number_body_def by (metis rev_append rev_rev_ident takeWhile_dropWhile_id)
  have "c \<in> set (rev ?t)" using c by simp
  then have ne: "dropWhile (\<lambda>c. \<not> ascii_digit c) (rev ?t) \<noteq> []"
    using assms unfolding dropWhile_eq_Nil_conv by blast
  then have last: "ascii_digit (last ?b)"
    unfolding number_body_def by (metis hd_dropWhile last_rev)
  have "\<exists>r. c # cs = ?t @ r" by (metis takeWhile_dropWhile_id)
  with split obtain r where "c # cs = ?b @ r" by (metis append_assoc)
  then have "?b = take (length ?b) (c # cs)" by (metis append_eq_conv_conj)
  moreover have "list_all number_char ?t" by (auto simp: list_all_iff dest: set_takeWhileD)
  then have "list_all number_char ?b" by (metis split list_all_append)
  moreover have "?b \<noteq> []" using ne unfolding number_body_def by (metis rev_is_Nil_conv)
  ultimately show thesis using that last by auto
qed

text \<open>A span lies inside the text, has at least four characters, all of them digits or
  separators, and starts and ends with a digit.\<close>

definition span_ok :: "code_points \<Rightarrow> nat \<Rightarrow> nat \<Rightarrow> bool" where
  "span_ok s a b \<longleftrightarrow> a + 4 \<le> b \<and> b \<le> length s \<and> ascii_digit (s ! a) \<and> ascii_digit (s ! (b - 1)) \<and>
     list_all number_char (slice a b s)"

lemma span_of_prefix:
  assumes "4 \<le> n" and "n \<le> length s" and "ascii_digit (s ! 0)" and "ascii_digit (s ! (n - 1))"
    and "list_all number_char (take n s)"
  shows "span_ok (pre @ s) (length pre) (length pre + n)"
proof -
  have "\<not> length pre + n - 1 < length pre" using assms(1) by arith
  then have "(pre @ s) ! (length pre + n - 1) = s ! (n - 1)" 
    using assms(1) by (simp add: nth_append not_less)
  then show ?thesis using assms by (simp add: span_ok_def slice_def nth_append)
qed

lemma first_span_ok:
  assumes "ascii_digit c" and "4 \<le> length (number_body (c # cs))"
  shows "span_ok (pre @ c # cs) (length pre) (length pre + length (number_body (c # cs)))"
proof -
  obtain n where n: "number_body (c # cs) = take n (c # cs)" "length (number_body (c # cs)) = n"
    "ascii_digit (last (number_body (c # cs)))" "list_all number_char (number_body (c # cs))"
    using number_body_take [OF assms(1)] by metis
  then have le: "n \<le> length (c # cs)" by (metis length_take min.cobounded1)
  have 4: "4 \<le> n" using assms(2) n(2) by simp
  have "last (take n (c # cs)) = (c # cs) ! (n - 1)"
    using 4 le by (subst last_conv_nth) (auto simp: min_def simp del: take_Cons')
  with n(3) have "ascii_digit ((c # cs) ! (n - 1))" unfolding n(1) by metis
  then show ?thesis
    unfolding n(2) using 4 le assms(1) n(4) unfolding n(1) by (intro span_of_prefix) simp_all
qed

lemma number_spans_ok:
  "(a, b) \<in> set (number_spans pos prev s) \<Longrightarrow> length pre = pos \<Longrightarrow> span_ok (pre @ s) a b"
proof (induction pos prev s arbitrary: pre rule: number_spans.induct)
  case (1 pos prev)
  then show ?case by simp
next
  case (2 pos prev c cs)
  let ?n = "length (number_body (c # cs))"
  have step: "span_ok (pre @ c # cs) a b"
    if "(a, b) \<in> set (number_spans (Suc pos) q cs)"
      and "\<And>pre. (a, b) \<in> set (number_spans (Suc pos) q cs) \<Longrightarrow> length pre = Suc pos \<Longrightarrow> span_ok (pre @ cs) a b"
    for q
    using that(2) [of "pre @ [c]"] that(1) 2(5) by simp
  show ?case
  proof (cases "ascii_digit c \<and> \<not> prev \<and> 4 \<le> ?n")
    case True
    then consider "a = pos" "b = pos + ?n" | "(a, b) \<in> set (number_spans (pos + ?n) True (drop ?n (c # cs)))"
      using 2(4) by (auto simp: Let_def simp del: drop_Cons')
    then show ?thesis
    proof cases
      case 1
      then show ?thesis using first_span_ok [of c cs pre] True 2(5) by simp
    next
      case rest: 2
      obtain n where "number_body (c # cs) = take n (c # cs)" "n = ?n" using True number_body_take by blast
      then have "length (pre @ take ?n (c # cs)) = pos + ?n" using 2(5) by (metis length_append)
      from 2(1) [OF _ refl _ rest this] True show ?thesis by (simp del: take_Cons' drop_Cons')
    qed
  next
    case False
    then show ?thesis
      using 2(2,3,4) step by (auto simp: Let_def split: if_splits)
  qed
qed

lemma strip_points_id:
  assumes "s \<noteq> []" and "\<not> space_point (hd s)" and "\<not> space_point (last s)"
  shows "strip_points s = s"
proof -
  have "dropWhile space_point s = s" using assms(1,2) by (cases s) auto
  moreover have "dropWhile space_point (rev s) = rev s"
    using assms(1,3) by (cases s rule: rev_cases) auto
  ultimately show ?thesis by (simp add: strip_points_def)
qed

lemma strip_span:
  assumes "span_ok s a b"
  shows "strip_points (slice a b s) = slice a b s"
proof -
  have l: "length (slice a b s) = b - a" "slice a b s \<noteq> []"
    using assms by (auto simp: span_ok_def slice_def)
  have "hd (slice a b s) = s ! a" using assms l(2)
    by (simp add: hd_conv_nth) (auto simp: span_ok_def slice_def)
  moreover have "last (slice a b s) = s ! (b - 1)" using assms l
    by (simp add: last_conv_nth) (auto simp: span_ok_def slice_def)
  moreover have "\<not> space_point c" if "ascii_digit c" for c
    using that by (auto simp: ascii_digit_def space_point_def)
  ultimately show ?thesis using assms l(2) by (intro strip_points_id) (auto simp: span_ok_def)
qed

end
