(* ===== verification/Orders.thy ===== *)
theory Orders
  imports Referrals Receipts
begin

text \<open>
  The \<open>Order\<close> model of \<open>store/models.py\<close>: cleaning of a manual payment submission, the
  normalisation \<open>Order.save\<close> applies, discounts on an order, submission, verification and
  rejection of a payment; with the reporting and recovery predicates of
  \<open>store/order_revenue.py\<close> and \<open>store/order_recovery.py\<close>.
\<close>

section \<open>Cleaning a payment submission\<close>

datatype payment_error =
    PayerNameRequired | PayerNameTooLong | CardDigitsInvalid | ReceiptTextTooLong
  | TrackingCodeTooLong | ImageTooLarge | ImageTypeInvalid | ImageInvalid | ImageUnreadable
  | ReceiptImageRequired | ReceiptRequired | PaymentTimeRequired | PaymentTimeInvalid

definition clean_sender_card_name :: "code_points \<Rightarrow> code_points \<Rightarrow> payment_error + code_points" where
  "clean_sender_card_name value fallback =
     (let own = strip_points value; cleaned = (if own = [] then strip_points fallback else own) in
      if cleaned = [] then Inl PayerNameRequired
      else if length cleaned > 100 then Inl PayerNameTooLong
      else Inr cleaned)"

definition clean_sender_card_last4 :: "code_points \<Rightarrow> code_points \<Rightarrow> payment_error + code_points" where
  "clean_sender_card_last4 value fallback =
     (let raw = (if value \<noteq> [] then value else fallback);
          digits = filter ascii_digit (normalize_payment_digits raw) in
      if digits = [] then Inr []
      else if length digits \<noteq> 4 then Inl CardDigitsInvalid
      else Inr digits)"

definition clean_payment_receipt_text :: "code_points \<Rightarrow> payment_error + code_points" where
  "clean_payment_receipt_text value =
     (let cleaned = strip_points value in
      if length cleaned > 1200 then Inl ReceiptTextTooLong else Inr cleaned)"

definition clean_bank_tracking_code :: "code_points \<Rightarrow> payment_error + code_points" where
  "clean_bank_tracking_code value =
     (let cleaned = strip_points value in
      if length cleaned > 50 then Inl TrackingCodeTooLong else Inr cleaned)"

text \<open>An uploaded file: its declared size, type and extension, and what opening and verifying it
  with the imaging library gives.\<close>

datatype image_check = ImageOk | ImageUnidentified | ImageBroken

record upload =
  up_name :: string
  up_size :: "nat option"
  up_content_type :: string
  up_extension :: string
  up_verify :: image_check

definition receipt_max_size :: nat where
  "receipt_max_size = 5 * 1024 * 1024"

definition allowed_content_types :: "string list" where
  "allowed_content_types = [''image/jpeg'', ''image/png'', ''image/webp'', ''image/gif'']"

definition allowed_extensions :: "string list" where
  "allowed_extensions = [''.jpg'', ''.jpeg'', ''.png'', ''.webp'', ''.gif'']"

definition validate_payment_receipt_image :: "upload option \<Rightarrow> payment_error + upload option" where
  "validate_payment_receipt_image img =
     (case img of
        None \<Rightarrow> Inr None
      | Some f \<Rightarrow>
          if (case up_size f of None \<Rightarrow> False | Some n \<Rightarrow> n > receipt_max_size) then Inl ImageTooLarge
          else if up_content_type f \<noteq> [] \<and> lower (up_content_type f) \<notin> set allowed_content_types
          then Inl ImageTypeInvalid
          else if up_extension f \<noteq> [] \<and> lower (up_extension f) \<notin> set allowed_extensions
          then Inl ImageTypeInvalid
          else case up_verify f of
            ImageUnidentified \<Rightarrow> Inl ImageInvalid
          | ImageBroken \<Rightarrow> Inl ImageUnreadable
          | ImageOk \<Rightarrow> Inr (Some f))"

text \<open>
  A payment time is a \<open>time\<close> value (hour, minute, second), text in \<open>%H:%M\<close>, or missing; the
  result is the minute of the day. \<open>strptime\<close> takes one or two digits for each number.
\<close>

datatype time_input = TimeOf nat nat nat | TimeText string | TimeMissing

definition digits_value :: "string \<Rightarrow> nat" where
  "digits_value s = foldl (\<lambda>n c. 10 * n + (chr_code c - 48)) 0 s"

definition short_number :: "nat \<Rightarrow> string \<Rightarrow> bool" where
  "short_number bound s \<longleftrightarrow>
     s \<noteq> [] \<and> length s \<le> 2 \<and> list_all is_digit s \<and> digits_value s < bound"

definition parse_payment_time :: "time_input \<Rightarrow> payment_error + int" where
  "parse_payment_time t =
     (case t of
        TimeOf h m s \<Rightarrow> Inr (int h * 60 + int m)
      | TimeMissing \<Rightarrow> Inl PaymentTimeRequired
      | TimeText s \<Rightarrow>
          if s = [] then Inl PaymentTimeRequired
          else
            let hh = takeWhile (\<lambda>c. c \<noteq> CHR '':'') s; rest = dropWhile (\<lambda>c. c \<noteq> CHR '':'') s in
            if rest \<noteq> [] \<and> short_number 24 hh \<and> short_number 60 (tl rest)
            then Inr (int (digits_value hh) * 60 + int (digits_value (tl rest)))
            else Inl PaymentTimeInvalid)"

record cleaned_payment =
  cln_sender_card_name :: code_points
  cln_sender_card_last4 :: code_points
  cln_payment_time :: int
  cln_receipt_image :: "upload option"
  cln_receipt_text :: code_points

record submission =
  sb_sender_card_name :: code_points
  sb_sender_card_last4 :: code_points
  sb_payment_time :: time_input
  sb_receipt_image :: "upload option"
  sb_receipt_text :: code_points
  sb_require_receipt :: bool
  sb_require_receipt_image :: bool

text \<open>The checks run in the order of the source; the dictionary's entries are cleaned last.\<close>

definition clean_manual_payment_submission ::
  "submission \<Rightarrow> code_points \<Rightarrow> code_points \<Rightarrow> payment_error + cleaned_payment" where
  "clean_manual_payment_submission sb existing_name existing_last4 =
     (case clean_payment_receipt_text (sb_receipt_text sb) of Inl e \<Rightarrow> Inl e | Inr txt \<Rightarrow>
      case validate_payment_receipt_image (sb_receipt_image sb) of Inl e \<Rightarrow> Inl e | Inr img \<Rightarrow>
      if sb_require_receipt_image sb \<and> img = None then Inl ReceiptImageRequired
      else if sb_require_receipt sb \<and> img = None \<and> txt = [] then Inl ReceiptRequired
      else
      case clean_sender_card_name (sb_sender_card_name sb) existing_name of Inl e \<Rightarrow> Inl e | Inr name \<Rightarrow>
      case clean_sender_card_last4 (sb_sender_card_last4 sb) existing_last4 of Inl e \<Rightarrow> Inl e | Inr last4 \<Rightarrow>
      case parse_payment_time (sb_payment_time sb) of Inl e \<Rightarrow> Inl e | Inr t \<Rightarrow>
      Inr \<lparr>cln_sender_card_name = name, cln_sender_card_last4 = last4,
           cln_payment_time = t, cln_receipt_image = img, cln_receipt_text = txt\<rparr>)"

section \<open>Amounts and the save hook\<close>

definition is_manual_payment :: "order \<Rightarrow> bool" where
  "is_manual_payment ord \<longleftrightarrow> o_payment_method ord = ManualCard"

definition subtotal_amount :: "db \<Rightarrow> order \<Rightarrow> int" where
  "subtotal_amount d ord =
     (case Option.bind (o_plan ord) (row (db_plans d)) of None \<Rightarrow> 0 | Some p \<Rightarrow> pl_price p)
     * (if o_quantity ord = 0 then 1 else o_quantity ord)"

definition int_or :: "int \<Rightarrow> int \<Rightarrow> int" where
  "int_or a b = (if a = 0 then b else a)"

definition fill_from_plan :: "db \<Rightarrow> order \<Rightarrow> order" where
  "fill_from_plan d ord =
     (case Option.bind (o_plan ord) (row (db_plans d)) of
        None \<Rightarrow> ord
      | Some p \<Rightarrow>
          let ord1 = ord\<lparr>o_store := orelse (o_store ord) (pl_store p),
                         o_original_amount := int_or (o_original_amount ord) (subtotal_amount d ord)\<rparr>
          in ord1\<lparr>o_amount := (if o_amount ord1 = 0 \<and> o_discount_amount ord1 = 0
                               then int_or (o_original_amount ord1) (subtotal_amount d ord1)
                               else o_amount ord1),
                  o_currency := orelse (o_currency ord1) (Some (pl_currency p))\<rparr>)"

definition stamp_manual_payment :: "env \<Rightarrow> order \<Rightarrow> order" where
  "stamp_manual_payment en ord =
     (if is_manual_payment ord \<and>
         (o_is_paid ord \<or> o_status ord = PendingVerification \<or> o_payment_submitted_at ord \<noteq> None)
      then ord\<lparr>o_payment_submitted_at := orelse (o_payment_submitted_at ord) (Some (e_now en)),
               o_payment_date := orelse (o_payment_date ord) (Some (e_today en))\<rparr>
      else ord)"

definition normalize_on_save :: "env \<Rightarrow> db \<Rightarrow> order \<Rightarrow> order" where
  "normalize_on_save en d ord =
     (let ord1 = (if o_status ord = OrderLegacyPending then ord\<lparr>o_status := PendingVerification\<rparr> else ord)
      in stamp_manual_payment en (fill_from_plan d ord1))"

text \<open>\<open>order.save()\<close>, with the referral handler that \<open>post_save\<close> runs.\<close>

definition save_order :: "env \<Rightarrow> pk \<Rightarrow> order \<Rightarrow> db \<Rightarrow> db" where
  "save_order en k ord d =
     (let ord1 = normalize_on_save en d ord
      in snd (process_referral_purchase en k ord1 (put_order k ord1 d)))"

text \<open>\<open>Order.objects.create(...)\<close>: the second handler notifies the administrators on commit.\<close>

definition create_order :: "env \<Rightarrow> order \<Rightarrow> db \<Rightarrow> pk \<times> db" where
  "create_order en ord d =
     (let ord1 = normalize_on_save en d (ord\<lparr>o_created_at := e_now en\<rparr>);
          (k, t) = add_row ord1 (db_orders d);
          d1 = snd (process_referral_purchase en k ord1 (d\<lparr>db_orders := t\<rparr>))
      in (k, d1\<lparr>db_outbox := NewOrder k # db_outbox d1\<rparr>))"

section \<open>Discounts on an order\<close>

definition apply_discount ::
  "db \<Rightarrow> pk option \<Rightarrow> int \<Rightarrow> discount_source option \<Rightarrow> string \<Rightarrow> order \<Rightarrow> order" where
  "apply_discount d code amt source label ord =
     (let original = int_or (o_original_amount ord) (subtotal_amount d ord);
          taken = min amt original
      in ord\<lparr>o_original_amount := original, o_discount_code := code,
             o_discount_code_text := str_or label
               (case Option.bind code (get_discount d) of None \<Rightarrow> [] | Some c \<Rightarrow> dc_code c),
             o_discount_amount := taken, o_amount := max (original - taken) 0,
             o_discount_source := (case source of None \<Rightarrow> SrcManual | Some s \<Rightarrow> s)\<rparr>)"

definition decimal_char :: "nat \<Rightarrow> char" where
  "decimal_char n = char_of (48 + n)"

fun show_nat :: "nat \<Rightarrow> string" where
  "show_nat n = (if n < 10 then [decimal_char n] else show_nat (n div 10) @ [decimal_char (n mod 10)])"

declare show_nat.simps [simp del]

definition apply_wholesale_discount :: "db \<Rightarrow> int \<Rightarrow> order \<Rightarrow> order" where
  "apply_wholesale_discount d percent ord =
     (let original = int_or (o_original_amount ord) (subtotal_amount d ord);
          ord1 = ord\<lparr>o_original_amount := original\<rparr>;
          p = clamp 0 100 percent
      in if p = 0 then ord1
         else apply_discount d None (min (original * p div 100) original) (Some SrcWholesale)
                (''WHOLESALE '' @ show_nat (nat p) @ ''%'') ord1)"

section \<open>Payment submission, verification and rejection\<close>

definition receipt_metadata :: "bool \<Rightarrow> cleaned_payment \<Rightarrow> order \<Rightarrow> dict" where
  "receipt_metadata require cl ord =
     (let m = o_metadata ord;
          m1 = (if cln_receipt_text cl \<noteq> []
                then dset ''receipt_text'' (JStr (utf8 (cln_receipt_text cl))) m else m)
      in if cln_receipt_text cl \<noteq> [] \<or> require
         then dset ''receipt_analysis'' (analysis_json
                (analyze_receipt_text (cln_receipt_text cl) (o_amount ord) (o_currency ord))) m1
         else m1)"

definition submit_manual_payment :: "env \<Rightarrow> submission \<Rightarrow> order \<Rightarrow> payment_error + order" where
  "submit_manual_payment en sb ord =
     (case clean_manual_payment_submission sb (o_sender_card_name ord) (o_sender_card_last4 ord) of
        Inl e \<Rightarrow> Inl e
      | Inr cl \<Rightarrow>
          Inr (ord\<lparr>o_payment_method := ManualCard,
                   o_sender_card_name := cln_sender_card_name cl,
                   o_sender_card_last4 := cln_sender_card_last4 cl,
                   o_payment_date := Some (e_today en),
                   o_payment_time := Some (cln_payment_time cl),
                   o_payment_receipt_image := (case cln_receipt_image cl of
                       None \<Rightarrow> o_payment_receipt_image ord | Some f \<Rightarrow> up_name f),
                   o_metadata := receipt_metadata (sb_require_receipt sb) cl ord,
                   o_card_last_four := cln_sender_card_last4 cl,
                   o_is_paid := True,
                   o_payment_submitted_at := Some (e_now en),
                   o_status := PendingVerification,
                   o_verification_status := VerPending\<rparr>))"

definition mark_payment_verified :: "env \<Rightarrow> pk option \<Rightarrow> order \<Rightarrow> order" where
  "mark_payment_verified en user ord =
     ord\<lparr>o_is_paid := True, o_verification_status := VerVerified, o_verified_by := user,
         o_verified_at := Some (e_now en), o_status := Completed\<rparr>"

definition mark_payment_rejected :: "env \<Rightarrow> string \<Rightarrow> pk option \<Rightarrow> order \<Rightarrow> order" where
  "mark_payment_rejected en reason user ord =
     ord\<lparr>o_verification_status := VerRejected, o_verified_by := user,
         o_verified_at := Some (e_now en), o_rejection_reason := reason, o_status := Rejected\<rparr>"

definition can_be_activated :: "order \<Rightarrow> bool" where
  "can_be_activated ord \<longleftrightarrow> o_inbound ord \<noteq> None \<and> o_uuid ord \<noteq> []"

section \<open>Operator and revenue validation\<close>

datatype order_error =
    RevenueAmountNotPositive | AdminDirectNotRevenue | OperatorRequired | PlanNotForOperator

definition is_available_for_operator :: "db \<Rightarrow> plan \<Rightarrow> pk option \<Rightarrow> bool" where
  "is_available_for_operator d p oper =
     (case oper of
        None \<Rightarrow> False
      | Some k \<Rightarrow> k \<in> set (pl_operators p) \<and>
          (case row (db_operators d) k of None \<Rightarrow> False | Some op \<Rightarrow> op_is_active op))"

definition is_admin_direct_order :: "order \<Rightarrow> bool" where
  "is_admin_direct_order ord \<longleftrightarrow>
     truthy (dget ''admin_direct_purchase'' (o_metadata ord)) \<or>
     dget ''source'' (o_metadata ord) = JStr ''admin_direct_purchase''"

definition clean_order :: "db \<Rightarrow> order \<Rightarrow> order_error + unit" where
  "clean_order d ord =
     (if o_revenue_included ord = Some True \<and> (o_revenue_amount ord = None \<or> o_revenue_amount ord = Some 0)
      then Inl RevenueAmountNotPositive
      else if o_revenue_included ord = Some True \<and> is_admin_direct_order ord then Inl AdminDirectNotRevenue
      else
        let mode = (case Option.bind (o_store ord) (row (db_stores d)) of
                      None \<Rightarrow> Tunnel | Some st \<Rightarrow> st_sales_mode st)
        in if mode \<noteq> OperatorBased then Inr ()
           else if o_operator ord = None then Inl OperatorRequired
           else case Option.bind (o_plan ord) (row (db_plans d)) of
             None \<Rightarrow> Inr ()
           | Some p \<Rightarrow> if is_available_for_operator d p (o_operator ord) then Inr ()
                       else Inl PlanNotForOperator)"

section \<open>Reported revenue\<close>

definition order_counts_in_revenue :: "order \<Rightarrow> bool" where
  "order_counts_in_revenue ord \<longleftrightarrow> \<not> is_admin_direct_order ord \<and> o_revenue_included ord \<noteq> Some False"

definition order_revenue_amount :: "order \<Rightarrow> int" where
  "order_revenue_amount ord =
     (if \<not> order_counts_in_revenue ord \<or> o_status ord \<noteq> Completed \<or> \<not> o_is_paid ord then 0
      else if o_revenue_included ord = Some True
      then (case o_revenue_amount ord of None \<Rightarrow> 0 | Some n \<Rightarrow> n)
      else o_amount ord)"

text \<open>The SQL expression of the reports; \<open>None\<close> is \<open>NULL\<close>. A JSON lookup compares with the JSON
  value \<open>true\<close>, not with a truth value.\<close>

definition completed_paid_order_q :: "order \<Rightarrow> bool" where
  "completed_paid_order_q ord \<longleftrightarrow> o_status ord = Completed \<and> o_is_paid ord"

definition revenue_amount_expression :: "order \<Rightarrow> int option" where
  "revenue_amount_expression ord =
     (if dget ''admin_direct_purchase'' (o_metadata ord) = JBool True then Some 0
      else if dget ''source'' (o_metadata ord) = JStr ''admin_direct_purchase'' then Some 0
      else if o_revenue_included ord = Some False then Some 0
      else if completed_paid_order_q ord then
        (if o_revenue_included ord = Some True then o_revenue_amount ord else Some (o_amount ord))
      else Some 0)"

datatype revenue_form_error = AmountNotValid

text \<open>\<open>RevenueSettingsForm.clean\<close>: the choice and the cleaned amount; both separators are dropped.\<close>

definition clean_revenue_form ::
  "bool \<Rightarrow> code_points \<Rightarrow> revenue_form_error option \<times> bool \<times> int option" where
  "clean_revenue_form included entered =
     (let raw = filter (\<lambda>c. c \<noteq> 44 \<and> c \<noteq> 1644) (strip_points (normalize_payment_digits entered)) in
      if \<not> included then (None, False, None)
      else if raw = [] \<or> \<not> list_all ascii_digit raw \<or> length raw > 10 \<or>
              \<not> (0 < points_value raw \<and> points_value raw \<le> 2147483647)
      then (Some AmountNotValid, True, None)
      else (None, True, Some (int (points_value raw))))"

definition update_order_revenue :: "pk \<Rightarrow> bool \<Rightarrow> int option \<Rightarrow> db \<Rightarrow> (order_error + unit) \<times> db" where
  "update_order_revenue k included amt d =
     (case get_order d k of
        None \<Rightarrow> (Inr (), d)
      | Some ord \<Rightarrow>
          if is_admin_direct_order ord \<and> included then (Inl AdminDirectNotRevenue, d)
          else if included \<and> (case amt of None \<Rightarrow> True | Some n \<Rightarrow> \<not> (0 < n \<and> n \<le> 2147483647))
          then (Inl RevenueAmountNotPositive, d)
          else (Inr (), put_order k (ord\<lparr>o_revenue_included := Some included,
                  o_revenue_amount := (if included then amt else None)\<rparr>) d))"

section \<open>Recovery\<close>

definition record_order_metadata :: "env \<Rightarrow> pk \<Rightarrow> string \<Rightarrow> json \<Rightarrow> db \<Rightarrow> db" where
  "record_order_metadata en k key v d =
     (case get_order d k of
        None \<Rightarrow> d
      | Some ord \<Rightarrow> save_order en k (ord\<lparr>o_metadata := dset key v (o_metadata ord)\<rparr>) d)"

definition order_has_partial_delivery :: "order \<Rightarrow> bool" where
  "order_has_partial_delivery ord =
     (let m = o_metadata ord in
      if truthy (dget ''renewal_client_pk'' m) then False
      else dget ''status'' (as_dict (dget ''cup_fulfillment_recipe'' m)) = JStr ''partial'' \<or>
           truthy (dget ''failed_source_result_count'' (as_dict (dget ''plan_delivery_v2'' m))))"

definition can_retry_order :: "audit option \<Rightarrow> order \<Rightarrow> bool" where
  "can_retry_order au ord =
     (if (case au of None \<Rightarrow> False
          | Some a \<Rightarrow> au_review_status a \<in> {RevCancelling, RevCancelFailed, RevCancelled}) then False
      else o_status ord \<noteq> Rejected \<and> o_status ord \<noteq> Cancelled \<and>
           (o_status ord \<noteq> Completed \<or> order_has_partial_delivery ord) \<and>
           o_verification_status ord \<noteq> VerRejected \<and>
           (o_is_paid ord \<or> o_payment_submitted_at ord \<noteq> None \<or>
            o_provisioning_status ord \<in> {ProvFailed, ProvProvisioning} \<or>
            truthy (dget ''panel_provisioning_deferred'' (o_metadata ord))))"

definition can_resend_order :: "order \<Rightarrow> bool" where
  "can_resend_order ord \<longleftrightarrow> o_status ord = Completed \<and> o_verification_status ord = VerVerified"

section \<open>Helper facts\<close>

lemma subtotal_update [simp]:
  "subtotal_amount d (ord\<lparr>o_store := s\<rparr>) = subtotal_amount d ord"
  "subtotal_amount d (ord\<lparr>o_original_amount := a\<rparr>) = subtotal_amount d ord"
  "subtotal_amount d (ord\<lparr>o_status := t\<rparr>) = subtotal_amount d ord"
  "subtotal_amount d (ord\<lparr>o_amount := b\<rparr>) = subtotal_amount d ord"
  "subtotal_amount d (ord\<lparr>o_currency := c\<rparr>) = subtotal_amount d ord"
  "subtotal_amount d (ord\<lparr>o_payment_submitted_at := i\<rparr>) = subtotal_amount d ord"
  "subtotal_amount d (ord\<lparr>o_payment_date := j\<rparr>) = subtotal_amount d ord"
  by (simp_all add: subtotal_amount_def)

text \<open>The columns a save never changes.\<close>

lemma normalize_keeps [simp]:
  "o_customer (normalize_on_save en d ord) = o_customer ord"
  "o_plan (normalize_on_save en d ord) = o_plan ord"
  "o_verification_status (normalize_on_save en d ord) = o_verification_status ord"
  "o_is_paid (normalize_on_save en d ord) = o_is_paid ord"
  "o_verified_at (normalize_on_save en d ord) = o_verified_at ord"
  "o_verified_by (normalize_on_save en d ord) = o_verified_by ord"
  "o_metadata (normalize_on_save en d ord) = o_metadata ord"
  "o_provisioning_status (normalize_on_save en d ord) = o_provisioning_status ord"
  "o_inbound (normalize_on_save en d ord) = o_inbound ord"
  "o_rejection_reason (normalize_on_save en d ord) = o_rejection_reason ord"
  "o_discount_code (normalize_on_save en d ord) = o_discount_code ord"
  "o_discount_amount (normalize_on_save en d ord) = o_discount_amount ord"
  "o_payment_method (normalize_on_save en d ord) = o_payment_method ord"
  "o_created_at (normalize_on_save en d ord) = o_created_at ord"
  "o_quantity (normalize_on_save en d ord) = o_quantity ord"
  "o_uuid (normalize_on_save en d ord) = o_uuid ord"
  "o_username (normalize_on_save en d ord) = o_username ord"
  "o_operator (normalize_on_save en d ord) = o_operator ord"
  by (simp_all add: normalize_on_save_def stamp_manual_payment_def fill_from_plan_def Let_def
      split: option.splits)

lemma normalize_status [simp]:
  "o_status (normalize_on_save en d ord) =
   (if o_status ord = OrderLegacyPending then PendingVerification else o_status ord)"
  by (simp add: normalize_on_save_def stamp_manual_payment_def fill_from_plan_def Let_def
      split: option.splits)

lemma normalize_store:
  "o_store ord \<noteq> None \<Longrightarrow> o_store (normalize_on_save en d ord) = o_store ord"
  by (auto simp: normalize_on_save_def stamp_manual_payment_def fill_from_plan_def Let_def
      split: option.splits)

lemma normalize_submitted:
  "o_payment_submitted_at ord = Some t \<Longrightarrow> o_payment_submitted_at (normalize_on_save en d ord) = Some t"
  by (auto simp: normalize_on_save_def stamp_manual_payment_def fill_from_plan_def Let_def
      split: option.splits)

lemma fill_from_plan_again: "fill_from_plan d (fill_from_plan d ord) = fill_from_plan d ord"
proof (cases "Option.bind (o_plan ord) (row (db_plans d))")
  case None
  then show ?thesis by (simp add: fill_from_plan_def)
next
  case (Some p)
  then show ?thesis by (simp add: fill_from_plan_def Let_def int_or_def)
qed

lemma fill_from_plan_keeps [simp]:
  "o_status (fill_from_plan d ord) = o_status ord"
  "o_is_paid (fill_from_plan d ord) = o_is_paid ord"
  "o_payment_method (fill_from_plan d ord) = o_payment_method ord"
  "o_payment_submitted_at (fill_from_plan d ord) = o_payment_submitted_at ord"
  "o_payment_date (fill_from_plan d ord) = o_payment_date ord"
  by (simp_all add: fill_from_plan_def Let_def split: option.splits)

lemma fill_from_plan_stamp [simp]:
  "fill_from_plan d (ord\<lparr>o_payment_submitted_at := i, o_payment_date := j\<rparr>) =
   (fill_from_plan d ord)\<lparr>o_payment_submitted_at := i, o_payment_date := j\<rparr>"
  by (simp add: fill_from_plan_def Let_def split: option.split)

lemma stamp_again: "stamp_manual_payment en2 (stamp_manual_payment en ord) = stamp_manual_payment en ord"
  by (auto simp: stamp_manual_payment_def is_manual_payment_def)

lemma stamp_fill:
  "fill_from_plan d (stamp_manual_payment en ord) = stamp_manual_payment en (fill_from_plan d ord)"
  by (auto simp: stamp_manual_payment_def is_manual_payment_def)

lemma normalize_current:
  "o_status ord \<noteq> OrderLegacyPending \<Longrightarrow>
   normalize_on_save en d ord = stamp_manual_payment en (fill_from_plan d ord)"
  by (simp add: normalize_on_save_def)

lemma normalize_again:
  "normalize_on_save en2 d (normalize_on_save en d ord) = normalize_on_save en d ord"
proof -
  let ?l = "if o_status ord = OrderLegacyPending then ord\<lparr>o_status := PendingVerification\<rparr> else ord"
  have n: "normalize_on_save en d ord = stamp_manual_payment en (fill_from_plan d ?l)"
    by (simp add: normalize_on_save_def)
  have "normalize_on_save en2 d (normalize_on_save en d ord) =
        stamp_manual_payment en2 (fill_from_plan d (normalize_on_save en d ord))"
    by (rule normalize_current) simp
  also have "\<dots> = normalize_on_save en d ord"
    unfolding n stamp_fill fill_from_plan_again stamp_again ..
  finally show ?thesis .
qed

lemma save_reward_frame:
  "reward_frame (put_order k (normalize_on_save en d ord) d) (save_order en k ord d)"
  by (cases "process_referral_purchase en k (normalize_on_save en d ord)
                (put_order k (normalize_on_save en d ord) d)")
     (auto simp: save_order_def Let_def dest: process_referral_frame)

lemma save_get:
  "get_order (save_order en k ord d) j = (if j = k then Some (normalize_on_save en d ord) else get_order d j)"
  using save_reward_frame [of k en d ord]
  by (auto simp: reward_frame_def get_order_def put_order_def row_put)

lemma save_frame [simp]:
  "get_audit (save_order en k ord d) = get_audit d"
  "get_client (save_order en k ord d) = get_client d"
  "get_inbound (save_order en k ord d) = get_inbound d"
  "db_stores (save_order en k ord d) = db_stores d"
  "db_customers (save_order en k ord d) = db_customers d"
  "db_panels (save_order en k ord d) = db_panels d"
  "db_routes (save_order en k ord d) = db_routes d"
  "db_operators (save_order en k ord d) = db_operators d"
  "db_inbounds (save_order en k ord d) = db_inbounds d"
  "db_audits (save_order en k ord d) = db_audits d"
  "db_clients (save_order en k ord d) = db_clients d"
  "db_cups (save_order en k ord d) = db_cups d"
  "db_cup_items (save_order en k ord d) = db_cup_items d"
  "db_config_links (save_order en k ord d) = db_config_links d"
  "db_feeds (save_order en k ord d) = db_feeds d"
  "db_ledgers (save_order en k ord d) = db_ledgers d"
  "db_outbox (save_order en k ord d) = db_outbox d"
  using save_reward_frame [of k en d ord]
  by (simp_all add: reward_frame_def access_defs fun_eq_iff)

lemma create_order_get:
  assumes "create_order en ord d = (k, d')"
  shows "k = fresh_pk (db_orders d)"
    and "get_order d' j = (if j = k then Some (normalize_on_save en d (ord\<lparr>o_created_at := e_now en\<rparr>))
                           else get_order d j)"
proof -
  let ?o = "normalize_on_save en d (ord\<lparr>o_created_at := e_now en\<rparr>)"
  let ?d = "d\<lparr>db_orders := db_orders d @ [(fresh_pk (db_orders d), ?o)]\<rparr>"
  from assms show k: "k = fresh_pk (db_orders d)"
    by (simp add: create_order_def Let_def add_row_def)
  have d': "db_orders d' = db_orders (snd (process_referral_purchase en k ?o ?d))"
    using assms k by (auto simp: create_order_def Let_def add_row_def)
  have "reward_frame ?d (snd (process_referral_purchase en k ?o ?d))"
    using process_referral_frame [of en k ?o ?d] by (cases "process_referral_purchase en k ?o ?d") auto
  with d' have "db_orders d' = db_orders d @ [(k, ?o)]" using k by (simp add: reward_frame_def)
  then show "get_order d' j = (if j = k then Some ?o else get_order d j)"
    unfolding get_order_def by (simp only: k row_append_fresh)
qed

text \<open>The amounts of an order agree: what is due is the original amount less the discount.\<close>

definition amounts_ok :: "order \<Rightarrow> bool" where
  "amounts_ok ord \<longleftrightarrow> 0 \<le> o_discount_amount ord \<and> o_discount_amount ord \<le> o_original_amount ord \<and>
     o_amount ord = o_original_amount ord - o_discount_amount ord"

lemma amounts_ok_update [simp]:
  "amounts_ok (ord\<lparr>o_status := t\<rparr>) = amounts_ok ord"
  "amounts_ok (ord\<lparr>o_payment_submitted_at := i, o_payment_date := j\<rparr>) = amounts_ok ord"
  "amounts_ok (ord\<lparr>o_currency := c\<rparr>) = amounts_ok ord"
  by (simp_all add: amounts_ok_def)

lemma fill_from_plan_amounts:
  "amounts_ok ord \<Longrightarrow> 0 \<le> subtotal_amount d ord \<Longrightarrow> amounts_ok (fill_from_plan d ord)"
  by (auto simp: amounts_ok_def fill_from_plan_def Let_def int_or_def split: option.splits)

lemma normalize_amounts:
  assumes "amounts_ok ord" and "0 \<le> subtotal_amount d ord"
  shows "amounts_ok (normalize_on_save en d ord)"
  using fill_from_plan_amounts [of ord d] fill_from_plan_amounts [of "ord\<lparr>o_status := PendingVerification\<rparr>" d] assms
  by (simp add: normalize_on_save_def stamp_manual_payment_def Let_def)

lemma apply_discount_amounts:
  "0 \<le> amt \<Longrightarrow> 0 \<le> int_or (o_original_amount ord) (subtotal_amount d ord) \<Longrightarrow>
   amounts_ok (apply_discount d code amt source label ord)"
  by (simp add: apply_discount_def amounts_ok_def Let_def)

lemma clean_last4_digits:
  assumes "clean_sender_card_last4 v f = Inr ds"
  shows "(ds = [] \<or> length ds = 4) \<and> list_all ascii_digit ds"
  using assms
  by (auto simp: clean_sender_card_last4_def Let_def list_all_iff split: if_splits)

lemma clean_name_bounds:
  "clean_sender_card_name v f = Inr n \<Longrightarrow> n \<noteq> [] \<and> length n \<le> 100"
  by (auto simp: clean_sender_card_name_def Let_def split: if_splits)

lemma digits_value_below:
  assumes "short_number b s"
  shows "digits_value s < b"
  using assms by (simp add: short_number_def)

lemma clean_time_bounds:
  assumes "parse_payment_time t = Inr m" and "\<And>h mi s. t = TimeOf h mi s \<Longrightarrow> h < 24 \<and> mi < 60"
  shows "0 \<le> m \<and> m < 24 * 60"
proof (cases t)
  case (TimeOf h mi s)
  with assms show ?thesis by (fastforce simp: parse_payment_time_def)
next
  case (TimeText s)
  let ?hh = "takeWhile (\<lambda>c. c \<noteq> CHR '':'') s" and ?mm = "tl (dropWhile (\<lambda>c. c \<noteq> CHR '':'') s)"
  from assms(1) TimeText have "short_number 24 ?hh" "short_number 60 ?mm"
    and m: "m = int (digits_value ?hh) * 60 + int (digits_value ?mm)"
    by (auto simp: parse_payment_time_def Let_def split: if_splits)
  then have "digits_value ?hh < 24" "digits_value ?mm < 60" by (auto dest: digits_value_below)
  with m show ?thesis by linarith
next
  case TimeMissing
  with assms show ?thesis by (simp add: parse_payment_time_def)
qed

lemma submit_cleaned:
  assumes "submit_manual_payment en sb ord = Inr ord'"
  obtains cl where
    "clean_manual_payment_submission sb (o_sender_card_name ord) (o_sender_card_last4 ord) = Inr cl"
    and "o_sender_card_name ord' = cln_sender_card_name cl"
    and "o_sender_card_last4 ord' = cln_sender_card_last4 cl"
    and "o_card_last_four ord' = cln_sender_card_last4 cl"
    and "o_payment_time ord' = Some (cln_payment_time cl)"
    and "o_metadata ord' = receipt_metadata (sb_require_receipt sb) cl ord"
  using assms by (auto simp: submit_manual_payment_def split: sum.splits)

lemma clean_submission_cases:
  assumes "clean_manual_payment_submission sb n l = Inr cl"
  shows "clean_sender_card_name (sb_sender_card_name sb) n = Inr (cln_sender_card_name cl)"
    and "clean_sender_card_last4 (sb_sender_card_last4 sb) l = Inr (cln_sender_card_last4 cl)"
    and "parse_payment_time (sb_payment_time sb) = Inr (cln_payment_time cl)"
    and "sb_require_receipt_image sb \<longrightarrow> cln_receipt_image cl \<noteq> None"
    and "sb_require_receipt sb \<longrightarrow> cln_receipt_image cl \<noteq> None \<or> cln_receipt_text cl \<noteq> []"
    and "length (cln_receipt_text cl) \<le> 1200"
  using assms
  by (auto simp: clean_manual_payment_submission_def clean_payment_receipt_text_def Let_def
      split: sum.splits if_splits)

lemma normalize_original_amounts:
  assumes "amounts_ok ord" and "0 \<le> subtotal_amount d ord"
  shows "amounts_ok (normalize_on_save en d
    (ord\<lparr>o_original_amount := int_or (o_original_amount ord) (subtotal_amount d ord)\<rparr>))"
proof -
  have "amounts_ok (fill_from_plan d (ord\<lparr>o_original_amount := int_or (o_original_amount ord) (subtotal_amount d ord),
      o_status := st\<rparr>))" for st
    using assms
    by (auto simp: amounts_ok_def fill_from_plan_def Let_def int_or_def subtotal_amount_def split: option.splits)
  from this [of "o_status ord"] this [of PendingVerification] show ?thesis
    by (simp add: normalize_on_save_def stamp_manual_payment_def Let_def)
qed

end
