(* ===== verification/Catalogue.thy ===== *)
theory Catalogue
  imports Orders
begin

text \<open>
  The remaining model methods of \<open>store/models.py\<close>: the life of a \<open>VPNClient\<close>, access to a
  \<open>SubscriptionCup\<close>, capacity and sellability of an \<open>Inbound\<close>, validation of inbounds and plan
  routes, and the save hooks of \<open>Store\<close> and \<open>Customer\<close>.
\<close>

section \<open>VPN clients\<close>

definition mark_active :: "env \<Rightarrow> int \<Rightarrow> vpn_client \<Rightarrow> vpn_client" where
  "mark_active en duration_days c =
     (let duration = int_or duration_days (vc_duration_days c) in
      c\<lparr>vc_status := ClActive,
        vc_activated_at := orelse (vc_activated_at c) (Some (e_now en)),
        vc_expires_at := (if duration \<noteq> 0 then Some (e_now en + days duration) else vc_expires_at c),
        vc_disabled_at := None\<rparr>)"

definition mark_suspended :: "env \<Rightarrow> vpn_client \<Rightarrow> vpn_client" where
  "mark_suspended en c = c\<lparr>vc_status := ClSuspended, vc_disabled_at := Some (e_now en)\<rparr>"

definition mark_deleted ::
  "env \<Rightarrow> pk option \<Rightarrow> string \<Rightarrow> string \<Rightarrow> instant option \<Rightarrow> vpn_client \<Rightarrow> vpn_client" where
  "mark_deleted en cust admin_id reason remote_deleted_at c =
     c\<lparr>vc_status := ClDeleted,
       vc_deleted_at := orelse (vc_deleted_at c) (Some (e_now en)),
       vc_disabled_at := orelse (vc_disabled_at c) (Some (e_now en)),
       vc_remote_deleted_at := orelse remote_deleted_at (orelse (vc_remote_deleted_at c) (Some (e_now en))),
       vc_deleted_by_customer := orelse cust (vc_deleted_by_customer c),
       vc_deleted_by_admin := str_or admin_id (vc_deleted_by_admin c),
       vc_delete_reason := str_or reason (vc_delete_reason c),
       vc_sub_link := [], vc_direct_link := []\<rparr>"

definition is_deleted :: "vpn_client \<Rightarrow> bool" where
  "is_deleted c \<longleftrightarrow> vc_status c = ClDeleted \<or> vc_deleted_at c \<noteq> None"

definition client_is_expired :: "env \<Rightarrow> vpn_client \<Rightarrow> bool" where
  "client_is_expired en c \<longleftrightarrow> (case vc_expires_at c of None \<Rightarrow> False | Some t \<Rightarrow> t \<le> e_now en)"

definition remaining_traffic_bytes :: "vpn_client \<Rightarrow> int" where
  "remaining_traffic_bytes c =
     (if vc_traffic_limit_bytes c = 0 then 0
      else max (vc_traffic_limit_bytes c - vc_used_traffic_bytes c) 0)"

text \<open>The statistics dictionary; a missing or zero total and missing instants keep the old value.\<close>

record usage_stats =
  us_upload :: int
  us_download :: int
  us_traffic :: int
  us_total :: "int option"
  us_expiry_at :: "instant option"
  us_last_online_at :: "instant option"
  us_raw :: dict

definition sync_usage_fields :: "env \<Rightarrow> usage_stats \<Rightarrow> vpn_client \<Rightarrow> vpn_client" where
  "sync_usage_fields en s c =
     c\<lparr>vc_used_upload_bytes := us_upload s, vc_used_download_bytes := us_download s,
       vc_used_traffic_bytes := us_traffic s,
       vc_traffic_limit_bytes := int_or (case us_total s of None \<Rightarrow> 0 | Some n \<Rightarrow> n) (vc_traffic_limit_bytes c),
       vc_expires_at := orelse (us_expiry_at s) (vc_expires_at c),
       vc_last_online_at := orelse (us_last_online_at s) (vc_last_online_at c),
       vc_last_synced_at := Some (e_now en), vc_xui_raw := us_raw s\<rparr>"

text \<open>\<open>order.vpn_clients\<close> and the queries \<open>Order\<close> makes over it.\<close>

definition clients_of_order :: "pk \<Rightarrow> db \<Rightarrow> (pk \<times> vpn_client) list" where
  "clients_of_order k d = rows_where (\<lambda>_ c. vc_order c = Some k) (db_clients d)"

definition get_vpn_clients :: "pk \<Rightarrow> db \<Rightarrow> (pk \<times> vpn_client) list" where
  "get_vpn_clients k d =
     rows_where (\<lambda>_ c. vc_order c = Some k \<and> vc_status c \<noteq> ClDeleted \<and> vc_deleted_at c = None)
       (db_clients d)"

definition get_remaining_traffic :: "pk \<Rightarrow> db \<Rightarrow> int" where
  "get_remaining_traffic k d = sum_list (map (\<lambda>(_, c). remaining_traffic_bytes c) (get_vpn_clients k d))"

definition order_is_active :: "pk \<Rightarrow> db \<Rightarrow> bool" where
  "order_is_active k d \<longleftrightarrow>
     exists_where (\<lambda>_ c. vc_order c = Some k \<and> vc_status c = ClActive \<and> vc_deleted_at c = None)
       (db_clients d)"

section \<open>Subscription cups\<close>

definition cup_is_expired :: "env \<Rightarrow> cup \<Rightarrow> bool" where
  "cup_is_expired en c \<longleftrightarrow> (case cp_expires_at c of None \<Rightarrow> False | Some t \<Rightarrow> t \<le> e_now en)"

definition cup_is_accessible :: "env \<Rightarrow> cup \<Rightarrow> bool" where
  "cup_is_accessible en c \<longleftrightarrow> cp_status c = CupActive \<and> \<not> cup_is_expired en c"

section \<open>Inbounds\<close>

definition panel_of :: "db \<Rightarrow> inbound \<Rightarrow> panel option" where
  "panel_of d i = Option.bind (ib_panel i) (row (db_panels d))"

definition available_capacity :: "inbound \<Rightarrow> int option" where
  "available_capacity i = map_option (\<lambda>m. max (m - ib_current_users i) 0) (ib_max_clients i)"

definition has_capacity :: "inbound \<Rightarrow> bool" where
  "has_capacity i \<longleftrightarrow> (case ib_max_clients i of None \<Rightarrow> True | Some m \<Rightarrow> ib_current_users i < m)"

definition requires_sellability_verification :: "db \<Rightarrow> inbound \<Rightarrow> bool" where
  "requires_sellability_verification d i \<longleftrightarrow>
     (case panel_of d i of
        None \<Rightarrow> False
      | Some p \<Rightarrow>
          pn_family p = FamPasarguard \<and> ib_xui_source i = PasarguardGroup \<and>
          (dget ''remote_source'' (ib_metadata i) = JStr ''groups_simple'' \<or>
           dget ''disabled_known'' (ib_metadata i) = JBool False \<or>
           dget ''inbound_tags_known'' (ib_metadata i) = JBool False))"

definition sellability_verification_is_stale :: "env \<Rightarrow> inbound \<Rightarrow> bool" where
  "sellability_verification_is_stale en i \<longleftrightarrow>
     ib_verification_status i = VerifiedSellable \<and>
     (case ib_verified_at i of None \<Rightarrow> False | Some t \<Rightarrow> t \<le> e_now en - days 7)"

datatype catalogue_error =
    PanelRequired | PanelInactive | StoreMismatch | OperatorStoreMismatch | InboundStoreMismatch
  | InboundPlanStoreMismatch | InboundRequired | InboundInactive | InboundNotForSale
  | SourceNotVerified | InboundWithoutPanel | OperatorInactive | OperatorNotOfPlan
  | SelfReferral | ReferrerChanged

text \<open>The \<open>errors\<close> dictionary of a \<open>clean\<close> method, by field.\<close>

type_synonym errors = "(string \<times> catalogue_error) list"

definition flag :: "bool \<Rightarrow> string \<Rightarrow> catalogue_error \<Rightarrow> errors \<Rightarrow> errors" where
  "flag cond field e errs = (if cond then AList.update field e errs else errs)"

definition clean_inbound :: "db \<Rightarrow> inbound \<Rightarrow> errors" where
  "clean_inbound d i =
     (case panel_of d i of
        None \<Rightarrow> [(''panel'', PanelRequired)]
      | Some p \<Rightarrow> if ib_is_active i \<and> \<not> pn_is_active p then [(''is_active'', PanelInactive)] else [])"

text \<open>What the active branch of \<open>PlanInboundRoute.clean\<close> says about the inbound.\<close>

definition route_inbound_error :: "db \<Rightarrow> inbound option \<Rightarrow> catalogue_error option" where
  "route_inbound_error d i =
     (case i of
        None \<Rightarrow> Some InboundRequired
      | Some ib \<Rightarrow>
          if \<not> ib_is_active ib then Some InboundInactive
          else if \<not> ib_available_for_new_orders ib then Some InboundNotForSale
          else if requires_sellability_verification d ib \<and> ib_verification_status ib \<noteq> VerifiedSellable
          then Some SourceNotVerified
          else (case panel_of d ib of
                  None \<Rightarrow> Some InboundWithoutPanel
                | Some p \<Rightarrow> if \<not> pn_is_active p then Some PanelInactive else None))"

definition route_operator_error :: "db \<Rightarrow> pk \<Rightarrow> pk option \<Rightarrow> catalogue_error option" where
  "route_operator_error d plan_pk oper =
     (case Option.bind oper (row (db_operators d)) of
        None \<Rightarrow> None
      | Some op \<Rightarrow>
          if \<not> op_is_active op then Some OperatorInactive
          else (case row (db_plans d) plan_pk of
                  None \<Rightarrow> None
                | Some p \<Rightarrow> if oper \<in> Some ` set (pl_operators p) then None else Some OperatorNotOfPlan))"

definition owner_clash :: "pk option \<Rightarrow> pk option \<Rightarrow> bool" where
  "owner_clash a b \<longleftrightarrow> (case (a, b) of (Some x, Some y) \<Rightarrow> x \<noteq> y | _ \<Rightarrow> False)"

definition route_ownership_errors :: "db \<Rightarrow> route \<Rightarrow> errors" where
  "route_ownership_errors d r =
     (let plan_store = Option.bind (row (db_plans d) (rt_plan r)) pl_store;
          op_st = Option.bind (Option.bind (rt_operator r) (row (db_operators d))) op_store;
          panel_store = Option.bind (Option.bind (row (db_inbounds d) (rt_inbound r)) (panel_of d)) pn_store
      in flag (owner_clash plan_store panel_store) ''inbound'' InboundPlanStoreMismatch
           (flag (owner_clash (rt_store r) panel_store) ''inbound'' InboundStoreMismatch
             (flag (owner_clash (rt_store r) op_st) ''operator'' OperatorStoreMismatch
               (flag (owner_clash (rt_store r) plan_store) ''store'' StoreMismatch []))))"

definition clean_route :: "db \<Rightarrow> route \<Rightarrow> errors" where
  "clean_route d r =
     (let errs = route_ownership_errors d r in
      if \<not> rt_is_active r then errs
      else
        let errs1 = (case route_inbound_error d (row (db_inbounds d) (rt_inbound r)) of
                       None \<Rightarrow> errs | Some e \<Rightarrow> flag True ''inbound'' e errs)
        in case route_operator_error d (rt_plan r) (rt_operator r) of
             None \<Rightarrow> errs1 | Some e \<Rightarrow> flag True ''operator'' e errs1)"

section \<open>Store and customer save hooks\<close>

text \<open>Turning timed approval on stamps the moment it was turned on; \<open>touches\<close> says that the save
  writes every field or names \<open>order_auto_approve_enabled\<close>.\<close>

definition save_store :: "env \<Rightarrow> bool \<Rightarrow> pk \<Rightarrow> store \<Rightarrow> db \<Rightarrow> db" where
  "save_store en touches k st d =
     (let was_enabled = (case row (db_stores d) k of None \<Rightarrow> False | Some s \<Rightarrow> st_order_auto_approve_enabled s);
          st1 = (if st_order_auto_approve_enabled st \<and> touches \<and> \<not> was_enabled
                 then st\<lparr>st_order_auto_approve_enabled_at := Some (e_now en)\<rparr> else st)
      in d\<lparr>db_stores := put k st1 (db_stores d)\<rparr>)"

definition referral_code_taken :: "string \<Rightarrow> db \<Rightarrow> bool" where
  "referral_code_taken c d \<longleftrightarrow> exists_where (\<lambda>_ r. cu_referral_code r = c) (db_customers d)"

fun try_referral_codes :: "env \<Rightarrow> nat \<Rightarrow> db \<Rightarrow> string option \<times> db" where
  "try_referral_codes en 0 d = (None, d)"
| "try_referral_codes en (Suc n) d =
     (let (s, d1) = draw (e_code en) d in
      if referral_code_taken (''RF'' @ s) d1 then try_referral_codes en n d1
      else (Some (''RF'' @ s), d1))"

definition generate_unique_referral_code :: "env \<Rightarrow> db \<Rightarrow> string \<times> db" where
  "generate_unique_referral_code en d =
     (case try_referral_codes en 20 d of
        (Some c, d1) \<Rightarrow> (c, d1)
      | (None, d1) \<Rightarrow> let (u, d2) = draw (e_uuid en) d1 in (''RF'' @ upper (take 10 u), d2))"

text \<open>\<open>Customer.save\<close> on a customer that already has a primary key.\<close>

definition save_customer :: "env \<Rightarrow> pk \<Rightarrow> customer \<Rightarrow> db \<Rightarrow> (catalogue_error + unit) \<times> db" where
  "save_customer en k c d =
     (let c1 = c\<lparr>cu_username := strip (cu_username c), cu_phone_number := strip (cu_phone_number c)\<rparr>;
          old = Option.bind (row (db_customers d) k) cu_referred_by
      in if cu_referred_by c1 = Some k then (Inl SelfReferral, d)
         else if old \<noteq> None \<and> old \<noteq> cu_referred_by c1 then (Inl ReferrerChanged, d)
         else
           let (code, d1) = (if cu_referral_code c1 = [] then generate_unique_referral_code en d
                             else (cu_referral_code c1, d));
               c2 = c1\<lparr>cu_referral_code := code,
                       cu_display_name := (if cu_display_name c1 = [] \<and> cu_public_id c1 \<noteq> []
                          then str_or (cu_username c1) (str_or (cu_phone_number c1)
                                 (''Customer '' @ take 8 (cu_public_id c1)))
                          else cu_display_name c1)\<rparr>
           in (Inr (), d1\<lparr>db_customers := put k c2 (db_customers d1)\<rparr>))"

section \<open>Helper facts\<close>

lemma clients_of_order_in: "(k, c) \<in> set (clients_of_order ord d) \<longleftrightarrow> (k, c) \<in> set (db_clients d) \<and> vc_order c = Some ord"
  by (simp add: clients_of_order_def set_rows_where)

lemma clients_of_order_get:
  "wf_table (db_clients d) \<Longrightarrow> (k, c) \<in> set (clients_of_order ord d) \<Longrightarrow>
   get_client d k = Some c \<and> vc_order c = Some ord"
  by (simp add: clients_of_order_in get_client_def in_row_Some)

lemma mark_deleted_again:
  "mark_deleted en2 None [] [] None (mark_deleted en cust adm reason rd c) = mark_deleted en cust adm reason rd c"
  by (cases "vc_remote_deleted_at c"; cases rd) (simp_all add: mark_deleted_def str_or_def)

lemma try_referral_codes_fresh:
  "try_referral_codes en n d = (Some c, d') \<Longrightarrow> \<not> referral_code_taken c d \<and> db_customers d' = db_customers d"
proof (induction n arbitrary: d)
  case 0
  then show ?case by simp
next
  case (Suc n)
  let ?d1 = "d\<lparr>db_draws := Suc (db_draws d)\<rparr>"
  have same: "referral_code_taken x ?d1 = referral_code_taken x d" for x
    by (simp add: referral_code_taken_def)
  show ?case
  proof (cases "referral_code_taken (''RF'' @ e_code en (db_draws d)) ?d1")
    case True
    with Suc.prems have "try_referral_codes en n ?d1 = (Some c, d')" by (simp add: draw_def)
    from Suc.IH [OF this] show ?thesis by (simp add: same)
  next
    case False
    with Suc.prems show ?thesis by (auto simp: draw_def same)
  qed
qed

lemma try_referral_codes_customers:
  "try_referral_codes en n d = (r, d') \<Longrightarrow> db_customers d' = db_customers d"
proof (induction n arbitrary: d)
  case 0
  then show ?case by simp
next
  case (Suc n)
  let ?d1 = "d\<lparr>db_draws := Suc (db_draws d)\<rparr>"
  from Suc.prems consider "try_referral_codes en n ?d1 = (r, d')" | "d' = ?d1"
    by (auto simp: draw_def split: if_splits)
  then show ?case using Suc.IH [of ?d1] by cases auto
qed

lemma generate_referral_code_customers:
  assumes "generate_unique_referral_code en d = (c, d')"
  shows "db_customers d' = db_customers d"
proof -
  obtain r d1 where t: "try_referral_codes en 20 d = (r, d1)" by (cases "try_referral_codes en 20 d")
  then have "db_customers d1 = db_customers d" by (rule try_referral_codes_customers)
  moreover have "db_customers d' = db_customers d1"
    using assms t by (cases r) (auto simp: generate_unique_referral_code_def draw_def)
  ultimately show ?thesis by simp
qed

lemma has_capacity_available:
  "has_capacity i \<longleftrightarrow> (case available_capacity i of None \<Rightarrow> True | Some n \<Rightarrow> 0 < n)"
  by (auto simp: has_capacity_def available_capacity_def split: option.splits)

text \<open>A clean active route points at an inbound that can be sold.\<close>

lemma flag_Nil [simp]: "flag cond field e errs = [] \<longleftrightarrow> \<not> cond \<and> errs = []"
proof -
  have "AList.update field e errs \<noteq> []" by (cases errs) auto
  then show ?thesis by (simp add: flag_def)
qed

lemma route_inbound_ok:
  "route_inbound_error d i = None \<longleftrightarrow>
   (\<exists>ib p. i = Some ib \<and> ib_is_active ib \<and> ib_available_for_new_orders ib \<and>
      (requires_sellability_verification d ib \<longrightarrow> ib_verification_status ib = VerifiedSellable) \<and>
      panel_of d ib = Some p \<and> pn_is_active p)"
  by (auto simp: route_inbound_error_def split: option.splits if_splits)

lemma clean_route_Nil:
  "rt_is_active r \<Longrightarrow> clean_route d r = [] \<longleftrightarrow>
   route_ownership_errors d r = [] \<and>
   route_inbound_error d (row (db_inbounds d) (rt_inbound r)) = None \<and>
   route_operator_error d (rt_plan r) (rt_operator r) = None"
  by (auto simp: clean_route_def Let_def split: option.splits)

end
