(* ===== verification/Selection.thy ===== *)
theory Selection
  imports Catalogue
begin

text \<open>
  The inbound selection of \<open>store/order_services.py\<close>: which plans and operators a store sells,
  which inbound may take a new order, and how the plan routes, their operator-specific routes
  and the global fallback are searched for one. Rows are passed with their primary keys.
\<close>

section \<open>Stores and operators\<close>

datatype select_error =
    NoServer | InboundOff | NotForNewOrders | MissingPanel | PanelOff | StoreMismatchPanel
  | NodeScopeMissing | ModernInactiveCreate | UnknownCompatibility | CapacityShort
  | RouteMissing | BundleCrossPanel | BundleNotMultiNode
  | OperatorMissing | OperatorInvalid | PlanInvalid | PlanOperatorMismatch
  | NoCustomStore | SetupNotReady | CustomNotNumeric | CustomOutOfRange | CustomTooPrecise
  | CustomNotEnabled

definition store_is_sellable :: "store option \<Rightarrow> bool" where
  "store_is_sellable st \<longleftrightarrow>
     (case st of None \<Rightarrow> False | Some s \<Rightarrow> st_is_active s \<and> st_setup_status s = SetupReady)"

definition sales_mode_requires_operator :: "store option \<Rightarrow> bool" where
  "sales_mode_requires_operator st \<longleftrightarrow>
     (case st of None \<Rightarrow> False | Some s \<Rightarrow> st_sales_mode s = OperatorBased)"

text \<open>A row filter by a store that may be absent: no store means no filter.\<close>

definition store_filter :: "pk option \<Rightarrow> pk option \<Rightarrow> bool" where
  "store_filter st fk \<longleftrightarrow> (case st of None \<Rightarrow> True | Some s \<Rightarrow> own_or_shared s fk)"

definition get_active_operators :: "pk option \<Rightarrow> db \<Rightarrow> (pk \<times> operator) list" where
  "get_active_operators st d =
     ordered_where (\<lambda>(k, op). (op_sort_order op, op_name op, k))
       (\<lambda>_ op. op_is_active op \<and> store_filter st (op_store op)) (db_operators d)"

text \<open>The operator identifier a client submits: \<open>None\<close> when it is not a string of digits.\<close>

definition get_active_operator :: "pk option \<Rightarrow> pk option \<Rightarrow> db \<Rightarrow> pk option" where
  "get_active_operator st oper d =
     (case oper of
        None \<Rightarrow> None
      | Some k \<Rightarrow> if k \<in> fst ` set (get_active_operators st d) then Some k else None)"

definition validate_operator_for_order ::
  "(pk \<times> store) option \<Rightarrow> plan option \<Rightarrow> pk option \<Rightarrow> db \<Rightarrow> select_error + pk option" where
  "validate_operator_for_order st pl oper d =
     (if \<not> sales_mode_requires_operator (map_option snd st) then Inr None
      else case oper of
        None \<Rightarrow> Inl OperatorMissing
      | Some k \<Rightarrow>
          if k \<notin> fst ` set (get_active_operators (map_option fst st) d) then Inl OperatorInvalid
          else case pl of
            None \<Rightarrow> Inl PlanInvalid
          | Some p \<Rightarrow>
              if \<not> pl_is_active p then Inl PlanInvalid
              else if \<not> is_available_for_operator d p oper then Inl PlanOperatorMismatch
              else Inr oper)"

section \<open>Plans on sale\<close>

definition plan_listed :: "bool \<Rightarrow> pk option \<Rightarrow> pk option \<Rightarrow> plan \<Rightarrow> bool" where
  "plan_listed public_only st oper p \<longleftrightarrow>
     pl_is_active p \<and> (public_only \<longrightarrow> pl_is_public p \<and> \<not> pl_is_custom_volume p) \<and>
     store_filter st (pl_store p) \<and> (case oper of None \<Rightarrow> True | Some k \<Rightarrow> k \<in> set (pl_operators p))"

definition get_store_plans ::
  "(pk \<times> store) option \<Rightarrow> bool \<Rightarrow> pk option \<Rightarrow> db \<Rightarrow> (pk \<times> plan) list" where
  "get_store_plans st public_only oper d =
     (if public_only \<and> st \<noteq> None \<and> \<not> store_is_sellable (map_option snd st) then []
      else ordered_where (\<lambda>(k, p). (pl_sort_order p, pl_price p, k))
             (\<lambda>_ p. plan_listed public_only (map_option fst st) oper p) (db_plans d))"

section \<open>Custom volumes\<close>

text \<open>
  \<open>Decimal(text)\<close>: a coefficient and an exponent, \<open>Infinity\<close> or \<open>NaN\<close>, or
  \<open>InvalidOperation\<close>. Underscores are dropped and case is ignored, as the constructor does.
\<close>

datatype decimal = DecimalInvalid | DecimalSpecial | Decimal int int

definition fold_case :: "code_points \<Rightarrow> code_points" where
  "fold_case s = map (\<lambda>c. if 65 \<le> c \<and> c \<le> 90 then c + 32 else c) s"

definition split_sign :: "code_points \<Rightarrow> int \<times> code_points" where
  "split_sign s =
     (case s of c # cs \<Rightarrow> (if c = 45 then (-1, cs) else if c = 43 then (1, cs) else (1, s)) | [] \<Rightarrow> (1, []))"

definition parse_exponent :: "code_points \<Rightarrow> int option" where
  "parse_exponent s =
     (case s of
        [] \<Rightarrow> Some 0
      | c # cs \<Rightarrow>
          if c \<noteq> 101 then None
          else let (sg, ds) = split_sign cs in
            if ds \<noteq> [] \<and> list_all ascii_digit ds then Some (sg * int (points_value ds)) else None)"

text \<open>\<open>inf\<close>, \<open>infinity\<close>, \<open>nan\<close> and \<open>snan\<close>, the last two with optional digits.\<close>

definition special_decimal :: "code_points \<Rightarrow> bool" where
  "special_decimal s \<longleftrightarrow>
     s = [105, 110, 102] \<or> s = [105, 110, 102, 105, 110, 105, 116, 121] \<or>
     (\<exists>p \<in> {[110, 97, 110], [115, 110, 97, 110]}. starts_with p s \<and> list_all ascii_digit (drop (length p) s))"

definition parse_decimal :: "code_points \<Rightarrow> decimal" where
  "parse_decimal txt =
     (let (sg, body) = split_sign (filter (\<lambda>c. c \<noteq> 95) (fold_case (strip_points txt)));
          whole = takeWhile ascii_digit body; rest = dropWhile ascii_digit body;
          dotted = (rest \<noteq> [] \<and> hd rest = 46);
          frac = (if dotted then takeWhile ascii_digit (tl rest) else []);
          after = (if dotted then dropWhile ascii_digit (tl rest) else rest)
      in if special_decimal body then DecimalSpecial
         else if whole = [] \<and> frac = [] then DecimalInvalid
         else case parse_exponent after of
           None \<Rightarrow> DecimalInvalid
         | Some e \<Rightarrow> Decimal (sg * int (points_value (whole @ frac))) (e - int (length frac)))"

definition decimal_value :: "int \<Rightarrow> int \<Rightarrow> rat" where
  "decimal_value c e = (if 0 \<le> e then of_int c * 10 ^ nat e else of_int c / 10 ^ nat (- e))"

definition custom_volume_text :: "code_points \<Rightarrow> code_points" where
  "custom_volume_text value =
     (let raw = filter (\<lambda>c. c \<noteq> 1644)
                  (map (\<lambda>c. if c = 1643 then 46 else c) (strip_points (normalize_payment_digits value)))
      in if 44 \<in> set raw \<and> 46 \<notin> set raw then map (\<lambda>c. if c = 44 then 46 else c) raw
         else filter (\<lambda>c. c \<noteq> 44) raw)"

definition normalize_custom_volume_gb :: "code_points \<Rightarrow> select_error + rat" where
  "normalize_custom_volume_gb value =
     (case parse_decimal (custom_volume_text value) of
        DecimalInvalid \<Rightarrow> Inl CustomNotNumeric
      | DecimalSpecial \<Rightarrow> Inl CustomNotNumeric
      | Decimal c e \<Rightarrow>
          let v = decimal_value c e in
          if v < 1 \<or> v > 1000 then Inl CustomOutOfRange
          else if e < -3 then Inl CustomTooPrecise
          else Inr v)"

text \<open>\<open>quantize(Decimal("1"), rounding=ROUND_HALF_UP)\<close>: ties go away from zero.\<close>

definition round_half_up :: "rat \<Rightarrow> int" where
  "round_half_up q = (if 0 \<le> q then \<lfloor>q + 1 / 2\<rfloor> else - \<lfloor>- q + 1 / 2\<rfloor>)"

definition calculate_custom_volume_price :: "rat \<Rightarrow> rat \<Rightarrow> int" where
  "calculate_custom_volume_price volume_gb price_per_gb = round_half_up (volume_gb * price_per_gb)"

definition store_custom_volume_price_per_gb :: "store option \<Rightarrow> rat" where
  "store_custom_volume_price_per_gb st =
     (case st of None \<Rightarrow> 0
      | Some s \<Rightarrow> if st_custom_volume_price_per_gb s > 0 then st_custom_volume_price_per_gb s else 0)"

definition custom_volume_is_available :: "store option \<Rightarrow> bool" where
  "custom_volume_is_available st \<longleftrightarrow>
     \<not> (st \<noteq> None \<and> \<not> store_is_sellable st) \<and> store_custom_volume_price_per_gb st \<noteq> 0"

definition operator_has_available_plans :: "(pk \<times> store) option \<Rightarrow> pk option \<Rightarrow> db \<Rightarrow> bool" where
  "operator_has_available_plans st oper d \<longleftrightarrow>
     oper \<noteq> None \<and> (custom_volume_is_available (map_option snd st) \<or> get_store_plans st True oper d \<noteq> [])"

text \<open>A multiple of a thousandth, printed without an exponent and without trailing zeros.\<close>

definition thousandths :: "rat \<Rightarrow> nat" where
  "thousandths q = nat \<lfloor>q * 1000\<rfloor>"

definition three_digits :: "nat \<Rightarrow> string" where
  "three_digits n = [decimal_char (n div 100 mod 10), decimal_char (n div 10 mod 10), decimal_char (n mod 10)]"

definition decimal_text :: "char \<Rightarrow> rat \<Rightarrow> string" where
  "decimal_text point q =
     (let n = thousandths q;
          frac = rev (dropWhile (\<lambda>c. c = decimal_char 0) (rev (three_digits (n mod 1000))))
      in show_nat (n div 1000) @ (if frac = [] then [] else point # frac))"

definition custom_volume_slug :: "rat \<Rightarrow> rat \<Rightarrow> string" where
  "custom_volume_slug volume_gb price_per_gb =
     ''custom-volume-30d-'' @ decimal_text (CHR ''-'') volume_gb @ ''gb-'' @ decimal_text (CHR ''-'') price_per_gb"

text \<open>The plan that is bought: its name is \<open>format_custom_volume_label\<close> after a fixed title.\<close>

definition get_or_create_custom_volume_plan ::
  "(pk \<times> store) option \<Rightarrow> code_points \<Rightarrow> pk option \<Rightarrow> db \<Rightarrow> (select_error + pk) \<times> db" where
  "get_or_create_custom_volume_plan st entered oper d =
     (case st of
        None \<Rightarrow> (Inl NoCustomStore, d)
      | Some (s, sr) \<Rightarrow>
          if \<not> store_is_sellable (Some sr) then (Inl SetupNotReady, d)
          else case normalize_custom_volume_gb entered of
            Inl e \<Rightarrow> (Inl e, d)
          | Inr v \<Rightarrow>
              let per_gb = store_custom_volume_price_per_gb (Some sr) in
              if per_gb = 0 then (Inl CustomNotEnabled, d)
              else
                let base = first_of (get_store_plans st True None d);
                    slug = custom_volume_slug v per_gb;
                    refreshed = (\<lambda>p. p\<lparr>pl_name := ''Custom volume '' @ decimal_text (CHR ''.'') v @ '' GB'',
                       pl_volume_gb := v, pl_duration_days := 30,
                       pl_price := calculate_custom_volume_price v per_gb,
                       pl_currency := (case base of None \<Rightarrow> TOMAN | Some (_, b) \<Rightarrow> pl_currency b),
                       pl_device_limit := (case base of None \<Rightarrow> 2 | Some (_, b) \<Rightarrow> pl_device_limit b),
                       pl_is_active := True, pl_is_public := False, pl_is_custom_volume := True,
                       pl_sort_order := 9999\<rparr>);
                    with_oper = (\<lambda>p. case oper of None \<Rightarrow> p
                       | Some k \<Rightarrow> if k \<in> set (pl_operators p) then p
                                   else p\<lparr>pl_operators := pl_operators p @ [k]\<rparr>)
                in case first_where (\<lambda>_ p. pl_store p = Some s \<and> pl_slug p = slug) (db_plans d) of
                     Some (k, p) \<Rightarrow> (Inr k, d\<lparr>db_plans := put k (with_oper (refreshed p)) (db_plans d)\<rparr>)
                   | None \<Rightarrow>
                       let blank = \<lparr>pl_store = Some s, pl_operators = [], pl_name = [], pl_slug = slug,
                             pl_volume_gb = 0, pl_duration_days = 0, pl_price = 0, pl_currency = TOMAN,
                             pl_device_limit = 2, pl_is_active = True, pl_sort_order = 0,
                             pl_is_public = True, pl_is_custom_volume = False,
                             pl_multi_inbound_bundle = False\<rparr>;
                           (k, t) = add_row (with_oper (refreshed blank)) (db_plans d)
                       in (Inr k, d\<lparr>db_plans := t\<rparr>))"

section \<open>One inbound\<close>

definition validate_inbound_for_order ::
  "db \<Rightarrow> pk option \<Rightarrow> int \<Rightarrow> bool \<Rightarrow> pk \<times> inbound \<Rightarrow> select_error + (pk \<times> inbound)" where
  "validate_inbound_for_order d st slots allow_modern_deferred ki =
     (let i = snd ki; required = max slots 1 in
      if \<not> ib_is_active i then Inl InboundOff
      else if \<not> ib_available_for_new_orders i then Inl NotForNewOrders
      else case panel_of d i of
        None \<Rightarrow> Inl MissingPanel
      | Some p \<Rightarrow>
          if \<not> pn_is_active p then Inl PanelOff
          else if \<not> store_filter st (pn_store p) then Inl StoreMismatchPanel
          else if pn_family p \<noteq> FamPasarguard \<and> ib_xui_source i = SynchronizedNode \<and>
                  strip (ib_xui_node_id i) = [] then Inl NodeScopeMissing
          else if pn_family p = FamPasarguard \<and> \<not> allow_modern_deferred then Inl ModernInactiveCreate
          else if pn_capability_profile p = UnknownSafe then Inl UnknownCompatibility
          else if pn_capability_profile p \<in> {ModernSingleNode, ModernMultiNode} \<and> \<not> allow_modern_deferred
          then Inl ModernInactiveCreate
          else if (case available_capacity i of None \<Rightarrow> False | Some n \<Rightarrow> n < required)
          then Inl CapacityShort
          else Inr ki)"

interpretation order_inbound: validator "validate_inbound_for_order d st slots allow"
  by unfold_locales
     (auto simp: validate_inbound_for_order_def Let_def split: if_splits option.splits)

text \<open>What the inbound queries ask of an inbound before it is validated.\<close>

definition inbound_open :: "db \<Rightarrow> inbound \<Rightarrow> bool" where
  "inbound_open d i \<longleftrightarrow> ib_is_active i \<and> ib_available_for_new_orders i \<and>
     (case panel_of d i of None \<Rightarrow> False | Some p \<Rightarrow> pn_is_active p)"

definition panel_store :: "db \<Rightarrow> inbound \<Rightarrow> pk option" where
  "panel_store d i = Option.bind (panel_of d i) pn_store"

definition available_inbound_candidates :: "pk option \<Rightarrow> db \<Rightarrow> (pk \<times> inbound) list" where
  "available_inbound_candidates st d =
     ordered_where (\<lambda>(k, i). (ib_current_users i, k))
       (\<lambda>_ i. inbound_open d i \<and> store_filter st (panel_store d i)) (db_inbounds d)"

definition get_available_inbound ::
  "(pk \<times> store) option \<Rightarrow> int \<Rightarrow> bool \<Rightarrow> db \<Rightarrow> (pk \<times> inbound) option" where
  "get_available_inbound st slots allow d =
     (if st \<noteq> None \<and> \<not> store_is_sellable (map_option snd st) then None
      else first_ok (validate_inbound_for_order d (map_option fst st) slots allow)
             (available_inbound_candidates (map_option fst st) d))"

section \<open>Routes\<close>

definition store_allows_plan_inbound_routing :: "store option \<Rightarrow> bool" where
  "store_allows_plan_inbound_routing st \<longleftrightarrow>
     (case st of None \<Rightarrow> False | Some s \<Rightarrow> st_plan_inbound_routing_enabled s)"

definition store_allows_global_inbound_fallback :: "store option \<Rightarrow> bool" where
  "store_allows_global_inbound_fallback st \<longleftrightarrow>
     (case st of None \<Rightarrow> True | Some s \<Rightarrow> st_allow_global_inbound_fallback s)"

definition effective_store :: "(pk \<times> store) option \<Rightarrow> plan \<Rightarrow> db \<Rightarrow> (pk \<times> store) option" where
  "effective_store st p d =
     (case st of
        Some s \<Rightarrow> Some s
      | None \<Rightarrow> Option.bind (pl_store p) (\<lambda>k. map_option (\<lambda>s. (k, s)) (row (db_stores d) k)))"

definition route_inbound :: "db \<Rightarrow> route \<Rightarrow> (pk \<times> inbound) option" where
  "route_inbound d r = map_option (\<lambda>i. (rt_inbound r, i)) (row (db_inbounds d) (rt_inbound r))"

definition base_route :: "pk \<Rightarrow> pk option \<Rightarrow> db \<Rightarrow> route \<Rightarrow> bool" where
  "base_route plan_pk st d r \<longleftrightarrow>
     rt_plan r = plan_pk \<and> rt_is_active r \<and>
     (case route_inbound d r of
        None \<Rightarrow> False
      | Some (_, i) \<Rightarrow> inbound_open d i \<and> store_filter st (rt_store r) \<and> store_filter st (panel_store d i))"

definition store_route_priority :: "pk option \<Rightarrow> route \<Rightarrow> nat" where
  "store_route_priority st r = (if st \<noteq> None \<and> rt_store r = st then 0 else 1)"

definition route_users :: "db \<Rightarrow> route \<Rightarrow> int" where
  "route_users d r = (case route_inbound d r of None \<Rightarrow> 0 | Some (_, i) \<Rightarrow> ib_current_users i)"

text \<open>The routes for an operator, or the general routes for \<open>None\<close>, best first.\<close>

definition ordered_routes :: "pk \<Rightarrow> pk option \<Rightarrow> pk option \<Rightarrow> db \<Rightarrow> (pk \<times> route) list" where
  "ordered_routes plan_pk st oper d =
     ordered_where (\<lambda>(k, r). (store_route_priority st r, rt_priority r, route_users d r, k))
       (\<lambda>_ r. base_route plan_pk st d r \<and> rt_operator r = oper) (db_routes d)"

definition route_inbounds :: "pk \<Rightarrow> pk option \<Rightarrow> pk option \<Rightarrow> db \<Rightarrow> (pk \<times> inbound) list" where
  "route_inbounds plan_pk st oper d = List.map_filter (\<lambda>(_, r). route_inbound d r) (ordered_routes plan_pk st oper d)"

text \<open>The candidate sets in the order they are tried.\<close>

definition route_candidates :: "pk \<Rightarrow> pk option \<Rightarrow> pk option \<Rightarrow> db \<Rightarrow> (pk \<times> inbound) list list" where
  "route_candidates plan_pk st oper d =
     (case oper of None \<Rightarrow> [] | Some _ \<Rightarrow> [route_inbounds plan_pk st oper d])
     @ [route_inbounds plan_pk st None d]"

fun first_set_ok ::
  "(pk \<times> inbound \<Rightarrow> select_error + (pk \<times> inbound)) \<Rightarrow> (pk \<times> inbound) list list \<Rightarrow> (pk \<times> inbound) option" where
  "first_set_ok v [] = None"
| "first_set_ok v (c # cs) = (case first_ok v c of Some x \<Rightarrow> Some x | None \<Rightarrow> first_set_ok v cs)"

definition select_inbound_for_plan ::
  "pk \<times> plan \<Rightarrow> (pk \<times> store) option \<Rightarrow> pk option \<Rightarrow> int \<Rightarrow> bool \<Rightarrow> db \<Rightarrow>
   select_error + (pk \<times> inbound) option" where
  "select_inbound_for_plan pl st oper quantity allow d =
     (let slots = max quantity 1; est = effective_store st (snd pl) d; s = map_option fst est in
      if \<not> store_allows_plan_inbound_routing (map_option snd est)
      then Inr (get_available_inbound est slots allow d)
      else case first_set_ok (validate_inbound_for_order d s slots allow) (route_candidates (fst pl) s oper d) of
        Some x \<Rightarrow> Inr (Some x)
      | None \<Rightarrow>
          if store_allows_global_inbound_fallback (map_option snd est)
          then Inr (get_available_inbound est slots allow d)
          else Inl RouteMissing)"

section \<open>Bundles of inbounds\<close>

definition valid_route_inbounds ::
  "(pk \<times> inbound \<Rightarrow> select_error + (pk \<times> inbound)) \<Rightarrow> (pk \<times> inbound) list \<Rightarrow> (pk \<times> inbound) list" where
  "valid_route_inbounds v c = dedup_on fst {} (all_ok v c)"

fun first_nonempty :: "'a list list \<Rightarrow> 'a list" where
  "first_nonempty [] = []"
| "first_nonempty (c # cs) = (if c \<noteq> [] then c else first_nonempty cs)"

definition check_bundle :: "db \<Rightarrow> (pk \<times> inbound) list \<Rightarrow> select_error + (pk \<times> inbound) list" where
  "check_bundle d bundle =
     (case bundle of
        [] \<Rightarrow> Inr []
      | (_, i) # _ \<Rightarrow>
          if \<exists>(_, j) \<in> set bundle. ib_panel j \<noteq> ib_panel i then Inl BundleCrossPanel
          else (case panel_of d i of
                  None \<Rightarrow> Inl BundleNotMultiNode
                | Some p \<Rightarrow>
                    if pn_family p \<noteq> FamPasarguard \<and> pn_capability_profile p \<noteq> ModernMultiNode
                    then Inl BundleNotMultiNode else Inr bundle))"

definition option_list :: "'a option \<Rightarrow> 'a list" where
  "option_list x = (case x of None \<Rightarrow> [] | Some y \<Rightarrow> [y])"

text \<open>
  A plan that is not a bundle gives a list with one entry; the entry \<open>None\<close> that the source puts
  there when nothing is available is the empty list here, since the callers only ask whether the
  first entry is set.
\<close>

definition select_inbounds_for_plan ::
  "pk \<times> plan \<Rightarrow> (pk \<times> store) option \<Rightarrow> pk option \<Rightarrow> int \<Rightarrow> bool \<Rightarrow> db \<Rightarrow>
   select_error + (pk \<times> inbound) list" where
  "select_inbounds_for_plan pl st oper quantity allow d =
     (if \<not> pl_multi_inbound_bundle (snd pl)
      then (case select_inbound_for_plan pl st oper quantity allow d of
              Inl e \<Rightarrow> Inl e | Inr x \<Rightarrow> Inr (option_list x))
      else
        let slots = max quantity 1; est = effective_store st (snd pl) d; s = map_option fst est in
        if \<not> store_allows_plan_inbound_routing (map_option snd est)
        then Inr (option_list (get_available_inbound est slots True d))
        else
          let bundle = first_nonempty (map (valid_route_inbounds (validate_inbound_for_order d s slots True))
                                        (route_candidates (fst pl) s oper d))
          in if bundle \<noteq> [] then check_bundle d bundle
             else if store_allows_global_inbound_fallback (map_option snd est)
             then Inr (option_list (get_available_inbound est slots True d))
             else Inl RouteMissing)"

section \<open>Helper facts\<close>

lemma validate_inbound_ok:
  "validate_inbound_for_order d st slots allow ki = Inr x \<longleftrightarrow>
   x = ki \<and> inbound_open d (snd ki) \<and> store_filter st (panel_store d (snd ki)) \<and>
   (\<exists>p. panel_of d (snd ki) = Some p \<and>
     (pn_family p = FamPasarguard \<or> ib_xui_source (snd ki) \<noteq> SynchronizedNode \<or> strip (ib_xui_node_id (snd ki)) \<noteq> []) \<and>
     (pn_family p = FamPasarguard \<longrightarrow> allow) \<and> pn_capability_profile p \<noteq> UnknownSafe \<and>
     (pn_capability_profile p \<in> {ModernSingleNode, ModernMultiNode} \<longrightarrow> allow)) \<and>
   (case available_capacity (snd ki) of None \<Rightarrow> True | Some n \<Rightarrow> max slots 1 \<le> n)"
proof (cases "panel_of d (snd ki)")
  case None
  then show ?thesis by (auto simp: validate_inbound_for_order_def inbound_open_def Let_def split: if_splits)
next
  case (Some p)
  then show ?thesis
    by (auto simp: validate_inbound_for_order_def inbound_open_def panel_store_def Let_def
        split: option.splits)
qed

lemma available_inbound_sound:
  assumes "get_available_inbound st slots allow d = Some x"
  shows "x \<in> set (db_inbounds d)"
    and "validate_inbound_for_order d (map_option fst st) slots allow x = Inr x"
proof -
  from assms have "first_ok (validate_inbound_for_order d (map_option fst st) slots allow)
      (available_inbound_candidates (map_option fst st) d) = Some x"
    by (simp add: get_available_inbound_def split: if_splits)
  then have "x \<in> set (available_inbound_candidates (map_option fst st) d) \<and>
      validate_inbound_for_order d (map_option fst st) slots allow x = Inr x"
    by (rule order_inbound.first_ok_valid)
  then show "x \<in> set (db_inbounds d)"
    and "validate_inbound_for_order d (map_option fst st) slots allow x = Inr x"
    by (cases x; auto simp: available_inbound_candidates_def set_ordered_where)+
qed

lemma route_inbounds_in: "x \<in> set (route_inbounds p st oper d) \<Longrightarrow> x \<in> set (db_inbounds d)"
  unfolding route_inbounds_def map_filter_def route_inbound_def
  by (auto simp: row_Some_in)

lemma first_set_ok_Some:
  assumes "first_set_ok (validate_inbound_for_order d st slots allow) cs = Some x"
  shows "\<exists>c \<in> set cs. first_ok (validate_inbound_for_order d st slots allow) c = Some x"
  using assms by (induction cs) (auto split: option.splits)

lemma first_set_ok_None:
  "first_set_ok (validate_inbound_for_order d st slots allow) cs = None \<longleftrightarrow>
   (\<forall>c \<in> set cs. \<forall>x \<in> set c. \<not> is_ok (validate_inbound_for_order d st slots allow x))"
  by (induction cs) (auto simp: order_inbound.first_ok_None is_ok_iff split: option.splits
      dest: order_inbound.first_ok_valid)

lemma candidates_in:
  "c \<in> set (route_candidates p st oper d) \<Longrightarrow> x \<in> set c \<Longrightarrow> x \<in> set (db_inbounds d)"
  by (auto simp: route_candidates_def dest: route_inbounds_in split: option.splits)

lemma select_inbound_sound:
  assumes "select_inbound_for_plan pl st oper q allow d = Inr (Some x)"
  shows "x \<in> set (db_inbounds d)"
    and "validate_inbound_for_order d (map_option fst (effective_store st (snd pl) d)) (max q 1) allow x = Inr x"
proof -
  let ?est = "effective_store st (snd pl) d"
  let ?v = "validate_inbound_for_order d (map_option fst ?est) (max q 1) allow"
  consider "get_available_inbound ?est (max q 1) allow d = Some x"
    | "first_set_ok ?v (route_candidates (fst pl) (map_option fst ?est) oper d) = Some x"
    using assms by (auto simp: select_inbound_for_plan_def Let_def split: if_splits option.splits)
  then have "x \<in> set (db_inbounds d) \<and> ?v x = Inr x"
  proof cases
    case 1
    then show ?thesis by (auto dest: available_inbound_sound)
  next
    case 2
    then obtain c where "c \<in> set (route_candidates (fst pl) (map_option fst ?est) oper d)"
      and "first_ok ?v c = Some x" by (auto dest: first_set_ok_Some)
    then show ?thesis by (auto dest: order_inbound.first_ok_valid candidates_in)
  qed
  then show "x \<in> set (db_inbounds d)" and "?v x = Inr x" by auto
qed

lemma valid_route_inbounds_facts:
  "set (valid_route_inbounds (validate_inbound_for_order d st slots allow) c) \<subseteq>
     {x \<in> set c. validate_inbound_for_order d st slots allow x = Inr x}"
  "distinct (map fst (valid_route_inbounds (validate_inbound_for_order d st slots allow) c))"
proof -
  show "distinct (map fst (valid_route_inbounds (validate_inbound_for_order d st slots allow) c))"
    by (simp add: valid_route_inbounds_def dedup_on_distinct)
  show "set (valid_route_inbounds (validate_inbound_for_order d st slots allow) c) \<subseteq>
     {x \<in> set c. validate_inbound_for_order d st slots allow x = Inr x}"
  proof
    fix x
    assume "x \<in> set (valid_route_inbounds (validate_inbound_for_order d st slots allow) c)"
    then have "x \<in> set (all_ok (validate_inbound_for_order d st slots allow) c)"
      unfolding valid_route_inbounds_def by (rule subsetD [OF dedup_on_subset])
    then show "x \<in> {x \<in> set c. validate_inbound_for_order d st slots allow x = Inr x}"
      by (auto simp: order_inbound.all_ok_filter is_ok_iff dest: order_inbound.returns_argument)
  qed
qed

lemma first_nonempty_cases:
  "first_nonempty cs = [] \<or> first_nonempty cs \<in> set cs"
  by (induction cs) auto

lemma check_bundle_ok:
  assumes "check_bundle d b = Inr b'" and "b \<noteq> []"
  shows "b' = b" and "\<exists>p. \<forall>(k, i) \<in> set b. ib_panel i = p"
    and "\<forall>(k, i) \<in> set b. \<exists>p. panel_of d i = Some p \<and>
           (pn_family p = FamPasarguard \<or> pn_capability_profile p = ModernMultiNode)"
proof -
  obtain k i bs where b: "b = (k, i) # bs" using assms(2) by (cases b) auto
  from assms(1) b obtain p where same: "\<forall>(_, j) \<in> set b. ib_panel j = ib_panel i"
    and p: "panel_of d i = Some p" "pn_family p = FamPasarguard \<or> pn_capability_profile p = ModernMultiNode"
    and b': "b' = b"
    by (auto simp: check_bundle_def split: if_splits option.splits)
  show "b' = b" by fact
  show "\<exists>p. \<forall>(k, i) \<in> set b. ib_panel i = p" using same by blast
  show "\<forall>(k, i) \<in> set b. \<exists>p. panel_of d i = Some p \<and>
           (pn_family p = FamPasarguard \<or> pn_capability_profile p = ModernMultiNode)"
    using same p by (fastforce simp: panel_of_def)
qed

lemma select_bundle_cases:
  assumes "select_inbounds_for_plan pl st oper q allow d = Inr b" and "pl_multi_inbound_bundle (snd pl)"
    and "2 \<le> length b"
  obtains c where "c \<in> set (route_candidates (fst pl) (map_option fst (effective_store st (snd pl) d)) oper d)"
    and "b = valid_route_inbounds (validate_inbound_for_order d
           (map_option fst (effective_store st (snd pl) d)) (max q 1) True) c"
    and "check_bundle d b = Inr b"
proof -
  let ?est = "effective_store st (snd pl) d"
  let ?v = "validate_inbound_for_order d (map_option fst ?est) (max q 1) True"
  let ?cs = "route_candidates (fst pl) (map_option fst ?est) oper d"
  let ?b = "first_nonempty (map (valid_route_inbounds ?v) ?cs)"
  have short: "length (option_list o1) \<le> 1" for o1 :: "(pk \<times> inbound) option"
    by (cases o1) (auto simp: option_list_def)
  have "?b \<noteq> [] \<and> check_bundle d ?b = Inr b"
    using assms short [of "get_available_inbound ?est (max q 1) True d"]
    by (auto simp: select_inbounds_for_plan_def Let_def split: if_splits)
  then have b: "b = ?b" "check_bundle d b = Inr b" using check_bundle_ok(1) by auto
  then have "b \<in> set (map (valid_route_inbounds ?v) ?cs)"
    using first_nonempty_cases [of "map (valid_route_inbounds ?v) ?cs"] assms(3) by auto
  with b that show thesis by auto
qed

lemma custom_volume_bounds:
  assumes "normalize_custom_volume_gb t = Inr v"
  shows "1 \<le> v" and "v \<le> 1000" and "\<exists>n::int. v * 1000 = of_int n"
proof -
  from assms obtain c e where v: "v = decimal_value c e" "\<not> v < 1" "\<not> v > 1000" "\<not> e < -3"
    by (auto simp: normalize_custom_volume_gb_def Let_def split: decimal.splits if_splits)
  then show "1 \<le> v" and "v \<le> 1000" by auto
  show "\<exists>n::int. v * 1000 = of_int n"
  proof (cases "0 \<le> e")
    case True
    then have "v * 1000 = of_int (c * 10 ^ nat e * 1000)" using v by (simp add: decimal_value_def)
    then show ?thesis by blast
  next
    case False
    with v have "e = -1 \<or> e = -2 \<or> e = -3" by auto
    with v have "v * 1000 = of_int (c * 100) \<or> v * 1000 = of_int (c * 10) \<or> v * 1000 = of_int c"
      by (auto simp: decimal_value_def)
    then show ?thesis by blast
  qed
qed

lemma round_half_up_near: "\<bar>of_int (round_half_up q) - q\<bar> \<le> 1 / 2"
proof (cases "0 \<le> q")
  case True
  have "of_int \<lfloor>q + 1 / 2\<rfloor> \<le> q + 1 / 2" "q + 1 / 2 < of_int \<lfloor>q + 1 / 2\<rfloor> + 1" by linarith+
  then have "of_int \<lfloor>q + 1 / 2\<rfloor> - q \<le> 1 / 2 \<and> - (of_int \<lfloor>q + 1 / 2\<rfloor> - q) \<le> 1 / 2" by linarith
  with True show ?thesis unfolding round_half_up_def abs_le_iff by simp
next
  case False
  have "of_int \<lfloor>- q + 1 / 2\<rfloor> \<le> - q + 1 / 2" "- q + 1 / 2 < of_int \<lfloor>- q + 1 / 2\<rfloor> + 1" by linarith+
  then have "- of_int \<lfloor>- q + 1 / 2\<rfloor> - q \<le> 1 / 2 \<and> - (- of_int \<lfloor>- q + 1 / 2\<rfloor> - q) \<le> 1 / 2" by linarith
  with False show ?thesis unfolding round_half_up_def abs_le_iff by simp
qed

end
