(* ===== verification/Panel_Remote.thy ===== *)
theory Panel_Remote
  imports Catalogue
begin

text \<open>
  The outside world as the operations see it. A remote panel, reached through
  \<open>store/xui_api.py\<close> and \<open>store/panels\<close>, and the chat bots answer each request with a value that
  the program cannot predict: the n-th request of a run gets the n-th value of an arbitrary
  stream. \<open>db_draws\<close> is the number of requests made so far, so that nothing is answered twice,
  also across a rolled-back transaction.
\<close>

section \<open>Answers\<close>

text \<open>The dictionary that creating or looking up a remote client gives.\<close>

record client_result =
  cr_uuid :: string
  cr_email :: string
  cr_sub_id :: string
  cr_sub_link :: string
  cr_direct_link :: string
  cr_node_id :: string
  cr_remote_key :: string
  cr_expires_at :: "instant option"
  cr_raw_links :: "string list"
  cr_raw :: dict

record traffic_result =
  tr_total_traffic_bytes :: "int option"
  tr_expiry_unlimited :: bool
  tr_expiry_at :: "instant option"
  tr_raw :: dict

record renew_result =
  rn_expiry_at :: "instant option"
  rn_raw :: "dict option"

text \<open>The result of enabling or disabling a client; \<open>None\<close> in the stream below is a raised error.\<close>

record toggle_result =
  tg_new_total_bytes :: "int option"
  tg_new_expiry_time :: "instant option"
  tg_raw :: "dict option"

text \<open>A raised error carries the safe text that is shown to an administrator.
  \<open>rm_sent\<close> is the number of chats a message reached, \<open>rm_has_target\<close> whether the order's customer
  has an active Telegram chat with the store's bots.\<close>

record remote =
  rm_lookup :: "nat \<Rightarrow> string + client_result option"
  rm_create_enabled :: "nat \<Rightarrow> client_result option"
  rm_create_multi :: "nat \<Rightarrow> client_result list option"
  rm_create_pasarguard :: "nat \<Rightarrow> string + client_result"
  rm_create_inactive :: "nat \<Rightarrow> client_result option"
  rm_enable :: "nat \<Rightarrow> bool"
  rm_toggle :: "nat \<Rightarrow> toggle_result option"
  rm_delete :: "nat \<Rightarrow> bool"
  rm_renew :: "nat \<Rightarrow> renew_result option"
  rm_add_traffic :: "nat \<Rightarrow> traffic_result option"
  rm_sent :: "nat \<Rightarrow> nat"
  rm_has_target :: "order \<Rightarrow> bool"

definition ask :: "(nat \<Rightarrow> 'a) \<Rightarrow> db \<Rightarrow> 'a \<times> db" where
  "ask f d = (f (db_draws d), d\<lparr>db_draws := Suc (db_draws d)\<rparr>)"

text \<open>A transaction that is rolled back keeps nothing but the requests it made.\<close>

definition rollback :: "db \<Rightarrow> db \<Rightarrow> db" where
  "rollback d d' = d\<lparr>db_draws := db_draws d'\<rparr>"

section \<open>Transactions\<close>

text \<open>Two databases agree when they differ only in the requests made.\<close>

definition same_data :: "db \<Rightarrow> db \<Rightarrow> bool" where
  "same_data d d' \<longleftrightarrow> d'\<lparr>db_draws := db_draws d\<rparr> = d"

lemma same_data_refl [simp]: "same_data d d"
  by (simp add: same_data_def)

lemma same_data_trans [trans]: "same_data d d1 \<Longrightarrow> same_data d1 d2 \<Longrightarrow> same_data d d2"
  unfolding same_data_def by (cases d; cases d1; cases d2) simp

lemma same_data_ask: "ask f d = (x, d') \<Longrightarrow> same_data d d'"
  by (auto simp: ask_def same_data_def)

lemma same_data_rollback [simp]: "same_data d (rollback d d')"
  by (simp add: rollback_def same_data_def)

lemma same_data_draws [simp]: "same_data d (d\<lparr>db_draws := n\<rparr>)"
  by (simp add: same_data_def)

lemma same_dataD:
  assumes "same_data d d'"
  shows "db_stores d' = db_stores d" "db_operators d' = db_operators d" "db_bots d' = db_bots d"
    "db_plans d' = db_plans d" "db_discounts d' = db_discounts d" "db_customers d' = db_customers d"
    "db_referrals d' = db_referrals d" "db_rewards d' = db_rewards d" "db_ledgers d' = db_ledgers d"
    "db_panels d' = db_panels d" "db_inbounds d' = db_inbounds d" "db_routes d' = db_routes d"
    "db_orders d' = db_orders d" "db_audits d' = db_audits d" "db_clients d' = db_clients d"
    "db_config_links d' = db_config_links d" "db_cups d' = db_cups d"
    "db_cup_items d' = db_cup_items d" "db_outbox d' = db_outbox d"
  using assms unfolding same_data_def by (cases d; cases d'; simp)+

lemma same_data_get:
  assumes "same_data d d'"
  shows "get_order d' = get_order d" "get_audit d' = get_audit d" "get_client d' = get_client d"
    "get_discount d' = get_discount d" "get_inbound d' = get_inbound d"
  using same_dataD [OF assms] by (simp_all add: access_defs fun_eq_iff)

lemma ask_get [simp]:
  "get_order (snd (ask f d)) = get_order d" "get_audit (snd (ask f d)) = get_audit d"
  "get_client (snd (ask f d)) = get_client d" "get_inbound (snd (ask f d)) = get_inbound d"
  by (simp_all add: ask_def access_defs fun_eq_iff)

end
