(* ===== verification/Provisioning_Scope.thy ===== *)
theory Provisioning_Scope
  imports Selection Panel_Remote
begin

text \<open>
  The decisions of \<open>store/provisioning_services.py\<close> that touch no remote panel: which strategy an
  order is provisioned with, the scope (panel, inbound, node) frozen in its metadata, how a frozen
  scope is resolved to inbounds again, and the bookkeeping of the provisioning state.
\<close>

section \<open>Strategies\<close>

datatype strategy = LegacyPrecreateInactive | DeferredCreateEnabled | DirectCreateEnabled | RenewExistingClient

definition strategy_text :: "strategy \<Rightarrow> string" where
  "strategy_text s = (case s of
     LegacyPrecreateInactive \<Rightarrow> ''legacy_precreate_inactive''
   | DeferredCreateEnabled \<Rightarrow> ''deferred_create_enabled''
   | DirectCreateEnabled \<Rightarrow> ''direct_create_enabled''
   | RenewExistingClient \<Rightarrow> ''renew_existing_client'')"

datatype order_type = Renewal | FreeTrial | AdminDirectPaidGrant | AdminDirectPurchase | PaidPurchase

definition panel_profile :: "panel \<Rightarrow> capability_profile" where
  "panel_profile p = (if pn_capability_profile p = CapEmpty then LegacySingleNode else pn_capability_profile p)"

definition profile_text :: "capability_profile \<Rightarrow> string" where
  "profile_text p = (case p of
     CapEmpty \<Rightarrow> [] | LegacySingleNode \<Rightarrow> ''legacy_single_node'' | ModernSingleNode \<Rightarrow> ''modern_single_node''
   | ModernMultiNode \<Rightarrow> ''modern_multi_node'' | PasarguardGroups \<Rightarrow> ''pasarguard_groups''
   | UnknownSafe \<Rightarrow> ''unknown_safe'')"

definition is_modern_panel :: "panel \<Rightarrow> bool" where
  "is_modern_panel p \<longleftrightarrow> panel_profile p \<in> {ModernSingleNode, ModernMultiNode, PasarguardGroups}"

definition order_is_renewal :: "order \<Rightarrow> bool" where
  "order_is_renewal ord \<longleftrightarrow> truthy (dget ''renewal_client_pk'' (o_metadata ord))"

definition order_is_admin_direct :: "order \<Rightarrow> bool" where
  "order_is_admin_direct ord \<longleftrightarrow>
     truthy (dget ''admin_direct_purchase'' (o_metadata ord)) \<or>
     truthy (dget ''free_grant'' (o_metadata ord)) \<or> o_payment_method ord = AdminFree"

definition resolve_provisioning_strategy :: "panel \<Rightarrow> order_type \<Rightarrow> strategy" where
  "resolve_provisioning_strategy p t =
     (if t = Renewal then RenewExistingClient
      else if t = FreeTrial \<or> t = AdminDirectPaidGrant \<or> t = AdminDirectPurchase
      then (if is_modern_panel p then DirectCreateEnabled else LegacyPrecreateInactive)
      else if is_modern_panel p then DeferredCreateEnabled
      else LegacyPrecreateInactive)"

definition order_panel :: "db \<Rightarrow> order \<Rightarrow> panel option" where
  "order_panel d ord = Option.bind (Option.bind (o_inbound ord) (get_inbound d)) (panel_of d)"

definition resolve_order_provisioning_strategy :: "db \<Rightarrow> order \<Rightarrow> strategy" where
  "resolve_order_provisioning_strategy d ord =
     (if order_is_renewal ord then RenewExistingClient
      else case order_panel d ord of
        None \<Rightarrow> LegacyPrecreateInactive
      | Some p \<Rightarrow>
          if order_is_admin_direct ord then resolve_provisioning_strategy p AdminDirectPurchase
          else resolve_provisioning_strategy p PaidPurchase)"

section \<open>Scopes\<close>

text \<open>\<open>str(x)\<close> of the JSON values a scope holds. The program stores numbers, strings and null there;
  a list or a dictionary is given a text that no stored column equals.\<close>

definition show_int :: "int \<Rightarrow> string" where
  "show_int n = (if n < 0 then CHR ''-'' # show_nat (nat (- n)) else show_nat (nat n))"

definition json_text :: "json \<Rightarrow> string" where
  "json_text v = (case v of
     JNull \<Rightarrow> ''None'' | JBool b \<Rightarrow> (if b then ''True'' else ''False'') | JInt n \<Rightarrow> show_int n
   | JStr s \<Rightarrow> s | JList _ \<Rightarrow> ''[...]'' | JObj _ \<Rightarrow> ''{...}'')"

definition node_key :: "inbound \<Rightarrow> string" where
  "node_key i = strip (ib_xui_node_id i)"

definition opt_text :: "pk option \<Rightarrow> string" where
  "opt_text k = (case k of None \<Rightarrow> [] | Some n \<Rightarrow> if n = 0 then [] else show_nat n)"

definition inbound_remote_key :: "inbound \<Rightarrow> string" where
  "inbound_remote_key i =
     str_or (strip (ib_xui_remote_key i))
       (opt_text (ib_panel i) @ '':'' @ str_or (node_key i) ''local'' @ '':'' @ opt_text (Some (ib_inbound_id i)))"

definition build_remote_client_key :: "inbound \<Rightarrow> string \<Rightarrow> string" where
  "build_remote_client_key i uuid =
     opt_text (ib_panel i) @ '':'' @ str_or (node_key i) ''local'' @ '':'' @
     opt_text (Some (ib_inbound_id i)) @ '':'' @ strip uuid"

definition provisioning_scope :: "db \<Rightarrow> pk \<times> inbound \<Rightarrow> dict" where
  "provisioning_scope d ki =
     (let i = snd ki in
      [(''panel_id'', case panel_of d i of None \<Rightarrow> JNull | Some _ \<Rightarrow> jpk (ib_panel i)),
       (''panel_profile'', JStr (case panel_of d i of None \<Rightarrow> [] | Some p \<Rightarrow> profile_text (panel_profile p))),
       (''inbound_pk'', JInt (int (fst ki))),
       (''xui_inbound_id'', JInt (int (ib_inbound_id i))),
       (''node_id'', JStr (ib_xui_node_id i)),
       (''node_name'', JStr (ib_xui_node_name i)),
       (''remote_key'', JStr (case panel_of d i of None \<Rightarrow> [] | Some _ \<Rightarrow> inbound_remote_key i))])"

definition scope_value :: "dict \<Rightarrow> string \<Rightarrow> string" where
  "scope_value sc key = (case dget key sc of JNull \<Rightarrow> [] | v \<Rightarrow> strip (json_text v))"

definition scope_agrees :: "dict \<Rightarrow> string \<Rightarrow> string \<Rightarrow> bool" where
  "scope_agrees sc key current \<longleftrightarrow> scope_value sc key = [] \<or> scope_value sc key = strip current"

definition scope_matches_inbound :: "dict \<Rightarrow> pk \<times> inbound \<Rightarrow> bool" where
  "scope_matches_inbound sc ki \<longleftrightarrow> sc \<noteq> [] \<and>
     scope_agrees sc ''panel_id'' (opt_text (ib_panel (snd ki))) \<and>
     scope_agrees sc ''inbound_pk'' (opt_text (Some (fst ki))) \<and>
     scope_agrees sc ''xui_inbound_id'' (opt_text (Some (ib_inbound_id (snd ki)))) \<and>
     scope_agrees sc ''node_id'' (ib_xui_node_id (snd ki))"

datatype scope_error =
    ScopeKeyInvalid | ScopeAmbiguous | ScopeMismatch | MultiScopeMismatch | MultiScopeEmpty
  | MultiScopeCrossPanel | MultiRequiresModern | MultiScopePanelMissing

text \<open>A primary key in a query that is not a number raises \<open>ValueError\<close>.\<close>

definition text_pk :: "string \<Rightarrow> scope_error + pk" where
  "text_pk s = (if s \<noteq> [] \<and> list_all is_digit s then Inr (digits_value s) else Inl ScopeKeyInvalid)"

definition inbound_by_pk :: "db \<Rightarrow> string \<Rightarrow> scope_error + (pk \<times> inbound) option" where
  "inbound_by_pk d s =
     (case text_pk s of Inl e \<Rightarrow> Inl e | Inr k \<Rightarrow> Inr (map_option (\<lambda>i. (k, i)) (get_inbound d k)))"

definition inbounds_by_scope :: "db \<Rightarrow> dict \<Rightarrow> scope_error + (pk \<times> inbound) list" where
  "inbounds_by_scope d sc =
     (case text_pk (scope_value sc ''panel_id'') of Inl e \<Rightarrow> Inl e | Inr p \<Rightarrow>
      case text_pk (scope_value sc ''xui_inbound_id'') of Inl e \<Rightarrow> Inl e | Inr n \<Rightarrow>
      Inr (take 2 (ordered_where fst
        (\<lambda>_ i. ib_panel i = Some p \<and> ib_inbound_id i = n \<and> ib_xui_node_id i = scope_value sc ''node_id'')
        (db_inbounds d))))"

definition order_inbound_row :: "db \<Rightarrow> order \<Rightarrow> (pk \<times> inbound) option" where
  "order_inbound_row d ord = Option.bind (o_inbound ord) (\<lambda>k. map_option (\<lambda>i. (k, i)) (get_inbound d k))"

definition resolve_by_panel_scope :: "db \<Rightarrow> dict \<Rightarrow> scope_error + (pk \<times> inbound) option" where
  "resolve_by_panel_scope d sc =
     (if scope_value sc ''panel_id'' \<noteq> [] \<and> scope_value sc ''xui_inbound_id'' \<noteq> [] then
        (case inbounds_by_scope d sc of
           Inl e \<Rightarrow> Inl e
         | Inr [] \<Rightarrow> Inl ScopeMismatch
         | Inr [m] \<Rightarrow> Inr (Some m)
         | Inr _ \<Rightarrow> Inl ScopeAmbiguous)
      else Inl ScopeMismatch)"

definition resolve_frozen_order_inbound :: "db \<Rightarrow> order \<Rightarrow> scope_error + (pk \<times> inbound) option" where
  "resolve_frozen_order_inbound d ord =
     (let sc = as_dict (dget ''provisioning_scope'' (o_metadata ord)); current = order_inbound_row d ord in
      if sc = [] then Inr current
      else if (case current of None \<Rightarrow> False | Some ki \<Rightarrow> scope_matches_inbound sc ki) then Inr current
      else if scope_value sc ''inbound_pk'' \<noteq> [] then
        (case inbound_by_pk d (scope_value sc ''inbound_pk'') of
           Inl e \<Rightarrow> Inl e
         | Inr (Some ki) \<Rightarrow> if scope_matches_inbound sc ki then Inr (Some ki) else resolve_by_panel_scope d sc
         | Inr None \<Rightarrow> resolve_by_panel_scope d sc)
      else resolve_by_panel_scope d sc)"

text \<open>One scope of a bundle: by primary key when it still matches, else by the unique remote triple.\<close>

definition resolve_bundle_scope :: "db \<Rightarrow> dict \<Rightarrow> scope_error + (pk \<times> inbound)" where
  "resolve_bundle_scope d sc =
     (let by_scope = (case inbounds_by_scope d sc of
                        Inl e \<Rightarrow> Inl e
                      | Inr [m] \<Rightarrow> if scope_matches_inbound sc m then Inr m else Inl MultiScopeMismatch
                      | Inr _ \<Rightarrow> Inl MultiScopeMismatch)
      in if scope_value sc ''inbound_pk'' = [] then by_scope
         else case inbound_by_pk d (scope_value sc ''inbound_pk'') of
           Inl e \<Rightarrow> Inl e
         | Inr (Some ki) \<Rightarrow> if scope_matches_inbound sc ki then Inr ki else by_scope
         | Inr None \<Rightarrow> by_scope)"

fun resolve_bundle_scopes :: "db \<Rightarrow> dict list \<Rightarrow> scope_error + (pk \<times> inbound) list" where
  "resolve_bundle_scopes d [] = Inr []"
| "resolve_bundle_scopes d (sc # scs) =
     (case resolve_bundle_scope d sc of Inl e \<Rightarrow> Inl e | Inr ki \<Rightarrow>
      case resolve_bundle_scopes d scs of Inl e \<Rightarrow> Inl e | Inr rest \<Rightarrow> Inr (ki # rest))"

definition resolve_frozen_order_inbounds :: "db \<Rightarrow> order \<Rightarrow> scope_error + (pk \<times> inbound) list" where
  "resolve_frozen_order_inbounds d ord =
     (let m = o_metadata ord; scopes = as_list (dget ''provisioning_scopes'' m) in
      if \<not> truthy (dget ''multi_inbound_bundle'' m) \<or> scopes = [] then
        (case resolve_frozen_order_inbound d ord of Inl e \<Rightarrow> Inl e | Inr x \<Rightarrow> Inr (option_list x))
      else
        case resolve_bundle_scopes d (map as_dict scopes) of
          Inl e \<Rightarrow> Inl e
        | Inr found \<Rightarrow>
            let bundle = dedup_on fst {} found in
            (case bundle of
               [] \<Rightarrow> Inl MultiScopeEmpty
             | (_, i) # _ \<Rightarrow>
                 if \<exists>(_, j) \<in> set bundle. ib_panel j \<noteq> ib_panel i then Inl MultiScopeCrossPanel
                 else case panel_of d i of
                   None \<Rightarrow> Inl MultiScopePanelMissing
                 | Some p \<Rightarrow>
                     if pn_family p \<noteq> FamPasarguard \<and> panel_profile p \<noteq> ModernMultiNode
                     then Inl MultiRequiresModern else Inr bundle))"

definition freeze_order_provisioning_metadata :: "db \<Rightarrow> order \<Rightarrow> pk \<times> inbound \<Rightarrow> strategy \<Rightarrow> dict" where
  "freeze_order_provisioning_metadata d ord ki strat =
     dsetdefault ''provisioning_scope'' (JObj (provisioning_scope d ki))
       (dset ''provisioning_strategy'' (JStr (strategy_text strat)) (o_metadata ord))"

section \<open>The provisioning state of an order\<close>

definition mark_provisioning_state ::
  "provisioning_status \<Rightarrow> string \<Rightarrow> instant option \<Rightarrow> bool \<Rightarrow> order \<Rightarrow> order" where
  "mark_provisioning_state st err done_at increment ord =
     ord\<lparr>o_provisioning_status := st,
         o_provisioning_attempts := (if increment then Suc (o_provisioning_attempts ord) else o_provisioning_attempts ord),
         o_last_provisioning_error := (if err \<noteq> [] \<or> st \<noteq> ProvFailed then err else o_last_provisioning_error ord),
         o_provisioned_at := (case done_at of None \<Rightarrow> o_provisioned_at ord | Some t \<Rightarrow> Some t)\<rparr>"

datatype block_reason = OrderStatusNotProvisionable | PaymentRejected | CompletedOrderNotVerified

definition provisioning_block_reason :: "order \<Rightarrow> block_reason option" where
  "provisioning_block_reason ord =
     (if o_status ord = Rejected \<or> o_status ord = Cancelled then Some OrderStatusNotProvisionable
      else if o_verification_status ord = VerRejected then Some PaymentRejected
      else if o_status ord = Completed then Some CompletedOrderNotVerified
      else None)"

section \<open>Helper facts\<close>

lemma scope_matchesI: "sc \<noteq> [] \<Longrightarrow> scope_matches_inbound sc ki \<longleftrightarrow>
   (\<forall>(key, current) \<in> {(''panel_id'', opt_text (ib_panel (snd ki))),
      (''inbound_pk'', opt_text (Some (fst ki))),
      (''xui_inbound_id'', opt_text (Some (ib_inbound_id (snd ki)))),
      (''node_id'', ib_xui_node_id (snd ki))}. scope_agrees sc key current)"
  by (auto simp: scope_matches_inbound_def)

lemma resolve_bundle_scope_matches:
  "resolve_bundle_scope d sc = Inr ki \<Longrightarrow> scope_matches_inbound sc ki"
  by (auto simp: resolve_bundle_scope_def Let_def split: if_splits sum.splits option.splits list.splits)

lemma resolve_bundle_scopes_match:
  "resolve_bundle_scopes d scs = Inr kis \<Longrightarrow> list_all2 scope_matches_inbound scs kis"
  by (induction scs arbitrary: kis)
     (auto split: sum.splits dest: resolve_bundle_scope_matches)

lemma digits_value_append: "digits_value (s @ [c]) = 10 * digits_value s + (chr_code c - 48)"
  by (simp add: digits_value_def)

lemma decimal_char_code [simp]: "n < 10 \<Longrightarrow> chr_code (decimal_char n) = 48 + n"
  by (simp add: chr_code_def decimal_char_def take_bit_eq_mod)

lemma digits_value_show_nat [simp]: "digits_value (show_nat n) = n"
proof (induction n rule: show_nat.induct)
  case (1 n)
  show ?case
  proof (cases "n < 10")
    case True
    then show ?thesis by (simp add: show_nat.simps digits_value_def)
  next
    case False
    then show ?thesis
      using "1.IH" by (simp add: show_nat.simps [of n] digits_value_append)
  qed
qed

lemma show_nat_digits [simp]: "list_all is_digit (show_nat n)" "show_nat n \<noteq> []"
proof -
  show "list_all is_digit (show_nat n)"
  proof (induction n rule: show_nat.induct)
    case (1 n)
    have "is_digit (decimal_char m)" if "m < 10" for m using that by (simp add: is_digit_def)
    with 1 show ?case by (subst show_nat.simps) auto
  qed
  show "show_nat n \<noteq> []" by (subst show_nat.simps) auto
qed

lemma show_nat_inject [simp]: "show_nat m = show_nat n \<longleftrightarrow> m = n"
  by (metis digits_value_show_nat)

lemma digit_not_blank: "is_digit c \<Longrightarrow> \<not> blank c"
  by (auto simp: is_digit_def blank_def)

lemma strip_show_nat [simp]: "strip (show_nat n) = show_nat n"
proof -
  have id: "dropWhile blank s = s" if "list_all is_digit s" for s
    using that by (cases s) (auto simp: digit_not_blank)
  have "list_all is_digit (rev (show_nat n))" by (simp add: list_all_iff) (metis list_all_iff show_nat_digits(1))
  then show ?thesis by (simp add: strip_def id)
qed

text \<open>The scope frozen for an inbound matches that inbound, and only inbounds with the same keys.\<close>

lemma scope_value_frozen:
  "scope_value (provisioning_scope d ki) ''inbound_pk'' = show_nat (fst ki)"
  "scope_value (provisioning_scope d ki) ''xui_inbound_id'' = show_nat (ib_inbound_id (snd ki))"
  "scope_value (provisioning_scope d ki) ''node_id'' = strip (ib_xui_node_id (snd ki))"
  by (simp_all add: provisioning_scope_def scope_value_def json_text_def show_int_def Let_def)

lemma mark_state_keeps [simp]:
  "o_status (mark_provisioning_state st e t i ord) = o_status ord"
  "o_verification_status (mark_provisioning_state st e t i ord) = o_verification_status ord"
  "o_is_paid (mark_provisioning_state st e t i ord) = o_is_paid ord"
  "o_provisioning_status (mark_provisioning_state st e t i ord) = st"
  "o_metadata (mark_provisioning_state st e t i ord) = o_metadata ord"
  "o_customer (mark_provisioning_state st e t i ord) = o_customer ord"
  by (simp_all add: mark_provisioning_state_def)

end
