(* ===== verification/Referral_Ledger.thy ===== *)
theory Referral_Ledger
  imports Panel_Remote
begin

text \<open>
  \<open>store/referral_services.py\<close>: the gift packages (traffic and days) that an inviter earns when an
  invited customer completes a verified order, the sums shown to the inviter, and their
  redemption onto one of the inviter's VPN configurations.
\<close>

section \<open>Earning a package\<close>

definition store_referral_reward_duration_days :: "store \<Rightarrow> nat" where
  "store_referral_reward_duration_days s = st_referral_reward_duration_days s"

definition awaits_reconciliation :: "audit option \<Rightarrow> bool" where
  "awaits_reconciliation au \<longleftrightarrow>
     (case au of None \<Rightarrow> False | Some a \<Rightarrow> au_auto_approved_at a \<noteq> None \<and> au_review_status a \<noteq> RevVerified)"

definition purchased_order :: "order \<Rightarrow> bool" where
  "purchased_order ord \<longleftrightarrow> o_status ord = Completed \<and> o_verification_status ord = VerVerified"

definition has_previous_successful_order :: "pk \<Rightarrow> pk \<Rightarrow> db \<Rightarrow> bool" where
  "has_previous_successful_order k cust d \<longleftrightarrow>
     exists_where (\<lambda>j o2. o_customer o2 = Some cust \<and> purchased_order o2 \<and> j \<noteq> k) (db_orders d)"

definition ledger_of_invited :: "pk \<Rightarrow> db \<Rightarrow> (pk \<times> ledger) option" where
  "ledger_of_invited cust d = first_where (\<lambda>_ l. lg_invited l = cust) (db_ledgers d)"

definition customer_code :: "pk \<Rightarrow> db \<Rightarrow> string" where
  "customer_code k d = (case row (db_customers d) k of None \<Rightarrow> [] | Some c \<Rightarrow> cu_referral_code c)"

text \<open>The guards of \<open>create_referral_reward_for_order\<close>: the order's customer, the inviter and the
  store that pays the package.\<close>

definition reward_parties :: "pk \<Rightarrow> order \<Rightarrow> db \<Rightarrow> (pk \<times> customer \<times> pk \<times> store) option" where
  "reward_parties k ord d =
     (case o_customer ord of
        None \<Rightarrow> None
      | Some cust \<Rightarrow>
          if \<not> purchased_order ord \<or> awaits_reconciliation (get_audit d k) then None
          else case row (db_customers d) cust of
            None \<Rightarrow> None
          | Some c \<Rightarrow>
              (case cu_referred_by c of
                 None \<Rightarrow> None
               | Some inviter \<Rightarrow>
                   if inviter = cust then None
                   else
                     let st = (case Option.bind (o_store ord) (row (db_stores d)) of
                                 Some s \<Rightarrow> Some s | None \<Rightarrow> map_option snd (get_current_store d))
                     in case st of
                       None \<Rightarrow> None
                     | Some s \<Rightarrow>
                         if \<not> st_referral_system_enabled s \<or> st_referral_reward_gb s \<le> 0 \<or>
                            store_referral_reward_duration_days s \<le> 0 \<or>
                            (st_referral_min_order_required s \<and> has_previous_successful_order k cust d)
                         then None else Some (cust, c, inviter, s)))"

definition create_referral_reward_for_order :: "env \<Rightarrow> pk \<Rightarrow> db \<Rightarrow> pk option \<times> db" where
  "create_referral_reward_for_order en k d =
     (case get_order d k of
        None \<Rightarrow> (None, d)
      | Some ord \<Rightarrow>
          (case reward_parties k ord d of
             None \<Rightarrow> (None, d)
           | Some (cust, c, inviter, s) \<Rightarrow>
               (case ledger_of_invited cust d of
                  Some (l, _) \<Rightarrow> (Some l, d)
                | None \<Rightarrow>
                    let (i, f, d1) = ensure_referral cust inviter
                          (str_or (cu_referral_code_used c) (customer_code inviter d)) d;
                        d2 = (if rf_status f \<noteq> RefPurchased then mark_purchased en k i f d1 else d1);
                        (l, t) = add_row \<lparr>lg_inviter = inviter, lg_invited = cust, lg_order = k,
                              lg_reward_gb = st_referral_reward_gb s,
                              lg_reward_duration_days = store_referral_reward_duration_days s,
                              lg_status = LgAvailable, lg_redeemed_config = None,
                              lg_available_at = Some (e_now en), lg_redeemed_at = None,
                              lg_applied_traffic_gb = 0, lg_applied_duration_days = 0\<rparr> (db_ledgers d2)
                    in (Some l, d2\<lparr>db_ledgers := t\<rparr>))))"

section \<open>Sums\<close>

definition ledgers_of :: "pk \<Rightarrow> ledger_status \<Rightarrow> db \<Rightarrow> (pk \<times> ledger) list" where
  "ledgers_of cust st d = rows_where (\<lambda>_ l. lg_inviter l = cust \<and> lg_status l = st) (db_ledgers d)"

definition total_gb :: "(pk \<times> ledger) list \<Rightarrow> rat" where
  "total_gb ls = sum_list (map (\<lambda>(_, l). lg_reward_gb l) ls)"

definition total_days :: "(pk \<times> ledger) list \<Rightarrow> nat" where
  "total_days ls = sum_list (map (\<lambda>(_, l). lg_reward_duration_days l) ls)"

definition get_available_referral_gb :: "pk option \<Rightarrow> db \<Rightarrow> rat" where
  "get_available_referral_gb cust d =
     (case cust of None \<Rightarrow> 0 | Some k \<Rightarrow> total_gb (ledgers_of k LgAvailable d))"

definition get_redeemed_referral_gb :: "pk option \<Rightarrow> db \<Rightarrow> rat" where
  "get_redeemed_referral_gb cust d =
     (case cust of None \<Rightarrow> 0 | Some k \<Rightarrow> total_gb (ledgers_of k LgRedeemed d))"

definition get_available_referral_duration_days :: "pk option \<Rightarrow> db \<Rightarrow> nat" where
  "get_available_referral_duration_days cust d =
     (case cust of None \<Rightarrow> 0 | Some k \<Rightarrow> total_days (ledgers_of k LgAvailable d))"

definition get_redeemed_referral_duration_days :: "pk option \<Rightarrow> db \<Rightarrow> nat" where
  "get_redeemed_referral_duration_days cust d =
     (case cust of None \<Rightarrow> 0 | Some k \<Rightarrow> total_days (ledgers_of k LgRedeemed d))"

record referral_stats =
  rs_invited_count :: nat
  rs_successful_referrals_count :: nat
  rs_available_count :: nat
  rs_available_gb :: rat
  rs_available_days :: nat
  rs_redeemed_count :: nat
  rs_redeemed_gb :: rat
  rs_redeemed_days :: nat

definition get_referral_stats :: "pk option \<Rightarrow> db \<Rightarrow> referral_stats" where
  "get_referral_stats cust d =
     (case cust of
        None \<Rightarrow> \<lparr>rs_invited_count = 0, rs_successful_referrals_count = 0, rs_available_count = 0,
                 rs_available_gb = 0, rs_available_days = 0, rs_redeemed_count = 0,
                 rs_redeemed_gb = 0, rs_redeemed_days = 0\<rparr>
      | Some k \<Rightarrow>
          \<lparr>rs_invited_count = length (rows_where (\<lambda>_ c. cu_referred_by c = Some k) (db_customers d)),
           rs_successful_referrals_count = length (rows_where (\<lambda>j c. cu_referred_by c = Some k \<and>
              exists_where (\<lambda>_ o2. o_customer o2 = Some j \<and> purchased_order o2) (db_orders d)) (db_customers d)),
           rs_available_count = length (ledgers_of k LgAvailable d),
           rs_available_gb = total_gb (ledgers_of k LgAvailable d),
           rs_available_days = total_days (ledgers_of k LgAvailable d),
           rs_redeemed_count = length (ledgers_of k LgRedeemed d),
           rs_redeemed_gb = total_gb (ledgers_of k LgRedeemed d),
           rs_redeemed_days = total_days (ledgers_of k LgRedeemed d)\<rparr>)"

section \<open>Redeeming\<close>

definition bytes_from_gb :: "rat \<Rightarrow> int" where
  "bytes_from_gb gb = (if 0 \<le> gb then \<lfloor>gb * 1073741824\<rfloor> else - \<lfloor>- gb * 1073741824\<rfloor>)"

definition calculate_referral_expiry ::
  "env \<Rightarrow> vpn_client \<Rightarrow> nat \<Rightarrow> traffic_result \<Rightarrow> instant option" where
  "calculate_referral_expiry en c total_duration_days r =
     (if tr_expiry_unlimited r then None
      else case tr_expiry_at r of
        Some t \<Rightarrow> Some t
      | None \<Rightarrow>
          if total_duration_days = 0 then vc_expires_at c
          else
            let base = (case vc_expires_at c of
                          Some t \<Rightarrow> if t > e_now en then t else e_now en | None \<Rightarrow> e_now en)
            in Some (base + days (int total_duration_days)))"

datatype redeem_result =
    NoCustomer | NoConfig | ConfigNotActive | NoRewards | PanelRefused
  | RedeemedOk rat nat nat

definition redeemable_client :: "pk \<Rightarrow> pk \<Rightarrow> db \<Rightarrow> vpn_client option" where
  "redeemable_client cust k d =
     (case get_client d k of
        None \<Rightarrow> None
      | Some c \<Rightarrow>
          if vc_status c = ClActive \<and>
             (case Option.bind (vc_order c) (get_order d) of
                None \<Rightarrow> False | Some ord \<Rightarrow> o_customer ord = Some cust)
          then Some c else None)"

definition apply_reward :: "env \<Rightarrow> rat \<Rightarrow> nat \<Rightarrow> traffic_result \<Rightarrow> vpn_client \<Rightarrow> vpn_client" where
  "apply_reward en gb dur r c =
     (let c1 = c\<lparr>vc_traffic_limit_bytes :=
                 int_or (case tr_total_traffic_bytes r of None \<Rightarrow> 0 | Some n \<Rightarrow> n)
                   (vc_traffic_limit_bytes c + bytes_from_gb gb)\<rparr>;
          c2 = (if tr_expiry_unlimited r then c1
                else c1\<lparr>vc_expires_at := calculate_referral_expiry en c1 dur r,
                        vc_duration_days := vc_duration_days c1 + int dur\<rparr>)
      in if tr_raw r \<noteq> [] then c2\<lparr>vc_xui_raw := tr_raw r\<rparr> else c2)"

definition mark_redeemed :: "env \<Rightarrow> pk \<Rightarrow> pk list \<Rightarrow> db \<Rightarrow> db" where
  "mark_redeemed en config ks d =
     d\<lparr>db_ledgers := modify_where (\<lambda>j _. j \<in> set ks)
         (\<lambda>l. l\<lparr>lg_status := LgRedeemed, lg_redeemed_config := Some config,
                lg_redeemed_at := Some (e_now en), lg_applied_traffic_gb := lg_reward_gb l,
                lg_applied_duration_days := lg_reward_duration_days l\<rparr>) (db_ledgers d)\<rparr>"

definition redeem_referral_rewards ::
  "env \<Rightarrow> remote \<Rightarrow> pk option \<Rightarrow> pk option \<Rightarrow> db \<Rightarrow> redeem_result \<times> db" where
  "redeem_referral_rewards en rm cust config d =
     (case cust of None \<Rightarrow> (NoCustomer, d) | Some cu \<Rightarrow>
      (case config of None \<Rightarrow> (NoConfig, d) | Some k \<Rightarrow>
       (case redeemable_client cu k d of
          None \<Rightarrow> (ConfigNotActive, d)
        | Some c \<Rightarrow>
            let rewards = ledgers_of cu LgAvailable d;
                gb = total_gb rewards; dur = total_days rewards
            in if gb \<le> 0 then (NoRewards, d)
               else case ask (rm_add_traffic rm) d of
                 (None, d1) \<Rightarrow> (PanelRefused, d1)
               | (Some r, d1) \<Rightarrow>
                   (RedeemedOk gb dur (length rewards),
                    mark_redeemed en k (map fst rewards) (put_client k (apply_reward en gb dur r c) d1)))))"

section \<open>Helper facts\<close>

text \<open>The database constraints on the ledger: one package per invited customer, no self-invitation.\<close>

definition ledger_invariant :: "db \<Rightarrow> bool" where
  "ledger_invariant d \<longleftrightarrow> wf_table (db_ledgers d) \<and> distinct (map (lg_invited \<circ> snd) (db_ledgers d)) \<and>
     (\<forall>(k, l) \<in> set (db_ledgers d). lg_inviter l \<noteq> lg_invited l \<and> 0 < lg_reward_gb l)"

lemma reward_parties_Some:
  assumes "reward_parties k ord d = Some (cust, c, inviter, s)"
  shows "o_customer ord = Some cust" and "purchased_order ord"
    and "\<not> awaits_reconciliation (get_audit d k)" and "inviter \<noteq> cust"
    and "0 < st_referral_reward_gb s" and "row (db_customers d) cust = Some c"
    and "cu_referred_by c = Some inviter"
  using assms by (auto simp: reward_parties_def Let_def split: option.splits if_splits)

lemma ledger_of_invited_None:
  "ledger_of_invited cust d = None \<longleftrightarrow> cust \<notin> set (map (lg_invited \<circ> snd) (db_ledgers d))"
  by (force simp: ledger_of_invited_def first_where_None exists_where_iff)

lemma create_reward_ledgers:
  assumes "create_referral_reward_for_order en k d = (r, d')"
  shows "db_ledgers d' = db_ledgers d \<or>
    (\<exists>ord cust c inviter s l. get_order d k = Some ord \<and>
       reward_parties k ord d = Some (cust, c, inviter, s) \<and> ledger_of_invited cust d = None \<and>
       db_ledgers d' = db_ledgers d @ [(fresh_pk (db_ledgers d), l)] \<and> r = Some (fresh_pk (db_ledgers d)) \<and>
       lg_inviter l = inviter \<and> lg_invited l = cust \<and> lg_order l = k \<and> lg_status l = LgAvailable \<and>
       lg_reward_gb l = st_referral_reward_gb s)"
proof (cases "get_order d k")
  case None
  with assms show ?thesis by (simp add: create_referral_reward_for_order_def)
next
  case (Some ord)
  show ?thesis
  proof (cases "reward_parties k ord d")
    case None
    with assms Some show ?thesis by (simp add: create_referral_reward_for_order_def)
  next
    case (Some p)
    obtain cust c inviter s where p: "p = (cust, c, inviter, s)" by (cases p)
    show ?thesis
    proof (cases "ledger_of_invited cust d")
      case None
      obtain i f d1 where e: "ensure_referral cust inviter
          (str_or (cu_referral_code_used c) (customer_code inviter d)) d = (i, f, d1)"
        by (cases "ensure_referral cust inviter
          (str_or (cu_referral_code_used c) (customer_code inviter d)) d")
      have "db_ledgers d1 = db_ledgers d"
        using ensure_referral_received(2) [OF e] by (simp add: reward_frame_def)
      then show ?thesis
        using assms \<open>get_order d k = Some ord\<close> Some p None e
        by (auto simp: create_referral_reward_for_order_def Let_def add_row_def mark_purchased_def)
    next
      case (Some l)
      with assms \<open>get_order d k = Some ord\<close> \<open>reward_parties k ord d = Some p\<close> p show ?thesis
        by (auto simp: create_referral_reward_for_order_def split: prod.splits)
    qed
  qed
qed

lemma create_reward_invariant:
  assumes "ledger_invariant d" and "create_referral_reward_for_order en k d = (r, d')"
  shows "ledger_invariant d'"
  using create_reward_ledgers [OF assms(2)]
proof
  assume "db_ledgers d' = db_ledgers d"
  with assms(1) show ?thesis by (simp add: ledger_invariant_def)
next
  assume "\<exists>ord cust c inviter s l. get_order d k = Some ord \<and>
       reward_parties k ord d = Some (cust, c, inviter, s) \<and> ledger_of_invited cust d = None \<and>
       db_ledgers d' = db_ledgers d @ [(fresh_pk (db_ledgers d), l)] \<and> r = Some (fresh_pk (db_ledgers d)) \<and>
       lg_inviter l = inviter \<and> lg_invited l = cust \<and> lg_order l = k \<and> lg_status l = LgAvailable \<and>
       lg_reward_gb l = st_referral_reward_gb s"
  then obtain ord cust c inviter s l where p: "reward_parties k ord d = Some (cust, c, inviter, s)"
    and none: "ledger_of_invited cust d = None"
    and d': "db_ledgers d' = db_ledgers d @ [(fresh_pk (db_ledgers d), l)]"
    and l: "lg_inviter l = inviter" "lg_invited l = cust" "lg_reward_gb l = st_referral_reward_gb s"
    by blast
  from none have "cust \<notin> set (map (lg_invited \<circ> snd) (db_ledgers d))"
    by (simp only: ledger_of_invited_None not_False_eq_True)
  with assms(1) d' l reward_parties_Some(4,5) [OF p] show ?thesis
    by (auto simp: ledger_invariant_def)
qed

lemma modify_where_map_snd:
  "(\<And>l. g (f l) = g l) \<Longrightarrow> map (g \<circ> snd) (modify_where P f t) = map (g \<circ> snd) t"
  by (induction t) (auto simp: modify_where_def)

lemma mark_redeemed_invariant:
  assumes "ledger_invariant d"
  shows "ledger_invariant (mark_redeemed en k ks d)"
proof -
  have "(j, l) \<in> set (db_ledgers (mark_redeemed en k ks d)) \<Longrightarrow>
      \<exists>l0. (j, l0) \<in> set (db_ledgers d) \<and> lg_inviter l = lg_inviter l0 \<and> lg_invited l = lg_invited l0 \<and>
        lg_reward_gb l = lg_reward_gb l0" for j l
    by (force simp: mark_redeemed_def modify_where_def split: if_splits)
  with assms show ?thesis
    unfolding ledger_invariant_def
    by (fastforce simp: mark_redeemed_def modify_where_map_snd)
qed

text \<open>Redeeming moves exactly the available packages to the redeemed ones.\<close>

lemma ledgers_of_keys:
  assumes "wf_table t" and "(j, l) \<in> set t"
  shows "j \<in> set (map fst (rows_where P t)) \<longleftrightarrow> P j l"
proof
  assume "j \<in> set (map fst (rows_where P t))"
  then obtain l' where "(j, l') \<in> set t" "P j l'" by (auto simp: set_rows_where)
  with assms show "P j l" by (metis in_row_Some option.inject)
next
  assume "P j l"
  with assms(2) have "(j, l) \<in> set (rows_where P t)" by (simp add: set_rows_where)
  then show "j \<in> set (map fst (rows_where P t))" by force
qed

lemma rows_after_redeem:
  assumes "wf_table t" and A: "A = rows_where P t"
  shows "modify_where (\<lambda>j _. j \<in> set (map fst A)) f t = modify_where P f t"
proof -
  have "(j \<in> set (map fst A)) = P j l" if "(j, l) \<in> set t" for j l
    unfolding A by (rule ledgers_of_keys [OF assms(1) that])
  then show ?thesis unfolding modify_where_def by (intro map_cong) auto
qed

lemma sums_after_redeem:
  assumes i: "\<And>l. lg_inviter (f l) = lg_inviter l" and st: "\<And>l. lg_status (f l) = LgRedeemed"
    and gb: "\<And>l. lg_reward_gb (f l) = lg_reward_gb l"
  defines "t' \<equiv> \<lambda>cu t. modify_where (\<lambda>_ l. lg_inviter l = cu \<and> lg_status l = LgAvailable) f t"
  shows "rows_where (\<lambda>_ l. lg_inviter l = cu \<and> lg_status l = LgAvailable) (t' cu t) = []"
    and "total_gb (rows_where (\<lambda>_ l. lg_inviter l = cu \<and> lg_status l = LgRedeemed) (t' cu t)) =
         total_gb (rows_where (\<lambda>_ l. lg_inviter l = cu \<and> lg_status l = LgRedeemed) t) +
         total_gb (rows_where (\<lambda>_ l. lg_inviter l = cu \<and> lg_status l = LgAvailable) t)"
proof -
  show "rows_where (\<lambda>_ l. lg_inviter l = cu \<and> lg_status l = LgAvailable) (t' cu t) = []"
    unfolding t'_def by (induction t) (auto simp: rows_where_def modify_where_def st split: if_splits)
  show "total_gb (rows_where (\<lambda>_ l. lg_inviter l = cu \<and> lg_status l = LgRedeemed) (t' cu t)) =
         total_gb (rows_where (\<lambda>_ l. lg_inviter l = cu \<and> lg_status l = LgRedeemed) t) +
         total_gb (rows_where (\<lambda>_ l. lg_inviter l = cu \<and> lg_status l = LgAvailable) t)"
  proof (induction t)
    case Nil
    then show ?case by (simp add: t'_def rows_where_def modify_where_def total_gb_def)
  next
    case (Cons jl t)
    obtain j l where jl: "jl = (j, l)" by (cases jl)
    show ?case
      using Cons.IH
      by (cases "lg_inviter l = cu"; cases "lg_status l = LgAvailable")
         (simp_all add: jl t'_def rows_where_def modify_where_def total_gb_def i st gb)
  qed
qed

lemma redeem_ok:
  assumes "redeem_referral_rewards en rm cust config d = (RedeemedOk gb dur n, d')"
  obtains cu k c r d1 where "cust = Some cu" and "config = Some k" and "redeemable_client cu k d = Some c"
    and "gb = total_gb (ledgers_of cu LgAvailable d)" and "dur = total_days (ledgers_of cu LgAvailable d)"
    and "0 < gb" and "n = length (ledgers_of cu LgAvailable d)" and "same_data d d1"
    and "d' = mark_redeemed en k (map fst (ledgers_of cu LgAvailable d)) (put_client k (apply_reward en gb dur r c) d1)"
proof -
  from assms obtain cu k c r d1 where
    1: "cust = Some cu" "config = Some k" "redeemable_client cu k d = Some c"
    and a: "ask (rm_add_traffic rm) d = (Some r, d1)"
    and 2: "gb = total_gb (ledgers_of cu LgAvailable d)" "dur = total_days (ledgers_of cu LgAvailable d)"
      "0 < gb" "n = length (ledgers_of cu LgAvailable d)"
      "d' = mark_redeemed en k (map fst (ledgers_of cu LgAvailable d)) (put_client k (apply_reward en gb dur r c) d1)"
    by (auto simp: redeem_referral_rewards_def Let_def split: option.splits if_splits prod.splits)
  from a have "same_data d d1" by (rule same_data_ask)
  from that [OF 1 2(1-4) this 2(5)] show thesis .
qed

lemma redeem_not_ok:
  assumes "redeem_referral_rewards en rm cust config d = (res, d')"
    and "\<And>gb dur n. res \<noteq> RedeemedOk gb dur n"
  shows "same_data d d'"
  using assms
  by (auto simp: redeem_referral_rewards_def Let_def ask_def split: option.splits if_splits prod.splits)

end
