(* ===== verification/Provisioning.thy ===== *)
theory Provisioning
  imports Provisioning_Scope Referral_Ledger
begin

text \<open>
  Provisioning of an order (\<open>store/provisioning_services.py\<close> and the activation half of
  \<open>store/order_actions.py\<close>): local clients for remote ones, activation on legacy and modern
  panels, on PasarGuard and for renewals, and \<open>approve_and_provision_order\<close> around them. The
  engines for canonical delivery, recipes, inventory and subscription cups are arguments. Texts
  shown to people are named by ASCII words. The idempotency key, a digest of the order and its
  scope that is only stored, and the identity sent to the panel are left out.
\<close>

section \<open>Actions that can raise\<close>

type_synonym 'a act = "db \<Rightarrow> (string + 'a) \<times> db"

definition raise_act :: "string \<Rightarrow> 'a act" where
  "raise_act e d = (Inl e, d)"

definition and_then :: "'a act \<Rightarrow> ('a \<Rightarrow> 'b act) \<Rightarrow> 'b act" where
  "and_then m f d = (case m d of (Inl e, d1) \<Rightarrow> (Inl e, d1) | (Inr x, d1) \<Rightarrow> f x d1)"

fun each_act :: "('i \<Rightarrow> 'a act) \<Rightarrow> 'i list \<Rightarrow> 'a list act" where
  "each_act f [] d = (Inr [], d)"
| "each_act f (i # is) d =
     (case f i d of
        (Inl e, d1) \<Rightarrow> (Inl e, d1)
      | (Inr x, d1) \<Rightarrow>
          (case each_act f is d1 of (Inl e, d2) \<Rightarrow> (Inl e, d2) | (Inr xs, d2) \<Rightarrow> (Inr (x # xs), d2)))"

text \<open>A request to a panel that can raise, and one that signals failure by \<open>None\<close>.\<close>

definition request :: "(nat \<Rightarrow> string + 'a) \<Rightarrow> 'a act" where
  "request f d = ask f d"

definition require :: "string \<Rightarrow> (nat \<Rightarrow> 'a option) \<Rightarrow> 'a act" where
  "require e f d = (case ask f d of (None, d1) \<Rightarrow> (Inl e, d1) | (Some x, d1) \<Rightarrow> (Inr x, d1))"

section \<open>Orders and their clients\<close>

definition no_plan :: plan where
  "no_plan = \<lparr>pl_store = None, pl_operators = [], pl_name = [], pl_slug = [], pl_volume_gb = 0,
     pl_duration_days = 0, pl_price = 0, pl_currency = TOMAN, pl_device_limit = 0, pl_is_active = False,
     pl_sort_order = 0, pl_is_public = False, pl_is_custom_volume = False, pl_multi_inbound_bundle = False\<rparr>"

text \<open>\<open>order.plan\<close>; the key is not nullable and its row is protected, so \<open>no_plan\<close> is never met.\<close>

definition order_plan :: "db \<Rightarrow> order \<Rightarrow> plan" where
  "order_plan d ord = (case Option.bind (o_plan ord) (row (db_plans d)) of None \<Rightarrow> no_plan | Some p \<Rightarrow> p)"

definition traffic_limit_bytes :: "plan \<Rightarrow> int" where
  "traffic_limit_bytes p = bytes_from_gb (pl_volume_gb p)"

definition required_client_count :: "order \<Rightarrow> nat" where
  "required_client_count ord = nat (max (int_or (o_quantity ord) 1) 1)"

definition client_display_username :: "string \<Rightarrow> client_result \<Rightarrow> order \<Rightarrow> nat \<Rightarrow> string" where
  "client_display_username base cr ord index =
     (if required_client_count ord > 1 then str_or (cr_email cr) (base @ ''_'' @ show_nat index) else base)"

definition save_back :: "env \<Rightarrow> pk \<Rightarrow> order \<Rightarrow> db \<Rightarrow> order \<times> db" where
  "save_back en k ord d = (normalize_on_save en d ord, save_order en k ord d)"

definition create_order_vpn_client ::
  "env \<Rightarrow> pk \<Rightarrow> order \<Rightarrow> (pk \<times> inbound) option \<Rightarrow> string \<Rightarrow> client_result \<Rightarrow> client_status \<Rightarrow> db \<Rightarrow> pk \<times> db" where
  "create_order_vpn_client en k ord inb username cr st d =
     (let p = order_plan d ord;
          (ck, t) = add_row (new_client\<lparr>vc_store := o_store ord, vc_order := Some k, vc_plan := o_plan ord,
             vc_inbound := map_option fst inb, vc_created_at := e_now en, vc_username := username,
             vc_xui_email := cr_email cr, vc_uuid := cr_uuid cr, vc_sub_id := cr_sub_id cr,
             vc_sub_link := cr_sub_link cr, vc_direct_link := cr_direct_link cr, vc_status := st,
             vc_traffic_limit_bytes := traffic_limit_bytes p, vc_duration_days := int (pl_duration_days p),
             vc_device_limit := pl_device_limit p,
             vc_xui_node_id := str_or (cr_node_id cr) (case inb of None \<Rightarrow> [] | Some (_, i) \<Rightarrow> ib_xui_node_id i),
             vc_remote_client_key := cr_remote_key cr, vc_xui_raw := cr_raw cr\<rparr>) (db_clients d)
      in (ck, d\<lparr>db_clients := t\<rparr>))"

datatype panel_link_error =
    UuidMissing | ClientWithoutInbound | ClientInboundMissing | ClientInboundWithoutPanel
  | ClientInboundInactive | ClientPanelMissing | ClientPanelInactive

definition vpn_client_panel_error :: "db \<Rightarrow> vpn_client \<Rightarrow> panel_link_error option" where
  "vpn_client_panel_error d c =
     (if vc_uuid c = [] then Some UuidMissing
      else case vc_inbound c of
        None \<Rightarrow> Some ClientWithoutInbound
      | Some ik \<Rightarrow>
          (case get_inbound d ik of
             None \<Rightarrow> Some ClientInboundMissing
           | Some i \<Rightarrow>
               if ib_panel i = None then Some ClientInboundWithoutPanel
               else if \<not> ib_is_active i then Some ClientInboundInactive
               else case panel_of d i of
                 None \<Rightarrow> Some ClientPanelMissing
               | Some p \<Rightarrow> if \<not> pn_is_active p then Some ClientPanelInactive else None))"

definition ensure_legacy_order_client :: "env \<Rightarrow> pk \<Rightarrow> order \<Rightarrow> db \<Rightarrow> db" where
  "ensure_legacy_order_client en k ord d =
     (if clients_of_order k d \<noteq> [] \<or> \<not> can_be_activated ord then d
      else snd (create_order_vpn_client en k ord (order_inbound_row d ord) (o_username ord)
                  \<lparr>cr_uuid = o_uuid ord, cr_email = o_username ord, cr_sub_id = [], cr_sub_link = o_sub_link ord,
                   cr_direct_link = o_direct_link ord, cr_node_id = [], cr_remote_key = [], cr_expires_at = None,
                   cr_raw_links = [],
                   cr_raw = [(''id'', JStr (o_uuid ord)), (''email'', JStr (o_username ord))]\<rparr> ClInactive d))"

definition sync_order_primary_client_fields :: "vpn_client option \<Rightarrow> order \<Rightarrow> order" where
  "sync_order_primary_client_fields client ord =
     (case client of
        None \<Rightarrow> ord
      | Some c \<Rightarrow> ord\<lparr>o_inbound := orelse (o_inbound ord) (vc_inbound c),
                      o_username := str_or (o_username ord) (vc_username c),
                      o_uuid := str_or (o_uuid ord) (vc_uuid c),
                      o_sub_link := str_or (o_sub_link ord) (vc_sub_link c),
                      o_direct_link := str_or (o_direct_link ord) (vc_direct_link c)\<rparr>)"

definition change_users :: "(int \<Rightarrow> int) \<Rightarrow> pk \<Rightarrow> db \<Rightarrow> db" where
  "change_users f ik d =
     d\<lparr>db_inbounds := modify_where (\<lambda>j _. j = ik) (\<lambda>i. i\<lparr>ib_current_users := f (ib_current_users i)\<rparr>) (db_inbounds d)\<rparr>"

definition add_user :: "pk \<Rightarrow> db \<Rightarrow> db" where
  "add_user ik d = change_users (\<lambda>n. n + 1) ik d"

definition clients_in_order :: "pk \<Rightarrow> db \<Rightarrow> (pk \<times> vpn_client) list" where
  "clients_in_order k d =
     ordered_where (\<lambda>(j, c). (vc_created_at c, j)) (\<lambda>_ c. vc_order c = Some k) (db_clients d)"

section \<open>Local records of remote clients\<close>

definition same_text :: "string \<Rightarrow> string \<Rightarrow> bool" where
  "same_text a b \<longleftrightarrow> lower a = lower b"

definition client_identifiers :: "client_result \<Rightarrow> string set" where
  "client_identifiers cr = {strip (cr_uuid cr), strip (cr_email cr), strip (cr_remote_key cr)} - {[]}"

definition local_client_matches :: "pk \<Rightarrow> pk \<Rightarrow> client_result \<Rightarrow> db \<Rightarrow> (pk \<times> vpn_client) list" where
  "local_client_matches k ik cr d =
     ordered_where (\<lambda>(j, c). (vc_created_at c, j))
       (\<lambda>_ c. vc_order c = Some k \<and> vc_inbound c = Some ik \<and> vc_status c \<noteq> ClDeleted \<and>
          (\<exists>v \<in> client_identifiers cr. same_text (vc_uuid c) v \<or> same_text (vc_xui_email c) v \<or>
             same_text (vc_remote_client_key c) v)) (db_clients d)"

definition refresh_local_client :: "env \<Rightarrow> order \<Rightarrow> plan \<Rightarrow> inbound \<Rightarrow> client_result \<Rightarrow> vpn_client \<Rightarrow> vpn_client" where
  "refresh_local_client en ord p i cr c =
     (let uuid = str_or (cr_uuid cr) (vc_uuid c);
          c1 = mark_active en (int (pl_duration_days p))
                 (c\<lparr>vc_store := o_store ord, vc_plan := o_plan ord,
                    vc_username := str_or (vc_username c) (str_or (cr_email cr) (o_username ord)),
                    vc_xui_email := str_or (cr_email cr) (vc_xui_email c), vc_uuid := uuid,
                    vc_sub_id := str_or (cr_sub_id cr) (vc_sub_id c),
                    vc_sub_link := str_or (cr_sub_link cr) (vc_sub_link c),
                    vc_direct_link := str_or (cr_direct_link cr) (vc_direct_link c),
                    vc_traffic_limit_bytes := traffic_limit_bytes p,
                    vc_duration_days := int (pl_duration_days p), vc_device_limit := pl_device_limit p,
                    vc_xui_node_id := str_or (cr_node_id cr) (ib_xui_node_id i),
                    vc_remote_client_key := str_or (cr_remote_key cr) (build_remote_client_key i uuid),
                    vc_xui_raw := cr_raw cr\<rparr>)
      in c1\<lparr>vc_expires_at := orelse (cr_expires_at cr) (vc_expires_at c1)\<rparr>)"

definition upsert_local_client ::
  "env \<Rightarrow> pk \<Rightarrow> order \<Rightarrow> pk \<times> inbound \<Rightarrow> client_result \<Rightarrow> (pk \<times> bool) act" where
  "upsert_local_client en k ord ki cr d =
     (case local_client_matches k (fst ki) cr d of
        [(ck, c)] \<Rightarrow> (Inr (ck, False), put_client ck (refresh_local_client en ord (order_plan d ord) (snd ki) cr c) d)
      | [] \<Rightarrow>
          let (ck, d1) = create_order_vpn_client en k ord (Some ki) (str_or (cr_email cr) (o_username ord)) cr ClActive d;
              d2 = add_user (fst ki) d1
          in (case get_client d2 ck of
                None \<Rightarrow> (Inl ''client_missing'', d2)
              | Some c \<Rightarrow> (Inr (ck, True), put_client ck (refresh_local_client en ord (order_plan d ord) (snd ki) cr c) d2))
      | _ \<Rightarrow> (Inl ''ambiguous_local_client'', d))"

section \<open>Enabled clients on modern panels\<close>

text \<open>\<open>{**client_result, **verified}\<close>.\<close>

definition merge_verified :: "client_result \<Rightarrow> client_result \<Rightarrow> client_result" where
  "merge_verified cr v = v\<lparr>cr_raw_links := cr_raw_links cr\<rparr>"

definition lookup_existing_remote_client :: "remote \<Rightarrow> client_result option act" where
  "lookup_existing_remote_client rm = request (rm_lookup rm)"

definition verify_remote :: "string \<Rightarrow> remote \<Rightarrow> client_result act" where
  "verify_remote e rm =
     and_then (lookup_existing_remote_client rm)
       (\<lambda>r. case r of None \<Rightarrow> raise_act e | Some v \<Rightarrow> (\<lambda>d. (Inr v, d)))"

text \<open>One client of the order on one inbound: reused when the panel has it, else created, and in
  both cases looked up again before it is recorded.\<close>

definition provision_single :: "env \<Rightarrow> remote \<Rightarrow> pk \<Rightarrow> order \<Rightarrow> pk \<times> inbound \<Rightarrow> (pk \<times> bool) act" where
  "provision_single en rm k ord ki =
     and_then (lookup_existing_remote_client rm) (\<lambda>found.
     and_then (case found of
                 Some cr \<Rightarrow> (\<lambda>d. (Inr cr, d))
               | None \<Rightarrow> require ''remote_create_failed'' (rm_create_enabled rm)) (\<lambda>cr.
     and_then (verify_remote ''remote_verify_failed'' rm) (\<lambda>v.
     and_then (upsert_local_client en k ord ki (merge_verified cr v)) (\<lambda>(ck, _) d.
       (Inr (ck, found \<noteq> None), d)))))"

definition client_result_json :: "client_result \<Rightarrow> json" where
  "client_result_json cr =
     JObj [(''uuid'', JStr (cr_uuid cr)), (''email'', JStr (cr_email cr)), (''sub_id'', JStr (cr_sub_id cr)),
           (''sub_link'', JStr (cr_sub_link cr)), (''direct_link'', JStr (cr_direct_link cr)),
           (''xui_node_id'', JStr (cr_node_id cr)), (''remote_client_key'', JStr (cr_remote_key cr)),
           (''raw'', JObj (cr_raw cr))]"

definition fill_missing_remote :: "remote \<Rightarrow> client_result option \<Rightarrow> client_result act" where
  "fill_missing_remote rm found =
     (case found of
        Some cr \<Rightarrow> (\<lambda>d. (Inr cr, d))
      | None \<Rightarrow> require ''remote_multi_inbound_create_failed'' (rm_create_enabled rm))"

text \<open>One client of a bundle: every inbound looked up, the missing ones created (all at once when
  none exists), the number of results checked, and every inbound verified.\<close>

definition bundle_results :: "remote \<Rightarrow> client_result option list \<Rightarrow> client_result list act" where
  "bundle_results rm found =
     (if list_all (\<lambda>x. x = None) found
      then require ''remote_multi_inbound_create_failed'' (rm_create_multi rm)
      else each_act (fill_missing_remote rm) found)"

definition bundle_primary :: "(pk \<times> inbound) list \<Rightarrow> client_result list \<Rightarrow> client_result act" where
  "bundle_primary kis vs =
     (case vs of
        [] \<Rightarrow> raise_act ''remote_multi_inbound_verify_failed''
      | v # _ \<Rightarrow> (\<lambda>d. (Inr (v\<lparr>cr_raw := dset ''bundle_inbound_pks'' (JList (map (\<lambda>(ik, _). JInt (int ik)) kis))
                              (dset ''bundle_inbound_results'' (JList (map client_result_json vs)) (cr_raw v))\<rparr>), d)))"

definition provision_bundle ::
  "env \<Rightarrow> remote \<Rightarrow> pk \<Rightarrow> order \<Rightarrow> pk \<times> inbound \<Rightarrow> (pk \<times> inbound) list \<Rightarrow> (pk \<times> bool) act" where
  "provision_bundle en rm k ord ki kis =
     and_then (each_act (\<lambda>_. lookup_existing_remote_client rm) kis) (\<lambda>found.
     and_then (bundle_results rm found) (\<lambda>crs.
     if length crs \<noteq> length kis then raise_act ''remote_multi_inbound_verify_failed''
     else
     and_then (each_act (\<lambda>cr. and_then (verify_remote ''remote_multi_inbound_verify_failed'' rm)
                                (\<lambda>v d. (Inr (merge_verified cr v), d))) crs) (\<lambda>vs.
     and_then (bundle_primary kis vs) (\<lambda>primary.
     and_then (upsert_local_client en k ord ki primary) (\<lambda>(ck, _) d.
       (Inr (ck, list_all (\<lambda>x. x \<noteq> None) found), d))))))"

text \<open>One client on PasarGuard; a result without links is an error.\<close>

definition pasarguard_links :: "client_result \<Rightarrow> string list" where
  "pasarguard_links cr =
     (let links = filter (\<lambda>l. l \<noteq> []) (map strip (cr_raw_links cr)) in
      if links = [] \<and> strip (cr_direct_link cr) \<noteq> [] then [strip (cr_direct_link cr)] else links)"

definition provision_pasarguard ::
  "env \<Rightarrow> remote \<Rightarrow> pk \<Rightarrow> order \<Rightarrow> pk \<times> inbound \<Rightarrow> (pk \<times> inbound) list \<Rightarrow> (pk \<times> string list) act" where
  "provision_pasarguard en rm k ord ki kis =
     and_then (request (rm_create_pasarguard rm)) (\<lambda>cr.
     case pasarguard_links cr of
       [] \<Rightarrow> raise_act ''pasarguard_raw_empty''
     | l # ls \<Rightarrow>
         and_then (upsert_local_client en k ord ki
             (cr\<lparr>cr_direct_link := l,
                 cr_raw := dset ''native_raw_delivery'' (JBool True)
                   (dset ''pasarguard_group_ids'' (JList (map (\<lambda>(_, i). JInt (int (ib_inbound_id i))) kis))
                     (dset ''pasarguard_group_pks'' (JList (map (\<lambda>(ik, _). JInt (int ik)) kis)) (cr_raw cr)))\<rparr>))
           (\<lambda>(ck, created) d.
              (Inr (ck, l # ls),
               if created \<and> length kis > 1 then fold (\<lambda>(ik, _). add_user ik) (tl kis) d else d)))"

section \<open>Results\<close>

record result =
  pr_ok :: bool
  pr_message :: string
  pr_already_provisioned :: bool
  pr_client :: "pk option"
  pr_safe_error :: string
  pr_cups :: bool

definition failed :: "string \<Rightarrow> string \<Rightarrow> result" where
  "failed msg err = \<lparr>pr_ok = False, pr_message = msg, pr_already_provisioned = False, pr_client = None,
     pr_safe_error = err, pr_cups = False\<rparr>"

definition succeeded :: "string \<Rightarrow> pk option \<Rightarrow> result" where
  "succeeded msg c = \<lparr>pr_ok = True, pr_message = msg, pr_already_provisioned = False, pr_client = c,
     pr_safe_error = [], pr_cups = False\<rparr>"

definition failed_modern_order :: "env \<Rightarrow> string \<Rightarrow> strategy \<Rightarrow> order \<Rightarrow> order" where
  "failed_modern_order en err strat ord =
     mark_provisioning_state ProvFailed err None False
       (ord\<lparr>o_metadata := dset ''provisioning_strategy'' (JStr (strategy_text strat))
              (dset ''panel_provisioning_reason'' (JStr (str_or err ''provisioning_failed''))
                (dset ''panel_provisioning_last_failed_at'' (JInt (e_now en))
                  (dset ''panel_provisioning_deferred'' (JBool True) (o_metadata ord)))),
            o_is_paid := True, o_verification_status := VerVerified,
            o_status := (if o_status ord \<noteq> Completed then Confirmed else Completed)\<rparr>)"

definition finish_failed_modern_order :: "env \<Rightarrow> pk \<Rightarrow> order \<Rightarrow> string \<Rightarrow> strategy \<Rightarrow> db \<Rightarrow> db" where
  "finish_failed_modern_order en k ord err strat d = save_order en k (failed_modern_order en err strat ord) d"

definition bundle_metadata :: "db \<Rightarrow> (pk \<times> inbound) list \<Rightarrow> dict \<Rightarrow> dict" where
  "bundle_metadata d kis m =
     dset ''bundle_inbound_ids'' (JList (map (\<lambda>(_, i). JInt (int (ib_inbound_id i))) kis))
       (dset ''bundle_inbound_pks'' (JList (map (\<lambda>(ik, _). JInt (int ik)) kis))
         (dset ''provisioning_scopes'' (JList (map (\<lambda>ki. JObj (provisioning_scope d ki)) kis))
           (dset ''multi_inbound_bundle'' (JBool True) m)))"

text \<open>The order as it is saved before the remote requests: paid, verified, confirmed, provisioning.\<close>

definition begin_enabled_order ::
  "db \<Rightarrow> order \<Rightarrow> pk \<times> inbound \<Rightarrow> (pk \<times> inbound) list \<Rightarrow> strategy \<Rightarrow> bool \<Rightarrow> bool \<Rightarrow> order" where
  "begin_enabled_order d ord ki kis strat bundle native =
     (let m = freeze_order_provisioning_metadata d ord ki strat;
          m1 = (if native then dset ''pasarguard_native_delivery'' (JBool True) m else m);
          m2 = (if bundle then bundle_metadata d kis m1 else m1)
      in mark_provisioning_state ProvProvisioning [] None True
           (ord\<lparr>o_inbound := Some (fst ki), o_metadata := m2, o_is_paid := True,
                o_verification_status := VerVerified, o_status := Confirmed\<rparr>))"

text \<open>The order as it is saved after them.\<close>

definition complete_enabled_order ::
  "env \<Rightarrow> pk option \<Rightarrow> vpn_client option \<Rightarrow> string \<Rightarrow> (dict \<Rightarrow> dict) \<Rightarrow> order \<Rightarrow> order" where
  "complete_enabled_order en actor primary link extra ord =
     (let ord1 = (case primary of
                    None \<Rightarrow> ord
                  | Some c \<Rightarrow> ord\<lparr>o_uuid := vc_uuid c, o_sub_link := vc_sub_link c,
                                  o_username := str_or (o_username ord) (vc_username c)\<rparr>);
          ord2 = mark_payment_verified en actor (ord1\<lparr>o_direct_link := link\<rparr>)
      in mark_provisioning_state ProvProvisioned [] (Some (e_now en)) False
           (ord2\<lparr>o_metadata := extra (dset ''panel_provisioned_at'' (JInt (e_now en))
                   (dset ''panel_provisioning_reason'' (JStr [])
                     (dset ''panel_provisioning_deferred'' (JBool False) (o_metadata ord2))))\<rparr>))"

definition first_client :: "db \<Rightarrow> pk list \<Rightarrow> vpn_client option" where
  "first_client d cks = Option.bind (first_of cks) (get_client d)"

section \<open>Activation\<close>

definition activate_pasarguard ::
  "env \<Rightarrow> remote \<Rightarrow> pk option \<Rightarrow> strategy \<Rightarrow> pk \<Rightarrow> order \<Rightarrow> pk \<times> inbound \<Rightarrow> (pk \<times> inbound) list \<Rightarrow> db \<Rightarrow> result \<times> db" where
  "activate_pasarguard en rm actor strat k ord ki kis d =
     (let (ord1, d1) = save_back en k (begin_enabled_order d ord ki kis strat (length kis > 1) True) d in
      case each_act (\<lambda>_. provision_pasarguard en rm k ord1 ki kis) [1..<Suc (required_client_count ord1)] d1 of
        (Inl e, d2) \<Rightarrow> (failed ''pasarguard_failed'' e, finish_failed_modern_order en k ord1 e strat d2)
      | (Inr cs, d2) \<Rightarrow>
          let links = concat (map snd cs);
              ord2 = complete_enabled_order en actor (first_client d2 (map fst cs))
                       (case links of [] \<Rightarrow> o_direct_link ord1 | l # _ \<Rightarrow> l)
                       (\<lambda>m. (if links \<noteq> [] then dset ''direct_delivery_links'' (JList (map JStr links)) else id)
                              (dset ''pasarguard_native_delivery'' (JBool True) m)) ord1
          in (succeeded ''pasarguard_activated'' (first_of (map fst cs)), save_order en k ord2 d2))"

definition activate_modern_clients ::
  "env \<Rightarrow> remote \<Rightarrow> pk option \<Rightarrow> strategy \<Rightarrow> pk \<Rightarrow> order \<Rightarrow> pk \<times> inbound \<Rightarrow> (pk \<times> inbound) list \<Rightarrow> db \<Rightarrow> result \<times> db" where
  "activate_modern_clients en rm actor strat k ord ki kis d =
     (let bundle = (truthy (dget ''multi_inbound_bundle'' (o_metadata ord)) \<and> length kis > 1);
          (ord1, d1) = save_back en k (begin_enabled_order d ord ki kis strat bundle False) d in
      case each_act (\<lambda>_. if bundle then provision_bundle en rm k ord1 ki kis else provision_single en rm k ord1 ki)
             [1..<Suc (required_client_count ord1)] d1 of
        (Inl e, d2) \<Rightarrow> (failed ''modern_panel_failed'' e, finish_failed_modern_order en k ord1 e strat d2)
      | (Inr cs, d2) \<Rightarrow>
          let primary = first_client d2 (map fst cs);
              ord2 = complete_enabled_order en actor primary
                       (case primary of None \<Rightarrow> o_direct_link ord1 | Some c \<Rightarrow> vc_direct_link c)
                       (dset ''remote_reused_on_retry'' (JBool (list_ex snd cs))) ord1
          in (succeeded ''modern_activated'' (first_of (map fst cs)), save_order en k ord2 d2))"

definition scope_error_text :: "scope_error \<Rightarrow> string" where
  "scope_error_text e = (case e of
     ScopeKeyInvalid \<Rightarrow> ''invalid_scope_key''
   | ScopeAmbiguous \<Rightarrow> ''frozen_provisioning_scope_ambiguous''
   | ScopeMismatch \<Rightarrow> ''frozen_provisioning_scope_mismatch''
   | MultiScopeMismatch \<Rightarrow> ''frozen_multi_provisioning_scope_mismatch''
   | MultiScopeEmpty \<Rightarrow> ''frozen_multi_provisioning_scope_empty''
   | MultiScopeCrossPanel \<Rightarrow> ''frozen_multi_provisioning_scope_cross_panel''
   | MultiRequiresModern \<Rightarrow> ''frozen_multi_provisioning_requires_modern_multi_node''
   | MultiScopePanelMissing \<Rightarrow> ''panel_missing'')"

definition activate_modern_enabled_order ::
  "env \<Rightarrow> remote \<Rightarrow> pk option \<Rightarrow> strategy \<Rightarrow> pk \<Rightarrow> order \<Rightarrow> db \<Rightarrow> result \<times> db" where
  "activate_modern_enabled_order en rm actor strat k ord d =
     (case resolve_frozen_order_inbounds d ord of
        Inl e \<Rightarrow> (failed ''scope_not_resolved'' (scope_error_text e),
                  finish_failed_modern_order en k ord (scope_error_text e) strat d)
      | Inr [] \<Rightarrow> (failed ''route_missing'' ''missing_scope'', d)
      | Inr (ki # rest) \<Rightarrow>
          (case panel_of d (snd ki) of
             None \<Rightarrow> (failed ''route_missing'' ''missing_scope'', d)
           | Some p \<Rightarrow>
               if pn_family p = FamPasarguard then activate_pasarguard en rm actor strat k ord ki (ki # rest) d
               else activate_modern_clients en rm actor strat k ord ki (ki # rest) d))"

section \<open>Clients created inactive\<close>

definition deferred_username :: "env \<Rightarrow> dict \<Rightarrow> db \<Rightarrow> string \<times> db" where
  "deferred_username en m d =
     (case dget ''deferred_panel_username'' m of
        JStr s \<Rightarrow> if s \<noteq> [] then (s, d) else ask (e_name en) d
      | _ \<Rightarrow> ask (e_name en) d)"

text \<open>One missing client: looked up first, created inactive only when the lookup says it is absent.\<close>

definition provision_inactive ::
  "env \<Rightarrow> remote \<Rightarrow> pk \<Rightarrow> order \<Rightarrow> pk \<times> inbound \<Rightarrow> string \<Rightarrow> nat \<Rightarrow> pk act" where
  "provision_inactive en rm k ord ki username index =
     (\<lambda>d. case lookup_existing_remote_client rm d of
        (Inl e, d1) \<Rightarrow> (Inl ''remote_state_unknown'', d1)
      | (Inr found, d1) \<Rightarrow>
          (case (case found of Some cr \<Rightarrow> (Some cr, d1) | None \<Rightarrow> ask (rm_create_inactive rm) d1) of
             (None, d2) \<Rightarrow> (Inl ''panel_unavailable_on_activation'', d2)
           | (Some cr, d2) \<Rightarrow>
               let (ck, d3) = create_order_vpn_client en k ord (Some ki)
                                (client_display_username username cr ord index) cr ClInactive d2
               in (Inr ck, add_user (fst ki) d3)))"

definition missing_client_count :: "pk \<Rightarrow> order \<Rightarrow> db \<Rightarrow> int" where
  "missing_client_count k ord d = int (required_client_count ord) - int (length (clients_of_order k d))"

definition inbound_for_missing :: "order \<Rightarrow> int \<Rightarrow> db \<Rightarrow> select_error + (pk \<times> inbound) option" where
  "inbound_for_missing ord missing d =
     (let with_row = (\<lambda>s. map_option (\<lambda>r. (s, r)) (row (db_stores d) s)) in
      case order_inbound_row d ord of
        Some ki \<Rightarrow>
          (case validate_inbound_for_order d (o_store ord) missing False ki of Inl e \<Rightarrow> Inl e | Inr x \<Rightarrow> Inr (Some x))
      | None \<Rightarrow>
          (case o_plan ord of
             None \<Rightarrow> Inl RouteMissing
           | Some pk \<Rightarrow> select_inbound_for_plan (pk, order_plan d ord) (Option.bind (o_store ord) with_row)
                          (o_operator ord) missing False d))"

definition deferred_again :: "env \<Rightarrow> pk \<Rightarrow> order \<Rightarrow> dict \<Rightarrow> db \<Rightarrow> db" where
  "deferred_again en k ord m d =
     save_order en k (ord\<lparr>o_metadata :=
       dset ''panel_provisioning_missing_clients'' (JInt (missing_client_count k ord d))
         (dset ''panel_provisioning_reason'' (JStr ''panel_unavailable_on_activation'')
           (dset ''panel_provisioning_last_failed_at'' (JInt (e_now en))
             (dset ''panel_provisioning_deferred'' (JBool True) m)))\<rparr>) d"

definition provision_missing_panel_client :: "env \<Rightarrow> remote \<Rightarrow> pk \<Rightarrow> order \<Rightarrow> db \<Rightarrow> (string + order) \<times> db" where
  "provision_missing_panel_client en rm k ord d =
     (let d0 = ensure_legacy_order_client en k ord d; missing = missing_client_count k ord d0 in
      if missing \<le> 0 then (Inr ord, d0)
      else case inbound_for_missing ord missing d0 of
        Inl _ \<Rightarrow> (Inl ''inbound_not_usable'', d0)
      | Inr None \<Rightarrow> (Inl ''no_server_available'', d0)
      | Inr (Some ki) \<Rightarrow>
          let m = freeze_order_provisioning_metadata d0 ord ki LegacyPrecreateInactive;
              (ord1, d1) = save_back en k (ord\<lparr>o_inbound := Some (fst ki), o_metadata := m\<rparr>) d0;
              (username, d2) = deferred_username en m d1;
              existing = length (clients_of_order k d2)
          in case each_act (provision_inactive en rm k ord1 ki username)
                    [Suc existing..<Suc (existing + nat missing)] d2 of
               (Inl e, d3) \<Rightarrow>
                 (Inl e, if e = ''panel_unavailable_on_activation'' then deferred_again en k ord1 m d3 else d3)
             | (Inr _, d3) \<Rightarrow>
                 let ord2 = sync_order_primary_client_fields (map_option snd (first_of (clients_in_order k d3))) ord1;
                     ord3 = ord2\<lparr>o_metadata :=
                       dset ''panel_provisioning_missing_clients'' (JInt 0)
                         (dset ''panel_provisioning_reason'' (JStr [])
                           (dset ''panel_provisioned_at'' (JInt (e_now en))
                             (dset ''panel_provisioning_deferred'' (JBool False) m)))\<rparr>;
                     (ord4, d4) = save_back en k ord3 d3
                 in (Inr ord4, d4))"

text \<open>Enabling the clients in order; the first one that cannot be enabled stops the activation.\<close>

fun enable_clients :: "env \<Rightarrow> remote \<Rightarrow> plan \<Rightarrow> pk list \<Rightarrow> db \<Rightarrow> string option \<times> db" where
  "enable_clients en rm p [] d = (None, d)"
| "enable_clients en rm p (ck # cks) d =
     (case get_client d ck of
        None \<Rightarrow> (Some ''client_missing'', d)
      | Some c \<Rightarrow>
          if vc_status c = ClActive then enable_clients en rm p cks d
          else if vpn_client_panel_error d c \<noteq> None then (Some ''panel_link_invalid'', d)
          else case ask (rm_enable rm) d of
            (False, d1) \<Rightarrow> (Some ''panel_enable_failed'', d1)
          | (True, d1) \<Rightarrow> enable_clients en rm p cks (put_client ck (mark_active en (int (pl_duration_days p)) c) d1))"

definition complete_legacy_order :: "env \<Rightarrow> pk option \<Rightarrow> vpn_client option \<Rightarrow> order \<Rightarrow> db \<Rightarrow> order" where
  "complete_legacy_order en actor primary ord d =
     (let ord1 = sync_order_primary_client_fields primary (mark_payment_verified en actor ord);
          m = (case order_inbound_row d ord1 of
                 None \<Rightarrow> o_metadata ord1
               | Some ki \<Rightarrow> freeze_order_provisioning_metadata d ord1 ki LegacyPrecreateInactive)
      in mark_provisioning_state ProvProvisioned [] (Some (e_now en)) False (ord1\<lparr>o_metadata := m\<rparr>))"

definition activate_legacy_order :: "env \<Rightarrow> remote \<Rightarrow> pk option \<Rightarrow> pk \<Rightarrow> order \<Rightarrow> db \<Rightarrow> result \<times> db" where
  "activate_legacy_order en rm actor k ord d =
     (let (ord1, d1) = save_back en k (mark_provisioning_state ProvProvisioning [] None True ord) d;
          d2 = ensure_legacy_order_client en k ord1 d1;
          (made, d3) = (if missing_client_count k ord1 d2 > 0 then provision_missing_panel_client en rm k ord1 d2
                        else (Inr ord1, d2))
      in case made of
           Inl e \<Rightarrow> (failed e [], d3)
         | Inr ord2 \<Rightarrow>
             let clients = clients_in_order k d3 in
             if length clients < required_client_count ord2 then (failed ''clients_not_ready'' [], d3)
             else (case enable_clients en rm (order_plan d3 ord2) (map fst clients) d3 of
                     (Some e, d4) \<Rightarrow> (failed e [], d4)
                   | (None, d4) \<Rightarrow>
                       (succeeded ''legacy_activated'' (first_of (map fst clients)),
                        save_order en k (complete_legacy_order en actor
                          (Option.bind (first_of (map fst clients)) (get_client d4)) ord2 d4) d4)))"

section \<open>Renewals\<close>

text \<open>The stored key of the client to renew; anything but a number makes the query raise.\<close>

definition json_pk :: "json \<Rightarrow> string + pk" where
  "json_pk v = (case v of
     JInt n \<Rightarrow> if 0 \<le> n then Inr (nat n) else Inl ''invalid_key''
   | JStr s \<Rightarrow> (case text_pk s of Inl _ \<Rightarrow> Inl ''invalid_key'' | Inr n \<Rightarrow> Inr n)
   | _ \<Rightarrow> Inl ''invalid_key'')"

definition renewal_refused :: "db \<Rightarrow> order \<Rightarrow> vpn_client \<Rightarrow> string option" where
  "renewal_refused d ord c =
     (if (case (o_customer ord, Option.bind (vc_order c) (get_order d)) of
            (Some cu, Some o2) \<Rightarrow> o_customer o2 \<noteq> Some cu | _ \<Rightarrow> False)
      then Some ''client_of_other_customer''
      else if vpn_client_panel_error d c \<noteq> None then Some ''panel_link_invalid''
      else None)"

definition renewed_client :: "plan \<Rightarrow> pk option \<Rightarrow> renew_result \<Rightarrow> vpn_client \<Rightarrow> vpn_client" where
  "renewed_client p plan_pk r c =
     c\<lparr>vc_plan := plan_pk, vc_status := ClActive, vc_traffic_limit_bytes := traffic_limit_bytes p,
       vc_used_upload_bytes := 0, vc_used_download_bytes := 0, vc_used_traffic_bytes := 0,
       vc_duration_days := int (pl_duration_days p), vc_device_limit := pl_device_limit p,
       vc_expires_at := orelse (rn_expiry_at r) (vc_expires_at c), vc_disabled_at := None,
       vc_xui_raw := (case rn_raw r of None \<Rightarrow> vc_xui_raw c | Some m \<Rightarrow> m)\<rparr>"

definition activate_renewal_order ::
  "env \<Rightarrow> remote \<Rightarrow> pk option \<Rightarrow> pk \<Rightarrow> order \<Rightarrow> db \<Rightarrow> (string + string option) \<times> db" where
  "activate_renewal_order en rm actor k ord d =
     (if \<not> truthy (dget ''renewal_client_pk'' (o_metadata ord)) then (Inr (Some ''no_renewal_target''), d)
      else case json_pk (dget ''renewal_client_pk'' (o_metadata ord)) of
        Inl e \<Rightarrow> (Inl e, d)
      | Inr ck \<Rightarrow>
          (case get_client d ck of
             None \<Rightarrow> (Inr (Some ''renewal_target_missing''), d)
           | Some c \<Rightarrow>
               (case renewal_refused d ord c of
                  Some e \<Rightarrow> (Inr (Some e), d)
                | None \<Rightarrow>
                    (case ask (rm_renew rm) d of
                       (None, d1) \<Rightarrow> (Inr (Some ''panel_renew_failed''), d1)
                     | (Some r, d1) \<Rightarrow>
                         let ord1 = mark_payment_verified en actor ord;
                             ord2 = ord1\<lparr>o_metadata := dset ''renewed_at'' (JInt (e_now en)) (o_metadata ord1)\<rparr>
                         in (Inr None, put_client ck (renewed_client (order_plan d1 ord) (o_plan ord) r c)
                                         (save_order en k ord2 d1))))))"

definition activate_renewal :: "env \<Rightarrow> remote \<Rightarrow> pk option \<Rightarrow> pk \<Rightarrow> order \<Rightarrow> result act" where
  "activate_renewal en rm actor k ord d =
     (let (ord1, d1) = save_back en k (mark_provisioning_state ProvProvisioning [] None True ord) d in
      case activate_renewal_order en rm actor k ord1 d1 of
        (Inl e, d2) \<Rightarrow> (Inl e, d2)
      | (Inr (Some e), d2) \<Rightarrow> (Inr (failed e []), d2)
      | (Inr None, d2) \<Rightarrow>
          (case get_order d2 k of
             None \<Rightarrow> (Inl ''order_missing'', d2)
           | Some ord2 \<Rightarrow>
               (Inr (succeeded ''renewed'' None),
                save_order en k (mark_provisioning_state ProvProvisioned [] (Some (e_now en)) False
                  (ord2\<lparr>o_metadata := dset ''provisioning_strategy'' (JStr (strategy_text RenewExistingClient))
                                        (o_metadata ord2)\<rparr>)) d2)))"

section \<open>Approval\<close>

text \<open>
  The engines that are modelled elsewhere or not at all: the resolved delivery configuration of
  the order's plan, canonical delivery (\<open>plan_delivery_execution.py\<close>), recipes
  (\<open>cup_fulfillment_services.py\<close>), inventory assignment (\<open>customer_assignment.py\<close>) and the
  rebuilding of subscription cups. An \<open>Inl\<close> is a raised exception.
\<close>

datatype delivery_verdict = NoCanonical | CanonicalFallback | Canonical pk

datatype engine_result = NotIntercepted | Delivered "pk option" bool | NotDelivered string

record engines =
  eg_resolve :: "order \<Rightarrow> db \<Rightarrow> delivery_verdict"
  eg_execute :: "pk \<Rightarrow> pk \<Rightarrow> engine_result act"
  eg_recipe :: "pk \<Rightarrow> engine_result act"
  eg_inventory :: "pk \<Rightarrow> result act"
  eg_rebuild :: "pk \<Rightarrow> db \<Rightarrow> db"

datatype source = ManualRetry | TimedReceiptApproval | ActivateOrder | OtherSource

definition engine_outcome :: "string \<Rightarrow> engine_result \<Rightarrow> result" where
  "engine_outcome msg r = (case r of
     Delivered c cups \<Rightarrow> (succeeded msg c)\<lparr>pr_cups := cups\<rparr>
   | NotDelivered e \<Rightarrow> failed ''delivery_failed'' e
   | NotIntercepted \<Rightarrow> failed ''delivery_failed'' [])"

definition activate_by_strategy ::
  "env \<Rightarrow> remote \<Rightarrow> pk option \<Rightarrow> strategy \<Rightarrow> pk \<Rightarrow> order \<Rightarrow> result act" where
  "activate_by_strategy en rm actor strat k ord d =
     (if (strat = DeferredCreateEnabled \<or> strat = DirectCreateEnabled) \<and>
         (case order_panel d ord of None \<Rightarrow> False | Some p \<Rightarrow> is_modern_panel p)
      then (case activate_modern_enabled_order en rm actor strat k ord d of (r, d1) \<Rightarrow> (Inr r, d1))
      else (case activate_legacy_order en rm actor k ord d of (r, d1) \<Rightarrow> (Inr r, d1)))"

definition deliver_order :: "env \<Rightarrow> remote \<Rightarrow> engines \<Rightarrow> pk option \<Rightarrow> pk \<Rightarrow> order \<Rightarrow> result act" where
  "deliver_order en rm eg actor k ord d =
     (let strat = resolve_order_provisioning_strategy d ord in
      if strat = RenewExistingClient then activate_renewal en rm actor k ord d
      else case eg_resolve eg ord d of
        CanonicalFallback \<Rightarrow> activate_by_strategy en rm actor strat k ord d
      | Canonical cfg \<Rightarrow>
          (case eg_execute eg k cfg d of
             (Inl e, d1) \<Rightarrow> (Inl e, d1)
           | (Inr r, d1) \<Rightarrow> (Inr (engine_outcome ''canonical_delivered'' r), d1))
      | NoCanonical \<Rightarrow>
          (case eg_recipe eg k d of
             (Inl e, d1) \<Rightarrow> (Inl e, d1)
           | (Inr NotIntercepted, d1) \<Rightarrow> activate_by_strategy en rm actor strat k ord d1
           | (Inr r, d1) \<Rightarrow> (Inr (engine_outcome ''recipe_delivered'' r), d1)))"

definition cancellation_started :: "audit option \<Rightarrow> bool" where
  "cancellation_started au \<longleftrightarrow>
     (case au of None \<Rightarrow> False | Some a \<Rightarrow> au_review_status a \<in> {RevCancelling, RevCancelFailed, RevCancelled})"

definition is_partial_retry :: "source \<Rightarrow> order \<Rightarrow> bool" where
  "is_partial_retry src ord \<longleftrightarrow> src = ManualRetry \<and> o_status ord = Completed \<and> order_has_partial_delivery ord"

text \<open>What stops an approval before anything is written.\<close>

definition approval_answer :: "source \<Rightarrow> audit option \<Rightarrow> order \<Rightarrow> result option" where
  "approval_answer src au ord =
     (if cancellation_started au then Some (failed ''cancellation_recorded'' [])
      else if purchased_order ord \<and> \<not> is_partial_retry src ord
      then Some ((succeeded ''already_completed'' None)\<lparr>pr_already_provisioned := True\<rparr>)
      else if is_partial_retry src ord \<and> o_verification_status ord = VerVerified then None
      else case provisioning_block_reason ord of
        None \<Rightarrow> None
      | Some OrderStatusNotProvisionable \<Rightarrow> Some (failed ''not_approvable'' ''order_status_not_provisionable'')
      | Some PaymentRejected \<Rightarrow> Some (failed ''not_approvable'' ''payment_rejected'')
      | Some CompletedOrderNotVerified \<Rightarrow> Some (failed ''not_approvable'' ''completed_order_not_verified''))"

definition note_attempt :: "env \<Rightarrow> order \<Rightarrow> db \<Rightarrow> order \<times> db" where
  "note_attempt en ord d =
     (let (name, d1) = (if o_username ord = [] then ask (e_name en) d else (o_username ord, d))
      in (ord\<lparr>o_metadata := dsetdefault ''provisioning_email_prefix'' (JStr name)
               (dset ''provisioning_last_attempt_at'' (JInt (e_now en)) (o_metadata ord))\<rparr>, d1))"

text \<open>What follows a delivery: cups, the inviter's package and the message, or the failure mark.\<close>

definition after_delivery ::
  "env \<Rightarrow> remote \<Rightarrow> engines \<Rightarrow> bool \<Rightarrow> pk \<Rightarrow> result \<Rightarrow> db \<Rightarrow> result \<times> db" where
  "after_delivery en rm eg notify k r d =
     (if pr_ok r then
        let direct = (case get_order d k of None \<Rightarrow> False
               | Some ord \<Rightarrow> dget ''delivery_mode'' (as_dict (dget ''plan_delivery_v2'' (o_metadata ord))) = JStr ''DIRECT_LINKS'');
            d1 = (if \<not> pr_cups r \<and> \<not> direct then eg_rebuild eg k d else d);
            d2 = snd (create_referral_reward_for_order en k d1)
        in if notify \<and> \<not> pr_already_provisioned r then
             let (sent, d3) = ask (rm_sent rm) d2
             in (if sent = 0 then r\<lparr>pr_message := pr_message r @ '' message_not_sent''\<rparr> else r,
                 d3\<lparr>db_outbox := OrderEvent k ''approved'' # db_outbox d3\<rparr>)
           else (r, d2)
      else
        (r, case get_order d k of
              None \<Rightarrow> d
            | Some ord \<Rightarrow> save_order en k (ord\<lparr>o_provisioning_status := ProvFailed,
                o_last_provisioning_error := str_or (pr_safe_error r) (pr_message r)\<rparr>) d))"

definition approve_order :: "env \<Rightarrow> remote \<Rightarrow> engines \<Rightarrow> pk option \<Rightarrow> source \<Rightarrow> bool \<Rightarrow> pk \<Rightarrow> result act" where
  "approve_order en rm eg actor src notify k d =
     (case get_order d k of
        None \<Rightarrow> (Inl ''order_missing'', d)
      | Some ord \<Rightarrow>
          (case approval_answer src (get_audit d k) ord of
             Some r \<Rightarrow> (Inr r, d)
           | None \<Rightarrow>
               let (ord1, d1) = note_attempt en ord d; (ord2, d2) = save_back en k ord1 d1
               in case deliver_order en rm eg actor k ord2 d2 of
                    (Inl e, d3) \<Rightarrow> (Inl e, rollback d d3)
                  | (Inr r, d3) \<Rightarrow> (case after_delivery en rm eg notify k r d3 of (r1, d4) \<Rightarrow> (Inr r1, d4))))"

text \<open>A renewal first commits a claim, so that an attempt whose outcome is unknown is not repeated.\<close>

definition renewal_claimable :: "order \<Rightarrow> bool" where
  "renewal_claimable ord \<longleftrightarrow> \<not> can_resend_order ord \<and> o_status ord \<noteq> Rejected \<and> o_status ord \<noteq> Cancelled"

definition renewal_running :: "order \<Rightarrow> bool" where
  "renewal_running ord \<longleftrightarrow>
     dget ''status'' (as_dict (dget ''renewal_recovery_attempt'' (o_metadata ord))) = JStr ''running''"

definition renewal_attempt :: "string \<Rightarrow> string \<Rightarrow> instant \<Rightarrow> json" where
  "renewal_attempt status key t = JObj [(''status'', JStr status), (key, JInt t)]"

definition approve_and_provision_order ::
  "env \<Rightarrow> remote \<Rightarrow> engines \<Rightarrow> pk option \<Rightarrow> source \<Rightarrow> bool \<Rightarrow> pk \<Rightarrow> result act" where
  "approve_and_provision_order en rm eg actor src notify k d =
     (case get_order d k of
        None \<Rightarrow> (Inl ''order_missing'', d)
      | Some ord \<Rightarrow>
          if truthy (dget ''admin_inventory_asset_id'' (o_metadata ord)) then eg_inventory eg k d
          else if \<not> order_is_renewal ord then approve_order en rm eg actor src notify k d
          else if \<not> renewal_claimable ord then approve_order en rm eg actor src notify k d
          else if renewal_running ord then (Inr (failed ''renewal_outcome_unknown'' []), d)
          else
            let d1 = save_order en k (ord\<lparr>o_metadata := dset ''renewal_recovery_attempt''
                        (renewal_attempt ''running'' ''started_at'' (e_now en)) (o_metadata ord)\<rparr>) d
            in case approve_order en rm eg actor src notify k d1 of
                 (Inl e, d2) \<Rightarrow> (Inl e, d2)
               | (Inr r, d2) \<Rightarrow> (Inr r, record_order_metadata en k ''renewal_recovery_attempt''
                     (renewal_attempt ''finished'' ''finished_at'' (e_now en)) d2))"

definition retry_order_completion :: "env \<Rightarrow> remote \<Rightarrow> engines \<Rightarrow> pk option \<Rightarrow> pk \<Rightarrow> result act" where
  "retry_order_completion en rm eg actor k d =
     (case get_order d k of
        None \<Rightarrow> (Inl ''order_missing'', d)
      | Some ord \<Rightarrow>
          if \<not> can_retry_order (get_audit d k) ord then (Inr (failed ''retry_not_available'' []), d)
          else approve_and_provision_order en rm eg actor ManualRetry True k d)"

definition activate_order :: "env \<Rightarrow> remote \<Rightarrow> engines \<Rightarrow> pk option \<Rightarrow> bool \<Rightarrow> pk \<Rightarrow> result act" where
  "activate_order en rm eg actor notify k d = approve_and_provision_order en rm eg actor ActivateOrder notify k d"

section \<open>Helper facts\<close>

text \<open>Remote work writes local clients and inbound counters only.\<close>

definition delivery_frame :: "db \<Rightarrow> db \<Rightarrow> bool" where
  "delivery_frame d d' \<longleftrightarrow> db_orders d' = db_orders d \<and> db_audits d' = db_audits d \<and>
     db_plans d' = db_plans d \<and> db_customers d' = db_customers d \<and> db_stores d' = db_stores d \<and>
     db_panels d' = db_panels d \<and> db_ledgers d' = db_ledgers d \<and> db_outbox d' = db_outbox d"

lemma delivery_frame_refl [simp]: "delivery_frame d d"
  by (simp add: delivery_frame_def)

lemma delivery_frame_trans [trans]:
  "delivery_frame d d1 \<Longrightarrow> delivery_frame d1 d2 \<Longrightarrow> delivery_frame d d2"
  by (simp add: delivery_frame_def)

lemma delivery_frame_get: "delivery_frame d d' \<Longrightarrow> get_order d' = get_order d \<and> get_audit d' = get_audit d"
  by (simp add: delivery_frame_def access_defs fun_eq_iff)

lemma delivery_frame_updates [simp]:
  "delivery_frame d (d1\<lparr>db_clients := t\<rparr>) = delivery_frame d d1"
  "delivery_frame d (d1\<lparr>db_inbounds := u\<rparr>) = delivery_frame d d1"
  "delivery_frame d (d1\<lparr>db_draws := n\<rparr>) = delivery_frame d d1"
  "delivery_frame d (put_client k c d1) = delivery_frame d d1"
  "delivery_frame d (add_user ik d1) = delivery_frame d d1"
  by (simp_all add: delivery_frame_def put_client_def add_user_def change_users_def)

lemma ask_delivery: "ask f d = (x, d') \<Longrightarrow> delivery_frame d d'"
  by (auto simp: ask_def)

lemma each_act_frame:
  assumes "\<And>i d x d'. f i d = (x, d') \<Longrightarrow> delivery_frame d d'"
  shows "each_act f is d = (r, d') \<Longrightarrow> delivery_frame d d'"
proof (induction "is" arbitrary: d r d')
  case Nil
  then show ?case by simp
next
  case (Cons i "is")
  obtain x d1 where x: "f i d = (x, d1)" by (cases "f i d")
  then have s1: "delivery_frame d d1" by (rule assms)
  show ?case
  proof (cases x)
    case (Inl e)
    with Cons.prems x s1 show ?thesis by simp
  next
    case (Inr y)
    obtain xs d2 where xs: "each_act f is d1 = (xs, d2)" by (cases "each_act f is d1")
    with Cons.prems x Inr have "d' = d2" by (cases xs) auto
    with Cons.IH [OF xs] s1 show ?thesis by (auto intro: delivery_frame_trans)
  qed
qed

lemma and_then_frame:
  assumes "and_then m f d = (r, d')" and "\<And>x d1. m d = (x, d1) \<Longrightarrow> delivery_frame d d1"
    and "\<And>x d1 r d2. f x d1 = (r, d2) \<Longrightarrow> delivery_frame d1 d2"
  shows "delivery_frame d d'"
proof -
  obtain x d1 where m: "m d = (x, d1)" by (cases "m d")
  with assms(2) have "delivery_frame d d1" by blast
  then show ?thesis
    using assms(1,3) m by (cases x) (auto simp: and_then_def intro: delivery_frame_trans)
qed

lemma create_client_frame:
  "create_order_vpn_client en k ord inb u cr st d = (ck, d') \<Longrightarrow> delivery_frame d d'"
  by (auto simp: create_order_vpn_client_def Let_def add_row_def)

lemma upsert_frame: "upsert_local_client en k ord ki cr d = (r, d') \<Longrightarrow> delivery_frame d d'"
  by (auto simp: upsert_local_client_def Let_def split: list.splits prod.splits option.splits
      dest!: create_client_frame)

lemma request_frame: "request f d = (r, d') \<Longrightarrow> delivery_frame d d'"
  by (auto simp: request_def ask_def)

lemma require_frame: "require e f d = (r, d') \<Longrightarrow> delivery_frame d d'"
  by (auto simp: require_def ask_def split: option.splits)

lemma raise_frame: "raise_act e d = (r, d') \<Longrightarrow> delivery_frame d d'"
  by (simp add: raise_act_def)

lemmas remote_frames = request_frame require_frame raise_frame upsert_frame

lemma verify_frame: "verify_remote e rm d = (r, d') \<Longrightarrow> delivery_frame d d'"
  unfolding verify_remote_def lookup_existing_remote_client_def
  by (erule and_then_frame) (auto dest: remote_frames split: option.splits)

lemma provision_single_frame: "provision_single en rm k ord ki d = (r, d') \<Longrightarrow> delivery_frame d d'"
  unfolding provision_single_def lookup_existing_remote_client_def
  by (erule and_then_frame, erule request_frame, erule and_then_frame,
      force dest: remote_frames split: option.splits, erule and_then_frame, erule verify_frame,
      erule and_then_frame, erule upsert_frame, auto)

lemma fill_missing_frame: "fill_missing_remote rm x d = (r, d') \<Longrightarrow> delivery_frame d d'"
  by (auto simp: fill_missing_remote_def dest: require_frame split: option.splits)

lemma fill_each_frame: "each_act (fill_missing_remote rm) xs d = (r, d') \<Longrightarrow> delivery_frame d d'"
  by (erule each_act_frame [rotated]) (erule fill_missing_frame)

lemma bundle_results_frame: "bundle_results rm found d = (r, d') \<Longrightarrow> delivery_frame d d'"
  unfolding bundle_results_def by (auto dest: require_frame fill_each_frame split: if_splits)

lemma bundle_primary_frame: "bundle_primary kis vs d = (r, d') \<Longrightarrow> delivery_frame d d'"
  by (auto simp: bundle_primary_def dest: raise_frame split: list.splits)

lemma verify_each_frame:
  "each_act (\<lambda>cr. and_then (verify_remote e rm) (\<lambda>v d. (Inr (merge_verified cr v), d))) crs d = (r, d') \<Longrightarrow>
   delivery_frame d d'"
  by (erule each_act_frame [rotated], erule and_then_frame, erule verify_frame, simp)

lemma lookup_each_frame:
  "each_act (\<lambda>_. lookup_existing_remote_client rm) kis d = (r, d') \<Longrightarrow> delivery_frame d d'"
  by (erule each_act_frame [rotated]) (simp add: lookup_existing_remote_client_def request_frame)

lemma provision_bundle_frame: "provision_bundle en rm k ord ki kis d = (r, d') \<Longrightarrow> delivery_frame d d'"
  unfolding provision_bundle_def
  apply (erule and_then_frame)
   apply (erule lookup_each_frame)
  apply (erule and_then_frame)
   apply (erule bundle_results_frame)
  apply (simp split: if_splits)
   apply (erule raise_frame)
  apply (erule and_then_frame)
   apply (erule verify_each_frame)
  apply (erule and_then_frame)
   apply (erule bundle_primary_frame)
  apply (erule and_then_frame)
   apply (erule upsert_frame)
  apply auto
  done

lemma fold_add_user_frame: "delivery_frame d (fold (\<lambda>(ik, _). add_user ik) kis d)"
proof (induction kis arbitrary: d)
  case (Cons ki kis)
  have "delivery_frame d (add_user (fst ki) d)" by simp
  from delivery_frame_trans [OF this Cons.IH] show ?case by (cases ki) simp
qed simp

lemma provision_pasarguard_frame:
  "provision_pasarguard en rm k ord ki kis d = (r, d') \<Longrightarrow> delivery_frame d d'"
  unfolding provision_pasarguard_def
  apply (erule and_then_frame)
   apply (erule request_frame)
  apply (simp split: list.splits)
   apply (erule raise_frame)
  apply (erule and_then_frame)
   apply (erule upsert_frame)
  apply (auto simp: fold_add_user_frame split: if_splits)
  done

lemma save_back_get:
  assumes "save_back en k ord d = (ord1, d1)"
  shows "ord1 = normalize_on_save en d ord" and "get_order d1 k = Some ord1"
  using assms by (auto simp: save_back_def save_get)

subsection \<open>Retrying is safe for local clients\<close>

lemma keys_rows_put:
  "row t k = Some r \<Longrightarrow> P k r = P k r' \<Longrightarrow>
   map fst (rows_where P (put k r' t)) = map fst (rows_where P t)"
  unfolding rows_where_def put_def row_def by (induction t) (auto split: if_splits)

lemma rows_where_append: "rows_where P (t @ u) = rows_where P t @ rows_where P u"
  by (simp add: rows_where_def)

lemma sort_key_single: "length xs \<le> 1 \<Longrightarrow> sort_key f xs = xs"
  by (cases xs; cases "tl xs") auto

lemma matches_from_rows:
  assumes "map fst (rows_where P t) = [ck]" and "wf_table t" and "row t ck = Some c"
  shows "ordered_where key P t = [(ck, c)]"
proof -
  obtain c' where r: "rows_where P t = [(ck, c')]" using assms(1) by (auto simp: map_eq_Cons_conv)
  then have "(ck, c') \<in> set t" by (metis list.set_intros(1) set_rows_where)
  with assms(2,3) have "c' = c" by (metis in_row_Some option.inject)
  with r show ?thesis by (simp add: ordered_where_def)
qed

lemma ordered_single_rows:
  assumes "ordered_where key P t = [(ck, c)]"
  shows "rows_where P t = [(ck, c)]"
proof -
  have "length (rows_where P t) = 1" using assms by (metis One_nat_def length_Cons length_sort list.size(3) ordered_where_def)
  then show ?thesis using assms sort_key_single [of "rows_where P t" key] by (simp add: ordered_where_def)
qed

end
