(* ===== verification/Order_Actions.thy ===== *)
theory Order_Actions
  imports Provisioning
begin

text \<open>
  Rejecting and cancelling an order (\<open>store/order_actions.py\<close>): the remote clients are deleted
  first, and only when all are gone are the order, its local clients and the counters of the
  inbounds updated.
\<close>

section \<open>What is deleted\<close>

datatype target = ClientTarget pk vpn_client | OrderTarget order

definition target_inbound :: "target \<Rightarrow> pk option" where
  "target_inbound t = (case t of ClientTarget _ c \<Rightarrow> vc_inbound c | OrderTarget ord \<Rightarrow> o_inbound ord)"

definition target_identifier :: "target \<Rightarrow> string" where
  "target_identifier t = strip (case t of
     ClientTarget _ c \<Rightarrow> str_or (vc_xui_email c) (vc_username c) | OrderTarget ord \<Rightarrow> o_username ord)"

definition deletion_targets_for_order :: "pk \<Rightarrow> order \<Rightarrow> db \<Rightarrow> target list" where
  "deletion_targets_for_order k ord d =
     (case clients_of_order k d of
        [] \<Rightarrow> if o_inbound ord \<noteq> None \<and> o_uuid ord \<noteq> [] then [OrderTarget ord] else []
      | cs \<Rightarrow> map (\<lambda>(ck, c). ClientTarget ck c) cs)"

text \<open>On PasarGuard a target without a name is not deleted; other panels are asked directly.\<close>

definition delete_panel_client :: "remote \<Rightarrow> target \<Rightarrow> db \<Rightarrow> bool \<times> db" where
  "delete_panel_client rm t d =
     (case Option.bind (Option.bind (target_inbound t) (get_inbound d)) (panel_of d) of
        Some p \<Rightarrow>
          if pn_family p = FamPasarguard \<and> target_identifier t = [] then (False, d)
          else ask (rm_delete rm) d
      | None \<Rightarrow> ask (rm_delete rm) d)"

fun delete_targets :: "remote \<Rightarrow> target list \<Rightarrow> db \<Rightarrow> bool \<times> db" where
  "delete_targets rm [] d = (True, d)"
| "delete_targets rm (t # ts) d =
     (case delete_panel_client rm t d of (False, d1) \<Rightarrow> (False, d1) | (True, d1) \<Rightarrow> delete_targets rm ts d1)"

definition target_count :: "pk \<Rightarrow> target list \<Rightarrow> int" where
  "target_count ik ts = int (length (filter (\<lambda>t. target_inbound t = Some ik) ts))"

text \<open>One update per inbound that has targets: the counter falls by their number, not below zero.\<close>

definition released_users :: "int \<Rightarrow> int \<Rightarrow> int" where
  "released_users count n = (if n > 0 then (if n < count then 0 else n - count) else n)"

definition decrement_inbound_users_for_targets :: "target list \<Rightarrow> db \<Rightarrow> db" where
  "decrement_inbound_users_for_targets ts d =
     fold (\<lambda>ik. change_users (released_users (target_count ik ts)) ik)
       (unique_list (List.map_filter target_inbound ts)) d"

section \<open>Rejecting and cancelling\<close>

definition suspend_clients :: "env \<Rightarrow> string \<Rightarrow> bool \<Rightarrow> pk \<Rightarrow> db \<Rightarrow> db" where
  "suspend_clients en key flag_value k d =
     d\<lparr>db_clients := modify_where (\<lambda>_ c. vc_order c = Some k)
         (\<lambda>c. (mark_suspended en c)\<lparr>vc_xui_raw := dset key (JBool flag_value) (vc_xui_raw c)\<rparr>) (db_clients d)\<rparr>"

definition rejected_order :: "env \<Rightarrow> string \<Rightarrow> pk option \<Rightarrow> nat \<Rightarrow> order \<Rightarrow> order" where
  "rejected_order en reason user n ord =
     (let ord1 = mark_payment_rejected en reason user ord in
      ord1\<lparr>o_provisioning_status := ProvNotRequired, o_last_provisioning_error := [],
           o_metadata := dset ''panel_clients_deleted_on_reject'' (JInt (int n))
             (dset ''panel_client_deleted_on_reject'' (JBool (n \<noteq> 0)) (o_metadata ord1))\<rparr>)"

datatype action_result = ActionDone | CompletedNotRejectable | PanelDeletionFailed | OrderMissing

text \<open>What is written once the remote clients are gone.\<close>

definition finish_reject ::
  "env \<Rightarrow> string \<Rightarrow> pk option \<Rightarrow> bool \<Rightarrow> pk \<Rightarrow> order \<Rightarrow> target list \<Rightarrow> db \<Rightarrow> db" where
  "finish_reject en reason user notify k ord ts d =
     (let d2 = save_order en k (rejected_order en reason user (length ts) ord) d;
          d3 = decrement_inbound_users_for_targets ts (suspend_clients en ''deleted_on_reject'' True k d2)
      in if notify then d3\<lparr>db_outbox := OrderEvent k ''rejected'' # db_outbox d3\<rparr> else d3)"

definition reject_order ::
  "env \<Rightarrow> remote \<Rightarrow> string \<Rightarrow> pk option \<Rightarrow> bool \<Rightarrow> pk \<Rightarrow> db \<Rightarrow> action_result \<times> db" where
  "reject_order en rm reason user notify k d =
     (case get_order d k of
        None \<Rightarrow> (OrderMissing, d)
      | Some ord \<Rightarrow>
          if o_status ord = Completed then (CompletedNotRejectable, d)
          else
            let ts = deletion_targets_for_order k ord d in
            (case delete_targets rm ts d of
               (False, d1) \<Rightarrow> (PanelDeletionFailed, d1)
             | (True, d1) \<Rightarrow> (ActionDone, finish_reject en reason user notify k ord ts d1)))"

definition cancelled_order :: "bool \<Rightarrow> nat \<Rightarrow> order \<Rightarrow> order" where
  "cancelled_order hide n ord =
     ord\<lparr>o_metadata := dset ''panel_clients_deleted_on_cancel'' (JInt (int n))
            (dset ''panel_client_deleted_on_cancel'' (JBool (n \<noteq> 0))
              (dset ''cancelled_by_customer'' (JBool True)
                (dset ''customer_hidden'' (JBool hide) (o_metadata ord)))),
         o_status := Cancelled, o_provisioning_status := ProvNotRequired, o_last_provisioning_error := []\<rparr>"

definition finish_cancel :: "env \<Rightarrow> bool \<Rightarrow> pk \<Rightarrow> order \<Rightarrow> target list \<Rightarrow> db \<Rightarrow> db" where
  "finish_cancel en hide k ord ts d =
     decrement_inbound_users_for_targets ts
       (suspend_clients en ''deleted_on_cancel'' (ts \<noteq> []) k
         (save_order en k (cancelled_order hide (length ts) ord) d))"

definition cancel_order :: "env \<Rightarrow> remote \<Rightarrow> bool \<Rightarrow> pk \<Rightarrow> db \<Rightarrow> action_result \<times> db" where
  "cancel_order en rm hide k d =
     (case get_order d k of
        None \<Rightarrow> (OrderMissing, d)
      | Some ord \<Rightarrow>
          let ts = deletion_targets_for_order k ord d in
          (case delete_targets rm ts d of
             (False, d1) \<Rightarrow> (PanelDeletionFailed, d1)
           | (True, d1) \<Rightarrow> (ActionDone, finish_cancel en hide k ord ts d1)))"

text \<open>The review page of the administrators offers rejection only for open orders.\<close>

definition can_reject_order :: "order \<Rightarrow> bool" where
  "can_reject_order ord \<longleftrightarrow> o_status ord \<notin> {Completed, Rejected, Cancelled}"

section \<open>Helper facts\<close>

lemma delete_panel_client_same: "delete_panel_client rm t d = (b, d') \<Longrightarrow> same_data d d'"
  by (auto simp: delete_panel_client_def ask_def split: option.splits if_splits)

lemma delete_targets_same: "delete_targets rm ts d = (b, d') \<Longrightarrow> same_data d d'"
proof (induction ts arbitrary: d)
  case Nil
  then show ?case by simp
next
  case (Cons t ts)
  obtain x d1 where x: "delete_panel_client rm t d = (x, d1)" by (cases "delete_panel_client rm t d")
  then have s: "same_data d d1" by (rule delete_panel_client_same)
  show ?case
  proof (cases x)
    case True
    with Cons.prems x have "delete_targets rm ts d1 = (b, d')" by simp
    from Cons.IH [OF this] s show ?thesis by (rule same_data_trans [rotated])
  next
    case False
    with Cons.prems x s show ?thesis by simp
  qed
qed

lemma change_users_get:
  "get_inbound (change_users f ik d) j =
   map_option (\<lambda>i. if j = ik then i\<lparr>ib_current_users := f (ib_current_users i)\<rparr> else i) (get_inbound d j)"
  by (simp add: change_users_def get_inbound_def row_modify_where)

lemma change_users_frame [simp]:
  "get_order (change_users f ik d) = get_order d" "get_audit (change_users f ik d) = get_audit d"
  "get_client (change_users f ik d) = get_client d" "db_orders (change_users f ik d) = db_orders d"
  "db_clients (change_users f ik d) = db_clients d" "db_audits (change_users f ik d) = db_audits d"
  "db_outbox (change_users f ik d) = db_outbox d" "db_customers (change_users f ik d) = db_customers d"
  by (simp_all add: change_users_def access_defs fun_eq_iff)

lemma fold_change_users_frame [simp]:
  "get_order (fold (\<lambda>ik. change_users (f ik) ik) ks d) = get_order d"
  "get_client (fold (\<lambda>ik. change_users (f ik) ik) ks d) = get_client d"
  "db_orders (fold (\<lambda>ik. change_users (f ik) ik) ks d) = db_orders d"
  "db_clients (fold (\<lambda>ik. change_users (f ik) ik) ks d) = db_clients d"
  "get_audit (fold (\<lambda>ik. change_users (f ik) ik) ks d) = get_audit d"
  by (induction ks arbitrary: d) simp_all

lemma fold_change_users_get:
  "distinct ks \<Longrightarrow> get_inbound (fold (\<lambda>ik. change_users (f ik) ik) ks d) j =
   map_option (\<lambda>i. if j \<in> set ks then i\<lparr>ib_current_users := f j (ib_current_users i)\<rparr> else i) (get_inbound d j)"
  by (induction ks arbitrary: d) (auto simp: change_users_get option.map_comp comp_def option.map_ident intro!: option.map_cong)

lemma decrement_frame [simp]:
  "get_order (decrement_inbound_users_for_targets ts d) = get_order d"
  "get_client (decrement_inbound_users_for_targets ts d) = get_client d"
  "get_audit (decrement_inbound_users_for_targets ts d) = get_audit d"
  "db_clients (decrement_inbound_users_for_targets ts d) = db_clients d"
  by (simp_all add: decrement_inbound_users_for_targets_def)

lemma target_count_zero: "ik \<notin> set (List.map_filter target_inbound ts) \<Longrightarrow> target_count ik ts = 0"
  by (induction ts) (auto simp: target_count_def map_filter_simps split: option.splits)

text \<open>Exactly as many slots are released on each inbound as it had targets, down to zero.\<close>

lemma decrement_get:
  assumes "get_inbound d j = Some i" and "0 \<le> ib_current_users i"
  shows "get_inbound (decrement_inbound_users_for_targets ts d) j =
         Some (i\<lparr>ib_current_users := max (ib_current_users i - target_count j ts) 0\<rparr>)"
proof -
  have c: "0 \<le> target_count j ts" by (simp add: target_count_def)
  show ?thesis
  proof (cases "j \<in> set (List.map_filter target_inbound ts)")
    case True
    with assms c show ?thesis
      by (simp add: decrement_inbound_users_for_targets_def fold_change_users_get released_users_def max_def)
  next
    case False
    then have "target_count j ts = 0" by (rule target_count_zero)
    with False assms show ?thesis
      by (simp add: decrement_inbound_users_for_targets_def fold_change_users_get)
  qed
qed

lemma suspend_frame [simp]:
  "get_order (suspend_clients en key b k d) = get_order d"
  "get_inbound (suspend_clients en key b k d) = get_inbound d"
  "get_audit (suspend_clients en key b k d) = get_audit d"
  by (simp_all add: suspend_clients_def access_defs fun_eq_iff)

lemma suspend_get:
  "get_client (suspend_clients en key b k d) j =
   map_option (\<lambda>c. if vc_order c = Some k
                   then (mark_suspended en c)\<lparr>vc_xui_raw := dset key (JBool b) (vc_xui_raw c)\<rparr> else c)
     (get_client d j)"
  by (simp add: suspend_clients_def get_client_def row_modify_where)

lemma suspended_keys:
  "map (\<lambda>(j, c). (j, vc_inbound c)) (clients_of_order k (suspend_clients en key b k d)) =
   map (\<lambda>(j, c). (j, vc_inbound c)) (clients_of_order k d)"
proof -
  have "map (\<lambda>(j, c). (j, vc_inbound c)) (filter (\<lambda>(_, c). vc_order c = Some k)
          (map (\<lambda>(j, c). (j, if vc_order c = Some k
             then (mark_suspended en c)\<lparr>vc_xui_raw := dset key (JBool b) (vc_xui_raw c)\<rparr> else c)) t)) =
        map (\<lambda>(j, c). (j, vc_inbound c)) (filter (\<lambda>(_, c). vc_order c = Some k) t)" for t
    by (induction t) (auto simp: mark_suspended_def split: if_splits)
  then show ?thesis by (simp add: clients_of_order_def rows_where_def suspend_clients_def modify_where_def)
qed

lemma rejected_order_fields [simp]:
  "o_status (rejected_order en r u n ord) = Rejected"
  "o_verification_status (rejected_order en r u n ord) = VerRejected"
  "o_provisioning_status (rejected_order en r u n ord) = ProvNotRequired"
  "o_inbound (rejected_order en r u n ord) = o_inbound ord"
  "o_rejection_reason (rejected_order en r u n ord) = r"
  by (simp_all add: rejected_order_def mark_payment_rejected_def Let_def)

lemma cancelled_order_fields [simp]:
  "o_status (cancelled_order h n ord) = Cancelled"
  "o_provisioning_status (cancelled_order h n ord) = ProvNotRequired"
  "o_verification_status (cancelled_order h n ord) = o_verification_status ord"
  by (simp_all add: cancelled_order_def)

lemma outbox_get [simp]:
  "get_order (d\<lparr>db_outbox := x\<rparr>) = get_order d" "get_inbound (d\<lparr>db_outbox := x\<rparr>) = get_inbound d"
  "get_client (d\<lparr>db_outbox := x\<rparr>) = get_client d" "get_audit (d\<lparr>db_outbox := x\<rparr>) = get_audit d"
  "db_clients (d\<lparr>db_outbox := x\<rparr>) = db_clients d"
  by (simp_all add: access_defs fun_eq_iff)

lemma decrement_cong:
  "get_inbound x = get_inbound y \<Longrightarrow>
   get_inbound (decrement_inbound_users_for_targets ts x) = get_inbound (decrement_inbound_users_for_targets ts y)"
  by (simp add: decrement_inbound_users_for_targets_def fun_eq_iff fold_change_users_get)

lemma suspend_cong:
  "get_client x = get_client y \<Longrightarrow>
   get_client (suspend_clients en key b k x) = get_client (suspend_clients en key b k y)"
  by (simp add: suspend_get fun_eq_iff)

lemma finish_reject_get:
  "get_order (finish_reject en r u n k ord ts d) = get_order (save_order en k (rejected_order en r u (length ts) ord) d)"
  "get_inbound (finish_reject en r u n k ord ts d) = get_inbound (decrement_inbound_users_for_targets ts d)"
  "get_client (finish_reject en r u n k ord ts d) = get_client (suspend_clients en ''deleted_on_reject'' True k d)"
  "db_clients (finish_reject en r u n k ord ts d) =
     db_clients (suspend_clients en ''deleted_on_reject'' True k (save_order en k (rejected_order en r u (length ts) ord) d))"
  by (auto simp: finish_reject_def Let_def intro!: decrement_cong suspend_cong)

lemma finish_cancel_get:
  "get_order (finish_cancel en h k ord ts d) = get_order (save_order en k (cancelled_order h (length ts) ord) d)"
  "get_inbound (finish_cancel en h k ord ts d) = get_inbound (decrement_inbound_users_for_targets ts d)"
  "get_client (finish_cancel en h k ord ts d) = get_client (suspend_clients en ''deleted_on_cancel'' (ts \<noteq> []) k d)"
  by (auto simp: finish_cancel_def intro!: decrement_cong suspend_cong)

lemma reject_done:
  assumes "reject_order en rm reason user notify k d = (ActionDone, d')"
  obtains ord d1 where "get_order d k = Some ord" and "o_status ord \<noteq> Completed" and "same_data d d1"
    and "d' = finish_reject en reason user notify k ord (deletion_targets_for_order k ord d) d1"
proof -
  from assms obtain ord d1 where o1: "get_order d k = Some ord" "o_status ord \<noteq> Completed"
    and del: "delete_targets rm (deletion_targets_for_order k ord d) d = (True, d1)"
    and d': "d' = finish_reject en reason user notify k ord (deletion_targets_for_order k ord d) d1"
    by (auto simp: reject_order_def Let_def split: option.splits if_splits prod.splits bool.splits)
  from that [OF o1 delete_targets_same [OF del] d'] show thesis .
qed

lemma cancel_done:
  assumes "cancel_order en rm hide k d = (ActionDone, d')"
  obtains ord d1 where "get_order d k = Some ord" and "same_data d d1"
    and "d' = finish_cancel en hide k ord (deletion_targets_for_order k ord d) d1"
proof -
  from assms obtain ord d1 where o1: "get_order d k = Some ord"
    and del: "delete_targets rm (deletion_targets_for_order k ord d) d = (True, d1)"
    and d': "d' = finish_cancel en hide k ord (deletion_targets_for_order k ord d) d1"
    by (auto simp: cancel_order_def Let_def split: option.splits prod.splits bool.splits)
  from that [OF o1 delete_targets_same [OF del] d'] show thesis .
qed

text \<open>The inbounds of the targets decide how the counters change.\<close>

lemma map_filter_map: "List.map_filter f xs = List.map_filter (\<lambda>x. x) (map f xs)"
  by (induction xs) (auto simp: map_filter_simps split: option.splits)

lemma target_count_map: "target_count ik ts = int (length (filter (\<lambda>x. x = Some ik) (map target_inbound ts)))"
  by (simp add: target_count_def filter_map comp_def)

lemma decrement_targets_cong:
  assumes "map target_inbound ts = map target_inbound us"
  shows "decrement_inbound_users_for_targets ts d = decrement_inbound_users_for_targets us d"
  unfolding decrement_inbound_users_for_targets_def target_count_map
  by (subst (1 2) map_filter_map) (simp only: assms)

lemma targets_after_reject:
  assumes "reject_order en rm reason user notify k d = (ActionDone, d')"
    and "get_order d k = Some ord"
  shows "\<exists>ord'. get_order d' k = Some ord' \<and>
    map target_inbound (deletion_targets_for_order k ord' d') = map target_inbound (deletion_targets_for_order k ord d)"
proof -
  obtain d1 where same: "same_data d d1"
    and d': "d' = finish_reject en reason user notify k ord (deletion_targets_for_order k ord d) d1"
    by (rule reject_done [OF assms(1)]) (use assms(2) in auto)
  let ?r = "rejected_order en reason user (length (deletion_targets_for_order k ord d)) ord"
  let ?o = "normalize_on_save en d1 ?r"
  have o': "get_order d' k = Some ?o" unfolding d' by (simp add: finish_reject_get save_get)
  let ?s = "save_order en k ?r d1"
  have c1: "clients_of_order k ?s = clients_of_order k d"
    by (simp only: clients_of_order_def save_frame same_dataD(15) [OF same])
  have c2: "clients_of_order k d' = clients_of_order k (suspend_clients en ''deleted_on_reject'' True k ?s)"
    by (simp only: d' clients_of_order_def finish_reject_get)
  have keys: "map (\<lambda>(j, c). (j, vc_inbound c)) (clients_of_order k d') =
              map (\<lambda>(j, c). (j, vc_inbound c)) (clients_of_order k d)"
    by (simp only: c2 suspended_keys c1)
  have inb: "map target_inbound (deletion_targets_for_order k o2 x) =
      (if clients_of_order k x = [] then (if o_inbound o2 \<noteq> None \<and> o_uuid o2 \<noteq> [] then [o_inbound o2] else [])
       else map snd (map (\<lambda>(j, c). (j, vc_inbound c)) (clients_of_order k x)))" for o2 x
    by (simp add: deletion_targets_for_order_def target_inbound_def comp_def case_prod_unfold split: list.splits)
  have f: "o_inbound ?o = o_inbound ord" "o_uuid ?o = o_uuid ord"
    by (simp_all add: rejected_order_def mark_payment_rejected_def Let_def)
  have e: "clients_of_order k d' = [] \<longleftrightarrow> clients_of_order k d = []"
    using arg_cong [OF keys, of length] by (simp only: length_map length_0_conv flip: length_0_conv)
  have "map target_inbound (deletion_targets_for_order k ?o d') =
      map target_inbound (deletion_targets_for_order k ord d)"
    by (simp only: inb keys f e)
  with o' show ?thesis by blast
qed

end
