(* ===== verification/Automation.thy ===== *)
theory Automation
  imports Order_Actions
begin

text \<open>
  \<open>store/order_automation.py\<close>: timed approval of receipts nobody reviewed, reminders to the
  administrators, and the human reconciliation that follows a timed approval (confirmation, or
  cancellation with the customer's services switched off).
\<close>

section \<open>Receipts waiting for review\<close>

definition auto_approve_delay :: int where
  "auto_approve_delay = minutes 5"

definition reminder_minutes :: "int list" where
  "reminder_minutes = [5, 15, 30]"

definition json_present :: "json \<Rightarrow> bool" where
  "json_present v \<longleftrightarrow> v \<noteq> JNull \<and> v \<noteq> JStr []"

definition has_receipt :: "order \<Rightarrow> bool" where
  "has_receipt ord \<longleftrightarrow>
     o_payment_receipt_image ord \<noteq> [] \<or> o_bank_tracking_code ord \<noteq> [] \<or>
     json_present (dget ''receipt_text'' (o_metadata ord)) \<or>
     json_present (dget ''file_id'' (as_dict (dget ''receipt'' (o_metadata ord))))"

definition pending_receipt :: "db \<Rightarrow> order \<Rightarrow> bool" where
  "pending_receipt d ord \<longleftrightarrow>
     o_payment_method ord = ManualCard \<and> o_payment_submitted_at ord \<noteq> None \<and>
     o_verification_status ord = VerPending \<and> o_status ord \<in> {PendingPayment, PendingVerification} \<and>
     (case Option.bind (o_store ord) (row (db_stores d)) of None \<Rightarrow> False | Some s \<Rightarrow> st_is_active s) \<and>
     has_receipt ord"

definition suppressed :: "order \<Rightarrow> bool" where
  "suppressed ord \<longleftrightarrow> truthy (dget ''suppress_new_order_notification'' (o_metadata ord))"

section \<open>Timed approval\<close>

text \<open>Turning the feature on gives receipts that already wait a fresh review window.\<close>

definition approval_due :: "store \<Rightarrow> order \<Rightarrow> instant option" where
  "approval_due s ord =
     (case (st_order_auto_approve_enabled_at s, o_payment_submitted_at ord) of
        (Some e, Some t) \<Rightarrow> Some (max t e + auto_approve_delay)
      | _ \<Rightarrow> None)"

definition audit_of :: "db \<Rightarrow> pk \<Rightarrow> audit" where
  "audit_of d k = (case get_audit d k of None \<Rightarrow> new_audit | Some a \<Rightarrow> a)"

definition may_auto_approve :: "env \<Rightarrow> db \<Rightarrow> pk \<Rightarrow> store \<Rightarrow> order \<Rightarrow> bool" where
  "may_auto_approve en d k s ord \<longleftrightarrow>
     st_order_auto_approve_enabled s \<and> pending_receipt d ord \<and>
     (case approval_due s ord of None \<Rightarrow> False | Some due \<Rightarrow> due \<le> e_now en) \<and> \<not> suppressed ord \<and>
     au_auto_approved_at (audit_of d k) = None"

text \<open>The first transaction: the claim, committed before any remote request.\<close>

definition claim_approval :: "env \<Rightarrow> pk \<Rightarrow> bool act" where
  "claim_approval en k d =
     (case get_order d k of
        None \<Rightarrow> (Inl ''order_missing'', d)
      | Some ord \<Rightarrow>
          (case Option.bind (o_store ord) (row (db_stores d)) of
             None \<Rightarrow> (Inl ''store_missing'', d)
           | Some s \<Rightarrow>
               if \<not> may_auto_approve en d k s ord then (Inr False, d)
               else (Inr True, put_audit k ((audit_of d k)\<lparr>au_auto_approved_at := Some (e_now en),
                                                          au_review_status := RevPending\<rparr>) d)))"

definition set_last_error :: "pk \<Rightarrow> string \<Rightarrow> db \<Rightarrow> db" where
  "set_last_error k e d =
     (case get_audit d k of None \<Rightarrow> d | Some a \<Rightarrow> put_audit k (a\<lparr>au_last_error := e\<rparr>) d)"

text \<open>The second transaction. An exception rolls it back, and the claim keeps it from being repeated.\<close>

definition auto_approve_order :: "env \<Rightarrow> remote \<Rightarrow> engines \<Rightarrow> pk \<Rightarrow> bool act" where
  "auto_approve_order en rm eg k d =
     (case claim_approval en k d of
        (Inl e, d1) \<Rightarrow> (Inl e, d1)
      | (Inr False, d1) \<Rightarrow> (Inr False, d1)
      | (Inr True, d1) \<Rightarrow>
          (case approve_and_provision_order en rm eg None TimedReceiptApproval False k d1 of
             (Inl _, d2) \<Rightarrow> (Inr True, set_last_error k ''delivery_outcome_unknown'' (rollback d1 d2))
           | (Inr r, d2) \<Rightarrow>
               if pr_ok r
               then (Inr True, if pr_already_provisioned r then d2
                               else d2\<lparr>db_outbox := OrderEvent k ''approved'' # db_outbox d2\<rparr>)
               else (Inr True, set_last_error k ''delivery_incomplete'' d2)))"

section \<open>Reminders\<close>

definition reminder_due :: "env \<Rightarrow> order \<Rightarrow> audit \<Rightarrow> bool" where
  "reminder_due en ord a \<longleftrightarrow>
     (if au_reminder_stage a < length reminder_minutes then
        (case o_payment_submitted_at ord of
           None \<Rightarrow> False
         | Some t \<Rightarrow> t + minutes (reminder_minutes ! au_reminder_stage a) \<le> e_now en)
      else case au_last_reminded_at a of None \<Rightarrow> True | Some t \<Rightarrow> t + hours 1 \<le> e_now en)"

definition failed_automation :: "pk \<Rightarrow> db \<Rightarrow> pk \<Rightarrow> order \<Rightarrow> bool" where
  "failed_automation s d k ord \<longleftrightarrow>
     o_store ord = Some s \<and> o_payment_submitted_at ord \<noteq> None \<and>
     o_status ord \<notin> {Completed, Rejected, Cancelled} \<and>
     (case get_audit d k of None \<Rightarrow> False | Some a \<Rightarrow> au_review_status a = RevPending \<and> au_last_error a \<noteq> [])"

definition reminder_key :: "db \<Rightarrow> pk \<times> order \<Rightarrow> instant option \<times> instant \<times> pk" where
  "reminder_key d = (\<lambda>(k, ord). (Option.bind (get_audit d k) au_last_reminded_at,
     (case o_payment_submitted_at ord of None \<Rightarrow> 0 | Some t \<Rightarrow> t), k))"

definition reminder_candidates :: "pk \<Rightarrow> db \<Rightarrow> (pk \<times> order) list" where
  "reminder_candidates s d =
     take 100 (ordered_where (reminder_key d)
       (\<lambda>k ord. (pending_receipt d ord \<and> o_store ord = Some s) \<or> failed_automation s d k ord) (db_orders d))"

text \<open>The loop: audits are created on the way, at most ten orders are collected.\<close>

fun collect_due :: "env \<Rightarrow> (pk \<times> order) list \<Rightarrow> (pk \<times> order) list \<Rightarrow> db \<Rightarrow> (pk \<times> order) list \<times> db" where
  "collect_due en [] due d = (due, d)"
| "collect_due en ((k, ord) # rest) due d =
     (if suppressed ord then collect_due en rest due d
      else
        let a = audit_of d k; d1 = put_audit k a d;
            due1 = (if (au_auto_approved_at a = None \<or> au_last_error a \<noteq> []) \<and> reminder_due en ord a
                    then due @ [(k, ord)] else due)
        in if length due1 \<ge> 10 then (due1, d1) else collect_due en rest due1 d1)"

definition reached_stage :: "env \<Rightarrow> order \<Rightarrow> nat" where
  "reached_stage en ord =
     (case o_payment_submitted_at ord of
        None \<Rightarrow> 0
      | Some t \<Rightarrow> length (filter (\<lambda>m. minutes m \<le> e_now en - t) reminder_minutes))"

definition mark_reminded :: "env \<Rightarrow> pk \<times> order \<Rightarrow> db \<Rightarrow> db" where
  "mark_reminded en = (\<lambda>(k, ord) d.
     let a = audit_of d k in
     put_audit k (a\<lparr>au_reminder_stage := max (au_reminder_stage a) (reached_stage en ord),
                    au_last_reminded_at := Some (e_now en)\<rparr>) d)"

definition send_receipt_reminders :: "env \<Rightarrow> remote \<Rightarrow> pk \<Rightarrow> db \<Rightarrow> nat \<times> db" where
  "send_receipt_reminders en rm s d =
     (case row (db_stores d) s of
        None \<Rightarrow> (0, d)
      | Some st \<Rightarrow>
          if \<not> st_is_active st \<or> \<not> st_order_review_reminders_enabled st then (0, d)
          else
            let (due, d1) = collect_due en (reminder_candidates s d) [] d in
            if due = [] then (0, d1)
            else
              let (sent, d2) = ask (rm_sent rm) d1 in
              if sent = 0 then (0, d2)
              else (length due,
                    (fold (mark_reminded en) due d2)
                      \<lparr>db_outbox := ReviewReminder s (map fst due) # db_outbox d2\<rparr>))"

section \<open>Reconciliation\<close>

datatype automation_error =
    NotReconcilable | OrderClosed | ReasonRequired | NotAutoApproved | RenewalTargetMismatch
  | RenewedLater | RecordMissing

definition confirmed_audit :: "env \<Rightarrow> pk option \<Rightarrow> string \<Rightarrow> audit \<Rightarrow> audit" where
  "confirmed_audit en user note a =
     a\<lparr>au_review_status := RevVerified, au_reviewed_at := Some (e_now en), au_reviewed_by := user,
       au_review_note := strip note\<rparr>"

definition confirm_auto_payment ::
  "env \<Rightarrow> pk option \<Rightarrow> string \<Rightarrow> pk \<Rightarrow> db \<Rightarrow> (automation_error + unit) \<times> db" where
  "confirm_auto_payment en user note k d =
     (case (get_order d k, get_audit d k) of
        (Some ord, Some a) \<Rightarrow>
          if au_auto_approved_at a = None \<or> au_review_status a \<notin> {RevPending, RevVerified}
          then (Inl NotReconcilable, d)
          else if o_status ord = Rejected \<or> o_status ord = Cancelled then (Inl OrderClosed, d)
          else if au_review_status a = RevVerified then (Inr (), d)
          else
            let d1 = put_audit k (confirmed_audit en user note a) d;
                d2 = save_order en k (ord\<lparr>o_verification_status := VerVerified, o_is_paid := True,
                       o_verified_by := user,
                       o_verified_at := orelse (o_verified_at ord) (Some (e_now en))\<rparr>) d1
            in (Inr (), snd (create_referral_reward_for_order en k d2))
      | _ \<Rightarrow> (Inl RecordMissing, d))"

definition approval_instant :: "audit option \<Rightarrow> order \<Rightarrow> instant" where
  "approval_instant au ord =
     (case orelse (Option.bind au au_auto_approved_at) (o_verified_at ord) of
        Some t \<Rightarrow> t | None \<Rightarrow> o_created_at ord)"

definition renewed_after :: "pk \<Rightarrow> pk \<Rightarrow> instant \<Rightarrow> db \<Rightarrow> bool" where
  "renewed_after k ck t d \<longleftrightarrow>
     exists_where (\<lambda>j o2. j \<noteq> k \<and> o_status o2 = Completed \<and>
        (case o_verified_at o2 of None \<Rightarrow> False | Some v \<Rightarrow> v > t) \<and>
        (dget ''renewal_client_pk'' (o_metadata o2) = JInt (int ck) \<or>
         dget ''renewal_client_pk'' (o_metadata o2) = JStr (show_nat ck))) (db_orders d)"

definition renewal_target :: "order \<Rightarrow> db \<Rightarrow> automation_error + pk option" where
  "renewal_target ord d =
     (let v = dget ''renewal_client_pk'' (o_metadata ord) in
      if \<not> truthy v then Inr None
      else case json_pk v of
        Inl _ \<Rightarrow> Inl RenewalTargetMismatch
      | Inr ck \<Rightarrow>
          (case get_client d ck of
             None \<Rightarrow> Inl RenewalTargetMismatch
           | Some c \<Rightarrow>
               (case Option.bind (vc_order c) (get_order d) of
                  None \<Rightarrow> Inl RenewalTargetMismatch
                | Some o2 \<Rightarrow>
                    if vc_store c \<noteq> o_store ord \<or> o_customer o2 \<noteq> o_customer ord
                    then Inl RenewalTargetMismatch else Inr (Some ck))))"

definition cancellation_clients :: "pk \<Rightarrow> order \<Rightarrow> db \<Rightarrow> automation_error + pk list" where
  "cancellation_clients k ord d =
     (let own = map fst (ordered_where fst (\<lambda>_ c. vc_order c = Some k) (db_clients d)) in
      case renewal_target ord d of
        Inl e \<Rightarrow> Inl e
      | Inr target \<Rightarrow>
          let cks = (case target of None \<Rightarrow> own | Some ck \<Rightarrow> if ck \<in> set own then own else own @ [ck])
          in if list_ex (\<lambda>ck. renewed_after k ck (approval_instant (get_audit d k) ord) d) cks
             then Inl RenewedLater else Inr cks)"

text \<open>\<open>set_vpn_client_enabled_by_admin(..., enabled=False)\<close> and its effect on the local client.\<close>

definition disabled_client :: "env \<Rightarrow> toggle_result \<Rightarrow> vpn_client \<Rightarrow> vpn_client" where
  "disabled_client en r c =
     c\<lparr>vc_traffic_limit_bytes := int_or (case tg_new_total_bytes r of None \<Rightarrow> 0 | Some n \<Rightarrow> n) (vc_traffic_limit_bytes c),
       vc_expires_at := orelse (tg_new_expiry_time r) (vc_expires_at c),
       vc_last_synced_at := Some (e_now en),
       vc_xui_raw := (case tg_raw r of None \<Rightarrow> vc_xui_raw c | Some m \<Rightarrow> m),
       vc_status := ClInactive, vc_disabled_at := orelse (vc_disabled_at c) (Some (e_now en))\<rparr>"

definition disable_client :: "env \<Rightarrow> remote \<Rightarrow> pk \<Rightarrow> db \<Rightarrow> bool \<times> db" where
  "disable_client en rm ck d =
     (case get_client d ck of
        None \<Rightarrow> (False, d)
      | Some c \<Rightarrow>
          (case Option.bind (Option.bind (vc_inbound c) (get_inbound d)) (panel_of d) of
             None \<Rightarrow> (False, d)
           | Some _ \<Rightarrow>
               (case ask (rm_toggle rm) d of
                  (None, d1) \<Rightarrow> (False, d1)
                | (Some r, d1) \<Rightarrow> (True, if is_deleted c then d1 else put_client ck (disabled_client en r c) d1))))"

fun revoke_clients :: "env \<Rightarrow> remote \<Rightarrow> pk \<Rightarrow> pk list \<Rightarrow> db \<Rightarrow> bool \<times> db" where
  "revoke_clients en rm k [] d = (True, d)"
| "revoke_clients en rm k (ck # cks) d =
     (if ck \<in> set (au_revoked_client_ids (audit_of d k)) then revoke_clients en rm k cks d
      else case disable_client en rm ck d of
        (False, d1) \<Rightarrow>
          (False, put_audit k ((audit_of d1 k)\<lparr>au_review_status := RevCancelFailed,
                                              au_last_error := ''cancellation_incomplete''\<rparr>) d1)
      | (True, d1) \<Rightarrow>
          revoke_clients en rm k cks
            (put_audit k ((audit_of d1 k)\<lparr>au_revoked_client_ids := au_revoked_client_ids (audit_of d1 k) @ [ck]\<rparr>) d1))"

definition close_cups :: "pk \<Rightarrow> pk list \<Rightarrow> db \<Rightarrow> db" where
  "close_cups k cks d =
     d\<lparr>db_cups := modify_where (\<lambda>_ c. cp_order c = Some k \<or> (\<exists>ck \<in> set cks. cp_vpn_client c = Some ck))
         (\<lambda>c. c\<lparr>cp_status := CupDisabled\<rparr>) (db_cups d)\<rparr>"

definition cancelling_audit :: "env \<Rightarrow> pk option \<Rightarrow> string \<Rightarrow> audit \<Rightarrow> audit" where
  "cancelling_audit en user reason a =
     a\<lparr>au_review_status := RevCancelling, au_review_note := strip reason, au_reviewed_by := user,
       au_reviewed_at := Some (e_now en), au_last_error := []\<rparr>"

text \<open>\<open>send_cancellation_notice\<close>: the attempt is recorded before the message is sent.\<close>

definition send_cancellation_notice :: "env \<Rightarrow> remote \<Rightarrow> pk \<Rightarrow> db \<Rightarrow> bool \<times> db" where
  "send_cancellation_notice en rm k d =
     (case (get_audit d k, get_order d k) of
        (Some a, Some ord) \<Rightarrow>
          if au_review_status a \<noteq> RevCancelled \<or> au_notification_status a \<in> {NoteSent, NoteNoTarget} then (False, d)
          else if (case au_notification_attempted_at a of None \<Rightarrow> False | Some t \<Rightarrow> e_now en < t + minutes 5)
          then (False, d)
          else if o_customer ord = None \<or> \<not> rm_has_target rm ord
          then (False, put_audit k (a\<lparr>au_notification_status := NoteNoTarget\<rparr>) d)
          else
            let d1 = put_audit k (a\<lparr>au_notification_attempted_at := Some (e_now en)\<rparr>) d;
                (sent, d2) = ask (rm_sent rm) d1
            in (sent \<noteq> 0,
                put_audit k ((audit_of d2 k)\<lparr>
                    au_notification_status := (if sent \<noteq> 0 then NoteSent else NoteFailed),
                    au_notified_at := (if sent \<noteq> 0 then Some (e_now en) else None)\<rparr>) d2)
      | _ \<Rightarrow> (False, d))"

definition finish_cancellation :: "env \<Rightarrow> string \<Rightarrow> pk \<Rightarrow> order \<Rightarrow> db \<Rightarrow> db" where
  "finish_cancellation en reason k ord d =
     (let d1 = save_order en k (ord\<lparr>o_status := Cancelled, o_verification_status := VerRejected,
                 o_is_paid := False, o_rejection_reason := strip reason\<rparr>) d
      in put_audit k ((audit_of d1 k)\<lparr>au_review_status := RevCancelled\<rparr>) d1)"

definition cancel_auto_approved_order ::
  "env \<Rightarrow> remote \<Rightarrow> pk option \<Rightarrow> string \<Rightarrow> pk \<Rightarrow> db \<Rightarrow> (automation_error + bool) \<times> db" where
  "cancel_auto_approved_order en rm user reason k d =
     (if strip reason = [] then (Inl ReasonRequired, d)
      else case (get_order d k, get_audit d k) of
        (Some ord, Some a) \<Rightarrow>
          if au_auto_approved_at a = None then (Inl NotAutoApproved, d)
          else if au_review_status a = RevCancelled then (Inr True, d)
          else (case cancellation_clients k ord d of
                  Inl e \<Rightarrow> (Inl e, d)
                | Inr cks \<Rightarrow>
                    (case revoke_clients en rm k cks
                            (close_cups k cks (put_audit k (cancelling_audit en user reason a) d)) of
                       (False, d1) \<Rightarrow> (Inr False, d1)
                     | (True, d1) \<Rightarrow>
                         (Inr True, snd (send_cancellation_notice en rm k (finish_cancellation en reason k ord d1)))))
      | _ \<Rightarrow> (Inl RecordMissing, d))"

section \<open>The periodic run\<close>

record summary =
  sm_approved :: nat
  sm_reminded :: nat
  sm_notified :: nat
  sm_failed :: nat

fun run_approvals :: "env \<Rightarrow> remote \<Rightarrow> engines \<Rightarrow> pk list \<Rightarrow> summary \<times> db \<Rightarrow> summary \<times> db" where
  "run_approvals en rm eg [] sd = sd"
| "run_approvals en rm eg (k # ks) (s, d) =
     (case auto_approve_order en rm eg k d of
        (Inl _, d1) \<Rightarrow> run_approvals en rm eg ks (s\<lparr>sm_failed := Suc (sm_failed s)\<rparr>, d1)
      | (Inr b, d1) \<Rightarrow> run_approvals en rm eg ks (if b then s\<lparr>sm_approved := Suc (sm_approved s)\<rparr> else s, d1))"

fun run_reminders :: "env \<Rightarrow> remote \<Rightarrow> pk list \<Rightarrow> summary \<times> db \<Rightarrow> summary \<times> db" where
  "run_reminders en rm [] sd = sd"
| "run_reminders en rm (st # sts) (s, d) =
     (let (n, d1) = send_receipt_reminders en rm st d
      in run_reminders en rm sts (s\<lparr>sm_reminded := sm_reminded s + n\<rparr>,
           d1\<lparr>db_stores := modify_where (\<lambda>j _. j = st)
                (\<lambda>x. x\<lparr>st_order_automation_last_run_at := Some (e_now en)\<rparr>) (db_stores d1)\<rparr>))"

fun run_notices :: "env \<Rightarrow> remote \<Rightarrow> pk list \<Rightarrow> summary \<times> db \<Rightarrow> summary \<times> db" where
  "run_notices en rm [] sd = sd"
| "run_notices en rm (k # ks) (s, d) =
     (let (b, d1) = send_cancellation_notice en rm k d
      in run_notices en rm ks (if b then s\<lparr>sm_notified := Suc (sm_notified s)\<rparr> else s, d1))"

definition approval_candidates :: "nat \<Rightarrow> db \<Rightarrow> pk list" where
  "approval_candidates limit d =
     map fst (take limit (ordered_where
       (\<lambda>(k, ord). ((case o_payment_submitted_at ord of None \<Rightarrow> 0 | Some t \<Rightarrow> t), k))
       (\<lambda>k ord. pending_receipt d ord \<and>
          (case Option.bind (o_store ord) (row (db_stores d)) of
             None \<Rightarrow> False | Some s \<Rightarrow> st_order_auto_approve_enabled s) \<and>
          au_auto_approved_at (audit_of d k) = None) (db_orders d)))"

definition notice_candidates :: "nat \<Rightarrow> db \<Rightarrow> pk list" where
  "notice_candidates limit d =
     map fst (take limit (rows_where (\<lambda>_ a. au_review_status a = RevCancelled \<and>
        au_notification_status a \<notin> {NoteSent, NoteNoTarget}) (db_audits d)))"

definition process_order_automation :: "env \<Rightarrow> remote \<Rightarrow> engines \<Rightarrow> nat \<Rightarrow> db \<Rightarrow> summary \<times> db" where
  "process_order_automation en rm eg limit d =
     (let zero = \<lparr>sm_approved = 0, sm_reminded = 0, sm_notified = 0, sm_failed = 0\<rparr>;
          (s1, d1) = run_approvals en rm eg (approval_candidates limit d) (zero, d);
          (s2, d2) = run_reminders en rm
             (map fst (ordered_where (\<lambda>(_, s). st_name s) (\<lambda>_ s. st_is_active s) (db_stores d1))) (s1, d1)
      in run_notices en rm (notice_candidates limit d2) (s2, d2))"

end
