(* ===== verification/Samples.thy ===== *)
theory Samples
  imports Automation
begin

text \<open>
  A small concrete shop on which the properties are applied: one store, one plan, one panel with
  one inbound, an inviter and an invited customer, a discount code and one pending order; with a
  remote panel that answers every request and one that refuses every request.
\<close>

section \<open>The shop\<close>

definition sample_env :: env where
  "sample_env = \<lparr>e_now = 1000000000000, e_today = 20000, e_code = (\<lambda>n. ''AB12'' @ replicate n (CHR ''X'')),
     e_uuid = (\<lambda>_. ''0123456789abcdef''), e_name = (\<lambda>_. ''user'')\<rparr>"

definition sample_store :: store where
  "sample_store = new_store\<lparr>st_order_auto_approve_enabled := True,
     st_order_auto_approve_enabled_at := Some 1, st_custom_volume_price_per_gb := 1000\<rparr>"

definition sample_plan :: plan where
  "sample_plan = \<lparr>pl_store = Some 1, pl_operators = [], pl_name = ''Basic'', pl_slug = ''basic'',
     pl_volume_gb = 10, pl_duration_days = 30, pl_price = 100000, pl_currency = TOMAN,
     pl_device_limit = 2, pl_is_active = True, pl_sort_order = 1, pl_is_public = True,
     pl_is_custom_volume = False, pl_multi_inbound_bundle = False\<rparr>"

definition sample_discount :: discount where
  "sample_discount = \<lparr>dc_code = ''OFF20'', dc_type = Percentage, dc_value = 20, dc_max_usage = Some 2,
     dc_used_count = 1, dc_valid_from = None, dc_valid_until = None, dc_is_active = True,
     dc_applicable_plans = []\<rparr>"

definition inviter :: customer where
  "inviter = \<lparr>cu_public_id = ''p1'', cu_username = ''ann'', cu_phone_number = [], cu_display_name = ''Ann'',
     cu_is_wholesale = False, cu_default_discount_percent = None, cu_referral_code = ''RFANN'',
     cu_referred_by = None, cu_referral_code_used = [], cu_referred_at = None, cu_is_active = True\<rparr>"

definition newcomer :: customer where
  "newcomer = inviter\<lparr>cu_public_id := ''p2'', cu_username := ''bob'', cu_display_name := ''Bob'',
     cu_referral_code := ''RFBOB''\<rparr>"

definition invited :: customer where
  "invited = newcomer\<lparr>cu_referred_by := Some 1, cu_referral_code_used := ''RFANN''\<rparr>"

definition sample_panel :: panel where
  "sample_panel = \<lparr>pn_store = Some 1, pn_name = ''P'', pn_family = FamXui, pn_url = ''https://panel'',
     pn_username = ''u'', pn_password = ''s'', pn_is_active = True, pn_capability_profile = LegacySingleNode\<rparr>"

definition sample_inbound :: inbound where
  "sample_inbound = \<lparr>ib_panel = Some 1, ib_inbound_id = 7, ib_is_active = True,
     ib_available_for_new_orders = True, ib_legacy_note = [], ib_current_users = 3,
     ib_max_clients = Some 10, ib_xui_node_id = [], ib_xui_node_name = [], ib_xui_remote_key = [],
     ib_xui_source = SrcLocal, ib_verification_status = Unverified, ib_verified_at = None,
     ib_verification_method = [], ib_last_verified_config_count = 0,
     ib_last_verification_error_code = [], ib_verification_attempted_at = None, ib_health_monitor_enabled = True,
     ib_security = SecTls, ib_pbk = [], ib_metadata = []\<rparr>"

definition sample_route :: route where
  "sample_route = \<lparr>rt_store = Some 1, rt_plan = 1, rt_operator = None, rt_inbound = 1,
     rt_is_active = True, rt_priority = 1, rt_weight = 1, rt_note = []\<rparr>"

text \<open>A receipt was sent ten minutes ago for an order of the invited customer.\<close>

definition sample_order :: order where
  "sample_order = new_order\<lparr>o_created_at := 1, o_store := Some 1, o_customer := Some 2, o_plan := Some 1,
     o_status := PendingVerification, o_original_amount := 100000, o_amount := 100000, o_is_paid := True,
     o_payment_submitted_at := Some 2, o_payment_date := Some 20000, o_bank_tracking_code := [49, 50],
     o_inbound := Some 1, o_username := ''bob'', o_uuid := ''id-1''\<rparr>"

definition sample_client :: vpn_client where
  "sample_client = new_client\<lparr>vc_store := Some 1, vc_order := Some 1, vc_plan := Some 1,
     vc_inbound := Some 1, vc_username := ''bob'', vc_xui_email := ''bob'', vc_uuid := ''id-1'',
     vc_status := ClInactive, vc_traffic_limit_bytes := 10737418240, vc_duration_days := 30\<rparr>"

definition sample_db :: db where
  "sample_db = empty_db\<lparr>db_stores := [(1, sample_store)], db_plans := [(1, sample_plan)],
     db_discounts := [(1, sample_discount)], db_customers := [(1, inviter), (2, invited)],
     db_panels := [(1, sample_panel)], db_inbounds := [(1, sample_inbound)],
     db_routes := [(1, sample_route)], db_orders := [(1, sample_order)],
     db_clients := [(1, sample_client)]\<rparr>"

section \<open>Remote panels\<close>

definition sample_result :: client_result where
  "sample_result = \<lparr>cr_uuid = ''id-1'', cr_email = ''bob'', cr_sub_id = ''s'', cr_sub_link = ''https://sub'',
     cr_direct_link = ''vless://x'', cr_node_id = [], cr_remote_key = [], cr_expires_at = None,
     cr_raw_links = [], cr_raw = []\<rparr>"

definition willing :: remote where
  "willing = \<lparr>rm_lookup = (\<lambda>_. Inr (Some sample_result)), rm_create_enabled = (\<lambda>_. Some sample_result),
     rm_create_multi = (\<lambda>_. Some [sample_result]), rm_create_pasarguard = (\<lambda>_. Inr sample_result),
     rm_create_inactive = (\<lambda>_. Some sample_result), rm_enable = (\<lambda>_. True),
     rm_toggle = (\<lambda>_. Some \<lparr>tg_new_total_bytes = None, tg_new_expiry_time = None, tg_raw = None\<rparr>),
     rm_delete = (\<lambda>_. True), rm_renew = (\<lambda>_. Some \<lparr>rn_expiry_at = None, rn_raw = None\<rparr>),
     rm_add_traffic = (\<lambda>_. Some \<lparr>tr_total_traffic_bytes = None, tr_expiry_unlimited = False,
                                  tr_expiry_at = None, tr_raw = []\<rparr>),
     rm_sent = (\<lambda>_. 1), rm_has_target = (\<lambda>_. True)\<rparr>"

definition refusing :: remote where
  "refusing = \<lparr>rm_lookup = (\<lambda>_. Inl ''timeout''), rm_create_enabled = (\<lambda>_. None),
     rm_create_multi = (\<lambda>_. None), rm_create_pasarguard = (\<lambda>_. Inl ''timeout''),
     rm_create_inactive = (\<lambda>_. None), rm_enable = (\<lambda>_. False), rm_toggle = (\<lambda>_. None),
     rm_delete = (\<lambda>_. False), rm_renew = (\<lambda>_. None), rm_add_traffic = (\<lambda>_. None),
     rm_sent = (\<lambda>_. 0), rm_has_target = (\<lambda>_. False)\<rparr>"

text \<open>Engines that leave every order to the panels.\<close>

definition no_engines :: engines where
  "no_engines = \<lparr>eg_resolve = (\<lambda>_ _. NoCanonical), eg_execute = (\<lambda>_ _ d. (Inr NotIntercepted, d)),
     eg_recipe = (\<lambda>_ d. (Inr NotIntercepted, d)), eg_inventory = (\<lambda>_ d. (Inr (failed ''none'' []), d)),
     eg_rebuild = (\<lambda>_ d. d)\<rparr>"

section \<open>Rules that run the model on the samples\<close>

lemmas sample_defs = sample_env_def sample_store_def sample_plan_def sample_discount_def inviter_def
  newcomer_def invited_def sample_panel_def sample_inbound_def sample_route_def sample_order_def
  sample_client_def sample_db_def empty_db_def new_order_def new_client_def new_store_def new_audit_def
  sample_result_def willing_def refusing_def no_engines_def

lemmas table_defs = access_defs row_def put_def modify_where_def rows_where_def exists_where_def
  first_where_def ordered_where_def fresh_pk_def add_row_def

lemmas save_defs = save_order_def save_back_def normalize_on_save_def fill_from_plan_def
  stamp_manual_payment_def is_manual_payment_def subtotal_amount_def int_or_def
  process_referral_purchase_def purchase_counts_def

lemmas act_defs = raise_act_def and_then_def request_def require_def ask_def rollback_def

lemmas legacy_defs = activate_legacy_order_def mark_provisioning_state_def
  ensure_legacy_order_client_def missing_client_count_def required_client_count_def
  clients_of_order_def clients_in_order_def order_plan_def complete_legacy_order_def
  vpn_client_panel_error_def succeeded_def failed_def mark_payment_verified_def
  sync_order_primary_client_fields_def panel_of_def

end
