(* ===== verification/Sales_Laws.thy ===== *)
theory Sales_Laws
  imports Samples
begin

text \<open>
  Properties of discounts, referrals, receipts, orders and the catalogue: what a customer pays,
  who is rewarded, and what a receipt proves. Each property that has hypotheses is applied to the
  sample shop after it.
\<close>

section \<open>Discounts\<close>

text \<open>C11. The price shown for an order: the quantity is between 1 and 50, the discount is between
  nothing and the subtotal, and what is due is the subtotal less the discount, never negative.\<close>

theorem preview_discount_amounts:
  assumes "preview_discount en (p, pl) code cust q d = Inr (k, amount, due)"
    and "0 \<le> pl_price pl" and "\<forall>(_, c) \<in> set (db_discounts d). 0 \<le> dc_value c"
  shows "\<exists>n. 1 \<le> n \<and> n \<le> 50 \<and> 0 \<le> amount \<and> amount \<le> pl_price pl * n \<and>
    due = pl_price pl * n - amount \<and> 0 \<le> due"
proof -
  from assms(1) obtain n where n: "validate_order_quantity q = Inr n"
    by (cases "validate_order_quantity q") (auto simp: preview_discount_def)
  then have b: "1 \<le> n \<and> n \<le> 50" by (rule quantity_bounds)
  with assms(2) have sub: "0 \<le> pl_price pl * n" by simp
  show ?thesis
  proof (cases "normalize_code code = []")
    case True
    with assms(1) n sub b show ?thesis by (auto simp: preview_discount_def)
  next
    case False
    with assms(1) n obtain j c where c: "check_discount en p (normalize_code code) cust d = Inr (j, c)"
      and a: "amount = calculate_discount c (pl_price pl * n)"
      and due: "due = max (pl_price pl * n - amount) 0"
      by (auto simp: preview_discount_def Let_def split: sum.splits)
    from c have "(j, c) \<in> set (db_discounts d)"
      by (auto simp: check_discount_def find_discount_def split: option.splits sum.splits dest: first_where_Some)
    with assms(3) have "0 \<le> dc_value c" by auto
    from calculate_discount_bounds [OF this, of "pl_price pl * n"] a due sub b show ?thesis by auto
  qed
qed

theorem preview_discount_amounts_witness:
  "\<exists>n. 1 \<le> n \<and> n \<le> 50 \<and> (0::int) \<le> 40000 \<and> 40000 \<le> pl_price sample_plan * n \<and>
    160000 = pl_price sample_plan * n - 40000 \<and> (0::int) \<le> 160000"
  by (rule preview_discount_amounts [of sample_env 1 sample_plan "''off20 ''" "Some 2" "Number 2" sample_db "Some 1"])
     code_simp+

text \<open>Reserving a code at checkout gives the code and the amount that the preview showed, or
  the same error.\<close>

theorem reserve_agrees_with_preview:
  "fst (reserve_discount_usage en pl code cust q d) =
   map_sum id (\<lambda>(k, amount, _). (k, amount)) (preview_discount en pl code cust q d)"
  by (simp add: reserve_discount_usage_def preview_discount_def Let_def split: sum.split prod.split)

text \<open>C12. A code with a usage limit is never used more often than its limit: a reservation counts
  one use of exactly that code, stays within the limit, and releasing it restores every counter.\<close>

theorem reservation_within_limit:
  assumes "wf_table (db_discounts d)" and "count_valid d k"
    and "reserve_discount_usage en pl code cust q d = (Inr (Some k, amount), d')"
  shows "(\<forall>j. used_count d' j = used_count d j + (if j = k then 1 else 0)) \<and>
    (\<forall>j. used_count (release_discount_usage (Some k) d') j = used_count d j) \<and>
    (\<exists>c. get_discount d' k = Some c \<and>
      (case dc_max_usage c of None \<Rightarrow> True | Some m \<Rightarrow> dc_used_count c \<le> m))"
proof -
  have d': "d' = take_discount k d" using assms(1,3) by (rule reserve_is_take)
  from assms(3) obtain n c where ok: "check_discount en (fst pl) (normalize_code code) cust d = Inr (k, c)"
    and put: "d' = put_discount k (c\<lparr>dc_used_count := dc_used_count c + 1\<rparr>) d"
    by (rule reserve_cases)
  have "has_usage_available c"
    using check_discount_found(3) [OF assms(1) ok] by (simp add: validate_for_plan_ok)
  then have "\<exists>c. get_discount d' k = Some c \<and>
      (case dc_max_usage c of None \<Rightarrow> True | Some m \<Rightarrow> dc_used_count c \<le> m)"
    unfolding put by (auto simp: has_usage_available_def split: option.splits)
  then show ?thesis unfolding d' by (simp add: usage.used_take usage.take_give_cancel assms(2))
qed

definition sample_reserved :: "(discount_error + (pk option \<times> int)) \<times> db" where
  "sample_reserved = reserve_discount_usage sample_env (1, sample_plan) ''OFF20'' (Some 2) (Number 1) sample_db"

theorem reservation_within_limit_witness:
  "\<forall>j. used_count (release_discount_usage (Some 1) (snd sample_reserved)) j = used_count sample_db j"
proof -
  have r: "fst sample_reserved = Inr (Some 1, 20000)" by code_simp
  have "wf_table (db_discounts sample_db)" "count_valid sample_db 1" by code_simp+
  moreover have "reserve_discount_usage sample_env (1, sample_plan) ''OFF20'' (Some 2) (Number 1) sample_db =
      (Inr (Some 1, 20000), snd sample_reserved)"
    by (metis r prod.collapse sample_reserved_def)
  ultimately show ?thesis by (blast dest: reservation_within_limit)
qed

section \<open>Referrals\<close>

text \<open>C13. Who invited a customer is recorded once. An accepted code belongs to another, active
  customer; after it no code is accepted again, and a save that would change or clear the
  referrer is refused without any write.\<close>

theorem referrer_write_once:
  assumes "row (db_customers d) k = Some c"
    and "assign_referrer en (Some (k, c)) code d = (Inr (Some f), d')"
  shows "\<exists>r rc c'. row (db_customers d') k = Some c' \<and> cu_referred_by c' = Some r \<and> r \<noteq> k \<and>
    (r, rc) \<in> set (db_customers d) \<and> cu_referral_code rc = normalize_referral_code code \<and> cu_is_active rc \<and>
    (\<forall>en2 code2. assign_referrer en2 (Some (k, c')) code2 d' = (Inr None, d')) \<and>
    (\<forall>en2 c2. cu_referred_by c2 \<noteq> Some r \<longrightarrow>
       (\<exists>e. save_customer en2 k c2 d' = (Inl e, d')))"
proof -
  obtain r rc where r: "first_where (\<lambda>_ r. cu_referral_code r = normalize_referral_code code \<and> cu_is_active r)
      (db_customers d) = Some (r, rc)" "r \<noteq> k"
    and d': "db_customers d' = put k (c\<lparr>cu_referred_by := Some r, cu_referral_code_used := normalize_referral_code code,
           cu_referred_at := Some (e_now en)\<rparr>) (db_customers d)"
    by (rule assign_referrer_done [OF assms])
  let ?c = "c\<lparr>cu_referred_by := Some r, cu_referral_code_used := normalize_referral_code code,
           cu_referred_at := Some (e_now en)\<rparr>"
  have row: "row (db_customers d') k = Some ?c" by (simp add: d')
  have "\<exists>e. save_customer en2 k c2 d' = (Inl e, d')" if "cu_referred_by c2 \<noteq> Some r" for en2 c2
    using that by (auto simp: save_customer_def Let_def row)
  moreover have "assign_referrer en2 (Some (k, ?c)) code2 d' = (Inr None, d')" for en2 code2
    by (simp add: assign_referrer_def Let_def)
  ultimately show ?thesis using row r first_where_Some [OF r(1)] by fastforce
qed

definition before_invite :: db where
  "before_invite = sample_db\<lparr>db_customers := [(1, inviter), (2, newcomer)]\<rparr>"

theorem referrer_write_once_witness:
  "\<exists>r c'. row (db_customers (snd (assign_referrer sample_env (Some (2, newcomer)) '' rfann'' before_invite))) 2 = Some c' \<and>
    cu_referred_by c' = Some r \<and> r \<noteq> 2"
proof -
  have "fst (assign_referrer sample_env (Some (2, newcomer)) '' rfann'' before_invite) = Inr (Some 1)" by code_simp
  then have "assign_referrer sample_env (Some (2, newcomer)) '' rfann'' before_invite =
      (Inr (Some 1), snd (assign_referrer sample_env (Some (2, newcomer)) '' rfann'' before_invite))"
    by (metis prod.collapse)
  moreover have "row (db_customers before_invite) 2 = Some newcomer" by code_simp
  ultimately show ?thesis using referrer_write_once [of before_invite 2 newcomer sample_env "'' rfann''" 1] by blast
qed

text \<open>C14. Every save of an order runs the reward code, and running it again is harmless: once a
  purchase has been processed, processing the order again at any time changes nothing.\<close>

theorem purchase_rewarded_once:
  "snd (process_referral_purchase en2 k2 ord (snd (process_referral_purchase en k ord d))) =
   snd (process_referral_purchase en k ord d)"
  by (cases "process_referral_purchase en k ord d") (simp add: process_referral_again)

section \<open>Receipts\<close>

text \<open>A receipt is accepted without an administrator exactly when the order is priced in toman
  or rial, the text is not blank, and one of the amounts written in it equals the amount due in
  rial.\<close>

theorem receipt_matched_iff:
  "(an_status (analyze_receipt_text txt amount cur) = RcMatched \<longleftrightarrow>
     (\<exists>irr. expected_amount_in_rial amount cur = Some irr \<and> strip_points txt \<noteq> [] \<and>
        irr \<in> (\<lambda>c. int (cd_amount_irr c)) ` set (extract_receipt_amount_candidates txt))) \<and>
   (an_requires_admin_review (analyze_receipt_text txt amount cur) \<longleftrightarrow>
     an_status (analyze_receipt_text txt amount cur) \<noteq> RcMatched)"
proof (cases "expected_amount_in_rial amount cur")
  case None
  then show ?thesis by (simp add: analyze_receipt_text_def)
next
  case (Some irr)
  show ?thesis
  proof (cases "find (\<lambda>c. int (cd_amount_irr c) = irr) (extract_receipt_amount_candidates txt)")
    case None
    then have "irr \<notin> (\<lambda>c. int (cd_amount_irr c)) ` set (extract_receipt_amount_candidates txt)"
      by (auto simp: find_None_iff)
    with None Some show ?thesis by (auto simp: analyze_receipt_text_def Let_def split: list.splits)
  next
    case (Some c)
    then have "irr \<in> (\<lambda>c. int (cd_amount_irr c)) ` set (extract_receipt_amount_candidates txt)"
      by (auto simp: find_Some_iff)
    with Some \<open>expected_amount_in_rial amount cur = Some irr\<close> show ?thesis
      by (auto simp: analyze_receipt_text_def Let_def)
  qed
qed

text \<open>Every amount read from a receipt is really written there: it is the value of the digits
  of a piece of the text that starts and ends with a digit and holds only digits and separators,
  it is at least 1000, and its value in rial is the amount itself or, for toman, ten times it.\<close>

theorem receipt_candidate_sound:
  assumes "c \<in> set (extract_receipt_amount_candidates txt)"
  shows "\<exists>a b. span_ok (normalize_receipt_text txt) a b \<and>
    cd_raw c = slice a b (normalize_receipt_text txt) \<and>
    cd_amount c = points_value (filter ascii_digit (cd_raw c)) \<and> 1000 \<le> cd_amount c \<and>
    (cd_amount_irr c = cd_amount c \<or> cd_amount_irr c = cd_amount c * 10)"
proof -
  let ?t = "normalize_receipt_text txt"
  from assms obtain key where "(key, c) \<in> set (dedup_on fst {} (concat (map (candidate_at ?t) (number_spans 0 False ?t))))"
    by (auto simp: extract_receipt_amount_candidates_def Let_def)
  then obtain a b where ab: "(a, b) \<in> set (number_spans 0 False ?t)" and c: "(key, c) \<in> set (candidate_at ?t (a, b))"
    by (fastforce dest: subsetD [OF dedup_on_subset])
  have ok: "span_ok ?t a b" using number_spans_ok [OF ab, of "[]"] by simp
  from c ok show ?thesis
    by (intro exI [of _ a] exI [of _ b])
       (auto simp: candidate_at_def Let_def strip_span split: if_splits)
qed

text \<open>The receipt \<open>120,000\<close>.\<close>

theorem receipt_candidate_sound_witness:
  "\<exists>c a b. c \<in> set (extract_receipt_amount_candidates [49, 50, 48, 44, 48, 48, 48]) \<and>
    cd_raw c = slice a b (normalize_receipt_text [49, 50, 48, 44, 48, 48, 48]) \<and> 1000 \<le> cd_amount c"
proof -
  have "extract_receipt_amount_candidates [49, 50, 48, 44, 48, 48, 48] \<noteq> []"
    by (simp add: extract_receipt_amount_candidates_def Let_def normalize_receipt_text_def normalize_digit_def
        number_body_def number_char_def ascii_digit_def space_point_def candidate_at_def slice_def context_for_def
        strip_points_def points_value_def looks_like_time_or_date_def)
  then obtain c where "c \<in> set (extract_receipt_amount_candidates [49, 50, 48, 44, 48, 48, 48])"
    by (meson list.set_sel(1))
  from this receipt_candidate_sound [OF this] show ?thesis by blast
qed

section \<open>Orders\<close>

text \<open>Saving an order is idempotent: what a save writes is not changed by a later save, at any
  time, as long as the plans are the same.\<close>

theorem save_order_idempotent:
  "get_order (save_order en2 k (normalize_on_save en d ord) d) k = get_order (save_order en k ord d) k"
  by (simp add: save_get normalize_again)

text \<open>An order's amounts agree, before and after it is saved: whatever discount of a
  non-negative value is applied, by code or by a wholesale percentage, the stored order has
  0 <= discount <= original amount and amount due = original amount - discount.\<close>

theorem discounted_order_amounts:
  assumes "0 \<le> o_original_amount ord" and "0 \<le> subtotal_amount d ord" and "0 \<le> amt"
    and "amounts_ok ord"
  shows "(\<exists>o1. get_order (save_order en k (apply_discount d code amt source label ord) d) k = Some o1 \<and> amounts_ok o1) \<and>
         (\<exists>o2. get_order (save_order en k (apply_wholesale_discount d percent ord) d) k = Some o2 \<and> amounts_ok o2)"
proof -
  have sub: "subtotal_amount d (apply_discount d code amt source label x) = subtotal_amount d x"
    for code amt source label x by (simp add: apply_discount_def subtotal_amount_def Let_def)
  have orig: "0 \<le> int_or (o_original_amount ord) (subtotal_amount d ord)"
    using assms(1,2) by (simp add: int_or_def)
  have 1: "amounts_ok (normalize_on_save en d (apply_discount d code amt source label ord))"
    using assms orig sub by (intro normalize_amounts apply_discount_amounts) auto
  have 2: "amounts_ok (normalize_on_save en d (apply_wholesale_discount d percent ord))"
  proof (cases "clamp 0 100 percent = 0")
    case True
    then have "apply_wholesale_discount d percent ord =
        ord\<lparr>o_original_amount := int_or (o_original_amount ord) (subtotal_amount d ord)\<rparr>"
      by (simp add: apply_wholesale_discount_def Let_def)
    then show ?thesis using assms(2,4) by (simp add: normalize_original_amounts)
  next
    case False
    let ?o = "int_or (o_original_amount ord) (subtotal_amount d ord)"
    have "0 \<le> min (?o * clamp 0 100 percent div 100) ?o"
      using orig clamp_bounds [of 0 100 percent] percentage_of_amount(1) by auto
    with False orig assms(2) show ?thesis
      by (auto simp: apply_wholesale_discount_def Let_def sub int_or_def
          intro!: normalize_amounts apply_discount_amounts)
  qed
  from 1 2 show ?thesis by (simp add: save_get)
qed

theorem discounted_order_amounts_witness:
  "\<exists>o2. get_order (save_order sample_env 1 (apply_wholesale_discount sample_db 15 sample_order) sample_db) 1 = Some o2 \<and>
     amounts_ok o2"
proof -
  have "0 \<le> o_original_amount sample_order" "0 \<le> subtotal_amount sample_db sample_order" "amounts_ok sample_order"
    by code_simp+
  from discounted_order_amounts [OF this(1,2) _ this(3), of 0] show ?thesis by auto
qed

text \<open>An accepted payment submission leaves the order waiting for verification with a payer
  name of 1 to 100 characters, no card digits or exactly four ASCII digits, a time of day, and
  the receipt that was required.\<close>

theorem accepted_submission:
  assumes "submit_manual_payment en sb ord = Inr ord'"
    and "\<And>h m s. sb_payment_time sb = TimeOf h m s \<Longrightarrow> h < 24 \<and> m < 60"
  shows "o_status ord' = PendingVerification \<and> o_verification_status ord' = VerPending \<and> o_is_paid ord' \<and>
    o_payment_submitted_at ord' = Some (e_now en) \<and>
    0 < length (o_sender_card_name ord') \<and> length (o_sender_card_name ord') \<le> 100 \<and>
    (o_sender_card_last4 ord' = [] \<or> length (o_sender_card_last4 ord') = 4) \<and>
    list_all ascii_digit (o_sender_card_last4 ord') \<and>
    (\<exists>m. o_payment_time ord' = Some m \<and> 0 \<le> m \<and> m < 24 * 60) \<and>
    (sb_require_receipt sb \<longrightarrow> sb_receipt_image sb \<noteq> None \<or> dhas ''receipt_text'' (o_metadata ord'))"
proof -
  obtain cl where cl: "clean_manual_payment_submission sb (o_sender_card_name ord) (o_sender_card_last4 ord) = Inr cl"
    and f: "o_sender_card_name ord' = cln_sender_card_name cl" "o_sender_card_last4 ord' = cln_sender_card_last4 cl"
      "o_payment_time ord' = Some (cln_payment_time cl)"
      "o_metadata ord' = receipt_metadata (sb_require_receipt sb) cl ord"
    by (rule submit_cleaned [OF assms(1)])
  note c = clean_submission_cases [OF cl]
  have img: "cln_receipt_image cl \<noteq> None \<longrightarrow> sb_receipt_image sb \<noteq> None"
    using cl by (auto simp: clean_manual_payment_submission_def validate_payment_receipt_image_def
        split: sum.splits if_splits option.splits)
  have "dhas ''receipt_text'' (receipt_metadata r cl ord)" if "cln_receipt_text cl \<noteq> []" for r
    using that by (simp add: receipt_metadata_def Let_def)
  moreover have "o_status ord' = PendingVerification \<and> o_verification_status ord' = VerPending \<and> o_is_paid ord' \<and>
    o_payment_submitted_at ord' = Some (e_now en)"
    using assms(1) by (auto simp: submit_manual_payment_def split: sum.splits)
  ultimately show ?thesis
    using f img c(4,5) clean_name_bounds [OF c(1)] clean_last4_digits [OF c(2)] clean_time_bounds [OF c(3) assms(2)]
    by auto
qed

definition sample_submission :: submission where
  "sample_submission = \<lparr>sb_sender_card_name = [65, 108, 105], sb_sender_card_last4 = [1777, 1778, 51, 52],
     sb_payment_time = TimeText ''9:05'', sb_receipt_image = None, sb_receipt_text = [111, 107],
     sb_require_receipt = True, sb_require_receipt_image = False\<rparr>"

theorem accepted_submission_witness:
  "case submit_manual_payment sample_env sample_submission sample_order of
     Inl _ \<Rightarrow> False
   | Inr o1 \<Rightarrow> o_status o1 = PendingVerification \<and> length (o_sender_card_last4 o1) = 4"
proof -
  have "case submit_manual_payment sample_env sample_submission sample_order of
      Inl _ \<Rightarrow> False | Inr o1 \<Rightarrow> o_sender_card_last4 o1 \<noteq> []"
    by (simp add: submit_manual_payment_def clean_manual_payment_submission_def sample_submission_def
        clean_payment_receipt_text_def clean_sender_card_name_def clean_sender_card_last4_def
        validate_payment_receipt_image_def parse_payment_time_def short_number_def digits_value_def
        is_digit_def chr_code_def normalize_payment_digits_def normalize_digit_def strip_points_def
        space_point_def ascii_digit_def)
  then obtain o1 where o1: "submit_manual_payment sample_env sample_submission sample_order = Inr o1"
    "o_sender_card_last4 o1 \<noteq> []" by (auto split: sum.splits)
  from accepted_submission [OF o1(1)] o1 show ?thesis by (simp add: sample_submission_def)
qed

section \<open>Reported revenue\<close>

text \<open>The revenue reports, which sum an SQL expression, agree with the amount the order page
  computes in Python, for every order whose administrator flag is a JSON boolean or absent and
  whose explicit revenue amount is present when it is included.\<close>

theorem sql_revenue_is_page_revenue:
  assumes "dget ''admin_direct_purchase'' (o_metadata ord) \<in> {JNull, JBool True, JBool False}"
    and "o_revenue_included ord = Some True \<longrightarrow> o_revenue_amount ord \<noteq> None"
  shows "revenue_amount_expression ord = Some (order_revenue_amount ord)"
  using assms
  by (auto simp: revenue_amount_expression_def order_revenue_amount_def order_counts_in_revenue_def
      is_admin_direct_order_def completed_paid_order_q_def)

theorem sql_revenue_is_page_revenue_witness:
  "revenue_amount_expression (sample_order\<lparr>o_status := Completed\<rparr>) = Some 100000"
proof -
  have "revenue_amount_expression (sample_order\<lparr>o_status := Completed\<rparr>) =
      Some (order_revenue_amount (sample_order\<lparr>o_status := Completed\<rparr>))"
    by (rule sql_revenue_is_page_revenue) (simp_all add: sample_defs)
  then show ?thesis by (simp add: sample_defs order_revenue_amount_def order_counts_in_revenue_def is_admin_direct_order_def)
qed

text \<open>What the revenue form accepts for an order that is not an administrator's purchase, the
  update accepts too, the stored order passes the model's own validation of revenue, and a
  completed paid order then reports exactly the amount entered, or nothing when excluded.\<close>

theorem revenue_form_update:
  assumes "clean_revenue_form included entered = (None, inc, amt)"
    and "get_order d k = Some ord" and "\<not> is_admin_direct_order ord"
  shows "\<exists>ord'. update_order_revenue k inc amt d = (Inr (), put_order k ord' d) \<and>
    clean_order d ord' \<noteq> Inl RevenueAmountNotPositive \<and> clean_order d ord' \<noteq> Inl AdminDirectNotRevenue \<and>
    (o_status ord = Completed \<and> o_is_paid ord \<longrightarrow>
       order_revenue_amount ord' = (case amt of None \<Rightarrow> 0 | Some n \<Rightarrow> n))"
proof -
  let ?o = "ord\<lparr>o_revenue_included := Some inc, o_revenue_amount := (if inc then amt else None)\<rparr>"
  have inc: "inc = included" and amt: "if included then \<exists>n. amt = Some n \<and> 0 < n \<and> n \<le> 2147483647 else amt = None"
    using assms(1) by (auto simp: clean_revenue_form_def Let_def split: if_splits)
  have "update_order_revenue k inc amt d = (Inr (), put_order k ?o d)"
    using assms(2,3) inc amt by (auto simp: update_order_revenue_def split: option.splits if_splits)
  moreover have "\<not> is_admin_direct_order ?o" using assms(3) by (simp add: is_admin_direct_order_def)
  ultimately show ?thesis
    using inc amt
    by (intro exI [of _ ?o]) (auto simp: clean_order_def Let_def order_revenue_amount_def
        order_counts_in_revenue_def split: option.splits)
qed

theorem revenue_form_update_witness:
  "\<exists>ord'. update_order_revenue 1 True (Some 5000) sample_db = (Inr (), put_order 1 ord' sample_db)"
proof -
  have 1: "clean_revenue_form True [1781, 44, 48, 48, 48] = (None, True, Some 5000)"
    by (simp add: clean_revenue_form_def normalize_payment_digits_def normalize_digit_def strip_points_def
        space_point_def ascii_digit_def points_value_def)
  have 2: "get_order sample_db 1 = Some sample_order" by (simp add: sample_db_def access_defs row_def)
  have "\<not> is_admin_direct_order sample_order" by code_simp
  from revenue_form_update [OF 1 2 this] show ?thesis by blast
qed

end
