(* ===== verification/Selection_Laws.thy ===== *)
theory Selection_Laws
  imports Samples
begin

text \<open>
  Properties of the catalogue and of inbound selection: what may be sold, which inbound an order
  gets, when selection fails, and what a custom volume costs.
\<close>

section \<open>The catalogue\<close>

text \<open>A plan route that passes validation and is active can be sold: its inbound exists, is
  active and open for new orders on an active panel, is verified where its kind requires it, and
  the route, its plan and its panel do not belong to different stores; its operator, if any, is
  active and offers the plan.\<close>

theorem clean_route_sellable:
  assumes "clean_route d r = []" and "rt_is_active r"
  shows "\<exists>i p. row (db_inbounds d) (rt_inbound r) = Some i \<and> panel_of d i = Some p \<and> inbound_open d i \<and>
    (requires_sellability_verification d i \<longrightarrow> ib_verification_status i = VerifiedSellable) \<and>
    \<not> owner_clash (rt_store r) (pn_store p) \<and>
    \<not> owner_clash (Option.bind (row (db_plans d) (rt_plan r)) pl_store) (pn_store p) \<and>
    \<not> owner_clash (rt_store r) (Option.bind (row (db_plans d) (rt_plan r)) pl_store) \<and>
    route_operator_error d (rt_plan r) (rt_operator r) = None"
proof -
  from assms have own: "route_ownership_errors d r = []"
    and inb: "route_inbound_error d (row (db_inbounds d) (rt_inbound r)) = None"
    and op: "route_operator_error d (rt_plan r) (rt_operator r) = None"
    by (auto simp: clean_route_Nil)
  from inb obtain i p where i: "row (db_inbounds d) (rt_inbound r) = Some i" "ib_is_active i"
    "ib_available_for_new_orders i" "requires_sellability_verification d i \<longrightarrow> ib_verification_status i = VerifiedSellable"
    "panel_of d i = Some p" "pn_is_active p"
    unfolding route_inbound_ok by blast
  with own op show ?thesis
    by (intro exI [of _ i] exI [of _ p]) (simp add: route_ownership_errors_def Let_def inbound_open_def)
qed

theorem clean_route_sellable_witness:
  "\<exists>i. row (db_inbounds sample_db) (rt_inbound sample_route) = Some i \<and> inbound_open sample_db i"
proof -
  have "clean_route sample_db sample_route = []" "rt_is_active sample_route" by code_simp+
  from clean_route_sellable [OF this] show ?thesis by blast
qed

section \<open>Selecting an inbound\<close>

text \<open>C16. The inbound selected for an order can take it: it is a stored inbound, open for new
  orders on an active panel of the store or a shared panel, it has room for every client of the
  order, its panel's capabilities are known, and it is a modern or PasarGuard panel only when the
  order is to be provisioned after payment.\<close>

theorem selected_inbound_fits:
  assumes "select_inbound_for_plan pl st oper quantity allow d = Inr (Some (k, i))"
  shows "(k, i) \<in> set (db_inbounds d) \<and> inbound_open d i \<and>
    store_filter (map_option fst (effective_store st (snd pl) d)) (panel_store d i) \<and>
    (case available_capacity i of None \<Rightarrow> True | Some n \<Rightarrow> max quantity 1 \<le> n) \<and>
    (\<exists>p. panel_of d i = Some p \<and> pn_capability_profile p \<noteq> UnknownSafe \<and>
       (pn_family p = FamPasarguard \<or> pn_capability_profile p \<in> {ModernSingleNode, ModernMultiNode} \<longrightarrow> allow))"
  using select_inbound_sound [OF assms] by (auto simp: validate_inbound_ok split: option.splits)

theorem selected_inbound_fits_witness:
  "inbound_open sample_db sample_inbound \<and> max 4 1 \<le> (7::int)"
proof -
  have "select_inbound_for_plan (1, sample_plan) (Some (1, sample_store)) None 4 False sample_db = Inr (Some (1, sample_inbound))"
    by code_simp
  from selected_inbound_fits [OF this] show ?thesis
    by (simp add: available_capacity_def sample_inbound_def)
qed

text \<open>Selection raises an error in one case only: routing is on, the global fallback is off,
  and no route of the plan, for the operator or general, leads to an inbound that can take the
  order.\<close>

theorem selection_fails_iff:
  "select_inbound_for_plan pl st oper quantity allow d = Inl e \<longleftrightarrow>
   e = RouteMissing \<and>
   store_allows_plan_inbound_routing (map_option snd (effective_store st (snd pl) d)) \<and>
   \<not> store_allows_global_inbound_fallback (map_option snd (effective_store st (snd pl) d)) \<and>
   \<Union> (set ` set (route_candidates (fst pl) (map_option fst (effective_store st (snd pl) d)) oper d)) \<inter>
     {x. is_ok (validate_inbound_for_order d (map_option fst (effective_store st (snd pl) d)) (max quantity 1) allow x)} = {}"
proof -
  let ?s = "map_option fst (effective_store st (snd pl) d)"
  let ?v = "validate_inbound_for_order d ?s (max quantity 1) allow"
  have "first_set_ok ?v (route_candidates (fst pl) ?s oper d) = None \<longleftrightarrow>
      \<Union> (set ` set (route_candidates (fst pl) ?s oper d)) \<inter> {x. is_ok (?v x)} = {}"
    unfolding first_set_ok_None by blast
  then show ?thesis
    by (auto simp: select_inbound_for_plan_def Let_def split: option.splits)
qed

text \<open>Without a usable route the store's least loaded inbound is taken: among all inbounds that
  could take the order, the chosen one has the fewest users, the lowest key on a tie; and nothing
  is chosen only when the store may not sell or no inbound fits.\<close>

theorem fallback_least_loaded:
  assumes "(j, i2) \<in> set (db_inbounds d)"
    and "is_ok (validate_inbound_for_order d (map_option fst st) slots allow (j, i2))"
    and "st \<noteq> None \<longrightarrow> store_is_sellable (map_option snd st)"
  shows "\<exists>k i. get_available_inbound st slots allow d = Some (k, i) \<and>
    (ib_current_users i, k) \<le> (ib_current_users i2, j)"
proof -
  let ?v = "validate_inbound_for_order d (map_option fst st) slots allow"
  let ?c = "available_inbound_candidates (map_option fst st) d"
  have g: "get_available_inbound st slots allow d = first_ok ?v ?c"
    using assms(3) by (auto simp: get_available_inbound_def)
  have ok: "?v (j, i2) = Inr (j, i2)" using assms(2) by (auto simp: is_ok_iff dest: order_inbound.returns_argument)
  then have j: "(j, i2) \<in> set ?c"
    using assms(1) by (auto simp: available_inbound_candidates_def set_ordered_where validate_inbound_ok)
  then obtain x where x: "first_ok ?v ?c = Some x"
    using assms(2) order_inbound.first_ok_None by (cases "first_ok ?v ?c") (blast, blast)
  have s: "sorted (map (\<lambda>(k, i). (ib_current_users i, k)) ?c)"
    unfolding available_inbound_candidates_def by (rule sorted_ordered_where)
  from order_inbound.first_ok_least [OF s x j assms(2)] g x show ?thesis by (cases x) auto
qed

theorem fallback_least_loaded_witness:
  "\<exists>k i. get_available_inbound (Some (1, sample_store)) 2 False sample_db = Some (k, i) \<and>
    (ib_current_users i, k) \<le> (3, 1)"
proof -
  have "(1, sample_inbound) \<in> set (db_inbounds sample_db)" by (simp add: sample_db_def)
  moreover have "is_ok (validate_inbound_for_order sample_db (map_option fst (Some (1, sample_store))) 2 False (1, sample_inbound))"
    by code_simp
  moreover have "store_is_sellable (map_option snd (Some (1, sample_store)))" by code_simp
  ultimately show ?thesis
    using fallback_least_loaded [of 1 sample_inbound sample_db "Some (1, sample_store)" 2 False]
    by (simp add: sample_inbound_def)
qed

text \<open>A bundle of several inbounds is delivered as one service: its inbounds are distinct, each
  can take the order, all are on one panel, and that panel serves several nodes.\<close>

theorem bundle_on_one_panel:
  assumes "select_inbounds_for_plan pl st oper quantity allow d = Inr b"
    and "pl_multi_inbound_bundle (snd pl)" and "2 \<le> length b"
  shows "distinct (map fst b) \<and>
    list_all (\<lambda>x. validate_inbound_for_order d (map_option fst (effective_store st (snd pl) d)) (max quantity 1) True x = Inr x) b \<and>
    (\<exists>pk p. row (db_panels d) pk = Some p \<and> list_all (\<lambda>(_, i). ib_panel i = Some pk) b \<and>
       (pn_family p = FamPasarguard \<or> pn_capability_profile p = ModernMultiNode))"
proof -
  let ?v = "validate_inbound_for_order d (map_option fst (effective_store st (snd pl) d)) (max quantity 1) True"
  obtain c where b: "b = valid_route_inbounds ?v c" and ok: "check_bundle d b = Inr b"
    by (rule select_bundle_cases [OF assms])
  have ne: "b \<noteq> []" using assms(3) by auto
  obtain k i where ki: "(k, i) \<in> set b" using ne by (cases b) auto
  note one = check_bundle_ok(2) [OF ok ne] and multi = check_bundle_ok(3) [OF ok ne]
  from multi ki obtain p where p: "panel_of d i = Some p"
    "pn_family p = FamPasarguard \<or> pn_capability_profile p = ModernMultiNode" by fastforce
  then obtain pk where pk: "ib_panel i = Some pk" "row (db_panels d) pk = Some p"
    by (auto simp: panel_of_def bind_eq_Some_conv)
  from one obtain q where q: "\<forall>(k, i) \<in> set b. ib_panel i = q" by blast
  with ki pk have "q = Some pk" by auto
  with q have all: "list_all (\<lambda>(_, i). ib_panel i = Some pk) b" by (simp add: list_all_iff)
  have v: "list_all (\<lambda>x. ?v x = Inr x) b"
    using valid_route_inbounds_facts(1) [of d "map_option fst (effective_store st (snd pl) d)" "max quantity 1" True c]
    unfolding b list_all_iff by blast
  have "distinct (map fst b)" unfolding b by (rule valid_route_inbounds_facts(2))
  with v all pk p show ?thesis by blast
qed

definition bundle_plan :: plan where
  "bundle_plan = sample_plan\<lparr>pl_multi_inbound_bundle := True\<rparr>"

definition bundle_db :: db where
  "bundle_db = sample_db\<lparr>db_plans := [(1, bundle_plan)],
     db_panels := [(1, sample_panel\<lparr>pn_capability_profile := ModernMultiNode\<rparr>)],
     db_inbounds := [(1, sample_inbound), (2, sample_inbound\<lparr>ib_inbound_id := 8\<rparr>)],
     db_routes := [(1, sample_route), (2, sample_route\<lparr>rt_inbound := 2\<rparr>)]\<rparr>"

theorem bundle_on_one_panel_witness:
  "\<exists>b. select_inbounds_for_plan (1, bundle_plan) (Some (1, sample_store)) None 1 True bundle_db = Inr b \<and>
     length b = 2 \<and> distinct (map fst b)"
proof -
  have 1: "select_inbounds_for_plan (1, bundle_plan) (Some (1, sample_store)) None 1 True bundle_db =
      Inr [(1, sample_inbound), (2, sample_inbound\<lparr>ib_inbound_id := 8\<rparr>)]" by code_simp
  have "pl_multi_inbound_bundle (snd (1, bundle_plan))" by (simp add: bundle_plan_def)
  from bundle_on_one_panel [OF 1 this] 1 show ?thesis by simp
qed

section \<open>Custom volumes\<close>

text \<open>A custom volume that is accepted is between 1 and 1000 gigabytes and a whole number of
  thousandths, and its price is the product with the price per gigabyte rounded to the nearest
  unit: off by at most one half.\<close>

theorem custom_volume_priced:
  assumes "normalize_custom_volume_gb entered = Inr v"
  shows "1 \<le> v \<and> v \<le> 1000 \<and> (\<exists>n::int. v * 1000 = of_int n) \<and>
    \<bar>of_int (calculate_custom_volume_price v per_gb) - v * per_gb\<bar> \<le> 1 / 2"
  using custom_volume_bounds [OF assms] round_half_up_near [of "v * per_gb"]
  by (simp add: calculate_custom_volume_price_def)

theorem custom_volume_priced_witness:
  "\<bar>of_int (calculate_custom_volume_price (5 / 2) 999) - (5 / 2) * 999\<bar> \<le> (1 / 2 :: rat)"
proof -
  have "normalize_custom_volume_gb [50, 44, 53] = Inr (5 / 2)"
    by (simp add: normalize_custom_volume_gb_def custom_volume_text_def parse_decimal_def fold_case_def
        split_sign_def parse_exponent_def special_decimal_def decimal_value_def normalize_payment_digits_def
        normalize_digit_def strip_points_def space_point_def ascii_digit_def points_value_def)
  from custom_volume_priced [OF this] show ?thesis by blast
qed

end
