(* ===== verification/Provisioning_Facts.thy ===== *)
theory Provisioning_Facts
  imports Order_Actions
begin

text \<open>
  Facts about provisioning that its properties rest on: a remote client has one local record, a
  successful activation completes the order and a failed one never does, and the engines around
  the panels are kept apart from them.
\<close>


lemma refreshed_client [simp]:
  "vc_order (refresh_local_client en ord p i cr c) = vc_order c"
  "vc_inbound (refresh_local_client en ord p i cr c) = vc_inbound c"
  "vc_status (refresh_local_client en ord p i cr c) = ClActive"
  "vc_uuid (refresh_local_client en ord p i cr c) = str_or (cr_uuid cr) (vc_uuid c)"
  by (simp_all add: refresh_local_client_def mark_active_def Let_def)

text \<open>The filter of the local match, as a predicate on rows.\<close>

definition local_match :: "pk \<Rightarrow> pk \<Rightarrow> client_result \<Rightarrow> pk \<Rightarrow> vpn_client \<Rightarrow> bool" where
  "local_match k ik cr = (\<lambda>_ c. vc_order c = Some k \<and> vc_inbound c = Some ik \<and> vc_status c \<noteq> ClDeleted \<and>
     (\<exists>v \<in> client_identifiers cr. same_text (vc_uuid c) v \<or> same_text (vc_xui_email c) v \<or>
        same_text (vc_remote_client_key c) v))"

lemma local_matches_rows:
  "local_client_matches k ik cr d = ordered_where (\<lambda>(j, c). (vc_created_at c, j)) (local_match k ik cr) (db_clients d)"
  by (simp add: local_client_matches_def local_match_def)

lemma local_matchI:
  assumes "vc_order c = Some k" "vc_inbound c = Some ik" "vc_status c = ClActive" "vc_uuid c = cr_uuid cr"
    and "strip (cr_uuid cr) = cr_uuid cr" "cr_uuid cr \<noteq> []"
  shows "local_match k ik cr ck c"
proof -
  have "cr_uuid cr \<in> client_identifiers cr" using assms by (auto simp: client_identifiers_def)
  with assms show ?thesis by (auto simp: local_match_def same_text_def)
qed

lemma upsert_matches_after:
  assumes wf: "wf_table (db_clients d)" and uuid: "strip (cr_uuid cr) = cr_uuid cr" "cr_uuid cr \<noteq> []"
    and run: "upsert_local_client en k ord ki cr d = (Inr (ck, b), d')"
  shows "\<exists>c. local_client_matches k (fst ki) cr d' = [(ck, c)]"
proof (cases "local_client_matches k (fst ki) cr d")
  case Nil
  let ?new = "create_order_vpn_client en k ord (Some ki) (str_or (cr_email cr) (o_username ord)) cr ClActive d"
  let ?f = "fresh_pk (db_clients d)"
  obtain c0 where c0: "?new = (?f, d\<lparr>db_clients := db_clients d @ [(?f, c0)]\<rparr>)"
    and f: "vc_order c0 = Some k" "vc_inbound c0 = Some (fst ki)" "vc_status c0 = ClActive" "vc_uuid c0 = cr_uuid cr"
    by (auto simp: create_order_vpn_client_def Let_def add_row_def)
  let ?c = "refresh_local_client en ord (order_plan d ord) (snd ki) cr c0"
  have row: "row (db_clients d @ [(?f, c0)]) ?f = Some c0" by (simp add: row_append_fresh)
  have d': "ck = ?f" "db_clients d' = put ?f ?c (db_clients d @ [(?f, c0)])"
    using run Nil c0 row
    by (auto simp: upsert_local_client_def put_client_def add_user_def change_users_def get_client_def)
  have m0: "local_match k (fst ki) cr ?f c0" using f uuid by (intro local_matchI) auto
  have m1: "local_match k (fst ki) cr ?f ?c" using f uuid by (intro local_matchI) (auto simp: str_or_def)
  have "rows_where (local_match k (fst ki) cr) (db_clients d) = []"
    using Nil by (metis local_matches_rows length_0_conv length_sort ordered_where_def)
  then have "map fst (rows_where (local_match k (fst ki) cr) (db_clients d @ [(?f, c0)])) = [?f]"
    using m0 by (simp add: rows_where_append) (simp add: rows_where_def)
  then have "map fst (rows_where (local_match k (fst ki) cr) (db_clients d')) = [?f]"
    using keys_rows_put [OF row, of "local_match k (fst ki) cr" ?c] m0 m1 d'(2) by simp
  moreover have "wf_table (db_clients d')" using d'(2) wf by simp
  moreover have "row (db_clients d') ?f = Some ?c" using d'(2) by simp
  ultimately show ?thesis unfolding local_matches_rows d'(1)
    by (intro exI) (rule matches_from_rows)
next
  case (Cons m ms)
  then obtain c where m: "local_client_matches k (fst ki) cr d = [(ck, c)]"
    and d': "d' = put_client ck (refresh_local_client en ord (order_plan d ord) (snd ki) cr c) d"
    using run by (cases m; cases ms) (auto simp: upsert_local_client_def split: list.splits)
  let ?c = "refresh_local_client en ord (order_plan d ord) (snd ki) cr c"
  have rows: "rows_where (local_match k (fst ki) cr) (db_clients d) = [(ck, c)]"
    using m unfolding local_matches_rows by (rule ordered_single_rows)
  then have in0: "(ck, c) \<in> set (db_clients d)" "local_match k (fst ki) cr ck c"
    by (metis list.set_intros(1) set_rows_where)+
  then have row: "row (db_clients d) ck = Some c" using wf by (simp add: in_row_Some)
  have m1: "local_match k (fst ki) cr ck ?c"
    using in0(2) uuid by (intro local_matchI) (auto simp: local_match_def str_or_def)
  have d'2: "db_clients d' = put ck ?c (db_clients d)" using d' by (simp add: put_client_def)
  then have "map fst (rows_where (local_match k (fst ki) cr) (db_clients d')) = [ck]"
    using keys_rows_put [OF row, of "local_match k (fst ki) cr" ?c] in0(2) m1 rows by simp
  moreover have "wf_table (db_clients d')" "row (db_clients d') ck = Some ?c" using d'2 wf by auto
  ultimately show ?thesis unfolding local_matches_rows
    by (intro exI) (rule matches_from_rows)
qed

lemma complete_enabled_status [simp]:
  "o_status (complete_enabled_order en a c l m ord) = Completed"
  "o_verification_status (complete_enabled_order en a c l m ord) = VerVerified"
  "o_is_paid (complete_enabled_order en a c l m ord)"
  "o_provisioning_status (complete_enabled_order en a c l m ord) = ProvProvisioned"
  by (auto simp: complete_enabled_order_def Let_def mark_payment_verified_def split: option.splits)

lemma complete_legacy_status [simp]:
  "o_status (complete_legacy_order en a c ord d) = Completed"
  "o_verification_status (complete_legacy_order en a c ord d) = VerVerified"
  "o_is_paid (complete_legacy_order en a c ord d)"
  "o_provisioning_status (complete_legacy_order en a c ord d) = ProvProvisioned"
  by (auto simp: complete_legacy_order_def Let_def mark_payment_verified_def
      sync_order_primary_client_fields_def split: option.splits)

text \<open>What every successful activation has written.\<close>

definition fully_completed :: "order \<Rightarrow> bool" where
  "fully_completed ord \<longleftrightarrow> o_status ord = Completed \<and> o_verification_status ord = VerVerified \<and>
     o_is_paid ord \<and> o_provisioning_status ord = ProvProvisioned"

lemma save_completed:
  "fully_completed ord \<Longrightarrow> \<exists>o2. get_order (save_order en k ord d) k = Some o2 \<and> fully_completed o2"
  by (simp add: save_get fully_completed_def)

lemma not_ok_failed [simp]: "\<not> pr_ok (failed m e)" "pr_ok (succeeded m c)"
  by (simp_all add: failed_def succeeded_def)

lemma activate_modern_completes:
  assumes "activate_modern_enabled_order en rm actor strat k ord d = (r, d')" and "pr_ok r"
  shows "\<exists>o2. get_order d' k = Some o2 \<and> fully_completed o2"
proof -
  have "\<exists>ord2 d2. fully_completed ord2 \<and> d' = save_order en k ord2 d2"
    using assms
    by (auto simp: activate_modern_enabled_order_def activate_pasarguard_def activate_modern_clients_def
        Let_def fully_completed_def save_back_def split: sum.splits list.splits option.splits prod.splits if_splits)
       (metis complete_enabled_status)+
  then show ?thesis using save_completed by blast
qed

lemma activate_legacy_completes:
  assumes "activate_legacy_order en rm actor k ord d = (r, d')" and "pr_ok r"
  shows "\<exists>o2. get_order d' k = Some o2 \<and> fully_completed o2"
proof -
  have "\<exists>ord2 d2. fully_completed ord2 \<and> d' = save_order en k ord2 d2"
    using assms
    by (auto simp: activate_legacy_order_def Let_def save_back_def fully_completed_def
        split: sum.splits option.splits prod.splits if_splits)
       (metis complete_legacy_status)+
  then show ?thesis using save_completed by blast
qed

lemma activate_by_strategy_completes:
  "activate_by_strategy en rm actor strat k ord d = (Inr r, d') \<Longrightarrow> pr_ok r \<Longrightarrow>
   \<exists>o2. get_order d' k = Some o2 \<and> fully_completed o2"
  by (auto simp: activate_by_strategy_def split: if_splits prod.splits
      dest: activate_modern_completes activate_legacy_completes)

lemma keys_put: "k \<in> fst ` set t \<Longrightarrow> map fst (put k r t) = map fst t"
  unfolding put_def by (induction t) auto

lemma upsert_slots:
  assumes "upsert_local_client en k ord ki cr d = (Inr (ck, b), d')"
  shows "db_inbounds d' = (if b then db_inbounds (add_user (fst ki) d) else db_inbounds d)"
  using assms
  by (auto simp: upsert_local_client_def Let_def create_order_vpn_client_def add_row_def put_client_def
      add_user_def change_users_def split: list.splits option.splits if_splits)

lemma ensure_legacy_frame: "delivery_frame d (ensure_legacy_order_client en k ord d)"
  by (auto simp: ensure_legacy_order_client_def create_order_vpn_client_def Let_def add_row_def)

lemma provision_inactive_frame: "provision_inactive en rm k ord ki u i d = (r, d') \<Longrightarrow> delivery_frame d d'"
  by (auto simp: provision_inactive_def lookup_existing_remote_client_def request_def ask_def Let_def
      create_order_vpn_client_def add_row_def split: sum.splits option.splits prod.splits)

lemma deferred_username_frame: "deferred_username en m d = (u, d') \<Longrightarrow> delivery_frame d d'"
  by (auto simp: deferred_username_def ask_def split: json.splits if_splits)

lemma sync_status [simp]: "o_status (sync_order_primary_client_fields c ord) = o_status ord"
  by (simp add: sync_order_primary_client_fields_def split: option.splits)

lemma enable_clients_frame: "enable_clients en rm p cks d = (r, d') \<Longrightarrow> delivery_frame d d'"
proof (induction cks arbitrary: d)
  case Nil
  then show ?case by simp
next
  case (Cons ck cks)
  then show ?case
    by (auto simp: ask_def split: option.splits if_splits prod.splits bool.splits
        dest!: Cons.IH intro: delivery_frame_trans [rotated])
qed

text \<open>The order exists and is not completed.\<close>

definition not_completed :: "pk \<Rightarrow> db \<Rightarrow> bool" where
  "not_completed k d \<longleftrightarrow> (\<exists>ord. get_order d k = Some ord \<and> o_status ord \<noteq> Completed)"

lemma not_completed_save [simp]: "o_status ord \<noteq> Completed \<Longrightarrow> not_completed k (save_order en k ord d)"
  by (simp add: not_completed_def save_get)

lemma not_completed_frame: "delivery_frame d d' \<Longrightarrow> not_completed k d' = not_completed k d"
  by (simp add: not_completed_def delivery_frame_get)

lemma normalize_not_completed [simp]:
  "o_status (normalize_on_save en d ord) = Completed \<longleftrightarrow> o_status ord = Completed"
  by simp

lemma inactive_each_frame:
  "each_act (provision_inactive en rm k ord ki u) is d = (r, d') \<Longrightarrow> delivery_frame d d'"
  by (erule each_act_frame [rotated]) (erule provision_inactive_frame)

lemma provision_missing_not_completed:
  assumes "provision_missing_panel_client en rm k ord d = (r, d')" and "not_completed k d"
    and "o_status ord \<noteq> Completed"
  shows "not_completed k d'" and "r = Inr ord' \<Longrightarrow> o_status ord' \<noteq> Completed"
proof -
  let ?d0 = "ensure_legacy_order_client en k ord d"
  have d0: "not_completed k ?d0" using assms(2) not_completed_frame [OF ensure_legacy_frame] by simp
  have "not_completed k d' \<and> (\<forall>ord'. r = Inr ord' \<longrightarrow> o_status ord' \<noteq> Completed)"
  proof (cases "missing_client_count k ord ?d0 \<le> 0")
    case True
    with assms d0 show ?thesis by (auto simp: provision_missing_panel_client_def Let_def)
  next
    case False
    show ?thesis
    proof (cases "\<exists>ki. inbound_for_missing ord (missing_client_count k ord ?d0) ?d0 = Inr (Some ki)")
      case none: False
      with assms(1) False d0 show ?thesis
        by (auto simp: provision_missing_panel_client_def Let_def split: sum.splits option.splits)
    next
      case True
      then obtain ki where ki: "inbound_for_missing ord (missing_client_count k ord ?d0) ?d0 = Inr (Some ki)" by blast
      let ?m = "freeze_order_provisioning_metadata ?d0 ord ki LegacyPrecreateInactive"
      let ?o = "ord\<lparr>o_inbound := Some (fst ki), o_metadata := ?m\<rparr>"
      let ?o1 = "normalize_on_save en ?d0 ?o" and ?d1 = "save_order en k ?o ?d0"
      obtain u d2 where u: "deferred_username en ?m ?d1 = (u, d2)" by (cases "deferred_username en ?m ?d1")
      let ?n = "length (clients_of_order k d2)"
      obtain x d3 where x: "each_act (provision_inactive en rm k ?o1 ki u)
          [Suc ?n..<Suc (?n + nat (missing_client_count k ord ?d0))] d2 = (x, d3)"
        by (rule prod.exhaust)
      have "not_completed k ?d1" using assms(3) by simp
      then have d3: "not_completed k d3"
        by (simp only: not_completed_frame [OF deferred_username_frame [OF u]]
            not_completed_frame [OF inactive_each_frame [OF x]])
      show ?thesis
      proof (cases x)
        case (Inl e)
        with assms(1,3) False ki u x d3 show ?thesis
          by (auto simp: provision_missing_panel_client_def Let_def save_back_def deferred_again_def split: if_splits)
      next
        case (Inr cs)
        with assms(1,3) False ki u x show ?thesis
          by (auto simp: provision_missing_panel_client_def Let_def save_back_def split: if_splits)
      qed
    qed
  qed
  then show "not_completed k d'" and "r = Inr ord' \<Longrightarrow> o_status ord' \<noteq> Completed" by auto
qed

lemma failed_legacy_not_completed:
  assumes "activate_legacy_order en rm actor k ord d = (r, d')" and "\<not> pr_ok r" and "o_status ord \<noteq> Completed"
  shows "not_completed k d'"
proof -
  let ?o = "mark_provisioning_state ProvProvisioning [] None True ord"
  let ?o1 = "normalize_on_save en d ?o" and ?d1 = "save_order en k ?o d"
  let ?d2 = "ensure_legacy_order_client en k ?o1 ?d1"
  have d2: "not_completed k ?d2" using assms(3) not_completed_frame [OF ensure_legacy_frame] by simp
  have o1: "o_status ?o1 \<noteq> Completed" using assms(3) by simp
  obtain made d3 where m: "(if missing_client_count k ?o1 ?d2 > 0 then provision_missing_panel_client en rm k ?o1 ?d2
      else (Inr ?o1, ?d2)) = (made, d3)" by (meson surj_pair)
  have d3: "not_completed k d3"
    using m d2 o1 provision_missing_not_completed(1) by (cases "missing_client_count k ?o1 ?d2 > 0") auto
  show ?thesis
  proof (cases made)
    case (Inl e)
    with assms(1) m d3 show ?thesis by (auto simp: activate_legacy_order_def Let_def save_back_def)
  next
    case (Inr o2)
    let ?cs = "clients_in_order k d3"
    obtain e d4 where e: "enable_clients en rm (order_plan d3 o2) (map fst ?cs) d3 = (e, d4)" by (meson surj_pair)
    have d4: "not_completed k d4" using not_completed_frame [OF enable_clients_frame [OF e]] d3 by simp
    show ?thesis
      using assms(1,2) m Inr d3 d4 e
      by (cases e) (auto simp: activate_legacy_order_def Let_def save_back_def split: if_splits)
  qed
qed

lemma failed_modern_not_completed:
  assumes "activate_modern_enabled_order en rm actor strat k ord d = (r, d')" and "\<not> pr_ok r"
    and "o_status ord \<noteq> Completed" and "not_completed k d"
  shows "not_completed k d'"
proof -
  have f: "o_status (failed_modern_order en e s x) \<noteq> Completed" if "o_status x \<noteq> Completed" for e s x
    using that by (simp add: failed_modern_order_def)
  have b: "o_status (begin_enabled_order x y z w s b n) = Confirmed" for x y z w s b n
    by (simp add: begin_enabled_order_def Let_def)
  show ?thesis
    using assms f b
    by (auto simp: activate_modern_enabled_order_def activate_pasarguard_def activate_modern_clients_def
        Let_def save_back_def finish_failed_modern_order_def
        split: sum.splits list.splits option.splits prod.splits if_splits)
qed

lemma create_reward_frame:
  assumes "create_referral_reward_for_order en k d = (r, d')"
  shows "get_order d' = get_order d" and "get_audit d' = get_audit d"
proof -
  have "db_orders d' = db_orders d \<and> db_audits d' = db_audits d"
    using assms
    by (auto simp: create_referral_reward_for_order_def Let_def add_row_def mark_purchased_def
        split: option.splits prod.splits if_splits dest!: ensure_referral_received(2))
       (auto simp: reward_frame_def)
  then show "get_order d' = get_order d" and "get_audit d' = get_audit d"
    by (simp_all add: access_defs fun_eq_iff)
qed

text \<open>
  What approval relies on when the delivery engines stand aside: canonical delivery is not
  configured, no recipe intercepts the order, and rebuilding cups writes neither orders nor audits.
\<close>

definition leaves_to_panels :: "engines \<Rightarrow> bool" where
  "leaves_to_panels eg \<longleftrightarrow>
     (\<forall>ord d c. eg_resolve eg ord d \<noteq> Canonical c) \<and>
     (\<forall>k d. \<exists>d'. eg_recipe eg k d = (Inr NotIntercepted, d')) \<and>
     (\<forall>k d. get_order (eg_rebuild eg k d) = get_order d)"

lemma renewal_order_done:
  assumes "activate_renewal_order en rm actor k ord d = (Inr None, d')"
  shows "\<exists>o2. get_order d' k = Some o2 \<and> o_status o2 = Completed \<and> o_verification_status o2 = VerVerified \<and> o_is_paid o2"
  using assms
  by (auto simp: activate_renewal_order_def Let_def save_get mark_payment_verified_def
      split: if_splits sum.splits option.splits prod.splits)

lemma renewal_completes:
  assumes "activate_renewal en rm actor k ord d = (Inr r, d')" and "pr_ok r"
  shows "\<exists>o2. get_order d' k = Some o2 \<and> fully_completed o2"
proof -
  let ?o = "mark_provisioning_state ProvProvisioning [] None True ord"
  obtain d2 where r: "activate_renewal_order en rm actor k (normalize_on_save en d ?o) (save_order en k ?o d) = (Inr None, d2)"
    using assms by (auto simp: activate_renewal_def save_back_def Let_def split: sum.splits option.splits prod.splits)
  from renewal_order_done [OF this] r assms show ?thesis
    by (auto simp: activate_renewal_def save_back_def Let_def save_get fully_completed_def)
qed

lemma deliver_completes:
  assumes "leaves_to_panels eg" and "deliver_order en rm eg actor k ord d = (Inr r, d')" and "pr_ok r"
  shows "\<exists>o2. get_order d' k = Some o2 \<and> fully_completed o2"
proof (cases "resolve_order_provisioning_strategy d ord = RenewExistingClient")
  case True
  with assms(2,3) show ?thesis by (auto simp: deliver_order_def dest: renewal_completes)
next
  case False
  obtain d1 where "eg_recipe eg k d = (Inr NotIntercepted, d1)" using assms(1) unfolding leaves_to_panels_def by blast
  with assms False have "\<exists>d2 s. activate_by_strategy en rm actor s k ord d2 = (Inr r, d')"
    by (auto simp: deliver_order_def Let_def leaves_to_panels_def split: delivery_verdict.splits)
  with assms(3) show ?thesis using activate_by_strategy_completes by blast
qed

lemma create_reward_get [simp]:
  "get_order (snd (create_referral_reward_for_order en k d)) = get_order d"
  "get_audit (snd (create_referral_reward_for_order en k d)) = get_audit d"
  by (cases "create_referral_reward_for_order en k d", simp add: create_reward_frame)+

lemma draws_get [simp]:
  "get_order (d\<lparr>db_draws := n\<rparr>) = get_order d" "get_audit (d\<lparr>db_draws := n\<rparr>) = get_audit d"
  by (simp_all add: access_defs fun_eq_iff)

lemma after_delivery_ok:
  assumes "leaves_to_panels eg" and "after_delivery en rm eg notify k r d = (r', d')"
  shows "pr_ok r' = pr_ok r" and "pr_ok r \<Longrightarrow> get_order d' = get_order d"
proof -
  have e: "get_order (eg_rebuild eg k x) = get_order x" for x using assms(1) by (simp add: leaves_to_panels_def)
  have "pr_ok r' = pr_ok r \<and> (pr_ok r \<longrightarrow> get_order d' = get_order d)"
    using assms(2) e
    by (auto simp: after_delivery_def Let_def ask_def split: if_splits prod.splits)
  then show "pr_ok r' = pr_ok r" and "pr_ok r \<Longrightarrow> get_order d' = get_order d" by auto
qed

lemma approve_order_run:
  assumes "approve_order en rm eg actor src notify k d = (Inr r, d')" and "get_order d k = Some ord"
    and "approval_answer src (get_audit d k) ord = None"
  obtains ord2 d2 r0 d3 where "deliver_order en rm eg actor k ord2 d2 = (Inr r0, d3)"
    and "after_delivery en rm eg notify k r0 d3 = (r, d')"
  using assms by (auto simp: approve_order_def Let_def split: prod.splits sum.splits)

lemma enable_active:
  "(\<And>ck. ck \<in> set cks \<Longrightarrow> \<exists>c. get_client d ck = Some c \<and> vc_status c = ClActive) \<Longrightarrow>
   enable_clients en rm p cks d = (None, d)"
  by (induction cks) force+

text \<open>An order whose clients are all there and active is completed without asking the panel.\<close>

lemma legacy_active_ok:
  assumes "wf_table (db_clients d)" and "clients_of_order k d \<noteq> []"
    and "required_client_count ord \<le> length (clients_of_order k d)"
    and "\<And>ck c. (ck, c) \<in> set (clients_of_order k d) \<Longrightarrow> vc_status c = ClActive"
  shows "pr_ok (fst (activate_legacy_order en rm actor k ord d))"
proof -
  let ?o = "mark_provisioning_state ProvProvisioning [] None True ord"
  let ?o1 = "normalize_on_save en d ?o" and ?d1 = "save_order en k ?o d"
  have same: "clients_of_order k ?d1 = clients_of_order k d" by (simp add: clients_of_order_def)
  have ens: "ensure_legacy_order_client en k ?o1 ?d1 = ?d1"
    using assms(2) same by (simp add: ensure_legacy_order_client_def)
  have req: "required_client_count ?o1 = required_client_count ord"
    by (simp add: required_client_count_def mark_provisioning_state_def)
  have len: "length (clients_in_order k ?d1) = length (clients_of_order k d)"
    by (simp add: clients_in_order_def ordered_where_def clients_of_order_def)
  have miss: "\<not> missing_client_count k ?o1 ?d1 > 0"
    using assms(3) by (simp add: missing_client_count_def req same)
  have act: "enable_clients en rm p (map fst (clients_in_order k ?d1)) ?d1 = (None, ?d1)" for p
  proof (rule enable_active)
    fix ck
    assume "ck \<in> set (map fst (clients_in_order k ?d1))"
    then obtain c where c: "(ck, c) \<in> set (db_clients d)" "vc_order c = Some k"
      by (auto simp: clients_in_order_def set_ordered_where)
    then have "(ck, c) \<in> set (clients_of_order k d)" by (simp add: clients_of_order_in)
    with assms(1,4) c show "\<exists>c. get_client ?d1 ck = Some c \<and> vc_status c = ClActive"
      by (auto simp: get_client_def in_row_Some)
  qed
  show ?thesis
    using assms(3) miss len by (simp add: activate_legacy_order_def save_back_def Let_def ens act req)
qed

text \<open>A target that is not a key makes the query raise.\<close>

lemma bad_renewal_key_raises:
  assumes "get_order d k = Some ord" and "approval_answer src (get_audit d k) ord = None"
    and "dget ''renewal_client_pk'' (o_metadata ord) = JStr ''x''"
  shows "\<exists>d'. approve_order en rm eg actor src notify k d = (Inl ''invalid_key'', d')"
proof -
  obtain o1 d1 where n: "note_attempt en ord d = (o1, d1)" by (rule prod.exhaust)
  then have m: "dget ''renewal_client_pk'' (o_metadata o1) = JStr ''x''"
    using assms(3) by (auto simp: note_attempt_def ask_def dget_setdefault split: if_splits)
  have "\<exists>d3. deliver_order en rm eg actor k (normalize_on_save en d1 o1) (save_order en k o1 d1) = (Inl ''invalid_key'', d3)"
    using m by (auto simp: deliver_order_def resolve_order_provisioning_strategy_def order_is_renewal_def
        activate_renewal_def save_back_def activate_renewal_order_def json_pk_def text_pk_def is_digit_def
        chr_code_def mark_provisioning_state_def)
  with assms n show ?thesis by (auto simp: approve_order_def save_back_def)
qed

lemma opt_text_show: "show_nat n = strip (opt_text x) \<Longrightarrow> x = Some n"
proof -
  have "strip ([] :: string) = []" by (simp add: strip_def)
  then show "show_nat n = strip (opt_text x) \<Longrightarrow> x = Some n"
    by (cases x) (auto simp: opt_text_def split: if_splits)
qed

lemma scope_panel_frozen:
  assumes "ib_panel i = Some p" and "panel_of d i = Some pn"
  shows "scope_value (provisioning_scope d (k, i)) ''panel_id'' = show_nat p"
  using assms by (simp add: provisioning_scope_def scope_value_def json_text_def show_int_def Let_def)

text \<open>The inbound an order may be provisioned on, given the inbound it was frozen for.\<close>

definition same_target :: "inbound \<Rightarrow> inbound \<Rightarrow> bool" where
  "same_target i j \<longleftrightarrow> ib_panel j = ib_panel i \<and> ib_inbound_id j = ib_inbound_id i \<and>
     (strip (ib_xui_node_id i) \<noteq> [] \<longrightarrow> strip (ib_xui_node_id j) = strip (ib_xui_node_id i))"

lemma frozen_scope_ne: "provisioning_scope d ki \<noteq> []"
  by (simp add: provisioning_scope_def Let_def)

lemma matches_same_target:
  assumes "ib_panel i = Some p" and "panel_of d i = Some pn"
    and "scope_matches_inbound (provisioning_scope d (k, i)) (k2, j)"
  shows "same_target i j"
proof -
  have "scope_agrees (provisioning_scope d (k, i)) ''panel_id'' (opt_text (ib_panel j))"
    "scope_agrees (provisioning_scope d (k, i)) ''xui_inbound_id'' (opt_text (Some (ib_inbound_id j)))"
    "scope_agrees (provisioning_scope d (k, i)) ''node_id'' (ib_xui_node_id j)"
    using assms(3) by (auto simp: scope_matches_inbound_def)
  then show ?thesis
    using assms(1) by (auto simp: scope_agrees_def scope_panel_frozen [OF assms(1,2)] scope_value_frozen same_target_def
        dest: opt_text_show)
qed

lemma by_panel_same_target:
  assumes "ib_panel i = Some p" and "panel_of d0 i = Some pn"
    and "resolve_by_panel_scope d (provisioning_scope d0 (k, i)) = Inr (Some (k2, j))"
  shows "same_target i j"
proof -
  let ?sc = "provisioning_scope d0 (k, i)"
  have pk: "text_pk (show_nat n) = Inr n" for n by (simp add: text_pk_def)
  let ?o = "ordered_where fst (\<lambda>_ x. ib_panel x = Some p \<and> ib_inbound_id x = ib_inbound_id i \<and>
      ib_xui_node_id x = strip (ib_xui_node_id i)) (db_inbounds d)"
  from assms(3) have "inbounds_by_scope d ?sc = Inr [(k2, j)]"
    by (auto simp: resolve_by_panel_scope_def split: if_splits sum.splits list.splits)
  then have "take 2 ?o = [(k2, j)]"
    by (simp add: inbounds_by_scope_def scope_panel_frozen [OF assms(1,2)] scope_value_frozen pk)
  then have "(k2, j) \<in> set ?o" using set_take_subset [of 2 ?o] by simp
  then show ?thesis using assms(1) by (auto simp: set_ordered_where same_target_def)
qed

end
