(* ===== verification/Delivery_Laws.thy ===== *)
theory Delivery_Laws
  imports Samples Provisioning_Facts
begin

text \<open>
  Properties of provisioning, approval, frozen scopes and gift packages: an order is delivered
  once, where it was promised, and a failure is recorded rather than lost.
\<close>

section \<open>Local clients and activation\<close>

text \<open>Recording a remote client is safe to repeat. The first time, a client of the order on the
  inbound takes one slot of the inbound exactly when it was unknown; any later attempt with the
  same panel answer finds the same local client, takes no slot and adds no client.\<close>

theorem upsert_once:
  assumes "wf_table (db_clients d)" and "strip (cr_uuid cr) = cr_uuid cr" and "cr_uuid cr \<noteq> []"
    and "upsert_local_client en k ord ki cr d = (Inr (ck, created), d')"
  shows "db_inbounds d' = (if created then db_inbounds (add_user (fst ki) d) else db_inbounds d) \<and>
    (\<forall>en2. \<exists>d2. upsert_local_client en2 k ord ki cr d' = (Inr (ck, False), d2) \<and>
       db_inbounds d2 = db_inbounds d' \<and> map fst (db_clients d2) = map fst (db_clients d'))"
proof -
  obtain c where c: "local_client_matches k (fst ki) cr d' = [(ck, c)]"
    using upsert_matches_after [OF assms] by blast
  then have "(ck, c) \<in> set (db_clients d')"
    unfolding local_matches_rows by (metis list.set_intros(1) set_ordered_where)
  then have "ck \<in> fst ` set (db_clients d')" by force
  then have "\<exists>d2. upsert_local_client en2 k ord ki cr d' = (Inr (ck, False), d2) \<and>
       db_inbounds d2 = db_inbounds d' \<and> map fst (db_clients d2) = map fst (db_clients d')" for en2
    by (simp add: upsert_local_client_def c put_client_def keys_put)
  with upsert_slots [OF assms(4)] show ?thesis by blast
qed

lemma sample_upsert:
  "upsert_local_client sample_env 1 sample_order (1, sample_inbound) sample_result sample_db =
    (Inr (1, False), put_client 1 (refresh_local_client sample_env sample_order sample_plan sample_inbound sample_result sample_client) sample_db)"
proof -
  have "local_client_matches 1 1 sample_result sample_db = [(1, sample_client)]" by code_simp
  moreover have "order_plan sample_db sample_order = sample_plan"
    by (simp add: order_plan_def sample_db_def sample_order_def row_def)
  ultimately show ?thesis by (simp add: upsert_local_client_def)
qed

theorem upsert_once_witness:
  "\<exists>d2. upsert_local_client sample_env 1 sample_order (1, sample_inbound) sample_result
      (put_client 1 (refresh_local_client sample_env sample_order sample_plan sample_inbound sample_result sample_client) sample_db)
     = (Inr (1, False), d2)"
proof -
  have "wf_table (db_clients sample_db)" by (simp add: wf_table_def sample_db_def)
  moreover have "strip (cr_uuid sample_result) = cr_uuid sample_result" "cr_uuid sample_result \<noteq> []"
    by (simp_all add: sample_result_def strip_def blank_def chr_code_def)
  ultimately show ?thesis using upsert_once [OF _ _ _ sample_upsert] by blast
qed

section \<open>Orders during an activation\<close>

text \<open>C1. Activation on a panel is all or nothing for the order: when it succeeds the stored order
  is completed, paid, verified and provisioned; when it fails the order is not completed, whatever
  the panel answered and wherever it stopped.\<close>

theorem activation_all_or_nothing:
  assumes "activate_by_strategy en rm actor strat k ord d = (Inr r, d')"
    and "o_status ord \<noteq> Completed" and "not_completed k d"
  shows "if pr_ok r then \<exists>o2. get_order d' k = Some o2 \<and> fully_completed o2 else not_completed k d'"
proof (cases "pr_ok r")
  case True
  then show ?thesis using activate_by_strategy_completes [OF assms(1)] by simp
next
  case False
  then show ?thesis
    using assms by (auto simp: activate_by_strategy_def split: if_splits prod.splits
        dest: failed_modern_not_completed failed_legacy_not_completed)
qed

theorem activation_all_or_nothing_witness:
  "\<exists>o2. get_order (snd (activate_by_strategy sample_env willing None LegacyPrecreateInactive 1 sample_order sample_db)) 1 = Some o2 \<and>
     fully_completed o2"
proof -
  let ?run = "activate_legacy_order sample_env willing None 1 sample_order sample_db"
  have run: "activate_by_strategy sample_env willing None LegacyPrecreateInactive 1 sample_order sample_db =
      (Inr (fst ?run), snd ?run)"
    by (simp add: activate_by_strategy_def split: prod.split)
  have "pr_ok (fst ?run)"
    by (simp add: sample_defs table_defs save_defs act_defs legacy_defs Let_def split_def)
  moreover have "o_status sample_order \<noteq> Completed" "not_completed 1 sample_db"
    by (simp_all add: not_completed_def sample_defs access_defs row_def)
  ultimately show ?thesis using activation_all_or_nothing [OF run] run by simp
qed

section \<open>Approval\<close>





text \<open>A closed order is never provisioned: approving an order that is rejected or cancelled, or
  whose payment was rejected, or whose cancellation has begun, is refused before any panel is
  asked and without any write, by whatever path the approval comes. (Inventory assignments take
  their own path; a renewal of a still open order first records its claim.)\<close>

theorem closed_order_refused:
  assumes "get_order d k = Some ord" and "\<not> truthy (dget ''admin_inventory_asset_id'' (o_metadata ord))"
    and "o_status ord \<in> {Rejected, Cancelled} \<or>
      \<not> order_is_renewal ord \<and> (cancellation_started (get_audit d k) \<or> o_verification_status ord = VerRejected)"
  shows "\<exists>r. \<not> pr_ok r \<and> approve_and_provision_order en rm eg actor src notify k d = (Inr r, d)"
proof -
  have "\<exists>r. \<not> pr_ok r \<and> approval_answer src (get_audit d k) ord = Some r"
    using assms(3)
    by (auto simp: approval_answer_def purchased_order_def is_partial_retry_def provisioning_block_reason_def)
  then have "\<exists>r. \<not> pr_ok r \<and> approve_order en rm eg actor src notify k d = (Inr r, d)"
    using assms(1) by (auto simp: approve_order_def)
  then show ?thesis
    using assms by (auto simp: approve_and_provision_order_def renewal_claimable_def)
qed

definition rejected_db :: db where
  "rejected_db = sample_db\<lparr>db_orders := [(1, sample_order\<lparr>o_status := Rejected\<rparr>)]\<rparr>"

theorem closed_order_refused_witness:
  "\<exists>r. \<not> pr_ok r \<and> approve_and_provision_order sample_env willing no_engines None OtherSource True 1 rejected_db = (Inr r, rejected_db)"
proof -
  have "get_order rejected_db 1 = Some (sample_order\<lparr>o_status := Rejected\<rparr>)"
    by (simp add: rejected_db_def access_defs row_def)
  then show ?thesis
    by (rule closed_order_refused) (simp_all add: sample_order_def new_order_def)
qed

text \<open>A delivery that fails is recorded as failed: whatever the panels or the engines did, the
  stored order has the provisioning status failed and the error, or the message, of the result.\<close>

theorem failed_delivery_recorded:
  assumes "get_order d k = Some ord" and "approval_answer src (get_audit d k) ord = None"
    and "approve_order en rm eg actor src notify k d = (Inr r, d')" and "\<not> pr_ok r"
    and "get_order d' k = Some o2"
  shows "o_provisioning_status o2 = ProvFailed \<and>
    o_last_provisioning_error o2 = str_or (pr_safe_error r) (pr_message r)"
proof -
  obtain ord2 d2 r0 d3 where "deliver_order en rm eg actor k ord2 d2 = (Inr r0, d3)"
    and aft: "after_delivery en rm eg notify k r0 d3 = (r, d')"
    by (rule approve_order_run [OF assms(3,1,2)])
  from aft assms(4) have "\<not> pr_ok r0" by (auto simp: after_delivery_def Let_def split: if_splits prod.splits)
  then have r: "r = r0" and d': "d' = (case get_order d3 k of None \<Rightarrow> d3
      | Some ord \<Rightarrow> save_order en k (ord\<lparr>o_provisioning_status := ProvFailed,
          o_last_provisioning_error := str_or (pr_safe_error r0) (pr_message r0)\<rparr>) d3)"
    using aft by (auto simp: after_delivery_def)
  have keep: "o_last_provisioning_error (normalize_on_save en x y) = o_last_provisioning_error y" for x y
    by (simp add: normalize_on_save_def stamp_manual_payment_def fill_from_plan_def Let_def split: option.splits)
  show ?thesis using assms(5) d' r by (auto simp: save_get keep split: option.splits)
qed

text \<open>A renewal order whose target client does not exist.\<close>

definition lost_renewal :: order where
  "lost_renewal = sample_order\<lparr>o_metadata := [(''renewal_client_pk'', JInt 77)]\<rparr>"

definition lost_renewal_db :: db where
  "lost_renewal_db = sample_db\<lparr>db_orders := [(1, lost_renewal)]\<rparr>"

lemma lost_renewal_run:
  "\<exists>r d' o2. approve_order sample_env willing no_engines None OtherSource True 1 lost_renewal_db = (Inr r, d') \<and>
     \<not> pr_ok r \<and> get_order d' 1 = Some o2"
proof -
  have o: "get_order lost_renewal_db 1 = Some lost_renewal" by (simp add: lost_renewal_db_def access_defs row_def)
  have a: "approval_answer OtherSource (get_audit lost_renewal_db 1) lost_renewal = None"
    by (simp add: approval_answer_def cancellation_started_def purchased_order_def is_partial_retry_def
        provisioning_block_reason_def lost_renewal_def sample_defs access_defs row_def lost_renewal_db_def)
  obtain o1 d1 where n: "note_attempt sample_env lost_renewal lost_renewal_db = (o1, d1)" by (rule prod.exhaust)
  then have m: "dget ''renewal_client_pk'' (o_metadata o1) = JInt 77" and d1: "db_clients d1 = db_clients lost_renewal_db"
    by (auto simp: note_attempt_def ask_def dget_setdefault lost_renewal_def split: if_splits)
  let ?o2 = "normalize_on_save sample_env d1 o1" and ?d2 = "save_order sample_env 1 o1 d1"
  have m2: "dget ''renewal_client_pk'' (o_metadata ?o2) = JInt 77" using m by simp
  have cl: "get_client (save_order en j x d1) 77 = None" for en j x
    using d1 by (simp add: get_client_def row_def lost_renewal_db_def sample_db_def)
  have del: "\<exists>r d3. deliver_order sample_env willing no_engines None 1 ?o2 ?d2 = (Inr r, d3) \<and> \<not> pr_ok r \<and> get_order d3 1 \<noteq> None"
    using m2 cl by (auto simp: deliver_order_def resolve_order_provisioning_strategy_def order_is_renewal_def
        activate_renewal_def save_back_def activate_renewal_order_def json_pk_def mark_provisioning_state_def save_get
        get_client_def)
  then obtain r d3 where r: "deliver_order sample_env willing no_engines None 1 ?o2 ?d2 = (Inr r, d3)" "\<not> pr_ok r" "get_order d3 1 \<noteq> None"
    by blast
  with o a n show ?thesis
    by (auto simp: approve_order_def save_back_def after_delivery_def save_get simp del: One_nat_def)
qed

theorem failed_delivery_recorded_witness:
  "\<exists>d' o2. get_order d' 1 = Some o2 \<and> o_provisioning_status o2 = ProvFailed"
proof -
  obtain r d' o2 where run: "approve_order sample_env willing no_engines None OtherSource True 1 lost_renewal_db = (Inr r, d')"
    "\<not> pr_ok r" "get_order d' 1 = Some o2" using lost_renewal_run by blast
  have "get_order lost_renewal_db 1 = Some lost_renewal" by (simp add: lost_renewal_db_def access_defs row_def)
  moreover have "approval_answer OtherSource (get_audit lost_renewal_db 1) lost_renewal = None"
    by (simp add: approval_answer_def cancellation_started_def purchased_order_def is_partial_retry_def
        provisioning_block_reason_def lost_renewal_def sample_defs access_defs row_def lost_renewal_db_def)
  ultimately have "o_provisioning_status o2 = ProvFailed" using failed_delivery_recorded run by blast
  with run show ?thesis by blast
qed





section \<open>Frozen scopes\<close>

text \<open>An order is provisioned where it was promised. Once its scope is frozen for an inbound of
  a panel, resolving it again, after any change of the catalogue, gives an inbound with the same
  panel, the same remote inbound number and, when a node was recorded, the same node; otherwise it
  raises. It never silently moves to another server.\<close>

theorem frozen_scope_same_target:
  assumes "ib_panel i = Some p" and "panel_of d0 i = Some pn"
    and "dget ''provisioning_scope'' (o_metadata ord) = JObj (provisioning_scope d0 (k, i))"
    and "resolve_frozen_order_inbound d ord = Inr (Some (k2, j))"
  shows "same_target i j"
proof -
  let ?sc = "provisioning_scope d0 (k, i)"
  have r: "scope_matches_inbound ?sc (k2, j) \<or> resolve_by_panel_scope d ?sc = Inr (Some (k2, j))"
    using assms(3,4) frozen_scope_ne [of d0 "(k, i)"]
    by (auto simp: resolve_frozen_order_inbound_def Let_def inbound_by_pk_def
        split: if_splits option.splits sum.splits)
  with matches_same_target [OF assms(1,2)] by_panel_same_target [OF assms(1,2)] show ?thesis by blast
qed

definition frozen_order :: order where
  "frozen_order = sample_order\<lparr>o_metadata := [(''provisioning_scope'', JObj (provisioning_scope sample_db (1, sample_inbound)))]\<rparr>"

theorem frozen_scope_same_target_witness:
  "\<exists>k2 j. resolve_frozen_order_inbound sample_db frozen_order = Inr (Some (k2, j)) \<and> same_target sample_inbound j"
proof -
  have "scope_matches_inbound (provisioning_scope sample_db (1, sample_inbound)) (1, sample_inbound)"
  proof -
    have "panel_of sample_db sample_inbound = Some sample_panel" "ib_panel sample_inbound = Some 1"
      by (simp_all add: panel_of_def sample_inbound_def sample_db_def row_def)
    then show ?thesis
      by (simp add: scope_matches_inbound_def frozen_scope_ne scope_agrees_def scope_panel_frozen scope_value_frozen
          opt_text_def sample_inbound_def)
  qed
  then have r: "resolve_frozen_order_inbound sample_db frozen_order = Inr (Some (1, sample_inbound))"
    by (simp add: resolve_frozen_order_inbound_def frozen_order_def order_inbound_row_def frozen_scope_ne
        sample_order_def sample_db_def access_defs row_def Let_def)
  have "same_target sample_inbound sample_inbound"
    by (rule frozen_scope_same_target [of _ 1 sample_db sample_panel frozen_order 1 sample_db 1])
       (simp_all add: r [unfolded One_nat_def], simp_all add: sample_inbound_def panel_of_def sample_db_def row_def frozen_order_def)
  with r show ?thesis by blast
qed

section \<open>Gift packages\<close>

text \<open>The gift ledger stays consistent: at most one package per invited customer, never to
  oneself, always with some traffic, under the creation of packages and under redemption.\<close>

theorem ledger_stays_consistent:
  assumes "ledger_invariant d"
  shows "ledger_invariant (snd (create_referral_reward_for_order en k d)) \<and>
    ledger_invariant (snd (redeem_referral_rewards en rm cust config d))"
proof
  show "ledger_invariant (snd (create_referral_reward_for_order en k d))"
    by (cases "create_referral_reward_for_order en k d") (simp add: create_reward_invariant [OF assms])
  obtain res d' where r: "redeem_referral_rewards en rm cust config d = (res, d')" by (rule prod.exhaust)
  have keep: "ledger_invariant y" if "db_ledgers y = db_ledgers d" for y using assms that by (simp add: ledger_invariant_def)
  have "ledger_invariant d'"
  proof (cases "\<exists>gb dur n. res = RedeemedOk gb dur n")
    case True
    then obtain gb dur n where "redeem_referral_rewards en rm cust config d = (RedeemedOk gb dur n, d')" using r by blast
    then obtain j ks x d1 where d': "d' = mark_redeemed en j ks (put_client j x d1)" and "same_data d d1"
      by (rule redeem_ok) blast
    then have "ledger_invariant (put_client j x d1)"
      by (intro keep) (simp add: put_client_def same_dataD(9))
    then show ?thesis unfolding d' by (rule mark_redeemed_invariant)
  next
    case False
    then have "same_data d d'" using redeem_not_ok [OF r] by blast
    then show ?thesis by (intro keep) (rule same_dataD)
  qed
  with r show "ledger_invariant (snd (redeem_referral_rewards en rm cust config d))" by simp
qed

theorem ledger_stays_consistent_witness:
  "ledger_invariant (snd (redeem_referral_rewards sample_env willing (Some 1) (Some 1) sample_db))"
proof -
  have "ledger_invariant sample_db" by (simp add: ledger_invariant_def wf_table_def sample_defs)
  then show ?thesis using ledger_stays_consistent by blast
qed




text \<open>A timed approval earns no gift package until someone has reconciled the payment: while the
  approval awaits reconciliation, creating the reward for the order writes nothing.\<close>

theorem unreconciled_earns_nothing:
  assumes "get_audit d k = Some a" and "au_auto_approved_at a \<noteq> None" and "au_review_status a \<noteq> RevVerified"
  shows "create_referral_reward_for_order en k d = (None, d)"
  using assms
  by (auto simp: create_referral_reward_for_order_def reward_parties_def awaits_reconciliation_def split: option.splits)

definition unreconciled_db :: db where
  "unreconciled_db = sample_db\<lparr>db_orders := [(1, sample_order\<lparr>o_status := Completed, o_verification_status := VerVerified\<rparr>)],
     db_audits := [(1, new_audit\<lparr>au_auto_approved_at := Some 5, au_review_status := RevPending\<rparr>)]\<rparr>"

theorem unreconciled_earns_nothing_witness:
  "create_referral_reward_for_order sample_env 1 unreconciled_db = (None, unreconciled_db)"
  by (rule unreconciled_earns_nothing [where a = "new_audit\<lparr>au_auto_approved_at := Some 5, au_review_status := RevPending\<rparr>"])
     (simp_all add: unreconciled_db_def get_audit_def row_def)


end
