(* ===== verification/Review_Facts.thy ===== *)
theory Review_Facts
  imports Automation Provisioning_Facts
begin

text \<open>
  Facts the review properties share: deletion on panels that confirm it, and the frame of every
  provisioning run with respect to the \<open>OrderAutomation\<close> rows.
\<close>

section \<open>Deletion on panels that confirm it\<close>

lemma fold_change_users_panels [simp]:
  "db_panels (fold (\<lambda>ik. change_users (f ik) ik) ks d) = db_panels d"
  by (induction ks arbitrary: d) (simp_all add: change_users_def)

lemma finish_reject_panels: "db_panels (finish_reject en r u n k ord ts d) = db_panels d"
  by (simp add: finish_reject_def Let_def decrement_inbound_users_for_targets_def suspend_clients_def)

text \<open>Without PasarGuard panels, a panel that confirms every deletion deletes every target.\<close>

lemma willing_deletes_all:
  assumes "\<And>n. rm_delete rm n" and "\<And>p. p \<in> snd ` set (db_panels d) \<Longrightarrow> pn_family p \<noteq> FamPasarguard"
  shows "\<exists>d'. delete_targets rm ts d = (True, d')"
  using assms(2)
proof (induction ts arbitrary: d)
  case Nil
  then show ?case by simp
next
  case (Cons t ts)
  have "fst (delete_panel_client rm t d)"
  proof (cases "Option.bind (Option.bind (target_inbound t) (get_inbound d)) (panel_of d)")
    case None
    then show ?thesis using assms(1) by (simp add: delete_panel_client_def ask_def)
  next
    case (Some p)
    then obtain j where "(j, p) \<in> set (db_panels d)"
      by (auto simp: panel_of_def bind_eq_Some_conv dest: row_Some_in)
    then have "pn_family p \<noteq> FamPasarguard" by (intro Cons.prems) force
    then show ?thesis using Some assms(1) by (simp add: delete_panel_client_def ask_def)
  qed
  then obtain d1 where d1: "delete_panel_client rm t d = (True, d1)" by (cases "delete_panel_client rm t d") auto
  then have "db_panels d1 = db_panels d" by (auto dest: delete_panel_client_same same_dataD(10))
  with Cons.IH [of d1] Cons.prems d1 show ?case by simp
qed

section \<open>Audits are written by the reviews only\<close>

text \<open>Provisioning and delivery never write an \<open>OrderAutomation\<close> row; of the engines this is what the
  automation relies on.\<close>

definition engines_keep_audits :: "engines \<Rightarrow> bool" where
  "engines_keep_audits eg \<longleftrightarrow>
     (\<forall>k c d x d'. eg_execute eg k c d = (x, d') \<longrightarrow> get_audit d' = get_audit d) \<and>
     (\<forall>k d x d'. eg_recipe eg k d = (x, d') \<longrightarrow> get_audit d' = get_audit d) \<and>
     (\<forall>k d x d'. eg_inventory eg k d = (x, d') \<longrightarrow> get_audit d' = get_audit d) \<and>
     (\<forall>k d. get_audit (eg_rebuild eg k d) = get_audit d)"

lemma pasarguard_each_frame:
  "each_act (\<lambda>_. provision_pasarguard en rm k ord ki kis) is d = (r, d') \<Longrightarrow> delivery_frame d d'"
  by (erule each_act_frame [rotated]) (erule provision_pasarguard_frame)

lemma modern_each_frame:
  "each_act (\<lambda>_. if b then provision_bundle en rm k ord ki kis else provision_single en rm k ord ki) is d = (r, d') \<Longrightarrow>
   delivery_frame d d'"
  by (erule each_act_frame [rotated]) (auto split: if_splits dest: provision_bundle_frame provision_single_frame)

lemma frame_audits: "delivery_frame d d' \<Longrightarrow> get_audit d' = get_audit d"
  by (simp add: delivery_frame_get)

lemmas audit_frames = pasarguard_each_frame [THEN frame_audits] modern_each_frame [THEN frame_audits]
  inactive_each_frame [THEN frame_audits] enable_clients_frame [THEN frame_audits]
  deferred_username_frame [THEN frame_audits]

lemma modern_clients_audits:
  assumes "activate_modern_clients en rm actor strat k ord ki kis d = (r, d')"
  shows "get_audit d' = get_audit d"
proof -
  let ?b = "truthy (dget ''multi_inbound_bundle'' (o_metadata ord)) \<and> 1 < length kis"
  let ?o = "begin_enabled_order d ord ki kis strat ?b False"
  let ?o1 = "normalize_on_save en d ?o" and ?d1 = "save_order en k ?o d"
  obtain x d2 where e: "each_act (\<lambda>_. if ?b then provision_bundle en rm k ?o1 ki kis else provision_single en rm k ?o1 ki)
      [1..<Suc (required_client_count ?o1)] ?d1 = (x, d2)" by (rule prod.exhaust)
  then have "get_audit d2 = get_audit d" by (simp add: frame_audits [OF modern_each_frame [OF e]])
  with assms e show ?thesis
    by (cases x) (auto simp: activate_modern_clients_def Let_def save_back_def finish_failed_modern_order_def simp del: upt_Suc One_nat_def)
qed

lemma pasarguard_audits:
  assumes "activate_pasarguard en rm actor strat k ord ki kis d = (r, d')"
  shows "get_audit d' = get_audit d"
proof -
  let ?o = "begin_enabled_order d ord ki kis strat (length kis > 1) True"
  let ?o1 = "normalize_on_save en d ?o" and ?d1 = "save_order en k ?o d"
  obtain x d2 where e: "each_act (\<lambda>_. provision_pasarguard en rm k ?o1 ki kis)
      [1..<Suc (required_client_count ?o1)] ?d1 = (x, d2)" by (rule prod.exhaust)
  then have "get_audit d2 = get_audit d" by (simp add: frame_audits [OF pasarguard_each_frame [OF e]])
  with assms e show ?thesis
    by (cases x) (auto simp: activate_pasarguard_def Let_def save_back_def finish_failed_modern_order_def simp del: upt_Suc)
qed

lemma modern_audits:
  "activate_modern_enabled_order en rm actor strat k ord d = (r, d') \<Longrightarrow> get_audit d' = get_audit d"
  by (auto simp: activate_modern_enabled_order_def finish_failed_modern_order_def
      split: sum.splits list.splits option.splits if_splits dest: modern_clients_audits pasarguard_audits)

lemma ensure_audits [simp]: "get_audit (ensure_legacy_order_client en k ord d) = get_audit d"
  by (rule frame_audits) (rule ensure_legacy_frame)

lemma missing_audits: "provision_missing_panel_client en rm k ord d = (r, d') \<Longrightarrow> get_audit d' = get_audit d"
  by (auto simp: provision_missing_panel_client_def Let_def save_back_def deferred_again_def
      split: sum.splits option.splits prod.splits if_splits dest!: audit_frames)

lemma legacy_audits: "activate_legacy_order en rm actor k ord d = (r, d') \<Longrightarrow> get_audit d' = get_audit d"
  by (auto simp: activate_legacy_order_def Let_def save_back_def
      split: sum.splits option.splits prod.splits if_splits dest!: audit_frames missing_audits)

lemma renewal_audits: "activate_renewal en rm actor k ord d = (r, d') \<Longrightarrow> get_audit d' = get_audit d"
  by (auto simp: activate_renewal_def activate_renewal_order_def Let_def save_back_def ask_def
      split: sum.splits option.splits prod.splits if_splits)

lemma deliver_audits:
  assumes "engines_keep_audits eg" and "deliver_order en rm eg actor k ord d = (r, d')"
  shows "get_audit d' = get_audit d"
proof -
  have s: "get_audit y = get_audit x" if "activate_by_strategy en rm actor st k ord x = (q, y)" for st x q y
    using that by (auto simp: activate_by_strategy_def split: if_splits prod.splits dest: modern_audits legacy_audits)
  show ?thesis
    using assms s
    by (auto simp: deliver_order_def Let_def engines_keep_audits_def
        split: if_splits delivery_verdict.splits prod.splits sum.splits engine_result.splits dest: renewal_audits)
qed

lemma after_delivery_audits:
  assumes "engines_keep_audits eg" and "after_delivery en rm eg notify k r d = (r', d')"
  shows "get_audit d' = get_audit d"
  using assms by (auto simp: after_delivery_def Let_def engines_keep_audits_def ask_def split: if_splits option.splits)

lemma approve_audits:
  assumes "engines_keep_audits eg" and "approve_order en rm eg actor src notify k d = (r, d')"
  shows "get_audit d' = get_audit d"
  using assms
  by (auto simp: approve_order_def Let_def save_back_def note_attempt_def ask_def rollback_def
      split: option.splits prod.splits sum.splits if_splits
      dest!: deliver_audits [OF assms(1)] after_delivery_audits [OF assms(1)])

lemma provision_audits:
  assumes "engines_keep_audits eg" and "approve_and_provision_order en rm eg actor src notify k d = (r, d')"
  shows "get_audit d' = get_audit d"
  using assms
  by (auto simp: approve_and_provision_order_def Let_def record_order_metadata_def engines_keep_audits_def
      split: option.splits prod.splits sum.splits if_splits dest!: approve_audits [OF assms(1)])

section \<open>The review state of an order\<close>

text \<open>What the review of an order turns on: when the timer approved it, and the review status.\<close>

definition core :: "db \<Rightarrow> pk \<Rightarrow> instant option \<times> review_status" where
  "core d k = (au_auto_approved_at (audit_of d k), au_review_status (audit_of d k))"

definition review_of :: "pk \<Rightarrow> db \<Rightarrow> review_status" where
  "review_of k d = snd (core d k)"

lemma core_put [simp]:
  "core (put_audit k a d) = (core d)(k := (au_auto_approved_at a, au_review_status a))"
  by (simp add: core_def audit_of_def fun_eq_iff audits.get_put)

lemma core_cong: "get_audit d' = get_audit d \<Longrightarrow> core d' = core d"
  by (simp add: core_def audit_of_def fun_eq_iff)

lemma core_get: "get_audit d k = Some a \<Longrightarrow> core d k = (au_auto_approved_at a, au_review_status a)"
  by (simp add: core_def audit_of_def)

lemma core_audit [simp]:
  "au_auto_approved_at (audit_of d k) = fst (core d k)" "au_review_status (audit_of d k) = snd (core d k)"
  by (simp_all add: core_def)

lemma core_ask: "ask f d = (x, d') \<Longrightarrow> core d' = core d"
  by (rule core_cong) (auto simp: ask_def access_defs)

lemma set_last_error_core [simp]: "core (set_last_error k e d) = core d"
  by (auto simp: set_last_error_def core_get fun_eq_iff split: option.split)

lemma claim_core:
  assumes "claim_approval en k d = (Inr True, d1)"
  shows "fst (core d k) = None" and "core d1 = (core d)(k := (Some (e_now en), RevPending))"
  using assms by (auto simp: claim_approval_def may_auto_approve_def split: option.splits if_splits)

lemma claim_refused: "claim_approval en k d = (r, d1) \<Longrightarrow> r \<noteq> Inr True \<Longrightarrow> d1 = d"
  by (auto simp: claim_approval_def split: option.splits if_splits)

lemma auto_approve_core:
  assumes "engines_keep_audits eg" and "auto_approve_order en rm eg k d = (r, d')"
  shows "r \<noteq> Inr True \<and> d' = d \<or>
    r = Inr True \<and> claim_approval en k d = (Inr True, snd (claim_approval en k d)) \<and> core d' = core (snd (claim_approval en k d))"
proof -
  obtain x d1 where c: "claim_approval en k d = (x, d1)" by (rule prod.exhaust)
  show ?thesis
  proof (cases "x = Inr True")
    case True
    obtain y d2 where p: "approve_and_provision_order en rm eg None TimedReceiptApproval False k d1 = (y, d2)" by (rule prod.exhaust)
    have "core d2 = core d1" using provision_audits [OF assms(1) p] by (rule core_cong)
    moreover have "core (rollback d1 d2) = core d1" by (rule core_cong) (simp add: rollback_def access_defs)
    moreover have "core (d2\<lparr>db_outbox := v\<rparr>) = core d2" for v by (rule core_cong) (simp add: access_defs)
    ultimately show ?thesis
      using assms(2) c p True by (auto simp: auto_approve_order_def split: sum.splits if_splits)
  next
    case False
    with assms(2) c claim_refused [OF c] show ?thesis
      by (auto simp: auto_approve_order_def split: sum.splits bool.splits)
  qed
qed


lemma confirm_core:
  assumes "confirm_auto_payment en user note k d = (r, d')"
  shows "core d' = core d \<or>
    fst (core d k) \<noteq> None \<and> snd (core d k) = RevPending \<and> core d' = (core d)(k := (fst (core d k), RevVerified))"
proof -
  have c: "core (snd (create_referral_reward_for_order en k d1)) = core d1" for d1
    by (rule core_cong) (rule create_reward_get)
  have "core (save_order en k x d1) = core d1" for x d1 by (rule core_cong) simp
  with c assms show ?thesis
    by (auto simp: confirm_auto_payment_def Let_def confirmed_audit_def core_get split: option.splits if_splits)
qed

lemma disable_client_frame:
  assumes "disable_client en rm ck d = (b, d1)"
  shows "get_order d1 = get_order d" "get_audit d1 = get_audit d" "db_cups d1 = db_cups d"
    "\<And>j. j \<noteq> ck \<Longrightarrow> get_client d1 j = get_client d j"
  using assms
  by (auto simp: disable_client_def ask_def access_defs fun_eq_iff row_put split: option.splits if_splits)

lemma revoke_core:
  "revoke_clients en rm k cks d = (b, d') \<Longrightarrow>
   core d' = (if b then core d else (core d)(k := (fst (core d k), RevCancelFailed)))"
proof (induction cks arbitrary: d)
  case Nil
  then show ?case by simp
next
  case (Cons ck cks)
  show ?case
  proof (cases "ck \<in> set (au_revoked_client_ids (audit_of d k))")
    case True
    with Cons show ?thesis by simp
  next
    case False
    obtain x d1 where x: "disable_client en rm ck d = (x, d1)" by (rule prod.exhaust)
    then have a: "core d1 = core d" by (intro core_cong) (rule disable_client_frame)
    show ?thesis
    proof (cases x)
      case True
      with Cons.prems False x obtain y where y: "revoke_clients en rm k cks (put_audit k y d1) = (b, d')"
        and "core (put_audit k y d1) = core d1"
        by auto
      from Cons.IH [OF y] this(2) a show ?thesis by simp
    next
      case False
      with Cons.prems \<open>ck \<notin> _\<close> x a show ?thesis by auto
    qed
  qed
qed

lemma notice_core: "send_cancellation_notice en rm k d = (b, d') \<Longrightarrow> core d' = core d"
  by (auto simp: send_cancellation_notice_def Let_def core_get fun_eq_iff
      split: option.splits if_splits prod.splits dest!: core_ask)

lemma close_cups_get [simp]:
  "get_order (close_cups k cks d) = get_order d" "get_audit (close_cups k cks d) = get_audit d"
  "get_client (close_cups k cks d) = get_client d"
  by (simp_all add: close_cups_def access_defs fun_eq_iff)

lemma finish_cancellation_core:
  "core (finish_cancellation en reason k ord d) = (core d)(k := (fst (core d k), RevCancelled))"
proof -
  have "core (save_order en k x d) = core d" for x by (rule core_cong) simp
  moreover have "audit_of (save_order en k x d) k = audit_of d k" for x by (simp add: audit_of_def)
  ultimately show ?thesis by (simp add: finish_cancellation_def Let_def)
qed

lemma cancel_core:
  assumes "cancel_auto_approved_order en rm user reason k d = (r, d')"
  shows "core d' = core d \<or>
    fst (core d k) \<noteq> None \<and> snd (core d k) \<noteq> RevCancelled \<and>
    (\<exists>s \<in> {RevCancelFailed, RevCancelled}. core d' = (core d)(k := (fst (core d k), s)))"
proof -
  have cc: "core (close_cups k cks x) = core x" for cks x by (rule core_cong) simp
  have n: "core (snd (send_cancellation_notice en rm k x)) = core x" for x
    by (metis notice_core prod.collapse)
  show ?thesis
    using assms
    by (auto simp: cancel_auto_approved_order_def cancelling_audit_def core_get cc n finish_cancellation_core
        split: if_splits option.splits sum.splits prod.splits bool.splits dest!: revoke_core)
qed

lemma collect_due_core: "collect_due en xs due d = (due', d') \<Longrightarrow> core d' = core d"
proof (induction en xs due d rule: collect_due.induct)
  case (2 en k ord rest due d)
  have "core (put_audit k (audit_of d k) d) = core d" by simp
  with 2 show ?case by (auto simp: Let_def simp del: core_put split: if_splits)
qed simp

lemma mark_reminded_core [simp]: "core (mark_reminded en x d) = core d"
  by (cases x) (simp add: mark_reminded_def Let_def)

lemma fold_reminded_core [simp]: "core (fold (mark_reminded en) xs d) = core d"
  by (induction xs arbitrary: d) simp_all

lemma remind_core:
  assumes "send_receipt_reminders en rm s d = (n, d')"
  shows "core d' = core d"
proof -
  have "core (x\<lparr>db_outbox := v\<rparr>) = core x" for x v by (rule core_cong) (simp add: access_defs)
  then show ?thesis
    using assms
    by (auto simp: send_receipt_reminders_def Let_def split: option.splits if_splits prod.splits
        dest!: collect_due_core core_ask)
qed

lemma auto_approve_claimed:
  "claim_approval en k d = (Inr True, d1) \<Longrightarrow> \<exists>d'. auto_approve_order en rm eg k d = (Inr True, d')"
  by (cases "approve_and_provision_order en rm eg None TimedReceiptApproval False k d1")
     (auto simp: auto_approve_order_def split: sum.split)

lemma claimed_refuses:
  assumes "fst (core d k) \<noteq> None" and "auto_approve_order en rm eg k d = (r, d')"
  shows "r \<noteq> Inr True \<and> d' = d"
proof -
  have "fst (claim_approval en k d) \<noteq> Inr True" "snd (claim_approval en k d) = d"
    using assms(1) by (auto simp: claim_approval_def may_auto_approve_def split: option.split)
  with assms(2) show ?thesis
    by (auto simp: auto_approve_order_def split: prod.splits sum.splits bool.splits)
qed

section \<open>Switching off the services of a cancelled order\<close>

definition switched_off :: "db \<Rightarrow> pk \<Rightarrow> bool" where
  "switched_off d ck \<longleftrightarrow>
     (case get_client d ck of None \<Rightarrow> False | Some c \<Rightarrow> vc_status c = ClInactive \<or> is_deleted c)"

abbreviation revoked :: "db \<Rightarrow> pk \<Rightarrow> pk set" where
  "revoked d k \<equiv> set (au_revoked_client_ids (audit_of d k))"

lemma audit_of_put [simp]: "audit_of (put_audit k a d) j = (if j = k then a else audit_of d j)"
  by (simp add: audit_of_def audits.get_put)

lemma audit_of_cong: "get_audit d' = get_audit d \<Longrightarrow> audit_of d' = audit_of d"
  by (simp add: audit_of_def fun_eq_iff)

lemma switched_off_put_audit [simp]: "switched_off (put_audit k a d) = switched_off d"
  by (simp add: switched_off_def fun_eq_iff)

lemma cups_put_audit [simp]: "db_cups (put_audit k a d) = db_cups d"
  by (simp add: put_audit_def)

lemma disabled_client_off: "vc_status (disabled_client en r c) = ClInactive"
  by (simp add: disabled_client_def)

lemma disable_client_off:
  assumes "disable_client en rm ck d = (b, d1)"
  shows "b \<Longrightarrow> switched_off d1 ck" and "switched_off d j \<Longrightarrow> switched_off d1 j"
  using assms
  by (auto simp: disable_client_def ask_def switched_off_def clients.get_put disabled_client_off access_defs row_put
      split: option.splits if_splits)

lemma revoke_frame:
  "revoke_clients en rm k cks d = (b, d') \<Longrightarrow>
   get_order d' = get_order d \<and> db_cups d' = db_cups d \<and> revoked d k \<subseteq> revoked d' k \<and>
   (\<forall>j. switched_off d j \<longrightarrow> switched_off d' j)"
proof (induction cks arbitrary: d)
  case Nil
  then show ?case by simp
next
  case (Cons ck cks)
  obtain x d1 where x: "disable_client en rm ck d = (x, d1)" by (rule prod.exhaust)
  note f = disable_client_frame [OF x] disable_client_off [OF x] audit_of_cong [OF disable_client_frame(2) [OF x]]
  show ?case
  proof (cases "ck \<notin> revoked d k \<and> x")
    case True
    let ?d1 = "put_audit k ((audit_of d1 k)\<lparr>au_revoked_client_ids := au_revoked_client_ids (audit_of d1 k) @ [ck]\<rparr>) d1"
    have "revoke_clients en rm k cks ?d1 = (b, d')" using Cons.prems x True by simp
    from Cons.IH [OF this] f show ?thesis by auto
  next
    case False
    with Cons x f show ?thesis by (auto split: if_splits)
  qed
qed

lemma revoke_done:
  "revoke_clients en rm k cks d = (True, d') \<Longrightarrow>
   set cks \<subseteq> revoked d' k \<and> (\<forall>ck \<in> set cks - revoked d k. switched_off d' ck)"
proof (induction cks arbitrary: d)
  case Nil
  then show ?case by simp
next
  case (Cons ck cks)
  show ?case
  proof (cases "ck \<in> revoked d k")
    case True
    then have r: "revoke_clients en rm k cks d = (True, d')" using Cons.prems by simp
    from Cons.IH [OF r] revoke_frame [OF r] True show ?thesis by auto
  next
    case False
    obtain x d1 where x: "disable_client en rm ck d = (x, d1)" by (rule prod.exhaust)
    let ?d1 = "put_audit k ((audit_of d1 k)\<lparr>au_revoked_client_ids := au_revoked_client_ids (audit_of d1 k) @ [ck]\<rparr>) d1"
    have r: "x" "revoke_clients en rm k cks ?d1 = (True, d')" using Cons.prems x False by (auto split: bool.splits)
    have "switched_off ?d1 ck" using disable_client_off(1) [OF x r(1)] by simp
    with Cons.IH [OF r(2)] revoke_frame [OF r(2)] audit_of_cong [OF disable_client_frame(2) [OF x]]
    show ?thesis by auto
  qed
qed

lemma revoke_skip: "set pre \<subseteq> revoked d k \<Longrightarrow> revoke_clients en rm k (pre @ rest) d = revoke_clients en rm k rest d"
  by (induction pre) simp_all

lemma revoke_stopped:
  "revoke_clients en rm k cks d = (False, d') \<Longrightarrow>
   \<exists>pre rest. cks = pre @ rest \<and> rest \<noteq> [] \<and> set pre \<subseteq> revoked d' k \<and> hd rest \<notin> revoked d' k \<and>
     (\<forall>ck \<in> set pre - revoked d k. switched_off d' ck) \<and>
     au_last_error (audit_of d' k) = ''cancellation_incomplete''"
proof (induction cks arbitrary: d)
  case Nil
  then show ?case by simp
next
  case (Cons ck cks)
  show ?case
  proof (cases "ck \<in> revoked d k")
    case True
    then have r: "revoke_clients en rm k cks d = (False, d')" using Cons.prems by simp
    from Cons.IH [OF r] obtain pre rest where "cks = pre @ rest" "rest \<noteq> []" "set pre \<subseteq> revoked d' k" "hd rest \<notin> revoked d' k"
      "\<forall>ck \<in> set pre - revoked d k. switched_off d' ck" "au_last_error (audit_of d' k) = ''cancellation_incomplete''"
      by blast
    with revoke_frame [OF r] True show ?thesis by (intro exI [of _ "ck # pre"] exI [of _ rest]) auto
  next
    case False
    obtain x d1 where x: "disable_client en rm ck d = (x, d1)" by (rule prod.exhaust)
    note a = audit_of_cong [OF disable_client_frame(2) [OF x]]
    let ?d1 = "put_audit k ((audit_of d1 k)\<lparr>au_revoked_client_ids := au_revoked_client_ids (audit_of d1 k) @ [ck]\<rparr>) d1"
    show ?thesis
    proof (cases x)
      case True
      then have r: "revoke_clients en rm k cks ?d1 = (False, d')" using Cons.prems x False by simp
      have "switched_off ?d1 ck" using disable_client_off(1) [OF x True] by simp
      moreover from Cons.IH [OF r] obtain pre rest where "cks = pre @ rest" "rest \<noteq> []" "set pre \<subseteq> revoked d' k" "hd rest \<notin> revoked d' k"
        "\<forall>ck \<in> set pre - revoked ?d1 k. switched_off d' ck" "au_last_error (audit_of d' k) = ''cancellation_incomplete''"
        by blast
      ultimately show ?thesis
        using revoke_frame [OF r] a by (intro exI [of _ "ck # pre"] exI [of _ rest]) auto
    next
      case False
      with Cons.prems x \<open>ck \<notin> _\<close> a show ?thesis by (intro exI [of _ "[]"] exI [of _ "ck # cks"]) auto
    qed
  qed
qed

lemma notice_frame:
  assumes "send_cancellation_notice en rm k d = (b, d')"
  shows "get_order d' = get_order d" "get_client d' = get_client d" "db_cups d' = db_cups d"
    "revoked d' k = revoked d k"
  using assms
  by (auto simp: send_cancellation_notice_def Let_def ask_def access_defs fun_eq_iff audit_of_def row_put
      split: option.splits if_splits)

lemma cancel_cases:
  assumes "cancel_auto_approved_order en rm user reason k d = (Inr b, d')" and "review_of k d \<noteq> RevCancelled"
  obtains ord a cks d0 d1 where "get_order d k = Some ord" "get_audit d k = Some a" "cancellation_clients k ord d = Inr cks"
    "d0 = close_cups k cks (put_audit k (cancelling_audit en user reason a) d)"
    "revoke_clients en rm k cks d0 = (b, d1)"
    "d' = (if b then snd (send_cancellation_notice en rm k (finish_cancellation en reason k ord d1)) else d1)"
  using assms
  by (auto simp: cancel_auto_approved_order_def review_of_def core_get
      split: if_splits option.splits sum.splits prod.splits bool.splits)

end
