(* ===== verification/Review_Machine.thy ===== *)
theory Review_Machine
  imports Review_Facts
begin

text \<open>
  The review of timed approvals as a state machine. \<open>review_move\<close> is the specification: the timer
  opens a review, an administrator confirms it or cancels the order, a cancellation may fail and
  be repeated, and nothing leaves the cancelled state. \<open>review_step\<close> is the code: any operation of
  \<open>store/order_automation.py\<close> on any order, in any order.
\<close>

section \<open>The review as a state machine\<close>

inductive review_move :: "review_status \<Rightarrow> review_status \<Rightarrow> bool" where
  claim: "review_move RevNone RevPending"
| confirm: "review_move RevPending RevVerified"
| cancel: "s \<in> {RevPending, RevVerified, RevCancelling, RevCancelFailed} \<Longrightarrow>
    t \<in> {RevCancelFailed, RevCancelled} \<Longrightarrow> review_move s t"

inductive_cases review_move_CancelledE: "review_move RevCancelled t"
inductive_simps review_move_simps: "review_move s t"

lemma cancel_move:
  "s \<noteq> RevNone \<Longrightarrow> s \<noteq> RevCancelled \<Longrightarrow> t \<in> {RevCancelFailed, RevCancelled} \<Longrightarrow> review_move s t"
  by (cases s) (auto intro: review_move.cancel)

inductive review_step :: "db \<Rightarrow> db \<Rightarrow> bool" where
  approve: "engines_keep_audits eg \<Longrightarrow> auto_approve_order en rm eg k d = (r, d') \<Longrightarrow> review_step d d'"
| confirm: "confirm_auto_payment en user note k d = (q, d') \<Longrightarrow> review_step d d'"
| cancel: "cancel_auto_approved_order en rm user reason k d = (p, d') \<Longrightarrow> review_step d d'"
| remind: "send_receipt_reminders en rm st d = (n, d') \<Longrightarrow> review_step d d'"
| notice: "send_cancellation_notice en rm k d = (b, d') \<Longrightarrow> review_step d d'"
| ran: "review_step d (d\<lparr>db_stores := stores\<rparr>)"

definition reviews_linked :: "db \<Rightarrow> bool" where
  "reviews_linked d \<longleftrightarrow> (\<forall>k. (fst (core d k) = None) = (review_of k d = RevNone))"

lemma step_core:
  assumes "review_step d d'"
  obtains (same) "core d' = core d"
    | (claimed) k t where "fst (core d k) = None" "core d' = (core d)(k := (Some t, RevPending))"
    | (confirmed) k where "fst (core d k) \<noteq> None" "snd (core d k) = RevPending"
        "core d' = (core d)(k := (fst (core d k), RevVerified))"
    | (cancelled) k s where "fst (core d k) \<noteq> None" "snd (core d k) \<noteq> RevCancelled"
        "s \<in> {RevCancelFailed, RevCancelled}" "core d' = (core d)(k := (fst (core d k), s))"
  using assms
proof cases
  case (approve eg en rm k r)
  from auto_approve_core [OF approve] show ?thesis
  proof (elim disjE conjE)
    assume c: "claim_approval en k d = (Inr True, snd (claim_approval en k d))"
      and "core d' = core (snd (claim_approval en k d))"
    then show ?thesis using claim_core [OF c] by (intro claimed) simp_all
  qed (intro same, simp)
next
  case (confirm en user nt k q)
  from confirm_core [OF confirm] show ?thesis by (elim disjE conjE) (erule same, erule (2) confirmed)
next
  case (cancel en rm user reason k p)
  from cancel_core [OF cancel] show ?thesis
    by (elim disjE conjE bexE) (erule same, erule (3) cancelled)
next
  case (ran stores)
  then have "core d' = core d" by (intro core_cong) (simp add: access_defs fun_eq_iff)
  then show ?thesis by (rule same)
qed (auto intro: same dest: remind_core notice_core)

lemma linked_pending: "reviews_linked d \<Longrightarrow> fst (core d k) = None \<Longrightarrow> snd (core d k) = RevNone"
  and linked_claimed: "reviews_linked d \<Longrightarrow> fst (core d k) \<noteq> None \<Longrightarrow> snd (core d k) \<noteq> RevNone"
  by (simp_all add: reviews_linked_def review_of_def)

lemma linked_upd:
  "reviews_linked d \<Longrightarrow> core d' = (core d)(k := (c, t)) \<Longrightarrow> (c = None) = (t = RevNone) \<Longrightarrow> reviews_linked d'"
  by (simp add: reviews_linked_def review_of_def)

lemma step_linked: "reviews_linked d \<Longrightarrow> review_step d d' \<Longrightarrow> reviews_linked d'"
  by (erule step_core) (auto simp: reviews_linked_def review_of_def intro: linked_upd)

lemma step_moves:
  assumes i: "reviews_linked d" and "review_step d d'"
  shows "review_of k d' = review_of k d \<or> review_move (review_of k d) (review_of k d')"
  using assms(2)
proof (cases rule: step_core)
  case (claimed j t)
  then show ?thesis using linked_pending [OF i claimed(1)] by (simp add: review_of_def review_move.claim)
next
  case (confirmed j)
  then show ?thesis by (simp add: review_of_def review_move.confirm)
next
  case (cancelled j s)
  then show ?thesis using cancel_move [OF linked_claimed [OF i cancelled(1)] cancelled(2,3)] by (simp add: review_of_def)
qed (simp add: review_of_def)

interpretation review: simulation reviews_linked review_step "review_of k" review_move for k
  by unfold_locales (fact step_linked, fact step_moves)

section \<open>The periodic run\<close>

definition opened :: "db \<Rightarrow> db \<Rightarrow> pk set" where
  "opened d d' = {k. fst (core d k) = None \<and> fst (core d' k) \<noteq> None}"

definition only_opens :: "env \<Rightarrow> db \<Rightarrow> db \<Rightarrow> bool" where
  "only_opens en d d' \<longleftrightarrow> (\<forall>k. core d' k = core d k \<or> fst (core d k) = None \<and> core d' k = (Some (e_now en), RevPending))"

lemma opened_refl [simp]: "opened d d = {}"
  by (auto simp: opened_def)

lemma opened_same: "core d' = core d \<Longrightarrow> opened e d' = opened e d \<and> only_opens en e d' = only_opens en e d"
  by (simp add: opened_def only_opens_def)

lemma run_approvals_counts:
  assumes eg: "engines_keep_audits eg"
  shows "run_approvals en rm eg ks (s, d) = (s', d') \<Longrightarrow> only_opens en e d \<Longrightarrow> finite (opened e d) \<Longrightarrow>
    only_opens en e d' \<and> finite (opened e d') \<and>
    int (sm_approved s') - int (sm_approved s) = int (card (opened e d')) - int (card (opened e d)) \<and>
    sm_approved s' \<le> sm_approved s + length ks \<and> sm_reminded s' = sm_reminded s \<and> sm_notified s' = sm_notified s"
proof (induction ks arbitrary: s d)
  case Nil
  then show ?case by simp
next
  case (Cons k ks)
  obtain r d1 where a: "auto_approve_order en rm eg k d = (r, d1)" by (rule prod.exhaust)
  show ?case
  proof (cases "r = Inr True")
    case True
    let ?c = "snd (claim_approval en k d)"
    have c: "claim_approval en k d = (Inr True, ?c)" "core d1 = core ?c"
      using auto_approve_core [OF eg a] True by auto
    note cc = claim_core [OF c(1)]
    have e: "fst (core e k) = None" using Cons.prems(2) cc(1) unfolding only_opens_def by (metis fst_conv option.distinct(1))
    have o: "opened e d1 = insert k (opened e d)" "k \<notin> opened e d"
      using c cc e by (auto simp: opened_def)
    have p: "only_opens en e d1" using Cons.prems(2) c cc e by (simp add: only_opens_def)
    have r: "run_approvals en rm eg ks (s\<lparr>sm_approved := Suc (sm_approved s)\<rparr>, d1) = (s', d')"
      using Cons.prems(1) a True by simp
    from Cons.IH [OF r p] o Cons.prems(3) show ?thesis by simp
  next
    case False
    then have d: "d1 = d" using auto_approve_core [OF eg a] by simp
    then obtain s1 where r: "run_approvals en rm eg ks (s1, d) = (s', d')"
      "sm_approved s1 = sm_approved s" "sm_reminded s1 = sm_reminded s" "sm_notified s1 = sm_notified s"
      using Cons.prems(1) a False by (cases r) auto
    from Cons.IH [OF r(1) Cons.prems(2,3)] r show ?thesis by simp
  qed
qed

lemma run_reminders_core:
  "run_reminders en rm sts (s, d) = (s', d') \<Longrightarrow> core d' = core d \<and> sm_approved s' = sm_approved s"
proof (induction sts arbitrary: s d)
  case (Cons st sts)
  obtain n d1 where a: "send_receipt_reminders en rm st d = (n, d1)" by (rule prod.exhaust)
  have "core (d1\<lparr>db_stores := x\<rparr>) = core d1" for x by (rule core_cong) (simp add: access_defs fun_eq_iff)
  with Cons a remind_core [OF a] show ?case by (auto simp: Let_def)
qed simp

lemma run_notices_core:
  "run_notices en rm ks (s, d) = (s', d') \<Longrightarrow>
   core d' = core d \<and> sm_approved s' = sm_approved s \<and> sm_notified s' \<le> sm_notified s + length ks"
proof (induction ks arbitrary: s d)
  case (Cons k ks)
  obtain b d1 where a: "send_cancellation_notice en rm k d = (b, d1)" by (rule prod.exhaust)
  with Cons.prems obtain s1 where r: "run_notices en rm ks (s1, d1) = (s', d')"
    "sm_approved s1 = sm_approved s" "sm_notified s1 \<le> Suc (sm_notified s)"
    by (cases b) auto
  from Cons.IH [OF r(1)] r notice_core [OF a] show ?case by auto
qed simp

end
