(* ===== verification/Review_Laws.thy ===== *)
theory Review_Laws
  imports Samples Review_Machine
begin

text \<open>
  Properties of \<open>store/order_actions.py\<close> (rejection and cancellation) and of
  \<open>store/order_automation.py\<close> (timed approval, its review, its cancellation).
\<close>

section \<open>Rejection and cancellation\<close>

text \<open>C7. Rejecting an order closes it completely: only an order that is not completed is rejected;
  it ends rejected with its reason, all its clients are suspended, every inbound gets back exactly
  one slot per deleted client, never going below zero, and no other order changes.\<close>

theorem reject_closes_order:
  assumes "reject_order en rm reason user notify k d = (ActionDone, d')"
  shows "\<exists>ord o2. get_order d k = Some ord \<and> o_status ord \<noteq> Completed \<and>
    get_order d' k = Some o2 \<and> o_status o2 = Rejected \<and> o_verification_status o2 = VerRejected \<and>
    o_provisioning_status o2 = ProvNotRequired \<and> o_rejection_reason o2 = reason \<and>
    (\<forall>j c. get_client d' j = Some c \<and> vc_order c = Some k \<longrightarrow> vc_status c = ClSuspended) \<and>
    (\<forall>j i. get_inbound d j = Some i \<and> 0 \<le> ib_current_users i \<longrightarrow>
       get_inbound d' j = Some (i\<lparr>ib_current_users :=
         max (ib_current_users i - target_count j (deletion_targets_for_order k ord d)) 0\<rparr>)) \<and>
    (\<forall>j. j \<noteq> k \<longrightarrow> get_order d' j = get_order d j)"
proof -
  obtain ord d1 where o1: "get_order d k = Some ord" "o_status ord \<noteq> Completed" and same: "same_data d d1"
    and d': "d' = finish_reject en reason user notify k ord (deletion_targets_for_order k ord d) d1"
    by (rule reject_done [OF assms])
  let ?ts = "deletion_targets_for_order k ord d"
  let ?o2 = "normalize_on_save en d1 (rejected_order en reason user (length ?ts) ord)"
  have orders: "get_order d' j = (if j = k then Some ?o2 else get_order d j)" for j
    by (simp add: d' finish_reject_get save_get same_data_get [OF same])
  have clients: "vc_status c = ClSuspended" if "get_client d' j = Some c" "vc_order c = Some k" for j c
  proof -
    from that(1) obtain c0 where c0: "c = (if vc_order c0 = Some k then (mark_suspended en c0)
        \<lparr>vc_xui_raw := dset ''deleted_on_reject'' (JBool True) (vc_xui_raw c0)\<rparr> else c0)"
      by (auto simp: d' finish_reject_get suspend_get)
    show ?thesis
    proof (cases "vc_order c0 = Some k")
      case True
      then show ?thesis by (simp add: c0 mark_suspended_def)
    next
      case False
      with that(2) c0 show ?thesis by simp
    qed
  qed
  have inb: "get_inbound d' j = Some (i\<lparr>ib_current_users := max (ib_current_users i - target_count j ?ts) 0\<rparr>)"
    if "get_inbound d j = Some i" "0 \<le> ib_current_users i" for j i
    using that decrement_get [of d1 j i ?ts] by (simp add: d' finish_reject_get same_data_get [OF same])
  show ?thesis
    using o1 orders clients inb by (intro exI [of _ ord] exI [of _ ?o2]) auto
qed

lemma sample_targets: "deletion_targets_for_order 1 sample_order sample_db = [ClientTarget 1 sample_client]"
  by (simp add: deletion_targets_for_order_def clients_of_order_def rows_where_def sample_db_def sample_client_def)

lemma sample_delete: "delete_targets willing [ClientTarget 1 sample_client] d = (True, d\<lparr>db_draws := Suc (db_draws d)\<rparr>)"
  by (simp add: delete_panel_client_def ask_def willing_def target_identifier_def str_or_def strip_def blank_def chr_code_def
      sample_client_def split: option.split)

lemma sample_reject:
  "\<exists>d'. reject_order sample_env willing ''fake'' None True 1 sample_db = (ActionDone, d')"
proof -
  have "get_order sample_db 1 = Some sample_order" by (simp add: sample_db_def access_defs row_def)
  moreover have "o_status sample_order \<noteq> Completed" by (simp add: sample_order_def new_order_def)
  ultimately show ?thesis
    by (simp add: reject_order_def sample_targets sample_delete Let_def del: One_nat_def delete_targets.simps)
qed

theorem reject_closes_order_witness:
  "\<exists>d' o2. reject_order sample_env willing ''fake'' None True 1 sample_db = (ActionDone, d') \<and>
    get_order d' 1 = Some o2 \<and> o_status o2 = Rejected \<and> o_rejection_reason o2 = ''fake''"
  using sample_reject reject_closes_order by blast

text \<open>A panel that does not confirm a deletion stops the rejection or the cancellation, and then
  nothing of the shop's data has changed: the order can be tried again.\<close>

theorem failed_deletion_changes_nothing:
  "(\<forall>res d'. reject_order en rm reason user notify k d = (res, d') \<and> res \<noteq> ActionDone \<longrightarrow> same_data d d') \<and>
   (\<forall>res d'. cancel_order en rm hide k d = (res, d') \<and> res \<noteq> ActionDone \<longrightarrow> same_data d d')"
  by (auto simp: reject_order_def cancel_order_def Let_def split: option.splits if_splits prod.splits bool.splits
      dest: delete_targets_same)

theorem failed_deletion_changes_nothing_witness:
  "\<exists>d'. reject_order sample_env refusing ''fake'' None True 1 sample_db = (PanelDeletionFailed, d') \<and> same_data sample_db d'"
proof -
  have "get_order sample_db 1 = Some sample_order" by (simp add: sample_db_def access_defs row_def)
  moreover have "o_status sample_order \<noteq> Completed" by (simp add: sample_order_def new_order_def)
  moreover have "delete_targets refusing [ClientTarget 1 sample_client] sample_db = (False, sample_db\<lparr>db_draws := 1\<rparr>)"
    by (simp add: delete_panel_client_def ask_def refusing_def target_identifier_def str_or_def strip_def blank_def chr_code_def
        sample_client_def sample_db_def empty_db_def split: option.split)
  ultimately have "reject_order sample_env refusing ''fake'' None True 1 sample_db = (PanelDeletionFailed, sample_db\<lparr>db_draws := 1\<rparr>)"
    by (simp add: reject_order_def sample_targets Let_def del: One_nat_def delete_targets.simps)
  then show ?thesis using failed_deletion_changes_nothing by blast
qed

text \<open>The slots of a rejected order are given back twice when the order is then cancelled:
  cancelling has no guard against an order that is already closed, its clients are found again,
  and the counter of their inbound falls a second time by their number.\<close>

theorem reject_then_cancel_releases_twice:
  assumes "get_order d k = Some ord" and "get_inbound d j = Some i" and "0 \<le> ib_current_users i"
    and "reject_order en rm reason user notify k d = (ActionDone, d1)"
    and "cancel_order en2 rm2 hide k d1 = (ActionDone, d2)"
  shows "get_inbound d2 j = Some (i\<lparr>ib_current_users :=
    max (ib_current_users i - 2 * target_count j (deletion_targets_for_order k ord d)) 0\<rparr>)"
proof -
  let ?ts = "deletion_targets_for_order k ord d"
  obtain o1 d0 where r: "get_order d k = Some o1" "same_data d d0"
    "d1 = finish_reject en reason user notify k o1 (deletion_targets_for_order k o1 d) d0"
    by (rule reject_done [OF assms(4)])
  with assms(1) have o1: "o1 = ord" by simp
  have i1: "get_inbound d1 j = Some (i\<lparr>ib_current_users := max (ib_current_users i - target_count j ?ts) 0\<rparr>)"
    using decrement_get [of d0 j i ?ts] assms(2,3) r o1 by (simp add: finish_reject_get same_data_get [OF r(2)])
  obtain ord1 where t: "get_order d1 k = Some ord1"
    "map target_inbound (deletion_targets_for_order k ord1 d1) = map target_inbound ?ts"
    using targets_after_reject [OF assms(4,1)] by blast
  obtain o2 dc where c: "get_order d1 k = Some o2" "same_data d1 dc"
    "d2 = finish_cancel en2 hide k o2 (deletion_targets_for_order k o2 d1) dc"
    by (rule cancel_done [OF assms(5)])
  with t have "o2 = ord1" by simp
  with c t have "get_inbound d2 j = get_inbound (decrement_inbound_users_for_targets ?ts dc) j"
    by (simp add: finish_cancel_get decrement_targets_cong [OF t(2)])
  moreover have "0 \<le> target_count j ?ts" by (simp add: target_count_def)
  ultimately show ?thesis
    using decrement_get [of dc j "i\<lparr>ib_current_users := max (ib_current_users i - target_count j ?ts) 0\<rparr>" ?ts] i1
    by (simp add: same_data_get [OF c(2)] max_def)
qed

theorem reject_then_cancel_releases_twice_witness:
  "\<exists>d1 d2. reject_order sample_env willing ''fake'' None True 1 sample_db = (ActionDone, d1) \<and>
     cancel_order sample_env willing True 1 d1 = (ActionDone, d2) \<and>
     length (deletion_targets_for_order 1 sample_order sample_db) = 1 \<and>
     get_inbound d2 1 = Some (sample_inbound\<lparr>ib_current_users := 3 - 2\<rparr>)"
proof -
  obtain d1 where r: "reject_order sample_env willing ''fake'' None True 1 sample_db = (ActionDone, d1)"
    using sample_reject by blast
  then obtain ord d0 where d0: "same_data sample_db d0"
    "d1 = finish_reject sample_env ''fake'' None True 1 ord (deletion_targets_for_order 1 ord sample_db) d0"
    by (rule reject_done)
  then have p: "db_panels d1 = [(1, sample_panel)]"
    by (simp add: finish_reject_panels same_dataD(10) sample_db_def)
  obtain o1 where o1: "get_order d1 1 = Some o1"
    using d0(2) by (simp add: finish_reject_get save_get del: One_nat_def)
  have "\<exists>x. delete_targets willing (deletion_targets_for_order 1 o1 d1) d1 = (True, x)"
    by (rule willing_deletes_all) (simp_all add: willing_def p sample_panel_def)
  then obtain d2 where c: "cancel_order sample_env willing True 1 d1 = (ActionDone, d2)"
    using o1 by (auto simp: cancel_order_def Let_def simp del: One_nat_def)
  have o: "get_order sample_db 1 = Some sample_order" and i: "get_inbound sample_db 1 = Some sample_inbound"
    by (simp_all add: sample_db_def access_defs row_def)
  have u: "0 \<le> ib_current_users sample_inbound" by (simp add: sample_inbound_def)
  have "target_count 1 [ClientTarget 1 sample_client] = 1"
    by (simp add: target_count_def target_inbound_def sample_client_def)
  then have "get_inbound d2 1 = Some (sample_inbound\<lparr>ib_current_users := 3 - 2\<rparr>)"
    using reject_then_cancel_releases_twice [OF o i u r c] by (simp add: sample_targets sample_inbound_def del: One_nat_def)
  with r c show ?thesis by (auto simp: sample_targets simp del: One_nat_def)
qed

section \<open>Timed approval\<close>

text \<open>C4. The timer approves a receipt only when it is due and at most once: the order belongs to a
  store with timed approval, its receipt waits for review, and five minutes have passed since the
  receipt and since the feature was turned on; whatever became of the delivery, a later timed
  approval of the order changes nothing.\<close>

theorem auto_approval_once:
  assumes "engines_keep_audits eg" and "auto_approve_order en rm eg k d = (Inr True, d1)"
  shows "(\<exists>ord s due. get_order d k = Some ord \<and> Option.bind (o_store ord) (row (db_stores d)) = Some s \<and>
      st_order_auto_approve_enabled s \<and> pending_receipt d ord \<and> approval_due s ord = Some due \<and> due \<le> e_now en) \<and>
    (\<forall>en2 rm2 eg2 r d2. auto_approve_order en2 rm2 eg2 k d1 = (r, d2) \<longrightarrow> r \<noteq> Inr True \<and> d2 = d1)"
proof -
  have c: "claim_approval en k d = (Inr True, snd (claim_approval en k d))" "core d1 = core (snd (claim_approval en k d))"
    using auto_approve_core [OF assms] by auto
  then have "fst (core d1 k) \<noteq> None" using claim_core [OF c(1)] by simp
  moreover obtain ord s where "get_order d k = Some ord" "Option.bind (o_store ord) (row (db_stores d)) = Some s"
    "may_auto_approve en d k s ord"
    using c(1) by (auto simp: claim_approval_def split: option.splits if_splits)
  ultimately show ?thesis
    using claimed_refuses by (auto simp: may_auto_approve_def split: option.splits)
qed

lemma sample_claim: "\<exists>d1. claim_approval sample_env 1 sample_db = (Inr True, d1)"
  by (simp add: claim_approval_def may_auto_approve_def pending_receipt_def has_receipt_def approval_due_def
      audit_of_def suppressed_def auto_approve_delay_def minutes_def seconds_def sample_defs table_defs)

lemma no_engines_keep_audits: "engines_keep_audits no_engines"
  by (simp add: engines_keep_audits_def no_engines_def)

theorem auto_approval_once_witness:
  "\<exists>d1. auto_approve_order sample_env willing no_engines 1 sample_db = (Inr True, d1) \<and>
     (\<forall>r d2. auto_approve_order sample_env willing no_engines 1 d1 = (r, d2) \<longrightarrow> r \<noteq> Inr True \<and> d2 = d1)"
  using sample_claim auto_approve_claimed [of sample_env 1 sample_db _ willing no_engines]
    auto_approval_once [OF no_engines_keep_audits] by meson

text \<open>Turning timed approval on gives waiting receipts a fresh review window: for five minutes no
  order of the store is approved by the timer, however old its receipt.\<close>

theorem fresh_review_window:
  assumes "\<forall>s0. row (db_stores d) sk = Some s0 \<longrightarrow> \<not> st_order_auto_approve_enabled s0"
    and "st_order_auto_approve_enabled s" and "get_order d k = Some ord" and "o_store ord = Some sk"
    and "e_now en2 < e_now en + auto_approve_delay"
  shows "auto_approve_order en2 rm eg k (save_store en True sk s d) = (Inr False, save_store en True sk s d)"
proof -
  let ?s = "s\<lparr>st_order_auto_approve_enabled_at := Some (e_now en)\<rparr>"
  have sv: "save_store en True sk s d = d\<lparr>db_stores := put sk ?s (db_stores d)\<rparr>"
    using assms(1,2) by (auto simp: save_store_def Let_def split: option.splits)
  have "get_order (save_store en True sk s d) k = Some ord" using assms(3) by (simp add: sv access_defs)
  moreover have "\<not> may_auto_approve en2 (save_store en True sk s d) k ?s ord"
    using assms(5) by (auto simp: may_auto_approve_def approval_due_def split: option.splits)
  ultimately have "claim_approval en2 k (save_store en True sk s d) = (Inr False, save_store en True sk s d)"
    using assms(4) by (simp add: claim_approval_def sv row_put)
  then show ?thesis by (simp add: auto_approve_order_def)
qed

theorem fresh_review_window_witness:
  "auto_approve_order sample_env willing no_engines 1
      (save_store sample_env True 1 sample_store (sample_db\<lparr>db_stores := [(1, new_store)]\<rparr>)) =
   (Inr False, save_store sample_env True 1 sample_store (sample_db\<lparr>db_stores := [(1, new_store)]\<rparr>))"
  by (rule fresh_review_window [where ord = sample_order])
     (simp_all add: sample_defs table_defs auto_approve_delay_def minutes_def seconds_def)

text \<open>C3. In every run of timed approvals, confirmations, cancellations, reminders and notices, over any
  orders and in any interleaving, the review of each order follows the review machine; it is open
  exactly when the timer approved the order, and a cancelled review stays cancelled.\<close>

theorem review_follows_machine:
  assumes "reviews_linked d" and "review_step\<^sup>*\<^sup>* d d'"
  shows "reviews_linked d' \<and> review_move\<^sup>*\<^sup>* (review_of k d) (review_of k d') \<and>
    (review_of k d = RevCancelled \<longrightarrow> review_of k d' = RevCancelled)"
  using review.inv_steps [OF assms(2,1)] review.abs_steps [OF assms(2,1)] review.final_steps [OF assms(2,1)]
  by (metis review_move_CancelledE)

theorem review_follows_machine_witness:
  "reviews_linked sample_db \<and>
   (\<exists>d'. review_step\<^sup>*\<^sup>* sample_db d' \<and> review_move\<^sup>*\<^sup>* (review_of 1 sample_db) (review_of 1 d') \<and> review_of 1 d' = RevPending)"
proof -
  have l: "reviews_linked sample_db"
    by (simp add: reviews_linked_def review_of_def core_def audit_of_def sample_defs table_defs)
  obtain d1 where a: "auto_approve_order sample_env willing no_engines 1 sample_db = (Inr True, d1)"
    using sample_claim auto_approve_claimed by blast
  have s: "review_step\<^sup>*\<^sup>* sample_db d1" using review_step.approve [OF no_engines_keep_audits a] by blast
  have "review_of 1 d1 = RevPending"
    using auto_approve_core [OF no_engines_keep_audits a] claim_core(2) [of sample_env 1 sample_db]
    by (auto simp: review_of_def)
  with l s review_follows_machine [OF l s, of 1] show ?thesis by blast
qed

text \<open>A periodic run reports exactly what it did: the number of approvals is the number of orders
  whose review it opened, at most the given limit; every other review is left as it was.\<close>

theorem periodic_run_counts:
  assumes "engines_keep_audits eg" and "process_order_automation en rm eg limit d = (s, d')"
  shows "sm_approved s = card {k. fst (core d k) = None \<and> fst (core d' k) \<noteq> None} \<and> sm_approved s \<le> limit \<and>
    (\<forall>k. core d' k = core d k \<or> fst (core d k) = None \<and> core d' k = (Some (e_now en), RevPending))"
proof -
  let ?z = "\<lparr>sm_approved = 0, sm_reminded = 0, sm_notified = 0, sm_failed = 0\<rparr>"
  obtain s1 d1 where a: "run_approvals en rm eg (approval_candidates limit d) (?z, d) = (s1, d1)" by (rule prod.exhaust)
  obtain s2 d2 where b: "run_reminders en rm
      (map fst (ordered_where (\<lambda>(_, s). st_name s) (\<lambda>_ s. st_is_active s) (db_stores d1))) (s1, d1) = (s2, d2)" by (rule prod.exhaust)
  have c: "run_notices en rm (notice_candidates limit d2) (s2, d2) = (s, d')"
    using assms(2) a b by (simp add: process_order_automation_def)
  have "length (approval_candidates limit d) \<le> limit" by (simp add: approval_candidates_def)
  moreover have "only_opens en d d" by (simp add: only_opens_def)
  ultimately have 1: "only_opens en d d1" "sm_approved s1 = card (opened d d1)" "sm_approved s1 \<le> limit"
    using run_approvals_counts [OF assms(1) a, of d] by simp_all
  have "core d' = core d1" "sm_approved s = sm_approved s1"
    using run_reminders_core [OF b] run_notices_core [OF c] by auto
  with 1 show ?thesis by (simp add: opened_def only_opens_def)
qed


theorem periodic_run_counts_witness:
  "\<exists>s d'. process_order_automation sample_env willing no_engines 5 sample_db = (s, d') \<and> sm_approved s = 1 \<and>
     card {k. fst (core sample_db k) = None \<and> fst (core d' k) \<noteq> None} = 1"
proof -
  let ?z = "\<lparr>sm_approved = 0, sm_reminded = 0, sm_notified = 0, sm_failed = 0\<rparr>"
  have c: "approval_candidates 5 sample_db = [1]"
    by (simp add: approval_candidates_def pending_receipt_def has_receipt_def audit_of_def sample_defs table_defs)
  obtain d1 where a: "auto_approve_order sample_env willing no_engines 1 sample_db = (Inr True, d1)"
    using sample_claim auto_approve_claimed by blast
  obtain s2 d2 where b: "run_reminders sample_env willing
      (map fst (ordered_where (\<lambda>(_, s). st_name s) (\<lambda>_ s. st_is_active s) (db_stores d1))) (?z\<lparr>sm_approved := 1\<rparr>, d1) = (s2, d2)"
    by (rule prod.exhaust)
  obtain s d' where n: "run_notices sample_env willing (notice_candidates 5 d2) (s2, d2) = (s, d')" by (rule prod.exhaust)
  have p: "process_order_automation sample_env willing no_engines 5 sample_db = (s, d')"
    using a b n by (simp add: process_order_automation_def c)
  moreover have "sm_approved s = 1" using run_reminders_core [OF b] run_notices_core [OF n] by simp
  ultimately show ?thesis using periodic_run_counts [OF no_engines_keep_audits p] by auto
qed

section \<open>Cancellation after a timed approval\<close>










end
