(* ===== verification/Config_Inventory.thy ===== *)
theory Config_Inventory
  imports Store_Models "HOL-Library.Multiset"
begin

text \<open>
  \<open>store/config_inventory_services.py\<close>: pools of ready-made configurations, the choice of assets
  in the three allocation modes, allocation of a quantity or of selected assets, and the stock
  summary the shop shows. Importing links (network and link parsing) is left out.
\<close>

section \<open>Pools, assets and allocations\<close>

datatype allocation_mode = Exclusive | SharedLimited | SharedUnlimited

datatype asset_status = AsAvailable | AsReserved | AsAssigned | AsDisabled | AsExpired | AsBurned

datatype allocation_status = AlActive | AlReleased | AlCancelled

record pool =
  po_title :: string
  po_connected_plan :: "pk option"
  po_traffic_limit_gb :: "rat option"
  po_duration_days :: "nat option"
  po_allocation_mode :: allocation_mode
  po_max_allocations_per_asset :: "nat option"
  po_is_active :: bool
  po_priority :: nat
  po_metadata :: dict

record asset =
  as_created_at :: instant
  as_pool :: pk
  as_raw_link :: string
  as_normalized_hash :: string
  as_protocol :: string
  as_remark :: string
  as_host :: string
  as_port :: "nat option"
  as_status :: asset_status
  as_traffic_limit_gb :: "rat option"
  as_expires_at :: "instant option"
  as_max_allocations :: "nat option"
  as_current_allocations :: nat
  as_source_batch :: string
  as_metadata :: dict

record allocation =
  al_asset :: pk
  al_cup :: "pk option"
  al_order :: "pk option"
  al_mode :: allocation_mode
  al_status :: allocation_status
  al_allocated_at :: instant
  al_released_at :: "instant option"
  al_metadata :: dict

record inventory =
  iv_pools :: "pool table"
  iv_assets :: "asset table"
  iv_allocations :: "allocation table"

section \<open>Choosing assets\<close>

definition default_asset_max_allocations_for_pool :: "pool \<Rightarrow> nat option" where
  "default_asset_max_allocations_for_pool p =
     (case po_allocation_mode p of
        Exclusive \<Rightarrow> Some 1
      | SharedLimited \<Rightarrow> po_max_allocations_per_asset p
      | SharedUnlimited \<Rightarrow> None)"

definition asset_allocation_limit :: "asset \<Rightarrow> pool \<Rightarrow> nat option" where
  "asset_allocation_limit a p =
     (let limit = (if as_max_allocations a \<noteq> None then as_max_allocations a else po_max_allocations_per_asset p)
      in if limit = None \<and> po_allocation_mode p = Exclusive then Some 1 else limit)"

definition not_expired :: "env \<Rightarrow> asset \<Rightarrow> bool" where
  "not_expired en a \<longleftrightarrow> (case as_expires_at a of None \<Rightarrow> True | Some t \<Rightarrow> t > e_now en)"

definition shared_candidates :: "env \<Rightarrow> pk \<Rightarrow> inventory \<Rightarrow> (pk \<times> asset) list" where
  "shared_candidates en k iv =
     ordered_where (\<lambda>(j, a). (as_current_allocations a, as_created_at a, j))
       (\<lambda>_ a. as_pool a = k \<and> as_status a \<in> {AsAvailable, AsAssigned} \<and> not_expired en a) (iv_assets iv)"

datatype inventory_error =
    InvalidQuantity | InvalidAllocationMode | PoolInactive | PoolMissing
  | InsufficientStock nat nat
  | InvalidAssetId | AssetRequired | AssetNotFound | AssetPoolMismatch | AssetNotUsable | AssetExpired
  | ExclusiveAssetAssigned | AssetNotAvailable | AssetAllocationLimitReached

definition select_exclusive_assets :: "env \<Rightarrow> pk \<Rightarrow> nat \<Rightarrow> inventory \<Rightarrow> inventory_error + (pk \<times> asset) list" where
  "select_exclusive_assets en k q iv =
     (let assets = take q (ordered_where (\<lambda>(j, a). (as_created_at a, j))
                     (\<lambda>_ a. as_pool a = k \<and> as_status a = AsAvailable \<and> not_expired en a) (iv_assets iv))
      in if length assets < q then Inl (InsufficientStock q (length assets)) else Inr assets)"

text \<open>The loop of \<open>_select_shared_limited_assets\<close>: \<open>selected\<close> and \<open>available_slots\<close> are its state.\<close>

fun pick_limited ::
  "pool \<Rightarrow> nat \<Rightarrow> (pk \<times> asset) list \<Rightarrow> (pk \<times> asset) list \<Rightarrow> nat \<Rightarrow> inventory_error + (pk \<times> asset) list" where
  "pick_limited p q [] selected available = Inl (InsufficientStock q available)"
| "pick_limited p q (ka # rest) selected available =
     (case asset_allocation_limit (snd ka) p of
        None \<Rightarrow> Inr (selected @ replicate (q - length selected) ka)
      | Some limit \<Rightarrow>
          let slots = limit - as_current_allocations (snd ka);
              selected1 = selected @ replicate (min slots (q - length selected)) ka
          in if length selected1 \<ge> q then Inr selected1
             else pick_limited p q rest selected1 (available + slots))"

definition select_shared_limited_assets ::
  "env \<Rightarrow> pk \<Rightarrow> pool \<Rightarrow> nat \<Rightarrow> inventory \<Rightarrow> inventory_error + (pk \<times> asset) list" where
  "select_shared_limited_assets en k p q iv = pick_limited p q (shared_candidates en k iv) [] 0"

definition select_shared_unlimited_assets :: "env \<Rightarrow> pk \<Rightarrow> nat \<Rightarrow> inventory \<Rightarrow> inventory_error + (pk \<times> asset) list" where
  "select_shared_unlimited_assets en k q iv =
     (case first_of (shared_candidates en k iv) of
        None \<Rightarrow> Inl (InsufficientStock q 0)
      | Some ka \<Rightarrow> Inr (replicate q ka))"

section \<open>Allocating\<close>

text \<open>\<open>Counter\<close>: keys in order of first occurrence, with their number of occurrences.\<close>

definition selected_asset_counts :: "(pk \<times> asset) list \<Rightarrow> (pk \<times> nat) list" where
  "selected_asset_counts assets =
     map (\<lambda>j. (j, count_list (map fst assets) j)) (unique_list (map fst assets))"

definition assign_asset :: "pk \<times> nat \<Rightarrow> asset table \<Rightarrow> asset table" where
  "assign_asset = (\<lambda>(j, n). modify_where (\<lambda>i _. i = j)
     (\<lambda>a. a\<lparr>as_status := AsAssigned, as_current_allocations := as_current_allocations a + n\<rparr>))"

definition hash_suffix :: "string \<Rightarrow> string" where
  "hash_suffix h = drop (length h - 8) h"

definition new_allocation ::
  "env \<Rightarrow> string \<Rightarrow> pk \<Rightarrow> pk option \<Rightarrow> pk option \<Rightarrow> allocation_mode \<Rightarrow> pk \<times> asset \<Rightarrow> allocation" where
  "new_allocation en src k cup ord mode = (\<lambda>(j, a).
     \<lparr>al_asset = j, al_cup = cup, al_order = ord, al_mode = mode, al_status = AlActive,
      al_allocated_at = e_now en, al_released_at = None,
      al_metadata = [(''source'', JStr src), (''pool_id'', JInt (int k)),
                     (''asset_hash_suffix'', JStr (hash_suffix (as_normalized_hash a)))]\<rparr>)"

fun add_allocations :: "('a \<Rightarrow> allocation) \<Rightarrow> 'a list \<Rightarrow> allocation table \<Rightarrow> pk list \<times> allocation table" where
  "add_allocations f [] t = ([], t)"
| "add_allocations f (x # xs) t =
     (let (j, t1) = add_row (f x) t; (js, t2) = add_allocations f xs t1 in (j # js, t2))"

record allocation_result =
  ar_pool :: pk
  ar_mode :: allocation_mode
  ar_requested :: nat
  ar_assets :: "pk list"
  ar_allocations :: "pk list"

text \<open>The common tail of both allocations: counters first, then one allocation per asset.\<close>

definition record_allocations ::
  "env \<Rightarrow> string \<Rightarrow> pk \<Rightarrow> pk option \<Rightarrow> pk option \<Rightarrow> allocation_mode \<Rightarrow> (pk \<times> asset) list \<Rightarrow> inventory \<Rightarrow>
   allocation_result \<times> inventory" where
  "record_allocations en src k cup ord mode assets iv =
     (let (js, t) = add_allocations (new_allocation en src k cup ord mode) assets (iv_allocations iv)
      in (\<lparr>ar_pool = k, ar_mode = mode, ar_requested = length assets, ar_assets = map fst assets, ar_allocations = js\<rparr>,
          iv\<lparr>iv_assets := fold assign_asset (selected_asset_counts assets) (iv_assets iv), iv_allocations := t\<rparr>))"

datatype mode_request = PoolMode | UseMode allocation_mode | UnknownMode

definition requested_mode :: "mode_request \<Rightarrow> pool \<Rightarrow> allocation_mode option" where
  "requested_mode r p = (case r of PoolMode \<Rightarrow> Some (po_allocation_mode p) | UseMode m \<Rightarrow> Some m | UnknownMode \<Rightarrow> None)"

definition select_assets ::
  "env \<Rightarrow> allocation_mode \<Rightarrow> pk \<Rightarrow> pool \<Rightarrow> nat \<Rightarrow> inventory \<Rightarrow> inventory_error + (pk \<times> asset) list" where
  "select_assets en mode k p q iv =
     (case mode of
        Exclusive \<Rightarrow> select_exclusive_assets en k q iv
      | SharedLimited \<Rightarrow> select_shared_limited_assets en k p q iv
      | SharedUnlimited \<Rightarrow> select_shared_unlimited_assets en k q iv)"

definition allocate_assets_from_pool ::
  "env \<Rightarrow> pk \<Rightarrow> int \<Rightarrow> pk option \<Rightarrow> pk option \<Rightarrow> mode_request \<Rightarrow> inventory \<Rightarrow>
   (inventory_error + allocation_result) \<times> inventory" where
  "allocate_assets_from_pool en k quantity cup ord req iv =
     (case row (iv_pools iv) k of
        None \<Rightarrow> (Inl PoolMissing, iv)
      | Some p \<Rightarrow>
          if nat quantity < 1 then (Inl InvalidQuantity, iv)
          else case requested_mode req p of
            None \<Rightarrow> (Inl InvalidAllocationMode, iv)
          | Some mode \<Rightarrow>
              if \<not> po_is_active p then (Inl PoolInactive, iv)
              else case select_assets en mode k p (nat quantity) iv of
                Inl e \<Rightarrow> (Inl e, iv)
              | Inr assets \<Rightarrow>
                  (case record_allocations en ''inventory_pool'' k cup ord mode assets iv of
                     (r, iv1) \<Rightarrow> (Inr r, iv1)))"

section \<open>Allocating selected assets\<close>

text \<open>An identifier as submitted: \<open>None\<close> when it is not a number.\<close>

fun coerce_asset_ids :: "int option list \<Rightarrow> inventory_error + pk list" where
  "coerce_asset_ids [] = Inr []"
| "coerce_asset_ids (None # _) = Inl InvalidAssetId"
| "coerce_asset_ids (Some n # rest) =
     (if n < 1 then Inl InvalidAssetId
      else case coerce_asset_ids rest of Inl e \<Rightarrow> Inl e | Inr ks \<Rightarrow> Inr (nat n # ks))"

definition validate_selected_asset ::
  "env \<Rightarrow> pk \<Rightarrow> pool \<Rightarrow> allocation_mode \<Rightarrow> nat \<Rightarrow> asset \<Rightarrow> inventory_error + unit" where
  "validate_selected_asset en k p mode n a =
     (if as_pool a \<noteq> k then Inl AssetPoolMismatch
      else if as_status a \<in> {AsDisabled, AsExpired, AsBurned, AsReserved} then Inl AssetNotUsable
      else if (case as_expires_at a of None \<Rightarrow> False | Some t \<Rightarrow> t \<le> e_now en) then Inl AssetExpired
      else if mode = Exclusive then
        (if n \<noteq> 1 \<or> as_status a \<noteq> AsAvailable \<or> as_current_allocations a > 0 then Inl ExclusiveAssetAssigned else Inr ())
      else if as_status a \<notin> {AsAvailable, AsAssigned} then Inl AssetNotAvailable
      else if mode = SharedLimited then
        (case asset_allocation_limit a p of
           None \<Rightarrow> Inr ()
         | Some limit \<Rightarrow> if limit - as_current_allocations a < n then Inl AssetAllocationLimitReached else Inr ())
      else Inr ())"

fun validate_selection ::
  "env \<Rightarrow> pk \<Rightarrow> pool \<Rightarrow> allocation_mode \<Rightarrow> asset table \<Rightarrow> (pk \<times> nat) list \<Rightarrow> inventory_error + unit" where
  "validate_selection en k p mode t [] = Inr ()"
| "validate_selection en k p mode t ((j, n) # rest) =
     (case row t j of
        None \<Rightarrow> Inl AssetNotFound
      | Some a \<Rightarrow>
          (case validate_selected_asset en k p mode n a of
             Inl e \<Rightarrow> Inl e
           | Inr _ \<Rightarrow> validate_selection en k p mode t rest))"

definition allocate_selected_assets_from_pool ::
  "env \<Rightarrow> pk \<Rightarrow> int option list \<Rightarrow> pk option \<Rightarrow> pk option \<Rightarrow> mode_request \<Rightarrow> inventory \<Rightarrow>
   (inventory_error + allocation_result) \<times> inventory" where
  "allocate_selected_assets_from_pool en k ids cup ord req iv =
     (case row (iv_pools iv) k of
        None \<Rightarrow> (Inl PoolMissing, iv)
      | Some p \<Rightarrow>
          (case coerce_asset_ids ids of
             Inl e \<Rightarrow> (Inl e, iv)
           | Inr ks \<Rightarrow>
               if ks = [] then (Inl AssetRequired, iv)
               else case requested_mode req p of
                 None \<Rightarrow> (Inl InvalidAllocationMode, iv)
               | Some mode \<Rightarrow>
                   if \<not> po_is_active p then (Inl PoolInactive, iv)
                   else if list_ex (\<lambda>j. row (iv_assets iv) j = None) ks then (Inl AssetNotFound, iv)
                   else (case validate_selection en k p mode (iv_assets iv)
                                (map (\<lambda>j. (j, count_list ks j)) (unique_list ks)) of
                           Inl e \<Rightarrow> (Inl e, iv)
                         | Inr _ \<Rightarrow>
                             (case record_allocations en ''inventory_pool_manual_selection'' k cup ord mode
                                     (map (\<lambda>j. (j, the (row (iv_assets iv) j))) ks) iv of
                                (r, iv1) \<Rightarrow> (Inr r, iv1)))))"

section \<open>The stock summary\<close>

definition usable_asset :: "env \<Rightarrow> asset \<Rightarrow> bool" where
  "usable_asset en a \<longleftrightarrow> as_status a \<in> {AsAvailable, AsAssigned} \<and> not_expired en a"

record stock_summary =
  ss_asset_count :: nat
  ss_usable_asset_count :: nat
  ss_status_counts :: "asset_status \<Rightarrow> nat"
  ss_available_capacity :: "nat option"

definition available_capacity_of :: "pool \<Rightarrow> asset list \<Rightarrow> nat option" where
  "available_capacity_of p usable =
     (case po_allocation_mode p of
        Exclusive \<Rightarrow> Some (length (filter (\<lambda>a. as_status a = AsAvailable) usable))
      | SharedLimited \<Rightarrow>
          if list_ex (\<lambda>a. asset_allocation_limit a p = None) usable then None
          else Some (sum_list (map (\<lambda>a. the (asset_allocation_limit a p) - as_current_allocations a) usable))
      | SharedUnlimited \<Rightarrow> if usable = [] then Some 0 else None)"

definition get_pool_stock_summary :: "env \<Rightarrow> pk \<Rightarrow> pool \<Rightarrow> inventory \<Rightarrow> stock_summary" where
  "get_pool_stock_summary en k p iv =
     (let assets = map snd (rows_where (\<lambda>_ a. as_pool a = k) (iv_assets iv)); usable = filter (usable_asset en) assets
      in \<lparr>ss_asset_count = length assets, ss_usable_asset_count = length usable,
          ss_status_counts = (\<lambda>s. length (filter (\<lambda>a. as_status a = s) assets)),
          ss_available_capacity = available_capacity_of p usable\<rparr>)"

section \<open>Facts on the choice of assets\<close>

definition slots :: "pool \<Rightarrow> pk \<times> asset \<Rightarrow> nat" where
  "slots p ka = the (asset_allocation_limit (snd ka) p) - as_current_allocations (snd ka)"

lemma count_list_replicate: "count_list (replicate n x) y = (if y = x then n else 0)"
  by (induction n) auto

lemma pick_limited_ok:
  "pick_limited p q cs sel av = Inr r \<Longrightarrow> distinct cs \<Longrightarrow> length sel \<le> q \<Longrightarrow>
   \<exists>more. r = sel @ more \<and> length r = q \<and> set more \<subseteq> set cs \<and>
     (\<forall>ka. asset_allocation_limit (snd ka) p \<noteq> None \<longrightarrow> count_list more ka \<le> slots p ka)"
proof (induction cs arbitrary: sel av)
  case Nil
  then show ?case by simp
next
  case (Cons ka rest)
  show ?case
  proof (cases "asset_allocation_limit (snd ka) p")
    case None
    with Cons.prems show ?thesis by (auto simp: count_list_replicate)
  next
    case (Some limit)
    let ?n = "min (slots p ka) (q - length sel)" and ?av = "av + slots p ka"
    let ?sel = "sel @ replicate ?n ka"
    have step: "pick_limited p q (ka # rest) sel av = (if q \<le> length ?sel then Inr ?sel else pick_limited p q rest ?sel ?av)"
      using Some by (auto simp: Let_def slots_def)
    show ?thesis
    proof (cases "q \<le> length ?sel")
      case True
      with step Cons.prems have "r = ?sel" by simp
      with True Cons.prems show ?thesis by (auto simp: count_list_replicate)
    next
      case False
      have "pick_limited p q rest ?sel ?av = Inr r" using Cons.prems(1) False unfolding step by (simp only: if_False)
      moreover have "distinct rest" "length ?sel \<le> q" using False Cons.prems(2,3) by auto
      ultimately obtain more where m: "r = ?sel @ more" "length r = q" "set more \<subseteq> set rest"
        "\<forall>x. asset_allocation_limit (snd x) p \<noteq> None \<longrightarrow> count_list more x \<le> slots p x"
        using Cons.IH [of ?sel ?av] by blast
      have "ka \<notin> set more" using m(3) Cons.prems by auto
      then have "count_list (replicate ?n ka @ more) x \<le> slots p x" if "asset_allocation_limit (snd x) p \<noteq> None" for x
        using m(4) [rule_format, OF that] by (simp add: count_list_replicate)
      with m(1,2,3) show ?thesis by (intro exI [of _ "replicate ?n ka @ more"]) auto
    qed
  qed
qed

lemma pick_limited_iff:
  "length sel < q \<Longrightarrow> is_ok (pick_limited p q cs sel av) \<longleftrightarrow>
   (\<exists>ka \<in> set cs. asset_allocation_limit (snd ka) p = None) \<or> q \<le> length sel + sum_list (map (slots p) cs)"
proof (induction cs arbitrary: sel av)
  case Nil
  then show ?case by simp
next
  case (Cons ka rest)
  show ?case
  proof (cases "asset_allocation_limit (snd ka) p")
    case None
    then show ?thesis by simp
  next
    case (Some limit)
    then have s: "slots p ka = limit - as_current_allocations (snd ka)" by (simp add: slots_def)
    show ?thesis
    proof (cases "q - length sel \<le> slots p ka")
      case True
      with Some s Cons.prems show ?thesis by (auto simp: Let_def)
    next
      case False
      let ?sel = "sel @ replicate (slots p ka) ka"
      have "pick_limited p q (ka # rest) sel av = pick_limited p q rest ?sel (av + slots p ka)" "length ?sel < q"
        using False Some s by (auto simp: Let_def)
      with Cons.IH [of ?sel "av + slots p ka"] Some show ?thesis by (simp add: add.assoc)
    qed
  qed
qed

lemma distinct_ordered_where: "wf_table t \<Longrightarrow> distinct (ordered_where key P t)"
  by (simp add: ordered_where_def rows_where_def wf_table_def distinct_map)

lemma sum_ordered_where: "sum_list (map f (ordered_where key P t)) = sum_list (map f (rows_where P t))"
  for f :: "_ \<Rightarrow> nat"
proof -
  have "mset (map f (ordered_where key P t)) = mset (map f (rows_where P t))" by (simp add: ordered_where_def)
  then show ?thesis by (simp only: sum_mset_sum_list [symmetric])
qed

lemma length_ordered_where: "length (ordered_where key P t) = length (rows_where P t)"
  by (simp add: ordered_where_def)

lemma candidates_wf:
  assumes "wf_table t"
  shows "inj_on fst (set (ordered_where key P t))"
proof -
  have "a = b" if "(i, a) \<in> set t" "(i, b) \<in> set t" for i a b
    using in_row_Some [OF assms that(1)] in_row_Some [OF assms that(2)] by simp
  then show ?thesis by (auto simp: inj_on_def set_ordered_where)
qed

lemma candidates_rows:
  assumes "wf_table (iv_assets iv)"
  shows "distinct (shared_candidates en k iv)" "inj_on fst (set (shared_candidates en k iv))"
    "(j, a) \<in> set (shared_candidates en k iv) \<Longrightarrow> row (iv_assets iv) j = Some a \<and> as_pool a = k \<and> usable_asset en a"
  using assms distinct_ordered_where candidates_wf
  by (auto simp: shared_candidates_def set_ordered_where usable_asset_def dest: in_row_Some)

lemma exclusive_selected:
  assumes "wf_table (iv_assets iv)" and "select_exclusive_assets en k q iv = Inr assets"
  shows "length assets = q" "distinct (map fst assets)"
    "(j, a) \<in> set assets \<Longrightarrow> row (iv_assets iv) j = Some a \<and> as_pool a = k \<and> as_status a = AsAvailable \<and> not_expired en a"
proof -
  let ?o = "ordered_where (\<lambda>(j, a). (as_created_at a, j))
     (\<lambda>_ a. as_pool a = k \<and> as_status a = AsAvailable \<and> not_expired en a) (iv_assets iv)"
  have t: "assets = take q ?o" "\<not> length (take q ?o) < q" using assms(2) by (auto simp: select_exclusive_assets_def Let_def split: if_splits)
  then show "length assets = q" by simp
  have "distinct (map fst ?o)"
    unfolding distinct_map by (intro conjI distinct_ordered_where candidates_wf assms(1))
  then show "distinct (map fst assets)" by (simp add: t(1) flip: take_map)
  show "row (iv_assets iv) j = Some a \<and> as_pool a = k \<and> as_status a = AsAvailable \<and> not_expired en a" if "(j, a) \<in> set assets"
    using that assms(1) in_set_takeD [of "(j, a)" q ?o] by (auto simp: t(1) set_ordered_where dest: in_row_Some)
qed

lemma limited_selected:
  assumes "wf_table (iv_assets iv)" and "select_shared_limited_assets en k p q iv = Inr assets"
  shows "length assets = q" "set assets \<subseteq> set (shared_candidates en k iv)"
    "(j, a) \<in> set assets \<Longrightarrow> asset_allocation_limit a p = Some l \<Longrightarrow>
     count_list (map fst assets) j \<le> l - as_current_allocations a"
proof -
  let ?c = "shared_candidates en k iv"
  have m: "length assets = q" "set assets \<subseteq> set ?c"
    "\<And>ka. asset_allocation_limit (snd ka) p \<noteq> None \<Longrightarrow> count_list assets ka \<le> slots p ka"
    using pick_limited_ok [OF _ candidates_rows(1) [OF assms(1)], of p q en k "[]" 0 assets] assms(2)
    by (auto simp: select_shared_limited_assets_def)
  then show "length assets = q" "set assets \<subseteq> set ?c" by blast+
  show "count_list (map fst assets) j \<le> l - as_current_allocations a"
    if "(j, a) \<in> set assets" "asset_allocation_limit a p = Some l"
  proof -
    have "inj_on fst (set assets)" by (rule inj_on_subset [OF candidates_rows(2) [OF assms(1)] m(2)])
    from count_list_inj_map [OF this that(1)] m(3) [of "(j, a)"] that(2) show ?thesis by (simp add: slots_def)
  qed
qed

lemma unlimited_selected:
  "select_shared_unlimited_assets en k q iv = Inr assets \<Longrightarrow> length assets = q \<and> set assets \<subseteq> set (shared_candidates en k iv)"
  by (auto simp: select_shared_unlimited_assets_def split: option.splits dest: first_of_Some)

lemma selected_rows:
  assumes "wf_table (iv_assets iv)" and "select_assets en mode k p q iv = Inr assets"
  shows "length assets = q" and "(j, a) \<in> set assets \<Longrightarrow> row (iv_assets iv) j = Some a \<and> as_pool a = k \<and> usable_asset en a"
    and "mode = Exclusive \<Longrightarrow> distinct (map fst assets) \<and> (\<forall>i b. (i, b) \<in> set assets \<longrightarrow> as_status b = AsAvailable)"
    and "mode = SharedLimited \<Longrightarrow> asset_allocation_limit a p = Some l \<Longrightarrow> (j, a) \<in> set assets \<Longrightarrow>
      count_list (map fst assets) j \<le> l - as_current_allocations a"
  using assms exclusive_selected [OF assms(1), of en k q assets] limited_selected [OF assms(1), of en k p q assets]
    unlimited_selected [of en k q iv assets] candidates_rows(3) [OF assms(1), of j a en k]
  by (auto simp: select_assets_def usable_asset_def split: allocation_mode.splits)

section \<open>Facts on the stock summary\<close>

definition capacity_covers :: "nat option \<Rightarrow> nat \<Rightarrow> bool" where
  "capacity_covers c q \<longleftrightarrow> (case c of None \<Rightarrow> True | Some n \<Rightarrow> q \<le> n)"

lemma usable_rows:
  "filter (usable_asset en) (map snd (rows_where (\<lambda>_ a. as_pool a = k) t)) =
   map snd (rows_where (\<lambda>_ a. as_pool a = k \<and> as_status a \<in> {AsAvailable, AsAssigned} \<and> not_expired en a) t)"
  by (simp add: rows_where_def filter_map comp_def case_prod_unfold usable_asset_def conj_commute)

lemma available_rows:
  "length (filter (\<lambda>a. as_status a = AsAvailable) (filter (usable_asset en) (map snd (rows_where (\<lambda>_ a. as_pool a = k) t)))) =
   length (rows_where (\<lambda>_ a. as_pool a = k \<and> as_status a = AsAvailable \<and> not_expired en a) t)"
  unfolding rows_where_def by (induction t) (auto simp: usable_asset_def)

lemma summary_capacity:
  "ss_available_capacity (get_pool_stock_summary en k p iv) =
   (case po_allocation_mode p of
      Exclusive \<Rightarrow> Some (length (rows_where (\<lambda>_ a. as_pool a = k \<and> as_status a = AsAvailable \<and> not_expired en a) (iv_assets iv)))
    | SharedLimited \<Rightarrow>
        if \<exists>ka \<in> set (shared_candidates en k iv). asset_allocation_limit (snd ka) p = None then None
        else Some (sum_list (map (slots p) (shared_candidates en k iv)))
    | SharedUnlimited \<Rightarrow> if shared_candidates en k iv = [] then Some 0 else None)"
proof -
  let ?P = "\<lambda>_ a. as_pool a = k \<and> as_status a \<in> {AsAvailable, AsAssigned} \<and> not_expired en a"
  have r: "set (rows_where ?P (iv_assets iv)) = set (shared_candidates en k iv)"
    by (simp add: shared_candidates_def ordered_where_def)
  have s: "sum_list (map (slots p) (shared_candidates en k iv)) = sum_list (map (slots p) (rows_where ?P (iv_assets iv)))"
    unfolding shared_candidates_def by (rule sum_ordered_where)
  have n: "shared_candidates en k iv = [] \<longleftrightarrow> rows_where ?P (iv_assets iv) = []" unfolding set_empty [symmetric] r ..
  show ?thesis
    unfolding get_pool_stock_summary_def Let_def available_capacity_of_def stock_summary.select_convs available_rows
    unfolding usable_rows n s r [symmetric]
    by (simp only: list_ex_iff set_map bex_simps map_map comp_def slots_def [abs_def] map_is_Nil_conv)
qed

lemma select_iff_covers:
  assumes "0 < q"
  shows "is_ok (select_assets en (po_allocation_mode p) k p q iv) \<longleftrightarrow>
    capacity_covers (ss_available_capacity (get_pool_stock_summary en k p iv)) q"
proof (cases "po_allocation_mode p")
  case Exclusive
  then show ?thesis
    by (auto simp: summary_capacity select_assets_def select_exclusive_assets_def capacity_covers_def Let_def length_ordered_where)
next
  case SharedLimited
  then show ?thesis
    using pick_limited_iff [of "[]" q p "shared_candidates en k iv" 0] assms
    by (auto simp: summary_capacity select_assets_def select_shared_limited_assets_def capacity_covers_def)
next
  case SharedUnlimited
  then show ?thesis
    using assms by (cases "shared_candidates en k iv")
      (auto simp: summary_capacity select_assets_def select_shared_unlimited_assets_def capacity_covers_def)
qed

section \<open>Facts on the effect of an allocation\<close>

lemma row_fold_assign:
  "distinct (map fst cs) \<Longrightarrow> row (fold assign_asset cs t) j =
   (case map_of cs j of None \<Rightarrow> row t j
    | Some n \<Rightarrow> map_option (\<lambda>a. a\<lparr>as_status := AsAssigned, as_current_allocations := as_current_allocations a + n\<rparr>) (row t j))"
proof (induction cs arbitrary: t)
  case Nil
  then show ?case by simp
next
  case (Cons c cs)
  obtain i n where c: "c = (i, n)" by (cases c)
  have "row (assign_asset (i, n) t) j =
    (if j = i then map_option (\<lambda>a. a\<lparr>as_status := AsAssigned, as_current_allocations := as_current_allocations a + n\<rparr>) (row t j) else row t j)"
    by (simp add: assign_asset_def row_modify_where option.map_ident)
  moreover have "map_of cs i = None" using Cons.prems c by (auto simp: map_of_eq_None_iff)
  ultimately show ?case using Cons by (auto simp: c split: option.split)
qed

lemma map_of_counts:
  "map_of (selected_asset_counts assets) j =
   (if j \<in> fst ` set assets then Some (count_list (map fst assets) j) else None)"
  by (simp add: selected_asset_counts_def map_of_map_restrict [of "\<lambda>j. count_list (map fst assets) j"] restrict_map_def)

lemma row_assigned:
  "row (fold assign_asset (selected_asset_counts assets) t) j =
   (if j \<in> fst ` set assets
    then map_option (\<lambda>a. a\<lparr>as_status := AsAssigned,
           as_current_allocations := as_current_allocations a + count_list (map fst assets) j\<rparr>) (row t j)
    else row t j)"
proof -
  have "distinct (map fst (selected_asset_counts assets))" by (simp add: selected_asset_counts_def comp_def)
  from row_fold_assign [OF this, of t j] show ?thesis by (simp add: map_of_counts)
qed

lemma add_allocations_rows:
  "add_allocations f xs t = (js, t') \<Longrightarrow> length js = length xs \<and> map snd t' = map snd t @ map f xs"
  by (induction xs arbitrary: t js) (auto simp: Let_def add_row_def split: prod.splits)

definition taken :: "nat \<Rightarrow> asset \<Rightarrow> asset" where
  "taken n a = a\<lparr>as_status := AsAssigned, as_current_allocations := as_current_allocations a + n\<rparr>"

lemma record_effect:
  assumes "record_allocations en src k cup ord mode assets iv = (r, iv')"
  shows "ar_assets r = map fst assets" "ar_mode r = mode" "iv_pools iv' = iv_pools iv"
    "length (iv_allocations iv') = length (iv_allocations iv) + length assets"
    "row (iv_assets iv') j = (if j \<in> set (ar_assets r) then map_option (taken (count_list (ar_assets r) j)) (row (iv_assets iv) j)
       else row (iv_assets iv) j)"
proof -
  obtain js t where a: "add_allocations (new_allocation en src k cup ord mode) assets (iv_allocations iv) = (js, t)"
    by (rule prod.exhaust)
  have r: "ar_assets r = map fst assets" "ar_mode r = mode" "iv_allocations iv' = t" "iv_pools iv' = iv_pools iv"
    "iv_assets iv' = fold assign_asset (selected_asset_counts assets) (iv_assets iv)"
    using assms a by (auto simp: record_allocations_def)
  then show "ar_assets r = map fst assets" "ar_mode r = mode" "iv_pools iv' = iv_pools iv" by simp_all
  show "length (iv_allocations iv') = length (iv_allocations iv) + length assets"
    using arg_cong [of _ _ length, OF conjunct2 [OF add_allocations_rows [OF a]]] r(3) by simp
  show "row (iv_assets iv') j = (if j \<in> set (ar_assets r) then map_option (taken (count_list (ar_assets r) j)) (row (iv_assets iv) j)
       else row (iv_assets iv) j)"
    by (simp add: r row_assigned taken_def [abs_def])
qed

lemma allocate_cases:
  assumes "allocate_assets_from_pool en k quantity cup ord req iv = (Inr r, iv')"
  obtains p mode assets where "row (iv_pools iv) k = Some p" "po_is_active p" "0 < nat quantity"
    "requested_mode req p = Some mode" "select_assets en mode k p (nat quantity) iv = Inr assets"
    "record_allocations en ''inventory_pool'' k cup ord mode assets iv = (r, iv')"
  using assms by (auto simp: allocate_assets_from_pool_def split: option.splits sum.splits if_splits prod.splits)

lemma validate_selection_ok:
  "validate_selection en k p mode t cs = Inr u \<Longrightarrow> (j, n) \<in> set cs \<Longrightarrow>
   \<exists>a. row t j = Some a \<and> validate_selected_asset en k p mode n a = Inr ()"
  by (induction cs) (auto split: option.splits sum.splits)

lemma selected_cases:
  assumes "allocate_selected_assets_from_pool en k ids cup ord req iv = (Inr r, iv')"
  obtains p mode ks where "row (iv_pools iv) k = Some p" "po_is_active p"
    "\<And>j. j \<in> set ks \<Longrightarrow> \<exists>a. row (iv_assets iv) j = Some a \<and> validate_selected_asset en k p mode (count_list ks j) a = Inr ()"
    "record_allocations en ''inventory_pool_manual_selection'' k cup ord mode
       (map (\<lambda>j. (j, the (row (iv_assets iv) j))) ks) iv = (r, iv')"
proof -
  obtain p mode ks where r: "row (iv_pools iv) k = Some p" "po_is_active p"
    "record_allocations en ''inventory_pool_manual_selection'' k cup ord mode
       (map (\<lambda>j. (j, the (row (iv_assets iv) j))) ks) iv = (r, iv')"
    and v: "is_ok (validate_selection en k p mode (iv_assets iv) (map (\<lambda>j. (j, count_list ks j)) (unique_list ks)))"
    using assms by (auto simp: allocate_selected_assets_from_pool_def split: option.splits sum.splits if_splits prod.splits)
  have "\<exists>a. row (iv_assets iv) j = Some a \<and> validate_selected_asset en k p mode (count_list ks j) a = Inr ()" if "j \<in> set ks" for j
    using v validate_selection_ok [of en k p mode "iv_assets iv" _ _ j "count_list ks j"] that by (auto simp: is_ok_iff)
  with r that show thesis by blast
qed

lemma counted: "j \<in> set ks \<Longrightarrow> 0 < count_list ks j"
  by (metis count_list_0_iff gr0I)

end
