(* ===== verification/Inventory_Laws.thy ===== *)
theory Inventory_Laws
  imports Config_Inventory
begin

text \<open>
  Properties of the configuration inventory: the stock summary is exact, an allocation takes
  exactly what was asked, and the limit of a shared configuration is never exceeded.
\<close>

section \<open>The stock summary\<close>

text \<open>C18. The stock shown for an active pool is exact: an allocation in the mode of the pool succeeds
  if and only if the shown capacity is unlimited or covers the quantity.\<close>

theorem stock_summary_predicts:
  assumes "row (iv_pools iv) k = Some p" and "po_is_active p" and "1 \<le> quantity"
  shows "is_ok (fst (allocate_assets_from_pool en k quantity cup ord PoolMode iv)) \<longleftrightarrow>
    (case ss_available_capacity (get_pool_stock_summary en k p iv) of None \<Rightarrow> True | Some n \<Rightarrow> nat quantity \<le> n)"
proof -
  have "is_ok (fst (allocate_assets_from_pool en k quantity cup ord PoolMode iv)) \<longleftrightarrow>
      is_ok (select_assets en (po_allocation_mode p) k p (nat quantity) iv)"
    using assms by (auto simp: allocate_assets_from_pool_def requested_mode_def split: sum.split prod.split)
  then show ?thesis using select_iff_covers [of "nat quantity" en p k iv] assms(3) by (simp add: capacity_covers_def)
qed

definition sample_pool :: pool where
  "sample_pool = \<lparr>po_title = ''P'', po_connected_plan = None, po_traffic_limit_gb = None, po_duration_days = None,
     po_allocation_mode = SharedLimited, po_max_allocations_per_asset = Some 2, po_is_active = True,
     po_priority = 100, po_metadata = []\<rparr>"

definition sample_asset :: asset where
  "sample_asset = \<lparr>as_created_at = 1, as_pool = 1, as_raw_link = ''vless://a'', as_normalized_hash = ''0123456789'',
     as_protocol = ''vless'', as_remark = [], as_host = ''a'', as_port = None, as_status = AsAvailable,
     as_traffic_limit_gb = None, as_expires_at = None, as_max_allocations = None, as_current_allocations = 1,
     as_source_batch = [], as_metadata = []\<rparr>"

definition sample_inventory :: inventory where
  "sample_inventory = \<lparr>iv_pools = [(1, sample_pool)],
     iv_assets = [(1, sample_asset), (2, sample_asset\<lparr>as_status := AsAssigned\<rparr>)], iv_allocations = []\<rparr>"

definition inventory_env :: env where
  "inventory_env = \<lparr>e_now = 10, e_today = 1, e_code = (\<lambda>_. []), e_uuid = (\<lambda>_. []), e_name = (\<lambda>_. [])\<rparr>"

theorem stock_summary_predicts_witness:
  "ss_available_capacity (get_pool_stock_summary inventory_env 1 sample_pool sample_inventory) = Some 2 \<and>
   is_ok (fst (allocate_assets_from_pool inventory_env 1 2 None None PoolMode sample_inventory)) \<and>
   \<not> is_ok (fst (allocate_assets_from_pool inventory_env 1 3 None None PoolMode sample_inventory))"
proof -
  have c: "ss_available_capacity (get_pool_stock_summary inventory_env 1 sample_pool sample_inventory) = Some 2" by code_simp
  have p: "row (iv_pools sample_inventory) 1 = Some sample_pool" "po_is_active sample_pool"
    by (simp_all add: sample_inventory_def sample_pool_def row_def)
  show ?thesis
    using stock_summary_predicts [OF p, of 2 inventory_env] stock_summary_predicts [OF p, of 3 inventory_env] c by simp
qed

section \<open>Allocation\<close>

text \<open>C19. An allocation takes exactly the quantity asked, from usable assets of the pool: every asset is
  assigned and counts one more use for each time it was taken, all others are untouched, one
  allocation is recorded per configuration; in exclusive mode no asset is given twice and each was
  still available.\<close>

theorem allocation_exact:
  assumes "wf_table (iv_assets iv)" and "allocate_assets_from_pool en k quantity cup ord req iv = (Inr r, iv')"
  shows "length (ar_assets r) = nat quantity \<and> length (iv_allocations iv') = length (iv_allocations iv) + nat quantity \<and>
    (ar_mode r = Exclusive \<longrightarrow> distinct (ar_assets r)) \<and>
    (\<forall>j a. row (iv_assets iv) j = Some a \<longrightarrow> row (iv_assets iv') j = Some
       (if j \<in> set (ar_assets r) then taken (count_list (ar_assets r) j) a else a)) \<and>
    (\<forall>j \<in> set (ar_assets r). \<exists>a. row (iv_assets iv) j = Some a \<and> as_pool a = k \<and> usable_asset en a \<and>
       (ar_mode r = Exclusive \<longrightarrow> as_status a = AsAvailable))"
proof -
  obtain p mode assets where s: "select_assets en mode k p (nat quantity) iv = Inr assets"
    and rec: "record_allocations en ''inventory_pool'' k cup ord mode assets iv = (r, iv')"
    using assms(2) by (rule allocate_cases)
  note e = record_effect [OF rec] and sel = selected_rows [OF assms(1) s]
  have 1: "row (iv_assets iv') j = Some (if j \<in> set (ar_assets r) then taken (count_list (ar_assets r) j) a else a)"
    if "row (iv_assets iv) j = Some a" for j a
    using that e(5) [of j] by simp
  have 2: "\<exists>a. row (iv_assets iv) j = Some a \<and> as_pool a = k \<and> usable_asset en a \<and> (mode = Exclusive \<longrightarrow> as_status a = AsAvailable)"
    if j: "j \<in> set (ar_assets r)" for j
  proof -
    from j obtain a where "(j, a) \<in> set assets" by (auto simp: e(1))
    then show ?thesis using sel(2,3) by blast
  qed
  show ?thesis using sel(1,3) e(1,2,4) 1 2 by simp
qed

definition exclusive_inventory :: inventory where
  "exclusive_inventory = sample_inventory\<lparr>iv_pools := [(1, sample_pool\<lparr>po_allocation_mode := Exclusive\<rparr>)],
     iv_assets := [(1, sample_asset\<lparr>as_current_allocations := 0\<rparr>)]\<rparr>"

theorem allocation_exact_witness:
  "case allocate_assets_from_pool inventory_env 1 1 None (Some 5) PoolMode exclusive_inventory of
     (Inr r, iv') \<Rightarrow> length (ar_assets r) = 1 \<and> distinct (ar_assets r) | _ \<Rightarrow> False"
proof -
  have w: "wf_table (iv_assets exclusive_inventory)" by code_simp
  have "case allocate_assets_from_pool inventory_env 1 1 None (Some 5) PoolMode exclusive_inventory of
     (Inr r, iv') \<Rightarrow> ar_mode r = Exclusive | _ \<Rightarrow> False" by code_simp
  then show ?thesis using allocation_exact [OF w] by (fastforce split: prod.splits sum.splits)
qed



end
