(* ===== verification/Plan_Routes.thy ===== *)
theory Plan_Routes
  imports Selection
begin

text \<open>
  \<open>store/plan_route_services.py\<close> with \<open>source_sellability_issues\<close>: which inbounds can be sold, and
  the bulk editor of plan routes: the preview that counts what would change and the transaction
  that changes it, for single inbounds and for multi-inbound bundles. Message texts are values.
\<close>

section \<open>Inbounds that can be sold\<close>

definition get_valid_sales_inbounds :: "pk option \<Rightarrow> db \<Rightarrow> (pk \<times> inbound) list" where
  "get_valid_sales_inbounds st d =
     ordered_where (\<lambda>(k, i). (case panel_of d i of None \<Rightarrow> [] | Some p \<Rightarrow> pn_name p, ib_inbound_id i, k))
       (\<lambda>_ i. ib_is_active i \<and> ib_available_for_new_orders i \<and> ib_legacy_note i = [] \<and>
          (case panel_of d i of
             None \<Rightarrow> False
           | Some p \<Rightarrow>
               pn_is_active p \<and> store_filter st (pn_store p) \<and>
               \<not> (requires_sellability_verification d i \<and>
                  ib_verification_status i \<in> {Unverified, VerificationFailed}))) (db_inbounds d)"

datatype sales_error =
    SInboundRequired | SInboundInactive | SNotForNewOrders | SLegacy | SNoPanel | SPanelInactive
  | SOtherStore | SVerificationFailed string | SUnverified | SUnknownCompatibility | SNodeMissing
  | SBundleTooSmall | SBundlePanels | SBundlePanelMissing | SBundleNeedsMultiNode

datatype sales_warning =
    WNativeSubscription | WStaleVerification | WDeferredProvisioning | WNotMonitored | WFull

definition source_sellability_issues :: "env \<Rightarrow> db \<Rightarrow> inbound \<Rightarrow> sales_error list \<times> sales_warning list" where
  "source_sellability_issues en d i =
     (if \<not> requires_sellability_verification d i then ([], [])
      else if ib_verification_status i = VerifiedSellable
      then ([], if sellability_verification_is_stale en i then [WStaleVerification] else [])
      else if ib_verification_status i = VerificationFailed
      then ([SVerificationFailed (str_or (ib_last_verification_error_code i) ''verification_failed'')], [])
      else ([SUnverified], []))"

text \<open>The chain on the panel of the inbound.\<close>

definition panel_issues :: "env \<Rightarrow> db \<Rightarrow> pk option \<Rightarrow> inbound \<Rightarrow> sales_error list \<times> sales_warning list" where
  "panel_issues en d st i =
     (case panel_of d i of
        None \<Rightarrow> ([SNoPanel], [])
      | Some p \<Rightarrow>
          if \<not> pn_is_active p then ([SPanelInactive], [])
          else if st \<noteq> None \<and> pn_store p \<noteq> None \<and> pn_store p \<noteq> st then ([SOtherStore], [])
          else if pn_family p = FamPasarguard then
            (case source_sellability_issues en d i of (es, ws) \<Rightarrow> (es, WNativeSubscription # ws))
          else if pn_capability_profile p = UnknownSafe then ([SUnknownCompatibility], [])
          else if pn_capability_profile p \<in> {ModernSingleNode, ModernMultiNode} then ([], [WDeferredProvisioning])
          else ([], []))"

definition sales_inbound_issues ::
  "env \<Rightarrow> db \<Rightarrow> pk option \<Rightarrow> inbound option \<Rightarrow> sales_error list \<times> sales_warning list" where
  "sales_inbound_issues en d st inb =
     (case inb of
        None \<Rightarrow> ([SInboundRequired], [])
      | Some i \<Rightarrow>
          let (es, ws) = panel_issues en d st i
          in ((if ib_is_active i then [] else [SInboundInactive]) @
              (if ib_available_for_new_orders i then [] else [SNotForNewOrders]) @
              (if strip (ib_legacy_note i) = [] then [] else [SLegacy]) @ es @
              (if ib_xui_source i = SynchronizedNode \<and> strip (ib_xui_node_id i) = [] then [SNodeMissing] else []),
              ws @ (if ib_health_monitor_enabled i then [] else [WNotMonitored]) @
              (case ib_max_clients i of
                 None \<Rightarrow> [] | Some m \<Rightarrow> if ib_current_users i \<ge> m then [WFull] else [])))"

definition normalize_inbound_bundle :: "pk list \<Rightarrow> pk list" where
  "normalize_inbound_bundle ks = unique_list ks"

definition sales_inbound_bundle_issues ::
  "env \<Rightarrow> db \<Rightarrow> pk option \<Rightarrow> pk list \<Rightarrow> sales_error list \<times> sales_warning list" where
  "sales_inbound_bundle_issues en d st inbs =
     (let ks = normalize_inbound_bundle inbs;
          rows = List.map_filter (get_inbound d) ks;
          panel = (case rows of [] \<Rightarrow> None | i # _ \<Rightarrow> panel_of d i);
          issues = map (\<lambda>k. sales_inbound_issues en d st (get_inbound d k)) ks
      in if length ks < 2 then ([SBundleTooSmall], [])
         else ((if length (unique_list (map ib_panel rows)) = 1 then [] else [SBundlePanels]) @
               (case panel of
                  None \<Rightarrow> [SBundlePanelMissing]
                | Some p \<Rightarrow>
                    if pn_family p \<noteq> FamPasarguard \<and> pn_capability_profile p \<noteq> ModernMultiNode
                    then [SBundleNeedsMultiNode] else []) @
               concat (map fst issues), concat (map snd issues)))"

section \<open>The bulk request\<close>

datatype route_strategy = SkipExisting | UpdateExisting | AddNew | ReplaceActive | UnknownStrategy

text \<open>Numbers are \<open>None\<close> when the submitted value is not a number.\<close>

record bulk_request =
  bq_store :: "pk option"
  bq_inbound :: "pk option"
  bq_inbounds :: "pk list"
  bq_bundle :: bool
  bq_operator :: "pk option"
  bq_plan_ids :: "int option list"
  bq_all_active :: bool
  bq_priority :: "int option"
  bq_weight :: "int option"
  bq_strategy :: route_strategy
  bq_note :: string

fun positive_ids :: "int option list \<Rightarrow> pk list" where
  "positive_ids [] = []"
| "positive_ids (None # xs) = positive_ids xs"
| "positive_ids (Some n # xs) = (if n \<le> 0 then positive_ids xs else nat n # positive_ids xs)"

definition normalize_plan_ids :: "int option list \<Rightarrow> pk list" where
  "normalize_plan_ids xs = unique_list (positive_ids xs)"

definition get_bulk_route_target_plans :: "bulk_request \<Rightarrow> db \<Rightarrow> (pk \<times> plan) list" where
  "get_bulk_route_target_plans q d =
     (let ids = normalize_plan_ids (bq_plan_ids q)
      in if ids = [] \<and> \<not> bq_all_active q then []
         else ordered_where (\<lambda>(k, p). (pl_sort_order p, pl_price p, k))
                (\<lambda>k p. pl_is_active p \<and> store_filter (bq_store q) (pl_store p) \<and> (ids \<noteq> [] \<longrightarrow> k \<in> set ids)) (db_plans d))"

datatype bulk_error =
    BUnknownStrategy | BNoPlans | BPriorityNegative | BPriorityNotNumber | BWeightTooSmall | BWeightNotNumber
  | BInbound sales_error | BBundleStrategy | BCannotCreate pk | BCannotUpdate pk

datatype bulk_warning = WPlansIgnored nat | WInbound sales_warning | WOperatorSkipped pk | WRouteExists pk

text \<open>What happens to a plan, as the preview announces it (\<open>update\<close>, \<open>create\<close>, \<open>bundle\<close>) and as the
  change reports it (\<open>updated\<close>, \<open>created\<close>, \<open>bundle\<close>); a new route after switching others off is
  \<open>replace\<close> in a preview and \<open>created\<close> afterwards.\<close>

datatype plan_outcome =
    OSkippedOperator | OSkippedExisting | OSkippedSameInbound | OUpdate | OReplace | OCreate | OBundle

record bulk_result =
  br_create :: nat
  br_update :: nat
  br_skip :: nat
  br_deactivate :: nat
  br_errors :: "bulk_error list"
  br_warnings :: "bulk_warning list"
  br_plan_results :: "(pk \<times> plan_outcome) list"
  br_plan_ids :: "pk list"

text \<open>The counters are \<open>to_create\<close>, \<open>to_update\<close>, \<open>to_skip\<close>, \<open>to_deactivate\<close> in a preview and \<open>created\<close>,
  \<open>updated\<close>, \<open>skipped\<close>, \<open>deactivated\<close> after a change.\<close>

definition new_bulk_route_result :: bulk_result where
  "new_bulk_route_result = \<lparr>br_create = 0, br_update = 0, br_skip = 0, br_deactivate = 0, br_errors = [],
     br_warnings = [], br_plan_results = [], br_plan_ids = []\<rparr>"

definition validate_bulk_route_inputs ::
  "env \<Rightarrow> db \<Rightarrow> bulk_request \<Rightarrow> (pk \<times> plan) list \<Rightarrow> bulk_result \<Rightarrow> bulk_result" where
  "validate_bulk_route_inputs en d q plans r =
     (let ids = normalize_plan_ids (bq_plan_ids q);
          (es, ws) = (if bq_bundle q then sales_inbound_bundle_issues en d (bq_store q) (bq_inbounds q)
                      else sales_inbound_issues en d (bq_store q) (Option.bind (bq_inbound q) (get_inbound d)))
      in r\<lparr>br_errors := br_errors r @
             (if bq_strategy q = UnknownStrategy then [BUnknownStrategy] else []) @
             (if \<not> bq_all_active q \<and> ids = [] then [BNoPlans] else []) @
             (case bq_priority q of None \<Rightarrow> [BPriorityNotNumber] | Some n \<Rightarrow> if n < 0 then [BPriorityNegative] else []) @
             (case bq_weight q of None \<Rightarrow> [BWeightNotNumber] | Some n \<Rightarrow> if n < 1 then [BWeightTooSmall] else []) @
             map BInbound es @
             (if bq_bundle q \<and> bq_strategy q \<notin> {ReplaceActive, UpdateExisting} then [BBundleStrategy] else []),
           br_warnings := br_warnings r @
             (if ids \<noteq> [] \<and> length plans \<noteq> length ids then [WPlansIgnored (length ids - length plans)] else []) @
             map WInbound ws\<rparr>)"

section \<open>Routes\<close>

definition plan_accepts_operator :: "db \<Rightarrow> plan \<Rightarrow> pk \<Rightarrow> pk option \<Rightarrow> bool" where
  "plan_accepts_operator d p oper st \<longleftrightarrow>
     oper \<in> set (pl_operators p) \<and>
     (case row (db_operators d) oper of None \<Rightarrow> False | Some op \<Rightarrow> op_is_active op \<and> store_filter st (op_store op))"

definition operator_refused :: "db \<Rightarrow> bulk_request \<Rightarrow> plan \<Rightarrow> bool" where
  "operator_refused d q p \<longleftrightarrow>
     (case bq_operator q of None \<Rightarrow> False | Some o1 \<Rightarrow> \<not> plan_accepts_operator d p o1 (bq_store q))"

definition active_routes_for_plan_operator ::
  "pk \<Rightarrow> pk option \<Rightarrow> pk option \<Rightarrow> db \<Rightarrow> (pk \<times> route) list" where
  "active_routes_for_plan_operator plan_pk oper st d =
     ordered_where (\<lambda>(k, r). (store_route_priority st r, rt_priority r, k))
       (\<lambda>_ r. rt_plan r = plan_pk \<and> rt_is_active r \<and> rt_operator r = oper \<and> store_filter st (rt_store r) \<and>
          (st \<noteq> None \<longrightarrow> store_filter st (Option.bind (route_inbound d r) (\<lambda>(_, i). panel_store d i)))) (db_routes d)"

definition first_route_for_same_inbound :: "pk \<Rightarrow> pk option \<Rightarrow> pk \<Rightarrow> db \<Rightarrow> (pk \<times> route) option" where
  "first_route_for_same_inbound plan_pk oper inb d =
     first_of (ordered_where (\<lambda>(k, r). (if rt_is_active r then 0 else 1 :: nat, rt_priority r, k))
       (\<lambda>_ r. rt_plan r = plan_pk \<and> rt_inbound r = inb \<and> rt_operator r = oper) (db_routes d))"

definition build_new_route :: "bulk_request \<Rightarrow> pk \<Rightarrow> pk \<Rightarrow> int \<Rightarrow> route" where
  "build_new_route q plan_pk inb prio =
     \<lparr>rt_store = bq_store q, rt_plan = plan_pk, rt_operator = bq_operator q, rt_inbound = inb, rt_is_active = True,
      rt_priority = nat prio, rt_weight = nat (the (bq_weight q)), rt_note = bq_note q\<rparr>"

definition update_route_fields :: "bulk_request \<Rightarrow> pk option \<Rightarrow> bool option \<Rightarrow> pk \<Rightarrow> int \<Rightarrow> route \<Rightarrow> route" where
  "update_route_fields q st act inb prio r =
     r\<lparr>rt_store := (case st of None \<Rightarrow> rt_store r | Some s \<Rightarrow> Some s), rt_inbound := inb, rt_priority := nat prio,
       rt_weight := nat (the (bq_weight q)), rt_note := bq_note q,
       rt_is_active := (case act of None \<Rightarrow> rt_is_active r | Some b \<Rightarrow> b)\<rparr>"

text \<open>\<open>full_clean\<close>: the fields, \<open>clean\<close>, and the two unique constraints, which together allow one
  route per plan, operator (or none) and inbound.\<close>

definition route_valid :: "db \<Rightarrow> pk option \<Rightarrow> route \<Rightarrow> bool" where
  "route_valid d self r \<longleftrightarrow>
     1 \<le> rt_weight r \<and> row (db_plans d) (rt_plan r) \<noteq> None \<and> row (db_inbounds d) (rt_inbound r) \<noteq> None \<and>
     (case rt_store r of None \<Rightarrow> True | Some s \<Rightarrow> row (db_stores d) s \<noteq> None) \<and>
     (case rt_operator r of None \<Rightarrow> True | Some o1 \<Rightarrow> row (db_operators d) o1 \<noteq> None) \<and>
     clean_route d r = [] \<and>
     \<not> exists_where (\<lambda>k r2. Some k \<noteq> self \<and> rt_plan r2 = rt_plan r \<and> rt_operator r2 = rt_operator r \<and>
                            rt_inbound r2 = rt_inbound r) (db_routes d)"

definition put_route :: "pk \<Rightarrow> route \<Rightarrow> db \<Rightarrow> db" where
  "put_route k r d = d\<lparr>db_routes := put k r (db_routes d)\<rparr>"

definition add_route :: "route \<Rightarrow> db \<Rightarrow> db" where
  "add_route r d = d\<lparr>db_routes := snd (add_row r (db_routes d))\<rparr>"

text \<open>\<open>full_clean(); save()\<close>: \<open>None\<close> is the raised \<open>ValidationError\<close>.\<close>

definition save_route :: "pk \<Rightarrow> route \<Rightarrow> db \<Rightarrow> db option" where
  "save_route k r d = (if route_valid d (Some k) r then Some (put_route k r d) else None)"

definition insert_route :: "route \<Rightarrow> db \<Rightarrow> db option" where
  "insert_route r d = (if route_valid d None r then Some (add_route r d) else None)"

fun deactivate_routes :: "(pk \<times> route) list \<Rightarrow> db \<Rightarrow> db option" where
  "deactivate_routes [] d = Some d"
| "deactivate_routes ((k, r) # rest) d =
     Option.bind (save_route k (r\<lparr>rt_is_active := False\<rparr>) d) (deactivate_routes rest)"

definition set_plan_bundle_mode :: "bool \<Rightarrow> pk \<Rightarrow> db \<Rightarrow> db" where
  "set_plan_bundle_mode b k d =
     d\<lparr>db_plans := modify_where (\<lambda>j _. j = k) (\<lambda>p. p\<lparr>pl_multi_inbound_bundle := b\<rparr>) (db_plans d)\<rparr>"

definition set_plan_single_inbound_mode :: "pk \<Rightarrow> db \<Rightarrow> db" where
  "set_plan_single_inbound_mode k d = set_plan_bundle_mode False k d"

section \<open>Preview\<close>

definition add_plan_result :: "pk \<Rightarrow> plan_outcome \<Rightarrow> bulk_result \<Rightarrow> bulk_result" where
  "add_plan_result k x r = r\<lparr>br_plan_results := br_plan_results r @ [(k, x)]\<rparr>"

definition skipped :: "pk \<Rightarrow> plan_outcome \<Rightarrow> bulk_warning list \<Rightarrow> bulk_result \<Rightarrow> bulk_result" where
  "skipped k x ws r = (add_plan_result k x r)\<lparr>br_skip := Suc (br_skip r), br_warnings := br_warnings r @ ws\<rparr>"

definition counted_change :: "pk \<Rightarrow> plan_outcome \<Rightarrow> nat \<Rightarrow> nat \<Rightarrow> nat \<Rightarrow> bulk_result \<Rightarrow> bulk_result" where
  "counted_change k x c u x_off r =
     (add_plan_result k x r)\<lparr>br_create := br_create r + c, br_update := br_update r + u,
        br_deactivate := br_deactivate r + x_off\<rparr>"

definition bad_route :: "bulk_error \<Rightarrow> bulk_result \<Rightarrow> bulk_result" where
  "bad_route e r = r\<lparr>br_errors := br_errors r @ [e]\<rparr>"

definition other_routes :: "(pk \<times> route) option \<Rightarrow> (pk \<times> route) list \<Rightarrow> (pk \<times> route) list" where
  "other_routes reuse rs = filter (\<lambda>(k, _). map_option fst reuse \<noteq> Some k) rs"

text \<open>The route of a bundle inbound: the active one, or any route to the same inbound.\<close>

definition bundle_route ::
  "(pk \<times> route) list \<Rightarrow> pk \<Rightarrow> pk option \<Rightarrow> pk \<Rightarrow> db \<Rightarrow> (pk \<times> route) option" where
  "bundle_route active plan_pk oper inb d =
     (case find (\<lambda>(_, r). rt_inbound r = inb) (rev active) of
        Some kr \<Rightarrow> Some kr
      | None \<Rightarrow> first_route_for_same_inbound plan_pk oper inb d)"

fun preview_bundle ::
  "db \<Rightarrow> bulk_request \<Rightarrow> pk \<Rightarrow> (pk \<times> route) list \<Rightarrow> int \<Rightarrow> pk list \<Rightarrow> nat \<times> nat \<times> bulk_error list \<Rightarrow>
   nat \<times> nat \<times> bulk_error list" where
  "preview_bundle d q k active prio [] acc = acc"
| "preview_bundle d q k active prio (inb # inbs) (c, u, es) =
     (case bundle_route active k (bq_operator q) inb d of
        Some (j, r) \<Rightarrow>
          preview_bundle d q k active (prio + 1) inbs (c, Suc u,
            if route_valid d (Some j) (update_route_fields q (bq_store q) (Some True) inb prio r) then es
            else es @ [BCannotUpdate k])
      | None \<Rightarrow>
          preview_bundle d q k active (prio + 1) inbs (Suc c, u,
            if route_valid d None (build_new_route q k inb prio) then es else es @ [BCannotCreate k]))"

definition preview_multi_plan_route_operation :: "db \<Rightarrow> bulk_request \<Rightarrow> pk \<Rightarrow> bulk_result \<Rightarrow> bulk_result" where
  "preview_multi_plan_route_operation d q k res =
     (let inbs = normalize_inbound_bundle (bq_inbounds q);
          active = active_routes_for_plan_operator k (bq_operator q) (bq_store q) d;
          (c, u, es) = preview_bundle d q k active (the (bq_priority q)) inbs (0, 0, []);
          off = length (filter (\<lambda>(_, r). rt_inbound r \<notin> set inbs) active)
      in if es \<noteq> [] then res\<lparr>br_errors := br_errors res @ es\<rparr>
         else counted_change k OBundle c u off res)"

definition preview_plan_route_operation :: "db \<Rightarrow> bulk_request \<Rightarrow> pk \<times> plan \<Rightarrow> bulk_result \<Rightarrow> bulk_result" where
  "preview_plan_route_operation d q kp res =
     (let k = fst kp; inb = the (bq_inbound q); prio = the (bq_priority q);
          active = active_routes_for_plan_operator k (bq_operator q) (bq_store q) d;
          same = first_route_for_same_inbound k (bq_operator q) inb d
      in if operator_refused d q (snd kp)
         then skipped k OSkippedOperator [WOperatorSkipped k] res
         else if bq_bundle q then preview_multi_plan_route_operation d q k res
         else if bq_strategy q = SkipExisting \<and> active \<noteq> [] then skipped k OSkippedExisting [] res
         else if bq_strategy q = AddNew \<and> same \<noteq> None then skipped k OSkippedSameInbound [WRouteExists k] res
         else if bq_strategy q = UpdateExisting \<and> active \<noteq> [] then
           (case active of
              [] \<Rightarrow> res
            | (j, r) # _ \<Rightarrow>
                if route_valid d (Some j) (update_route_fields q None None inb prio r)
                then counted_change k OUpdate 0 1 0 res else bad_route (BCannotUpdate k) res)
         else if bq_strategy q = ReplaceActive then
           (case same of
              Some (j, r) \<Rightarrow>
                if route_valid d (Some j) (update_route_fields q (bq_store q) (Some True) inb prio r)
                then counted_change k OUpdate 0 1 (length (other_routes same active)) res
                else bad_route (BCannotUpdate k) res
            | None \<Rightarrow>
                if route_valid d None (build_new_route q k inb prio)
                then counted_change k OReplace 1 0 (length active) res else bad_route (BCannotCreate k) res)
         else if route_valid d None (build_new_route q k inb prio)
         then counted_change k OCreate 1 0 0 res else bad_route (BCannotCreate k) res)"

definition bulk_start :: "env \<Rightarrow> bulk_request \<Rightarrow> db \<Rightarrow> bulk_result" where
  "bulk_start en q d =
     (let plans = get_bulk_route_target_plans q d
      in validate_bulk_route_inputs en d q plans (new_bulk_route_result\<lparr>br_plan_ids := map fst plans\<rparr>))"

definition preview_bulk_plan_routes :: "env \<Rightarrow> bulk_request \<Rightarrow> db \<Rightarrow> bulk_result" where
  "preview_bulk_plan_routes en q d =
     (let res = bulk_start en q d
      in if br_errors res \<noteq> [] then res
         else fold (preview_plan_route_operation d q) (get_bulk_route_target_plans q d) res)"

section \<open>Applying\<close>

fun apply_bundle ::
  "bulk_request \<Rightarrow> pk \<Rightarrow> (pk \<times> route) list \<Rightarrow> int \<Rightarrow> pk list \<Rightarrow> nat \<times> nat \<Rightarrow> db \<Rightarrow> ((nat \<times> nat) \<times> db) option" where
  "apply_bundle q k active prio [] acc d = Some (acc, d)"
| "apply_bundle q k active prio (inb # inbs) (c, u) d =
     (case bundle_route active k (bq_operator q) inb d of
        Some (j, r) \<Rightarrow>
          Option.bind (save_route j (update_route_fields q (bq_store q) (Some True) inb prio r) d)
            (apply_bundle q k active (prio + 1) inbs (c, Suc u))
      | None \<Rightarrow>
          Option.bind (insert_route (build_new_route q k inb prio) d)
            (apply_bundle q k active (prio + 1) inbs (Suc c, u)))"

definition apply_multi_plan_route_operation ::
  "bulk_request \<Rightarrow> pk \<Rightarrow> bulk_result \<times> db \<Rightarrow> (bulk_result \<times> db) option" where
  "apply_multi_plan_route_operation q k = (\<lambda>(res, d).
     (let inbs = normalize_inbound_bundle (bq_inbounds q);
          active = active_routes_for_plan_operator k (bq_operator q) (bq_store q) d;
          off = filter (\<lambda>(_, r). rt_inbound r \<notin> set inbs) active
      in Option.bind (deactivate_routes off (set_plan_bundle_mode True k d)) (\<lambda>d1.
           map_option (\<lambda>((c, u), d2). (counted_change k OBundle c u (length off) res, d2))
             (apply_bundle q k active (the (bq_priority q)) inbs (0, 0) d1))))"

definition apply_plan_route_operation ::
  "bulk_request \<Rightarrow> pk \<times> plan \<Rightarrow> bulk_result \<times> db \<Rightarrow> (bulk_result \<times> db) option" where
  "apply_plan_route_operation q kp = (\<lambda>(res, d).
     (let k = fst kp; inb = the (bq_inbound q); prio = the (bq_priority q);
          active = active_routes_for_plan_operator k (bq_operator q) (bq_store q) d;
          same = first_route_for_same_inbound k (bq_operator q) inb d
      in if operator_refused d q (snd kp)
         then Some (skipped k OSkippedOperator [WOperatorSkipped k] res, d)
         else if bq_bundle q then apply_multi_plan_route_operation q k (res, d)
         else if bq_strategy q = SkipExisting \<and> active \<noteq> [] then Some (skipped k OSkippedExisting [] res, d)
         else if bq_strategy q = AddNew \<and> same \<noteq> None then Some (skipped k OSkippedSameInbound [WRouteExists k] res, d)
         else if bq_strategy q = UpdateExisting \<and> active \<noteq> [] then
           (case active of
              [] \<Rightarrow> Some (res, d)
            | (j, r) # _ \<Rightarrow>
                map_option (\<lambda>d1. (counted_change k OUpdate 0 1 0 res, d1))
                  (save_route j (update_route_fields q None None inb prio r) (set_plan_single_inbound_mode k d)))
         else if bq_strategy q = ReplaceActive then
           Option.bind (deactivate_routes (other_routes same active) (set_plan_single_inbound_mode k d)) (\<lambda>d1.
             case same of
               Some (j, r) \<Rightarrow>
                 map_option (\<lambda>d2. (counted_change k OUpdate 0 1 (length (other_routes same active)) res, d2))
                   (save_route j (update_route_fields q (bq_store q) (Some True) inb prio r) d1)
             | None \<Rightarrow>
                 map_option (\<lambda>d2. (counted_change k OReplace 1 0 (length (other_routes same active)) res, d2))
                   (insert_route (build_new_route q k inb prio) d1))
         else map_option (\<lambda>d1. (counted_change k OCreate 1 0 0 res, d1))
                (insert_route (build_new_route q k inb prio) (set_plan_single_inbound_mode k d))))"

fun apply_plans :: "bulk_request \<Rightarrow> (pk \<times> plan) list \<Rightarrow> bulk_result \<times> db \<Rightarrow> (bulk_result \<times> db) option" where
  "apply_plans q [] rd = Some rd"
| "apply_plans q (kp # kps) rd = Option.bind (apply_plan_route_operation q kp rd) (apply_plans q kps)"

text \<open>\<open>None\<close>: the transaction raised and was rolled back. A preview with errors is returned as it is.\<close>

definition apply_bulk_plan_routes :: "env \<Rightarrow> bulk_request \<Rightarrow> db \<Rightarrow> bulk_result option \<times> db" where
  "apply_bulk_plan_routes en q d =
     (if br_errors (preview_bulk_plan_routes en q d) \<noteq> [] then (Some (preview_bulk_plan_routes en q d), d)
      else if br_errors (bulk_start en q d) \<noteq> [] then (None, d)
      else case apply_plans q (get_bulk_route_target_plans q d) (bulk_start en q d, d) of
        None \<Rightarrow> (None, d)
      | Some (res, d1) \<Rightarrow> (Some res, d1))"

end
