(* ===== verification/Plan_Routes_Facts.thy ===== *)
theory Plan_Routes_Facts
  imports Plan_Routes
begin

text \<open>
  Why a clean preview of the bulk route editor can be applied: validation of a route depends only on
  the catalogue and on the routes of the same plan and inbound; each write keeps both for the plans
  and inbounds still to come.
\<close>

section \<open>What the bulk editor reads\<close>

definition plan_rows :: "pk \<Rightarrow> db \<Rightarrow> (pk \<times> route) list" where
  "plan_rows k d = rows_where (\<lambda>_ r. rt_plan r = k) (db_routes d)"

definition cell :: "pk \<Rightarrow> pk \<Rightarrow> db \<Rightarrow> (pk \<times> route) list" where
  "cell k inb d = filter (\<lambda>(_, r). rt_inbound r = inb) (plan_rows k d)"

definition owners :: "(pk \<times> route) list \<Rightarrow> (pk \<times> pk option) set" where
  "owners rs = (\<lambda>(j, r). (j, rt_operator r)) ` set rs"

text \<open>The catalogue the validation of routes reads: all but the bundle flag of the plans.\<close>

definition same_catalogue :: "db \<Rightarrow> db \<Rightarrow> bool" where
  "same_catalogue d0 d \<longleftrightarrow> db_inbounds d = db_inbounds d0 \<and> db_panels d = db_panels d0 \<and>
     db_operators d = db_operators d0 \<and> db_stores d = db_stores d0 \<and>
     (\<forall>k. map_option (\<lambda>p. p\<lparr>pl_multi_inbound_bundle := False\<rparr>) (row (db_plans d) k) =
          map_option (\<lambda>p. p\<lparr>pl_multi_inbound_bundle := False\<rparr>) (row (db_plans d0) k))"

lemma same_catalogue_refl [simp]: "same_catalogue d d"
  by (simp add: same_catalogue_def)

lemma same_catalogue_trans: "same_catalogue d0 d1 \<Longrightarrow> same_catalogue d1 d2 \<Longrightarrow> same_catalogue d0 d2"
  by (simp add: same_catalogue_def)

lemma catalogue_updates [simp]:
  "same_catalogue d0 (put_route k r d) = same_catalogue d0 d" "same_catalogue d0 (add_route r d) = same_catalogue d0 d"
  by (simp_all add: same_catalogue_def put_route_def add_route_def)

lemma catalogue_bundle_mode [simp]: "same_catalogue d0 (set_plan_bundle_mode b k d) = same_catalogue d0 d"
proof -
  have "map_option (\<lambda>p. p\<lparr>pl_multi_inbound_bundle := False\<rparr>) (row (db_plans (set_plan_bundle_mode b k d)) j) =
        map_option (\<lambda>p. p\<lparr>pl_multi_inbound_bundle := False\<rparr>) (row (db_plans d) j)" for j
    by (cases "row (db_plans d) j") (simp_all add: set_plan_bundle_mode_def row_modify_where)
  then show ?thesis by (simp add: same_catalogue_def set_plan_bundle_mode_def)
qed

lemma catalogue_plan:
  assumes "same_catalogue d0 d"
  shows "(row (db_plans d) k = None) = (row (db_plans d0) k = None)"
    "Option.bind (row (db_plans d) k) pl_store = Option.bind (row (db_plans d0) k) pl_store"
    "map_option pl_operators (row (db_plans d) k) = map_option pl_operators (row (db_plans d0) k)"
proof -
  let ?f = "\<lambda>p. p\<lparr>pl_multi_inbound_bundle := False\<rparr>"
  have e: "map_option ?f (row (db_plans d) k) = map_option ?f (row (db_plans d0) k)"
    using assms by (simp add: same_catalogue_def)
  then show "(row (db_plans d) k = None) = (row (db_plans d0) k = None)" by (metis option.map_disc_iff)
  have "Option.bind (map_option ?f x) pl_store = Option.bind x pl_store" for x by (cases x) simp_all
  then show "Option.bind (row (db_plans d) k) pl_store = Option.bind (row (db_plans d0) k) pl_store" using e by metis
  have "map_option pl_operators (map_option ?f x) = map_option pl_operators x" for x by (cases x) simp_all
  then show "map_option pl_operators (row (db_plans d) k) = map_option pl_operators (row (db_plans d0) k)" using e by metis
qed

lemma catalogue_panel: "same_catalogue d0 d \<Longrightarrow> panel_of d = panel_of d0"
  by (simp add: fun_eq_iff panel_of_def same_catalogue_def)

lemma clean_route_cong:
  assumes "same_catalogue d0 d"
  shows "clean_route d r = clean_route d0 r"
proof -
  note c = catalogue_plan [OF assms] catalogue_panel [OF assms]
  have e: "db_inbounds d = db_inbounds d0" "db_operators d = db_operators d0"
    using assms by (simp_all add: same_catalogue_def)
  have o: "route_operator_error d p x = route_operator_error d0 p x" for p x
    using c(3) [of p] by (auto simp: route_operator_error_def e split: option.split)
  have i: "route_inbound_error d x = route_inbound_error d0 x" for x
    by (simp add: route_inbound_error_def requires_sellability_verification_def c(4) split: option.split)
  have w: "route_ownership_errors d r = route_ownership_errors d0 r"
    by (simp add: route_ownership_errors_def Let_def c(2,4) e)
  show ?thesis unfolding clean_route_def w o i e ..
qed

lemma exists_cell:
  "exists_where (\<lambda>k r2. Some k \<noteq> self \<and> rt_plan r2 = rt_plan r \<and> rt_operator r2 = rt_operator r \<and> rt_inbound r2 = rt_inbound r) (db_routes d)
   \<longleftrightarrow> (\<exists>j. Some j \<noteq> self \<and> (j, rt_operator r) \<in> owners (cell (rt_plan r) (rt_inbound r) d))"
  by (auto simp: exists_where_iff owners_def cell_def plan_rows_def set_rows_where image_iff) metis+

lemma route_valid_cong:
  assumes "same_catalogue d0 d"
    and "owners (cell (rt_plan r) (rt_inbound r) d) = owners (cell (rt_plan r) (rt_inbound r) d0)"
  shows "route_valid d self r = route_valid d0 self r"
proof -
  have e: "db_inbounds d = db_inbounds d0" "db_operators d = db_operators d0" "db_stores d = db_stores d0"
    using assms by (simp_all add: same_catalogue_def)
  show ?thesis
    unfolding route_valid_def exists_cell clean_route_cong [OF assms(1)] e assms(2) catalogue_plan(1) [OF assms(1)] ..
qed

lemma active_routes_cong:
  assumes "same_catalogue d0 d" and "plan_rows k d = plan_rows k d0"
  shows "active_routes_for_plan_operator k oper st d = active_routes_for_plan_operator k oper st d0"
proof -
  have f: "rows_where (\<lambda>_ r. rt_plan r = k \<and> Q r) (db_routes x) = filter (\<lambda>(_, r). Q r) (plan_rows k x)" for Q x
    by (simp add: plan_rows_def rows_where_def case_prod_unfold conj_commute)
  have "route_inbound d = route_inbound d0" "panel_store d = panel_store d0"
    using assms(1) catalogue_panel [OF assms(1)] by (simp_all add: fun_eq_iff route_inbound_def panel_store_def same_catalogue_def)
  then show ?thesis by (simp add: active_routes_for_plan_operator_def ordered_where_def f assms(2))
qed

lemma same_inbound_cong:
  assumes "cell k inb d = cell k inb d0"
  shows "first_route_for_same_inbound k oper inb d = first_route_for_same_inbound k oper inb d0"
proof -
  have "rows_where (\<lambda>_ r. rt_plan r = k \<and> rt_inbound r = inb \<and> Q r) (db_routes x) = filter (\<lambda>(_, r). Q r) (cell k inb x)" for Q x
    by (simp add: cell_def plan_rows_def rows_where_def case_prod_unfold conj_ac)
  then show ?thesis by (simp add: first_route_for_same_inbound_def ordered_where_def assms)
qed

section \<open>What the bulk editor writes\<close>

definition replaced :: "pk \<Rightarrow> route \<Rightarrow> (pk \<times> route) list \<Rightarrow> (pk \<times> route) list" where
  "replaced k r' = map (\<lambda>(j, x). (j, if j = k then r' else x))"

lemma plan_rows_put:
  assumes "wf_table (db_routes d)" and "(k, r) \<in> set (db_routes d)" and "rt_plan r' = rt_plan r"
  shows "plan_rows p (put_route k r' d) = replaced k r' (plan_rows p d)"
proof -
  have "rt_plan x = rt_plan r" if "(k, x) \<in> set (db_routes d)" for x
    using in_row_Some [OF assms(1,2)] in_row_Some [OF assms(1) that] by simp
  then have "filter (\<lambda>(k, r). rt_plan r = p) (map (\<lambda>(j, x). (j, if j = k then r' else x)) t) =
      map (\<lambda>(j, x). (j, if j = k then r' else x)) (filter (\<lambda>(k, r). rt_plan r = p) t)" if "set t \<subseteq> set (db_routes d)" for t
    using that assms(3) by (induction t) (auto split: if_splits)
  moreover have "k \<in> fst ` set (db_routes d)" using assms(2) by force
  ultimately show ?thesis
    using put_existing [OF assms(1)] by (simp add: plan_rows_def put_route_def rows_where_def modify_where_def replaced_def)
qed

lemma replaced_other: "k \<notin> fst ` set rs \<Longrightarrow> replaced k r' rs = rs"
  unfolding replaced_def by (induction rs) auto

lemma plan_rows_put_other:
  assumes "wf_table (db_routes d)" and "(k, r) \<in> set (db_routes d)" and "rt_plan r' = rt_plan r" and "p \<noteq> rt_plan r"
  shows "plan_rows p (put_route k r' d) = plan_rows p d"
proof -
  have "k \<notin> fst ` set (plan_rows p d)"
    using assms(2,4) in_row_Some [OF assms(1)] by (auto simp: plan_rows_def set_rows_where) (metis option.inject)
  then show ?thesis by (simp add: plan_rows_put [OF assms(1,2,3)] replaced_other)
qed

lemma cell_put:
  assumes "wf_table (db_routes d)" and "(k, r) \<in> set (db_routes d)" and "rt_plan r' = rt_plan r" and "rt_inbound r' = rt_inbound r"
  shows "cell p inb (put_route k r' d) = replaced k r' (cell p inb d)"
proof -
  have "rt_inbound x = rt_inbound r" if "(k, x) \<in> set (db_routes d)" for x
    using in_row_Some [OF assms(1,2)] in_row_Some [OF assms(1) that] by simp
  then have "filter (\<lambda>(k, r). rt_inbound r = inb) (replaced k r' t) = replaced k r' (filter (\<lambda>(k, r). rt_inbound r = inb) t)"
    if "set t \<subseteq> set (db_routes d)" for t
    using that assms(4) unfolding replaced_def by (induction t) (auto split: if_splits)
  moreover have "set (plan_rows p d) \<subseteq> set (db_routes d)" by (auto simp: plan_rows_def rows_where_def)
  ultimately show ?thesis by (simp add: cell_def plan_rows_put [OF assms(1,2,3)])
qed

lemma cell_put_other:
  assumes "wf_table (db_routes d)" and "(k, r) \<in> set (db_routes d)" and "rt_plan r' = rt_plan r" and "rt_inbound r' = rt_inbound r"
    and "inb \<noteq> rt_inbound r"
  shows "cell p inb (put_route k r' d) = cell p inb d"
proof -
  have "k \<notin> fst ` set (cell p inb d)"
    using assms(2,5) in_row_Some [OF assms(1)] by (auto simp: cell_def plan_rows_def set_rows_where) (metis option.inject)
  then show ?thesis by (simp add: cell_put [OF assms(1,2,3,4)] replaced_other)
qed

lemma owners_replaced:
  "(\<And>x. (k, x) \<in> set rs \<Longrightarrow> rt_operator x = rt_operator r') \<Longrightarrow> owners (replaced k r' rs) = owners rs"
  unfolding replaced_def owners_def image_image set_map by (intro image_cong) auto

lemma owners_put:
  assumes "wf_table (db_routes d)" and "(k, r) \<in> set (db_routes d)" and "rt_plan r' = rt_plan r" and "rt_inbound r' = rt_inbound r"
    and "rt_operator r' = rt_operator r"
  shows "owners (cell p inb (put_route k r' d)) = owners (cell p inb d)"
  unfolding cell_put [OF assms(1,2,3,4)]
proof (rule owners_replaced)
  fix x assume "(k, x) \<in> set (cell p inb d)"
  then have "(k, x) \<in> set (db_routes d)" by (auto simp: cell_def plan_rows_def set_rows_where)
  then show "rt_operator x = rt_operator r'" using in_row_Some [OF assms(1,2)] in_row_Some [OF assms(1)] assms(5) by fastforce
qed

lemma rows_add: "plan_rows p (add_route r d) = plan_rows p d @ (if rt_plan r = p then [(fresh_pk (db_routes d), r)] else [])"
  by (simp add: plan_rows_def add_route_def add_row_def rows_where_def)

lemma cell_add_other: "inb \<noteq> rt_inbound r \<Longrightarrow> cell p inb (add_route r d) = cell p inb d"
  by (simp add: cell_def rows_add)

lemma wf_writes [simp]:
  "wf_table (db_routes d) \<Longrightarrow> wf_table (db_routes (put_route k r d))"
  "wf_table (db_routes d) \<Longrightarrow> wf_table (db_routes (add_route r d))"
  by (simp_all add: put_route_def add_route_def add_row_def)

lemma bundle_mode_routes [simp]: "db_routes (set_plan_bundle_mode b k d) = db_routes d"
  by (simp add: set_plan_bundle_mode_def)

lemma bundle_mode_rows [simp]:
  "plan_rows p (set_plan_bundle_mode b k d) = plan_rows p d" "cell p inb (set_plan_bundle_mode b k d) = cell p inb d"
  by (simp_all add: plan_rows_def cell_def)

lemma deactivate_ok:
  assumes "wf_table (db_routes d)" and "distinct (map fst rs)"
    and "\<And>k r. (k, r) \<in> set rs \<Longrightarrow> (k, r) \<in> set (db_routes d) \<and> rt_plan r = p \<and> route_valid d (Some k) (r\<lparr>rt_is_active := False\<rparr>)"
  shows "\<exists>d'. deactivate_routes rs d = Some d' \<and> wf_table (db_routes d') \<and> same_catalogue d d' \<and>
    (\<forall>p'. p' \<noteq> p \<longrightarrow> plan_rows p' d' = plan_rows p' d) \<and> (\<forall>inb. owners (cell p inb d') = owners (cell p inb d)) \<and>
    (\<forall>inb. inb \<notin> (rt_inbound \<circ> snd) ` set rs \<longrightarrow> cell p inb d' = cell p inb d) \<and>
    (\<forall>j x. j \<notin> fst ` set rs \<longrightarrow> (j, x) \<in> set (db_routes d) \<longrightarrow> (j, x) \<in> set (db_routes d'))"
  using assms
proof (induction rs arbitrary: d)
  case Nil
  then show ?case by simp
next
  case (Cons kr rs)
  obtain k r where kr: "kr = (k, r)" by (cases kr)
  let ?r = "r\<lparr>rt_is_active := False\<rparr>"
  have r: "(k, r) \<in> set (db_routes d)" "rt_plan r = p" "route_valid d (Some k) ?r" using Cons.prems(3) [of k r] kr by auto
  let ?d = "put_route k ?r d"
  have own: "owners (cell q inb ?d) = owners (cell q inb d)" for q inb
    by (rule owners_put [OF Cons.prems(1) r(1)]) simp_all
  have rows: "(j, x) \<in> set (db_routes ?d)" if "(j, x) \<in> set (db_routes d)" "j \<noteq> k" for j x
    using that set_put [OF Cons.prems(1), of j x k ?r] by (simp add: put_route_def)
  have prems: "(j, x) \<in> set (db_routes ?d) \<and> rt_plan x = p \<and> route_valid ?d (Some j) (x\<lparr>rt_is_active := False\<rparr>)"
    if "(j, x) \<in> set rs" for j x
  proof -
    have "j \<noteq> k" using that Cons.prems(2) kr by (auto simp: image_iff)
    moreover have "(j, x) \<in> set (db_routes d) \<and> rt_plan x = p \<and> route_valid d (Some j) (x\<lparr>rt_is_active := False\<rparr>)"
      using Cons.prems(3) [of j x] that by simp
    ultimately show ?thesis using rows route_valid_cong [of d ?d "x\<lparr>rt_is_active := False\<rparr>" "Some j"] own by simp
  qed
  have w: "wf_table (db_routes ?d)" using Cons.prems(1) by simp
  obtain d' where d': "deactivate_routes rs ?d = Some d'" "wf_table (db_routes d')" "same_catalogue ?d d'"
    "\<forall>p'. p' \<noteq> p \<longrightarrow> plan_rows p' d' = plan_rows p' ?d" "\<forall>inb. owners (cell p inb d') = owners (cell p inb ?d)"
    "\<forall>inb. inb \<notin> (rt_inbound \<circ> snd) ` set rs \<longrightarrow> cell p inb d' = cell p inb ?d"
    "\<forall>j x. j \<notin> fst ` set rs \<longrightarrow> (j, x) \<in> set (db_routes ?d) \<longrightarrow> (j, x) \<in> set (db_routes d')"
    using Cons.IH [OF w] Cons.prems(2) prems kr by auto
  have "deactivate_routes (kr # rs) d = Some d'" using d'(1) r(3) by (simp add: kr save_route_def)
  moreover have "same_catalogue d d'" using d'(3) by (simp add: same_catalogue_def put_route_def)
  moreover have "plan_rows p' ?d = plan_rows p' d" if "p' \<noteq> p" for p'
    by (rule plan_rows_put_other [OF Cons.prems(1) r(1)]) (simp_all add: that r(2))
  moreover have "cell p inb ?d = cell p inb d" if "inb \<noteq> rt_inbound r" for inb
    by (rule cell_put_other [OF Cons.prems(1) r(1)]) (simp_all add: that)
  ultimately show ?case using d' own rows kr by (intro exI [of _ d']) auto
qed

lemma find_Some_in: "find P xs = Some x \<Longrightarrow> x \<in> set xs \<and> P x"
  by (induction xs) (auto split: if_splits)

lemma cell_rows: "(j, r) \<in> set (cell k inb d) \<longleftrightarrow> (j, r) \<in> set (db_routes d) \<and> rt_plan r = k \<and> rt_inbound r = inb"
  by (auto simp: cell_def plan_rows_def set_rows_where)

lemma same_inbound_row:
  "first_route_for_same_inbound k oper inb d = Some (j, r) \<Longrightarrow> (j, r) \<in> set (cell k inb d) \<and> rt_operator r = oper"
  by (auto simp: first_route_for_same_inbound_def cell_rows set_ordered_where dest!: first_of_Some)

lemma active_route_row:
  "(j, r) \<in> set (active_routes_for_plan_operator k oper st d) \<Longrightarrow>
   (j, r) \<in> set (db_routes d) \<and> rt_plan r = k \<and> rt_operator r = oper \<and> rt_is_active r"
  by (auto simp: active_routes_for_plan_operator_def set_ordered_where)

lemma distinct_active: "wf_table (db_routes d) \<Longrightarrow> distinct (map fst (active_routes_for_plan_operator k oper st d))"
  unfolding active_routes_for_plan_operator_def distinct_map
  by (auto simp: ordered_where_def rows_where_def wf_table_def distinct_map intro: inj_on_subset)

lemma bundle_route_row:
  assumes "bundle_route active k oper inb d = Some (j, r)" and "cell k inb d = cell k inb d0"
    and "\<And>i x. (i, x) \<in> set active \<Longrightarrow> (i, x) \<in> set (db_routes d0) \<and> rt_plan x = k \<and> rt_operator x = oper"
  shows "(j, r) \<in> set (db_routes d) \<and> rt_plan r = k \<and> rt_inbound r = inb \<and> rt_operator r = oper"
proof (cases "find (\<lambda>(_, r). rt_inbound r = inb) (rev active)")
  case None
  with assms(1) show ?thesis using same_inbound_row [of k oper inb d j r] by (simp add: bundle_route_def cell_rows)
next
  case (Some x)
  with assms(1) have "find (\<lambda>(_, r). rt_inbound r = inb) (rev active) = Some (j, r)" by (simp add: bundle_route_def)
  then have "(j, r) \<in> set active" "rt_inbound r = inb" using find_Some_in by fastforce+
  with assms(3) [of j r] have "(j, r) \<in> set (cell k inb d0)" "rt_operator r = oper" by (auto simp: cell_rows)
  with assms(2) show ?thesis using cell_rows [of j r k inb d] by simp
qed

lemma bundle_route_cong:
  assumes "cell k inb d = cell k inb d0"
  shows "bundle_route active k oper inb d = bundle_route active k oper inb d0"
  unfolding bundle_route_def same_inbound_cong [OF assms] ..

lemma preview_bundle_errors: "snd (snd (preview_bundle d q k active prio inbs (c, u, es))) = [] \<Longrightarrow> es = []"
proof (induction inbs arbitrary: prio c u es)
  case Nil
  then show ?case by simp
next
  case (Cons inb inbs)
  show ?case
  proof (cases "bundle_route active k (bq_operator q) inb d")
    case None
    with Cons.prems Cons.IH [of "prio + 1" "Suc c" u "if route_valid d None (build_new_route q k inb prio) then es else es @ [BCannotCreate k]"]
    show ?thesis by (simp split: if_splits)
  next
    case (Some jr)
    with Cons.prems Cons.IH [of "prio + 1" c "Suc u" "if route_valid d (Some (fst jr)) (update_route_fields q (bq_store q) (Some True) inb prio (snd jr))
      then es else es @ [BCannotUpdate k]"]
    show ?thesis by (cases jr) (simp split: if_splits)
  qed
qed

lemma update_route_keeps [simp]:
  "rt_plan (update_route_fields q st act inb prio r) = rt_plan r"
  "rt_operator (update_route_fields q st act inb prio r) = rt_operator r"
  "rt_inbound (update_route_fields q st act inb prio r) = inb"
  by (simp_all add: update_route_fields_def)

lemma build_route_fields [simp]:
  "rt_plan (build_new_route q k inb prio) = k" "rt_operator (build_new_route q k inb prio) = bq_operator q"
  "rt_inbound (build_new_route q k inb prio) = inb"
  by (simp_all add: build_new_route_def)

lemma apply_bundle_ok:
  assumes "\<And>i x. (i, x) \<in> set active \<Longrightarrow> (i, x) \<in> set (db_routes d0) \<and> rt_plan x = k \<and> rt_operator x = bq_operator q"
  shows "distinct inbs \<Longrightarrow> wf_table (db_routes d) \<Longrightarrow> same_catalogue d0 d \<Longrightarrow> (\<And>inb. inb \<in> set inbs \<Longrightarrow> cell k inb d = cell k inb d0) \<Longrightarrow>
    preview_bundle d0 q k active prio inbs (c, u, []) = (c', u', []) \<Longrightarrow>
    \<exists>d'. apply_bundle q k active prio inbs (c, u) d = Some ((c', u'), d') \<and> wf_table (db_routes d') \<and> same_catalogue d0 d' \<and>
      (\<forall>p'. p' \<noteq> k \<longrightarrow> plan_rows p' d' = plan_rows p' d)"
proof (induction inbs arbitrary: prio c u d)
  case Nil
  then show ?case by simp
next
  case (Cons inb inbs)
  have cell: "cell k inb d = cell k inb d0" using Cons.prems(4) by simp
  have more: "cell k i d = cell k i d0" "i \<noteq> inb" if "i \<in> set inbs" for i using that Cons.prems(1,4) by auto
  show ?case
  proof (cases "bundle_route active k (bq_operator q) inb d0")
    case (Some jr)
    obtain j r where jr: "jr = (j, r)" by (cases jr)
    let ?r = "update_route_fields q (bq_store q) (Some True) inb prio r" and ?d = "put_route j (update_route_fields q (bq_store q) (Some True) inb prio r) d"
    have b: "bundle_route active k (bq_operator q) inb d = Some (j, r)" using Some jr bundle_route_cong [OF cell] by simp
    have row: "(j, r) \<in> set (db_routes d)" "rt_plan r = k" "rt_inbound r = inb" using bundle_route_row [OF b cell assms] by auto
    have v0: "route_valid d0 (Some j) ?r"
    proof (rule ccontr)
      assume "\<not> route_valid d0 (Some j) ?r"
      with Cons.prems(5) Some jr preview_bundle_errors [of d0 q k active "prio + 1" inbs c "Suc u" "[BCannotUpdate k]"] show False by simp
    qed
    have v: "route_valid d (Some j) ?r" using v0 route_valid_cong [of d0 d ?r "Some j"] Cons.prems(3) cell row by simp
    have "cell k i ?d = cell k i d0" if "i \<in> set inbs" for i
      using cell_put_other [OF Cons.prems(2) row(1), of ?r i k] more [OF that] row by simp
    moreover have "preview_bundle d0 q k active (prio + 1) inbs (c, Suc u, []) = (c', u', [])" using Cons.prems(5) Some jr v0 by simp
    ultimately obtain d' where d': "apply_bundle q k active (prio + 1) inbs (c, Suc u) ?d = Some ((c', u'), d')"
      "wf_table (db_routes d')" "same_catalogue d0 d'" "\<forall>p'. p' \<noteq> k \<longrightarrow> plan_rows p' d' = plan_rows p' ?d"
      using Cons.IH [of ?d "prio + 1" c "Suc u"] Cons.prems(1,2,3) by auto
    have "plan_rows p' ?d = plan_rows p' d" if "p' \<noteq> k" for p'
      by (rule plan_rows_put_other [OF Cons.prems(2) row(1)]) (simp_all add: that row(2))
    with d' b v show ?thesis by (intro exI [of _ d']) (simp add: save_route_def)
  next
    case None
    let ?r = "build_new_route q k inb prio" and ?d = "add_route (build_new_route q k inb prio) d"
    have b: "bundle_route active k (bq_operator q) inb d = None" using None bundle_route_cong [OF cell] by simp
    have v0: "route_valid d0 None ?r"
    proof (rule ccontr)
      assume "\<not> route_valid d0 None ?r"
      with Cons.prems(5) None preview_bundle_errors [of d0 q k active "prio + 1" inbs "Suc c" u "[BCannotCreate k]"] show False by simp
    qed
    have v: "route_valid d None ?r" using v0 route_valid_cong [of d0 d ?r None] Cons.prems(3) cell by simp
    have "cell k i ?d = cell k i d0" if "i \<in> set inbs" for i
      using cell_add_other [of i ?r k d] more [OF that] by simp
    moreover have "preview_bundle d0 q k active (prio + 1) inbs (Suc c, u, []) = (c', u', [])" using Cons.prems(5) None v0 by simp
    ultimately obtain d' where d': "apply_bundle q k active (prio + 1) inbs (Suc c, u) ?d = Some ((c', u'), d')"
      "wf_table (db_routes d')" "same_catalogue d0 d'" "\<forall>p'. p' \<noteq> k \<longrightarrow> plan_rows p' d' = plan_rows p' ?d"
      using Cons.IH [of ?d "prio + 1" "Suc c" u] Cons.prems(1,2,3) by auto
    with b v show ?thesis by (intro exI [of _ d']) (simp add: insert_route_def rows_add)
  qed
qed

section \<open>One plan\<close>

definition retirable :: "db \<Rightarrow> bool" where
  "retirable d \<longleftrightarrow> wf_table (db_routes d) \<and>
     (\<forall>j r. (j, r) \<in> set (db_routes d) \<and> rt_is_active r \<longrightarrow> route_valid d (Some j) (r\<lparr>rt_is_active := False\<rparr>))"

text \<open>The database \<open>d\<close> in the middle of a bulk change that started at \<open>d0\<close>, before plan \<open>k\<close>.\<close>

definition midway :: "db \<Rightarrow> pk \<Rightarrow> db \<Rightarrow> bool" where
  "midway d0 k d \<longleftrightarrow> wf_table (db_routes d) \<and> same_catalogue d0 d \<and> plan_rows k d = plan_rows k d0"

definition only_plan :: "pk \<Rightarrow> db \<Rightarrow> db \<Rightarrow> bool" where
  "only_plan k d d' \<longleftrightarrow> wf_table (db_routes d') \<and> same_catalogue d d' \<and> (\<forall>p. p \<noteq> k \<longrightarrow> plan_rows p d' = plan_rows p d)"

lemma midway_rows: "midway d0 k d \<Longrightarrow> rt_plan r = k \<Longrightarrow> (j, r) \<in> set (db_routes d) \<longleftrightarrow> (j, r) \<in> set (db_routes d0)"
proof -
  assume "midway d0 k d" "rt_plan r = k"
  moreover have "(j, r) \<in> set (plan_rows k x) \<longleftrightarrow> (j, r) \<in> set (db_routes x)" if "rt_plan r = k" for x
    using that by (simp add: plan_rows_def set_rows_where)
  ultimately show ?thesis by (simp add: midway_def) metis
qed

lemma midway_cell: "midway d0 k d \<Longrightarrow> cell k inb d = cell k inb d0"
  by (simp add: midway_def cell_def)

lemma midway_valid: "midway d0 k d \<Longrightarrow> rt_plan r = k \<Longrightarrow> route_valid d self r = route_valid d0 self r"
  by (rule route_valid_cong) (simp_all add: midway_def cell_def)

lemma midway_bundle_mode [simp]: "midway d0 k (set_plan_bundle_mode b j d) = midway d0 k d"
  by (simp add: midway_def)

lemma midway_saves:
  assumes "midway d0 k d" and "(j, r) \<in> set (db_routes d)" and "rt_plan r = k" and "route_valid d0 (Some j) r'" and "rt_plan r' = k"
  shows "\<exists>d'. save_route j r' d = Some d' \<and> only_plan k d d'"
proof -
  have w: "wf_table (db_routes d)" using assms(1) by (simp add: midway_def)
  have "plan_rows p (put_route j r' d) = plan_rows p d" if "p \<noteq> k" for p
    by (rule plan_rows_put_other [OF w assms(2)]) (simp_all add: assms that)
  then show ?thesis using assms w midway_valid [OF assms(1,5)] by (simp add: save_route_def only_plan_def)
qed

lemma midway_inserts:
  assumes "midway d0 k d" and "route_valid d0 None r" and "rt_plan r = k"
  shows "\<exists>d'. insert_route r d = Some d' \<and> only_plan k d d'"
  using assms midway_valid [OF assms(1,3)] by (auto simp: insert_route_def only_plan_def rows_add midway_def)

lemma midway_deactivates:
  assumes "midway d0 k d" and "retirable d0" and "distinct (map fst rs)"
    and "set rs \<subseteq> set (active_routes_for_plan_operator k oper st d0)"
  shows "\<exists>d'. deactivate_routes rs d = Some d' \<and> only_plan k d d' \<and> (\<forall>inb. owners (cell k inb d') = owners (cell k inb d)) \<and>
    (\<forall>inb. inb \<notin> (rt_inbound \<circ> snd) ` set rs \<longrightarrow> cell k inb d' = cell k inb d) \<and>
    (\<forall>j x. j \<notin> fst ` set rs \<longrightarrow> (j, x) \<in> set (db_routes d) \<longrightarrow> (j, x) \<in> set (db_routes d'))"
proof -
  have "(j, r) \<in> set (db_routes d) \<and> rt_plan r = k \<and> route_valid d (Some j) (r\<lparr>rt_is_active := False\<rparr>)" if "(j, r) \<in> set rs" for j r
  proof -
    have a: "(j, r) \<in> set (db_routes d0)" "rt_plan r = k" "rt_is_active r"
      using that assms(4) active_route_row [of j r k oper st d0] by auto
    then have "route_valid d0 (Some j) (r\<lparr>rt_is_active := False\<rparr>)" using assms(2) by (auto simp: retirable_def)
    with a show ?thesis using midway_rows [OF assms(1) a(2)] midway_valid [OF assms(1), of "r\<lparr>rt_is_active := False\<rparr>"] by simp
  qed
  from deactivate_ok [OF _ assms(3) this] assms(1) show ?thesis by (auto simp: midway_def only_plan_def)
qed

lemma only_plan_trans: "only_plan k d d1 \<Longrightarrow> only_plan k d1 d2 \<Longrightarrow> only_plan k d d2"
  by (auto simp: only_plan_def intro: same_catalogue_trans)

lemma same_catalogue_sym: "same_catalogue d d' \<longleftrightarrow> same_catalogue d' d"
  unfolding same_catalogue_def by (rule iffI) simp_all

lemma only_plan_mode [simp]: "only_plan k (set_plan_bundle_mode b k d) d' = only_plan k d d'"
proof -
  have "same_catalogue (set_plan_bundle_mode b k d) d' = same_catalogue d d'"
    unfolding same_catalogue_sym [of _ d'] by simp
  then show ?thesis by (simp add: only_plan_def)
qed

lemma midway_mono:
  assumes "midway d0 k d" and "only_plan k d d'"
  shows "wf_table (db_routes d')" "same_catalogue d0 d'"
  using assms same_catalogue_trans by (auto simp: midway_def only_plan_def)

lemma multi_agrees:
  assumes "midway d0 k d" and "retirable d0" and "br_errors res = []"
    and "br_errors (preview_multi_plan_route_operation d0 q k res) = []"
  shows "\<exists>d'. apply_multi_plan_route_operation q k (res, d) = Some (preview_multi_plan_route_operation d0 q k res, d') \<and> only_plan k d d'"
proof -
  let ?inbs = "normalize_inbound_bundle (bq_inbounds q)"
  let ?act = "active_routes_for_plan_operator k (bq_operator q) (bq_store q) d0"
  let ?off = "filter (\<lambda>(_, r). rt_inbound r \<notin> set ?inbs) ?act"
  let ?d = "set_plan_bundle_mode True k d"
  have act: "active_routes_for_plan_operator k (bq_operator q) (bq_store q) d = ?act"
    using assms(1) by (intro active_routes_cong) (simp_all add: midway_def)
  obtain c u es where pv: "preview_bundle d0 q k ?act (the (bq_priority q)) ?inbs (0, 0, []) = (c, u, es)" by (metis prod_cases3)
  have es: "es = []" using assms(3,4) pv by (auto simp: preview_multi_plan_route_operation_def Let_def split: if_splits)
  have w0: "wf_table (db_routes d0)" using assms(2) by (simp add: retirable_def)
  have "distinct (map fst ?off)" using distinct_active [OF w0] by (rule distinct_map_filter)
  moreover have "midway d0 k ?d" using assms(1) by simp
  ultimately obtain d1 where d1: "deactivate_routes ?off ?d = Some d1" "only_plan k ?d d1"
    "\<forall>inb. inb \<notin> (rt_inbound \<circ> snd) ` set ?off \<longrightarrow> cell k inb d1 = cell k inb ?d"
    using midway_deactivates [of d0 k ?d ?off "bq_operator q" "bq_store q"] assms(2) by auto
  have cells: "cell k inb d1 = cell k inb d0" if "inb \<in> set ?inbs" for inb
  proof -
    have "inb \<notin> (rt_inbound \<circ> snd) ` set ?off" using that by (auto simp: case_prod_unfold)
    then show ?thesis using d1(3) midway_cell [OF assms(1)] by simp
  qed
  have "distinct ?inbs" by (simp add: normalize_inbound_bundle_def)
  moreover have "wf_table (db_routes d1)" "same_catalogue d0 d1"
    using midway_mono [OF \<open>midway d0 k ?d\<close> d1(2)] by simp_all
  moreover have "(i, x) \<in> set (db_routes d0) \<and> rt_plan x = k \<and> rt_operator x = bq_operator q" if "(i, x) \<in> set ?act" for i x
    using active_route_row [OF that] by simp
  ultimately obtain d2 where d2: "apply_bundle q k ?act (the (bq_priority q)) ?inbs (0, 0) d1 = Some ((c, u), d2)"
    "wf_table (db_routes d2)" "same_catalogue d0 d2" "\<forall>p'. p' \<noteq> k \<longrightarrow> plan_rows p' d2 = plan_rows p' d1"
    using apply_bundle_ok [of ?act d0 k q ?inbs d1 "the (bq_priority q)" 0 0 c u] cells pv es by auto
  have "same_catalogue d1 d2" using d2(3) \<open>same_catalogue d0 d1\<close> same_catalogue_sym same_catalogue_trans by blast
  then have "only_plan k d1 d2" using d2(2,4) by (simp add: only_plan_def)
  moreover have "only_plan k d d1" using d1(2) by simp
  ultimately have "only_plan k d d2" by (rule only_plan_trans [rotated])
  with d1(1) d2(1) pv es show ?thesis
    by (simp add: apply_multi_plan_route_operation_def preview_multi_plan_route_operation_def act Let_def)
qed

lemma plan_agrees:
  assumes mid: "midway d0 k d" and ret: "retirable d0" and none: "br_errors res = []"
    and ok: "br_errors (preview_plan_route_operation d0 q (k, p) res) = []"
  shows "\<exists>d'. apply_plan_route_operation q (k, p) (res, d) = Some (preview_plan_route_operation d0 q (k, p) res, d') \<and> only_plan k d d'"
proof -
  let ?inb = "the (bq_inbound q)" and ?prio = "the (bq_priority q)" and ?op = "bq_operator q" and ?st = "bq_store q"
  let ?act = "active_routes_for_plan_operator k ?op ?st d0" and ?same = "first_route_for_same_inbound k ?op ?inb d0"
  let ?d = "set_plan_single_inbound_mode k d"
  have act: "active_routes_for_plan_operator k ?op ?st d = ?act"
    using mid by (intro active_routes_cong) (simp_all add: midway_def)
  have same: "first_route_for_same_inbound k ?op ?inb d = ?same"
    by (rule same_inbound_cong) (rule midway_cell [OF mid])
  have oper: "operator_refused d q p = operator_refused d0 q p"
    using mid by (simp add: operator_refused_def plan_accepts_operator_def midway_def same_catalogue_def split: option.split)
  have self: "only_plan k d d" using mid by (simp add: only_plan_def midway_def)
  have w0: "wf_table (db_routes d0)" using ret by (simp add: retirable_def)
  have md: "midway d0 k ?d" using mid by (simp add: set_plan_single_inbound_mode_def)
  have row: "(j, r) \<in> set (db_routes ?d) \<and> rt_plan r = k" if "(j, r) \<in> set ?act \<or> ?same = Some (j, r)" for j r
  proof -
    have "(j, r) \<in> set (db_routes d0) \<and> rt_plan r = k"
      using that active_route_row [of j r k ?op ?st d0] same_inbound_row [of k ?op ?inb d0 j r] by (auto simp: cell_rows)
    then show ?thesis using midway_rows [OF md] by simp
  qed
  have ins: "\<exists>d'. insert_route (build_new_route q k ?inb ?prio) x = Some d' \<and> only_plan k x d'"
    if "midway d0 k x" "route_valid d0 None (build_new_route q k ?inb ?prio)" for x
    by (rule midway_inserts [OF that]) simp
  have sing: "only_plan k ?d x = only_plan k d x" for x by (simp add: set_plan_single_inbound_mode_def)
  consider (barred) "operator_refused d0 q p"
    | (joint) "\<not> operator_refused d0 q p" "bq_bundle q"
    | (single) "\<not> operator_refused d0 q p" "\<not> bq_bundle q"
    by blast
  then show ?thesis
  proof cases
    case barred
    then show ?thesis using self by (simp add: apply_plan_route_operation_def preview_plan_route_operation_def Let_def oper)
  next
    case joint
    then have p: "preview_plan_route_operation d0 q (k, p) res = preview_multi_plan_route_operation d0 q k res"
      by (simp add: preview_plan_route_operation_def Let_def)
    moreover have "apply_plan_route_operation q (k, p) (res, d) = apply_multi_plan_route_operation q k (res, d)"
      using joint by (simp add: apply_plan_route_operation_def Let_def oper)
    ultimately show ?thesis using multi_agrees [OF mid ret none, of q] ok by simp
  next
    case single
    note defs = apply_plan_route_operation_def preview_plan_route_operation_def Let_def fst_conv snd_conv prod.case act same oper
    have create: ?thesis
      if a: "apply_plan_route_operation q (k, p) (res, d) =
          map_option (\<lambda>d1. (counted_change k OCreate 1 0 0 res, d1)) (insert_route (build_new_route q k ?inb ?prio) ?d)"
        and b: "preview_plan_route_operation d0 q (k, p) res = (if route_valid d0 None (build_new_route q k ?inb ?prio)
          then counted_change k OCreate 1 0 0 res else bad_route (BCannotCreate k) res)"
    proof -
      have v: "route_valid d0 None (build_new_route q k ?inb ?prio)" using ok b by (simp add: bad_route_def split: if_splits)
      from ins [OF md v] show ?thesis using a b v sing by auto
    qed
    show ?thesis
    proof (cases "bq_strategy q")
      case SkipExisting
      show ?thesis
      proof (cases "?act = []")
        case True
        show ?thesis by (rule create) (simp_all add: defs SkipExisting single True)
      next
        case False
        then show ?thesis using self by (simp add: defs SkipExisting single)
      qed
    next
      case AddNew
      show ?thesis
      proof (cases "?same")
        case None
        show ?thesis by (rule create) (simp_all add: defs AddNew single None)
      next
        case (Some x)
        then show ?thesis using self by (simp add: defs AddNew single)
      qed
    next
      case UpdateExisting
      show ?thesis
      proof (cases "?act")
        case Nil
        show ?thesis by (rule create) (simp_all add: defs UpdateExisting single Nil)
      next
        case (Cons jr rest)
        obtain j r where jr: "jr = (j, r)" by (cases jr)
        let ?r = "update_route_fields q None None ?inb ?prio r"
        have r: "(j, r) \<in> set (db_routes ?d)" "rt_plan r = k" using row [of j r] Cons jr by auto
        have v: "route_valid d0 (Some j) ?r"
          using ok by (simp add: defs UpdateExisting single Cons jr bad_route_def split: if_splits)
        from midway_saves [OF md r v] r(2) show ?thesis
          by (auto simp: defs UpdateExisting single Cons jr v sing)
      qed
    next
      case ReplaceActive
      have w: "distinct (map fst (other_routes ?same ?act))" "set (other_routes ?same ?act) \<subseteq> set ?act"
        using distinct_active [OF w0] by (auto simp: other_routes_def distinct_map_filter)
      obtain d1 where d1: "deactivate_routes (other_routes ?same ?act) ?d = Some d1" "only_plan k ?d d1"
        "\<forall>inb. owners (cell k inb d1) = owners (cell k inb ?d)"
        "\<forall>j x. j \<notin> fst ` set (other_routes ?same ?act) \<longrightarrow> (j, x) \<in> set (db_routes ?d) \<longrightarrow> (j, x) \<in> set (db_routes d1)"
        using midway_deactivates [OF md ret w] by auto
      have c1: "wf_table (db_routes d1)" "same_catalogue d0 d1" using midway_mono [OF md d1(2)] by simp_all
      have val: "route_valid d1 self x = route_valid d0 self x" if "rt_plan x = k" for self x
        by (rule route_valid_cong [OF c1(2)]) (simp add: that d1(3) midway_cell [OF md])
      show ?thesis
      proof (cases "?same")
        case None
        let ?r = "build_new_route q k ?inb ?prio"
        have v: "route_valid d0 None ?r" using ok by (simp add: defs ReplaceActive single None bad_route_def split: if_splits)
        have "other_routes None ?act = ?act" by (simp add: other_routes_def)
        moreover have "insert_route ?r d1 = Some (add_route ?r d1)" using v val [of ?r None] by (simp add: insert_route_def)
        moreover have "only_plan k ?d (add_route ?r d1)" using d1(2) by (simp add: only_plan_def rows_add)
        ultimately show ?thesis using d1(1) v by (simp add: defs ReplaceActive single None sing)
      next
        case (Some jr)
        obtain j r where jr: "jr = (j, r)" by (cases jr)
        let ?r = "update_route_fields q ?st (Some True) ?inb ?prio r"
        have r: "(j, r) \<in> set (db_routes ?d)" "rt_plan r = k" using row [of j r] Some jr by auto
        have v: "route_valid d0 (Some j) ?r" using ok by (simp add: defs ReplaceActive single Some jr bad_route_def split: if_splits)
        have "j \<notin> fst ` set (other_routes ?same ?act)" by (auto simp: other_routes_def Some jr)
        then have r1: "(j, r) \<in> set (db_routes d1)" using d1(4) r(1) by blast
        have "plan_rows p' (put_route j ?r d1) = plan_rows p' d1" if "p' \<noteq> k" for p'
          by (rule plan_rows_put_other [OF c1(1) r1]) (simp_all add: that r(2))
        then have "only_plan k ?d (put_route j ?r d1)" using d1(2) by (simp add: only_plan_def)
        moreover have "save_route j ?r d1 = Some (put_route j ?r d1)" using v val [of ?r "Some j"] r(2) by (simp add: save_route_def)
        ultimately show ?thesis using d1(1) v by (simp add: defs ReplaceActive single Some jr sing)
      qed
    next
      case UnknownStrategy
      show ?thesis by (rule create) (simp_all add: defs UnknownStrategy single)
    qed
  qed
qed

section \<open>All plans\<close>

lemma errors_stay: "br_errors (preview_plan_route_operation d q kp res) = [] \<Longrightarrow> br_errors res = []"
  by (auto simp: preview_plan_route_operation_def preview_multi_plan_route_operation_def Let_def skipped_def counted_change_def
      add_plan_result_def bad_route_def split: if_splits prod.splits option.splits list.splits)

lemma errors_stay_fold: "br_errors (fold (preview_plan_route_operation d q) kps res) = [] \<Longrightarrow> br_errors res = []"
  by (induction kps arbitrary: res) (auto dest: errors_stay)

lemma plans_agree:
  assumes "retirable d0"
  shows "distinct (map fst kps) \<Longrightarrow> (\<And>k. k \<in> fst ` set kps \<Longrightarrow> midway d0 k d) \<Longrightarrow>
    br_errors (fold (preview_plan_route_operation d0 q) kps res) = [] \<Longrightarrow>
    \<exists>d'. apply_plans q kps (res, d) = Some (fold (preview_plan_route_operation d0 q) kps res, d')"
proof (induction kps arbitrary: res d)
  case Nil
  then show ?case by simp
next
  case (Cons kp kps)
  obtain k p where kp: "kp = (k, p)" by (cases kp)
  let ?res = "preview_plan_route_operation d0 q (k, p) res"
  have e: "br_errors ?res = []" using Cons.prems(3) kp errors_stay_fold by simp
  have m: "midway d0 k d" using Cons.prems(2) kp by simp
  obtain d1 where d1: "apply_plan_route_operation q (k, p) (res, d) = Some (?res, d1)" "only_plan k d d1"
    using plan_agrees [OF m assms errors_stay [OF e] e] by auto
  have "midway d0 j d1" if "j \<in> fst ` set kps" for j
  proof -
    have "j \<noteq> k" "midway d0 j d" using that Cons.prems(1,2) kp by auto
    with d1(2) midway_mono [OF m d1(2)] show ?thesis by (simp add: midway_def only_plan_def)
  qed
  moreover have "br_errors (fold (preview_plan_route_operation d0 q) kps ?res) = []" using Cons.prems(3) kp by simp
  ultimately obtain d' where "apply_plans q kps (?res, d1) = Some (fold (preview_plan_route_operation d0 q) kps ?res, d')"
    using Cons.IH [of d1 ?res] Cons.prems(1) by auto
  with d1(1) show ?case by (simp add: kp)
qed

lemma distinct_targets: "wf_table (db_plans d) \<Longrightarrow> distinct (map fst (get_bulk_route_target_plans q d))"
  unfolding get_bulk_route_target_plans_def Let_def distinct_map
  by (auto simp: ordered_where_def rows_where_def wf_table_def distinct_map intro: inj_on_subset)

end
