(* ===== verification/Route_Laws.thy ===== *)
theory Route_Laws
  imports Plan_Routes_Facts Samples
begin





end
