(* ===== verification/Plan_Delivery.thy ===== *)
theory Plan_Delivery
  imports Plan_Routes Config_Inventory
begin

text \<open>
  How a plan is delivered: \<open>store/plan_delivery_services.py\<close> (the configured sources of a plan, their
  readiness, the older routes and recipes they replace) and \<open>store/plan_fulfillment_services.py\<close> (the
  readiness of a recipe and its dry run). Messages are values; display labels are left out.
\<close>

section \<open>Data\<close>

text \<open>\<open>Conflict\<close> is not stored: it is the verdict on a plan that has both routes and a recipe.\<close>

datatype delivery_mode = GlobalFallback | DirectLinks | Subscription | Conflict

datatype failure_policy = Strict | PartialAllowed

datatype source_type = PanelInbound | InventoryPool | UnknownSource

record delivery_config =
  dv_plan :: pk
  dv_delivery_mode :: delivery_mode
  dv_failure_policy :: failure_policy
  dv_active :: bool

record delivery_source =
  ds_delivery_config :: pk
  ds_source_type :: source_type
  ds_panel :: "pk option"
  ds_inbound :: "pk option"
  ds_inventory_pool :: "pk option"
  ds_quantity :: nat
  ds_required :: bool
  ds_priority :: nat
  ds_is_fallback :: bool
  ds_active :: bool
  ds_metadata :: dict

record recipe =
  re_plan :: pk
  re_title :: string
  re_is_active :: bool
  re_priority :: nat
  re_failure_policy :: failure_policy

record filler_rule =
  fr_recipe :: pk
  fr_position :: nat
  fr_source_type :: source_type
  fr_quantity :: nat
  fr_required :: bool
  fr_panel :: "pk option"
  fr_inbounds :: "pk list"
  fr_inventory_pool :: "pk option"
  fr_allocation_mode :: "allocation_mode option"
  fr_is_active :: bool

text \<open>The tables of this component, beside the database of the shop.\<close>

record delivery_tables =
  dt_configs :: "delivery_config table"
  dt_sources :: "delivery_source table"
  dt_recipes :: "recipe table"
  dt_rules :: "filler_rule table"
  dt_inventory :: inventory

datatype source_field_error =
    SourceInboundRequired | SourcePoolForbidden | SourcePanelMismatch | SourcePoolRequired
  | SourcePanelForbidden | SourceInboundForbidden | SourceTypeUnsupported

text \<open>\<open>PlanDeliverySource.clean\<close>: the errors, or the source with the panel of its inbound filled in.\<close>

definition clean_delivery_source :: "db \<Rightarrow> delivery_source \<Rightarrow> source_field_error list + delivery_source" where
  "clean_delivery_source d s =
     (let own = Option.bind (Option.bind (ds_inbound s) (get_inbound d)) ib_panel;
          mismatch = ds_panel s \<noteq> None \<and> own \<noteq> None \<and> ds_panel s \<noteq> own;
          errs = (case ds_source_type s of
            PanelInbound \<Rightarrow>
              (if ds_inbound s = None then [SourceInboundRequired] else []) @
              (if ds_inventory_pool s \<noteq> None then [SourcePoolForbidden] else []) @
              (if ds_inbound s \<noteq> None \<and> mismatch then [SourcePanelMismatch] else [])
          | InventoryPool \<Rightarrow>
              (if ds_inventory_pool s = None then [SourcePoolRequired] else []) @
              (if ds_panel s \<noteq> None then [SourcePanelForbidden] else []) @
              (if ds_inbound s \<noteq> None then [SourceInboundForbidden] else [])
          | UnknownSource \<Rightarrow> [SourceTypeUnsupported])
      in if errs \<noteq> [] then Inl errs
         else if ds_source_type s = PanelInbound \<and> ds_panel s = None then Inr (s\<lparr>ds_panel := own\<rparr>)
         else Inr s)"

section \<open>Recipes\<close>

datatype rule_issue =
    RulePanelMissing | RulePanelInactive | RulePanelIncomplete | RuleProfileUnknown | RuleNoInbound
  | RuleForeignInbound | RuleNotMultiNode | RuleDefaultInbound | RuleInboundInactive | RuleInboundNotSold
  | RuleRealityKeyMissing | RuleCapacityShort int nat | RulePoolMissing | RulePoolInactive
  | RuleStockShort nat nat | RuleUnsupported | PlanNotPublic | RecipeInactive | RecipeEmpty

datatype severity = SevWarning | SevError

datatype readiness_status = StReady | StWarning | StError

record rule_source =
  rs_source_type :: source_type
  rs_required :: bool
  rs_expected :: nat
  rs_issues :: "(severity \<times> rule_issue) list"

text \<open>\<open>int(quantity or 1)\<close>.\<close>

definition quantity_or_one :: "nat \<Rightarrow> nat" where
  "quantity_or_one n = (if n = 0 then 1 else n)"

text \<open>\<open>_add_rule_issue\<close>: an error of an optional rule is only a warning.\<close>

definition rule_severity :: "bool \<Rightarrow> severity \<Rightarrow> severity" where
  "rule_severity required sev = (if sev = SevError \<and> \<not> required then SevWarning else sev)"

definition issue_if :: "bool \<Rightarrow> bool \<Rightarrow> severity \<Rightarrow> rule_issue \<Rightarrow> (severity \<times> rule_issue) list" where
  "issue_if b required sev msg = (if b then [(rule_severity required sev, msg)] else [])"

definition source_status :: "rule_source \<Rightarrow> readiness_status" where
  "source_status s =
     (if SevError \<in> fst ` set (rs_issues s) then StError
      else if rs_issues s \<noteq> [] then StWarning else StReady)"

text \<open>The selected inbounds in their default order, or the first inbound of the panel that is on sale.\<close>

definition rule_inbounds :: "db \<Rightarrow> filler_rule \<Rightarrow> (pk \<times> inbound) list \<times> bool" where
  "rule_inbounds d r =
     (let chosen = ordered_where (\<lambda>(_, i). (case panel_of d i of None \<Rightarrow> [] | Some p \<Rightarrow> pn_name p, ib_inbound_id i))
                     (\<lambda>k _. k \<in> set (fr_inbounds r)) (db_inbounds d);
          fallback = take 1 (ordered_where fst
                     (\<lambda>_ i. ib_panel i = fr_panel r \<and> ib_is_active i \<and> ib_available_for_new_orders i) (db_inbounds d))
      in if chosen \<noteq> [] \<or> fr_panel r = None then (chosen, False) else (fallback, fallback \<noteq> []))"

definition inbound_missing_reality_pbk :: "inbound \<Rightarrow> bool" where
  "inbound_missing_reality_pbk i \<longleftrightarrow> ib_security i = SecReality \<and> strip (ib_pbk i) = []"

definition capacity_issue_for_inbound :: "inbound \<Rightarrow> nat \<Rightarrow> rule_issue option" where
  "capacity_issue_for_inbound i q =
     (case ib_max_clients i of
        None \<Rightarrow> None
      | Some m \<Rightarrow>
          let free = m - ib_current_users i
          in if free \<ge> int (quantity_or_one q) then None
             else Some (RuleCapacityShort (max free 0) (quantity_or_one q)))"

definition rule_inbound_issues :: "filler_rule \<Rightarrow> inbound \<Rightarrow> (severity \<times> rule_issue) list" where
  "rule_inbound_issues r i =
     issue_if (\<not> ib_is_active i) (fr_required r) SevError RuleInboundInactive @
     issue_if (\<not> ib_available_for_new_orders i) (fr_required r) SevError RuleInboundNotSold @
     issue_if (inbound_missing_reality_pbk i) (fr_required r) SevError RuleRealityKeyMissing @
     (case capacity_issue_for_inbound i (fr_quantity r) of
        None \<Rightarrow> [] | Some m \<Rightarrow> issue_if True (fr_required r) SevError m)"

definition panel_rule_diagnostics :: "db \<Rightarrow> filler_rule \<Rightarrow> rule_source" where
  "panel_rule_diagnostics d r =
     (let (inbs, by_default) = rule_inbounds d r; req = fr_required r;
          issues = (case Option.bind (fr_panel r) (row (db_panels d)) of
            None \<Rightarrow> issue_if True req SevError RulePanelMissing
          | Some p \<Rightarrow>
              issue_if (\<not> pn_is_active p) req SevError RulePanelInactive @
              issue_if (\<not> (strip (pn_url p) \<noteq> [] \<and> strip (pn_username p) \<noteq> [] \<and> strip (pn_password p) \<noteq> []))
                req SevError RulePanelIncomplete @
              issue_if (pn_capability_profile p \<in> {CapEmpty, UnknownSafe}) req SevWarning RuleProfileUnknown @
              (if inbs = [] then issue_if True req SevError RuleNoInbound
               else
                 issue_if (\<exists>(_, i) \<in> set inbs. ib_panel i \<noteq> fr_panel r) req SevError RuleForeignInbound @
                 issue_if (length inbs > 1 \<and> pn_capability_profile p \<noteq> ModernMultiNode) req SevError RuleNotMultiNode @
                 issue_if by_default req SevWarning RuleDefaultInbound @
                 concat (map (\<lambda>(_, i). rule_inbound_issues r i) inbs)))
      in \<lparr>rs_source_type = PanelInbound, rs_required = req,
          rs_expected = quantity_or_one (fr_quantity r) *
            max (length inbs) (if fr_panel r \<noteq> None then 1 else 0),
          rs_issues = issues\<rparr>)"

definition inventory_rule_diagnostics :: "env \<Rightarrow> delivery_tables \<Rightarrow> filler_rule \<Rightarrow> rule_source" where
  "inventory_rule_diagnostics en t r =
     (let req = fr_required r; q = quantity_or_one (fr_quantity r);
          issues = (case Option.bind (fr_inventory_pool r) (\<lambda>k. map_option (\<lambda>p. (k, p)) (row (iv_pools (dt_inventory t)) k)) of
            None \<Rightarrow> issue_if True req SevError RulePoolMissing
          | Some (k, p) \<Rightarrow>
              issue_if (\<not> po_is_active p) req SevError RulePoolInactive @
              (case ss_available_capacity (get_pool_stock_summary en k p (dt_inventory t)) of
                 None \<Rightarrow> []
               | Some c \<Rightarrow> issue_if (c < q) req SevError (RuleStockShort c q)))
      in \<lparr>rs_source_type = InventoryPool, rs_required = req, rs_expected = q, rs_issues = issues\<rparr>)"

definition rule_diagnostics :: "env \<Rightarrow> db \<Rightarrow> delivery_tables \<Rightarrow> filler_rule \<Rightarrow> rule_source" where
  "rule_diagnostics en d t r =
     (case fr_source_type r of
        PanelInbound \<Rightarrow> panel_rule_diagnostics d r
      | InventoryPool \<Rightarrow> inventory_rule_diagnostics en t r
      | UnknownSource \<Rightarrow>
          \<lparr>rs_source_type = UnknownSource, rs_required = fr_required r, rs_expected = 0,
           rs_issues = issue_if True (fr_required r) SevError RuleUnsupported\<rparr>)"

record recipe_readiness =
  rr_status :: readiness_status
  rr_sources :: "rule_source list"
  rr_errors :: "rule_issue list"
  rr_warnings :: "rule_issue list"
  rr_expected :: nat
  rr_ready_expected :: nat
  rr_panel_sources :: nat
  rr_inventory_pools :: nat
  rr_required :: nat
  rr_optional :: nat

definition messages :: "severity \<Rightarrow> rule_source \<Rightarrow> rule_issue list" where
  "messages sev s = map snd (filter (\<lambda>(v, _). v = sev) (rs_issues s))"

text \<open>An optional source in error would repeat its last message as a warning.\<close>

definition source_warnings :: "rule_source \<Rightarrow> rule_issue list" where
  "source_warnings s =
     messages SevWarning s @
     (if source_status s = StError \<and> \<not> rs_required s then [snd (last (rs_issues s))] else [])"

definition count_sources :: "(rule_source \<Rightarrow> bool) \<Rightarrow> rule_source list \<Rightarrow> nat" where
  "count_sources P ss = length (filter P ss)"

definition active_rules :: "pk \<Rightarrow> delivery_tables \<Rightarrow> (pk \<times> filler_rule) list" where
  "active_rules rk t =
     ordered_where (\<lambda>(k, r). (fr_position r, k)) (\<lambda>_ r. fr_recipe r = rk \<and> fr_is_active r) (dt_rules t)"

definition get_recipe_readiness :: "env \<Rightarrow> db \<Rightarrow> delivery_tables \<Rightarrow> pk \<times> recipe \<Rightarrow> recipe_readiness" where
  "get_recipe_readiness en d t kr =
     (let rules = active_rules (fst kr) t;
          sources = map (\<lambda>(_, r). rule_diagnostics en d t r) rules;
          public = (case row (db_plans d) (re_plan (snd kr)) of None \<Rightarrow> False | Some p \<Rightarrow> pl_is_active p \<and> pl_is_public p);
          errors = (if public then [] else [PlanNotPublic]) @ (if re_is_active (snd kr) then [] else [RecipeInactive]) @
                   (if rules \<noteq> [] then [] else [RecipeEmpty]) @ concat (map (messages SevError) sources);
          warns = concat (map source_warnings sources)
      in \<lparr>rr_status = (if errors \<noteq> [] then StError
            else if warns \<noteq> [] \<or> list_ex (\<lambda>s. source_status s = StWarning) sources then StWarning else StReady),
          rr_sources = sources, rr_errors = unique_list errors, rr_warnings = unique_list warns,
          rr_expected = sum_list (map rs_expected sources),
          rr_ready_expected = sum_list (map rs_expected (filter (\<lambda>s. source_status s \<noteq> StError) sources)),
          rr_panel_sources = count_sources (\<lambda>s. rs_source_type s = PanelInbound) sources,
          rr_inventory_pools = count_sources (\<lambda>s. rs_source_type s = InventoryPool) sources,
          rr_required = count_sources rs_required sources,
          rr_optional = count_sources (\<lambda>s. \<not> rs_required s) sources\<rparr>)"

definition active_plan_recipes :: "pk \<Rightarrow> delivery_tables \<Rightarrow> (pk \<times> recipe) list" where
  "active_plan_recipes plan_pk t =
     ordered_where (\<lambda>(k, r). (re_priority r, k)) (\<lambda>_ r. re_plan r = plan_pk \<and> re_is_active r) (dt_recipes t)"

definition get_active_recipe_for_plan :: "pk \<Rightarrow> delivery_tables \<Rightarrow> (pk \<times> recipe) option" where
  "get_active_recipe_for_plan plan_pk t = first_of (active_plan_recipes plan_pk t)"

datatype fulfillment_status = RecipeStatus readiness_status | FulfilmentInactive | NotConfigured

definition plan_fulfillment_status_for_plan :: "env \<Rightarrow> db \<Rightarrow> delivery_tables \<Rightarrow> pk \<Rightarrow> fulfillment_status" where
  "plan_fulfillment_status_for_plan en d t plan_pk =
     (case get_active_recipe_for_plan plan_pk t of
        Some kr \<Rightarrow> RecipeStatus (rr_status (get_recipe_readiness en d t kr))
      | None \<Rightarrow>
          if exists_where (\<lambda>_ r. re_plan r = plan_pk) (dt_recipes t) then FulfilmentInactive else NotConfigured)"

text \<open>The dry run: its verdict and the number of configurations it predicts.\<close>

definition simulate_recipe_dry_run :: "env \<Rightarrow> db \<Rightarrow> delivery_tables \<Rightarrow> pk \<times> recipe \<Rightarrow> readiness_status \<times> nat" where
  "simulate_recipe_dry_run en d t kr =
     (let rd = get_recipe_readiness en d t kr;
          final = (if rr_errors rd \<noteq> [] \<and> re_failure_policy (snd kr) = Strict then StError
                   else if rr_errors rd \<noteq> [] \<and> rr_ready_expected rd > 0 then StWarning
                   else if rr_errors rd \<noteq> [] then StError
                   else StReady)
      in (final, if final \<noteq> StError then rr_ready_expected rd else 0))"

definition low_stock_pool_count :: "env \<Rightarrow> nat \<Rightarrow> inventory \<Rightarrow> nat" where
  "low_stock_pool_count en threshold iv =
     length (filter (\<lambda>(k, p). case ss_available_capacity (get_pool_stock_summary en k p iv) of
                                None \<Rightarrow> False | Some c \<Rightarrow> c \<le> threshold)
       (rows_where (\<lambda>_ p. po_is_active p) (iv_pools iv)))"

section \<open>The delivery configuration of a plan\<close>

definition active_delivery_config_for_plan :: "pk \<Rightarrow> delivery_tables \<Rightarrow> (pk \<times> delivery_config) option" where
  "active_delivery_config_for_plan plan_pk t = first_where (\<lambda>_ c. dv_plan c = plan_pk \<and> dv_active c) (dt_configs t)"

definition active_delivery_sources :: "pk \<Rightarrow> delivery_tables \<Rightarrow> (pk \<times> delivery_source) list" where
  "active_delivery_sources ck t =
     ordered_where (\<lambda>(k, s). (ds_priority s, k)) (\<lambda>_ s. ds_delivery_config s = ck \<and> ds_active s) (dt_sources t)"

text \<open>Routes without an operator come first, as in SQLite.\<close>

definition active_plan_routes :: "pk \<Rightarrow> pk option \<Rightarrow> db \<Rightarrow> (pk \<times> route) list" where
  "active_plan_routes plan_pk st d =
     ordered_where (\<lambda>(k, r). (rt_operator r, rt_priority r, k))
       (\<lambda>_ r. rt_plan r = plan_pk \<and> rt_is_active r \<and> store_filter st (rt_store r) \<and>
          (st \<noteq> None \<longrightarrow> store_filter st (Option.bind (route_inbound d r) (\<lambda>(_, i). panel_store d i)))) (db_routes d)"

definition fallback_state :: "(pk \<times> store) option \<Rightarrow> db \<Rightarrow> nat \<times> bool" where
  "fallback_state st d =
     (let n = length (get_valid_sales_inbounds (map_option fst st) d)
      in (n, (case st of None \<Rightarrow> False | Some (_, s) \<Rightarrow> st_allow_global_inbound_fallback s) \<and> n \<noteq> 0))"

datatype delivery_message =
    MsgInbound sales_error | MsgInboundWarning sales_warning | MsgPoolRequired | MsgPoolInactive | MsgPoolShort
  | MsgUnsupported | MsgNoFallback | MsgNoSources | MsgLegacyIgnored | MsgRule rule_issue

datatype truth_source = V2Config | StoreFallback | PlanRoutes | CupRecipe | LegacyConflict

datatype readiness = ReadyNow | ReadyWarning | Incomplete | InConflict

record plan_delivery =
  pd_plan :: "pk option"
  pd_effective_mode :: delivery_mode
  pd_source_of_truth :: truth_source
  pd_delivery_config :: "pk option"
  pd_failure_policy :: failure_policy
  pd_active_recipe :: "pk option"
  pd_active_routes :: "pk list"
  pd_source_count :: nat
  pd_panel_sources :: nat
  pd_inventory_sources :: nat
  pd_required_sources :: nat
  pd_fallback_sources :: nat
  pd_expected_outputs :: nat
  pd_fallback_available :: bool
  pd_sales_ready_inbounds :: nat
  pd_readiness :: readiness
  pd_warnings :: "delivery_message list"
  pd_legacy_used :: bool
  pd_legacy_ignored :: bool

text \<open>The dataclass defaults, with the plan and what the store's fallback offers.\<close>

definition new_plan_delivery :: "pk option \<Rightarrow> nat \<times> bool \<Rightarrow> plan_delivery" where
  "new_plan_delivery plan_pk fb =
     \<lparr>pd_plan = plan_pk, pd_effective_mode = GlobalFallback, pd_source_of_truth = StoreFallback,
      pd_delivery_config = None, pd_failure_policy = Strict, pd_active_recipe = None, pd_active_routes = [],
      pd_source_count = 0, pd_panel_sources = 0, pd_inventory_sources = 0, pd_required_sources = 0,
      pd_fallback_sources = 0, pd_expected_outputs = 0, pd_fallback_available = snd fb,
      pd_sales_ready_inbounds = fst fb, pd_readiness = Incomplete, pd_warnings = [], pd_legacy_used = False,
      pd_legacy_ignored = False\<rparr>"

definition store_fallback_delivery :: "pk option \<Rightarrow> nat \<times> bool \<Rightarrow> plan_delivery" where
  "store_fallback_delivery plan_pk fb =
     (new_plan_delivery plan_pk fb)\<lparr>pd_readiness := (if snd fb then ReadyNow else Incomplete),
       pd_expected_outputs := (if snd fb then 1 else 0), pd_warnings := (if snd fb then [] else [MsgNoFallback])\<rparr>"

definition source_readiness ::
  "env \<Rightarrow> db \<Rightarrow> delivery_tables \<Rightarrow> pk option \<Rightarrow> delivery_source \<Rightarrow> delivery_message list \<times> delivery_message list \<times> nat" where
  "source_readiness en d t st s =
     (case ds_source_type s of
        PanelInbound \<Rightarrow>
          let (es, ws) = sales_inbound_issues en d st (Option.bind (ds_inbound s) (get_inbound d))
          in (map MsgInbound es, map MsgInboundWarning ws, if ds_inbound s \<noteq> None then 1 else 0)
      | InventoryPool \<Rightarrow>
          (case Option.bind (ds_inventory_pool s) (\<lambda>k. map_option (\<lambda>p. (k, p)) (row (iv_pools (dt_inventory t)) k)) of
             None \<Rightarrow> ([MsgPoolRequired], [], 0)
           | Some (k, p) \<Rightarrow>
               ((if po_is_active p then [] else [MsgPoolInactive]) @
                (case ss_available_capacity (get_pool_stock_summary en k p (dt_inventory t)) of
                   None \<Rightarrow> [] | Some c \<Rightarrow> if c < quantity_or_one (ds_quantity s) then [MsgPoolShort] else []),
                [], quantity_or_one (ds_quantity s)))
      | UnknownSource \<Rightarrow> ([MsgUnsupported], [], 0))"

definition v2_readiness ::
  "env \<Rightarrow> db \<Rightarrow> delivery_tables \<Rightarrow> (pk \<times> store) option \<Rightarrow> pk \<times> delivery_config \<Rightarrow> plan_delivery \<Rightarrow> plan_delivery" where
  "v2_readiness en d t st kc pd =
     (let sources = map snd (active_delivery_sources (fst kc) t);
          found = map (source_readiness en d t (map_option fst st)) sources;
          fb = snd (fallback_state st d);
          errors = concat (map fst found) @ (if sources = [] then [MsgNoSources] else []);
          warns = concat (map (fst \<circ> snd) found)
      in if dv_delivery_mode (snd kc) = GlobalFallback
         then pd\<lparr>pd_expected_outputs := (if fb then 1 else 0), pd_readiness := (if fb then ReadyNow else Incomplete),
                 pd_warnings := (if fb then [] else [MsgNoFallback])\<rparr>
         else pd\<lparr>pd_source_count := length sources,
                 pd_panel_sources := length (filter (\<lambda>s. ds_source_type s = PanelInbound) sources),
                 pd_inventory_sources := length (filter (\<lambda>s. ds_source_type s = InventoryPool) sources),
                 pd_required_sources := length (filter ds_required sources),
                 pd_fallback_sources := length (filter ds_is_fallback sources),
                 pd_expected_outputs := sum_list (map (snd \<circ> snd) found),
                 pd_readiness := (if errors \<noteq> [] then Incomplete else if warns \<noteq> [] then ReadyWarning else ReadyNow),
                 pd_warnings := unique_list (errors @ warns)\<rparr>)"

definition route_readiness ::
  "env \<Rightarrow> db \<Rightarrow> pk option \<Rightarrow> (pk \<times> route) list \<Rightarrow> readiness \<times> delivery_message list \<times> nat" where
  "route_readiness en d st routes =
     (let inbs = map (\<lambda>(_, r). get_inbound d (rt_inbound r)) routes;
          found = map (sales_inbound_issues en d st) inbs;
          errors = map MsgInbound (concat (map fst found));
          warns = map MsgInboundWarning (concat (map snd found));
          panels = length (unique_list (List.map_filter (\<lambda>x. Option.bind x ib_panel) inbs))
      in if errors \<noteq> [] then (Incomplete, unique_list (errors @ warns), panels)
         else if warns \<noteq> [] then (ReadyWarning, unique_list warns, panels)
         else (ReadyNow, [], panels))"

definition recipe_readiness_of :: "recipe_readiness \<Rightarrow> readiness \<times> delivery_message list" where
  "recipe_readiness_of rd =
     (case rr_status rd of StError \<Rightarrow> Incomplete | StWarning \<Rightarrow> ReadyWarning | StReady \<Rightarrow> ReadyNow,
      unique_list (map MsgRule (rr_errors rd @ rr_warnings rd)))"

definition legacy_warning :: "pk \<Rightarrow> db \<Rightarrow> delivery_tables \<Rightarrow> bool" where
  "legacy_warning plan_pk d t \<longleftrightarrow>
     exists_where (\<lambda>_ r. rt_plan r = plan_pk \<and> rt_is_active r) (db_routes d) \<or>
     exists_where (\<lambda>_ r. re_plan r = plan_pk \<and> re_is_active r) (dt_recipes t)"

definition resolve_legacy ::
  "env \<Rightarrow> db \<Rightarrow> delivery_tables \<Rightarrow> pk \<Rightarrow> (pk \<times> store) option \<Rightarrow> plan_delivery" where
  "resolve_legacy en d t plan_pk st =
     (let s = map_option fst st; routes = active_plan_routes plan_pk s d; n = length routes;
          (status, route_warns, panels) = route_readiness en d s routes;
          base = (new_plan_delivery (Some plan_pk) (fallback_state st d))\<lparr>pd_legacy_used := True\<rparr>
      in case get_active_recipe_for_plan plan_pk t of
           Some kr \<Rightarrow>
             let rd = get_recipe_readiness en d t kr; (recipe_status, recipe_warns) = recipe_readiness_of rd
             in if routes \<noteq> []
                then base\<lparr>pd_effective_mode := Conflict, pd_source_of_truth := LegacyConflict,
                       pd_active_recipe := Some (fst kr), pd_active_routes := map fst routes, pd_source_count := n,
                       pd_panel_sources := max panels (rr_panel_sources rd),
                       pd_inventory_sources := rr_inventory_pools rd, pd_required_sources := n,
                       pd_expected_outputs := rr_expected rd, pd_readiness := InConflict,
                       pd_warnings := unique_list (route_warns @ recipe_warns)\<rparr>
                else base\<lparr>pd_effective_mode := Subscription, pd_source_of_truth := CupRecipe,
                       pd_active_recipe := Some (fst kr), pd_source_count := rr_required rd + rr_optional rd,
                       pd_panel_sources := rr_panel_sources rd, pd_inventory_sources := rr_inventory_pools rd,
                       pd_required_sources := rr_required rd, pd_expected_outputs := rr_expected rd,
                       pd_readiness := recipe_status, pd_warnings := recipe_warns\<rparr>
         | None \<Rightarrow>
             if routes \<noteq> []
             then base\<lparr>pd_effective_mode := DirectLinks, pd_source_of_truth := PlanRoutes,
                    pd_active_routes := map fst routes, pd_source_count := n, pd_panel_sources := panels,
                    pd_required_sources := n, pd_expected_outputs := n, pd_readiness := status,
                    pd_warnings := route_warns\<rparr>
             else store_fallback_delivery (Some plan_pk) (fallback_state st d))"

definition resolve_plan_delivery_configuration ::
  "env \<Rightarrow> db \<Rightarrow> delivery_tables \<Rightarrow> (pk \<times> plan) option \<Rightarrow> (pk \<times> store) option \<Rightarrow> plan_delivery" where
  "resolve_plan_delivery_configuration en d t pl st =
     (case pl of
        None \<Rightarrow> store_fallback_delivery None (fallback_state st d)
      | Some (k, p) \<Rightarrow>
          let est = effective_store st p d in
          (case active_delivery_config_for_plan k t of
             Some (ck, c) \<Rightarrow>
               let ignored = legacy_warning k d t;
                   pd = v2_readiness en d t est (ck, c)
                     ((new_plan_delivery (Some k) (fallback_state est d))\<lparr>pd_effective_mode := dv_delivery_mode c,
                        pd_source_of_truth := V2Config, pd_delivery_config := Some ck,
                        pd_failure_policy := dv_failure_policy c, pd_legacy_ignored := ignored\<rparr>)
               in pd\<lparr>pd_warnings := unique_list (pd_warnings pd @ (if ignored then [MsgLegacyIgnored] else []))\<rparr>
           | None \<Rightarrow> resolve_legacy en d t k est))"

text \<open>\<open>Inl ()\<close> is the message that the configuration of the plan is incomplete.\<close>

definition canonical_delivery_for_checkout ::
  "env \<Rightarrow> db \<Rightarrow> delivery_tables \<Rightarrow> (pk \<times> plan) option \<Rightarrow> (pk \<times> store) option \<Rightarrow> unit + plan_delivery option" where
  "canonical_delivery_for_checkout en d t pl st =
     (if pl = None then Inr None
      else
        let pd = resolve_plan_delivery_configuration en d t pl st in
        if pd_source_of_truth pd \<noteq> V2Config \<or> pd_effective_mode pd = GlobalFallback then Inr None
        else if pd_readiness pd \<in> {Incomplete, InConflict} \<or> pd_source_count pd < 1 \<or> pd_expected_outputs pd < 1
        then Inl ()
        else Inr (Some pd))"

end
