(* ===== verification/Plan_Delivery_Laws.thy ===== *)
theory Plan_Delivery_Laws
  imports Plan_Delivery Samples Inventory_Laws
begin

text \<open>
  What a checkout may rely on when a plan has configured delivery sources.
\<close>

section \<open>Helper facts\<close>

lemma no_sales_errors:
  assumes "fst (sales_inbound_issues en d st x) = []"
  obtains i p where "x = Some i" "inbound_open d i" "panel_of d i = Some p" "store_filter st (pn_store p)"
    "pn_family p = FamPasarguard \<or> pn_capability_profile p \<noteq> UnknownSafe"
proof (cases x)
  case None
  with assms show thesis by (simp add: sales_inbound_issues_def)
next
  case (Some i)
  with assms have p: "fst (panel_issues en d st i) = []" and i: "ib_is_active i" "ib_available_for_new_orders i"
    by (auto simp: sales_inbound_issues_def split: prod.splits if_splits)
  from p obtain p1 where "panel_of d i = Some p1" "pn_is_active p1" "store_filter st (pn_store p1)"
    "pn_family p1 = FamPasarguard \<or> pn_capability_profile p1 \<noteq> UnknownSafe"
    by (auto simp: panel_issues_def store_filter_def own_or_shared_def split: option.splits if_splits)
  then show thesis using that [OF Some] i by (simp add: inbound_open_def)
qed

lemma pool_ready_allocates:
  assumes "row (iv_pools iv) k = Some p" and "po_is_active p" and "0 < q"
    and "case ss_available_capacity (get_pool_stock_summary en k p iv) of None \<Rightarrow> True | Some c \<Rightarrow> \<not> c < q"
  shows "is_ok (fst (allocate_assets_from_pool en k (int q) cup ord PoolMode iv))"
proof -
  have "is_ok (select_assets en (po_allocation_mode p) k p q iv)"
    using select_iff_covers [OF assms(3), of en p k iv] assms(4) by (simp add: capacity_covers_def split: option.splits)
  then obtain xs where "select_assets en (po_allocation_mode p) k p q iv = Inr xs" by (auto simp: is_ok_iff)
  with assms(1-3) show ?thesis
    by (auto simp: allocate_assets_from_pool_def requested_mode_def split: prod.split)
qed

text \<open>A source that can be delivered from right now.\<close>

definition deliverable :: "env \<Rightarrow> db \<Rightarrow> delivery_tables \<Rightarrow> pk option \<Rightarrow> delivery_source \<Rightarrow> bool" where
  "deliverable en d t st s \<longleftrightarrow>
     (case ds_source_type s of
        PanelInbound \<Rightarrow>
          (\<exists>ik i p. ds_inbound s = Some ik \<and> get_inbound d ik = Some i \<and> inbound_open d i \<and> panel_of d i = Some p \<and>
             store_filter st (pn_store p))
      | InventoryPool \<Rightarrow>
          (\<exists>pool. ds_inventory_pool s = Some pool \<and>
             (\<forall>cup ord. is_ok (fst (allocate_assets_from_pool en pool (int (quantity_or_one (ds_quantity s))) cup ord
                PoolMode (dt_inventory t)))))
      | UnknownSource \<Rightarrow> False)"

lemma ready_source_deliverable:
  assumes "fst (source_readiness en d t st s) = []"
  shows "deliverable en d t st s"
proof (cases "ds_source_type s")
  case PanelInbound
  with assms have "fst (sales_inbound_issues en d st (Option.bind (ds_inbound s) (get_inbound d))) = []"
    by (auto simp: source_readiness_def split: prod.splits)
  then obtain i p where "Option.bind (ds_inbound s) (get_inbound d) = Some i" "inbound_open d i" "panel_of d i = Some p"
    "store_filter st (pn_store p)" by (rule no_sales_errors)
  with PanelInbound show ?thesis by (auto simp: deliverable_def Option.bind_eq_Some_conv)
next
  case InventoryPool
  with assms obtain k p where k: "ds_inventory_pool s = Some k" "row (iv_pools (dt_inventory t)) k = Some p" "po_is_active p"
    "case ss_available_capacity (get_pool_stock_summary en k p (dt_inventory t)) of
       None \<Rightarrow> True | Some c \<Rightarrow> \<not> c < quantity_or_one (ds_quantity s)"
    by (auto simp: source_readiness_def Option.bind_eq_Some_conv split: option.splits if_splits)
  have "0 < quantity_or_one (ds_quantity s)" by (simp add: quantity_or_one_def)
  with InventoryPool k show ?thesis by (auto simp: deliverable_def intro: pool_ready_allocates)
next
  case UnknownSource
  with assms show ?thesis by (simp add: source_readiness_def)
qed

section \<open>Checkout\<close>

text \<open>A checkout that uses the configured delivery of a plan can be delivered: the plan has an active
  configuration that is not the store's fallback, with at least one active source, and from every
  active source the configured quantity can be taken at that moment: the inbound of a panel source is
  open on an active panel of the store, and the allocation from an inventory pool succeeds.\<close>

theorem checkout_delivery_ready:
  assumes "canonical_delivery_for_checkout en d t (Some (k, p)) st = Inr (Some pd)"
  shows "\<exists>ck c. active_delivery_config_for_plan k t = Some (ck, c) \<and> pd_delivery_config pd = Some ck \<and>
    dv_delivery_mode c \<noteq> GlobalFallback \<and> pd_source_count pd = length (active_delivery_sources ck t) \<and>
    active_delivery_sources ck t \<noteq> [] \<and>
    (\<forall>(j, s) \<in> set (active_delivery_sources ck t). deliverable en d t (map_option fst (effective_store st p d)) s)"
proof -
  let ?pd = "resolve_plan_delivery_configuration en d t (Some (k, p)) st"
  have pd: "pd = ?pd" "pd_source_of_truth ?pd = V2Config" "pd_effective_mode ?pd \<noteq> GlobalFallback"
    "pd_readiness ?pd \<noteq> Incomplete"
    using assms by (auto simp: canonical_delivery_for_checkout_def Let_def split: if_splits)
  obtain ck c where c: "active_delivery_config_for_plan k t = Some (ck, c)"
  proof (cases "active_delivery_config_for_plan k t")
    case None
    then have "pd_source_of_truth ?pd \<noteq> V2Config"
      by (simp add: resolve_plan_delivery_configuration_def resolve_legacy_def store_fallback_delivery_def new_plan_delivery_def
          Let_def split: option.split prod.split)
    with pd(2) show thesis by simp
  next
    case (Some x)
    then show thesis using that by (cases x) simp
  qed
  let ?ss = "map snd (active_delivery_sources ck t)"
  have m: "dv_delivery_mode c \<noteq> GlobalFallback"
    using pd(3) c by (auto simp: resolve_plan_delivery_configuration_def v2_readiness_def Let_def split: if_splits)
  have r: "pd_delivery_config ?pd = Some ck" "pd_source_count ?pd = length ?ss"
    using c m by (simp_all add: resolve_plan_delivery_configuration_def v2_readiness_def new_plan_delivery_def Let_def)
  have no: "?ss \<noteq> []" "\<forall>s \<in> set ?ss. fst (source_readiness en d t (map_option fst (effective_store st p d)) s) = []"
    using pd(4) c m by (auto simp: resolve_plan_delivery_configuration_def v2_readiness_def Let_def split: if_splits)
  show ?thesis using c m r pd(1) no by (auto intro!: exI [of _ ck] ready_source_deliverable)
qed

definition sample_delivery :: delivery_tables where
  "sample_delivery = \<lparr>dt_configs = [(1, \<lparr>dv_plan = 1, dv_delivery_mode = Subscription, dv_failure_policy = Strict, dv_active = True\<rparr>)],
     dt_sources = [
       (1, \<lparr>ds_delivery_config = 1, ds_source_type = PanelInbound, ds_panel = Some 1, ds_inbound = Some 1,
            ds_inventory_pool = None, ds_quantity = 1, ds_required = True, ds_priority = 10, ds_is_fallback = False, ds_active = True, ds_metadata = []\<rparr>),
       (2, \<lparr>ds_delivery_config = 1, ds_source_type = InventoryPool, ds_panel = None, ds_inbound = None,
            ds_inventory_pool = Some 1, ds_quantity = 2, ds_required = True, ds_priority = 20, ds_is_fallback = False, ds_active = True, ds_metadata = []\<rparr>)],
     dt_recipes = [], dt_rules = [], dt_inventory = sample_inventory\<rparr>"

theorem checkout_delivery_ready_witness:
  "pd_expected_outputs (resolve_plan_delivery_configuration inventory_env sample_db sample_delivery (Some (1, sample_plan)) (Some (1, sample_store))) = 3 \<and>
   (\<exists>ck. active_delivery_sources ck sample_delivery \<noteq> [] \<and>
     (\<forall>(j, s) \<in> set (active_delivery_sources ck sample_delivery). deliverable inventory_env sample_db sample_delivery (Some 1) s))"
proof -
  have "case canonical_delivery_for_checkout inventory_env sample_db sample_delivery (Some (1, sample_plan)) (Some (1, sample_store)) of
      Inr (Some pd) \<Rightarrow> pd_expected_outputs pd = 3 | _ \<Rightarrow> False" by code_simp
  then obtain pd where pd: "canonical_delivery_for_checkout inventory_env sample_db sample_delivery (Some (1, sample_plan))
      (Some (1, sample_store)) = Inr (Some pd)" "pd_expected_outputs pd = 3" by (auto split: sum.splits option.splits)
  have "pd = resolve_plan_delivery_configuration inventory_env sample_db sample_delivery (Some (1, sample_plan)) (Some (1, sample_store))"
    using pd(1) by (auto simp: canonical_delivery_for_checkout_def Let_def split: if_splits)
  with pd(2) checkout_delivery_ready [OF pd(1)] show ?thesis by (auto simp: effective_store_def)
qed

end
