(* ===== verification/Order_Creation.thy ===== *)
theory Order_Creation
  imports Plan_Delivery Order_Actions
begin

text \<open>
  How orders come to be (\<open>store/order_services.py\<close>): a paid checkout with its guard against double
  submission, a renewal of an existing configuration, and a free grant by an administrator.
  The cache entries that other running requests hold are an argument, as is the digest that names
  them; text outside ASCII has no case here.
\<close>

section \<open>Double submissions\<close>

definition duplicate_order_window_seconds :: int where
  "duplicate_order_window_seconds = 10 * 60"

definition ascii_points :: "string \<Rightarrow> code_points" where
  "ascii_points s = map chr_code s"

text \<open>\<open>str(x.pk if x else "")\<close>, and \<open>strftime("%H:%M")\<close> of a minute of the day.\<close>

definition pk_points :: "pk option \<Rightarrow> code_points" where
  "pk_points k = (case k of None \<Rightarrow> [] | Some n \<Rightarrow> ascii_points (show_nat n))"

definition two_digits :: "nat \<Rightarrow> code_points" where
  "two_digits n = [48 + n div 10 mod 10, 48 + n mod 10]"

definition clock_points :: "int \<Rightarrow> code_points" where
  "clock_points t = two_digits (nat (t div 60)) @ [58] @ two_digits (nat (t mod 60))"

fun join_points :: "code_points \<Rightarrow> code_points list \<Rightarrow> code_points" where
  "join_points sep [] = []"
| "join_points sep [x] = x"
| "join_points sep (x # y # xs) = x @ sep @ join_points sep (y # xs)"

text \<open>What identifies a submission.\<close>

record attempt =
  at_store :: "pk option"
  at_customer :: "pk option"
  at_plan :: pk
  at_quantity :: int
  at_operator :: "pk option"
  at_sender_card_name :: code_points
  at_sender_card_last4 :: code_points
  at_payment_time :: int
  at_bank_tracking_code :: code_points

definition build_duplicate_order_key :: "(code_points \<Rightarrow> string) \<Rightarrow> attempt \<Rightarrow> string" where
  "build_duplicate_order_key sha a =
     ''order:create:'' @ sha (join_points [124]
       [pk_points (at_store a), pk_points (at_customer a), pk_points (Some (at_plan a)), pk_points (at_operator a),
        ascii_points (show_int (at_quantity a)), fold_case (strip_points (at_sender_card_name a)),
        at_sender_card_last4 a, clock_points (at_payment_time a), fold_case (strip_points (at_bank_tracking_code a))])"

definition similar_order :: "env \<Rightarrow> attempt \<Rightarrow> order \<Rightarrow> bool" where
  "similar_order en a ord \<longleftrightarrow>
     o_plan ord = Some (at_plan a) \<and> o_quantity ord = at_quantity a \<and>
     o_status ord \<in> {PendingPayment, PendingVerification} \<and>
     o_created_at ord \<ge> e_now en - seconds duplicate_order_window_seconds \<and>
     (at_store a \<noteq> None \<longrightarrow> o_store ord = at_store a) \<and> o_operator ord = at_operator a \<and>
     (if at_customer a \<noteq> None then o_customer ord = at_customer a
      else o_sender_card_name ord = at_sender_card_name a \<and> o_sender_card_last4 ord = at_sender_card_last4 a) \<and>
     (if at_bank_tracking_code a \<noteq> [] then o_bank_tracking_code ord = at_bank_tracking_code a
      else o_payment_date ord = Some (e_today en) \<and> o_payment_time ord = Some (at_payment_time a))"

definition find_similar_pending_order :: "env \<Rightarrow> attempt \<Rightarrow> db \<Rightarrow> (pk \<times> order) option" where
  "find_similar_pending_order en a d =
     first_of (ordered_where (\<lambda>(_, ord). - o_created_at ord) (\<lambda>_ ord. similar_order en a ord) (db_orders d))"

definition json_int :: "json \<Rightarrow> int" where
  "json_int v = (case v of JInt n \<Rightarrow> n | JBool b \<Rightarrow> (if b then 1 else 0) | _ \<Rightarrow> 0)"

definition mark_duplicate_attempt :: "env \<Rightarrow> json \<Rightarrow> string \<Rightarrow> pk \<Rightarrow> order \<Rightarrow> db \<Rightarrow> db" where
  "mark_duplicate_attempt en src reason k ord d =
     (let dup = as_dict (dget ''duplicate_warning'' (o_metadata ord));
          dup1 = dset ''reason'' (JStr reason) (dset ''detected'' (JBool True) dup);
          dup2 = dset ''source'' (if truthy src then src
                   else if truthy (dget ''source'' dup1) then dget ''source'' dup1 else JStr []) dup1;
          dup3 = dset ''attempt_count'' (JInt (json_int (dget ''attempt_count'' dup2) + 1)) dup2;
          dup4 = dset ''window_seconds'' (JInt duplicate_order_window_seconds)
                   (dset ''last_attempt_at'' (JInt (e_now en)) dup3)
      in save_order en k (ord\<lparr>o_metadata := dset ''duplicate_warning'' (JObj dup4) (o_metadata ord)\<rparr>) d)"

definition notify_duplicate_attempt :: "pk \<Rightarrow> db \<Rightarrow> db" where
  "notify_duplicate_attempt k d = d\<lparr>db_outbox := DuplicateAttempt k # db_outbox d\<rparr>"

section \<open>Records of a new order\<close>

definition ordered_base ::
  "pk option \<Rightarrow> pk option \<Rightarrow> pk \<times> plan \<Rightarrow> pk option \<Rightarrow> string \<Rightarrow> string \<Rightarrow> int \<Rightarrow> dict \<Rightarrow> order" where
  "ordered_base st cust pl oper tracking username quantity meta_data =
     new_order\<lparr>o_store := st, o_customer := cust, o_plan := Some (fst pl), o_operator := oper, o_quantity := quantity,
       o_original_amount := pl_price (snd pl) * quantity, o_amount := pl_price (snd pl) * quantity,
       o_currency := Some (pl_currency (snd pl)), o_username := username, o_tracking_code := tracking,
       o_metadata := meta_data, o_status := PendingPayment\<rparr>"

definition create_inactive_order_records ::
  "env \<Rightarrow> pk option \<Rightarrow> pk option \<Rightarrow> pk \<times> plan \<Rightarrow> pk \<times> inbound \<Rightarrow> pk option \<Rightarrow> string \<Rightarrow> string \<Rightarrow> client_result \<Rightarrow>
   int \<Rightarrow> dict \<Rightarrow> db \<Rightarrow> pk \<times> pk \<times> db" where
  "create_inactive_order_records en st cust pl inb oper tracking username cr quantity meta_data d =
     (let m = dsetdefault ''provisioning_scope'' (JObj (provisioning_scope d inb))
                (dsetdefault ''provisioning_strategy'' (JStr (strategy_text LegacyPrecreateInactive)) meta_data);
          (k, d1) = create_order en ((ordered_base st cust pl oper tracking username quantity m)\<lparr>
                      o_uuid := cr_uuid cr, o_inbound := Some (fst inb), o_sub_link := cr_sub_link cr,
                      o_direct_link := cr_direct_link cr, o_provisioning_status := ProvProvisioned,
                      o_provisioned_at := Some (e_now en)\<rparr>) d;
          (ck, t) = add_row (new_client\<lparr>vc_store := st, vc_order := Some k, vc_plan := Some (fst pl),
                      vc_inbound := Some (fst inb), vc_created_at := e_now en, vc_username := username,
                      vc_xui_email := cr_email cr, vc_uuid := cr_uuid cr, vc_sub_id := cr_sub_id cr,
                      vc_sub_link := cr_sub_link cr, vc_direct_link := cr_direct_link cr, vc_status := ClInactive,
                      vc_traffic_limit_bytes := traffic_limit_bytes (snd pl),
                      vc_duration_days := int (pl_duration_days (snd pl)), vc_device_limit := pl_device_limit (snd pl),
                      vc_xui_node_id := str_or (cr_node_id cr) (ib_xui_node_id (snd inb)),
                      vc_remote_client_key := cr_remote_key cr, vc_xui_raw := cr_raw cr\<rparr>) (db_clients d1)
      in (k, ck, add_user (fst inb) (d1\<lparr>db_clients := t\<rparr>)))"

text \<open>\<open>provisioning_scope(None)\<close>.\<close>

definition no_scope :: dict where
  "no_scope = [(''panel_id'', JNull), (''panel_profile'', JStr []), (''inbound_pk'', JNull), (''xui_inbound_id'', JNull),
     (''node_id'', JStr []), (''node_name'', JStr []), (''remote_key'', JStr [])]"

definition create_deferred_order_record ::
  "env \<Rightarrow> pk option \<Rightarrow> pk option \<Rightarrow> pk \<times> plan \<Rightarrow> (pk \<times> inbound) option \<Rightarrow> pk option \<Rightarrow> string \<Rightarrow> string \<Rightarrow>
   int \<Rightarrow> dict \<Rightarrow> db \<Rightarrow> pk \<times> db" where
  "create_deferred_order_record en st cust pl inb oper tracking username quantity meta_data d =
     (let m = dsetdefault ''provisioning_scope''
                (JObj (case inb of None \<Rightarrow> no_scope | Some ki \<Rightarrow> provisioning_scope d ki)) meta_data
      in create_order en ((ordered_base st cust pl oper tracking username quantity m)\<lparr>
           o_inbound := map_option fst inb, o_provisioning_status := ProvPending\<rparr>) d)"

section \<open>The checkout\<close>

record checkout =
  ck_store :: "(pk \<times> store) option"
  ck_customer :: "(pk \<times> customer) option"
  ck_plan :: "(pk \<times> plan) option"
  ck_operator :: "pk option"
  ck_custom_volume :: code_points
  ck_inbound :: "(pk \<times> inbound) option"
  ck_submission :: submission
  ck_bank_tracking_code :: code_points
  ck_discount_code :: string
  ck_quantity :: decimal_input
  ck_metadata :: dict
  ck_storage_fails :: bool

text \<open>\<open>ck_storage_fails\<close>: writing the receipt image to the file store raises \<open>OSError\<close>.\<close>

datatype checkout_error =
    CkSetupNotReady | CkPayment payment_error | CkSelection select_error | CkNoPlan | CkDeliveryIncomplete
  | CkDiscount discount_error | CkNoServer | CkInProgress | CkImageNotSaved

text \<open>\<open>CkRaised\<close>: the quantity is validated outside every handler. A duplicate names the order that is
  already there, with its first client.\<close>

datatype checkout_outcome =
    CkRaised discount_error
  | CkRefused checkout_error
  | CkDuplicate pk "pk option"
  | CkCreated pk "pk option"

definition destination_metadata :: "store option \<Rightarrow> dict \<Rightarrow> dict" where
  "destination_metadata st m =
     (case st of
        None \<Rightarrow> m
      | Some s \<Rightarrow> dupdate m [(''payment_destination_card_number'', JStr (st_card_number s)),
          (''payment_destination_card_owner'', JStr (st_card_owner s)),
          (''payment_destination_bank_name'', JStr (st_bank_name s)),
          (''payment_destination_receipt_image_only'', JBool (st_receipt_image_only_payment s))])"

definition custom_volume_metadata :: "store option \<Rightarrow> plan \<Rightarrow> dict \<Rightarrow> dict" where
  "custom_volume_metadata st p m =
     (if \<not> pl_is_custom_volume p then m
      else dupdate m [(''custom_volume'', JBool True),
             (''custom_volume_gb'', JStr (decimal_text (CHR ''.'') (pl_volume_gb p))),
             (''custom_volume_duration_days'', JInt (int (pl_duration_days p))),
             (''custom_volume_price_per_gb'', JStr (decimal_text (CHR ''.'') (store_custom_volume_price_per_gb st)))])"

definition mode_text :: "delivery_mode \<Rightarrow> string" where
  "mode_text m = (case m of GlobalFallback \<Rightarrow> ''GLOBAL_FALLBACK'' | DirectLinks \<Rightarrow> ''DIRECT_LINKS''
     | Subscription \<Rightarrow> ''SUBSCRIPTION'' | Conflict \<Rightarrow> ''CONFLICT'')"

definition truth_text :: "truth_source \<Rightarrow> string" where
  "truth_text s = (case s of V2Config \<Rightarrow> ''plan_delivery_config'' | StoreFallback \<Rightarrow> ''store_global_fallback''
     | PlanRoutes \<Rightarrow> ''legacy_plan_inbound_routes'' | CupRecipe \<Rightarrow> ''legacy_cup_fulfillment_recipe''
     | LegacyConflict \<Rightarrow> ''legacy_conflict'')"

definition plan_delivery_v2 :: string where
  "plan_delivery_v2 = ''plan_delivery_v2''"

definition delivery_note :: "plan_delivery \<Rightarrow> json" where
  "delivery_note pd = JObj [(''status'', JStr ''awaiting_payment''), (''delivery_config_id'', jpk (pd_delivery_config pd)),
     (''delivery_mode'', JStr (mode_text (pd_effective_mode pd))),
     (''source_of_truth'', JStr (truth_text (pd_source_of_truth pd))),
     (''source_count'', JInt (int (pd_source_count pd))),
     (''expected_output_count'', JInt (int (pd_expected_outputs pd)))]"

definition canonical_metadata :: "plan_delivery option \<Rightarrow> pk option \<Rightarrow> dict \<Rightarrow> dict" where
  "canonical_metadata pd ignored m =
     (case pd of
        None \<Rightarrow> m
      | Some x \<Rightarrow> dset ''plan_delivery_v2'' (delivery_note x) (dset ''provisioning_strategy'' (JStr plan_delivery_v2)
          (case ignored of None \<Rightarrow> m | Some ik \<Rightarrow> dset ''canonical_delivery_ignored_inbound_pk'' (JInt (int ik)) m)))"

text \<open>The discount of the order: a code that is reserved, or the percentage of a wholesale customer.\<close>

record chosen_discount =
  cd_reserved :: "pk option"
  cd_amount :: int
  cd_source :: discount_source
  cd_percent :: int

definition choose_discount ::
  "env \<Rightarrow> pk \<times> plan \<Rightarrow> string \<Rightarrow> (pk \<times> customer) option \<Rightarrow> int \<Rightarrow> db \<Rightarrow> (discount_error + chosen_discount) \<times> db" where
  "choose_discount en pl code cust quantity d =
     (if normalize_code code \<noteq> [] then
        (case reserve_discount_usage en pl (normalize_code code) (map_option fst cust) (Number (of_int quantity)) d of
           (Inl e, d1) \<Rightarrow> (Inl e, d1)
         | (Inr (k, a), d1) \<Rightarrow>
             (Inr \<lparr>cd_reserved = k, cd_amount = a, cd_source = (if k = None then SrcNone else SrcManual), cd_percent = 0\<rparr>, d1))
      else
        let percent = get_customer_wholesale_discount_percent (map_option snd cust);
            a = (if percent = 0 then 0 else calculate_percentage_discount (pl_price (snd pl) * quantity) percent)
        in (Inr \<lparr>cd_reserved = None, cd_amount = a, cd_source = (if a \<noteq> 0 then SrcWholesale else SrcNone), cd_percent = percent\<rparr>, d))"

definition discounted :: "db \<Rightarrow> chosen_discount \<Rightarrow> order \<Rightarrow> order" where
  "discounted d cd ord =
     (case cd_reserved cd of
        Some k \<Rightarrow> apply_discount d (Some k) (cd_amount cd) (Some (cd_source cd)) [] ord
      | None \<Rightarrow> if cd_source cd = SrcWholesale then apply_wholesale_discount d (cd_percent cd) ord else ord)"

text \<open>The inbounds a new order is placed on.\<close>

definition choose_inbounds ::
  "bool \<Rightarrow> (pk \<times> inbound) option \<Rightarrow> pk \<times> plan \<Rightarrow> (pk \<times> store) option \<Rightarrow> pk option \<Rightarrow> int \<Rightarrow> db \<Rightarrow>
   checkout_error + (pk \<times> inbound) list" where
  "choose_inbounds canonical inb pl st oper quantity d =
     (if canonical then Inr []
      else case (case inb of Some ki \<Rightarrow> Inr [ki] | None \<Rightarrow> select_inbounds_for_plan pl st oper quantity True d) of
        Inl e \<Rightarrow> Inl (CkSelection e)
      | Inr [] \<Rightarrow> Inl CkNoServer
      | Inr (ki # ks) \<Rightarrow>
          (case validate_inbound_for_order d (map_option fst st) quantity True ki of
             Inl e \<Rightarrow> Inl (CkSelection e) | Inr _ \<Rightarrow> Inr (ki # ks)))"

definition deferral :: "env \<Rightarrow> string \<Rightarrow> string \<Rightarrow> dict" where
  "deferral en reason username =
     [(''panel_provisioning_deferred'', JBool True), (''panel_provisioning_deferred_at'', JInt (e_now en)),
      (''panel_provisioning_reason'', JStr reason), (''deferred_panel_username'', JStr username)]"

definition scope_metadata :: "db \<Rightarrow> plan \<Rightarrow> strategy \<Rightarrow> (pk \<times> inbound) list \<Rightarrow> dict \<Rightarrow> dict" where
  "scope_metadata d p strat inbs m =
     (let m1 = dset ''provisioning_scope'' (JObj (provisioning_scope d (hd inbs)))
                 (dset ''provisioning_strategy'' (JStr (strategy_text strat)) m)
      in if pl_multi_inbound_bundle p \<and> length inbs > 1
         then dset ''bundle_inbound_pks'' (JList (map (\<lambda>ki. JInt (int (fst ki))) inbs))
                (dset ''provisioning_scopes'' (JList (map (\<lambda>ki. JObj (provisioning_scope d ki)) inbs))
                  (dset ''multi_inbound_bundle'' (JBool True) m1))
         else m1)"

text \<open>The remote half: a client is created inactive on a legacy panel, or provisioning is put off.\<close>

definition prepare_panel ::
  "env \<Rightarrow> remote \<Rightarrow> plan \<Rightarrow> string \<Rightarrow> (pk \<times> inbound) list \<Rightarrow> dict \<Rightarrow> db \<Rightarrow> client_result option \<times> dict \<times> db" where
  "prepare_panel en rm p username inbs m d =
     (case inbs of
        [] \<Rightarrow> (None, dsetdefault ''deferred_panel_username'' (JStr username) m, d)
      | ki # _ \<Rightarrow>
          let kind = (if truthy (dget ''admin_direct_purchase'' m) then AdminDirectPurchase else PaidPurchase);
              strat = (case panel_of d (snd ki) of None \<Rightarrow> LegacyPrecreateInactive
                         | Some pn \<Rightarrow> resolve_provisioning_strategy pn kind);
              m1 = scope_metadata d p strat inbs m
          in if strat = LegacyPrecreateInactive
             then (case ask (rm_create_inactive rm) d of
                     (Some cr, d1) \<Rightarrow> (Some cr, m1, d1)
                   | (None, d1) \<Rightarrow> (None, dupdate m1 (deferral en ''panel_unavailable_on_checkout'' username), d1))
             else (None, dupdate m1 (deferral en (strategy_text strat) username), d))"

text \<open>The submission that \<open>submit_manual_payment\<close> gets: the cleaned values again.\<close>

definition cleaned_submission :: "submission \<Rightarrow> cleaned_payment \<Rightarrow> submission" where
  "cleaned_submission sb cl =
     \<lparr>sb_sender_card_name = cln_sender_card_name cl, sb_sender_card_last4 = cln_sender_card_last4 cl,
      sb_payment_time = TimeOf (nat (cln_payment_time cl div 60)) (nat (cln_payment_time cl mod 60)) 0,
      sb_receipt_image = cln_receipt_image cl, sb_receipt_text = cln_receipt_text cl,
      sb_require_receipt = sb_require_receipt sb, sb_require_receipt_image = sb_require_receipt_image sb\<rparr>"

text \<open>The order with its client, or alone when there is no remote client yet.\<close>

definition create_records ::
  "env \<Rightarrow> checkout \<Rightarrow> pk \<times> plan \<Rightarrow> pk option \<Rightarrow> int \<Rightarrow> string \<Rightarrow> string \<Rightarrow> (pk \<times> inbound) list \<Rightarrow> client_result option \<Rightarrow>
   dict \<Rightarrow> db \<Rightarrow> pk \<times> pk option \<times> db" where
  "create_records en q pl oper quantity tracking username inbs cr m d =
     (let st = map_option fst (ck_store q); cust = map_option fst (ck_customer q)
      in case (cr, inbs) of
           (Some c, ki # _) \<Rightarrow>
             (case create_inactive_order_records en st cust pl ki oper tracking username c quantity m d of
                (k, c1, d1) \<Rightarrow> (k, Some c1, d1))
         | _ \<Rightarrow>
             (case create_deferred_order_record en st cust pl (first_of inbs) oper tracking username quantity m d of
                (k, d1) \<Rightarrow> (k, None, d1)))"

text \<open>The transaction that writes the order; the row it has just added is there.\<close>

definition write_order ::
  "env \<Rightarrow> checkout \<Rightarrow> pk \<times> plan \<Rightarrow> pk option \<Rightarrow> int \<Rightarrow> cleaned_payment \<Rightarrow> code_points \<Rightarrow> chosen_discount \<Rightarrow>
   string \<Rightarrow> string \<Rightarrow> (pk \<times> inbound) list \<Rightarrow> client_result option \<Rightarrow> dict \<Rightarrow> db \<Rightarrow> (checkout_error + (pk \<times> pk option)) \<times> db" where
  "write_order en q pl oper quantity cl bank cd tracking username inbs cr m d =
     (case create_records en q pl oper quantity tracking username inbs cr m d of (k, ck, d1) \<Rightarrow>
      case get_order d1 k of
        None \<Rightarrow> (Inl CkNoPlan, d1)
      | Some ord \<Rightarrow>
          (case submit_manual_payment en (cleaned_submission (ck_submission q) cl) (discounted d1 cd ord) of
             Inl e \<Rightarrow> (Inl (CkPayment e), d1)
           | Inr ord1 \<Rightarrow>
               if ck_storage_fails q \<and> cln_receipt_image cl \<noteq> None then (Inl CkImageNotSaved, d1)
               else
                 let d2 = save_order en k (ord1\<lparr>o_bank_tracking_code := bank\<rparr>) d1;
                     d3 = mark_customer_reward_used en (map_option fst (ck_customer q)) (cd_reserved cd) d2
                 in (Inr (k, ck), d3\<lparr>db_outbox := NewOrder k # db_outbox d3\<rparr>)))"

text \<open>From the cache lock to the answer. Failures after the reservation give the discount code back.\<close>

definition place_order ::
  "env \<Rightarrow> remote \<Rightarrow> checkout \<Rightarrow> pk \<times> plan \<Rightarrow> pk option \<Rightarrow> int \<Rightarrow> cleaned_payment \<Rightarrow> code_points \<Rightarrow> plan_delivery option \<Rightarrow>
   (pk \<times> inbound) option \<Rightarrow> dict \<Rightarrow> db \<Rightarrow> checkout_outcome \<times> db" where
  "place_order en rm q pl oper quantity cl bank pd inb m d =
     (let (tracking, d1) = ask (e_uuid en) d; (username, d2) = ask (e_name en) d1
      in case choose_discount en pl (ck_discount_code q) (ck_customer q) quantity d2 of
           (Inl e, d3) \<Rightarrow> (CkRefused (CkDiscount e), d3)
         | (Inr cd, d3) \<Rightarrow>
             (case choose_inbounds (pd \<noteq> None) inb pl (ck_store q) oper quantity d3 of
                Inl e \<Rightarrow> (CkRefused e, release_discount_usage (cd_reserved cd) d3)
              | Inr inbs \<Rightarrow>
                  (case prepare_panel en rm (snd pl) username inbs m d3 of
                     (cr, m1, d4) \<Rightarrow>
                       (case write_order en q pl oper quantity cl bank cd tracking username inbs cr m1 d4 of
                          (Inl e, d5) \<Rightarrow> (CkRefused e, release_discount_usage (cd_reserved cd) (rollback d4 d5))
                        | (Inr (k, ck), d5) \<Rightarrow> (CkCreated k ck, d5)))))"

definition attempt_of ::
  "checkout \<Rightarrow> pk \<Rightarrow> pk option \<Rightarrow> int \<Rightarrow> cleaned_payment \<Rightarrow> code_points \<Rightarrow> attempt" where
  "attempt_of q plan_pk oper quantity cl bank =
     \<lparr>at_store = map_option fst (ck_store q), at_customer = map_option fst (ck_customer q), at_plan = plan_pk,
      at_quantity = quantity, at_operator = oper, at_sender_card_name = cln_sender_card_name cl,
      at_sender_card_last4 = cln_sender_card_last4 cl, at_payment_time = cln_payment_time cl, at_bank_tracking_code = bank\<rparr>"

definition duplicate_answer :: "env \<Rightarrow> dict \<Rightarrow> string \<Rightarrow> pk \<times> order \<Rightarrow> db \<Rightarrow> checkout_outcome \<times> db" where
  "duplicate_answer en m reason ko d =
     (let src = (case dget ''source'' m of JStr s \<Rightarrow> JStr (strip (str_or s ''manual_payment'')) | _ \<Rightarrow> JStr ''manual_payment'');
          d1 = notify_duplicate_attempt (fst ko) (mark_duplicate_attempt en src reason (fst ko) (snd ko) d)
      in (CkDuplicate (fst ko) (map_option fst (first_of (clients_in_order (fst ko) d1))), d1))"

text \<open>The guard against double submissions: a similar order of the last ten minutes, or a running request.
  In a run without interleaving the second look at the orders finds what the first one found.\<close>

definition guarded_order ::
  "env \<Rightarrow> remote \<Rightarrow> (code_points \<Rightarrow> string) \<Rightarrow> string set \<Rightarrow> checkout \<Rightarrow> pk \<times> plan \<Rightarrow> pk option \<Rightarrow> int \<Rightarrow> cleaned_payment \<Rightarrow>
   code_points \<Rightarrow> plan_delivery option \<Rightarrow> (pk \<times> inbound) option \<Rightarrow> dict \<Rightarrow> db \<Rightarrow> checkout_outcome \<times> db" where
  "guarded_order en rm sha locks q pl oper quantity cl bank pd inb m d =
     (let a = attempt_of q (fst pl) oper quantity cl bank
      in case find_similar_pending_order en a d of
           Some ko \<Rightarrow> duplicate_answer en m ''similar_order'' ko d
         | None \<Rightarrow>
             if build_duplicate_order_key sha a \<in> locks
             then (case find_similar_pending_order en a d of
                     Some ko \<Rightarrow> duplicate_answer en m ''concurrent_duplicate'' ko d
                   | None \<Rightarrow> (CkRefused CkInProgress, d))
             else place_order en rm q pl oper quantity cl bank pd inb m d)"

text \<open>The plan that is bought: the selected one, or the plan of the custom volume.\<close>

definition checkout_plan :: "checkout \<Rightarrow> pk option \<Rightarrow> db \<Rightarrow> (checkout_error + (pk \<times> plan)) \<times> db" where
  "checkout_plan q oper d =
     (if ck_custom_volume q \<noteq> [] then
        (case get_or_create_custom_volume_plan (ck_store q) (ck_custom_volume q) oper d of
           (Inl e, d1) \<Rightarrow> (Inl (CkSelection e), d1)
         | (Inr k, d1) \<Rightarrow> (case row (db_plans d1) k of None \<Rightarrow> (Inl CkNoPlan, d1) | Some p \<Rightarrow> (Inr (k, p), d1)))
      else case ck_plan q of None \<Rightarrow> (Inl CkNoPlan, d) | Some pl \<Rightarrow> (Inr pl, d))"

definition checkout_operator :: "checkout \<Rightarrow> db \<Rightarrow> checkout_error + pk option" where
  "checkout_operator q d =
     (if sales_mode_requires_operator (map_option snd (ck_store q)) then
        (case get_active_operator (map_option fst (ck_store q)) (ck_operator q) d of
           None \<Rightarrow> Inl (CkSelection (if ck_operator q = None then OperatorMissing else OperatorInvalid))
         | Some k \<Rightarrow> Inr (Some k))
      else Inr (ck_operator q))"

text \<open>An inbound named by the caller is validated, unless the configured delivery replaces it.\<close>

definition requested_inbound :: "checkout \<Rightarrow> plan_delivery option \<Rightarrow> int \<Rightarrow> db \<Rightarrow> checkout_error + (pk \<times> inbound) option" where
  "requested_inbound q pd quantity d =
     (if pd \<noteq> None then Inr None
      else case ck_inbound q of
        None \<Rightarrow> Inr None
      | Some ki \<Rightarrow>
          (case validate_inbound_for_order d (map_option fst (ck_store q)) quantity True ki of
             Inl e \<Rightarrow> Inl (CkSelection e) | Inr x \<Rightarrow> Inr (Some x)))"

definition create_manual_payment_order ::
  "env \<Rightarrow> remote \<Rightarrow> (code_points \<Rightarrow> string) \<Rightarrow> delivery_tables \<Rightarrow> string set \<Rightarrow> checkout \<Rightarrow> db \<Rightarrow> checkout_outcome \<times> db" where
  "create_manual_payment_order en rm sha t locks q d =
     (if ck_store q \<noteq> None \<and> \<not> store_is_sellable (map_option snd (ck_store q)) then (CkRefused CkSetupNotReady, d)
      else case validate_order_quantity (ck_quantity q) of Inl e \<Rightarrow> (CkRaised e, d) | Inr quantity \<Rightarrow>
      case clean_manual_payment_submission (ck_submission q) [] [] of Inl e \<Rightarrow> (CkRefused (CkPayment e), d) | Inr cl \<Rightarrow>
      case clean_bank_tracking_code (ck_bank_tracking_code q) of Inl e \<Rightarrow> (CkRefused (CkPayment e), d) | Inr bank \<Rightarrow>
      case checkout_operator q d of Inl e \<Rightarrow> (CkRefused e, d) | Inr oper \<Rightarrow>
      case checkout_plan q oper d of (Inl e, d1) \<Rightarrow> (CkRefused e, d1) | (Inr pl, d1) \<Rightarrow>
      case validate_operator_for_order (ck_store q) (Some (snd pl)) oper d1 of
        Inl e \<Rightarrow> (CkRefused (CkSelection e), d1)
      | Inr oper1 \<Rightarrow>
      case canonical_delivery_for_checkout en d1 t (Some pl) (ck_store q) of
        Inl _ \<Rightarrow> (CkRefused CkDeliveryIncomplete, d1)
      | Inr pd \<Rightarrow>
      case requested_inbound q pd quantity d1 of Inl e \<Rightarrow> (CkRefused e, d1) | Inr inb \<Rightarrow>
      guarded_order en rm sha locks q pl oper1 quantity cl bank pd inb
        (canonical_metadata pd (map_option fst (ck_inbound q))
          (custom_volume_metadata (map_option snd (ck_store q)) (snd pl)
            (destination_metadata (map_option snd (ck_store q)) (ck_metadata q)))) d1)"

section \<open>Renewals\<close>

datatype renewal_refusal = RnDeleted | RnNoPlan | RnNoOrder | RnForeign | RnDiscount discount_error | RnClientMissing

text \<open>The store of the new order: that of the client, of its order, of its plan, or the current one.\<close>

definition renewal_store :: "vpn_client \<Rightarrow> order \<Rightarrow> plan \<Rightarrow> db \<Rightarrow> (pk \<times> store) option" where
  "renewal_store c ord p d =
     (case orelse (vc_store c) (orelse (o_store ord) (pl_store p)) of
        Some k \<Rightarrow> map_option (\<lambda>s. (k, s)) (row (db_stores d) k)
      | None \<Rightarrow> get_current_store d)"

definition renewal_metadata :: "pk \<Rightarrow> vpn_client \<Rightarrow> pk \<Rightarrow> store option \<Rightarrow> dict \<Rightarrow> dict" where
  "renewal_metadata ck c ok st extra =
     dupdate (destination_metadata st
       [(''source'', JStr ''web_dashboard_renewal''), (''renewal'', JBool True), (''renewal_client_pk'', JInt (int ck)),
        (''renewal_client_public_id'', JStr (vc_public_id c)), (''renewal_order_pk'', JInt (int ok))]) extra"

definition renewal_order ::
  "pk option \<Rightarrow> pk option \<Rightarrow> pk \<times> plan \<Rightarrow> order \<Rightarrow> vpn_client \<Rightarrow> chosen_discount \<Rightarrow> dict \<Rightarrow> db \<Rightarrow> order" where
  "renewal_order st cust pl ord c cd m d =
     new_order\<lparr>o_store := st, o_customer := cust, o_plan := Some (fst pl), o_operator := o_operator ord, o_quantity := 1,
       o_original_amount := pl_price (snd pl), o_discount_amount := cd_amount cd,
       o_amount := max (pl_price (snd pl) - cd_amount cd) 0, o_currency := Some (pl_currency (snd pl)),
       o_username := vc_username c, o_uuid := vc_uuid c, o_inbound := vc_inbound c, o_sub_link := vc_sub_link c,
       o_direct_link := vc_direct_link c, o_status := PendingPayment, o_discount_source := cd_source cd, o_metadata := m,
       o_discount_code := cd_reserved cd,
       o_discount_code_text := (case cd_reserved cd of
            Some k \<Rightarrow> (case get_discount d k of None \<Rightarrow> [] | Some x \<Rightarrow> dc_code x)
          | None \<Rightarrow> if cd_source cd = SrcWholesale
                    then ''WHOLESALE '' @ show_nat (nat (cd_percent cd)) @ ''%'' else [])\<rparr>"

definition create_renewal_payment_order ::
  "env \<Rightarrow> (pk \<times> customer) option \<Rightarrow> pk \<Rightarrow> dict \<Rightarrow> string \<Rightarrow> db \<Rightarrow> (renewal_refusal + pk) \<times> db" where
  "create_renewal_payment_order en cust ck extra code d =
     (case get_client d ck of None \<Rightarrow> (Inl RnClientMissing, d) | Some c \<Rightarrow>
      if is_deleted c then (Inl RnDeleted, d)
      else case Option.bind (vc_plan c) (\<lambda>k. map_option (\<lambda>p. (k, p)) (row (db_plans d) k)) of None \<Rightarrow> (Inl RnNoPlan, d) | Some pl \<Rightarrow>
      case Option.bind (vc_order c) (\<lambda>k. map_option (\<lambda>x. (k, x)) (get_order d k)) of None \<Rightarrow> (Inl RnNoOrder, d) | Some (ok, ord) \<Rightarrow>
      if cust \<noteq> None \<and> o_customer ord \<noteq> map_option fst cust then (Inl RnForeign, d)
      else
        let st = renewal_store c ord (snd pl) d in
        case choose_discount en pl code cust 1 d of
          (Inl e, d1) \<Rightarrow> (Inl (RnDiscount e), d1)
        | (Inr cd, d1) \<Rightarrow>
            let m = renewal_metadata ck c ok (map_option snd st) extra;
                (k, d2) = create_order en (renewal_order (map_option fst st) (map_option fst cust) pl ord c cd m d1) d1;
                d3 = mark_customer_reward_used en (map_option fst cust) (cd_reserved cd) d2
            in (Inr k, d3\<lparr>db_outbox := NewOrder k # db_outbox d3\<rparr>))"

section \<open>Free grants\<close>

record grant =
  gr_store :: "(pk \<times> store) option"
  gr_customer :: pk
  gr_plan :: "pk \<times> plan"
  gr_inbound :: "(pk \<times> inbound) option"
  gr_granted_by :: "pk option"
  gr_reason :: string
  gr_metadata :: dict
  gr_notify_customer :: bool
  gr_revenue_included :: bool
  gr_revenue_amount :: "int option"
  gr_request_id :: string

datatype grant_error =
    GrRevenueInvalid | GrConfirmationInvalid | GrDeliveryIncomplete | GrSelection select_error | GrNoServer

text \<open>\<open>GrRepeated\<close>: the confirmation was used before; the flag says whether that order was completed.\<close>

datatype grant_outcome =
    GrRefused grant_error
  | GrRepeated bool pk
  | GrFailed grant_error pk
  | GrActivated result pk
  | GrRaised string pk

definition grant_text :: "grant_error \<Rightarrow> string" where
  "grant_text e = (case e of GrDeliveryIncomplete \<Rightarrow> ''delivery_incomplete'' | GrNoServer \<Rightarrow> ''no_server'' | _ \<Rightarrow> ''inbound_unusable'')"

definition grant_base_metadata :: "grant \<Rightarrow> dict" where
  "grant_base_metadata g =
     dupdate (gr_metadata g)
       [(''source'', JStr ''admin_free''), (''free_grant'', JBool True), (''free_grant_reason'', JStr (gr_reason g)),
        (''suppress_new_order_notification'', JBool True), (''suppress_admin_order_updates'', JBool True),
        (''suppress_customer_notification'', JBool (\<not> gr_notify_customer g))]"

definition grant_inbound :: "grant \<Rightarrow> db \<Rightarrow> grant_error + (pk \<times> inbound)" where
  "grant_inbound g d =
     (case (case gr_inbound g of Some ki \<Rightarrow> Inr (Some ki) | None \<Rightarrow> select_inbound_for_plan (gr_plan g) (gr_store g) None 1 True d) of
        Inl e \<Rightarrow> Inl (GrSelection e)
      | Inr None \<Rightarrow> Inl GrNoServer
      | Inr (Some ki) \<Rightarrow>
          (case validate_inbound_for_order d (map_option fst (gr_store g)) 1 True ki of
             Inl e \<Rightarrow> Inl (GrSelection e) | Inr x \<Rightarrow> Inr x))"

text \<open>Where the grant is delivered: by the configured delivery, on an inbound, or a failure that is recorded when the
  request is confirmed by an identifier.\<close>

definition grant_target ::
  "env \<Rightarrow> delivery_tables \<Rightarrow> grant \<Rightarrow> db \<Rightarrow> grant_error option \<times> (pk \<times> inbound) option \<times> dict" where
  "grant_target en t g d =
     (let m = grant_base_metadata g;
          by_plan = (\<lambda>pd. dset ''plan_delivery_v2'' (delivery_note pd) (dset ''provisioning_strategy'' (JStr plan_delivery_v2) m))
      in case canonical_delivery_for_checkout en d t (Some (gr_plan g)) (gr_store g) of
           Inl _ \<Rightarrow> (Some GrDeliveryIncomplete, gr_inbound g,
                     by_plan (resolve_plan_delivery_configuration en d t (Some (gr_plan g)) (gr_store g)))
         | Inr (Some pd) \<Rightarrow> (None, gr_inbound g, by_plan pd)
         | Inr None \<Rightarrow>
             (case grant_inbound g d of
                Inl e \<Rightarrow> (Some e, None, m)
              | Inr ki \<Rightarrow>
                  let strat = (case panel_of d (snd ki) of None \<Rightarrow> LegacyPrecreateInactive
                                 | Some pn \<Rightarrow> resolve_provisioning_strategy pn AdminDirectPaidGrant)
                  in (None, Some ki, dupdate m [(''provisioning_strategy'', JStr (strategy_text strat)),
                        (''provisioning_scope'', JObj (provisioning_scope d ki)), (''panel_provisioning_deferred'', JBool True),
                        (''panel_provisioning_reason'', JStr (strategy_text strat))])))"

definition granted_order ::
  "env \<Rightarrow> grant \<Rightarrow> pk option \<Rightarrow> string \<Rightarrow> string \<Rightarrow> dict \<Rightarrow> order" where
  "granted_order en g inb tracking username m =
     new_order\<lparr>o_public_id := gr_request_id g, o_store := map_option fst (gr_store g), o_customer := Some (gr_customer g),
       o_plan := Some (fst (gr_plan g)), o_inbound := inb, o_tracking_code := tracking, o_username := username,
       o_original_amount := pl_price (snd (gr_plan g)), o_discount_amount := pl_price (snd (gr_plan g)), o_amount := 0,
       o_currency := Some (pl_currency (snd (gr_plan g))), o_status := PendingPayment, o_provisioning_status := ProvPending,
       o_payment_method := AdminFree, o_is_paid := True, o_payment_submitted_at := Some (e_now en),
       o_payment_date := Some (e_today en), o_metadata := dset ''deferred_panel_username'' (JStr username) m,
       o_revenue_included := Some (gr_revenue_included g),
       o_revenue_amount := (if gr_revenue_included g then gr_revenue_amount g else None)\<rparr>"

definition order_by_public_id :: "string \<Rightarrow> db \<Rightarrow> (pk \<times> order) option" where
  "order_by_public_id req d = first_where (\<lambda>_ ord. o_public_id ord = req) (db_orders d)"

definition grant_free_subscription ::
  "env \<Rightarrow> remote \<Rightarrow> engines \<Rightarrow> delivery_tables \<Rightarrow> grant \<Rightarrow> db \<Rightarrow> grant_outcome \<times> db" where
  "grant_free_subscription en rm eg t g d =
     (if gr_revenue_included g \<and> (case gr_revenue_amount g of None \<Rightarrow> True | Some n \<Rightarrow> \<not> (0 < n \<and> n \<le> 2147483647))
      then (GrRefused GrRevenueInvalid, d)
      else case (if gr_request_id g = [] then None else order_by_public_id (gr_request_id g) d) of
        Some (k, prev) \<Rightarrow>
          (if o_customer prev \<noteq> Some (gr_customer g) \<or> o_plan prev \<noteq> Some (fst (gr_plan g)) then GrRefused GrConfirmationInvalid
           else GrRepeated (o_status prev = Completed) k, d)
      | None \<Rightarrow>
          (case grant_target en t g d of
             (err, inb, m) \<Rightarrow>
               if err \<noteq> None \<and> gr_request_id g = [] then (GrRefused (the err), d)
               else
                 let (tracking, d1) = ask (e_uuid en) d; (username, d2) = ask (e_name en) d1;
                     (k, d3) = create_order en (granted_order en g (map_option fst inb) tracking username m) d2
                 in case err of
                      Some e \<Rightarrow>
                        (GrFailed e k, (case get_order d3 k of None \<Rightarrow> d3 | Some ord \<Rightarrow>
                           save_order en k (ord\<lparr>o_provisioning_status := ProvFailed, o_last_provisioning_error := grant_text e\<rparr>) d3))
                    | None \<Rightarrow>
                        (case activate_order en rm eg (gr_granted_by g) True k d3 of
                           (Inl e, d4) \<Rightarrow> (GrRaised e k, d4)
                         | (Inr r, d4) \<Rightarrow> (GrActivated r k, d4))))"

end
