(* ===== verification/Order_Creation_Facts.thy ===== *)
theory Order_Creation_Facts
  imports Order_Creation Provisioning_Facts
begin

text \<open>
  What the parts of a checkout leave alone, and what the order they store holds.
\<close>

section \<open>Writes without a purchase\<close>

lemma no_purchase: "o_status ord \<noteq> Completed \<Longrightarrow> process_referral_purchase en k ord d = ([], d)"
  by (simp add: process_referral_purchase_def purchase_counts_def)

lemma save_pending:
  "o_status ord \<notin> {Completed, OrderLegacyPending} \<Longrightarrow> save_order en k ord d = put_order k (normalize_on_save en d ord) d"
  by (simp add: save_order_def no_purchase Let_def)

lemma create_pending:
  assumes "o_status ord \<notin> {Completed, OrderLegacyPending}"
  shows "create_order en ord d = (fresh_pk (db_orders d),
    d\<lparr>db_orders := db_orders d @ [(fresh_pk (db_orders d), normalize_on_save en d (ord\<lparr>o_created_at := e_now en\<rparr>))],
      db_outbox := NewOrder (fresh_pk (db_orders d)) # db_outbox d\<rparr>)"
  using assms by (simp add: create_order_def no_purchase add_row_def Let_def)

section \<open>Reserving and releasing\<close>

lemma release_reserved:
  assumes "wf_table (db_discounts d)" and "get_discount d k = Some c" and "0 \<le> dc_used_count c"
  shows "release_discount_usage (Some k) (put_discount k (c\<lparr>dc_used_count := dc_used_count c + 1\<rparr>) d) = d"
proof -
  let ?c = "c\<lparr>dc_used_count := dc_used_count c + 1\<rparr>"
  have row: "row (db_discounts d) k = Some c" using assms(2) by (simp add: get_discount_def)
  then have "k \<in> fst ` set (db_discounts d)" by (force dest: row_Some_in)
  then have put: "put k ?c (db_discounts d) = modify_where (\<lambda>j _. j = k) (\<lambda>_. ?c) (db_discounts d)"
    by (rule put_existing [OF assms(1)])
  have "x = c" if "(k, x) \<in> set (db_discounts d)" for x
    using in_row_Some [OF assms(1) that] row by simp
  then have "modify_where (\<lambda>j c. j = k \<and> dc_used_count c > 0) (\<lambda>c. c\<lparr>dc_used_count := dc_used_count c - 1\<rparr>)
      (modify_where (\<lambda>j _. j = k) (\<lambda>_. ?c) (db_discounts d)) = db_discounts d"
    using assms(3) unfolding modify_where_def map_map by (intro map_idI) auto
  then show ?thesis by (simp add: release_discount_usage_def put_discount_def put)
qed

text \<open>Codes have a use count that is not negative.\<close>

definition counts_ok :: "db \<Rightarrow> bool" where
  "counts_ok d \<longleftrightarrow> wf_table (db_discounts d) \<and> (\<forall>k c. get_discount d k = Some c \<longrightarrow> 0 \<le> dc_used_count c)"

lemma choose_discount_undo:
  assumes "counts_ok d" and "choose_discount en pl code cust n d = (Inr cd, d')"
  shows "release_discount_usage (cd_reserved cd) d' = d"
proof (cases "cd_reserved cd")
  case None
  with assms(2) have "d' = d"
    by (auto simp: choose_discount_def reserve_discount_usage_def Let_def split: if_splits sum.splits prod.splits)
  with None show ?thesis by (simp add: release_discount_usage_def)
next
  case (Some k)
  with assms(2) obtain a where r: "reserve_discount_usage en pl (normalize_code code) (map_option fst cust) (Number (of_int n)) d =
      (Inr (Some k, a), d')"
    by (auto simp: choose_discount_def Let_def split: if_splits sum.splits prod.splits)
  from r obtain c where c: "check_discount en (fst pl) (normalize_code (normalize_code code)) (map_option fst cust) d = Inr (k, c)"
    and d': "d' = put_discount k (c\<lparr>dc_used_count := dc_used_count c + 1\<rparr>) d" by (rule reserve_cases)
  have w: "wf_table (db_discounts d)" using assms(1) by (simp add: counts_ok_def)
  have "get_discount d k = Some c" by (rule check_discount_found(1) [OF w c])
  with assms(1) Some show ?thesis unfolding d' by (simp add: release_reserved w counts_ok_def)
qed

lemma choose_discount_refused: "choose_discount en pl code cust n d = (Inl e, d') \<Longrightarrow> d' = d"
  by (auto simp: choose_discount_def reserve_discount_usage_def Let_def split: if_splits sum.splits prod.splits)

lemma choose_discount_frame:
  assumes "choose_discount en pl code cust n d = (r, d')"
  shows "d' = d\<lparr>db_discounts := db_discounts d'\<rparr>"
  using assms
  by (auto simp: choose_discount_def reserve_discount_usage_def put_discount_def Let_def split: if_splits sum.splits prod.splits)

section \<open>Requests\<close>

lemma prepare_same: "prepare_panel en rm p u inbs m d = (cr, m', d') \<Longrightarrow> same_data d d'"
  by (auto simp: prepare_panel_def ask_def Let_def split: list.splits if_splits option.splits)

lemma release_same: "same_data d d' \<Longrightarrow> same_data (release_discount_usage c d) (release_discount_usage c d')"
  unfolding same_data_def release_discount_usage_def
  by (cases d; cases d'; cases c) auto

lemma counts_ok_same: "same_data d d' \<Longrightarrow> counts_ok d' = counts_ok d"
  by (simp add: counts_ok_def same_dataD same_data_get)

lemma refused_place_order:
  assumes "counts_ok d" and "place_order en rm q pl oper n cl bank pd inb m d = (CkRefused e, d')"
  shows "same_data d d'"
proof -
  obtain tr d1 where a1: "ask (e_uuid en) d = (tr, d1)" by (rule prod.exhaust)
  obtain us d2 where a2: "ask (e_name en) d1 = (us, d2)" by (rule prod.exhaust)
  have s2: "same_data d d2" using same_data_ask [OF a1] same_data_ask [OF a2] by (rule same_data_trans)
  have c2: "counts_ok d2" using counts_ok_same [OF s2] assms(1) by simp
  obtain r d3 where ch: "choose_discount en pl (ck_discount_code q) (ck_customer q) n d2 = (r, d3)" by (rule prod.exhaust)
  note run = assms(2) [unfolded place_order_def a1 a2 ch Let_def prod.case]
  show ?thesis
  proof (cases r)
    case (Inl e1)
    with run choose_discount_refused [OF ch [unfolded Inl]] s2 show ?thesis by simp
  next
    case (Inr cd)
    have undo: "release_discount_usage (cd_reserved cd) d3 = d2" by (rule choose_discount_undo [OF c2 ch [unfolded Inr]])
    show ?thesis
    proof (cases "choose_inbounds (pd \<noteq> None) inb pl (ck_store q) oper n d3")
      case (Inl e1)
      with run \<open>r = Inr cd\<close> undo s2 show ?thesis by simp
    next
      case (Inr inbs)
      obtain cr m1 d4 where pp: "prepare_panel en rm (snd pl) us inbs m d3 = (cr, m1, d4)" by (rule prod_cases3)
      obtain w d5 where wo: "write_order en q pl oper n cl bank cd tr us inbs cr m1 d4 = (w, d5)" by (rule prod.exhaust)
      from run \<open>r = Inr cd\<close> Inr pp wo have d': "d' = release_discount_usage (cd_reserved cd) (rollback d4 d5)"
        by (auto split: sum.splits prod.splits)
      have "same_data d3 (rollback d4 d5)" using prepare_same [OF pp] by (rule same_data_trans) simp
      then have "same_data d2 d'" using release_same [of d3 "rollback d4 d5" "cd_reserved cd"] undo d' by simp
      with s2 show ?thesis by (rule same_data_trans)
    qed
  qed
qed

lemma custom_plan_frame:
  "get_or_create_custom_volume_plan st v oper d = (r, d') \<Longrightarrow> d' = d\<lparr>db_plans := db_plans d'\<rparr>"
  by (auto simp: get_or_create_custom_volume_plan_def Let_def add_row_def split: option.splits if_splits sum.splits prod.splits)

lemma checkout_plan_frame:
  assumes "checkout_plan q oper d = (r, d')"
  shows "d' = d\<lparr>db_plans := db_plans d'\<rparr>" and "ck_custom_volume q = [] \<Longrightarrow> d' = d"
proof -
  obtain r1 d1 where g: "get_or_create_custom_volume_plan (ck_store q) (ck_custom_volume q) oper d = (r1, d1)" by (rule prod.exhaust)
  from assms g show "d' = d\<lparr>db_plans := db_plans d'\<rparr>"
    using custom_plan_frame [OF g] by (auto simp: checkout_plan_def split: if_splits sum.splits option.splits)
  from assms show "ck_custom_volume q = [] \<Longrightarrow> d' = d" by (auto simp: checkout_plan_def split: option.splits)
qed

text \<open>How a checkout gets to its guard.\<close>

lemma checkout_cases:
  assumes "create_manual_payment_order en rm sha t locks q d = (out, d')"
  obtains (stopped) d1 e r oper where "checkout_plan q oper d = (r, d1) \<or> d1 = d" "d' = d1" "out = CkRefused e \<or> (\<exists>x. out = CkRaised x)"
  | (guarded) n cl bank oper pl d1 oper1 pd inb m where
      "validate_order_quantity (ck_quantity q) = Inr n"
      "clean_manual_payment_submission (ck_submission q) [] [] = Inr cl"
      "clean_bank_tracking_code (ck_bank_tracking_code q) = Inr bank"
      "checkout_operator q d = Inr oper" "checkout_plan q oper d = (Inr pl, d1)"
      "validate_operator_for_order (ck_store q) (Some (snd pl)) oper d1 = Inr oper1"
      "canonical_delivery_for_checkout en d1 t (Some pl) (ck_store q) = Inr pd"
      "requested_inbound q pd n d1 = Inr inb"
      "m = canonical_metadata pd (map_option fst (ck_inbound q))
          (custom_volume_metadata (map_option snd (ck_store q)) (snd pl)
            (destination_metadata (map_option snd (ck_store q)) (ck_metadata q)))"
      "guarded_order en rm sha locks q pl oper1 n cl bank pd inb m d1 = (out, d')"
  using assms unfolding create_manual_payment_order_def
  by (auto split: if_splits sum.splits prod.splits)

section \<open>The stored order\<close>

lemma normalize_cong:
  assumes "db_plans d' = db_plans d"
  shows "normalize_on_save en d' ord = normalize_on_save en d ord"
proof -
  have s: "subtotal_amount d' = subtotal_amount d" by (simp add: fun_eq_iff subtotal_amount_def assms)
  show ?thesis unfolding normalize_on_save_def fill_from_plan_def assms s ..
qed

lemma put_fresh: "put (fresh_pk t) x (t @ [(fresh_pk t, y)]) = t @ [(fresh_pk t, x)]"
proof -
  have "k \<notin> fst ` set t \<Longrightarrow> AList.update k x (t @ [(k, y)]) = t @ [(k, x)]" for k
    by (induction t) auto
  then show ?thesis using fresh_not_key [of t] by (simp add: put_def)
qed

text \<open>The first version of the order, before the discount and the payment.\<close>

definition base_order :: "checkout \<Rightarrow> pk \<times> plan \<Rightarrow> pk option \<Rightarrow> int \<Rightarrow> order \<Rightarrow> bool" where
  "base_order q pl oper n b \<longleftrightarrow>
     o_status b = PendingPayment \<and> o_store b = map_option fst (ck_store q) \<and> o_customer b = map_option fst (ck_customer q) \<and>
     o_plan b = Some (fst pl) \<and> o_operator b = oper \<and> o_quantity b = n \<and> o_original_amount b = pl_price (snd pl) * n \<and>
     o_amount b = pl_price (snd pl) * n \<and> o_discount_amount b = 0 \<and> o_payment_method b = ManualCard \<and>
     o_sender_card_name b = [] \<and> o_sender_card_last4 b = []"

lemma base_order_base [simp]:
  "base_order q pl oper n (ordered_base (map_option fst (ck_store q)) (map_option fst (ck_customer q)) pl oper tr us n m)"
  by (simp add: base_order_def ordered_base_def new_order_def)

lemma base_order_update [simp]:
  "base_order q pl oper n (b\<lparr>o_inbound := i, o_provisioning_status := ps\<rparr>) = base_order q pl oper n b"
  "base_order q pl oper n (b\<lparr>o_uuid := u, o_inbound := i, o_sub_link := sl, o_direct_link := dl,
     o_provisioning_status := ps, o_provisioned_at := pa\<rparr>) = base_order q pl oper n b"
  by (simp_all add: base_order_def)

lemma ordered_base_status [simp]: "o_status (ordered_base st cust pl oper tr us n m) = PendingPayment"
  by (simp add: ordered_base_def)

lemma records_stored:
  assumes "create_records en q pl oper n tr us inbs cr m d = (k, ck, d1)"
  obtains b where "base_order q pl oper n b" "k = fresh_pk (db_orders d)" "db_plans d1 = db_plans d"
    "db_discounts d1 = db_discounts d" "db_rewards d1 = db_rewards d"
    "db_orders d1 = db_orders d @ [(k, normalize_on_save en d (b\<lparr>o_created_at := e_now en\<rparr>))]"
proof (cases "\<exists>c ki ks. cr = Some c \<and> inbs = ki # ks")
  case True
  then obtain c ki ks where c: "cr = Some c" "inbs = ki # ks" by auto
  let ?m = "dsetdefault ''provisioning_scope'' (JObj (provisioning_scope d ki))
      (dsetdefault ''provisioning_strategy'' (JStr (strategy_text LegacyPrecreateInactive)) m)"
  let ?b = "(ordered_base (map_option fst (ck_store q)) (map_option fst (ck_customer q)) pl oper tr us n ?m)\<lparr>
      o_uuid := cr_uuid c, o_inbound := Some (fst ki), o_sub_link := cr_sub_link c, o_direct_link := cr_direct_link c,
      o_provisioning_status := ProvProvisioned, o_provisioned_at := Some (e_now en)\<rparr>"
  show thesis
    by (rule that [of ?b]) (use assms c in \<open>auto simp: create_records_def create_inactive_order_records_def create_pending
        add_row_def add_user_def change_users_def Let_def\<close>)
next
  case False
  then have d: "create_records en q pl oper n tr us inbs cr m d =
      (case create_deferred_order_record en (map_option fst (ck_store q)) (map_option fst (ck_customer q)) pl (first_of inbs) oper tr us n m d of
         (k, d1) \<Rightarrow> (k, None, d1))"
    by (auto simp: create_records_def Let_def split: option.splits list.splits)
  let ?m = "dsetdefault ''provisioning_scope'' (JObj (case first_of inbs of None \<Rightarrow> no_scope | Some ki \<Rightarrow> provisioning_scope d ki)) m"
  let ?b = "(ordered_base (map_option fst (ck_store q)) (map_option fst (ck_customer q)) pl oper tr us n ?m)\<lparr>
      o_inbound := map_option fst (first_of inbs), o_provisioning_status := ProvPending\<rparr>"
  show thesis
    by (rule that [of ?b]) (use assms d in \<open>auto simp: create_deferred_order_record_def create_pending Let_def\<close>)
qed

lemma write_order_stored:
  assumes "write_order en q pl oper n cl bank cd tr us inbs cr m d = (Inr (k, ck), d')"
  obtains b d1 ord1 where "base_order q pl oper n b" "k = fresh_pk (db_orders d)"
    "db_plans d1 = db_plans d" "db_discounts d1 = db_discounts d"
    "submit_manual_payment en (cleaned_submission (ck_submission q) cl)
       (discounted d1 cd (normalize_on_save en d (b\<lparr>o_created_at := e_now en\<rparr>))) = Inr ord1"
    "db_orders d' = db_orders d @ [(k, normalize_on_save en d (ord1\<lparr>o_bank_tracking_code := bank\<rparr>))]"
proof -
  obtain k1 c1 d1 where cr: "create_records en q pl oper n tr us inbs cr m d = (k1, c1, d1)" by (rule prod_cases3)
  obtain b where b: "base_order q pl oper n b" "k1 = fresh_pk (db_orders d)" "db_plans d1 = db_plans d"
    "db_discounts d1 = db_discounts d" "db_orders d1 = db_orders d @ [(k1, normalize_on_save en d (b\<lparr>o_created_at := e_now en\<rparr>))]"
    using records_stored [OF cr] by metis
  let ?b = "normalize_on_save en d (b\<lparr>o_created_at := e_now en\<rparr>)"
  have g: "get_order d1 k1 = Some ?b" using b(2,5) by (simp add: get_order_def row_append_fresh)
  from assms cr g obtain ord1 where k: "k1 = k"
    and s: "submit_manual_payment en (cleaned_submission (ck_submission q) cl) (discounted d1 cd ?b) = Inr ord1"
    and d': "db_orders d' = db_orders (save_order en k (ord1\<lparr>o_bank_tracking_code := bank\<rparr>) d1)"
    by (auto simp: write_order_def mark_customer_reward_used_def Let_def split: sum.splits if_splits option.splits)
  have st: "o_status ord1 = PendingVerification" using s by (auto simp: submit_manual_payment_def split: sum.splits)
  have "db_orders d' = db_orders d @ [(k, normalize_on_save en d (ord1\<lparr>o_bank_tracking_code := bank\<rparr>))]"
    using st b(2,5) k by (simp add: d' save_pending put_order_def normalize_cong [OF b(3)] put_fresh)
  with b s k show thesis by (intro that [of b d1 ord1]) auto
qed

section \<open>Cleaning twice\<close>

lemma strip_points_again: "strip_points (strip_points x) = strip_points x"
  unfolding strip_points_def by (simp add: dropWhile_rev_dropWhile)

lemma digits_again: "list_all ascii_digit ds \<Longrightarrow> filter ascii_digit (normalize_payment_digits ds) = ds"
  by (induction ds) (auto simp: normalize_payment_digits_def ascii_digit_def normalize_digit_def)

lemma time_again:
  assumes "parse_payment_time t = Inr x"
  shows "parse_payment_time (TimeOf (nat (x div 60)) (nat (x mod 60)) 0) = Inr x"
proof -
  have "0 \<le> x" using assms by (auto simp: parse_payment_time_def Let_def split: time_input.splits if_splits)
  then show ?thesis by (simp add: parse_payment_time_def pos_imp_zdiv_nonneg_iff)
qed

lemma validate_image_id: "validate_payment_receipt_image x = Inr y \<Longrightarrow> y = x"
  unfolding validate_payment_receipt_image_def by (simp split: option.splits if_splits image_check.splits)

lemma clean_again:
  assumes "clean_manual_payment_submission sb [] [] = Inr cl"
  shows "clean_manual_payment_submission (cleaned_submission sb cl) [] [] = Inr cl"
proof -
  note c = clean_submission_cases [OF assms]
  have name: "clean_sender_card_name (cln_sender_card_name cl) [] = Inr (cln_sender_card_name cl)"
  proof -
    have "cln_sender_card_name cl = strip_points (if strip_points (sb_sender_card_name sb) = [] then [] else sb_sender_card_name sb)"
      and bounds: "cln_sender_card_name cl \<noteq> []" "length (cln_sender_card_name cl) \<le> 100"
      using c(1) by (auto simp: clean_sender_card_name_def Let_def split: if_splits)
    then have "strip_points (cln_sender_card_name cl) = cln_sender_card_name cl" by (simp add: strip_points_again)
    with bounds show ?thesis by (simp add: clean_sender_card_name_def Let_def)
  qed
  have four: "clean_sender_card_last4 (cln_sender_card_last4 cl) [] = Inr (cln_sender_card_last4 cl)"
    using clean_last4_digits [OF c(2)] by (auto simp: clean_sender_card_last4_def Let_def digits_again)
  have rtext: "clean_payment_receipt_text (cln_receipt_text cl) = Inr (cln_receipt_text cl)"
    using assms by (auto simp: clean_manual_payment_submission_def clean_payment_receipt_text_def Let_def strip_points_again
        split: sum.splits if_splits)
  have "validate_payment_receipt_image (sb_receipt_image sb) = Inr (cln_receipt_image cl)"
    using assms unfolding clean_manual_payment_submission_def by (auto split: sum.splits if_splits)
  then have img: "validate_payment_receipt_image (cln_receipt_image cl) = Inr (cln_receipt_image cl)"
    using validate_image_id by metis
  show ?thesis
    using c(4,5) by (simp add: clean_manual_payment_submission_def cleaned_submission_def name four rtext img time_again [OF c(3)])
qed

section \<open>What a new order holds\<close>

lemma discounted_keeps [simp]:
  "o_status (discounted d cd ord) = o_status ord" "o_store (discounted d cd ord) = o_store ord"
  "o_customer (discounted d cd ord) = o_customer ord" "o_plan (discounted d cd ord) = o_plan ord"
  "o_operator (discounted d cd ord) = o_operator ord" "o_quantity (discounted d cd ord) = o_quantity ord"
  "o_created_at (discounted d cd ord) = o_created_at ord" "o_sender_card_name (discounted d cd ord) = o_sender_card_name ord"
  "o_sender_card_last4 (discounted d cd ord) = o_sender_card_last4 ord"
  by (auto simp: discounted_def apply_discount_def apply_wholesale_discount_def Let_def split: option.splits)

lemma normalize_payer [simp]:
  "o_sender_card_name (normalize_on_save en d ord) = o_sender_card_name ord"
  "o_sender_card_last4 (normalize_on_save en d ord) = o_sender_card_last4 ord"
  "o_bank_tracking_code (normalize_on_save en d ord) = o_bank_tracking_code ord"
  "o_payment_time (normalize_on_save en d ord) = o_payment_time ord"
  by (simp_all add: normalize_on_save_def stamp_manual_payment_def fill_from_plan_def Let_def split: option.splits)

lemma normalize_dated:
  "o_payment_date ord = Some t \<Longrightarrow> o_payment_date (normalize_on_save en d ord) = Some t"
  by (auto simp: normalize_on_save_def stamp_manual_payment_def fill_from_plan_def Let_def split: option.splits)

lemma written_fields:
  assumes "write_order en q pl oper n cl bank cd tr us inbs cr m d = (Inr (k, ck), d')"
    and "clean_manual_payment_submission (ck_submission q) [] [] = Inr cl"
  obtains ord where "db_orders d' = db_orders d @ [(k, ord)]" "k = fresh_pk (db_orders d)"
    "o_status ord = PendingVerification" "o_verification_status ord = VerPending" "o_is_paid ord" "o_created_at ord = e_now en"
    "o_customer ord = map_option fst (ck_customer q)" "o_plan ord = Some (fst pl)" "o_operator ord = oper" "o_quantity ord = n"
    "ck_store q \<noteq> None \<Longrightarrow> o_store ord = map_option fst (ck_store q)"
    "o_sender_card_name ord = cln_sender_card_name cl" "o_sender_card_last4 ord = cln_sender_card_last4 cl"
    "o_payment_date ord = Some (e_today en)" "o_payment_time ord = Some (cln_payment_time cl)" "o_bank_tracking_code ord = bank"
proof -
  obtain b d1 ord1 where b: "base_order q pl oper n b" "k = fresh_pk (db_orders d)"
    and s: "submit_manual_payment en (cleaned_submission (ck_submission q) cl)
       (discounted d1 cd (normalize_on_save en d (b\<lparr>o_created_at := e_now en\<rparr>))) = Inr ord1"
    and d': "db_orders d' = db_orders d @ [(k, normalize_on_save en d (ord1\<lparr>o_bank_tracking_code := bank\<rparr>))]"
    by (rule write_order_stored [OF assms(1)]) blast
  let ?b = "normalize_on_save en d (b\<lparr>o_created_at := e_now en\<rparr>)"
  have names: "o_sender_card_name b = []" "o_sender_card_last4 b = []" using b(1) by (simp_all add: base_order_def)
  have o1: "o_status ord1 = PendingVerification" "o_verification_status ord1 = VerPending" "o_is_paid ord1"
    "o_sender_card_name ord1 = cln_sender_card_name cl" "o_sender_card_last4 ord1 = cln_sender_card_last4 cl"
    "o_payment_date ord1 = Some (e_today en)" "o_payment_time ord1 = Some (cln_payment_time cl)"
    "o_store ord1 = o_store ?b" "o_created_at ord1 = e_now en" "o_customer ord1 = o_customer b" "o_plan ord1 = o_plan b"
    "o_operator ord1 = o_operator b" "o_quantity ord1 = o_quantity b"
    using s clean_again [OF assms(2)] by (auto simp: submit_manual_payment_def names)
  have st: "o_store ?b = map_option fst (ck_store q)" if "ck_store q \<noteq> None"
    using b(1) that normalize_store [of "b\<lparr>o_created_at := e_now en\<rparr>" en d] by (auto simp: base_order_def)
  show thesis
    by (rule that [OF d' b(2)])
       (use b(1) o1 st normalize_store [of "ord1\<lparr>o_bank_tracking_code := bank\<rparr>" en d] in \<open>auto simp: base_order_def normalize_dated\<close>)
qed

text \<open>Saving keeps the amounts of an order that has them.\<close>

lemma normalize_money:
  assumes "o_plan x = Some pp" and "row (db_plans d) pp = Some p" and "o_quantity x \<noteq> 0"
    and "o_original_amount x = pl_price p * o_quantity x"
    and "o_amount x = o_original_amount x - o_discount_amount x"
  shows "o_original_amount (normalize_on_save en d x) = o_original_amount x"
    "o_amount (normalize_on_save en d x) = o_amount x" "o_discount_amount (normalize_on_save en d x) = o_discount_amount x"
  using assms
  by (auto simp: normalize_on_save_def stamp_manual_payment_def fill_from_plan_def subtotal_amount_def int_or_def Let_def)

text \<open>A choice of discount that fits the subtotal \<open>sub\<close>.\<close>

definition fits :: "int \<Rightarrow> chosen_discount \<Rightarrow> bool" where
  "fits sub cd \<longleftrightarrow> 0 \<le> cd_amount cd \<and> cd_amount cd \<le> sub \<and>
     (cd_reserved cd = None \<longrightarrow> cd_amount cd = calculate_percentage_discount sub (cd_percent cd) \<and>
        cd_source cd = (if cd_amount cd \<noteq> 0 then SrcWholesale else SrcNone))"

lemma discounted_money:
  assumes "fits sub cd" and "o_original_amount ord = sub" and "o_amount ord = sub" and "o_discount_amount ord = 0"
    and "subtotal_amount d ord = sub"
  shows "o_original_amount (discounted d cd ord) = sub" "o_discount_amount (discounted d cd ord) = cd_amount cd"
    "o_amount (discounted d cd ord) = sub - cd_amount cd"
proof -
  have i: "int_or sub sub = sub" by (simp add: int_or_def)
  have "o_original_amount (discounted d cd ord) = sub \<and> o_discount_amount (discounted d cd ord) = cd_amount cd \<and>
    o_amount (discounted d cd ord) = sub - cd_amount cd"
  proof (cases "cd_reserved cd")
    case (Some k)
    with assms i show ?thesis by (simp add: discounted_def apply_discount_def fits_def Let_def)
  next
    case None
    show ?thesis
    proof (cases "cd_amount cd = 0")
      case True
      with None assms show ?thesis by (simp add: discounted_def fits_def)
    next
      case False
      with None assms(1) have c: "cd_source cd = SrcWholesale" "cd_amount cd = calculate_percentage_discount sub (cd_percent cd)"
        by (auto simp: fits_def)
      with False have p: "0 < sub" "clamp 0 100 (cd_percent cd) \<noteq> 0" "cd_amount cd = min (sub * clamp 0 100 (cd_percent cd) div 100) sub"
        by (auto simp: calculate_percentage_discount_def split: if_splits)
      have "subtotal_amount d (ord\<lparr>o_original_amount := sub\<rparr>) = sub" using assms(5) by (auto simp: subtotal_amount_def)
      moreover have "min (calculate_percentage_discount sub (cd_percent cd)) sub = calculate_percentage_discount sub (cd_percent cd)"
        "calculate_percentage_discount sub (cd_percent cd) \<le> sub" using assms(1) c(2) by (simp_all add: fits_def)
      ultimately show ?thesis using None c(1) p assms i
        by (simp add: discounted_def apply_wholesale_discount_def apply_discount_def Let_def fits_def)
    qed
  qed
  then show "o_original_amount (discounted d cd ord) = sub" "o_discount_amount (discounted d cd ord) = cd_amount cd"
    "o_amount (discounted d cd ord) = sub - cd_amount cd" by simp_all
qed

lemma written_amounts:
  assumes "write_order en q pl oper n cl bank cd tr us inbs cr m d = (Inr (k, ck), d')"
    and "row (db_plans d) (fst pl) = Some (snd pl)" and "1 \<le> n" and "fits (pl_price (snd pl) * n) cd"
    and "db_orders d' = db_orders d @ [(k, ord)]"
  shows "o_original_amount ord = pl_price (snd pl) * n" "o_discount_amount ord = cd_amount cd"
    "o_amount ord = pl_price (snd pl) * n - cd_amount cd"
proof -
  obtain b d1 ord1 where b: "base_order q pl oper n b" and d1: "db_plans d1 = db_plans d"
    and s: "submit_manual_payment en (cleaned_submission (ck_submission q) cl)
       (discounted d1 cd (normalize_on_save en d (b\<lparr>o_created_at := e_now en\<rparr>))) = Inr ord1"
    and d': "db_orders d' = db_orders d @ [(k, normalize_on_save en d (ord1\<lparr>o_bank_tracking_code := bank\<rparr>))]"
    by (rule write_order_stored [OF assms(1)]) blast
  let ?b = "b\<lparr>o_created_at := e_now en\<rparr>" and ?sub = "pl_price (snd pl) * n"
  let ?c = "discounted d1 cd (normalize_on_save en d ?b)"
  note plan = assms(2)
  have b': "o_plan ?b = Some (fst pl)" "o_quantity ?b = n" "o_original_amount ?b = ?sub" "o_amount ?b = ?sub" "o_discount_amount ?b = 0"
    using b by (simp_all add: base_order_def)
  have nb: "o_original_amount (normalize_on_save en d ?b) = ?sub" "o_amount (normalize_on_save en d ?b) = ?sub"
    "o_discount_amount (normalize_on_save en d ?b) = 0"
    using normalize_money [of ?b "fst pl" d "snd pl"] b' plan assms(3) by simp_all
  have sub: "subtotal_amount d1 (normalize_on_save en d ?b) = ?sub"
    using b' plan assms(3) d1 by (simp add: subtotal_amount_def)
  note c = discounted_money [OF assms(4) nb sub]
  have o1: "o_plan ord1 = Some (fst pl)" "o_quantity ord1 = n" "o_original_amount ord1 = ?sub" "o_discount_amount ord1 = cd_amount cd"
    "o_amount ord1 = ?sub - cd_amount cd"
    using s c b' by (auto simp: submit_manual_payment_def split: sum.splits)
  have "ord = normalize_on_save en d (ord1\<lparr>o_bank_tracking_code := bank\<rparr>)" using d' assms(5) by simp
  with o1 plan assms(3) normalize_money [of "ord1\<lparr>o_bank_tracking_code := bank\<rparr>" "fst pl" d "snd pl" en]
  show "o_original_amount ord = ?sub" "o_discount_amount ord = cd_amount cd" "o_amount ord = ?sub - cd_amount cd" by simp_all
qed

lemma choice_fits:
  assumes "choose_discount en pl code cust n d = (Inr cd, d')" and "wf_table (db_discounts d)" and "1 \<le> n" "n \<le> 50"
    and "\<forall>k c. get_discount d k = Some c \<longrightarrow> 0 \<le> dc_value c" and "0 \<le> pl_price (snd pl)"
  shows "fits (pl_price (snd pl) * n) cd"
    and "normalize_code code \<noteq> [] \<Longrightarrow>
      preview_discount en pl code (map_option fst cust) (Number (of_int n)) d =
        Inr (cd_reserved cd, cd_amount cd, pl_price (snd pl) * n - cd_amount cd)"
    and "normalize_code code = [] \<Longrightarrow> cd_reserved cd = None \<and>
      cd_amount cd = calculate_percentage_discount (pl_price (snd pl) * n) (get_customer_wholesale_discount_percent (map_option snd cust))"
proof -
  let ?sub = "pl_price (snd pl) * n"
  have s: "0 \<le> ?sub" using assms(3,6) by simp
  have v: "validate_order_quantity (Number (of_int n)) = Inr n" using assms(3,4) by (simp add: max_order_quantity_def)
  have code: "normalize_code (normalize_code x) = normalize_code x" for x
    by (simp add: normalize_code_def strip_upper)
  show w: "cd_reserved cd = None \<and> cd_amount cd = calculate_percentage_discount ?sub
      (get_customer_wholesale_discount_percent (map_option snd cust))" if "normalize_code code = []"
    using assms(1) that by (auto simp: choose_discount_def calculate_percentage_discount_def Let_def)
  show c: "preview_discount en pl code (map_option fst cust) (Number (of_int n)) d = Inr (cd_reserved cd, cd_amount cd, ?sub - cd_amount cd)"
    if ne: "normalize_code code \<noteq> []"
  proof -
    from assms(1) ne obtain k a where r: "reserve_discount_usage en pl (normalize_code code) (map_option fst cust) (Number (of_int n)) d = (Inr (k, a), d')"
      and cd: "cd_reserved cd = k" "cd_amount cd = a"
      by (auto simp: choose_discount_def split: sum.splits prod.splits)
    from r ne v code obtain j x where x: "check_discount en (fst pl) (normalize_code code) (map_option fst cust) d = Inr (j, x)"
      "k = Some j" "a = calculate_discount x ?sub"
      by (auto simp: reserve_discount_usage_def Let_def simp del: validate_order_quantity.simps split: sum.splits prod.splits)
    have "0 \<le> dc_value x" using check_discount_found(1) [OF assms(2) x(1)] assms(5) by blast
    then have "a \<le> ?sub" using calculate_discount_bounds(2) [of x ?sub] s x(3) by simp
    then show ?thesis using v ne x cd by (simp add: preview_discount_def Let_def del: validate_order_quantity.simps)
  qed
  show "fits ?sub cd"
  proof (cases "normalize_code code = []")
    case True
    have p: "cd_percent cd = get_customer_wholesale_discount_percent (map_option snd cust)"
      "cd_source cd = (if cd_amount cd \<noteq> 0 then SrcWholesale else SrcNone)"
      using assms(1) True by (auto simp: choose_discount_def Let_def)
    have "0 \<le> cd_amount cd" "cd_amount cd \<le> ?sub"
      using w [OF True] s calculate_percentage_discount_bounds [of ?sub] by (simp_all add: max_def) (metis calculate_percentage_discount_bounds(2) max.absorb1 s)
    with p w [OF True] show ?thesis by (simp add: fits_def)
  next
    case False
    then obtain k where k: "cd_reserved cd = Some k"
      using assms(1) code v by (auto simp: choose_discount_def reserve_discount_usage_def Let_def
          simp del: validate_order_quantity.simps split: sum.splits prod.splits)
    from assms(1) False k obtain a where r: "reserve_discount_usage en pl (normalize_code code) (map_option fst cust) (Number (of_int n)) d = (Inr (Some k, a), d')"
      and a: "cd_amount cd = a" by (auto simp: choose_discount_def split: sum.splits prod.splits)
    from r obtain n' x where x: "validate_order_quantity (Number (of_int n)) = Inr n'"
      "check_discount en (fst pl) (normalize_code (normalize_code code)) (map_option fst cust) d = Inr (k, x)"
      "a = calculate_discount x (pl_price (snd pl) * n')" by (rule reserve_cases)
    have "0 \<le> dc_value x" using check_discount_found(1) [OF assms(2) x(2)] assms(5) by blast
    moreover have "n' = n" using x(1) v by simp
    ultimately show ?thesis using calculate_discount_bounds [of x ?sub] s x(3) a k by (simp add: fits_def)
  qed
qed

section \<open>A placed order\<close>

lemma placed_cases:
  assumes "place_order en rm q pl oper n cl bank pd inb m d = (CkCreated k ck, d')"
  obtains tr us cd d2 d3 inbs cr m1 d4 where "same_data d d2"
    "choose_discount en pl (ck_discount_code q) (ck_customer q) n d2 = (Inr cd, d3)"
    "choose_inbounds (pd \<noteq> None) inb pl (ck_store q) oper n d3 = Inr inbs" "same_data d3 d4"
    "write_order en q pl oper n cl bank cd tr us inbs cr m1 d4 = (Inr (k, ck), d')"
proof -
  obtain tr d1 where a1: "ask (e_uuid en) d = (tr, d1)" by (rule prod.exhaust)
  obtain us d2 where a2: "ask (e_name en) d1 = (us, d2)" by (rule prod.exhaust)
  have s2: "same_data d d2" using same_data_ask [OF a1] same_data_ask [OF a2] by (rule same_data_trans)
  note run = assms [unfolded place_order_def a1 a2 Let_def prod.case]
  from run obtain cd d3 where c: "choose_discount en pl (ck_discount_code q) (ck_customer q) n d2 = (Inr cd, d3)"
    by (auto split: prod.splits sum.splits)
  from run c obtain inbs where i: "choose_inbounds (pd \<noteq> None) inb pl (ck_store q) oper n d3 = Inr inbs"
    by (auto split: sum.splits)
  obtain cr m1 d4 where p: "prepare_panel en rm (snd pl) us inbs m d3 = (cr, m1, d4)" by (rule prod_cases3)
  from run c i p have w: "write_order en q pl oper n cl bank cd tr us inbs cr m1 d4 = (Inr (k, ck), d')"
    by (auto split: prod.splits sum.splits)
  from that [OF s2 c i prepare_same [OF p] w] show thesis .
qed

lemma records_frame:
  assumes "create_records en q pl oper n tr us inbs cr m d = (k, ck, d1)"
  shows "db_operators d1 = db_operators d"
  using assms
  by (auto simp: create_records_def create_inactive_order_records_def create_deferred_order_record_def create_pending
      add_row_def add_user_def change_users_def Let_def split: option.splits list.splits)

lemma write_order_frame:
  assumes "write_order en q pl oper n cl bank cd tr us inbs cr m d = (Inr x, d')"
  shows "db_operators d' = db_operators d"
proof -
  obtain k1 c1 d1 where cr: "create_records en q pl oper n tr us inbs cr m d = (k1, c1, d1)" by (rule prod_cases3)
  with assms records_frame [OF cr] show ?thesis
    by (auto simp: write_order_def mark_customer_reward_used_def Let_def split: option.splits sum.splits if_splits)
qed

lemma placed_order:
  assumes "place_order en rm q pl oper n cl bank pd inb m d = (CkCreated k ck, d')"
    and "clean_manual_payment_submission (ck_submission q) [] [] = Inr cl"
  obtains ord where "db_orders d' = db_orders d @ [(k, ord)]" "k = fresh_pk (db_orders d)" "db_operators d' = db_operators d"
    "o_status ord = PendingVerification" "o_verification_status ord = VerPending" "o_is_paid ord" "o_created_at ord = e_now en"
    "o_customer ord = map_option fst (ck_customer q)" "o_plan ord = Some (fst pl)" "o_operator ord = oper" "o_quantity ord = n"
    "ck_store q \<noteq> None \<Longrightarrow> o_store ord = map_option fst (ck_store q)"
    "o_sender_card_name ord = cln_sender_card_name cl" "o_sender_card_last4 ord = cln_sender_card_last4 cl"
    "o_payment_date ord = Some (e_today en)" "o_payment_time ord = Some (cln_payment_time cl)" "o_bank_tracking_code ord = bank"
proof -
  obtain tr us cd d2 d3 inbs cr m1 d4 where s: "same_data d d2" "same_data d3 d4"
    and c: "choose_discount en pl (ck_discount_code q) (ck_customer q) n d2 = (Inr cd, d3)"
    and w: "write_order en q pl oper n cl bank cd tr us inbs cr m1 d4 = (Inr (k, ck), d')"
    by (rule placed_cases [OF assms(1)])
  have "d3 = d2\<lparr>db_discounts := db_discounts d3\<rparr>" by (rule choose_discount_frame [OF c])
  then have "db_orders d3 = db_orders d2 \<and> db_operators d3 = db_operators d2" by (metis (no_types, lifting) db.select_convs db.surjective db.update_convs)
  then have f: "db_orders d4 = db_orders d" "db_operators d4 = db_operators d"
    using same_dataD [OF s(1)] same_dataD [OF s(2)] by simp_all
  show thesis
    by (rule written_fields [OF w assms(2)]) (use f write_order_frame [OF w] in \<open>auto intro!: that\<close>)
qed

section \<open>Similar orders\<close>

lemma placed_is_similar:
  assumes "o_status ord = PendingVerification" "o_created_at ord = e_now en"
    "o_customer ord = map_option fst (ck_customer q)" "o_plan ord = Some pp" "o_operator ord = oper" "o_quantity ord = n"
    "ck_store q \<noteq> None \<Longrightarrow> o_store ord = map_option fst (ck_store q)"
    "o_sender_card_name ord = cln_sender_card_name cl" "o_sender_card_last4 ord = cln_sender_card_last4 cl"
    "o_payment_date ord = Some (e_today en)" "o_payment_time ord = Some (cln_payment_time cl)" "o_bank_tracking_code ord = bank"
    and "e_now en2 \<le> e_now en + seconds duplicate_order_window_seconds" and "e_today en2 = e_today en"
  shows "similar_order en2 (attempt_of q pp oper n cl bank) ord"
  using assms by (auto simp: similar_order_def attempt_of_def)

lemma similar_before:
  assumes "similar_order en2 a ord" and "e_now en \<le> e_now en2" and "e_today en2 = e_today en"
  shows "similar_order en a ord"
  using assms by (auto simp: similar_order_def)

lemma only_new_similar:
  assumes "find_similar_pending_order en a d = None" and "db_orders d' = db_orders d @ [(k, ord)]"
    and "similar_order en2 a ord" and "e_now en \<le> e_now en2" and "e_today en2 = e_today en"
  shows "find_similar_pending_order en2 a d' = Some (k, ord)"
proof -
  have "\<not> similar_order en2 a x" if "(j, x) \<in> set (db_orders d)" for j x
  proof
    assume "similar_order en2 a x"
    then have "(j, x) \<in> set (ordered_where (\<lambda>(_, ord). - o_created_at ord) (\<lambda>_ ord. similar_order en a ord) (db_orders d))"
      using that similar_before [OF _ assms(4,5), of a x] by (simp add: set_ordered_where)
    with assms(1) show False by (simp add: find_similar_pending_order_def)
  qed
  then have "rows_where (\<lambda>_ x. similar_order en2 a x) (db_orders d') = [(k, ord)]"
    using assms(2,3) by (auto simp: rows_where_def filter_empty_conv)
  then show ?thesis by (simp add: find_similar_pending_order_def ordered_where_def)
qed

lemma checkout_operator_cong:
  assumes "db_operators d' = db_operators d"
  shows "checkout_operator q d' = checkout_operator q d"
  unfolding checkout_operator_def get_active_operator_def get_active_operators_def assms ..

lemma validate_operator_cong:
  assumes "db_operators d' = db_operators d"
  shows "validate_operator_for_order st p oper d' = validate_operator_for_order st p oper d"
  unfolding validate_operator_for_order_def get_active_operators_def is_available_for_operator_def assms ..

lemma placed_not_raised: "place_order en rm q pl oper n cl bank pd inb m d \<noteq> (CkRaised x, d')"
  by (auto simp: place_order_def Let_def split: prod.splits sum.splits)

lemma normalize_identity [simp]:
  "o_public_id (normalize_on_save en d ord) = o_public_id ord"
  "o_last_provisioning_error (normalize_on_save en d ord) = o_last_provisioning_error ord"
  by (simp_all add: normalize_on_save_def stamp_manual_payment_def fill_from_plan_def Let_def split: option.splits)

section \<open>When an order is placed\<close>

lemma write_order_succeeds:
  assumes "clean_manual_payment_submission (ck_submission q) [] [] = Inr cl" and "\<not> ck_storage_fails q"
  shows "\<exists>k ck d'. write_order en q pl oper n cl bank cd tr us inbs cr m d = (Inr (k, ck), d')"
proof -
  obtain k ck d1 where cr: "create_records en q pl oper n tr us inbs cr m d = (k, ck, d1)" by (rule prod_cases3)
  obtain b where b: "base_order q pl oper n b" "k = fresh_pk (db_orders d)"
    "db_orders d1 = db_orders d @ [(k, normalize_on_save en d (b\<lparr>o_created_at := e_now en\<rparr>))]"
    using records_stored [OF cr] by metis
  have "o_sender_card_name b = []" "o_sender_card_last4 b = []" using b(1) by (simp_all add: base_order_def)
  then have "\<exists>ord1. submit_manual_payment en (cleaned_submission (ck_submission q) cl)
      (discounted d1 cd (normalize_on_save en d (b\<lparr>o_created_at := e_now en\<rparr>))) = Inr ord1"
    by (simp add: submit_manual_payment_def clean_again [OF assms(1)])
  moreover have "get_order d1 k = Some (normalize_on_save en d (b\<lparr>o_created_at := e_now en\<rparr>))"
    using b(2,3) by (simp add: get_order_def row_append_fresh)
  ultimately show ?thesis using cr assms(2) by (auto simp: write_order_def Let_def)
qed

lemma place_order_succeeds:
  assumes "clean_manual_payment_submission (ck_submission q) [] [] = Inr cl" and "\<not> ck_storage_fails q"
    and "choose_discount en pl (ck_discount_code q) (ck_customer q) n (d\<lparr>db_draws := db_draws d + 2\<rparr>) = (Inr cd, d3)"
    and "choose_inbounds (pd \<noteq> None) inb pl (ck_store q) oper n d3 = Inr inbs"
  shows "\<exists>k ck d'. place_order en rm q pl oper n cl bank pd inb m d = (CkCreated k ck, d')"
proof -
  obtain cr m1 d4 where p: "prepare_panel en rm (snd pl) (e_name en (Suc (db_draws d))) inbs m d3 = (cr, m1, d4)" by (rule prod_cases3)
  obtain k ck d' where "write_order en q pl oper n cl bank cd (e_uuid en (db_draws d)) (e_name en (Suc (db_draws d))) inbs cr m1 d4 = (Inr (k, ck), d')"
    using write_order_succeeds [OF assms(1,2)] by blast
  with assms(3,4) p show ?thesis by (simp add: place_order_def ask_def Let_def)
qed

lemma checkout_succeeds:
  assumes "ck_store q = None \<or> store_is_sellable (map_option snd (ck_store q))"
    and "validate_order_quantity (ck_quantity q) = Inr n"
    and "clean_manual_payment_submission (ck_submission q) [] [] = Inr cl"
    and "clean_bank_tracking_code (ck_bank_tracking_code q) = Inr bank"
    and "\<not> sales_mode_requires_operator (map_option snd (ck_store q))"
    and "ck_custom_volume q = []" and "ck_plan q = Some pl" and "ck_inbound q = None" and "\<not> ck_storage_fails q"
    and "canonical_delivery_for_checkout en d t (Some pl) (ck_store q) = Inr None"
    and "find_similar_pending_order en (attempt_of q (fst pl) None n cl bank) d = None"
    and "build_duplicate_order_key sha (attempt_of q (fst pl) None n cl bank) \<notin> locks"
    and "choose_discount en pl (ck_discount_code q) (ck_customer q) n (d\<lparr>db_draws := db_draws d + 2\<rparr>) = (Inr cd, d3)"
    and "choose_inbounds False None pl (ck_store q) None n d3 = Inr inbs"
  shows "\<exists>k ck d'. create_manual_payment_order en rm sha t locks q d = (CkCreated k ck, d')"
proof -
  have "\<exists>k ck d'. place_order en rm q pl None n cl bank None None m d = (CkCreated k ck, d')" for m
    by (rule place_order_succeeds [OF assms(3,9,13)]) (simp add: assms(14))
  moreover have "\<not> (ck_store q \<noteq> None \<and> \<not> store_is_sellable (map_option snd (ck_store q)))" using assms(1) by auto
  moreover have "checkout_operator q d = Inr (ck_operator q)" using assms(5) by (simp add: checkout_operator_def)
  moreover have "checkout_plan q (ck_operator q) d = (Inr pl, d)" using assms(6,7) by (simp add: checkout_plan_def)
  moreover have "validate_operator_for_order (ck_store q) (Some (snd pl)) (ck_operator q) d = Inr None"
    using assms(5) by (simp add: validate_operator_for_order_def)
  moreover have "requested_inbound q None n d = Inr None" using assms(8) by (simp add: requested_inbound_def)
  ultimately show ?thesis
    using assms(2-4,10-12) by (simp add: create_manual_payment_order_def guarded_order_def Let_def)
qed

end
