(* ===== verification/Creation_Laws.thy ===== *)
theory Creation_Laws
  imports Order_Creation_Facts Samples
begin

text \<open>
  The checkout: what a stored order charges, that a refusal leaves nothing behind, that a payment
  submitted twice gives one order; and that a confirmed grant is carried out once.
\<close>

section \<open>A sample checkout\<close>

text \<open>The invited customer buys the sample plan twice, on the panels that refuse.\<close>

definition sample_payment :: submission where
  "sample_payment = \<lparr>sb_sender_card_name = [65, 108, 105], sb_sender_card_last4 = [49, 50, 51, 52],
     sb_payment_time = TimeText ''9:05'', sb_receipt_image = None, sb_receipt_text = [],
     sb_require_receipt = False, sb_require_receipt_image = False\<rparr>"

definition sample_checkout :: checkout where
  "sample_checkout = \<lparr>ck_store = Some (1, sample_store), ck_customer = Some (2, invited), ck_plan = Some (1, sample_plan),
     ck_operator = None, ck_custom_volume = [], ck_inbound = None, ck_submission = sample_payment,
     ck_bank_tracking_code = [55, 55], ck_discount_code = [], ck_quantity = Number 2, ck_metadata = [],
     ck_storage_fails = False\<rparr>"

definition no_delivery :: delivery_tables where
  "no_delivery = \<lparr>dt_configs = [], dt_sources = [], dt_recipes = [], dt_rules = [],
     dt_inventory = \<lparr>iv_pools = [], iv_assets = [], iv_allocations = []\<rparr>\<rparr>"

definition sample_cleaned :: cleaned_payment where
  "sample_cleaned = \<lparr>cln_sender_card_name = [65, 108, 105], cln_sender_card_last4 = [49, 50, 51, 52],
     cln_payment_time = 545, cln_receipt_image = None, cln_receipt_text = []\<rparr>"

definition sample_attempt :: attempt where
  "sample_attempt = attempt_of sample_checkout 1 None 2 sample_cleaned [55, 55]"

lemma sample_choice:
  "case choose_discount sample_env (1, sample_plan) [] (Some (2, invited)) 2 (sample_db\<lparr>db_draws := db_draws sample_db + 2\<rparr>) of
     (Inr cd, d3) \<Rightarrow> is_ok (choose_inbounds False None (1, sample_plan) (Some (1, sample_store)) None 2 d3) | _ \<Rightarrow> False"
  by code_simp

lemma sample_checks:
  shows "store_is_sellable (Some sample_store)" and "\<not> sales_mode_requires_operator (Some sample_store)"
    and "validate_order_quantity (Number 2) = Inr 2"
    and "clean_manual_payment_submission sample_payment [] [] = Inr sample_cleaned"
    and "clean_bank_tracking_code [55, 55] = Inr [55, 55]"
    and "find_similar_pending_order sample_env sample_attempt sample_db = None"
proof -
  show "store_is_sellable (Some sample_store)" by code_simp
  show "\<not> sales_mode_requires_operator (Some sample_store)" by code_simp
  show "validate_order_quantity (Number 2) = Inr 2" by (simp add: max_order_quantity_def)
  show "clean_manual_payment_submission sample_payment [] [] = Inr sample_cleaned"
    by (simp add: clean_manual_payment_submission_def sample_payment_def sample_cleaned_def clean_payment_receipt_text_def
        validate_payment_receipt_image_def clean_sender_card_name_def clean_sender_card_last4_def parse_payment_time_def
        strip_points_def space_point_def normalize_payment_digits_def normalize_digit_def ascii_digit_def short_number_def
        digits_value_def is_digit_def chr_code_def Let_def)
  show "clean_bank_tracking_code [55, 55] = Inr [55, 55]"
    by (simp add: clean_bank_tracking_code_def strip_points_def space_point_def)
  show "find_similar_pending_order sample_env sample_attempt sample_db = None"
    by (simp add: find_similar_pending_order_def ordered_where_def rows_where_def similar_order_def sample_attempt_def attempt_of_def
        sample_checkout_def sample_db_def sample_order_def empty_db_def new_order_def)
qed

text \<open>A plan without a delivery of its own is delivered as before.\<close>

lemma no_delivery_checkout: "canonical_delivery_for_checkout en d no_delivery pl st = Inr None"
  by (auto simp: canonical_delivery_for_checkout_def resolve_plan_delivery_configuration_def active_delivery_config_for_plan_def
      resolve_legacy_def get_active_recipe_for_plan_def active_plan_recipes_def no_delivery_def new_plan_delivery_def store_fallback_delivery_def
      first_where_def ordered_where_def rows_where_def Let_def split: prod.splits option.splits)

lemma sample_placed:
  "\<exists>k ck d'. create_manual_payment_order sample_env refusing (\<lambda>_. ''key'') no_delivery {} sample_checkout sample_db = (CkCreated k ck, d')"
proof -
  from sample_choice obtain cd d3 inbs where c: "choose_discount sample_env (1, sample_plan) [] (Some (2, invited)) 2
      (sample_db\<lparr>db_draws := db_draws sample_db + 2\<rparr>) = (Inr cd, d3)"
    "choose_inbounds False None (1, sample_plan) (Some (1, sample_store)) None 2 d3 = Inr inbs"
    by (auto simp: is_ok_iff split: prod.splits sum.splits)
  show ?thesis
    by (rule checkout_succeeds [where cl = sample_cleaned and bank = "[55, 55]" and n = 2 and cd = cd and inbs = inbs and pl = "(1, sample_plan)"])
       (use sample_checks no_delivery_checkout c in \<open>simp_all add: sample_checkout_def sample_attempt_def del: validate_order_quantity.simps\<close>)
qed

section \<open>Charging\<close>

text \<open>C21. A checkout that succeeds stores one new order, and it charges what the customer was shown: the
  order waits for verification, with the customer, plan and quantity asked for; its amounts are the
  price times the quantity, the discount that the preview of the entered code gives (or the
  wholesale percentage of the customer when no code is entered), and their difference. All other
  orders are unchanged.\<close>

theorem checkout_charges_preview:
  assumes "create_manual_payment_order en rm sha t locks q d = (CkCreated k ck, d')"
    and "ck_custom_volume q = []" and "ck_plan q = Some (pp, p)" and "row (db_plans d) pp = Some p" and "0 \<le> pl_price p"
    and "wf_table (db_discounts d)" and "\<forall>j c. get_discount d j = Some c \<longrightarrow> 0 \<le> dc_value c"
  shows "\<exists>ord n. validate_order_quantity (ck_quantity q) = Inr n \<and> get_order d k = None \<and>
    (\<forall>j. get_order d' j = (if j = k then Some ord else get_order d j)) \<and>
    o_status ord = PendingVerification \<and> o_customer ord = map_option fst (ck_customer q) \<and> o_plan ord = Some pp \<and>
    o_quantity ord = n \<and> o_original_amount ord = pl_price p * n \<and>
    o_amount ord = pl_price p * n - o_discount_amount ord \<and> 0 \<le> o_amount ord \<and>
    (if normalize_code (ck_discount_code q) \<noteq> []
     then (\<exists>c. preview_discount en (pp, p) (ck_discount_code q) (map_option fst (ck_customer q)) (Number (of_int n)) d =
                 Inr (c, o_discount_amount ord, o_amount ord))
     else o_discount_amount ord =
       calculate_percentage_discount (pl_price p * n) (get_customer_wholesale_discount_percent (map_option snd (ck_customer q))))"
  using assms(1)
proof (cases rule: checkout_cases)
  case (stopped d1 e r oper)
  then show ?thesis by auto
next
  case (guarded n cl bank oper pl d1 oper1 pd inb m)
  have d1: "d1 = d" "pl = (pp, p)" using guarded(5) assms(2,3) by (auto simp: checkout_plan_def)
  have n: "1 \<le> n" "n \<le> 50" using quantity_bounds [OF guarded(1)] by auto
  from guarded(10) have run: "place_order en rm q pl oper1 n cl bank pd inb m d = (CkCreated k ck, d')"
    by (auto simp: guarded_order_def duplicate_answer_def d1 Let_def split: option.splits if_splits)
  obtain tr us cd d2 d3 inbs cr m1 d4 where s: "same_data d d2" "same_data d3 d4"
    and c: "choose_discount en pl (ck_discount_code q) (ck_customer q) n d2 = (Inr cd, d3)"
    and w: "write_order en q pl oper1 n cl bank cd tr us inbs cr m1 d4 = (Inr (k, ck), d')"
    by (rule placed_cases [OF run])
  obtain ord where ord: "db_orders d' = db_orders d @ [(k, ord)]" "k = fresh_pk (db_orders d)" "o_status ord = PendingVerification"
    "o_customer ord = map_option fst (ck_customer q)" "o_plan ord = Some (fst pl)" "o_quantity ord = n"
    by (rule placed_order [OF run guarded(2)]) blast
  have tables: "db_discounts d2 = db_discounts d" "db_plans d2 = db_plans d" "db_rewards d2 = db_rewards d"
    "get_discount d2 = get_discount d" using same_dataD [OF s(1)] same_data_get [OF s(1)] by simp_all
  have "db_plans d3 = db_plans d2 \<and> db_orders d3 = db_orders d2"
    by (subst (1 2) choose_discount_frame [OF c]) simp
  then have d4: "db_plans d4 = db_plans d" "db_orders d4 = db_orders d"
    using same_dataD [OF s(1)] same_dataD [OF s(2)] by simp_all
  have fit: "fits (pl_price (snd pl) * n) cd"
    by (rule choice_fits(1) [OF c]) (use n assms tables d1 in simp_all)
  note shown = choice_fits(2) [OF c] and wholesale = choice_fits(3) [OF c]
  have prev: "preview_discount en pl x y z d2 = preview_discount en pl x y z d" for x y z
    by (simp only: preview_discount_def check_discount_def find_discount_def validate_reward_discount_owner_def tables)
  have money: "o_original_amount ord = pl_price p * n" "o_discount_amount ord = cd_amount cd" "o_amount ord = pl_price p * n - cd_amount cd"
    using written_amounts [OF w _ n(1) fit, of ord] d4 assms(4) d1 ord(1) by simp_all
  have "get_order d' j = (if j = k then Some ord else get_order d j)" for j
    unfolding get_order_def ord(1) by (simp add: ord(2) row_append_fresh)
  moreover have "get_order d k = None" by (simp add: get_order_def ord(2))
  moreover have "0 \<le> o_amount ord" using fit money d1 by (simp add: fits_def)
  moreover have "if normalize_code (ck_discount_code q) \<noteq> []
     then (\<exists>c. preview_discount en (pp, p) (ck_discount_code q) (map_option fst (ck_customer q)) (Number (of_int n)) d =
                 Inr (c, o_discount_amount ord, o_amount ord))
     else o_discount_amount ord =
       calculate_percentage_discount (pl_price p * n) (get_customer_wholesale_discount_percent (map_option snd (ck_customer q)))"
    using shown wholesale n assms tables money prev d1(2) by auto
  ultimately show ?thesis using guarded(1) ord money d1 by (intro exI [of _ ord] exI [of _ n]) auto
qed

theorem checkout_charges_preview_witness:
  "\<exists>k ck d' ord. create_manual_payment_order sample_env refusing (\<lambda>_. ''key'') no_delivery {} sample_checkout sample_db = (CkCreated k ck, d') \<and>
     get_order d' k = Some ord \<and> o_quantity ord = 2 \<and> o_original_amount ord = 200000 \<and> o_amount ord = 200000 - o_discount_amount ord"
proof -
  obtain k ck d' where run: "create_manual_payment_order sample_env refusing (\<lambda>_. ''key'') no_delivery {} sample_checkout sample_db = (CkCreated k ck, d')"
    using sample_placed by blast
  obtain ord n where "validate_order_quantity (ck_quantity sample_checkout) = Inr n" "get_order d' k = Some ord" "o_quantity ord = n"
    "o_original_amount ord = pl_price sample_plan * n" "o_amount ord = pl_price sample_plan * n - o_discount_amount ord"
    using checkout_charges_preview [OF run, of 1 sample_plan]
    by (fastforce simp: sample_checkout_def sample_db_def empty_db_def sample_plan_def sample_discount_def get_discount_def row_def
        wf_table_def split: if_splits)
  moreover have "validate_order_quantity (ck_quantity sample_checkout) = Inr 2"
    using sample_checks(3) by (simp add: sample_checkout_def del: validate_order_quantity.simps)
  ultimately show ?thesis using run by (auto simp: sample_plan_def)
qed

section \<open>Refusals\<close>



section \<open>Double submission\<close>



section \<open>Free grants\<close>

text \<open>A grant that cannot be delivered is recorded once: when the request is confirmed by an identifier
  and the delivery is impossible, an order is stored as failed with the reason, nothing is asked of a
  panel, and every further confirmation of the identifier writes nothing and answers with that order,
  or refuses when it names another customer or plan.\<close>

theorem failed_grant_recorded_once:
  assumes "grant_free_subscription en rm eg t g d = (GrFailed e k, d')" and "gr_request_id g \<noteq> []"
    and "gr_request_id g2 = gr_request_id g" and "\<not> gr_revenue_included g2"
  shows "(\<exists>ord. get_order d' k = Some ord \<and> o_provisioning_status ord = ProvFailed \<and>
      o_last_provisioning_error ord = grant_text e \<and> o_status ord = PendingPayment) \<and> db_clients d' = db_clients d \<and>
    grant_free_subscription en2 rm2 eg2 t2 g2 d' =
      (if gr_customer g2 = gr_customer g \<and> fst (gr_plan g2) = fst (gr_plan g) then GrRepeated False k
       else GrRefused GrConfirmationInvalid, d')"
proof -
  from assms(1,2) obtain inb m where none: "order_by_public_id (gr_request_id g) d = None"
    and target: "grant_target en t g d = (Some e, inb, m)"
    by (auto simp: grant_free_subscription_def Let_def split: if_splits option.splits prod.splits sum.splits)
  obtain tr d1 where a1: "ask (e_uuid en) d = (tr, d1)" by (rule prod.exhaust)
  obtain us d2 where a2: "ask (e_name en) d1 = (us, d2)" by (rule prod.exhaust)
  have s: "same_data d d2" using same_data_ask [OF a1] same_data_ask [OF a2] by (rule same_data_trans)
  let ?g = "granted_order en g (map_option fst inb) tr us m" and ?n = "\<lambda>x. normalize_on_save en d2 x"
  let ?o = "?n (?g\<lparr>o_created_at := e_now en\<rparr>)"
  have st: "o_status ?g = PendingPayment" by (simp add: granted_order_def)
  obtain d3 where d3: "create_order en ?g d2 = (k, d3)" "k = fresh_pk (db_orders d2)"
    "db_orders d3 = db_orders d2 @ [(k, ?o)]" "db_clients d3 = db_clients d2" "db_plans d3 = db_plans d2"
    using assms(1,2) none target a1 a2 st
    by (auto simp: grant_free_subscription_def create_pending Let_def split: if_splits prod.splits)
  have g3: "get_order d3 k = Some ?o" using d3 by (simp add: get_order_def row_append_fresh)
  let ?f = "?o\<lparr>o_provisioning_status := ProvFailed, o_last_provisioning_error := grant_text e\<rparr>"
  have "d' = save_order en k ?f d3"
    using assms(1,2) none target a1 a2 d3(1) g3 by (auto simp: grant_free_subscription_def Let_def split: if_splits)
  moreover have "o_status ?f = PendingPayment" using st by simp
  ultimately have d': "d' = put_order k (?n ?f) d3" using normalize_cong [OF d3(5)] by (simp add: save_pending)
  have orders: "db_orders d' = db_orders d @ [(k, ?n ?f)]"
    using d3(2,3) same_dataD(13) [OF s] by (simp add: d' put_order_def put_fresh)
  have f: "o_provisioning_status (?n ?f) = ProvFailed" "o_status (?n ?f) = PendingPayment"
    "o_last_provisioning_error (?n ?f) = grant_text e" "o_public_id (?n ?f) = gr_request_id g"
    "o_customer (?n ?f) = Some (gr_customer g)" "o_plan (?n ?f) = Some (fst (gr_plan g))"
    using st by (simp_all add: granted_order_def)
  have "first_where (\<lambda>_ ord. o_public_id ord = gr_request_id g) (db_orders d @ [(k, ?n ?f)]) = Some (k, ?n ?f)"
    using none f(4) by (intro first_where_add) (simp_all add: order_by_public_id_def)
  then have found: "order_by_public_id (gr_request_id g2) d' = Some (k, ?n ?f)"
    by (simp add: order_by_public_id_def orders assms(3))
  have "get_order d' k = Some (?n ?f)" by (simp add: d' get_order_def put_order_def)
  moreover have "db_clients d' = db_clients d" using d3(4) same_dataD(15) [OF s] by (simp add: d' put_order_def)
  moreover have "grant_free_subscription en2 rm2 eg2 t2 g2 d' =
      (if gr_customer g2 = gr_customer g \<and> fst (gr_plan g2) = fst (gr_plan g) then GrRepeated False k
       else GrRefused GrConfirmationInvalid, d')"
    using found f assms(2-4) by (auto simp: grant_free_subscription_def)
  ultimately show ?thesis using f by blast
qed

text \<open>A grant on an inbound that was switched off.\<close>

definition sample_grant :: grant where
  "sample_grant = \<lparr>gr_store = Some (1, sample_store), gr_customer = 2, gr_plan = (1, sample_plan),
     gr_inbound = Some (1, sample_inbound\<lparr>ib_is_active := False\<rparr>), gr_granted_by = None, gr_reason = ''gift'', gr_metadata = [],
     gr_notify_customer = True, gr_revenue_included = False, gr_revenue_amount = None, gr_request_id = ''r-1''\<rparr>"

lemma sample_grant_fails:
  "\<exists>e k d'. grant_free_subscription sample_env refusing no_engines no_delivery sample_grant sample_db = (GrFailed e k, d')"
proof -
  have "order_by_public_id (gr_request_id sample_grant) sample_db = None"
    by (simp add: order_by_public_id_def first_where_def rows_where_def sample_grant_def sample_db_def empty_db_def sample_order_def new_order_def)
  moreover have "\<not> is_ok (grant_inbound sample_grant sample_db)" by code_simp
  then have "\<exists>e. grant_inbound sample_grant sample_db = Inl e"
    by (cases "grant_inbound sample_grant sample_db") (simp_all add: is_ok_iff)
  ultimately show ?thesis
    by (auto simp: grant_free_subscription_def grant_target_def no_delivery_checkout sample_grant_def Let_def split: prod.splits)
qed

theorem failed_grant_recorded_once_witness:
  "\<exists>e k d'. grant_free_subscription sample_env refusing no_engines no_delivery sample_grant sample_db = (GrFailed e k, d') \<and>
     grant_free_subscription sample_env willing no_engines no_delivery sample_grant d' = (GrRepeated False k, d')"
proof -
  obtain e k d' where run: "grant_free_subscription sample_env refusing no_engines no_delivery sample_grant sample_db = (GrFailed e k, d')"
    using sample_grant_fails by blast
  have "grant_free_subscription sample_env willing no_engines no_delivery sample_grant d' = (GrRepeated False k, d')"
    using failed_grant_recorded_once [OF run, of sample_grant sample_env willing no_engines no_delivery] by (simp add: sample_grant_def)
  then show ?thesis using run by blast
qed

end
