(* ===== verification/Sms_Parser.thy ===== *)
theory Sms_Parser
  imports Receipts
begin

text \<open>
  \<open>payments/sms_parser.py\<close> and the payload reader of \<open>payments/views.py\<close>: reading the amount, the
  balance and the time from the text of a bank message. Text is a list of code points; after
  normalisation the decimal digits of the modelled alphabet are the ASCII ones. Each regular
  expression is a function that matches at one position, searched from left to right; it is
  deterministic because its character classes do not overlap where they meet. The Jalali calendar
  (a third-party package) and the time zone are an argument: the instant of a date and a time of
  day, or \<open>None\<close> when there is none.
\<close>

section \<open>Searching\<close>

text \<open>\<open>re.search\<close>: the first position at which \<open>f\<close> matches.\<close>

fun first_match :: "(code_points \<Rightarrow> 'a option) \<Rightarrow> code_points \<Rightarrow> 'a option" where
  "first_match f [] = f []"
| "first_match f (c # cs) = (case f (c # cs) of Some x \<Rightarrow> Some x | None \<Rightarrow> first_match f cs)"

text \<open>The same behind \<open>(?<!\d)\<close>: \<open>prev\<close> says that a digit precedes the position.\<close>

fun first_unpreceded :: "(code_points \<Rightarrow> 'a option) \<Rightarrow> bool \<Rightarrow> code_points \<Rightarrow> 'a option" where
  "first_unpreceded f prev [] = (if prev then None else f [])"
| "first_unpreceded f prev (c # cs) =
     (case if prev then None else f (c # cs) of
        Some x \<Rightarrow> Some x
      | None \<Rightarrow> first_unpreceded f (ascii_digit c) cs)"

text \<open>A maximal run of between \<open>lo\<close> and \<open>hi\<close> digits, and a separator between blanks.\<close>

definition digit_field :: "nat \<Rightarrow> nat \<Rightarrow> code_points \<Rightarrow> (nat \<times> code_points) option" where
  "digit_field lo hi s =
     (let ds = takeWhile ascii_digit s
      in if lo \<le> length ds \<and> length ds \<le> hi then Some (points_value ds, dropWhile ascii_digit s) else None)"

definition separator :: "nat list \<Rightarrow> code_points \<Rightarrow> code_points option" where
  "separator seps s =
     (case dropWhile space_point s of
        c # r \<Rightarrow> if c \<in> set seps then Some (dropWhile space_point r) else None
      | [] \<Rightarrow> None)"

section \<open>The message\<close>

definition normalize_sms_text :: "code_points \<Rightarrow> code_points" where
  "normalize_sms_text s =
     concat (map (\<lambda>c. if c = 1610 then [1740] else if c = 1603 then [1705]
                      else if c = 1644 \<or> c = 1548 then [44] else if c = 8204 then [32]
                      else if c = 8206 \<or> c = 8207 then [] else [normalize_digit c]) s)"

definition kw_balance :: code_points where
  "kw_balance = [1605, 1608, 1580, 1608, 1583, 1740]"

definition deposit_keywords :: "code_points list" where
  "deposit_keywords =
     [[1608, 1575, 1585, 1740, 1586], [1606, 1588, 1587, 1578],
      [1576, 1607, 32, 1581, 1587, 1575, 1576], [1581, 1587, 1575, 1576, 32, 1588, 1605, 1575]]"

definition colons :: "nat list" where
  "colons = [58, 65306]"

definition date_separators :: "nat list" where
  "date_separators = [46, 47, 45]"

definition amount_char :: "nat \<Rightarrow> bool" where
  "amount_char c \<longleftrightarrow> ascii_digit c \<or> c = 44 \<or> space_point c"

datatype sms_error = SmsNumberExpected | SmsBalanceMissing | SmsAmountMissing | SmsTimeMissing | SmsDateMissing | SmsDateInvalid

definition normalize_number :: "code_points \<Rightarrow> sms_error + nat" where
  "normalize_number v =
     (let ds = filter ascii_digit (normalize_sms_text v)
      in if ds = [] then Inl SmsNumberExpected else Inr (points_value ds))"

text \<open>\<open>RIAL_AMOUNT_RE\<close> at a position: the run of digits, commas and blanks, before the word rial.\<close>

definition rial_amount_here :: "code_points \<Rightarrow> code_points option" where
  "rial_amount_here s =
     (case s of
        c # _ \<Rightarrow> if ascii_digit c \<and> starts_with kw_rial (dropWhile amount_char s)
                then Some (takeWhile amount_char s) else None
      | [] \<Rightarrow> None)"

definition balance_here :: "code_points \<Rightarrow> code_points option" where
  "balance_here s =
     (if starts_with kw_balance s
      then (let r = dropWhile space_point (drop (length kw_balance) s)
            in rial_amount_here (case r of c # t \<Rightarrow> if c \<in> set colons then dropWhile space_point t else r | [] \<Rightarrow> []))
      else None)"

definition time_here :: "code_points \<Rightarrow> (nat \<times> nat) option" where
  "time_here s =
     Option.bind (digit_field 1 2 s) (\<lambda>(h, r).
     Option.bind (separator colons r) (\<lambda>r.
     map_option (\<lambda>(m, _). (h, m)) (digit_field 2 2 r)))"

definition date_here :: "code_points \<Rightarrow> (nat \<times> nat \<times> nat) option" where
  "date_here s =
     Option.bind (digit_field 4 4 s) (\<lambda>(y, r).
     Option.bind (separator date_separators r) (\<lambda>r.
     Option.bind (digit_field 1 2 r) (\<lambda>(m, r).
     Option.bind (separator date_separators r) (\<lambda>r.
     map_option (\<lambda>(d, _). (y, m, d)) (digit_field 1 2 r)))))"

text \<open>\<open>str.splitlines\<close>.\<close>

definition line_break :: "nat \<Rightarrow> bool" where
  "line_break c \<longleftrightarrow> (10 \<le> c \<and> c \<le> 13) \<or> (28 \<le> c \<and> c \<le> 30) \<or> c = 133 \<or> c = 8232 \<or> c = 8233"

function splitlines :: "code_points \<Rightarrow> code_points list" where
  "splitlines s =
     (if s = [] then []
      else takeWhile (\<lambda>c. \<not> line_break c) s #
        (case dropWhile (\<lambda>c. \<not> line_break c) s of
           [] \<Rightarrow> []
         | c # r \<Rightarrow> splitlines (if c = 13 \<and> r \<noteq> [] \<and> hd r = 10 then tl r else r)))"
  by pat_completeness auto
termination
proof (relation "measure length")
  fix s c r
  assume "s \<noteq> []" and d: "dropWhile (\<lambda>c. \<not> line_break c) s = c # r"
  have "length (c # r) \<le> length s" using length_dropWhile_le [of "\<lambda>c. \<not> line_break c" s] by (simp add: d)
  then show "(if c = 13 \<and> r \<noteq> [] \<and> hd r = 10 then tl r else r, s) \<in> measure length"
    by (cases r) auto
qed simp

declare splitlines.simps [simp del]

text \<open>The loop of \<open>_extract_deposit_amount\<close>; \<open>fb\<close> is the fallback.\<close>

fun deposit_amount :: "code_points option \<Rightarrow> code_points list \<Rightarrow> sms_error + nat" where
  "deposit_amount fb [] = (case fb of None \<Rightarrow> Inl SmsAmountMissing | Some a \<Rightarrow> normalize_number a)"
| "deposit_amount fb (l # ls) =
     (if contains kw_balance l then deposit_amount fb ls
      else case first_match rial_amount_here l of
        None \<Rightarrow> deposit_amount fb ls
      | Some a \<Rightarrow>
          if list_ex (\<lambda>k. contains k l) deposit_keywords then normalize_number a
          else deposit_amount (orelse fb (Some a)) ls)"

definition extract_deposit_amount :: "code_points \<Rightarrow> sms_error + nat" where
  "extract_deposit_amount s = deposit_amount None (splitlines s)"

definition extract_balance :: "code_points \<Rightarrow> sms_error + nat" where
  "extract_balance s =
     (case first_match balance_here s of None \<Rightarrow> Inl SmsBalanceMissing | Some b \<Rightarrow> normalize_number b)"

type_synonym calendar = "nat \<Rightarrow> nat \<Rightarrow> nat \<Rightarrow> nat \<Rightarrow> nat \<Rightarrow> instant option"

definition extract_sms_datetime :: "calendar \<Rightarrow> code_points \<Rightarrow> sms_error + instant" where
  "extract_sms_datetime cal s =
     (case (first_unpreceded time_here False s, first_unpreceded date_here False s) of
        (None, _) \<Rightarrow> Inl SmsTimeMissing
      | (_, None) \<Rightarrow> Inl SmsDateMissing
      | (Some (h, mi), Some (y, m, d)) \<Rightarrow>
          (case cal y m d h mi of None \<Rightarrow> Inl SmsDateInvalid | Some t \<Rightarrow> Inr t))"

record parsed_sms =
  ps_amount :: nat
  ps_balance :: nat
  ps_datetime :: instant

definition parse_payment_sms :: "calendar \<Rightarrow> code_points \<Rightarrow> sms_error + parsed_sms" where
  "parse_payment_sms cal raw =
     (let s = normalize_sms_text raw
      in case extract_deposit_amount s of Inl e \<Rightarrow> Inl e | Inr a \<Rightarrow>
         case extract_balance s of Inl e \<Rightarrow> Inl e | Inr b \<Rightarrow>
         case extract_sms_datetime cal s of Inl e \<Rightarrow> Inl e | Inr t \<Rightarrow>
         Inr \<lparr>ps_amount = a, ps_balance = b, ps_datetime = t\<rparr>)"

section \<open>The payload of the webhook\<close>

text \<open>A decoded JSON body or a form: texts, dictionaries, and values that are neither.\<close>

datatype payload = PText code_points | PDict "(string \<times> payload) list" | POther

fun text_value :: "payload \<Rightarrow> code_points" where
  "text_value (PText s) = strip_points s"
| "text_value _ = []"

definition text_keys :: "string list" where
  "text_keys = [''raw_text'', ''text'', ''message'', ''body'', ''sms'', ''content'']"

definition nested_keys :: "string list" where
  "nested_keys = [''data'', ''payload'', ''sms'']"

text \<open>\<open>payload.get(key)\<close> for the keys in turn.\<close>

definition values_at :: "string list \<Rightarrow> (string \<times> 'a) list \<Rightarrow> 'a list" where
  "values_at ks d = concat (map (\<lambda>k. case map_of d k of None \<Rightarrow> [] | Some v \<Rightarrow> [v]) ks)"

definition first_text :: "code_points list \<Rightarrow> code_points" where
  "first_text ts = (case find (\<lambda>t. t \<noteq> []) ts of None \<Rightarrow> [] | Some t \<Rightarrow> t)"

lemma values_at_in: "v \<in> set (values_at ks d) \<Longrightarrow> \<exists>k. (k, v) \<in> set d"
  by (auto simp: values_at_def split: option.splits) (metis map_of_SomeD)

lemma payload_smaller: "v \<in> set (values_at ks d) \<Longrightarrow> size v < Suc (size_list (size_prod (\<lambda>_. 0) size) d)"
proof -
  assume "v \<in> set (values_at ks d)"
  then obtain k where "(k, v) \<in> set d" by (blast dest: values_at_in)
  then have "size v < size_list (size_prod (\<lambda>_. 0) size) d" by (induction d) auto
  then show ?thesis by simp
qed

function extract_text_from_payload :: "payload \<Rightarrow> code_points" where
  "extract_text_from_payload (PText s) = strip_points s"
| "extract_text_from_payload (PDict d) =
     (let here = first_text (map text_value (values_at text_keys d))
      in if here \<noteq> [] then here
         else first_text (map extract_text_from_payload (values_at nested_keys d)))"
| "extract_text_from_payload POther = []"
  by pat_completeness auto
termination
  by (relation "measure size") (auto dest!: payload_smaller simp: less_Suc_eq_le)

end
