(* ===== verification/Sms_Laws.thy ===== *)
theory Sms_Laws
  imports Sms_Parser
begin

text \<open>
  Reading back a bank message: the message that the bank sends for an amount, a balance, a date and
  a time of day, in ASCII, Persian or Arabic digits, is read as exactly these.
\<close>

section \<open>Numbers as the bank writes them\<close>

text \<open>Decimal digits, and groups of three with commas.\<close>

fun dec_digits :: "nat \<Rightarrow> code_points" where
  "dec_digits n = (if n < 10 then [48 + n] else dec_digits (n div 10) @ [48 + n mod 10])"

fun thousands :: "nat \<Rightarrow> code_points" where
  "thousands n =
     (if n < 1000 then dec_digits n
      else thousands (n div 1000) @ [44, 48 + n div 100 mod 10, 48 + n div 10 mod 10, 48 + n mod 10])"

definition two_places :: "nat \<Rightarrow> code_points" where
  "two_places n = [48 + n div 10, 48 + n mod 10]"

definition four_places :: "nat \<Rightarrow> code_points" where
  "four_places n = [48 + n div 1000, 48 + n div 100 mod 10, 48 + n div 10 mod 10, 48 + n mod 10]"

declare dec_digits.simps [simp del] thousands.simps [simp del]

lemma points_value_append: "points_value (s @ t) = points_value s * 10 ^ length t + points_value t"
proof -
  have "foldl (\<lambda>n c. 10 * n + (c - 48)) m t = m * 10 ^ length t + foldl (\<lambda>n c. 10 * n + (c - 48)) 0 t" for m :: nat and t
  proof (induction t arbitrary: m)
    case (Cons c t)
    show ?case using Cons [of "10 * m + (c - 48)"] Cons [of "c - 48"] by (simp add: algebra_simps)
  qed simp
  from this [of "points_value s" t] show ?thesis by (simp add: points_value_def)
qed

lemma points_value_digit [simp]: "points_value [] = 0" "points_value (c # s) = (c - 48) * 10 ^ length s + points_value s"
  using points_value_append [of "[c]" s] by (simp_all add: points_value_def)

lemma ascii_digit_48 [simp]: "n < 10 \<Longrightarrow> ascii_digit (48 + n)"
  by (simp add: ascii_digit_def)

lemma dec_digits_props: "(\<forall>c \<in> set (dec_digits n). ascii_digit c) \<and> points_value (dec_digits n) = n \<and> dec_digits n \<noteq> []"
proof (induction n rule: dec_digits.induct)
  case (1 n)
  then show ?case by (auto simp: dec_digits.simps [of n] points_value_append)
qed

definition number_text :: "code_points \<Rightarrow> bool" where
  "number_text w \<longleftrightarrow> w \<noteq> [] \<and> ascii_digit (hd w) \<and> (\<forall>c \<in> set w. ascii_digit c \<or> c = 44)"

lemma three_places: "n div 100 mod 10 * 100 + (n div 10 mod 10 * 10 + n mod 10) = n mod (1000::nat)"
  using mod_mult2_eq [of n 100 10] mod_mult2_eq [of n 10 10] by simp

lemma thousands_props: "number_text (thousands n) \<and> points_value (filter ascii_digit (thousands n)) = n"
proof (induction n rule: thousands.induct)
  case (1 n)
  show ?case
  proof (cases "n < 1000")
    case True
    with dec_digits_props [of n] show ?thesis
      by (auto simp: thousands.simps [of n] number_text_def filter_id_conv)
  next
    case False
    let ?w = "thousands (n div 1000)" and ?e = "[48 + n div 100 mod 10, 48 + n div 10 mod 10, 48 + n mod 10]"
    have w: "thousands n = ?w @ 44 # ?e" using False by (simp add: thousands.simps [of n])
    have e: "\<forall>c \<in> set ?e. ascii_digit c" by simp
    have comma: "\<not> ascii_digit 44" by (simp add: ascii_digit_def)
    have ih: "number_text ?w" "points_value (filter ascii_digit ?w) = n div 1000" using 1 False by simp_all
    have "points_value (filter ascii_digit (thousands n)) = n div 1000 * 1000 + points_value ?e"
      using ih(2) e comma by (simp only: w filter_append points_value_append filter.simps if_False filter_True) simp
    moreover have "points_value ?e = n mod 1000" by (simp add: three_places)
    ultimately have "points_value (filter ascii_digit (thousands n)) = n" by simp
    moreover have "number_text (thousands n)" using ih(1) e by (auto simp: w number_text_def)
    ultimately show ?thesis by blast
  qed
qed

lemmas number_thousands = thousands_props [THEN conjunct1]
lemmas value_thousands = thousands_props [THEN conjunct2]

lemma digit_of_place: "c \<in> set (two_places n) \<Longrightarrow> n < 100 \<Longrightarrow> ascii_digit c"
  by (auto simp: two_places_def ascii_digit_def)

lemma digit_of_year: "c \<in> set (four_places n) \<Longrightarrow> n < 10000 \<Longrightarrow> ascii_digit c"
  by (auto simp: four_places_def ascii_digit_def)

lemma value_two_places: "n < 100 \<Longrightarrow> points_value (two_places n) = n"
  by (simp add: two_places_def)

lemma value_four_places: "n < 10000 \<Longrightarrow> points_value (four_places n) = n"
proof -
  have "n div 1000 * 1000 + (n div 100 mod 10 * 100 + (n div 10 mod 10 * 10 + n mod 10)) = n"
    by (simp only: three_places div_mult_mod_eq)
  then show ?thesis by (simp add: four_places_def)
qed

section \<open>The message of the bank\<close>

text \<open>The greeting, the deposit line, the balance line, the time and the date.\<close>

definition bank_name :: code_points where
  "bank_name = [1576, 1604, 1608]"

definition sms_title :: code_points where
  "sms_title = [1608, 1575, 1585, 1740, 1586, 32, 1662, 1608, 1604]"

definition dear_customer :: code_points where
  "dear_customer = [1605, 1588, 1578, 1585, 1740, 32, 1593, 1586, 1740, 1586]"

definition deposit_line :: code_points where
  "deposit_line = 32 # kw_rial @ [32, 1576, 1607, 32, 1581, 1587, 1575, 1576, 32, 1588, 1605, 1575, 32, 1606, 1588, 1587, 1578, 46]"

definition balance_head :: code_points where
  "balance_head = kw_balance @ [58, 32]"

definition balance_tail :: code_points where
  "balance_tail = 32 # kw_rial @ [10]"

definition clock :: "nat \<Rightarrow> nat \<Rightarrow> code_points" where
  "clock h mi = two_places h @ 58 # two_places mi"

definition calendar_date :: "nat \<Rightarrow> nat \<Rightarrow> nat \<Rightarrow> code_points" where
  "calendar_date y m d = four_places y @ 46 # two_places m @ 46 # two_places d"

definition bank_sms :: "nat \<Rightarrow> nat \<Rightarrow> nat \<Rightarrow> nat \<Rightarrow> nat \<Rightarrow> nat \<Rightarrow> nat \<Rightarrow> code_points" where
  "bank_sms a b y m d h mi =
     bank_name @ 10 # sms_title @ 10 # dear_customer @ 1548 # 32 # thousands a @ deposit_line @ 10 #
     balance_head @ thousands b @ balance_tail @ clock h mi @ 10 # calendar_date y m d"

text \<open>Writing the digits of a text from another digit zero.\<close>

definition in_script :: "nat \<Rightarrow> code_points \<Rightarrow> code_points" where
  "in_script z s = map (\<lambda>c. if ascii_digit c then c - 48 + z else c) s"

definition digit_zeros :: "nat set" where
  "digit_zeros = {48, 1632, 1776}"

lemma normalize_in_script:
  assumes "z \<in> digit_zeros"
  shows "normalize_sms_text (in_script z s) = normalize_sms_text s"
proof -
  have "normalize_sms_text (in_script z [c]) = normalize_sms_text [c]" for c
  proof (cases "ascii_digit c")
    case True
    then obtain k where k: "c = 48 + k" "k < 10" by (auto simp: ascii_digit_def le_iff_add)
    from assms consider "z = 48" | "z = 1632" | "z = 1776" by (auto simp: digit_zeros_def)
    then show ?thesis
      using True k by cases (simp_all add: normalize_sms_text_def in_script_def normalize_digit_def)
  qed (simp add: in_script_def)
  then show ?thesis by (induction s) (simp_all add: normalize_sms_text_def in_script_def)
qed

lemma normalize_append: "normalize_sms_text (s @ t) = normalize_sms_text s @ normalize_sms_text t"
  by (simp add: normalize_sms_text_def)

lemma normalize_plain: "\<forall>c \<in> set s. c < 1548 \<Longrightarrow> normalize_sms_text s = s"
  by (induction s) (auto simp: normalize_sms_text_def normalize_digit_def)

lemma number_plain: "number_text w \<Longrightarrow> normalize_sms_text w = w"
  by (rule normalize_plain) (auto simp: number_text_def ascii_digit_def)

section \<open>Skipping what does not match\<close>

text \<open>\<open>f\<close> matches at no position of \<open>s\<close> when \<open>t\<close> follows.\<close>

fun barren :: "(code_points \<Rightarrow> 'a option) \<Rightarrow> code_points \<Rightarrow> code_points \<Rightarrow> bool" where
  "barren f [] t = True"
| "barren f (c # s) t = (f (c # s @ t) = None \<and> barren f s t)"

lemma barren_append [simp]: "barren f (u @ v) t \<longleftrightarrow> barren f u (v @ t) \<and> barren f v t"
  by (induction u) auto

lemma first_match_skip: "barren f s t \<Longrightarrow> first_match f (s @ t) = first_match f t"
  by (induction s) auto

lemma first_match_here: "f s = Some x \<Longrightarrow> first_match f s = Some x"
  by (cases s) auto

lemma first_unpreceded_skip:
  "barren f s t \<Longrightarrow> s \<noteq> [] \<Longrightarrow> first_unpreceded f p (s @ t) = first_unpreceded f (ascii_digit (last s)) t"
proof (induction s arbitrary: p)
  case (Cons c s)
  then show ?case by (cases "s = []") simp_all
qed simp

lemma first_unpreceded_here: "f s = Some x \<Longrightarrow> first_unpreceded f False s = Some x"
  by (cases s) auto

lemma starts_with_append [simp]: "starts_with p (p @ s)"
  by (simp add: starts_with_iff)

lemma contains_skip: "c \<notin> set s \<Longrightarrow> contains (c # p) (s @ t) = contains (c # p) t"
  by (induction s) auto

text \<open>What cannot begin a match.\<close>

lemma starts_without_digit [simp]:
  assumes "\<not> ascii_digit c"
  shows "time_here (c # s) = None" and "date_here (c # s) = None" and "rial_amount_here (c # s) = None"
  using assms by (simp_all add: time_here_def date_here_def rial_amount_here_def digit_field_def)

lemma balance_elsewhere [simp]: "c \<noteq> 1605 \<Longrightarrow> balance_here (c # s) = None"
  by (simp add: balance_here_def kw_balance_def)

lemma barren_letters:
  assumes "\<forall>c \<in> set s. \<not> ascii_digit c"
  shows "barren time_here s t" and "barren date_here s t" and "barren rial_amount_here s t"
  using assms by (induction s) auto

lemma barren_number:
  assumes "\<forall>c \<in> set w. ascii_digit c \<or> c = 44"
  shows "barren balance_here w t"
  using assms by (induction w) (auto simp: ascii_digit_def)

definition blocked :: "nat list \<Rightarrow> code_points \<Rightarrow> bool" where
  "blocked seps r \<longleftrightarrow> separator seps r = None \<and> 44 \<notin> set seps"

lemma after_number:
  assumes "\<forall>c \<in> set w. ascii_digit c \<or> c = 44" and "blocked seps r" and "r = [] \<or> \<not> ascii_digit (hd r)"
  shows "separator seps (dropWhile ascii_digit (w @ r)) = None"
  using assms(1)
proof (induction w)
  case Nil
  have "dropWhile ascii_digit r = r" using assms(3) by (cases r) auto
  then show ?case using assms(2) by (simp add: blocked_def)
next
  case (Cons c w)
  show ?case
  proof (cases "ascii_digit c")
    case False
    then have "c = 44" using Cons.prems by simp
    then show ?thesis using assms(2) by (simp add: separator_def blocked_def space_point_def ascii_digit_def)
  qed (use Cons in simp)
qed

lemma number_barren:
  assumes "\<forall>c \<in> set w. ascii_digit c \<or> c = 44" and "r = [] \<or> \<not> ascii_digit (hd r)"
  shows "blocked colons r \<Longrightarrow> barren time_here w r" and "blocked date_separators r \<Longrightarrow> barren date_here w r"
proof -
  have f: "digit_field lo hi s = Some (n, q) \<Longrightarrow> q = dropWhile ascii_digit s" for lo hi s n q
    by (auto simp: digit_field_def Let_def split: if_splits)
  show "barren time_here w r" if b: "blocked colons r"
    using assms(1)
  proof (induction w)
    case (Cons c w)
    have "separator colons (dropWhile ascii_digit ((c # w) @ r)) = None"
      by (rule after_number [OF Cons.prems b assms(2)])
    then have "time_here (c # w @ r) = None"
      unfolding time_here_def by (cases "digit_field 1 2 (c # w @ r)") (auto dest: f)
    then show ?case using Cons by simp
  qed simp
  show "barren date_here w r" if b: "blocked date_separators r"
    using assms(1)
  proof (induction w)
    case (Cons c w)
    have "separator date_separators (dropWhile ascii_digit ((c # w) @ r)) = None"
      by (rule after_number [OF Cons.prems b assms(2)])
    then have "date_here (c # w @ r) = None"
      unfolding date_here_def by (cases "digit_field 4 4 (c # w @ r)") (auto dest: f)
    then show ?case using Cons by simp
  qed simp
qed

section \<open>Fields\<close>

lemma digit_field_run:
  assumes "\<forall>c \<in> set w. ascii_digit c" and "r = [] \<or> \<not> ascii_digit (hd r)"
  shows "digit_field lo hi (w @ r) = (if lo \<le> length w \<and> length w \<le> hi then Some (points_value w, r) else None)"
proof -
  have "takeWhile ascii_digit (w @ r) = w" "dropWhile ascii_digit (w @ r) = r"
    using assms by (cases r; simp)+
  then show ?thesis by (simp add: digit_field_def Let_def)
qed

lemma separator_here:
  assumes "c \<in> set seps" and "\<not> space_point c" and "r = [] \<or> \<not> space_point (hd r)"
  shows "separator seps (c # r) = Some r"
  using assms by (cases r) (auto simp: separator_def)

lemma two_field:
  assumes "n < 100" and "r = [] \<or> \<not> ascii_digit (hd r)" and "lo \<le> 2"
  shows "digit_field lo 2 (two_places n @ r) = Some (n, r)"
  using assms digit_field_run [of "two_places n" r lo 2] value_two_places [of n] digit_of_place [of _ n]
  by (simp add: two_places_def)

lemma year_field:
  assumes "n < 10000" and "r = [] \<or> \<not> ascii_digit (hd r)"
  shows "digit_field 4 4 (four_places n @ r) = Some (n, r)"
  using assms digit_field_run [of "four_places n" r 4 4] value_four_places [of n] digit_of_year [of _ n]
  by (simp add: four_places_def)

lemma place_not_space: "two_places n = [] \<or> \<not> space_point (hd (two_places n @ r))" if "n < 100"
  using that by (auto simp: two_places_def space_point_def)

lemma clock_read:
  assumes "h < 100" and "mi < 100" and "r = [] \<or> \<not> ascii_digit (hd r)"
  shows "time_here (clock h mi @ r) = Some (h, mi)"
proof -
  have "digit_field 1 2 (two_places h @ 58 # two_places mi @ r) = Some (h, 58 # two_places mi @ r)"
    by (rule two_field [OF assms(1)]) (simp_all add: ascii_digit_def)
  moreover have "separator colons (58 # two_places mi @ r) = Some (two_places mi @ r)"
    by (rule separator_here) (use assms(2) in \<open>auto simp: colons_def space_point_def two_places_def\<close>)
  moreover have "digit_field 2 2 (two_places mi @ r) = Some (mi, r)"
    by (rule two_field [OF assms(2,3)]) simp
  ultimately show ?thesis by (simp add: time_here_def clock_def)
qed

lemma date_read:
  assumes "y < 10000" and "m < 100" and "d < 100"
  shows "date_here (calendar_date y m d) = Some (y, m, d)"
proof -
  have "digit_field 4 4 (four_places y @ 46 # two_places m @ 46 # two_places d) = Some (y, 46 # two_places m @ 46 # two_places d)"
    by (rule year_field [OF assms(1)]) (simp add: ascii_digit_def)
  moreover have "separator date_separators (46 # two_places m @ 46 # two_places d) = Some (two_places m @ 46 # two_places d)"
    by (rule separator_here) (use assms(2) in \<open>auto simp: date_separators_def space_point_def two_places_def\<close>)
  moreover have "digit_field 1 2 (two_places m @ 46 # two_places d) = Some (m, 46 # two_places d)"
    by (rule two_field [OF assms(2)]) (simp_all add: ascii_digit_def)
  moreover have "separator date_separators (46 # two_places d) = Some (two_places d)"
    by (rule separator_here) (use assms(3) in \<open>auto simp: date_separators_def space_point_def two_places_def\<close>)
  moreover have "digit_field 1 2 (two_places d) = Some (d, [])"
    using two_field [OF assms(3), of "[]" 1] by simp
  ultimately show ?thesis by (simp add: date_here_def calendar_date_def)
qed

lemma short_run_no_date:
  assumes "\<forall>c \<in> set w. ascii_digit c" and "length w < 4" and "r = [] \<or> \<not> ascii_digit (hd r)"
  shows "barren date_here w r"
  using assms(1,2)
proof (induction w)
  case (Cons c w)
  have "digit_field 4 4 ((c # w) @ r) = None"
    using digit_field_run [OF Cons.prems(1) assms(3)] Cons.prems(2) by simp
  then show ?case using Cons by (simp add: date_here_def)
qed simp

section \<open>Reading the message\<close>

definition received_sms :: "nat \<Rightarrow> nat \<Rightarrow> code_points \<Rightarrow> code_points" where
  "received_sms a b t =
     bank_name @ 10 # sms_title @ 10 # dear_customer @ 44 # 32 # thousands a @ deposit_line @ 10 #
     balance_head @ thousands b @ balance_tail @ t"

lemmas letter_defs = bank_name_def sms_title_def dear_customer_def deposit_line_def balance_head_def balance_tail_def
  kw_rial_def kw_balance_def

lemmas point_defs = ascii_digit_def space_point_def amount_char_def line_break_def

lemma clock_points_plain:
  assumes "h < 100" and "mi < 100" and "y < 10000" and "m < 100" and "d < 100"
  shows "normalize_sms_text (clock h mi @ 10 # calendar_date y m d) = clock h mi @ 10 # calendar_date y m d"
  by (rule normalize_plain) (use assms in \<open>auto simp: clock_def calendar_date_def two_places_def four_places_def\<close>)

lemma normalize_bank_sms:
  assumes "h < 100" and "mi < 100" and "y < 10000" and "m < 100" and "d < 100"
  shows "normalize_sms_text (bank_sms a b y m d h mi) = received_sms a b (clock h mi @ 10 # calendar_date y m d)"
proof -
  have letters: "normalize_sms_text (bank_name @ 10 # sms_title @ 10 # dear_customer @ [1548, 32]) =
      bank_name @ 10 # sms_title @ 10 # dear_customer @ [44, 32]"
    "normalize_sms_text (deposit_line @ 10 # balance_head) = deposit_line @ 10 # balance_head"
    "normalize_sms_text balance_tail = balance_tail"
    by (simp_all add: letter_defs normalize_sms_text_def normalize_digit_def)
  have split: "normalize_sms_text (p @ thousands a @ q @ thousands b @ r @ u) =
      normalize_sms_text p @ thousands a @ normalize_sms_text q @ thousands b @ normalize_sms_text r @ normalize_sms_text u" for p q r u
    by (simp add: normalize_append number_plain [OF number_thousands])
  have "bank_sms a b y m d h mi = (bank_name @ 10 # sms_title @ 10 # dear_customer @ [1548, 32]) @ thousands a @
      (deposit_line @ 10 # balance_head) @ thousands b @ balance_tail @ (clock h mi @ 10 # calendar_date y m d)"
    by (simp add: bank_sms_def)
  also have "normalize_sms_text \<dots> = normalize_sms_text (bank_name @ 10 # sms_title @ 10 # dear_customer @ [1548, 32]) @
      thousands a @ normalize_sms_text (deposit_line @ 10 # balance_head) @ thousands b @ normalize_sms_text balance_tail @
      normalize_sms_text (clock h mi @ 10 # calendar_date y m d)"
    by (rule split)
  also have "\<dots> = received_sms a b (clock h mi @ 10 # calendar_date y m d)"
    unfolding letters clock_points_plain [OF assms] by (simp add: received_sms_def)
  finally show ?thesis .
qed

lemma number_chars: "c \<in> set (thousands n) \<Longrightarrow> ascii_digit c \<or> c = 44"
  using number_thousands [of n] by (simp add: number_text_def)

lemma number_chars_range: "c \<in> set (thousands n) \<Longrightarrow> 44 \<le> c \<and> c \<le> 57"
  by (drule number_chars) (auto simp: ascii_digit_def)

lemma rial_number: "rial_amount_here (thousands n @ 32 # kw_rial @ r) = Some (thousands n @ [32])"
proof -
  obtain c w where w: "thousands n = c # w" "ascii_digit c"
    using number_thousands [of n] by (cases "thousands n") (auto simp: number_text_def)
  have a: "\<forall>x \<in> set (thousands n @ [32]). amount_char x"
    by (auto simp: amount_char_def space_point_def dest: number_chars)
  have k: "\<not> amount_char (hd (kw_rial @ r))" by (simp add: kw_rial_def point_defs)
  have "takeWhile amount_char ((thousands n @ [32]) @ kw_rial @ r) = thousands n @ [32]"
    "dropWhile amount_char ((thousands n @ [32]) @ kw_rial @ r) = kw_rial @ r"
    using a k by (simp_all add: takeWhile_append dropWhile_append kw_rial_def)
  moreover have "starts_with kw_rial (kw_rial @ r)" by (simp add: starts_with_iff)
  ultimately show ?thesis using w by (simp add: rial_amount_here_def)
qed

lemma number_read: "normalize_number (thousands n @ [32]) = Inr n"
proof -
  have "normalize_sms_text (thousands n @ [32]) = thousands n @ [32]"
    by (rule normalize_plain) (auto dest: number_chars_range)
  moreover have "filter ascii_digit (thousands n) \<noteq> []"
    using number_thousands [of n] by (cases "thousands n") (auto simp: number_text_def)
  ultimately show ?thesis
    by (simp add: normalize_number_def value_thousands) (simp add: ascii_digit_def)
qed

lemma splitlines_line: "\<forall>c \<in> set u. \<not> line_break c \<Longrightarrow> splitlines (u @ 10 # v) = u # splitlines v"
  by (subst splitlines.simps) (simp add: takeWhile_append dropWhile_append line_break_def)

lemma deposit_read: "extract_deposit_amount (received_sms a b t) = Inr a"
proof -
  let ?line = "dear_customer @ 44 # 32 # thousands a @ deposit_line"
  let ?rest = "balance_head @ thousands b @ balance_tail @ t"
  have breaks: "\<forall>c \<in> set bank_name. \<not> line_break c" "\<forall>c \<in> set sms_title. \<not> line_break c" "\<forall>c \<in> set ?line. \<not> line_break c"
    by (auto simp: letter_defs line_break_def dest: number_chars_range)
  have "received_sms a b t = bank_name @ 10 # sms_title @ 10 # ?line @ 10 # ?rest"
    by (simp add: received_sms_def)
  then have lines: "splitlines (received_sms a b t) = bank_name # sms_title # ?line # splitlines ?rest"
    by (simp only: splitlines_line [OF breaks(1)] splitlines_line [OF breaks(2)] splitlines_line [OF breaks(3)])
  have first: "\<not> contains kw_balance bank_name" "first_match rial_amount_here bank_name = None"
    "\<not> contains kw_balance sms_title" "first_match rial_amount_here sms_title = None"
    by (simp_all add: letter_defs ascii_digit_def) (simp_all add: rial_amount_here_def)
  have "1605 \<notin> set (thousands a)" "1608 \<notin> set (thousands a)" "1606 \<notin> set (thousands a)"
    using number_chars_range [of _ a] by fastforce+
  then have third: "\<not> contains kw_balance ?line" "contains [1606, 1588, 1587, 1578] ?line"
    by (simp_all add: letter_defs contains_skip)
  have "first_match rial_amount_here ?line = first_match rial_amount_here (thousands a @ deposit_line)"
    using first_match_skip [of rial_amount_here "dear_customer @ [44, 32]"] barren_letters(3) [of "dear_customer @ [44, 32]"]
    by (simp add: dear_customer_def ascii_digit_def)
  also have "\<dots> = Some (thousands a @ [32])"
    unfolding deposit_line_def by (rule first_match_here) (simp add: rial_number)
  finally have amount: "first_match rial_amount_here ?line = Some (thousands a @ [32])" .
  have "list_ex (\<lambda>k. contains k ?line) deposit_keywords"
    using third(2) by (simp add: deposit_keywords_def)
  then show ?thesis
    unfolding extract_deposit_amount_def lines by (simp add: first third(1) amount number_read)
qed

lemma balance_read: "extract_balance (received_sms a b t) = Inr b"
proof -
  let ?head = "bank_name @ 10 # sms_title @ 10 # dear_customer @ 44 # 32 # thousands a @ deposit_line @ [10]"
  let ?r = "thousands b @ balance_tail @ t"
  have n: "barren balance_here (thousands a) x" for x
    by (rule barren_number) (use number_chars in blast)
  have "barren balance_here ?head (balance_head @ ?r)"
    by (simp add: n) (simp add: letter_defs balance_here_def)
  then have "first_match balance_here (received_sms a b t) = first_match balance_here (balance_head @ ?r)"
    using first_match_skip [of balance_here ?head] by (simp add: received_sms_def)
  moreover have "balance_here (balance_head @ ?r) = Some (thousands b @ [32])"
  proof -
    have "dropWhile space_point (58 # 32 # ?r) = 58 # 32 # ?r" by (simp add: space_point_def)
    moreover have "dropWhile space_point (32 # ?r) = ?r"
      using number_thousands [of b]
      by (cases "thousands b") (auto simp: number_text_def ascii_digit_def space_point_def)
    ultimately have "balance_here (kw_balance @ 58 # 32 # ?r) = rial_amount_here ?r"
      by (simp add: balance_here_def colons_def)
    then have "balance_here (balance_head @ ?r) = rial_amount_here ?r" by (simp add: balance_head_def)
    then show ?thesis using rial_number [of b "10 # t"] by (simp add: balance_tail_def)
  qed
  ultimately show ?thesis by (simp add: extract_balance_def first_match_here number_read)
qed

lemma letters_before:
  shows "barren time_here (bank_name @ 10 # sms_title @ 10 # dear_customer @ 44 # 32 # thousands a @ deposit_line @ 10 #
      balance_head @ thousands b @ balance_tail) t"
    and "barren date_here (bank_name @ 10 # sms_title @ 10 # dear_customer @ 44 # 32 # thousands a @ deposit_line @ 10 #
      balance_head @ thousands b @ balance_tail) t"
proof -
  have plain: "\<forall>c \<in> set bank_name. \<not> ascii_digit c" "\<forall>c \<in> set sms_title. \<not> ascii_digit c" "\<forall>c \<in> set dear_customer. \<not> ascii_digit c"
    "\<forall>c \<in> set deposit_line. \<not> ascii_digit c" "\<forall>c \<in> set balance_head. \<not> ascii_digit c"
    "\<forall>c \<in> set balance_tail. \<not> ascii_digit c" "\<not> ascii_digit 10" "\<not> ascii_digit 44" "\<not> ascii_digit 32"
    by (simp_all add: letter_defs ascii_digit_def)
  have b: "blocked colons (32 # kw_rial @ x)" "blocked date_separators (32 # kw_rial @ x)" for x
    by (simp_all add: blocked_def separator_def kw_rial_def space_point_def colons_def date_separators_def)
  have d: "deposit_line @ x = 32 # kw_rial @ drop 5 deposit_line @ x" "balance_tail @ x = 32 # kw_rial @ [10] @ x" for x
    by (simp_all add: deposit_line_def balance_tail_def kw_rial_def)
  have n: "\<forall>c \<in> set (thousands k). ascii_digit c \<or> c = 44" for k using number_chars by blast
  have "barren time_here (thousands k) (deposit_line @ x)" "barren date_here (thousands k) (deposit_line @ x)"
    "barren time_here (thousands k) (balance_tail @ x)" "barren date_here (thousands k) (balance_tail @ x)" for k x
    unfolding d by (rule number_barren(1) [OF n _ b(1)] number_barren(2) [OF n _ b(2)]; simp add: plain)+
  then show "barren time_here (bank_name @ 10 # sms_title @ 10 # dear_customer @ 44 # 32 # thousands a @ deposit_line @ 10 #
      balance_head @ thousands b @ balance_tail) t"
    "barren date_here (bank_name @ 10 # sms_title @ 10 # dear_customer @ 44 # 32 # thousands a @ deposit_line @ 10 #
      balance_head @ thousands b @ balance_tail) t"
    by (simp_all add: plain barren_letters)
qed

lemma datetime_read:
  assumes "h < 100" and "mi < 100" and "y < 10000" and "m < 100" and "d < 100"
  shows "extract_sms_datetime cal (received_sms a b (clock h mi @ 10 # calendar_date y m d)) =
    (case cal y m d h mi of None \<Rightarrow> Inl SmsDateInvalid | Some t \<Rightarrow> Inr t)"
proof -
  let ?s = "bank_name @ 10 # sms_title @ 10 # dear_customer @ 44 # 32 # thousands a @ deposit_line @ 10 #
      balance_head @ thousands b @ balance_tail"
  let ?date = "calendar_date y m d"
  have whole: "received_sms a b (clock h mi @ 10 # ?date) = ?s @ clock h mi @ 10 # ?date"
    by (simp add: received_sms_def)
  have last: "\<not> ascii_digit (last ?s)" "?s \<noteq> []"
    by (simp_all add: balance_tail_def ascii_digit_def)
  have "first_unpreceded time_here False (?s @ clock h mi @ 10 # ?date) = Some (h, mi)"
    unfolding first_unpreceded_skip [OF letters_before(1) last(2)] using last(1)
    by (simp only:) (rule first_unpreceded_here, rule clock_read, use assms in \<open>simp_all add: ascii_digit_def\<close>)
  moreover have "first_unpreceded date_here False (?s @ clock h mi @ 10 # ?date) = Some (y, m, d)"
  proof -
    have d: "\<forall>c \<in> set (two_places h). ascii_digit c" "\<forall>c \<in> set (two_places mi). ascii_digit c" "\<not> ascii_digit 58" "\<not> ascii_digit 10"
      using digit_of_place assms by (blast, blast, simp_all add: ascii_digit_def)
    have "barren date_here (two_places h) (58 # x)" "barren date_here (two_places mi) (10 # x)" for x
      by (rule short_run_no_date; use d in \<open>simp add: two_places_def\<close>)+
    then have "barren date_here (?s @ clock h mi @ [10]) ?date"
      using letters_before(2) [of a b "clock h mi @ 10 # ?date"] d by (simp add: clock_def)
    from first_unpreceded_skip [OF this] have "first_unpreceded date_here False (?s @ clock h mi @ 10 # ?date) =
        first_unpreceded date_here False ?date"
      using d by simp
    then show ?thesis using first_unpreceded_here [of date_here, OF date_read [OF assms(3-5)]] by simp
  qed
  ultimately show ?thesis by (simp add: extract_sms_datetime_def whole)
qed

lemma parse_bank_sms:
  assumes "z \<in> digit_zeros" and "h < 100" and "mi < 100" and "y < 10000" and "m < 100" and "d < 100"
  shows "parse_payment_sms cal (in_script z (bank_sms a b y m d h mi)) =
    (case cal y m d h mi of
       None \<Rightarrow> Inl SmsDateInvalid
     | Some t \<Rightarrow> Inr \<lparr>ps_amount = a, ps_balance = b, ps_datetime = t\<rparr>)"
  using normalize_bank_sms [OF assms(2-6)]
  by (simp add: parse_payment_sms_def normalize_in_script [OF assms(1)] deposit_read balance_read datetime_read [OF assms(2-6)] Let_def
      split: option.splits)

text \<open>C24. The parser inverts the bank's message format: a deposit message written with any amount and
  balance, in thousands, and any date and time of day, in ASCII, Persian or Arabic digits, is read
  as exactly that amount, that balance and the instant of that date and time; it is refused only
  when the calendar has no such date.\<close>

theorem bank_sms_roundtrip:
  assumes "z \<in> digit_zeros" and "h < 100" and "mi < 100" and "y < 10000" and "m < 100" and "d < 100"
  shows "parse_payment_sms cal (in_script z (bank_sms a b y m d h mi)) =
    (case cal y m d h mi of
       None \<Rightarrow> Inl SmsDateInvalid
     | Some t \<Rightarrow> Inr \<lparr>ps_amount = a, ps_balance = b, ps_datetime = t\<rparr>)"
  using assms by (rule parse_bank_sms)

theorem bank_sms_roundtrip_witness:
  "parse_payment_sms (\<lambda>y m d h mi. Some 7) (in_script 1776 (bank_sms 4830000 109609358 1405 2 14 18 56)) =
    Inr \<lparr>ps_amount = 4830000, ps_balance = 109609358, ps_datetime = 7\<rparr>"
  by (subst bank_sms_roundtrip) (simp_all add: digit_zeros_def)

end
