(* ===== verification/Sms_Matching.thy ===== *)
theory Sms_Matching
  imports Sms_Parser Provisioning
begin

text \<open>
  The \<open>payments\<close> application: bank messages that arrive at the webhook, are matched to waiting orders
  by amount and time, and are confirmed, re-evaluated or dismissed by an administrator
  (\<open>payments/models.py\<close>, \<open>payment_matching.py\<close>, \<open>views.py\<close> and the actions of \<open>admin.py\<close>). The
  messages are a table of their own beside the database of the store; the notifications sent
  after the commit are recorded as the message and the orders they name.
\<close>

section \<open>Messages\<close>

datatype sms_status = SmsNew | SmsMatched | SmsConfirmed | SmsDismissed | SmsNoMatch

record incoming_sms =
  sm_raw_text :: code_points
  sm_amount :: int
  sm_balance :: int
  sm_datetime :: instant
  sm_received_at :: instant
  sm_status :: sms_status
  sm_matched_orders :: "pk list"

record sms_app =
  sa_messages :: "incoming_sms table"
  sa_notices :: "(pk \<times> pk list) list"

definition get_sms :: "sms_app \<Rightarrow> pk \<Rightarrow> incoming_sms option" where
  "get_sms app k = row (sa_messages app) k"

definition put_sms :: "pk \<Rightarrow> incoming_sms \<Rightarrow> sms_app \<Rightarrow> sms_app" where
  "put_sms k m app = app\<lparr>sa_messages := put k m (sa_messages app)\<rparr>"

interpretation sms: row_access get_sms put_sms
  by unfold_locales (simp add: get_sms_def put_sms_def row_put)

lemma get_put_sms [simp]: "get_sms (put_sms k m app) j = (if j = k then Some m else get_sms app j)"
  by (rule sms.get_put)

section \<open>Matching\<close>

definition match_window_before :: int where
  "match_window_before = minutes 30"

definition match_window_after :: int where
  "match_window_after = minutes 15"

definition pending_order_statuses :: "order_status set" where
  "pending_order_statuses = {PendingPayment, PendingVerification, OrderLegacyPending}"

definition matches_order :: "int \<Rightarrow> instant \<Rightarrow> order \<Rightarrow> bool" where
  "matches_order amount t ord \<longleftrightarrow>
     o_status ord \<in> pending_order_statuses \<and> t - match_window_before \<le> o_created_at ord \<and>
     o_created_at ord \<le> t + match_window_after \<and> o_amount ord = amount"

definition find_matching_orders :: "int \<Rightarrow> instant \<Rightarrow> db \<Rightarrow> pk list" where
  "find_matching_orders amount t d =
     map fst (ordered_where (\<lambda>(k, ord). (o_created_at ord, k)) (\<lambda>_ ord. matches_order amount t ord) (db_orders d))"

text \<open>\<open>payment_sms.matched_orders\<close>: links to orders that exist, in the order of their creation.\<close>

definition linked_orders :: "db \<Rightarrow> incoming_sms \<Rightarrow> pk list" where
  "linked_orders d m =
     map fst (ordered_where (\<lambda>(k, ord). (o_created_at ord, k)) (\<lambda>k _. k \<in> set (sm_matched_orders m)) (db_orders d))"

definition process_incoming_payment_sms :: "bool \<Rightarrow> pk \<Rightarrow> incoming_sms \<Rightarrow> db \<Rightarrow> sms_app \<Rightarrow> pk list \<times> sms_app" where
  "process_incoming_payment_sms notify k m d app =
     (if sm_status m = SmsConfirmed then (linked_orders d m, app)
      else
        let before = set (linked_orders d m);
            orders = find_matching_orders (sm_amount m) (sm_datetime m) d;
            unchanged = (sm_status m = SmsMatched \<and> before = set orders);
            m1 = (if before \<noteq> set orders then m\<lparr>sm_matched_orders := orders\<rparr> else m);
            m2 = m1\<lparr>sm_status := (if orders \<noteq> [] then SmsMatched else SmsNoMatch)\<rparr>;
            app1 = put_sms k m2 app
        in (orders, if orders \<noteq> [] \<and> notify \<and> \<not> unchanged
                    then app1\<lparr>sa_notices := (k, orders) # sa_notices app1\<rparr> else app1))"

section \<open>Confirming and dismissing\<close>

datatype confirm_error = SmsUnknown | ChooseOneOrder | OrderUnknown | OrderNotLinked | OrderClosed

definition chosen_order :: "pk option \<Rightarrow> incoming_sms \<Rightarrow> db \<Rightarrow> confirm_error + pk" where
  "chosen_order choice m d =
     (case choice of
        None \<Rightarrow> (case linked_orders d m of [k] \<Rightarrow> Inr k | _ \<Rightarrow> Inl ChooseOneOrder)
      | Some k \<Rightarrow> if get_order d k = None then Inl OrderUnknown
                  else if k \<in> set (linked_orders d m) then Inr k else Inl OrderNotLinked)"

definition paid_by_sms :: "env \<Rightarrow> pk option \<Rightarrow> order \<Rightarrow> order" where
  "paid_by_sms en user ord =
     ord\<lparr>o_is_paid := True, o_status := (if o_status ord = Completed then Completed else Confirmed),
         o_verification_status := VerVerified,
         o_verified_by := (if user \<noteq> None then user else o_verified_by ord),
         o_verified_at := orelse (o_verified_at ord) (Some (e_now en))\<rparr>"

text \<open>The transaction: the order is marked as paid and the message as confirmed.\<close>

definition record_confirmation ::
  "env \<Rightarrow> pk \<Rightarrow> pk option \<Rightarrow> pk option \<Rightarrow> sms_app \<Rightarrow> db \<Rightarrow> (confirm_error + pk \<times> bool) \<times> sms_app \<times> db" where
  "record_confirmation en k choice user app d =
     (case get_sms app k of None \<Rightarrow> (Inl SmsUnknown, app, d) | Some m \<Rightarrow>
      case chosen_order choice m d of Inl e \<Rightarrow> (Inl e, app, d) | Inr ok \<Rightarrow>
      case get_order d ok of None \<Rightarrow> (Inl OrderUnknown, app, d) | Some ord \<Rightarrow>
      if sm_status m = SmsConfirmed then (Inr (ok, False), app, d)
      else if o_status ord \<in> {Rejected, Cancelled} then (Inl OrderClosed, app, d)
      else (Inr (ok, True), put_sms k (m\<lparr>sm_status := SmsConfirmed\<rparr>) app,
            if o_status ord = Completed \<and> paid_by_sms en user ord = ord then d else save_order en ok (paid_by_sms en user ord) d))"

text \<open>A failure of the provisioning hook is logged and swallowed.\<close>

definition confirm_incoming_payment_sms ::
  "env \<Rightarrow> remote \<Rightarrow> engines \<Rightarrow> pk \<Rightarrow> pk option \<Rightarrow> pk option \<Rightarrow> sms_app \<Rightarrow> db \<Rightarrow> (confirm_error + pk) \<times> sms_app \<times> db" where
  "confirm_incoming_payment_sms en rm eg k choice user app d =
     (case record_confirmation en k choice user app d of
        (Inl e, r) \<Rightarrow> (Inl e, r)
      | (Inr (ok, False), r) \<Rightarrow> (Inr ok, r)
      | (Inr (ok, True), app1, d1) \<Rightarrow>
          (Inr ok, app1, snd (approve_and_provision_order en rm eg user OtherSource True ok d1)))"

definition dismiss_incoming_payment_sms :: "pk \<Rightarrow> incoming_sms \<Rightarrow> sms_app \<Rightarrow> sms_app" where
  "dismiss_incoming_payment_sms k m app = put_sms k (m\<lparr>sm_status := SmsDismissed\<rparr>) app"

section \<open>Actions of the administration\<close>

definition re_evaluate_sms_match :: "pk list \<Rightarrow> db \<Rightarrow> sms_app \<Rightarrow> (nat \<times> nat) \<times> sms_app" where
  "re_evaluate_sms_match ks d app =
     fold (\<lambda>k ((processed, matches), app).
        case get_sms app k of
          None \<Rightarrow> ((processed, matches), app)
        | Some m \<Rightarrow> let (orders, app1) = process_incoming_payment_sms False k m d app
                    in ((Suc processed, matches + length orders), app1)) ks ((0, 0), app)"

record confirm_counts =
  cc_confirmed :: nat
  cc_skipped :: nat
  cc_failed :: nat

definition confirm_single_matched_order ::
  "env \<Rightarrow> remote \<Rightarrow> engines \<Rightarrow> pk list \<Rightarrow> pk option \<Rightarrow> sms_app \<Rightarrow> db \<Rightarrow> confirm_counts \<times> sms_app \<times> db" where
  "confirm_single_matched_order en rm eg ks user app d =
     fold (\<lambda>k (cc, app, d).
        case get_sms app k of
          None \<Rightarrow> (cc, app, d)
        | Some m \<Rightarrow>
            if length (linked_orders d m) \<noteq> 1 then (cc\<lparr>cc_skipped := Suc (cc_skipped cc)\<rparr>, app, d)
            else (case confirm_incoming_payment_sms en rm eg k None user app d of
                    (Inl _, app1, d1) \<Rightarrow> (cc\<lparr>cc_failed := Suc (cc_failed cc)\<rparr>, app1, d1)
                  | (Inr _, app1, d1) \<Rightarrow> (cc\<lparr>cc_confirmed := Suc (cc_confirmed cc)\<rparr>, app1, d1)))
       ks (\<lparr>cc_confirmed = 0, cc_skipped = 0, cc_failed = 0\<rparr>, app, d)"

definition dismiss_selected :: "pk list \<Rightarrow> sms_app \<Rightarrow> nat \<times> sms_app" where
  "dismiss_selected ks app =
     fold (\<lambda>k (n, app). case get_sms app k of None \<Rightarrow> (n, app)
             | Some m \<Rightarrow> (Suc n, dismiss_incoming_payment_sms k m app)) ks (0, app)"

section \<open>The webhook\<close>

text \<open>A request as the framework decodes it: \<open>rq_json\<close> is the decoded body when it is valid JSON.\<close>

record sms_request =
  rq_header_token :: string
  rq_query_token :: string
  rq_form_token :: string
  rq_is_json :: bool
  rq_body :: code_points
  rq_json :: "payload option"
  rq_json_token :: string
  rq_form :: "(string \<times> payload) list"

definition extract_webhook_token :: "sms_request \<Rightarrow> string" where
  "extract_webhook_token rq =
     (let t = str_or (rq_header_token rq) (str_or (rq_query_token rq) (rq_form_token rq))
      in if t \<noteq> [] then t
         else if \<not> rq_is_json rq \<or> strip_points (rq_body rq) = [] then []
         else case rq_json rq of Some (PDict _) \<Rightarrow> strip (rq_json_token rq) | _ \<Rightarrow> [])"

definition extract_sms_text :: "sms_request \<Rightarrow> code_points" where
  "extract_sms_text rq =
     (let body = strip_points (rq_body rq)
      in if rq_is_json rq \<and> body \<noteq> []
         then (case rq_json rq of None \<Rightarrow> [] | Some p \<Rightarrow> extract_text_from_payload p)
         else if rq_form rq \<noteq> [] then extract_text_from_payload (PDict (rq_form rq)) else body)"

datatype webhook_answer =
    TokenNotConfigured
  | TokenInvalid
  | TextMissing
  | Unparsable sms_error
  | Accepted pk sms_status "pk list"

definition new_sms :: "env \<Rightarrow> code_points \<Rightarrow> parsed_sms \<Rightarrow> incoming_sms" where
  "new_sms en raw p =
     \<lparr>sm_raw_text = raw, sm_amount = int (ps_amount p), sm_balance = int (ps_balance p), sm_datetime = ps_datetime p,
      sm_received_at = e_now en, sm_status = SmsNew, sm_matched_orders = []\<rparr>"

text \<open>\<open>configured\<close> and \<open>verify\<close> stand for the stored token and its comparison.\<close>

definition smsforwarder_webhook ::
  "env \<Rightarrow> calendar \<Rightarrow> bool \<Rightarrow> (string \<Rightarrow> bool) \<Rightarrow> sms_request \<Rightarrow> db \<Rightarrow> sms_app \<Rightarrow> webhook_answer \<times> sms_app" where
  "smsforwarder_webhook en cal configured verify rq d app =
     (if \<not> configured then (TokenNotConfigured, app)
      else if \<not> verify (extract_webhook_token rq) then (TokenInvalid, app)
      else
        let raw = extract_sms_text rq in
        if raw = [] then (TextMissing, app)
        else case parse_payment_sms cal raw of
          Inl e \<Rightarrow> (Unparsable e, app)
        | Inr p \<Rightarrow>
            let m = new_sms en raw p;
                (k, t) = add_row m (sa_messages app);
                (orders, app1) = process_incoming_payment_sms True k m d (app\<lparr>sa_messages := t\<rparr>)
            in (Accepted k (if orders \<noteq> [] then SmsMatched else SmsNoMatch) orders, app1))"

end
