(* ===== verification/Sms_Matching_Laws.thy ===== *)
theory Sms_Matching_Laws
  imports Sms_Laws Sms_Matching Samples Provisioning_Facts
begin

text \<open>
  What the payments application guarantees: a forwarded deposit message is recorded and linked to
  exactly the waiting orders of its amount and time, a confirmation pays a linked order, and a
  confirmed message is final unless an administrator dismisses it.
\<close>

section \<open>Matching\<close>

lemma keys_ordered_where: "k \<in> fst ` set (ordered_where key P t) \<longleftrightarrow> (\<exists>r. (k, r) \<in> set t \<and> P k r)"
proof -
  have "k \<in> fst ` set (ordered_where key P t) \<longleftrightarrow> (\<exists>r. (k, r) \<in> set (ordered_where key P t))"
    by force
  then show ?thesis by (simp add: set_ordered_where)
qed

lemma matching_orders_iff: "k \<in> set (find_matching_orders a t d) \<longleftrightarrow> (\<exists>ord. (k, ord) \<in> set (db_orders d) \<and> matches_order a t ord)"
  by (simp add: find_matching_orders_def keys_ordered_where)

lemma matching_orders_sorted:
  assumes "wf_table (db_orders d)"
  shows "sorted (map (\<lambda>j. (map_option o_created_at (get_order d j), j)) (find_matching_orders a t d))"
proof -
  let ?rows = "ordered_where (\<lambda>(k, ord). (o_created_at ord, k)) (\<lambda>_ ord. matches_order a t ord) (db_orders d)"
  have in_rows: "get_order d k = Some ord" if "(k, ord) \<in> set ?rows" for k ord
    using that in_row_Some [OF assms] by (simp add: set_ordered_where get_order_def)
  have shape: "map (\<lambda>j. (map_option o_created_at (get_order d j), j)) (map fst ?rows) =
      map (\<lambda>p. (Some (fst p), snd p)) (map (\<lambda>(k, ord). (o_created_at ord, k)) ?rows)"
    using in_rows by (auto simp: comp_def intro!: map_cong)
  have mono: "sorted (map (\<lambda>p. (Some (fst p), snd p)) xs)" if "sorted xs" for xs :: "(instant \<times> pk) list"
    using that by (induction xs) (auto simp: less_eq_prod_def)
  show ?thesis
    unfolding find_matching_orders_def shape by (rule mono) (rule sorted_ordered_where)
qed

lemma linked_orders_iff: "k \<in> set (linked_orders d m) \<longleftrightarrow> (\<exists>ord. (k, ord) \<in> set (db_orders d)) \<and> k \<in> set (sm_matched_orders m)"
  by (simp add: linked_orders_def keys_ordered_where)

lemma linked_found:
  "sm_matched_orders m = find_matching_orders a t d \<Longrightarrow> set (linked_orders d m) = set (find_matching_orders a t d)"
  by (auto simp: linked_orders_iff matching_orders_iff)

lemma processed:
  assumes "sm_status m \<noteq> SmsConfirmed"
  shows "process_incoming_payment_sms notify k m d app = (orders, app') \<longleftrightarrow>
    orders = find_matching_orders (sm_amount m) (sm_datetime m) d \<and>
    (let m1 = m\<lparr>sm_matched_orders := (if set (linked_orders d m) = set orders then sm_matched_orders m else orders),
               sm_status := (if orders \<noteq> [] then SmsMatched else SmsNoMatch)\<rparr>;
         app1 = put_sms k m1 app
     in app' = (if orders \<noteq> [] \<and> notify \<and> \<not> (sm_status m = SmsMatched \<and> set (linked_orders d m) = set orders)
                then app1\<lparr>sa_notices := (k, orders) # sa_notices app1\<rparr> else app1))"
  using assms by (auto simp: process_incoming_payment_sms_def Let_def)

section \<open>Life of a message\<close>

text \<open>What may happen to the status of one message while nobody dismisses a confirmed one.\<close>

inductive sms_move :: "sms_status option \<Rightarrow> sms_status option \<Rightarrow> bool" where
  received: "s \<in> {SmsMatched, SmsNoMatch} \<Longrightarrow> sms_move None (Some s)"
| matched: "s \<noteq> SmsConfirmed \<Longrightarrow> s' \<in> {SmsMatched, SmsNoMatch} \<Longrightarrow> sms_move (Some s) (Some s')"
| confirmed: "s \<noteq> SmsConfirmed \<Longrightarrow> sms_move (Some s) (Some SmsConfirmed)"
| dismissed: "s \<noteq> SmsConfirmed \<Longrightarrow> sms_move (Some s) (Some SmsDismissed)"

lemma confirmed_has_no_move: "\<not> sms_move (Some SmsConfirmed) s"
  by (auto elim: sms_move.cases)

text \<open>One operation on the messages, or any change of the store's database between them.\<close>

inductive sms_step :: "sms_app \<times> db \<Rightarrow> sms_app \<times> db \<Rightarrow> bool" where
  deliver: "smsforwarder_webhook en cal configured verify rq d app = (a, app') \<Longrightarrow> sms_step (app, d) (app', d)"
| evaluate: "get_sms app k = Some m \<Longrightarrow> process_incoming_payment_sms notify k m d app = (orders, app') \<Longrightarrow> sms_step (app, d) (app', d)"
| confirm: "confirm_incoming_payment_sms en rm eg k choice user app d = (r, app', d') \<Longrightarrow> sms_step (app, d) (app', d')"
| dismiss: "get_sms app k = Some m \<Longrightarrow> sm_status m \<noteq> SmsConfirmed \<Longrightarrow>
    sms_step (app, d) (dismiss_incoming_payment_sms k m app, d)"
| other: "sms_step (app, d) (app, d')"

text \<open>What a step does to the message \<open>j\<close>.\<close>

definition sms_row_step :: "incoming_sms option \<Rightarrow> incoming_sms option \<Rightarrow> bool" where
  "sms_row_step x y \<longleftrightarrow> y = x \<or> sms_move (map_option sm_status x) (map_option sm_status y)"

lemma process_row:
  assumes "get_sms app k = Some m" and "process_incoming_payment_sms notify k m d app = (orders, app')"
  shows "sms_row_step (get_sms app j) (get_sms app' j)"
proof (cases "sm_status m = SmsConfirmed")
  case True
  then show ?thesis using assms(2) by (simp add: process_incoming_payment_sms_def sms_row_step_def)
next
  case False
  have "get_sms (app\<lparr>sa_notices := n\<rparr>) i = get_sms app i" for app n i by (simp add: get_sms_def)
  with assms False show ?thesis
    by (auto simp: processed [OF False] sms_row_step_def Let_def intro: sms_move.matched)
qed

lemma webhook_row:
  assumes "smsforwarder_webhook en cal configured verify rq d app = (a, app')"
  shows "sms_row_step (get_sms app j) (get_sms app' j)"
proof -
  have "app' = app \<or> (\<exists>m orders. sm_status m = SmsNew \<and>
      process_incoming_payment_sms True (fresh_pk (sa_messages app)) m d
        (app\<lparr>sa_messages := sa_messages app @ [(fresh_pk (sa_messages app), m)]\<rparr>) = (orders, app'))"
    using assms by (auto simp: smsforwarder_webhook_def add_row_def new_sms_def Let_def split: if_splits sum.splits prod.splits)
  then show ?thesis
  proof
    assume "\<exists>m orders. sm_status m = SmsNew \<and> process_incoming_payment_sms True (fresh_pk (sa_messages app)) m d
        (app\<lparr>sa_messages := sa_messages app @ [(fresh_pk (sa_messages app), m)]\<rparr>) = (orders, app')"
    then obtain m orders where m: "sm_status m = SmsNew" "process_incoming_payment_sms True (fresh_pk (sa_messages app)) m d
        (app\<lparr>sa_messages := sa_messages app @ [(fresh_pk (sa_messages app), m)]\<rparr>) = (orders, app')" by blast
    have "get_sms (app\<lparr>sa_notices := n\<rparr>) i = get_sms app i" for app n i by (simp add: get_sms_def)
    moreover have "get_sms (app\<lparr>sa_messages := sa_messages app @ [(fresh_pk (sa_messages app), m)]\<rparr>) i =
        (if i = fresh_pk (sa_messages app) then Some m else get_sms app i)" for i
      by (simp add: get_sms_def row_append_fresh)
    moreover have "get_sms app (fresh_pk (sa_messages app)) = None" by (simp add: get_sms_def)
    moreover have "sm_status m \<noteq> SmsConfirmed" using m(1) by simp
    ultimately show ?thesis
      using m(2) by (auto simp: processed sms_row_step_def Let_def intro: sms_move.received)
  qed (simp add: sms_row_step_def)
qed

lemma record_confirmation_cases:
  assumes "record_confirmation en k choice user app d = (r, app', d')"
  obtains (refused) e where "r = Inl e" "app' = app" "d' = d"
  | (repeated) m ok where "r = Inr (ok, False)" "app' = app" "d' = d" "get_sms app k = Some m" "chosen_order choice m d = Inr ok"
      "sm_status m = SmsConfirmed"
  | (paid) m ok ord where "r = Inr (ok, True)" "get_sms app k = Some m" "chosen_order choice m d = Inr ok" "get_order d ok = Some ord"
      "sm_status m \<noteq> SmsConfirmed" "o_status ord \<notin> {Rejected, Cancelled}"
      "app' = put_sms k (m\<lparr>sm_status := SmsConfirmed\<rparr>) app"
      "d' = (if o_status ord = Completed \<and> paid_by_sms en user ord = ord then d else save_order en ok (paid_by_sms en user ord) d)"
  using assms unfolding record_confirmation_def
  by (auto split: option.splits sum.splits if_splits)

lemma confirm_app:
  "confirm_incoming_payment_sms en rm eg k choice user app d = (r, app', d') \<Longrightarrow>
   app' = fst (snd (record_confirmation en k choice user app d))"
  by (auto simp: confirm_incoming_payment_sms_def split: prod.splits sum.splits bool.splits)

lemma confirm_row:
  assumes "confirm_incoming_payment_sms en rm eg k choice user app d = (r, app', d')"
  shows "sms_row_step (get_sms app j) (get_sms app' j)"
proof -
  obtain r1 app1 d1 where run: "record_confirmation en k choice user app d = (r1, app1, d1)" by (rule prod_cases3)
  then have "app' = app1" using confirm_app [OF assms] by simp
  with record_confirmation_cases [OF run] show ?thesis
    by (cases; auto simp: sms_row_step_def intro: sms_move.confirmed)
qed

lemma sms_step_row:
  assumes "sms_step s t"
  shows "sms_row_step (get_sms (fst s) j) (get_sms (fst t) j)"
  using assms
proof cases
  case (deliver en cal configured verify rq d app a app')
  then show ?thesis using webhook_row by simp
next
  case (evaluate app k m notify d orders app')
  then show ?thesis using process_row by simp
next
  case (confirm en rm eg k choice user app d r app' d')
  then show ?thesis using confirm_row by simp
next
  case (dismiss app k m d)
  then show ?thesis
    by (auto simp: sms_row_step_def dismiss_incoming_payment_sms_def intro: sms_move.dismissed)
qed (simp add: sms_row_step_def)

interpretation sms_life: simulation "\<lambda>_. True" sms_step "\<lambda>s. map_option sm_status (get_sms (fst s) j)" sms_move for j
proof unfold_locales
  show "map_option sm_status (get_sms (fst t) j) = map_option sm_status (get_sms (fst s) j) \<or>
      sms_move (map_option sm_status (get_sms (fst s) j)) (map_option sm_status (get_sms (fst t) j))"
    if "sms_step s t" for s t
    using sms_step_row [OF that, of j] by (auto simp: sms_row_step_def)
qed simp

lemma confirmed_row_stays:
  assumes "sms_step\<^sup>*\<^sup>* s t" and "get_sms (fst s) k = Some m" and "sm_status m = SmsConfirmed"
  shows "get_sms (fst t) k = Some m"
  using assms(1)
proof (induction rule: rtranclp_induct)
  case (step t u)
  with sms_step_row [OF step(2), of k] assms(3) show ?case
    by (auto simp: sms_row_step_def confirmed_has_no_move)
qed (simp add: assms(2))

text \<open>C27. A bank message pays at most once. Whatever happens later to the messages and to the store, short
  of the dismissal of a confirmed message, a confirmed message keeps its row, and neither confirming
  it again, for any order, nor evaluating it again changes a message, an order or anything else.\<close>

theorem sms_pays_once:
  assumes "sms_step\<^sup>*\<^sup>* (app, d) (app2, d2)" and "get_sms app k = Some m" and "sm_status m = SmsConfirmed"
  shows "get_sms app2 k = Some m \<and>
    (\<forall>en rm eg choice user. snd (confirm_incoming_payment_sms en rm eg k choice user app2 d2) = (app2, d2)) \<and>
    (\<forall>notify. process_incoming_payment_sms notify k m d2 app2 = (linked_orders d2 m, app2))"
proof -
  have m: "get_sms app2 k = Some m" using confirmed_row_stays [OF assms(1)] assms(2,3) by simp
  moreover have "snd (confirm_incoming_payment_sms en rm eg k choice user app2 d2) = (app2, d2)" for en rm eg choice user
    using m assms(3)
    by (auto simp: confirm_incoming_payment_sms_def record_confirmation_def split: sum.splits option.splits)
  ultimately show ?thesis using assms(3) by (simp add: process_incoming_payment_sms_def)
qed

lemma normalize_keeps_payment:
  "o_is_paid (normalize_on_save en d ord) = o_is_paid ord"
  "o_verification_status (normalize_on_save en d ord) = o_verification_status ord"
  "o_verified_at (normalize_on_save en d ord) = o_verified_at ord"
  "o_status ord \<noteq> OrderLegacyPending \<Longrightarrow> o_status (normalize_on_save en d ord) = o_status ord"
  by simp_all

text \<open>C26. Confirming a message that is not yet confirmed either refuses and changes nothing, or pays an
  order that is linked to it and neither rejected nor cancelled: the order is stored as paid and
  verified, waiting or completed, the message is confirmed, no other message changes, and the order is
  then provisioned.\<close>

theorem sms_confirmation_pays_linked:
  assumes "confirm_incoming_payment_sms en rm eg k choice user app d = (r, app', d')"
    and "get_sms app k = Some m" and "sm_status m \<noteq> SmsConfirmed"
  shows "(\<exists>e. r = Inl e \<and> app' = app \<and> d' = d) \<or>
    (\<exists>ok ord d1 o1. r = Inr ok \<and> ok \<in> set (sm_matched_orders m) \<and> (choice \<noteq> None \<longrightarrow> choice = Some ok) \<and>
       get_order d ok = Some ord \<and> o_status ord \<notin> {Rejected, Cancelled} \<and>
       get_order d1 ok = Some o1 \<and> o_is_paid o1 \<and> o_verification_status o1 = VerVerified \<and> o_verified_at o1 \<noteq> None \<and>
       o_status o1 = (if o_status ord = Completed then Completed else Confirmed) \<and>
       (\<forall>j. j \<noteq> ok \<longrightarrow> get_order d1 j = get_order d j) \<and>
       (\<forall>j. get_sms app' j = (if j = k then Some (m\<lparr>sm_status := SmsConfirmed\<rparr>) else get_sms app j)) \<and>
       d' = snd (approve_and_provision_order en rm eg user OtherSource True ok d1))"
proof -
  obtain r1 app1 d1 where run: "record_confirmation en k choice user app d = (r1, app1, d1)" by (rule prod_cases3)
  from run show ?thesis
  proof (cases rule: record_confirmation_cases)
    case (refused e)
    with run assms(1) have "r = Inl e" "app' = app" "d' = d" by (simp_all add: confirm_incoming_payment_sms_def)
    then show ?thesis by blast
  next
    case (repeated m2 ok)
    with assms(2,3) show ?thesis by simp
  next
    case (paid m2 ok ord)
    have m2: "m2 = m" using paid(2) assms(2) by simp
    have "ok \<in> set (linked_orders d m) \<and> (choice \<noteq> None \<longrightarrow> choice = Some ok)"
      using paid(3) m2 by (auto simp: chosen_order_def split: option.splits if_splits list.splits)
    then have ok: "ok \<in> set (sm_matched_orders m)" "choice \<noteq> None \<longrightarrow> choice = Some ok"
      by (simp_all add: linked_orders_iff)
    let ?p = "paid_by_sms en user ord"
    let ?o1 = "if o_status ord = Completed \<and> ?p = ord then ord else normalize_on_save en d ?p"
    have p: "o_is_paid ?p" "o_verification_status ?p = VerVerified" "o_verified_at ?p \<noteq> None"
      "o_status ?p = (if o_status ord = Completed then Completed else Confirmed)"
      by (simp_all add: paid_by_sms_def)
    have d1: "get_order d1 ok = Some ?o1" "\<forall>j. j \<noteq> ok \<longrightarrow> get_order d1 j = get_order d j"
      using paid(4,8) by (simp_all add: save_get)
    let ?good = "\<lambda>x. o_is_paid x \<and> o_verification_status x = VerVerified \<and> o_verified_at x \<noteq> None \<and>
        o_status x = (if o_status ord = Completed then Completed else Confirmed)"
    have "?good ?o1"
    proof (cases "o_status ord = Completed \<and> ?p = ord")
      case True
      have "?o1 = ?p" by (rule trans [OF if_P [OF True] conjunct2 [OF True, symmetric]])
      moreover have "?good ?p" by (intro conjI p)
      ultimately show ?thesis by (rule ssubst)
    next
      case False
      have "?good (normalize_on_save en d ?p)" using p by (simp split: if_splits)
      with if_not_P [OF False] show ?thesis by (rule ssubst)
    qed
    then have o1: "o_is_paid ?o1" "o_verification_status ?o1 = VerVerified" "o_verified_at ?o1 \<noteq> None"
      "o_status ?o1 = (if o_status ord = Completed then Completed else Confirmed)" by blast+
    have e: "app' = app1" "r = Inr ok" "d' = snd (approve_and_provision_order en rm eg user OtherSource True ok d1)"
      using assms(1) run paid(1) by (simp_all add: confirm_incoming_payment_sms_def)
    have a: "\<forall>j. get_sms app' j = (if j = k then Some (m\<lparr>sm_status := SmsConfirmed\<rparr>) else get_sms app j)"
      using paid(7) m2 by (simp add: e)
    show ?thesis
      by (intro disjI2 exI [of _ ok] exI [of _ ord] exI [of _ d1] exI [of _ ?o1] conjI e ok paid(4,6) d1 o1 a)
  qed
qed

text \<open>One message about the payment of the sample order.\<close>

definition sample_sms :: incoming_sms where
  "sample_sms = \<lparr>sm_raw_text = [], sm_amount = 100000, sm_balance = 5, sm_datetime = 7, sm_received_at = 7,
     sm_status = SmsMatched, sm_matched_orders = [1]\<rparr>"

definition sample_app :: sms_app where
  "sample_app = \<lparr>sa_messages = [(1, sample_sms), (2, sample_sms\<lparr>sm_status := SmsConfirmed\<rparr>)], sa_notices = []\<rparr>"

theorem sms_pays_once_witness:
  "snd (confirm_incoming_payment_sms sample_env willing no_engines 2 (Some 1) None
      (dismiss_incoming_payment_sms 1 sample_sms sample_app) empty_db) =
    (dismiss_incoming_payment_sms 1 sample_sms sample_app, empty_db)"
proof -
  have sms: "get_sms sample_app 1 = Some sample_sms" "get_sms sample_app 2 = Some (sample_sms\<lparr>sm_status := SmsConfirmed\<rparr>)"
    by (simp_all add: get_sms_def sample_app_def row_def)
  have "sms_step (sample_app, sample_db) (dismiss_incoming_payment_sms 1 sample_sms sample_app, sample_db)"
    by (rule sms_step.dismiss [OF sms(1)]) (simp add: sample_sms_def)
  moreover have "sms_step (dismiss_incoming_payment_sms 1 sample_sms sample_app, sample_db)
      (dismiss_incoming_payment_sms 1 sample_sms sample_app, empty_db)"
    by (rule sms_step.other)
  ultimately have "sms_step\<^sup>*\<^sup>* (sample_app, sample_db) (dismiss_incoming_payment_sms 1 sample_sms sample_app, empty_db)"
    by (blast intro: rtranclp.rtrancl_into_rtrancl)
  from sms_pays_once [OF this sms(2)] show ?thesis by simp
qed

theorem sms_confirmation_pays_linked_witness:
  "\<exists>app' d'. confirm_incoming_payment_sms sample_env willing no_engines 1 None None sample_app sample_db = (Inr 1, app', d') \<and>
     get_sms app' 1 = Some (sample_sms\<lparr>sm_status := SmsConfirmed\<rparr>)"
proof -
  have sms: "get_sms sample_app 1 = Some sample_sms" by (simp add: get_sms_def sample_app_def row_def)
  have "linked_orders sample_db sample_sms = [1]"
    by (simp add: linked_orders_def ordered_where_def rows_where_def sample_db_def empty_db_def sample_sms_def)
  moreover have "get_order sample_db 1 = Some sample_order" by (simp add: sample_db_def get_order_def row_def)
  moreover have "o_status sample_order = PendingVerification" by (simp add: sample_order_def)
  ultimately have "\<exists>app' d1. record_confirmation sample_env 1 None None sample_app sample_db = (Inr (1, True), app', d1)"
    using sms by (simp add: record_confirmation_def chosen_order_def sample_sms_def)
  then obtain app' d' where run: "confirm_incoming_payment_sms sample_env willing no_engines 1 None None sample_app sample_db = (Inr 1, app', d')"
    by (auto simp: confirm_incoming_payment_sms_def)
  have "sm_status sample_sms \<noteq> SmsConfirmed" by (simp add: sample_sms_def)
  from sms_confirmation_pays_linked [OF run sms this] run show ?thesis by auto
qed

section \<open>From the bank to the orders\<close>

lemma fresh_process:
  assumes "sm_status m = SmsNew" and "sm_matched_orders m = []"
  shows "process_incoming_payment_sms notify k m d app = (orders, app') \<Longrightarrow>
    orders = find_matching_orders (sm_amount m) (sm_datetime m) d \<and>
    get_sms app' k = Some (m\<lparr>sm_matched_orders := orders, sm_status := (if orders \<noteq> [] then SmsMatched else SmsNoMatch)\<rparr>) \<and>
    sa_notices app' = (if orders \<noteq> [] \<and> notify then (k, orders) # sa_notices app else sa_notices app)"
proof -
  assume run: "process_incoming_payment_sms notify k m d app = (orders, app')"
  have "sm_status m \<noteq> SmsConfirmed" using assms by simp
  from run [unfolded processed [OF this]] have o: "orders = find_matching_orders (sm_amount m) (sm_datetime m) d" by simp
  have "linked_orders d m = []" using assms(2) by (simp add: linked_orders_def ordered_where_def rows_where_def)
  moreover have "get_sms (app\<lparr>sa_notices := n\<rparr>) i = get_sms app i" for app n i by (simp add: get_sms_def)
  moreover have "m = m\<lparr>sm_matched_orders := []\<rparr>" using assms(2) by simp
  ultimately show ?thesis
    using run o assms by (auto simp: process_incoming_payment_sms_def put_sms_def get_sms_def Let_def row_put)
qed

lemma evaluated_again:
  assumes "get_sms app k = Some m" and "sm_status m = (if sm_matched_orders m \<noteq> [] then SmsMatched else SmsNoMatch)"
    and "sm_matched_orders m = find_matching_orders (sm_amount m) (sm_datetime m) d"
  shows "process_incoming_payment_sms notify k m d app = (sm_matched_orders m, app)"
proof -
  have "set (linked_orders d m) = set (sm_matched_orders m)" using linked_found [OF assms(3)] assms(3) by simp
  moreover have "put_sms k m app = app"
  proof -
    have "put k m t = t" if "row t k = Some m" for t :: "incoming_sms table"
      using that unfolding put_def row_def by (induction t) auto
    then show ?thesis using assms(1) by (simp add: put_sms_def get_sms_def)
  qed
  moreover have "put_sms k (m\<lparr>sm_status := sm_status m\<rparr>) app = app" using calculation(2) by simp
  ultimately show ?thesis
    using assms(2,3) by (cases "sm_matched_orders m = []") (simp_all add: process_incoming_payment_sms_def Let_def)
qed

text \<open>C25. A deposit message of the bank that the webhook receives, in any of the three scripts, is recorded
  with its amount and balance and linked to exactly the orders that wait for payment with this
  amount, created from half an hour before to a quarter of an hour after the payment, in the order of
  their creation; the administrators are notified exactly when there is one. Evaluating the message
  again before anything changes does nothing and notifies nobody.\<close>

theorem deposit_message_linked:
  assumes "verify (extract_webhook_token rq)" and "extract_sms_text rq = in_script z (bank_sms a b y m dy h mi)"
    and "z \<in> digit_zeros" and "h < 100" and "mi < 100" and "y < 10000" and "m < 100" and "dy < 100"
    and "cal y m dy h mi = Some t" and "wf_table (db_orders d)"
  shows "\<exists>k st orders row app'. smsforwarder_webhook en cal True verify rq d app = (Accepted k st orders, app') \<and>
    get_sms app k = None \<and> get_sms app' k = Some row \<and>
    sm_amount row = int a \<and> sm_balance row = int b \<and> sm_datetime row = t \<and> sm_status row = st \<and>
    sm_matched_orders row = orders \<and> sorted (map (\<lambda>j. (map_option o_created_at (get_order d j), j)) orders) \<and>
    (\<forall>j. j \<in> set orders \<longleftrightarrow> (\<exists>ord. get_order d j = Some ord \<and>
       o_status ord \<in> {PendingPayment, PendingVerification, OrderLegacyPending} \<and> o_amount ord = int a \<and>
       t - minutes 30 \<le> o_created_at ord \<and> o_created_at ord \<le> t + minutes 15)) \<and>
    st = (if orders \<noteq> [] then SmsMatched else SmsNoMatch) \<and>
    sa_notices app' = (if orders \<noteq> [] then (k, orders) # sa_notices app else sa_notices app) \<and>
    (\<forall>notify. process_incoming_payment_sms notify k row d app' = (orders, app'))"
proof -
  let ?raw = "extract_sms_text rq" and ?p = "\<lparr>ps_amount = a, ps_balance = b, ps_datetime = t\<rparr>"
  have parsed: "parse_payment_sms cal ?raw = Inr ?p"
    using parse_bank_sms [OF assms(3-8)] assms(2,9) by simp
  have "parse_payment_sms cal [] = Inl SmsAmountMissing"
    by (simp add: parse_payment_sms_def normalize_sms_text_def extract_deposit_amount_def splitlines.simps)
  with parsed have raw: "?raw \<noteq> []" by auto
  let ?m = "new_sms en ?raw ?p" and ?k = "fresh_pk (sa_messages app)"
  let ?app = "app\<lparr>sa_messages := sa_messages app @ [(?k, ?m)]\<rparr>"
  obtain orders app' where run: "process_incoming_payment_sms True ?k ?m d ?app = (orders, app')" by (rule prod.exhaust)
  let ?st = "if orders \<noteq> [] then SmsMatched else SmsNoMatch"
  let ?row = "?m\<lparr>sm_matched_orders := orders, sm_status := ?st\<rparr>"
  have web: "smsforwarder_webhook en cal True verify rq d app = (Accepted ?k ?st orders, app')"
    using assms(1) raw parsed run by (simp add: smsforwarder_webhook_def add_row_def)
  have new: "sm_status ?m = SmsNew" "sm_matched_orders ?m = []" by (simp_all add: new_sms_def)
  have f: "orders = find_matching_orders (int a) t d" "get_sms app' ?k = Some ?row"
    "sa_notices app' = (if orders \<noteq> [] then (?k, orders) # sa_notices app else sa_notices app)"
    using fresh_process [OF new run] by (simp_all add: new_sms_def)
  have "process_incoming_payment_sms notify ?k ?row d app' = (sm_matched_orders ?row, app')" for notify
    by (rule evaluated_again [OF f(2)]) (use f(1) in \<open>simp_all add: new_sms_def\<close>)
  moreover have "j \<in> set orders \<longleftrightarrow> (\<exists>ord. get_order d j = Some ord \<and>
       o_status ord \<in> {PendingPayment, PendingVerification, OrderLegacyPending} \<and> o_amount ord = int a \<and>
       t - minutes 30 \<le> o_created_at ord \<and> o_created_at ord \<le> t + minutes 15)" for j
  proof -
    have "(j, ord) \<in> set (db_orders d) \<longleftrightarrow> get_order d j = Some ord" for ord
      using in_row_Some [OF assms(10)] row_Some_in by (auto simp: get_order_def)
    then show ?thesis
      by (auto simp: f(1) matching_orders_iff matches_order_def pending_order_statuses_def match_window_before_def match_window_after_def)
  qed
  moreover have "sorted (map (\<lambda>j. (map_option o_created_at (get_order d j), j)) orders)"
    unfolding f(1) by (rule matching_orders_sorted [OF assms(10)])
  moreover have "get_sms app ?k = None" by (simp add: get_sms_def)
  moreover have "sm_amount ?row = int a" "sm_balance ?row = int b" "sm_datetime ?row = t" "sm_status ?row = ?st"
    "sm_matched_orders ?row = orders" by (simp_all add: new_sms_def)
  ultimately show ?thesis using web f(2,3)
    by (intro exI [of _ ?k] exI [of _ ?st] exI [of _ orders] exI [of _ ?row] exI [of _ app']) simp
qed

theorem deposit_message_linked_witness:
  "\<exists>k st orders app'. smsforwarder_webhook sample_env (\<lambda>_ _ _ _ _. Some 7) True (\<lambda>t. t = ''secret'')
      \<lparr>rq_header_token = ''secret'', rq_query_token = [], rq_form_token = [], rq_is_json = False,
        rq_body = [], rq_json = None, rq_json_token = [],
        rq_form = [(''text'', PText (in_script 1776 (bank_sms 100000 5 1405 2 14 18 56)))]\<rparr> sample_db sample_app =
      (Accepted k st orders, app') \<and> 1 \<in> set orders"
proof -
  let ?rq = "\<lparr>rq_header_token = ''secret'', rq_query_token = [], rq_form_token = [], rq_is_json = False,
        rq_body = [], rq_json = None, rq_json_token = [],
        rq_form = [(''text'', PText (in_script 1776 (bank_sms 100000 5 1405 2 14 18 56)))]\<rparr>"
  let ?s = "in_script 1776 (bank_sms 100000 5 1405 2 14 18 56)"
  have ends: "?s \<noteq> []" "\<not> space_point (hd ?s)" "\<not> space_point (last ?s)"
    by (simp_all add: bank_sms_def in_script_def bank_name_def calendar_date_def two_places_def space_point_def ascii_digit_def)
  have "dropWhile space_point ?s = ?s" "dropWhile space_point (rev ?s) = rev ?s"
    using ends by (simp_all add: dropWhile_eq_self_iff hd_rev)
  then have "strip_points ?s = ?s" by (simp add: strip_points_def)
  then have "extract_sms_text ?rq = ?s"
    using ends(1) by (simp add: extract_sms_text_def strip_points_def [of "[]"] values_at_def text_keys_def first_text_def)
  moreover have "extract_webhook_token ?rq = ''secret''" by (simp add: extract_webhook_token_def str_or_def)
  moreover have "wf_table (db_orders sample_db)" by (simp add: wf_table_def sample_db_def)
  ultimately obtain k st orders app' where
    web: "smsforwarder_webhook sample_env (\<lambda>_ _ _ _ _. Some 7) True (\<lambda>t. t = ''secret'') ?rq sample_db sample_app = (Accepted k st orders, app')"
    and iff: "\<forall>j. j \<in> set orders \<longleftrightarrow> (\<exists>ord. get_order sample_db j = Some ord \<and>
       o_status ord \<in> {PendingPayment, PendingVerification, OrderLegacyPending} \<and> o_amount ord = int 100000 \<and>
       7 - minutes 30 \<le> o_created_at ord \<and> o_created_at ord \<le> 7 + minutes 15)"
    using deposit_message_linked [of "\<lambda>t. t = ''secret''" ?rq 1776 100000 5 1405 2 14 18 56 "\<lambda>_ _ _ _ _. Some 7" 7 sample_db sample_env sample_app]
    by (auto simp: digit_zeros_def)
  have "1 \<in> set orders"
    unfolding iff [rule_format]
    by (simp add: sample_db_def get_order_def row_def sample_order_def new_order_def minutes_def seconds_def)
  with web show ?thesis by blast
qed

section \<open>Amounts in toman\<close>

text \<open>The amount of a message is in rial and is compared with the amount of the order in the order's own
  currency. The deposit of exactly what an order in toman costs is therefore never linked to it.\<close>

theorem toman_payment_not_linked:
  assumes "get_order d k = Some ord" and "o_currency ord = Some TOMAN" and "0 < o_amount ord" and "wf_table (db_orders d)"
    and "expected_amount_in_rial (o_amount ord) (o_currency ord) = Some due"
  shows "k \<notin> set (find_matching_orders due t d)"
proof
  assume "k \<in> set (find_matching_orders due t d)"
  then obtain o1 where "(k, o1) \<in> set (db_orders d)" "o_amount o1 = due"
    by (auto simp: matching_orders_iff matches_order_def)
  with assms show False
    using in_row_Some [OF assms(4)] by (fastforce simp: get_order_def expected_amount_in_rial_def)
qed

end
