(* ===== verification/Setup_Readiness.thy ===== *)
theory Setup_Readiness
  imports Plan_Delivery
begin

text \<open>
  \<open>store/setup_readiness.py\<close>: the checklist that a shop passes before it can sell, the setup status
  derived from it, and the update of the stored status. The sentences shown to an administrator are
  left out.
\<close>

section \<open>Checks\<close>

definition store_is_setup_blocked :: "store option \<Rightarrow> bool" where
  "store_is_setup_blocked st =
     (case st of None \<Rightarrow> True
      | Some s \<Rightarrow> st_setup_status s \<in> {SetupProvisioned, SetupRequired, TelegramConfigured, PaymentConfigured,
                    XuiConfigured, PlansConfigured, SetupSuspended, SetupError})"

definition placeholder_card_number :: string where
  "placeholder_card_number = ''0000000000000000''"

definition placeholder_card_owner :: string where
  "placeholder_card_owner = ''Configure Payment Owner''"

definition has_real_payment_card :: "store \<Rightarrow> bool" where
  "has_real_payment_card s =
     (let number = strip (st_card_number s); owner = strip (st_card_owner s)
      in number \<noteq> [] \<and> owner \<noteq> [] \<and> number \<noteq> placeholder_card_number \<and> owner \<noteq> placeholder_card_owner)"

definition telegram_configured :: "pk \<Rightarrow> db \<Rightarrow> bool" where
  "telegram_configured s d =
     exists_where (\<lambda>_ b. own_or_shared s (bt_store b) \<and> bt_provider b = Telegram \<and> bt_is_active b \<and>
        bt_bot_token b \<noteq> [] \<and> bt_admin_user_id b \<noteq> []) (db_bots d)"

definition xui_configured :: "pk \<Rightarrow> db \<Rightarrow> bool" where
  "xui_configured s d =
     exists_where (\<lambda>_ p. own_or_shared s (pn_store p) \<and> pn_is_active p \<and> pn_url p \<noteq> [] \<and> pn_password p \<noteq> [] \<and>
        (pn_family p = FamPasarguard \<or> (pn_family p = FamXui \<and> pn_username p \<noteq> []) \<or> pn_family p = FamBlank)) (db_panels d)"

definition sellable_inbound :: "pk \<Rightarrow> db \<Rightarrow> inbound \<Rightarrow> bool" where
  "sellable_inbound s d i \<longleftrightarrow>
     (case panel_of d i of None \<Rightarrow> False
      | Some p \<Rightarrow> own_or_shared s (pn_store p) \<and> pn_is_active p \<and> ib_is_active i \<and> ib_available_for_new_orders i)"

definition inbound_configured :: "pk \<Rightarrow> db \<Rightarrow> bool" where
  "inbound_configured s d = exists_where (\<lambda>_ i. sellable_inbound s d i) (db_inbounds d)"

definition public_plan :: "pk \<Rightarrow> plan \<Rightarrow> bool" where
  "public_plan s p \<longleftrightarrow> own_or_shared s (pl_store p) \<and> pl_is_active p \<and> pl_is_public p \<and> \<not> pl_is_custom_volume p"

definition active_public_plans :: "pk \<Rightarrow> db \<Rightarrow> (pk \<times> plan) list" where
  "active_public_plans s d = rows_where (\<lambda>_ p. public_plan s p) (db_plans d)"

definition legacy_routes_configured :: "pk \<Rightarrow> db \<Rightarrow> bool" where
  "legacy_routes_configured s d =
     exists_where (\<lambda>_ r. own_or_shared s (rt_store r) \<and> rt_is_active r \<and>
        (case row (db_plans d) (rt_plan r) of None \<Rightarrow> False | Some p \<Rightarrow> public_plan s p) \<and>
        (case get_inbound d (rt_inbound r) of None \<Rightarrow> False | Some i \<Rightarrow> sellable_inbound s d i)) (db_routes d)"

definition plan_has_ready_canonical_delivery ::
  "env \<Rightarrow> db \<Rightarrow> delivery_tables \<Rightarrow> (pk \<times> plan) option \<Rightarrow> (pk \<times> store) option \<Rightarrow> bool" where
  "plan_has_ready_canonical_delivery en d t pl st =
     (pl \<noteq> None \<and>
      (let pd = resolve_plan_delivery_configuration en d t pl st
       in pd_source_of_truth pd \<in> {V2Config, CupRecipe} \<and> pd_effective_mode pd \<in> {DirectLinks, Subscription} \<and>
          pd_readiness pd \<notin> {Incomplete, InConflict} \<and> 0 < pd_source_count pd \<and> 0 < pd_expected_outputs pd))"

definition canonical_delivery_configured_count :: "env \<Rightarrow> db \<Rightarrow> delivery_tables \<Rightarrow> pk \<times> store \<Rightarrow> nat" where
  "canonical_delivery_configured_count en d t st =
     length (filter (\<lambda>kp. plan_has_ready_canonical_delivery en d t (Some kp) (Some st)) (active_public_plans (fst st) d))"

definition routes_configured :: "env \<Rightarrow> db \<Rightarrow> delivery_tables \<Rightarrow> pk \<times> store \<Rightarrow> bool" where
  "routes_configured en d t st \<longleftrightarrow>
     legacy_routes_configured (fst st) d \<or> 0 < canonical_delivery_configured_count en d t st"

section \<open>The checklist and the status\<close>

datatype check_key = ChkStore | ChkTelegram | ChkPayment | ChkXui | ChkInbound | ChkPlans | ChkRoutes | ChkRevenue

definition build_store_readiness_checklist ::
  "env \<Rightarrow> db \<Rightarrow> delivery_tables \<Rightarrow> (pk \<times> store) option \<Rightarrow> (check_key \<times> bool) list" where
  "build_store_readiness_checklist en d t st =
     (case st of
        None \<Rightarrow> [(ChkStore, False)]
      | Some (k, s) \<Rightarrow>
          [(ChkStore, st_name s \<noteq> [] \<and> st_english_name s \<noteq> [] \<and> st_is_active s),
           (ChkTelegram, telegram_configured k d),
           (ChkPayment, has_real_payment_card s),
           (ChkXui, xui_configured k d),
           (ChkInbound, inbound_configured k d),
           (ChkPlans, active_public_plans k d \<noteq> []),
           (ChkRoutes, routes_configured en d t (k, s)),
           (ChkRevenue, st_revenue_engine_enabled s \<and> st_revenue_engine_dry_run s)])"

definition setup_checklist_passes :: "env \<Rightarrow> db \<Rightarrow> delivery_tables \<Rightarrow> (pk \<times> store) option \<Rightarrow> bool" where
  "setup_checklist_passes en d t st = list_all snd (build_store_readiness_checklist en d t st)"

definition setup_readiness_blockers :: "env \<Rightarrow> db \<Rightarrow> delivery_tables \<Rightarrow> (pk \<times> store) option \<Rightarrow> check_key list" where
  "setup_readiness_blockers en d t st = map fst (filter (\<lambda>(_, ok). \<not> ok) (build_store_readiness_checklist en d t st))"

datatype not_ready_reason = StoreMissing | StoreInactive | StatusNotReady setup_status | ChecksPending "check_key list"

definition setup_not_ready_details ::
  "env \<Rightarrow> db \<Rightarrow> delivery_tables \<Rightarrow> (pk \<times> store) option \<Rightarrow> check_key list \<times> not_ready_reason list" where
  "setup_not_ready_details en d t st =
     (case st of
        None \<Rightarrow> ([ChkStore], [StoreMissing])
      | Some (k, s) \<Rightarrow>
          let pending = setup_readiness_blockers en d t st; late = st_setup_status s \<noteq> SetupReady
          in (pending,
              (if st_is_active s then [] else [StoreInactive]) @
              (if late then [StatusNotReady (st_setup_status s)] else []) @
              (if pending \<noteq> [] \<and> late then [ChecksPending pending] else [])))"

definition derive_setup_status ::
  "env \<Rightarrow> db \<Rightarrow> delivery_tables \<Rightarrow> bool \<Rightarrow> (pk \<times> store) option \<Rightarrow> setup_status" where
  "derive_setup_status en d t allow_ready st =
     (case st of
        None \<Rightarrow> SetupError
      | Some (k, s) \<Rightarrow>
          if st_setup_status s \<in> {SetupSuspended, SetupError} then st_setup_status s
          else
            let cl = build_store_readiness_checklist en d t st; ok = (\<lambda>c. map_of cl c = Some True)
            in if list_all snd cl then (if allow_ready then SetupReady else PlansConfigured)
               else if ok ChkTelegram \<and> \<not> ok ChkPayment then TelegramConfigured
               else if ok ChkTelegram \<and> ok ChkPayment \<and> \<not> ok ChkXui then PaymentConfigured
               else if ok ChkTelegram \<and> ok ChkPayment \<and> ok ChkXui \<and> \<not> (ok ChkInbound \<and> ok ChkPlans \<and> ok ChkRoutes)
               then XuiConfigured
               else if ok ChkTelegram \<and> ok ChkPayment \<and> ok ChkXui \<and> ok ChkInbound then PlansConfigured
               else SetupRequired)"

text \<open>
  The status of the object after the call, and the database. Saving names the status as the only
  field to write, so the other fields of the stored row stay.
\<close>

definition sync_store_setup_status ::
  "env \<Rightarrow> delivery_tables \<Rightarrow> bool \<Rightarrow> bool \<Rightarrow> (pk \<times> store) option \<Rightarrow> db \<Rightarrow> setup_status option \<times> db" where
  "sync_store_setup_status en t allow_ready save st d =
     (case st of
        None \<Rightarrow> (None, d)
      | Some (k, s) \<Rightarrow>
          let status = derive_setup_status en d t allow_ready st
          in if st_setup_status s = SetupReady \<and> status \<noteq> SetupReady \<and> \<not> allow_ready then (Some SetupReady, d)
             else if st_setup_status s \<noteq> status
             then (Some status,
                   if save then d\<lparr>db_stores := modify_where (\<lambda>j _. j = k) (\<lambda>r. r\<lparr>st_setup_status := status\<rparr>) (db_stores d)\<rparr>
                   else d)
             else (Some status, d))"

section \<open>The status is not part of what is checked\<close>

text \<open>Every check reads the catalogue and the bots, but neither the table of stores nor the setup status.\<close>

lemma stores_unread:
  "panel_of (d\<lparr>db_stores := x\<rparr>) = panel_of d"
  "get_inbound (d\<lparr>db_stores := x\<rparr>) = get_inbound d"
  by (rule ext, simp add: panel_of_def get_inbound_def)+

lemma stores_unread_lookup:
  "route_inbound (d\<lparr>db_stores := x\<rparr>) = route_inbound d"
  "panel_store (d\<lparr>db_stores := x\<rparr>) = panel_store d"
  "requires_sellability_verification (d\<lparr>db_stores := x\<rparr>) = requires_sellability_verification d"
  by (simp_all add: fun_eq_iff route_inbound_def panel_store_def requires_sellability_verification_def stores_unread)

lemma sellability_unread:
  "source_sellability_issues en (d\<lparr>db_stores := x\<rparr>) = source_sellability_issues en d"
  by (simp add: fun_eq_iff source_sellability_issues_def stores_unread_lookup)

lemma panel_issues_unread: "panel_issues en (d\<lparr>db_stores := x\<rparr>) = panel_issues en d"
  by (rule ext, rule ext, unfold panel_issues_def stores_unread sellability_unread, rule refl)

lemma issues_unread: "sales_inbound_issues en (d\<lparr>db_stores := x\<rparr>) = sales_inbound_issues en d"
  by (rule ext, rule ext, unfold sales_inbound_issues_def panel_issues_unread, rule refl)

lemmas stores_unread_issues = sellability_unread panel_issues_unread issues_unread

lemma tables_unread:
  "db_inbounds (d\<lparr>db_stores := x\<rparr>) = db_inbounds d" "db_panels (d\<lparr>db_stores := x\<rparr>) = db_panels d"
  "db_plans (d\<lparr>db_stores := x\<rparr>) = db_plans d" "db_routes (d\<lparr>db_stores := x\<rparr>) = db_routes d"
  "db_bots (d\<lparr>db_stores := x\<rparr>) = db_bots d"
  by simp_all

lemma sales_inbounds_unread: "get_valid_sales_inbounds st (d\<lparr>db_stores := x\<rparr>) = get_valid_sales_inbounds st d"
  by (unfold get_valid_sales_inbounds_def stores_unread stores_unread_lookup tables_unread, rule refl)

lemma rules_unread: "rule_diagnostics en (d\<lparr>db_stores := x\<rparr>) = rule_diagnostics en d"
  by ((rule ext)+, unfold rule_diagnostics_def panel_rule_diagnostics_def rule_inbounds_def stores_unread tables_unread, rule refl)

lemma readiness_unread:
  "get_recipe_readiness en (d\<lparr>db_stores := x\<rparr>) = get_recipe_readiness en d"
  "active_plan_routes p st (d\<lparr>db_stores := x\<rparr>) = active_plan_routes p st d"
  "route_readiness en (d\<lparr>db_stores := x\<rparr>) = route_readiness en d"
  "source_readiness en (d\<lparr>db_stores := x\<rparr>) = source_readiness en d"
  "legacy_warning p (d\<lparr>db_stores := x\<rparr>) = legacy_warning p d"
proof -
  show "get_recipe_readiness en (d\<lparr>db_stores := x\<rparr>) = get_recipe_readiness en d"
    by ((rule ext)+, unfold get_recipe_readiness_def rules_unread tables_unread, rule refl)
  show "active_plan_routes p st (d\<lparr>db_stores := x\<rparr>) = active_plan_routes p st d"
    by (unfold active_plan_routes_def stores_unread_lookup tables_unread, rule refl)
  show "route_readiness en (d\<lparr>db_stores := x\<rparr>) = route_readiness en d"
    by ((rule ext)+, unfold route_readiness_def stores_unread stores_unread_issues, rule refl)
  show "source_readiness en (d\<lparr>db_stores := x\<rparr>) = source_readiness en d"
    by ((rule ext)+, unfold source_readiness_def stores_unread stores_unread_issues, rule refl)
  show "legacy_warning p (d\<lparr>db_stores := x\<rparr>) = legacy_warning p d"
    by (unfold legacy_warning_def tables_unread, rule refl)
qed

lemma fallback_unread:
  "fallback_state (Some (k, s\<lparr>st_setup_status := y\<rparr>)) (d\<lparr>db_stores := x\<rparr>) = fallback_state (Some (k, s)) d"
  by (simp add: fallback_state_def sales_inbounds_unread)

lemma delivery_parts_unread:
  "v2_readiness en (d\<lparr>db_stores := x\<rparr>) t (Some (k, s\<lparr>st_setup_status := y\<rparr>)) =
   v2_readiness en d t (Some (k, s))"
  "resolve_legacy en (d\<lparr>db_stores := x\<rparr>) t p (Some (k, s\<lparr>st_setup_status := y\<rparr>)) =
   resolve_legacy en d t p (Some (k, s))"
proof -
  show "v2_readiness en (d\<lparr>db_stores := x\<rparr>) t (Some (k, s\<lparr>st_setup_status := y\<rparr>)) =
        v2_readiness en d t (Some (k, s))"
    by (rule ext, rule ext, unfold v2_readiness_def readiness_unread fallback_unread option.map fst_conv, rule refl)
  show "resolve_legacy en (d\<lparr>db_stores := x\<rparr>) t p (Some (k, s\<lparr>st_setup_status := y\<rparr>)) =
        resolve_legacy en d t p (Some (k, s))"
    by (unfold resolve_legacy_def readiness_unread fallback_unread option.map fst_conv, rule refl)
qed

lemma delivery_unread:
  "resolve_plan_delivery_configuration en (d\<lparr>db_stores := x\<rparr>) t pl (Some (k, s\<lparr>st_setup_status := y\<rparr>)) =
   resolve_plan_delivery_configuration en d t pl (Some (k, s))"
  unfolding resolve_plan_delivery_configuration_def effective_store_def option.case Let_def
    delivery_parts_unread readiness_unread fallback_unread ..

lemma sellable_unread: "sellable_inbound k (d\<lparr>db_stores := x\<rparr>) = sellable_inbound k d"
  by (simp add: fun_eq_iff sellable_inbound_def stores_unread)

lemma routes_unread:
  "routes_configured en (d\<lparr>db_stores := x\<rparr>) t (k, s\<lparr>st_setup_status := y\<rparr>) = routes_configured en d t (k, s)"
  unfolding routes_configured_def legacy_routes_configured_def canonical_delivery_configured_count_def
    plan_has_ready_canonical_delivery_def active_public_plans_def stores_unread sellable_unread tables_unread delivery_unread fst_conv ..

lemma checklist_unread:
  "build_store_readiness_checklist en (d\<lparr>db_stores := x\<rparr>) t (Some (k, s\<lparr>st_setup_status := y\<rparr>)) =
   build_store_readiness_checklist en d t (Some (k, s))"
  by (simp add: build_store_readiness_checklist_def has_real_payment_card_def telegram_configured_def xui_configured_def
      inbound_configured_def sellable_unread active_public_plans_def routes_unread)

lemma derive_ready_iff:
  "derive_setup_status en d t allow (Some (k, s)) = SetupReady \<longleftrightarrow>
   allow \<and> st_setup_status s \<notin> {SetupSuspended, SetupError} \<and> setup_checklist_passes en d t (Some (k, s))"
  by (auto simp: derive_setup_status_def setup_checklist_passes_def Let_def)

lemma checklist_passes_iff:
  "setup_checklist_passes en d t (Some (k, s)) \<longleftrightarrow>
   st_name s \<noteq> [] \<and> st_english_name s \<noteq> [] \<and> st_is_active s \<and> telegram_configured k d \<and>
   has_real_payment_card s \<and> xui_configured k d \<and> inbound_configured k d \<and> active_public_plans k d \<noteq> [] \<and>
   routes_configured en d t (k, s) \<and> st_revenue_engine_enabled s \<and> st_revenue_engine_dry_run s"
  by (simp add: setup_checklist_passes_def build_store_readiness_checklist_def)

lemma inbound_configuredD:
  "inbound_configured s d \<Longrightarrow>
   \<exists>k i p. (k, i) \<in> set (db_inbounds d) \<and> panel_of d i = Some p \<and> own_or_shared s (pn_store p) \<and> pn_is_active p \<and>
     ib_is_active i \<and> ib_available_for_new_orders i"
  by (auto simp: inbound_configured_def exists_where_iff sellable_inbound_def split: option.splits)

lemma sync_saved:
  assumes "sync_store_setup_status en t allow True (Some (k, s)) d = (Some y, d')" "st_setup_status s \<noteq> y"
  shows "y = derive_setup_status en d t allow (Some (k, s))"
    "d' = d\<lparr>db_stores := modify_where (\<lambda>j _. j = k) (\<lambda>r. r\<lparr>st_setup_status := y\<rparr>) (db_stores d)\<rparr>"
  using assms by (auto simp: sync_store_setup_status_def Let_def split: if_splits)

lemma sync_ready_stays:
  assumes "setup_checklist_passes en d t (Some (k, s))" "st_setup_status s = SetupReady"
  shows "sync_store_setup_status en t allow save (Some (k, s)) d = (Some SetupReady, d)"
  using assms by (auto simp: sync_store_setup_status_def derive_setup_status_def setup_checklist_passes_def Let_def)

end
