(* ===== verification/Setup_Laws.thy ===== *)
theory Setup_Laws
  imports Setup_Readiness Samples
begin

text \<open>When a shop may open: what holds of it, of its row and of a later check.\<close>

text \<open>
  C15. A shop opens only when it can sell: if checking the setup of a shop that was not ready makes it
  ready, an administrator asked for it (\<open>allow_ready\<close>), the shop was neither suspended nor in error,
  its bot, payment card and panel are set up, there is an open inbound on an active panel of the shop,
  at least one public plan, and a way to deliver one, and the revenue engine is on in dry-run mode.
  Only the status of its stored row changed, the row is sellable, and checking again, by an
  administrator or not, leaves everything as it is.
\<close>

theorem shop_opens_only_when_ready:
  assumes "row (db_stores d) k = Some s" "st_setup_status s \<noteq> SetupReady"
    "sync_store_setup_status en t allow True (Some (k, s)) d = (Some SetupReady, d')"
  shows "allow \<and> st_setup_status s \<notin> {SetupSuspended, SetupError} \<and>
    telegram_configured k d \<and> has_real_payment_card s \<and> xui_configured k d \<and>
    (\<exists>j i p. (j, i) \<in> set (db_inbounds d) \<and> panel_of d i = Some p \<and> own_or_shared k (pn_store p) \<and> pn_is_active p \<and>
       ib_is_active i \<and> ib_available_for_new_orders i) \<and>
    active_public_plans k d \<noteq> [] \<and> routes_configured en d t (k, s) \<and>
    st_revenue_engine_enabled s \<and> st_revenue_engine_dry_run s \<and>
    (\<forall>j. row (db_stores d') j = (if j = k then Some (s\<lparr>st_setup_status := SetupReady\<rparr>) else row (db_stores d) j)) \<and>
    d'\<lparr>db_stores := db_stores d\<rparr> = d \<and>
    store_is_sellable (row (db_stores d') k) \<and>
    (\<forall>allow2. sync_store_setup_status en t allow2 True (Some (k, s\<lparr>st_setup_status := SetupReady\<rparr>)) d' = (Some SetupReady, d'))"
proof -
  let ?x = "modify_where (\<lambda>j _. j = k) (\<lambda>r. r\<lparr>st_setup_status := SetupReady\<rparr>) (db_stores d)"
  have derived: "derive_setup_status en d t allow (Some (k, s)) = SetupReady"
    and d': "d' = d\<lparr>db_stores := ?x\<rparr>"
    using sync_saved [OF assms(3) assms(2)] by simp_all
  have ready: "allow \<and> st_setup_status s \<notin> {SetupSuspended, SetupError} \<and> setup_checklist_passes en d t (Some (k, s))"
    using derived by (simp add: derive_ready_iff)
  then have parts: "st_is_active s" "telegram_configured k d" "has_real_payment_card s" "xui_configured k d"
    "inbound_configured k d" "active_public_plans k d \<noteq> []" "routes_configured en d t (k, s)"
    "st_revenue_engine_enabled s" "st_revenue_engine_dry_run s"
    unfolding checklist_passes_iff by simp_all
  have rows: "row (db_stores d') j = (if j = k then Some (s\<lparr>st_setup_status := SetupReady\<rparr>) else row (db_stores d) j)" for j
    using assms(1) by (cases "row (db_stores d) j") (auto simp: d' row_modify_where)
  have same: "setup_checklist_passes en d' t (Some (k, s\<lparr>st_setup_status := SetupReady\<rparr>))"
    using ready unfolding setup_checklist_passes_def d' checklist_unread by simp
  have again: "sync_store_setup_status en t allow2 True (Some (k, s\<lparr>st_setup_status := SetupReady\<rparr>)) d' = (Some SetupReady, d')"
    for allow2 by (rule sync_ready_stays [OF same]) simp
  have frame: "d'\<lparr>db_stores := db_stores d\<rparr> = d" by (simp add: d')
  have sells: "store_is_sellable (row (db_stores d') k)" using parts(1) by (simp add: rows store_is_sellable_def)
  show ?thesis
    by (intro conjI allI rows frame sells again parts inbound_configuredD [OF parts(5)] conjunct1 [OF ready] conjunct1 [OF conjunct2 [OF ready]])
qed

definition ready_shop :: store where
  "ready_shop = sample_store\<lparr>st_name := ''Shop'', st_english_name := ''shop'', st_setup_status := PlansConfigured,
     st_card_number := ''6037991234567890'', st_card_owner := ''Ann'', st_revenue_engine_enabled := True,
     st_revenue_engine_dry_run := True\<rparr>"

definition ready_bot :: bot_config where
  "ready_bot = \<lparr>bt_store = Some 1, bt_provider = Telegram, bt_is_active = True, bt_bot_token = ''t'',
     bt_admin_user_id = ''7''\<rparr>"

definition setup_db :: db where
  "setup_db = sample_db\<lparr>db_stores := [(1, ready_shop)], db_bots := [(1, ready_bot)]\<rparr>"

definition empty_tables :: delivery_tables where
  "empty_tables = \<lparr>dt_configs = [], dt_sources = [], dt_recipes = [], dt_rules = [],
     dt_inventory = \<lparr>iv_pools = [], iv_assets = [], iv_allocations = []\<rparr>\<rparr>"

lemmas ready_shop_simps = ready_shop_def ready_bot_def setup_db_def sample_defs own_or_shared_def table_defs

lemma ready_shop_row: "row (db_stores setup_db) 1 = Some ready_shop" "st_setup_status ready_shop = PlansConfigured"
  by (simp_all add: ready_shop_simps)

lemma ready_shop_checks:
  "telegram_configured 1 setup_db" "has_real_payment_card ready_shop" "xui_configured 1 setup_db"
  "inbound_configured 1 setup_db" "active_public_plans 1 setup_db \<noteq> []" "routes_configured sample_env setup_db empty_tables (1, ready_shop)"
  by (simp_all add: ready_shop_simps telegram_configured_def has_real_payment_card_def xui_configured_def inbound_configured_def
      active_public_plans_def public_plan_def routes_configured_def legacy_routes_configured_def sellable_inbound_def
      panel_of_def get_inbound_def placeholder_card_number_def placeholder_card_owner_def strip_def blank_def chr_code_def Let_def)

lemma ready_shop_open: "setup_checklist_passes sample_env setup_db empty_tables (Some (1, ready_shop))"
  unfolding checklist_passes_iff
  by (intro conjI ready_shop_checks) (simp_all add: ready_shop_simps)

lemma shop_opens_only_when_ready_witness:
  "telegram_configured 1 setup_db \<and> active_public_plans 1 setup_db \<noteq> []"
proof -
  have "derive_setup_status sample_env setup_db empty_tables True (Some (1, ready_shop)) = SetupReady"
    by (simp add: derive_ready_iff ready_shop_open ready_shop_row(2) del: One_nat_def)
  then have "sync_store_setup_status sample_env empty_tables True True (Some (1, ready_shop)) setup_db =
    (Some SetupReady, setup_db\<lparr>db_stores := modify_where (\<lambda>j _. j = 1) (\<lambda>r. r\<lparr>st_setup_status := SetupReady\<rparr>) (db_stores setup_db)\<rparr>)"
    by (simp add: sync_store_setup_status_def Let_def ready_shop_row(2))
  from shop_opens_only_when_ready [OF ready_shop_row(1) _ this] show ?thesis by (simp add: ready_shop_row(2))
qed

end
