(* ===== verification/Config_Links.thy ===== *)
theory Config_Links
  imports Provisioning
begin

text \<open>
  Reading a configuration link (\<open>vless://\<close>, \<open>vmess://\<close>, ...): \<open>parse_config_link\<close> of
  \<open>store/subscription_cups.py\<close> and \<open>parse_native_config\<close> with the filter of
  \<open>store/external_subscription_sources.py\<close>. What they use of \<open>urllib.parse\<close> (\<open>urlsplit\<close>, \<open>unquote\<close>,
  \<open>parse_qs\<close>) is defined here. Text is bytes, so a percent-encoded character becomes its UTF-8 bytes,
  and truncation counts bytes. The digests, the JSON reader behind \<open>vmess://\<close> and the check of a
  bracketed address are an argument.
\<close>

record link_reader =
  lr_sha :: "string \<Rightarrow> string"
  lr_digest :: "dict \<Rightarrow> string"
  lr_vmess :: "string \<Rightarrow> dict"
  lr_ip :: "string \<Rightarrow> bool"

section \<open>Values as text and as numbers\<close>

definition int_text :: "int \<Rightarrow> string" where
  "int_text n = (if n < 0 then CHR ''-'' # show_nat (nat (- n)) else show_nat (nat n))"

text \<open>
  \<open>repr\<close> of a value that JSON can hold. Control characters, the quote and the backslash are escaped; bytes
  above 127 are kept, as the code points they belong to are taken to be printable.
\<close>

definition hex_char :: "nat \<Rightarrow> char" where
  "hex_char n = char_of (if n < 10 then 48 + n else 87 + n)"

definition escape_char :: "char \<Rightarrow> char \<Rightarrow> string" where
  "escape_char q c =
     (let n = chr_code c
      in if c = q \<or> n = 92 then [CHR 0x5C, c]
         else if n = 9 then [CHR 0x5C, CHR ''t''] else if n = 10 then [CHR 0x5C, CHR ''n'']
         else if n = 13 then [CHR 0x5C, CHR ''r'']
         else if n < 32 \<or> n = 127 then [CHR 0x5C, CHR ''x'', hex_char (n div 16), hex_char (n mod 16)] else [c])"

definition repr_text :: "string \<Rightarrow> string" where
  "repr_text s =
     (let q = (if CHR 0x27 \<in> set s \<and> CHR 0x22 \<notin> set s then CHR 0x22 else CHR 0x27)
      in q # concat (map (escape_char q) s) @ [q])"

fun commas :: "string list \<Rightarrow> string" where
  "commas [] = []"
| "commas [s] = s"
| "commas (s # ss) = s @ '', '' @ commas ss"

fun py_repr :: "json \<Rightarrow> string" where
  "py_repr JNull = ''None''"
| "py_repr (JBool b) = (if b then ''True'' else ''False'')"
| "py_repr (JInt n) = int_text n"
| "py_repr (JStr s) = repr_text s"
| "py_repr (JList xs) = CHR ''['' # commas (map py_repr xs) @ '']''"
| "py_repr (JObj d) = CHR ''{'' # commas (map (\<lambda>(k, v). repr_text k @ '': '' @ py_repr v) d) @ ''}''"

text \<open>\<open>str(x or "")\<close>.\<close>

definition py_text :: "json \<Rightarrow> string" where
  "py_text v = (if \<not> truthy v then [] else case v of JStr s \<Rightarrow> s | _ \<Rightarrow> py_repr v)"

lemma py_text_simps [simp]: "py_text JNull = []" "py_text (JStr s) = s" "py_text (JInt n) = (if n = 0 then [] else int_text n)"
  by (simp_all add: py_text_def)

text \<open>The digits of \<open>int(text)\<close>: at least one, with single underscores between them.\<close>

fun digits_after :: "nat \<Rightarrow> string \<Rightarrow> nat option" where
  "digits_after acc [] = Some acc"
| "digits_after acc (c # s) =
     (if is_digit c then digits_after (10 * acc + (chr_code c - 48)) s
      else if c = CHR ''_'' then
        (case s of d # r \<Rightarrow> if is_digit d then digits_after (10 * acc + (chr_code d - 48)) r else None
         | [] \<Rightarrow> None)
      else None)"

definition digits_value :: "string \<Rightarrow> nat option" where
  "digits_value s = (case s of c # r \<Rightarrow> if is_digit c then digits_after (chr_code c - 48) r else None | [] \<Rightarrow> None)"

definition text_int :: "string \<Rightarrow> int option" where
  "text_int s =
     (case strip s of
        [] \<Rightarrow> None
      | c # r \<Rightarrow>
          if c = CHR ''-'' then map_option (\<lambda>n. - int n) (digits_value r)
          else if c = CHR ''+'' then map_option int (digits_value r)
          else map_option int (digits_value (c # r)))"

text \<open>\<open>int(value)\<close>; \<open>None\<close> is a \<open>TypeError\<close> or a \<open>ValueError\<close>.\<close>

fun py_int :: "json \<Rightarrow> int option" where
  "py_int (JInt n) = Some n"
| "py_int (JBool b) = Some (if b then 1 else 0)"
| "py_int (JStr s) = text_int s"
| "py_int _ = None"

definition as_positive_int :: "json \<Rightarrow> int option \<Rightarrow> int option \<Rightarrow> int option" where
  "as_positive_int v dflt hi =
     (case py_int v of
        None \<Rightarrow> dflt
      | Some n \<Rightarrow> if n \<le> 0 then dflt else Some (case hi of None \<Rightarrow> n | Some m \<Rightarrow> min n m))"

definition safe_int :: "json \<Rightarrow> int option" where
  "safe_int v = (case py_int v of None \<Rightarrow> None | Some n \<Rightarrow> if 0 < n then Some n else None)"

section \<open>URLs\<close>

text \<open>\<open>s.split(sep, 1)\<close>: \<open>None\<close> when the separator does not occur.\<close>

fun cut :: "string \<Rightarrow> string \<Rightarrow> (string \<times> string) option" where
  "cut sep [] = (if sep = [] then Some ([], []) else None)"
| "cut sep (c # s) =
     (if starts_with sep (c # s) then Some ([], drop (length sep) (c # s))
      else map_option (\<lambda>(a, b). (c # a, b)) (cut sep s))"

definition before :: "string \<Rightarrow> string \<Rightarrow> string" where
  "before sep s = (case cut sep s of None \<Rightarrow> s | Some (a, _) \<Rightarrow> a)"

definition after :: "string \<Rightarrow> string \<Rightarrow> string" where
  "after sep s = (case cut sep s of None \<Rightarrow> [] | Some (_, b) \<Rightarrow> b)"

text \<open>\<open>s.rsplit(c, 1)\<close>.\<close>

definition cut_last :: "char \<Rightarrow> string \<Rightarrow> (string \<times> string) option" where
  "cut_last c s =
     (if c \<in> set s
      then Some (rev (tl (dropWhile (\<lambda>x. x \<noteq> c) (rev s))), rev (takeWhile (\<lambda>x. x \<noteq> c) (rev s)))
      else None)"

fun split_on :: "char \<Rightarrow> string \<Rightarrow> string list" where
  "split_on c [] = [[]]"
| "split_on c (x # s) = (if x = c then [] # split_on c s else (case split_on c s of p # ps \<Rightarrow> (x # p) # ps | [] \<Rightarrow> [[x]]))"

record url =
  u_scheme :: string
  u_netloc :: string
  u_path :: string
  u_query :: string
  u_fragment :: string

definition is_alpha :: "char \<Rightarrow> bool" where
  "is_alpha c \<longleftrightarrow> is_upper c \<or> is_lower c"

definition scheme_char :: "char \<Rightarrow> bool" where
  "scheme_char c \<longleftrightarrow> is_alpha c \<or> is_digit c \<or> c \<in> {CHR ''+'', CHR ''-'', CHR ''.''}"

definition url_scheme :: "string \<Rightarrow> string \<times> string" where
  "url_scheme s =
     (case cut '':'' s of
        Some (p, r) \<Rightarrow> if p \<noteq> [] \<and> is_alpha (hd p) \<and> list_all scheme_char p then (lower p, r) else ([], s)
      | None \<Rightarrow> ([], s))"

text \<open>\<open>urlsplit\<close>; \<open>None\<close> is a \<open>ValueError\<close>.\<close>

definition urlsplit :: "link_reader \<Rightarrow> string \<Rightarrow> url option" where
  "urlsplit lr s0 =
     (let s = filter (\<lambda>c. chr_code c \<notin> {9, 10, 13}) (dropWhile (\<lambda>c. chr_code c \<le> 32) s0);
          (scheme, r) = url_scheme s; delim = (\<lambda>c. c \<in> {CHR ''/'', CHR ''?'', CHR ''#''});
          host = starts_with ''//'' r;
          netloc = (if host then takeWhile (\<lambda>c. \<not> delim c) (drop 2 r) else []);
          rest = (if host then dropWhile (\<lambda>c. \<not> delim c) (drop 2 r) else r);
          opened = CHR ''['' \<in> set netloc; closed = CHR '']'' \<in> set netloc;
          body = before ''#'' rest
      in if opened \<noteq> closed \<or> (opened \<and> \<not> lr_ip lr (before '']'' (after ''['' netloc))) then None
         else Some \<lparr>u_scheme = scheme, u_netloc = netloc, u_path = before ''?'' body, u_query = after ''?'' body,
                    u_fragment = after ''#'' rest\<rparr>)"

definition host_info :: "url \<Rightarrow> string \<times> string" where
  "host_info u =
     (let h = (case cut_last (CHR ''@'') (u_netloc u) of None \<Rightarrow> u_netloc u | Some (_, b) \<Rightarrow> b)
      in case cut ''['' h of
           Some (_, b) \<Rightarrow> (before '']'' b, after '':'' (after '']'' b))
         | None \<Rightarrow> (before '':'' h, after '':'' h))"

definition hostname :: "url \<Rightarrow> string" where
  "hostname u =
     (let h = fst (host_info u)
      in case cut ''%'' h of None \<Rightarrow> lower h | Some (a, zone) \<Rightarrow> lower a @ ''%'' @ zone)"

definition safe_port :: "url \<Rightarrow> int option" where
  "safe_port u =
     (let p = snd (host_info u)
      in if p = [] \<or> \<not> list_all is_digit p then None
         else (case digits_value p of Some n \<Rightarrow> if n \<le> 65535 then Some (int n) else None | None \<Rightarrow> None))"

definition hex_digit :: "char \<Rightarrow> nat option" where
  "hex_digit c =
     (let n = chr_code c
      in if is_digit c then Some (n - 48) else if 65 \<le> n \<and> n \<le> 70 then Some (n - 55)
         else if 97 \<le> n \<and> n \<le> 102 then Some (n - 87) else None)"

text \<open>\<open>unquote\<close> and the names and values of \<open>parse_qs(..., keep_blank_values=True)\<close>.\<close>

fun unquote :: "string \<Rightarrow> string" where
  "unquote (p # a # b # s) =
     (if p = CHR ''%'' then
        (case (hex_digit a, hex_digit b) of
           (Some x, Some y) \<Rightarrow> char_of (16 * x + y) # unquote s
         | _ \<Rightarrow> p # unquote (a # b # s))
      else p # unquote (a # b # s))"
| "unquote [p, a] = [p, a]"
| "unquote [p] = [p]"
| "unquote [] = []"

definition unquote_field :: "string \<Rightarrow> string" where
  "unquote_field s = unquote (map (\<lambda>c. if c = CHR ''+'' then CHR '' '' else c) s)"

definition query_fields :: "string \<Rightarrow> (string \<times> string) list" where
  "query_fields q =
     map (\<lambda>f. (unquote_field (before ''='' f), unquote_field (after ''='' f)))
       (filter (\<lambda>f. f \<noteq> []) (split_on (CHR ''&'') q))"

text \<open>
  The code lowers the names of the parsed fields: of several spellings of a name the one that
  appears last wins. The values of that spelling, in order.
\<close>

definition query_values :: "string \<Rightarrow> (string \<times> string) list \<Rightarrow> string list" where
  "query_values key fs =
     (case filter (\<lambda>k. lower k = key) (rev (remdups (rev (map fst fs)))) of
        [] \<Rightarrow> []
      | ks \<Rightarrow> map snd (filter (\<lambda>(k, _). k = last ks) fs))"

fun query_first :: "(string \<times> string) list \<Rightarrow> string list \<Rightarrow> string \<Rightarrow> string" where
  "query_first fs [] dflt = dflt"
| "query_first fs (k # ks) dflt =
     (case query_values k fs of [] \<Rightarrow> query_first fs ks dflt | v # _ \<Rightarrow> lower (strip v))"

definition query_has :: "(string \<times> string) list \<Rightarrow> string list \<Rightarrow> bool" where
  "query_has fs ks = list_ex (\<lambda>k. list_ex (\<lambda>v. strip v \<noteq> []) (query_values k fs)) ks"

section \<open>Links of a cup\<close>

definition config_protocols :: "string list" where
  "config_protocols = [''vless'', ''vmess'', ''trojan'', ''ss'', ''hysteria2'', ''wireguard'']"

definition supported_protocols :: "string list" where
  "supported_protocols = config_protocols @ [''ssr'', ''hy2'', ''tuic'']"

definition scheme_sep :: string where
  "scheme_sep = ''://''"

record parsed_link =
  pk_raw_link :: string
  pk_normalized_hash :: string
  pk_protocol :: string
  pk_remark :: string
  pk_host :: string
  pk_port :: "int option"

definition link_body :: "string \<Rightarrow> string" where
  "link_body raw = strip (before ''#'' (after scheme_sep raw))"

definition parse_standard_url :: "link_reader \<Rightarrow> string \<Rightarrow> string \<times> int option \<times> string" where
  "parse_standard_url lr raw =
     (case urlsplit lr raw of
        None \<Rightarrow> ([], None, [])
      | Some u \<Rightarrow> (hostname u, safe_port u, unquote (u_fragment u)))"

definition strip_brackets :: "string \<Rightarrow> string" where
  "strip_brackets s =
     (let b = (\<lambda>c. c = CHR ''['' \<or> c = CHR '']'') in rev (dropWhile b (rev (dropWhile b s))))"

definition parse_shadowsocks :: "link_reader \<Rightarrow> string \<Rightarrow> string \<times> int option \<times> string" where
  "parse_shadowsocks lr raw =
     (case parse_standard_url lr raw of
        (host, port, remark) \<Rightarrow>
          if host \<noteq> [] then (host, port, remark)
          else (case cut_last (CHR ''@'') (link_body raw) of
                  None \<Rightarrow> (host, port, remark)
                | Some (_, server) \<Rightarrow>
                    (case cut_last (CHR '':'') server of
                       None \<Rightarrow> (host, port, remark)
                     | Some (h, p) \<Rightarrow> (strip_brackets h, safe_int (JStr p), remark))))"

definition link_details :: "link_reader \<Rightarrow> string \<Rightarrow> string \<Rightarrow> string \<times> int option \<times> string" where
  "link_details lr protocol raw =
     (if protocol \<in> {''vless'', ''trojan'', ''hysteria2'', ''hy2'', ''tuic'', ''wireguard'', ''ssr''} then parse_standard_url lr raw
      else if protocol = ''ss'' then parse_shadowsocks lr raw
      else if protocol = ''vmess'' then
        (let payload = link_body raw; data = (if payload = [] then [] else lr_vmess lr payload)
         in (strip (py_text (dget ''add'' data)), safe_int (dget ''port'' data), strip (py_text (dget ''ps'' data))))
      else ([], None, []))"

definition parse_config_link :: "link_reader \<Rightarrow> string \<Rightarrow> parsed_link" where
  "parse_config_link lr text_in =
     (let raw = strip text_in;
          prefix = (case cut scheme_sep raw of None \<Rightarrow> [] | Some (a, _) \<Rightarrow> lower (strip a));
          protocol = (if prefix \<in> set supported_protocols then prefix else ''unknown'');
          (host, port, remark) = link_details lr protocol raw
      in \<lparr>pk_raw_link = raw, pk_normalized_hash = (if raw = [] then [] else lr_sha lr raw), pk_protocol = protocol,
          pk_remark = take 255 remark, pk_host = take 255 host, pk_port = port\<rparr>)"

text \<open>
  \<open>apply_config_link_parse\<close>; the feed of a link is only set when one is passed. The metadata is always
  passed by the modelled callers.
\<close>

definition apply_config_link_parse ::
  "link_reader \<Rightarrow> string \<Rightarrow> link_source \<Rightarrow> pk option \<Rightarrow> pk option \<Rightarrow> pk option \<Rightarrow> pk option option \<Rightarrow> dict \<Rightarrow>
   config_link \<Rightarrow> config_link" where
  "apply_config_link_parse lr raw src panel inb client fd meta l =
     (let p = parse_config_link lr raw
      in l\<lparr>cl_raw_link := pk_raw_link p, cl_normalized_hash := pk_normalized_hash p, cl_protocol := pk_protocol p,
           cl_remark := pk_remark p, cl_host := pk_host p, cl_port := pk_port p, cl_source_type := src,
           cl_source_panel := panel, cl_source_inbound := inb, cl_vpn_client := client,
           cl_external_feed := (case fd of None \<Rightarrow> cl_external_feed l | Some f \<Rightarrow> f), cl_is_active := True,
           cl_metadata := meta\<rparr>)"

definition new_config_link :: config_link where
  "new_config_link = \<lparr>cl_raw_link = [], cl_normalized_hash = [], cl_protocol = ''unknown'', cl_remark = [], cl_host = [],
     cl_port = None, cl_source_type = UnknownOrigin, cl_source_panel = None, cl_source_inbound = None, cl_vpn_client = None,
     cl_external_feed = None, cl_is_active = True, cl_metadata = []\<rparr>"

section \<open>Native configurations\<close>

definition dynamic_security :: "string list" where
  "dynamic_security = [''reality'', ''tls'', ''none'']"

definition dynamic_transports :: "string list" where
  "dynamic_transports = [''tcp'', ''raw'', ''grpc'', ''ws'', ''xhttp'', ''splithttp'', ''http'', ''httpupgrade'', ''kcp'',
     ''quic'', ''udp'', ''wireguard'']"

record native =
  nv_raw_link :: string
  nv_protocol :: string
  nv_security :: string
  nv_transport :: string
  nv_remark :: string
  nv_host :: string
  nv_port :: "int option"
  nv_has_pbk :: bool
  nv_fingerprint :: string
  nv_valid :: bool
  nv_reason :: string

definition canonical_protocol :: "string \<Rightarrow> string" where
  "canonical_protocol s = (let p = lower (strip s) in if p = ''hy2'' then ''hysteria2'' else p)"

definition semantic_fingerprint :: "link_reader \<Rightarrow> native \<Rightarrow> string" where
  "semantic_fingerprint lr n =
     lr_digest lr
       [(''protocol'', JStr (nv_protocol n)), (''security'', JStr (nv_security n)), (''transport'', JStr (nv_transport n)),
        (''host'', JStr (nv_host n)), (''port'', jint_opt (nv_port n)), (''remark'', JStr (lower (strip (nv_remark n)))),
        (''has_pbk'', JBool (nv_has_pbk n)), (''valid'', JBool (nv_valid n)), (''validation_reason'', JStr (nv_reason n))]"

definition parsed_native ::
  "link_reader \<Rightarrow> string \<Rightarrow> string \<Rightarrow> string \<Rightarrow> string \<Rightarrow> string \<Rightarrow> string \<Rightarrow> int option \<Rightarrow> bool \<Rightarrow> bool \<Rightarrow> string \<Rightarrow> native" where
  "parsed_native lr raw protocol security transport remark host port pbk ok reason =
     (let n = \<lparr>nv_raw_link = raw, nv_protocol = canonical_protocol protocol,
               nv_security = str_or (lower (strip (str_or security ''none''))) ''none'',
               nv_transport = str_or (lower (strip (str_or transport ''tcp''))) ''tcp'',
               nv_remark = take 255 remark, nv_host = take 255 host, nv_port = port, nv_has_pbk = pbk,
               nv_fingerprint = [], nv_valid = ok, nv_reason = reason\<rparr>
      in n\<lparr>nv_fingerprint := semantic_fingerprint lr (n\<lparr>nv_remark := remark, nv_host := host\<rparr>)\<rparr>)"

definition parse_vmess :: "link_reader \<Rightarrow> string \<Rightarrow> string \<Rightarrow> native" where
  "parse_vmess lr raw body =
     (let payload = strip (before ''#'' body); data = (if payload = [] then [] else lr_vmess lr payload);
          tls = lower (strip (py_text (dget ''tls'' data)));
          net = py_text (dget ''net'' data)
      in parsed_native lr raw ''vmess''
           (if tls \<in> set dynamic_security then tls else if tls \<noteq> [] then ''tls'' else ''none'')
           (str_or (lower (strip (str_or net ''tcp''))) ''tcp'')
           (take 255 (strip (py_text (dget ''ps'' data)))) (take 255 (strip (py_text (dget ''add'' data))))
           (as_positive_int (dget ''port'' data) None (Some 65535)) False (data \<noteq> [])
           (if data \<noteq> [] then [] else ''invalid_vmess_payload''))"

definition parse_url_style :: "link_reader \<Rightarrow> string \<Rightarrow> string \<Rightarrow> native" where
  "parse_url_style lr raw protocol =
     (case urlsplit lr (strip raw) of
        None \<Rightarrow> parsed_native lr raw protocol ''none'' ''tcp'' [] [] None False False ''invalid_url''
      | Some u \<Rightarrow>
          let q = query_fields (u_query u);
              named = query_first q [''security'', ''securitytype''] [];
              security = (if named = [] then if query_has q [''tls''] then ''tls'' else ''none''
                          else if named \<in> set dynamic_security then named else ''none'');
              dflt = (if protocol = ''wireguard'' then ''wireguard'' else ''tcp'');
              transport = str_or (query_first q [''type'', ''transport'', ''network'', ''net''] dflt) dflt;
              pbk = query_has q [''pbk'', ''publickey'', ''public_key''];
              known = protocol \<in> set config_protocols; missing = known \<and> security = ''reality'' \<and> \<not> pbk
          in parsed_native lr raw protocol security transport (take 255 (strip (unquote (u_fragment u))))
               (take 255 (strip (hostname u))) (safe_port u) pbk (known \<and> \<not> missing)
               (if \<not> known then ''unsupported_protocol'' else if missing then ''reality_missing_pbk'' else []))"

definition parse_native_config :: "link_reader \<Rightarrow> string \<Rightarrow> native" where
  "parse_native_config lr raw =
     (case cut scheme_sep (strip raw) of
        None \<Rightarrow> parsed_native lr raw ''unknown'' ''none'' ''tcp'' [] [] None False False ''unsupported_protocol''
      | Some (scheme, body) \<Rightarrow>
          let protocol = canonical_protocol scheme
          in if protocol \<notin> set config_protocols
             then parsed_native lr raw ''unknown'' ''none'' ''tcp'' [] [] None False False ''unsupported_protocol''
             else if protocol = ''vmess'' then parse_vmess lr raw body
             else parse_url_style lr raw protocol)"

section \<open>The filter policy\<close>

record filter_policy =
  fp_protocols :: "string list"
  fp_security :: "string list"
  fp_transport :: "string list"
  fp_remark_include :: string
  fp_remark_exclude :: string
  fp_require_reality_pbk :: bool
  fp_max_configs :: "int option"
  fp_deduplicate_exact :: bool
  fp_refresh_interval_hours :: int

definition policy_dict :: "filter_policy \<Rightarrow> dict" where
  "policy_dict p =
     [(''protocols'', JList (map JStr (fp_protocols p))), (''security'', JList (map JStr (fp_security p))),
      (''transport'', JList (map JStr (fp_transport p))), (''remark_include'', JStr (fp_remark_include p)),
      (''remark_exclude'', JStr (fp_remark_exclude p)), (''require_reality_pbk'', JBool (fp_require_reality_pbk p)),
      (''max_configs'', jint_opt (fp_max_configs p)), (''deduplicate_exact'', JBool (fp_deduplicate_exact p)),
      (''refresh_interval_hours'', JInt (fp_refresh_interval_hours p))]"

definition as_bool :: "json \<Rightarrow> bool \<Rightarrow> bool" where
  "as_bool v dflt =
     (case v of
        JNull \<Rightarrow> dflt
      | JBool b \<Rightarrow> b
      | JInt n \<Rightarrow> n \<noteq> 0
      | JStr s \<Rightarrow> lower (strip s) \<in> {''1'', ''true'', ''yes'', ''on''}
      | _ \<Rightarrow> False)"

fun pick_values :: "string list \<Rightarrow> (string \<times> string) list \<Rightarrow> string list \<Rightarrow> string list \<Rightarrow> string list" where
  "pick_values defaults aliases acc [] = (if acc = [] then defaults else acc)"
| "pick_values defaults aliases acc (x # xs) =
     (let l = lower x; v = (case map_of aliases l of None \<Rightarrow> l | Some a \<Rightarrow> a)
      in if v \<in> {''*'', ''all''} then defaults
         else pick_values defaults aliases (if v \<in> set defaults \<and> v \<notin> set acc then acc @ [v] else acc) xs)"

text \<open>\<open>None\<close> is the \<open>TypeError\<close> of iterating over a number or a truth value.\<close>

definition normalize_values :: "json \<Rightarrow> string list \<Rightarrow> (string \<times> string) list \<Rightarrow> string list option" where
  "normalize_values v defaults aliases =
     (if v \<in> {JNull, JStr [], JList []} then Some defaults
      else case v of
        JStr s \<Rightarrow> Some (pick_values defaults aliases [] (map strip (split_on (CHR '','') s)))
      | JList xs \<Rightarrow> Some (pick_values defaults aliases [] (map (\<lambda>x. strip (py_text x)) xs))
      | JObj d \<Rightarrow> Some (pick_values defaults aliases [] (map (\<lambda>(k, _). strip k) d))
      | _ \<Rightarrow> None)"

definition normalize_external_subscription_filter_policy :: "dict \<Rightarrow> filter_policy option" where
  "normalize_external_subscription_filter_policy p =
     (let transports = (if truthy (dget ''transport'' p) then dget ''transport'' p else dget ''transports'' p)
      in case (normalize_values (dget ''protocols'' p) config_protocols [(''hy2'', ''hysteria2'')],
               normalize_values (dget ''security'' p) dynamic_security [],
               normalize_values transports dynamic_transports []) of
           (Some pr, Some se, Some tr) \<Rightarrow>
             Some \<lparr>fp_protocols = pr, fp_security = se, fp_transport = tr,
                   fp_remark_include = take 200 (strip (py_text (dget ''remark_include'' p))),
                   fp_remark_exclude = take 200 (strip (py_text (dget ''remark_exclude'' p))),
                   fp_require_reality_pbk = as_bool (dget ''require_reality_pbk'' p) True,
                   fp_max_configs = as_positive_int (dget ''max_configs'' p) None (Some 1000),
                   fp_deduplicate_exact = as_bool (dget ''deduplicate_exact'' p) True,
                   fp_refresh_interval_hours =
                     (case as_positive_int (dget ''refresh_interval_hours'' p) (Some 1) (Some 720) of None \<Rightarrow> 1 | Some n \<Rightarrow> n)\<rparr>
         | _ \<Rightarrow> None)"

section \<open>The filter\<close>

record filter_result =
  fl_policy :: filter_policy
  fl_upstream_count :: nat
  fl_invalid_count :: nat
  fl_deduplicated_count :: nat
  fl_filtered_count :: nat
  fl_selected :: "native list"

fun first_copies :: "string list \<Rightarrow> native list \<Rightarrow> native list" where
  "first_copies seen [] = []"
| "first_copies seen (n # ns) =
     (if nv_raw_link n \<in> set seen then first_copies seen ns else n # first_copies (nv_raw_link n # seen) ns)"

definition remark_matches :: "filter_policy \<Rightarrow> native \<Rightarrow> bool" where
  "remark_matches p n =
     (let remark = lower (nv_remark n); inc = lower (strip (fp_remark_include p)); exc = lower (strip (fp_remark_exclude p))
      in (inc = [] \<or> contains inc remark) \<and> \<not> (exc \<noteq> [] \<and> contains exc remark))"

definition native_selected :: "filter_policy \<Rightarrow> native \<Rightarrow> bool" where
  "native_selected p n \<longleftrightarrow>
     nv_protocol n \<in> set (fp_protocols p) \<and> nv_security n \<in> set (fp_security p) \<and> nv_transport n \<in> set (fp_transport p) \<and>
     \<not> (fp_require_reality_pbk p \<and> nv_security n = ''reality'' \<and> \<not> nv_has_pbk n) \<and> remark_matches p n"

definition filter_native_configs :: "link_reader \<Rightarrow> string list \<Rightarrow> dict \<Rightarrow> filter_result option" where
  "filter_native_configs lr raws policy =
     map_option (\<lambda>p.
       let parsed = map (parse_native_config lr) (filter (\<lambda>r. r \<noteq> []) raws);
           ok = filter nv_valid parsed;
           deduped = (if fp_deduplicate_exact p then first_copies [] ok else ok);
           kept = filter (native_selected p) deduped
       in \<lparr>fl_policy = p, fl_upstream_count = length parsed, fl_invalid_count = length parsed - length ok,
           fl_deduplicated_count = length ok - length deduped, fl_filtered_count = length kept,
           fl_selected = (case fp_max_configs p of None \<Rightarrow> kept | Some m \<Rightarrow> take (nat m) kept)\<rparr>)
     (normalize_external_subscription_filter_policy policy)"

definition fl_selected_count :: "filter_result \<Rightarrow> nat" where
  "fl_selected_count r = length (fl_selected r)"

end
