(* ===== verification/Subscription_Cups.thy ===== *)
theory Subscription_Cups
  imports Config_Links Plan_Delivery
begin

text \<open>
  \<open>store/subscription_cups.py\<close> and the binding of feeds of \<open>store/subscription_sync.py\<close>: a cup
  (\<open>SubscriptionCup\<close>) is the subscription a customer reads; its items point to configuration links.
  Rebuilding a cup lists the links of its client or order and retires the others; reading it renders
  the active links. The links of a feed (\<open>ExternalSubscriptionFeed\<close>) are kept by the refresh of the feed.
\<close>

section \<open>Items with their links\<close>

type_synonym linked_item = "pk \<times> cup_item \<times> config_link"

text \<open>\<open>CupItem.objects.filter(...).select_related("config_link").order_by("position", "pk")\<close>.\<close>

definition with_link :: "db \<Rightarrow> pk \<times> cup_item \<Rightarrow> linked_item option" where
  "with_link d ki = map_option (\<lambda>l. (fst ki, snd ki, l)) (row (db_config_links d) (ci_config_link (snd ki)))"

definition linked_items :: "(cup_item \<Rightarrow> config_link \<Rightarrow> bool) \<Rightarrow> db \<Rightarrow> linked_item list" where
  "linked_items P d =
     sort_key (\<lambda>(k, i, l). (ci_position i, k))
       (filter (\<lambda>(k, i, l). P i l) (List.map_filter (with_link d) (db_cup_items d)))"

definition shown :: "pk \<Rightarrow> cup_item \<Rightarrow> config_link \<Rightarrow> bool" where
  "shown c i l \<longleftrightarrow> ci_cup i = c \<and> ci_is_active i \<and> cl_is_active l"

definition active_cup_links :: "pk \<Rightarrow> db \<Rightarrow> string list" where
  "active_cup_links c d =
     filter (\<lambda>s. s \<noteq> []) (map (\<lambda>(_, _, l). strip (cl_raw_link l)) (linked_items (shown c) d))"

definition cup_protocols :: "pk \<Rightarrow> db \<Rightarrow> string list" where
  "cup_protocols c d = rev (remdups (rev (map (\<lambda>(_, _, l). cl_protocol l) (linked_items (shown c) d))))"

section \<open>Putting a link into a cup\<close>

text \<open>
  An entry to list: its link, its position, what is written to the link and to the item. Both the
  rebuilding of a cup and the refresh of a feed reuse the first item that still has the same link,
  and otherwise create a link and an item.
\<close>

record entry =
  ey_raw_link :: string
  ey_position :: nat
  ey_reason :: string
  ey_metadata :: dict
  ey_write :: "config_link \<Rightarrow> config_link"

fun pop_match :: "string \<Rightarrow> linked_item list \<Rightarrow> (linked_item \<times> linked_item list) option" where
  "pop_match raw [] = None"
| "pop_match raw (x # xs) =
     (if cl_raw_link (snd (snd x)) = raw then Some (x, xs)
      else map_option (\<lambda>(y, ys). (y, x # ys)) (pop_match raw xs))"

definition listed :: "entry \<Rightarrow> cup_item \<Rightarrow> cup_item" where
  "listed e i = i\<lparr>ci_position := ey_position e, ci_is_active := True, ci_added_reason := ey_reason e,
     ci_metadata := ey_metadata e\<rparr>"

definition place_entry :: "pk \<Rightarrow> entry \<Rightarrow> linked_item list \<Rightarrow> db \<Rightarrow> (pk \<times> pk) \<times> linked_item list \<times> db" where
  "place_entry c e reusable d =
     (case pop_match (ey_raw_link e) reusable of
        Some ((ik, i, l), rest) \<Rightarrow>
          ((ik, ci_config_link i), rest,
           d\<lparr>db_config_links := put (ci_config_link i) (ey_write e l) (db_config_links d),
             db_cup_items := put ik (listed e i) (db_cup_items d)\<rparr>)
      | None \<Rightarrow>
          let (lk, links) = add_row (ey_write e new_config_link) (db_config_links d);
              (ik, items) = add_row \<lparr>ci_cup = c, ci_config_link = lk, ci_position = ey_position e, ci_is_active = True,
                ci_added_reason = ey_reason e, ci_metadata = ey_metadata e\<rparr> (db_cup_items d)
          in ((ik, lk), reusable, d\<lparr>db_config_links := links, db_cup_items := items\<rparr>))"

fun place_entries :: "pk \<Rightarrow> entry list \<Rightarrow> linked_item list \<Rightarrow> db \<Rightarrow> (pk \<times> pk) list \<times> db" where
  "place_entries c [] reusable d = ([], d)"
| "place_entries c (e # es) reusable d =
     (let (p, rest, d1) = place_entry c e reusable d; (ps, d2) = place_entries c es rest d1 in (p # ps, d2))"

section \<open>Binding feeds\<close>

definition owned_client :: "cup \<Rightarrow> (pk \<times> vpn_client) option \<Rightarrow> pk \<times> panel \<Rightarrow> db \<Rightarrow> bool" where
  "owned_client c client pn d \<longleftrightarrow>
     (case client of
        None \<Rightarrow> False
      | Some (ck, v) \<Rightarrow>
          (case Option.bind (vc_inbound v) (row (db_inbounds d)) of None \<Rightarrow> False | Some i \<Rightarrow> ib_panel i = Some (fst pn)) \<and>
          (pn_store (snd pn) = None \<or> pn_store (snd pn) = vc_store v) \<and>
          (case orelse (cp_order c) (vc_order v) of
             None \<Rightarrow> False
           | Some ok \<Rightarrow>
               (case get_order d ok of
                  None \<Rightarrow> False
                | Some o1 \<Rightarrow>
                    o_status o1 \<in> {Completed, Confirmed} \<and> o_verification_status o1 = VerVerified \<and>
                    o_store o1 = vc_store v \<and> (cp_customer c = None \<or> cp_customer c = o_customer o1) \<and>
                    (cp_order c = None \<or> vc_order v = cp_order c \<or>
                     ((case Option.bind (vc_order v) (get_order d) of
                         None \<Rightarrow> False | Some o2 \<Rightarrow> o_customer o2 = o_customer o1) \<and>
                      py_text (dget ''renewal_client_pk'' (o_metadata o1)) = show_nat ck)))) \<and>
          vc_status v \<noteq> ClDeleted)"

definition ends_with :: "string \<Rightarrow> string \<Rightarrow> bool" where
  "ends_with suf s = starts_with (rev suf) (rev s)"

definition upstream_url :: "link_reader \<Rightarrow> cup \<Rightarrow> vpn_client \<Rightarrow> string" where
  "upstream_url lr c v =
     (let url = strip (vc_sub_link v)
      in case urlsplit lr url of
           None \<Rightarrow> []
         | Some u \<Rightarrow>
             if u_scheme u \<notin> {''http'', ''https''} \<or> hostname u = [] \<or>
                ends_with (''/sub/'' @ cp_token c) (rev (dropWhile (\<lambda>x. x = CHR ''/'') (rev (u_path u))))
             then [] else url)"

text \<open>A link that may be bound: its panel, its client and the address the client reads.\<close>

datatype binding = Irrelevant | Ambiguous | NoUpstream | Bindable pk "pk \<times> vpn_client" string

definition link_panel :: "db \<Rightarrow> config_link \<Rightarrow> vpn_client option \<Rightarrow> pk option" where
  "link_panel d l client =
     orelse (orelse (cl_source_panel l) (Option.bind (Option.bind (cl_source_inbound l) (row (db_inbounds d))) ib_panel))
       (Option.bind (Option.bind (Option.bind client vc_inbound) (row (db_inbounds d))) ib_panel)"

definition the_row :: "'r table \<Rightarrow> pk option \<Rightarrow> (pk \<times> 'r) option" where
  "the_row t k = Option.bind k (\<lambda>j. map_option (Pair j) (row t j))"

definition only :: "'a list \<Rightarrow> 'a option" where
  "only xs = (case xs of [x] \<Rightarrow> Some x | _ \<Rightarrow> None)"

definition shared_link :: "pk \<Rightarrow> pk \<Rightarrow> db \<Rightarrow> bool" where
  "shared_link c lk d = exists_where (\<lambda>_ i. ci_config_link i = lk \<and> ci_cup i \<noteq> c) (db_cup_items d)"

definition classify_link :: "link_reader \<Rightarrow> pk \<times> cup \<Rightarrow> pk \<Rightarrow> config_link \<Rightarrow> db \<Rightarrow> binding" where
  "classify_link lr kc lk l d =
     (let c = snd kc; own = the_row (db_clients d) (orelse (cl_vpn_client l) (cp_vpn_client c))
      in case the_row (db_panels d) (link_panel d l (map_option snd own)) of
           None \<Rightarrow> Irrelevant
         | Some (pk, pn) \<Rightarrow>
             if pn_family pn \<noteq> FamPasarguard then Irrelevant
             else
               let client = orelse own
                     (if cp_order c = None then None
                      else only (rows_where (\<lambda>_ v. vc_order v = cp_order c \<and>
                             (case Option.bind (vc_inbound v) (row (db_inbounds d)) of
                                None \<Rightarrow> False | Some i \<Rightarrow> ib_panel i = Some pk)) (db_clients d)))
               in if shared_link (fst kc) lk d \<or> \<not> owned_client c client (pk, pn) d then Ambiguous
                  else case client of
                         None \<Rightarrow> Ambiguous
                       | Some (ck, v) \<Rightarrow>
                           let url = upstream_url lr c v in if url = [] then NoUpstream else Bindable pk (ck, v) url)"

record feed_group =
  fg_panel :: pk
  fg_client :: "pk \<times> vpn_client"
  fg_url :: string
  fg_items :: "linked_item list"

record bind_report =
  br_created :: nat
  br_adopted :: nat
  br_ambiguous :: nat
  br_missing_url :: nat
  br_disabled :: nat

definition empty_report :: bind_report where
  "empty_report = \<lparr>br_created = 0, br_adopted = 0, br_ambiguous = 0, br_missing_url = 0, br_disabled = 0\<rparr>"

fun group_into :: "pk \<Rightarrow> pk \<times> vpn_client \<Rightarrow> string \<Rightarrow> linked_item \<Rightarrow> feed_group list \<Rightarrow> feed_group list" where
  "group_into p v url x [] = [\<lparr>fg_panel = p, fg_client = v, fg_url = url, fg_items = [x]\<rparr>]"
| "group_into p v url x (g # gs) =
     (if fg_panel g = p \<and> fst (fg_client g) = fst v then g\<lparr>fg_items := fg_items g @ [x]\<rparr> # gs
      else g # group_into p v url x gs)"

fun group_links ::
  "link_reader \<Rightarrow> pk \<times> cup \<Rightarrow> db \<Rightarrow> linked_item list \<Rightarrow> feed_group list \<times> bind_report \<Rightarrow> feed_group list \<times> bind_report" where
  "group_links lr kc d [] acc = acc"
| "group_links lr kc d (x # xs) (gs, r) =
     group_links lr kc d xs
       (case classify_link lr kc (ci_config_link (fst (snd x))) (snd (snd x)) d of
          Irrelevant \<Rightarrow> (gs, r)
        | Ambiguous \<Rightarrow> (gs, r\<lparr>br_ambiguous := Suc (br_ambiguous r)\<rparr>)
        | NoUpstream \<Rightarrow> (gs, r\<lparr>br_missing_url := Suc (br_missing_url r)\<rparr>)
        | Bindable p v url \<Rightarrow> (group_into p v url x gs, r))"

definition json_digits :: "json \<Rightarrow> nat option" where
  "json_digits v =
     (case v of
        JInt n \<Rightarrow> if 0 \<le> n then Some (nat n) else None
      | JStr s \<Rightarrow> if s \<noteq> [] \<and> list_all is_digit s then digits_value s else None
      | _ \<Rightarrow> None)"

definition source_ids :: "dict \<Rightarrow> nat list" where
  "source_ids meta =
     List.map_filter json_digits (as_list (dget ''plan_delivery_source_ids'' meta) @ [dget ''plan_delivery_source_id'' meta])"

definition source_of_group :: "cup \<Rightarrow> feed_group \<Rightarrow> delivery_tables \<Rightarrow> (pk \<times> delivery_source) option" where
  "source_of_group c g t =
     first_of (ordered_where fst
       (\<lambda>k s. k \<in> set (concat (map (\<lambda>(_, _, l). source_ids (cl_metadata l)) (fg_items g))) \<and> ds_panel s = Some (fg_panel g) \<and>
          (case row (dt_configs t) (ds_delivery_config s) of None \<Rightarrow> False | Some cf \<Rightarrow> Some (dv_plan cf) = cp_plan c))
       (dt_sources t))"

definition policy_of_source :: "delivery_source option \<Rightarrow> dict" where
  "policy_of_source s =
     (let meta = (case s of None \<Rightarrow> [] | Some x \<Rightarrow> ds_metadata x);
          v = dget ''dynamic_subscription_policy'' meta
      in as_dict (if truthy v then v else dget ''filter_policy'' meta))"

definition resolved_filter_policy_for_source :: "delivery_source option \<Rightarrow> filter_policy option" where
  "resolved_filter_policy_for_source s = normalize_external_subscription_filter_policy (policy_of_source s)"

definition new_feed :: feed where
  "new_feed = \<lparr>fd_provider = [], fd_active = True, fd_cup = 0, fd_delivery_source = None, fd_panel = None, fd_vpn_client = None,
     fd_remote_identity_ref = [], fd_protected_subscription_url = [], fd_resolved_filter_policy = [],
     fd_refresh_interval_hours = 1, fd_next_refresh_at = None, fd_last_attempt_at = None, fd_refresh_token = [],
     fd_refresh_lease_until = None, fd_last_success_at = None, fd_consecutive_failures = 0, fd_status = FeedHealthy,
     fd_last_good_config_count = 0, fd_last_seen_upstream_count = 0, fd_last_filtered_count = 0,
     fd_last_error_code = [], fd_metadata = []\<rparr>"

definition feed_unavailable :: "feed \<Rightarrow> bool" where
  "feed_unavailable f \<longleftrightarrow> \<not> fd_active f \<or> fd_status f = FeedDisabled"

definition adopt_links :: "pk \<Rightarrow> feed_group \<Rightarrow> db \<Rightarrow> db" where
  "adopt_links fk g d =
     d\<lparr>db_config_links := modify_where
         (\<lambda>lk l. lk \<in> set (map (\<lambda>(_, i, _). ci_config_link i) (fg_items g)) \<and> cl_external_feed l = None)
         (\<lambda>l. l\<lparr>cl_external_feed := Some fk, cl_vpn_client := Some (fst (fg_client g))\<rparr>) (db_config_links d)\<rparr>"

text \<open>\<open>None\<close> is the \<open>TypeError\<close> of a filter policy that is not a list of names.\<close>

definition feed_for_group ::
  "env \<Rightarrow> delivery_tables \<Rightarrow> pk \<times> cup \<Rightarrow> feed_group \<Rightarrow> db \<Rightarrow> ((pk \<times> bool) option \<times> db) option" where
  "feed_for_group en t kc g d =
     (case first_of (ordered_where fst
             (\<lambda>_ f. fd_cup f = fst kc \<and> fd_panel f = Some (fg_panel g) \<and> fd_vpn_client f = Some (fst (fg_client g)) \<and>
                fd_provider f = ''pasarguard'') (db_feeds d)) of
        Some (fk, f) \<Rightarrow> Some (if feed_unavailable f then None else Some (fk, False), d)
      | None \<Rightarrow>
          let src = source_of_group (snd kc) g t; v = snd (fg_client g)
          in map_option (\<lambda>p.
               let (fk, feeds) = add_row (new_feed\<lparr>fd_cup := fst kc, fd_panel := Some (fg_panel g),
                     fd_vpn_client := Some (fst (fg_client g)), fd_delivery_source := map_option fst src,
                     fd_provider := ''pasarguard'', fd_protected_subscription_url := fg_url g,
                     fd_remote_identity_ref := str_or (vc_xui_email v) (vc_username v),
                     fd_resolved_filter_policy := policy_dict p, fd_next_refresh_at := Some (e_now en),
                     fd_last_good_config_count := length (fg_items g),
                     fd_metadata := [(''source'', JStr ''legacy_cup_sync''), (''awaiting_first_refresh'', JBool True)]\<rparr>)
                   (db_feeds d)
               in (Some (fk, True), d\<lparr>db_feeds := feeds\<rparr>))
             (resolved_filter_policy_for_source (map_option snd src)))"

fun bind_groups ::
  "env \<Rightarrow> delivery_tables \<Rightarrow> pk \<times> cup \<Rightarrow> feed_group list \<Rightarrow> bind_report \<Rightarrow> db \<Rightarrow> (bind_report \<times> db) option" where
  "bind_groups en t kc [] r d = Some (r, d)"
| "bind_groups en t kc (g # gs) r d =
     (case feed_for_group en t kc g d of
        None \<Rightarrow> None
      | Some (None, d1) \<Rightarrow> bind_groups en t kc gs (r\<lparr>br_disabled := br_disabled r + length (fg_items g)\<rparr>) d1
      | Some (Some (fk, created), d1) \<Rightarrow>
          bind_groups en t kc gs
            (r\<lparr>br_created := br_created r + (if created then 1 else 0), br_adopted := br_adopted r + length (fg_items g)\<rparr>)
            (adopt_links fk g d1))"

definition unmanaged :: "pk \<Rightarrow> cup_item \<Rightarrow> config_link \<Rightarrow> bool" where
  "unmanaged c i l \<longleftrightarrow> ci_cup i = c \<and> cl_external_feed l = None"

definition bindable_item :: "pk \<Rightarrow> cup_item \<Rightarrow> config_link \<Rightarrow> bool" where
  "bindable_item c i l \<longleftrightarrow>
     shown c i l \<and> cl_external_feed l = None \<and> cl_source_type l \<in> {PanelGenerated, ExternalSubscription}"

definition ensure_pasarguard_feeds_for_cup ::
  "env \<Rightarrow> link_reader \<Rightarrow> delivery_tables \<Rightarrow> pk \<Rightarrow> db \<Rightarrow> (bind_report \<times> db) option" where
  "ensure_pasarguard_feeds_for_cup en lr t ck d =
     (case row (db_cups d) ck of
        None \<Rightarrow> None
      | Some c \<Rightarrow>
          if \<not> cup_is_accessible en c then Some (empty_report, d)
          else let (gs, r) = group_links lr (ck, c) d (linked_items (bindable_item ck) d) ([], empty_report)
               in bind_groups en t (ck, c) gs r d)"

section \<open>Rebuilding a cup\<close>

text \<open>An entry of \<open>config_entries_for_vpn_client\<close> or \<open>config_entries_for_order\<close>.\<close>

record config_entry =
  ce_raw_link :: string
  ce_source_inbound :: "pk option"
  ce_source_panel :: "pk option"
  ce_metadata :: dict

definition panel_for_inbound :: "db \<Rightarrow> pk option \<Rightarrow> pk option" where
  "panel_for_inbound d inb = Option.bind (Option.bind inb (row (db_inbounds d))) ib_panel"

text \<open>The primary keys the panels recorded are integers.\<close>

definition json_pk :: "json \<Rightarrow> pk option" where
  "json_pk v = (case v of JInt n \<Rightarrow> if 0 < n then Some (nat n) else None | _ \<Rightarrow> None)"

definition json_or :: "json \<Rightarrow> json \<Rightarrow> json" where
  "json_or x y = (if truthy x then x else y)"

text \<open>
  The inbounds the bundle names are looked up among \<open>pks\<close>; one that is not found, or no longer exists,
  is replaced by the inbound of the client.
\<close>

fun bundle_entries :: "db \<Rightarrow> vpn_client \<Rightarrow> json list \<Rightarrow> nat \<Rightarrow> json list \<Rightarrow> config_entry list" where
  "bundle_entries d v pks idx [] = []"
| "bundle_entries d v pks idx (x # xs) =
     (case x of
        JObj r \<Rightarrow>
          let link = strip (py_text (dget ''direct_link'' r)); named = json_or (dget ''source_inbound_pk'' r) (dget ''inbound_pk'' r);
              key = (if \<not> truthy named \<and> idx \<le> length pks then pks ! (idx - 1) else named);
              inb = (case Option.bind (json_pk key) (\<lambda>k. map_option (\<lambda>_. k) (row (db_inbounds d) k)) of
                       Some k \<Rightarrow> Some k | None \<Rightarrow> vc_inbound v)
          in (if link = [] then []
              else [\<lparr>ce_raw_link = link, ce_source_inbound = inb, ce_source_panel = panel_for_inbound d inb,
                     ce_metadata = [(''source'', JStr ''vpn_client_bundle''), (''bundle_position'', JInt (int idx))]\<rparr>]) @
             bundle_entries d v pks (Suc idx) xs
      | _ \<Rightarrow> bundle_entries d v pks (Suc idx) xs)"

definition config_entries_for_vpn_client :: "db \<Rightarrow> vpn_client \<Rightarrow> config_entry list" where
  "config_entries_for_vpn_client d v =
     (let entries = bundle_entries d v (as_list (dget ''bundle_inbound_pks'' (vc_xui_raw v))) 1
                      (as_list (dget ''bundle_inbound_results'' (vc_xui_raw v)))
      in if entries = [] \<and> vc_direct_link v \<noteq> []
         then [\<lparr>ce_raw_link = vc_direct_link v, ce_source_inbound = vc_inbound v,
                ce_source_panel = panel_for_inbound d (vc_inbound v), ce_metadata = [(''source'', JStr ''vpn_client'')]\<rparr>]
         else entries)"

definition config_entries_for_order :: "db \<Rightarrow> order \<Rightarrow> config_entry list" where
  "config_entries_for_order d ord =
     (if o_direct_link ord = [] then []
      else [\<lparr>ce_raw_link = o_direct_link ord, ce_source_inbound = o_inbound ord,
             ce_source_panel = panel_for_inbound d (o_inbound ord), ce_metadata = [(''source'', JStr ''order'')]\<rparr>])"

definition cup_title :: "db \<Rightarrow> order option \<Rightarrow> vpn_client option \<Rightarrow> string" where
  "cup_title d ord client =
     (case client of
        Some v \<Rightarrow> if vc_username v \<noteq> [] then vc_username v else (case ord of Some o1 \<Rightarrow> pl_name (order_plan d o1) | None \<Rightarrow> [])
      | None \<Rightarrow> (case ord of Some o1 \<Rightarrow> pl_name (order_plan d o1) | None \<Rightarrow> []))"

definition external_subscription_link :: "order option \<Rightarrow> vpn_client option \<Rightarrow> string" where
  "external_subscription_link ord client =
     strip (str_or (case client of None \<Rightarrow> [] | Some v \<Rightarrow> vc_sub_link v) (case ord of None \<Rightarrow> [] | Some o1 \<Rightarrow> o_sub_link o1))"

text \<open>\<open>_cup_identity\<close> and \<open>_update_cup\<close>, on the record of the cup.\<close>

definition update_cup ::
  "env \<Rightarrow> db \<Rightarrow> (pk \<times> order) option \<Rightarrow> (pk \<times> vpn_client) option \<Rightarrow> bool \<Rightarrow> cup \<Rightarrow> cup" where
  "update_cup en d ord client force c =
     (let o1 = map_option snd ord; v = map_option snd client;
          plan_pk = orelse (Option.bind v vc_plan) (Option.bind o1 o_plan);
          p = Option.bind plan_pk (row (db_plans d));
          sub = external_subscription_link o1 v;
          devices = (case p of None \<Rightarrow> None | Some q \<Rightarrow> Some (pl_device_limit q))
      in c\<lparr>cp_customer := Option.bind o1 o_customer, cp_order := map_option fst ord, cp_plan := plan_pk,
           cp_vpn_client := map_option fst client, cp_expires_at := Option.bind v vc_expires_at,
           cp_traffic_limit_bytes :=
             int_or (case v of None \<Rightarrow> 0 | Some w \<Rightarrow> vc_traffic_limit_bytes w)
               (case p of None \<Rightarrow> 0 | Some q \<Rightarrow> traffic_limit_bytes q),
           cp_device_limit :=
             (case v of None \<Rightarrow> devices | Some w \<Rightarrow> if vc_device_limit w \<noteq> 0 then Some (vc_device_limit w) else devices),
           cp_title := cup_title d o1 v, cp_status := (if force then CupActive else cp_status c),
           cp_metadata := dset ''last_rebuilt_at'' (JInt (e_now en))
             (dset ''external_panel_subscription_link_saved'' (JBool (sub \<noteq> []))
               (dset ''external_panel_subscription_link'' (JStr sub) (cp_metadata c)))\<rparr>)"

definition cup_for_target :: "pk option \<Rightarrow> pk option \<Rightarrow> db \<Rightarrow> (pk \<times> cup) option" where
  "cup_for_target ord client d =
     first_of (ordered_where (\<lambda>(k, c). (cp_created_at c, k))
       (\<lambda>_ c. case client of
          Some v \<Rightarrow> cp_vpn_client c = Some v
        | None \<Rightarrow> cp_order c = ord \<and> cp_vpn_client c = None) (db_cups d))"

definition new_cup :: "env \<Rightarrow> string \<Rightarrow> cup" where
  "new_cup en token = \<lparr>cp_customer = None, cp_order = None, cp_plan = None, cp_vpn_client = None, cp_created_at = e_now en,
     cp_token = token, cp_status = CupActive, cp_expires_at = None, cp_traffic_limit_bytes = 0, cp_device_limit = None,
     cp_title = [], cp_metadata = []\<rparr>"

text \<open>The cup of the target, created when there is none, with its fields brought up to date.\<close>

definition obtain_cup ::
  "env \<Rightarrow> (pk \<times> order) option \<Rightarrow> (pk \<times> vpn_client) option \<Rightarrow> bool \<Rightarrow> db \<Rightarrow> pk \<times> db" where
  "obtain_cup en ord client force d =
     (case cup_for_target (map_option fst ord) (map_option fst client) d of
        Some (ck, c) \<Rightarrow> (ck, d\<lparr>db_cups := put ck (update_cup en d ord client force c) (db_cups d)\<rparr>)
      | None \<Rightarrow>
          let (token, d1) = draw (e_uuid en) d;
              (ck, cups) = add_row (update_cup en d ord client force (new_cup en token)) (db_cups d1)
          in (ck, d1\<lparr>db_cups := cups\<rparr>))"

definition managed_pairs :: "pk \<Rightarrow> db \<Rightarrow> (pk option \<times> pk option) list" where
  "managed_pairs ck d = map (\<lambda>(_, f). (fd_panel f, fd_vpn_client f)) (rows_where (\<lambda>_ f. fd_cup f = ck) (db_feeds d))"

fun cup_entries :: "link_reader \<Rightarrow> pk \<Rightarrow> pk option \<Rightarrow> string \<Rightarrow> nat \<Rightarrow> config_entry list \<Rightarrow> entry list" where
  "cup_entries lr ck client reason pos [] = []"
| "cup_entries lr ck client reason pos (e # es) =
     \<lparr>ey_raw_link = ce_raw_link e, ey_position = pos, ey_reason = reason, ey_metadata = ce_metadata e,
      ey_write = apply_config_link_parse lr (ce_raw_link e) PanelGenerated (ce_source_panel e) (ce_source_inbound e) client
        None (dset ''cup_id'' (JInt (int ck)) (ce_metadata e))\<rparr> # cup_entries lr ck client reason (Suc pos) es"

definition retire_items :: "(pk \<Rightarrow> cup_item \<Rightarrow> bool) \<Rightarrow> db \<Rightarrow> db" where
  "retire_items P d = d\<lparr>db_cup_items := modify_where P (\<lambda>i. i\<lparr>ci_is_active := False\<rparr>) (db_cup_items d)\<rparr>"

text \<open>The items of the cup brought in line with the entries: the others that no feed keeps are retired.\<close>

definition list_entries :: "link_reader \<Rightarrow> pk \<Rightarrow> pk option \<Rightarrow> string \<Rightarrow> config_entry list \<Rightarrow> db \<Rightarrow> db" where
  "list_entries lr ck client reason entries d =
     (let managed = managed_pairs ck d;
          kept = filter (\<lambda>e. (ce_source_panel e, client) \<notin> set managed) entries;
          (placed, d1) = place_entries ck (cup_entries lr ck client reason 1 kept) (linked_items (unmanaged ck) d) d
      in retire_items (\<lambda>ik i. ci_cup i = ck \<and> ik \<notin> set (map fst placed) \<and>
           (case row (db_config_links d1) (ci_config_link i) of None \<Rightarrow> False | Some l \<Rightarrow> cl_external_feed l = None)) d1)"

definition rebuild_cup ::
  "env \<Rightarrow> link_reader \<Rightarrow> delivery_tables \<Rightarrow> (pk \<times> order) option \<Rightarrow> (pk \<times> vpn_client) option \<Rightarrow> config_entry list \<Rightarrow> bool \<Rightarrow>
   string \<Rightarrow> db \<Rightarrow> (pk \<times> db) option" where
  "rebuild_cup en lr t ord client entries force reason d =
     (let o1 = (case ord of Some x \<Rightarrow> Some x | None \<Rightarrow> Option.bind client (\<lambda>(_, v). the_row (db_orders d) (vc_order v)));
          (ck, d1) = obtain_cup en o1 client force d;
          d2 = list_entries lr ck (map_option fst client) reason entries d1
      in map_option (\<lambda>(_, d3). (ck, d3)) (ensure_pasarguard_feeds_for_cup en lr t ck d2))"

definition rebuild_subscription_cup_for_vpn_client ::
  "env \<Rightarrow> link_reader \<Rightarrow> delivery_tables \<Rightarrow> pk \<times> vpn_client \<Rightarrow> bool \<Rightarrow> string \<Rightarrow> db \<Rightarrow> (pk \<times> db) option" where
  "rebuild_subscription_cup_for_vpn_client en lr t kv force reason d =
     rebuild_cup en lr t (the_row (db_orders d) (vc_order (snd kv))) (Some kv)
       (config_entries_for_vpn_client d (snd kv)) force reason d"

text \<open>The cups of all clients of the order, in turn; an exception keeps the cups already rebuilt.\<close>

fun rebuild_client_cups ::
  "env \<Rightarrow> link_reader \<Rightarrow> delivery_tables \<Rightarrow> bool \<Rightarrow> string \<Rightarrow> (pk \<times> vpn_client) list \<Rightarrow> db \<Rightarrow> pk list option \<times> db" where
  "rebuild_client_cups en lr t force reason [] d = (Some [], d)"
| "rebuild_client_cups en lr t force reason (kv # kvs) d =
     (case rebuild_subscription_cup_for_vpn_client en lr t kv force reason d of
        None \<Rightarrow> (None, d)
      | Some (ck, d1) \<Rightarrow>
          (case rebuild_client_cups en lr t force reason kvs d1 of (cks, d2) \<Rightarrow> (map_option ((#) ck) cks, d2)))"

definition rebuild_subscription_cups_for_order ::
  "env \<Rightarrow> link_reader \<Rightarrow> delivery_tables \<Rightarrow> pk \<times> order \<Rightarrow> bool \<Rightarrow> string \<Rightarrow> db \<Rightarrow> pk list option \<times> db" where
  "rebuild_subscription_cups_for_order en lr t ko force reason d =
     (let clients = sort_key (\<lambda>(k, v). (vc_created_at v, k)) (get_vpn_clients (fst ko) d);
          entries = config_entries_for_order d (snd ko)
      in if clients \<noteq> [] then rebuild_client_cups en lr t force reason clients d
         else if entries = [] then (Some [], d)
         else (case rebuild_cup en lr t (Some ko) None entries force reason d of
                 None \<Rightarrow> (None, d) | Some (ck, d1) \<Rightarrow> (Some [ck], d1)))"

section \<open>Finding and reading a cup\<close>

definition get_subscription_cup_for_vpn_client :: "pk option \<Rightarrow> db \<Rightarrow> (pk \<times> cup) option" where
  "get_subscription_cup_for_vpn_client v d = (if v = None then None else cup_for_target None v d)"

definition get_subscription_cup_for_order :: "pk option \<Rightarrow> db \<Rightarrow> (pk \<times> cup) option" where
  "get_subscription_cup_for_order ord d = (if ord = None then None else cup_for_target ord None d)"

fun join_lines :: "string list \<Rightarrow> string" where
  "join_lines [] = []"
| "join_lines [l] = l"
| "join_lines (l # ls) = l @ CHR 0x0A # join_lines ls"

definition render_subscription_cup_raw :: "pk \<Rightarrow> bool \<Rightarrow> db \<Rightarrow> string" where
  "render_subscription_cup_raw c newline d =
     (let text_of = join_lines (active_cup_links c d) in if text_of \<noteq> [] \<and> newline then text_of @ [CHR 0x0A] else text_of)"

text \<open>\<open>base64.b64encode\<close> and \<open>b64decode\<close> of a string of bytes; \<open>None\<close> is a padding or alphabet error.\<close>

definition b64_char :: "nat \<Rightarrow> char" where
  "b64_char n =
     char_of (if n < 26 then 65 + n else if n < 52 then 71 + n else if n < 62 then n - 4 else if n = 62 then 43 else 47)"

definition b64_value :: "char \<Rightarrow> nat option" where
  "b64_value c =
     (let n = chr_code c
      in if 65 \<le> n \<and> n \<le> 90 then Some (n - 65) else if 97 \<le> n \<and> n \<le> 122 then Some (n - 71)
         else if 48 \<le> n \<and> n \<le> 57 then Some (n + 4) else if n = 43 then Some 62 else if n = 47 then Some 63 else None)"

fun b64encode :: "string \<Rightarrow> string" where
  "b64encode [] = []"
| "b64encode [a] =
     (let x = chr_code a in [b64_char (x div 4), b64_char (x mod 4 * 16), CHR ''='', CHR ''=''])"
| "b64encode [a, b] =
     (let x = chr_code a; y = chr_code b
      in [b64_char (x div 4), b64_char (x mod 4 * 16 + y div 16), b64_char (y mod 16 * 4), CHR ''=''])"
| "b64encode (a # b # c # s) =
     (let x = chr_code a; y = chr_code b; z = chr_code c
      in b64_char (x div 4) # b64_char (x mod 4 * 16 + y div 16) # b64_char (y mod 16 * 4 + z div 64) # b64_char (z mod 64) #
         b64encode s)"

fun b64decode :: "string \<Rightarrow> string option" where
  "b64decode [] = Some []"
| "b64decode (a # b # c # e # s) =
     (if s = [] \<and> c = CHR ''='' \<and> e = CHR ''='' then
        (case (b64_value a, b64_value b) of (Some p, Some q) \<Rightarrow> Some [char_of (p * 4 + q div 16)] | _ \<Rightarrow> None)
      else if s = [] \<and> e = CHR ''='' then
        (case (b64_value a, b64_value b, b64_value c) of
           (Some p, Some q, Some r) \<Rightarrow> Some [char_of (p * 4 + q div 16), char_of (q mod 16 * 16 + r div 4)]
         | _ \<Rightarrow> None)
      else
        (case (b64_value a, b64_value b, b64_value c, b64_value e) of
           (Some p, Some q, Some r, Some v) \<Rightarrow>
             map_option (\<lambda>t. char_of (p * 4 + q div 16) # char_of (q mod 16 * 16 + r div 4) # char_of (r mod 4 * 64 + v) # t)
               (b64decode s)
         | _ \<Rightarrow> None))"
| "b64decode _ = None"

definition render_subscription_cup_base64 :: "pk \<Rightarrow> db \<Rightarrow> string" where
  "render_subscription_cup_base64 c d = b64encode (render_subscription_cup_raw c True d)"

definition last_chars :: "nat \<Rightarrow> string \<Rightarrow> string" where
  "last_chars n s = drop (length s - n) s"

definition mask_config_link_for_display :: "link_reader \<Rightarrow> config_link \<Rightarrow> string" where
  "mask_config_link_for_display lr l =
     (let p = parse_config_link lr (cl_raw_link l);
          protocol = str_or (str_or (cl_protocol l) (pk_protocol p)) ''unknown'';
          suffix = str_or (last_chars 8 (str_or (cl_normalized_hash l) (pk_normalized_hash p))) ''-'';
          remark = str_or (cl_remark l) (pk_remark p)
      in protocol @ ''://<hidden> - hash ending '' @ suffix @ (if remark = [] then [] else '' - '' @ take 48 remark))"

definition link_source_text :: "link_source \<Rightarrow> string" where
  "link_source_text s =
     (case s of PanelGenerated \<Rightarrow> ''panel_generated'' | ManualLink \<Rightarrow> ''manual'' | ImportedSubscription \<Rightarrow> ''imported_subscription''
      | ExternalSubscription \<Rightarrow> ''external_subscription'' | UnknownOrigin \<Rightarrow> ''unknown'')"

definition cup_status_text :: "cup_status \<Rightarrow> string" where
  "cup_status_text s = (case s of CupActive \<Rightarrow> ''active'' | CupDisabled \<Rightarrow> ''disabled'' | CupExpired \<Rightarrow> ''expired'')"

definition json_cup_item :: "link_reader \<Rightarrow> bool \<Rightarrow> config_link \<Rightarrow> json" where
  "json_cup_item lr include_links l =
     JObj ([(''protocol'', JStr (str_or (cl_protocol l) ''unknown'')), (''remark'', JStr (cl_remark l)),
       (''host'', JStr (cl_host l)), (''port'', jint_opt (cl_port l)),
       (''source_type'', JStr (link_source_text (cl_source_type l))),
       (''masked_link'', JStr (mask_config_link_for_display lr l))] @
       (if include_links then [(''raw_link'', JStr (cl_raw_link l))] else []))"

definition render_subscription_cup_json :: "env \<Rightarrow> link_reader \<Rightarrow> pk \<times> cup \<Rightarrow> bool \<Rightarrow> db \<Rightarrow> json" where
  "render_subscription_cup_json en lr kc include_links d =
     (let c = snd kc; items = linked_items (shown (fst kc)) d
      in JObj [(''title'', JStr (cp_title c)), (''status'', JStr (cup_status_text (cp_status c))),
           (''is_accessible'', JBool (cup_is_accessible en c)), (''is_expired'', JBool (cup_is_expired en c)),
           (''expires_at'', jint_opt (cp_expires_at c)), (''traffic_limit_bytes'', JInt (cp_traffic_limit_bytes c)),
           (''device_limit'', jpk (cp_device_limit c)), (''active_item_count'', JInt (int (length items))),
           (''protocols'', JList (map JStr (cup_protocols (fst kc) d))),
           (''items'', JList (map (\<lambda>(_, _, l). json_cup_item lr include_links l) items))])"

text \<open>The answer as text, or as the value that \<open>json.dumps\<close> writes out.\<close>

definition render_subscription_cup :: "env \<Rightarrow> link_reader \<Rightarrow> pk \<times> cup \<Rightarrow> string \<Rightarrow> bool \<Rightarrow> db \<Rightarrow> json + string" where
  "render_subscription_cup en lr kc format include_links d =
     (let selected = lower (strip (str_or format ''base64''))
      in if selected = ''raw'' then Inr (render_subscription_cup_raw (fst kc) False d)
         else if selected = ''json'' then Inl (render_subscription_cup_json en lr kc include_links d)
         else Inr (render_subscription_cup_base64 (fst kc) d))"

text \<open>Addresses of a cup, without a request to take the host from.\<close>

definition build_subscription_cup_path :: "cup \<Rightarrow> string" where
  "build_subscription_cup_path c = ''/sub/'' @ cp_token c"

definition public_base_url_for_store :: "link_reader \<Rightarrow> bool \<Rightarrow> store option \<Rightarrow> string option" where
  "public_base_url_for_store lr debug st =
     (let domain = rev (dropWhile (\<lambda>x. x = CHR ''/'') (rev (strip (case st of None \<Rightarrow> [] | Some s \<Rightarrow> st_domain s))))
      in if domain = [] then Some []
         else map_option (\<lambda>u. if u_scheme u \<noteq> [] \<and> u_netloc u \<noteq> [] then domain
                              else (if debug then ''http'' else ''https'') @ ''://'' @ domain) (urlsplit lr domain))"

fun replace_all :: "nat \<Rightarrow> string \<Rightarrow> string \<Rightarrow> string \<Rightarrow> string" where
  "replace_all skip old new [] = []"
| "replace_all (Suc k) old new (c # s) = replace_all k old new s"
| "replace_all 0 old new (c # s) =
     (if starts_with old (c # s) then new @ replace_all (length old - 1) old new s else c # replace_all 0 old new s)"

definition mask_subscription_url :: "string \<Rightarrow> string \<Rightarrow> string" where
  "mask_subscription_url url token =
     (if token = [] \<or> \<not> contains token url then url
      else replace_all 0 token
        (if length token \<le> 8 then ''***'' else take 4 token @ ''...'' @ last_chars 4 token) url)"

text \<open>
  \<open>str.splitlines\<close> on UTF-8 bytes: the length of the line separator a text starts with. The separators
  are LF, VT, FF, CR, CR LF, the information separators FS, GS and RS, U+0085, U+2028 and U+2029.
\<close>

fun separator_length :: "string \<Rightarrow> nat" where
  "separator_length [] = 0"
| "separator_length (c # s) =
     (let n = chr_code c; next1 = (case s of a # _ \<Rightarrow> chr_code a | [] \<Rightarrow> 0);
          next2 = (case s of _ # b # _ \<Rightarrow> chr_code b | _ \<Rightarrow> 0)
      in if n = 13 \<and> next1 = 10 then 2 else if (10 \<le> n \<and> n \<le> 13) \<or> (28 \<le> n \<and> n \<le> 30) then 1
         else if n = 194 \<and> next1 = 133 then 2 else if n = 226 \<and> next1 = 128 \<and> next2 \<in> {168, 169} then 3 else 0)"

fun lines_from :: "string \<Rightarrow> nat \<Rightarrow> string \<Rightarrow> string list" where
  "lines_from acc skip [] = (if acc = [] then [] else [rev acc])"
| "lines_from acc (Suc k) (c # s) = lines_from acc k s"
| "lines_from acc 0 (c # s) =
     (let n = separator_length (c # s) in if n = 0 then lines_from (c # acc) 0 s else rev acc # lines_from [] (n - 1) s)"

definition text_lines :: "string \<Rightarrow> string list" where
  "text_lines s = lines_from [] 0 s"

text \<open>
  The check \<open>repair_and_refresh_pasarguard_subscriptions\<close> makes of each refreshed cup; \<open>False\<close> is its
  \<open>RuntimeError\<close>.
\<close>

definition serialization_agrees :: "pk \<Rightarrow> db \<Rightarrow> bool" where
  "serialization_agrees c d \<longleftrightarrow>
     map_option text_lines (b64decode (render_subscription_cup_base64 c d)) = Some (active_cup_links c d)"

end
