(* ===== verification/Subscription_Feeds.thy ===== *)
theory Subscription_Feeds
  imports Subscription_Cups
begin

text \<open>
  \<open>store/external_subscription_sources.py\<close>: refreshing the links of a feed from its upstream. A refresher
  claims the feed by a lease with a random token, fetches without a lock, and writes under a lock only
  while its lease is the one on the feed. The three steps are separate operations, as other refreshers may
  run between them; the fetch over the network is an argument.
\<close>

section \<open>Times and counters\<close>

definition drop_protection_min_previous_count :: nat where
  "drop_protection_min_previous_count = 5"

definition feed_error_threshold :: nat where
  "feed_error_threshold = 2"

definition hex_value :: "string \<Rightarrow> nat" where
  "hex_value s = foldl (\<lambda>acc c. 16 * acc + (case hex_digit c of Some n \<Rightarrow> n | None \<Rightarrow> 0)) 0 s"

definition next_refresh_at_for_feed :: "link_reader \<Rightarrow> instant \<Rightarrow> int option \<Rightarrow> pk \<Rightarrow> feed \<Rightarrow> instant" where
  "next_refresh_at_for_feed lr now interval k f =
     (let dflt = int_or (fd_refresh_interval_hours f) 1;
          h = (case interval of None \<Rightarrow> dflt | Some n \<Rightarrow> if 0 < n then n else dflt);
          interval_seconds = h * 60 * 60; jitter_window = min (30 * 60) (max 60 (interval_seconds div 10));
          identity = show_nat k @ '':'' @ fd_provider f @ '':'' @ fd_remote_identity_ref f;
          jitter = int (hex_value (take 8 (lr_sha lr identity))) mod jitter_window
      in now + seconds (interval_seconds + jitter))"

definition positive_interval :: "int \<Rightarrow> int" where
  "positive_interval n = (if n \<le> 0 then 1 else min n 720)"

definition update_external_feed_refresh_interval :: "link_reader \<Rightarrow> instant \<Rightarrow> pk \<Rightarrow> int \<Rightarrow> db \<Rightarrow> db" where
  "update_external_feed_refresh_interval lr now fk hrs d =
     (case row (db_feeds d) fk of
        None \<Rightarrow> d
      | Some f \<Rightarrow>
          let h = positive_interval hrs;
              f1 = f\<lparr>fd_resolved_filter_policy := dset ''refresh_interval_hours'' (JInt h) (fd_resolved_filter_policy f),
                     fd_refresh_interval_hours := h\<rparr>
          in d\<lparr>db_feeds := put fk (f1\<lparr>fd_next_refresh_at := Some (next_refresh_at_for_feed lr now (Some h) fk f1)\<rparr>) (db_feeds d)\<rparr>)"

definition update_existing_feed_intervals_for_source :: "link_reader \<Rightarrow> instant \<Rightarrow> pk \<Rightarrow> int \<Rightarrow> db \<Rightarrow> nat \<times> db" where
  "update_existing_feed_intervals_for_source lr now src hrs d =
     (let fs = ordered_where fst (\<lambda>_ f. fd_delivery_source f = Some src) (db_feeds d)
      in (length fs, fold (\<lambda>(k, _). update_external_feed_refresh_interval lr now k hrs) fs d))"

definition feed_items :: "pk \<Rightarrow> pk \<Rightarrow> cup_item \<Rightarrow> config_link \<Rightarrow> bool" where
  "feed_items fk c i l \<longleftrightarrow> ci_cup i = c \<and> cl_external_feed l = Some fk"

definition source_owned_cup_item_count :: "pk \<Rightarrow> feed \<Rightarrow> db \<Rightarrow> nat" where
  "source_owned_cup_item_count fk f d =
     length (linked_items (\<lambda>i l. shown (fd_cup f) i l \<and> cl_external_feed l = Some fk) d)"

section \<open>Outcomes\<close>

datatype refresh_code =
    NoCode | RefreshNotAvailable | RefreshSuperseded | RefreshSourceChanged | FeedIsDisabled
  | UpstreamEmpty | FilterResultEmpty | SuspiciousDrop | FetchFailed string

definition refresh_code_text :: "refresh_code \<Rightarrow> string" where
  "refresh_code_text c =
     (case c of
        NoCode \<Rightarrow> [] | RefreshNotAvailable \<Rightarrow> ''refresh_not_available'' | RefreshSuperseded \<Rightarrow> ''refresh_superseded''
      | RefreshSourceChanged \<Rightarrow> ''refresh_source_changed'' | FeedIsDisabled \<Rightarrow> ''external_feed_disabled''
      | UpstreamEmpty \<Rightarrow> ''upstream_empty'' | FilterResultEmpty \<Rightarrow> ''filter_result_empty''
      | SuspiciousDrop \<Rightarrow> ''suspicious_config_drop''
      | FetchFailed s \<Rightarrow> take 80 (str_or s ''external_subscription_refresh_failed''))"

record refresh_summary =
  sr_feed :: pk
  sr_ok :: bool
  sr_status :: feed_status
  sr_dry_run :: bool
  sr_skipped :: bool
  sr_kept_last_good :: bool
  sr_code :: refresh_code
  sr_selected_count :: nat
  sr_current_item_count :: nat

definition summary :: "pk \<Rightarrow> feed \<Rightarrow> filter_result option \<Rightarrow> db \<Rightarrow> refresh_summary" where
  "summary fk f r d =
     \<lparr>sr_feed = fk, sr_ok = False, sr_status = fd_status f, sr_dry_run = False, sr_skipped = False, sr_kept_last_good = False,
      sr_code = NoCode, sr_selected_count = (case r of None \<Rightarrow> 0 | Some x \<Rightarrow> fl_selected_count x),
      sr_current_item_count = source_owned_cup_item_count fk f d\<rparr>"

definition skipped :: "refresh_code \<Rightarrow> refresh_summary \<Rightarrow> refresh_summary" where
  "skipped c s = s\<lparr>sr_skipped := True, sr_kept_last_good := True, sr_code := c\<rparr>"

definition filter_json :: "filter_result \<Rightarrow> json" where
  "filter_json r =
     JObj [(''upstream_count'', JInt (int (fl_upstream_count r))), (''parsed_count'', JInt (int (fl_upstream_count r))),
       (''invalid_count'', JInt (int (fl_invalid_count r))), (''deduplicated_count'', JInt (int (fl_deduplicated_count r))),
       (''filtered_count'', JInt (int (fl_filtered_count r))), (''selected_count'', JInt (int (fl_selected_count r)))]"

section \<open>Claiming and releasing\<close>

definition cup_of_feed :: "db \<Rightarrow> feed \<Rightarrow> cup option" where
  "cup_of_feed d f = row (db_cups d) (fd_cup f)"

definition feed_cup_accessible :: "env \<Rightarrow> feed \<Rightarrow> db \<Rightarrow> bool" where
  "feed_cup_accessible en f d = (case cup_of_feed d f of None \<Rightarrow> False | Some c \<Rightarrow> cup_is_accessible en c)"

definition lease_seconds :: int where
  "lease_seconds = 90"

definition claim_refused :: "env \<Rightarrow> bool \<Rightarrow> int \<Rightarrow> feed \<Rightarrow> db \<Rightarrow> bool" where
  "claim_refused en force min_interval f d \<longleftrightarrow>
     \<not> feed_cup_accessible en f d \<or> (\<not> force \<and> feed_unavailable f) \<or>
     (case fd_refresh_lease_until f of None \<Rightarrow> False | Some t \<Rightarrow> t > e_now en) \<or>
     (min_interval \<noteq> 0 \<and>
      (case fd_last_attempt_at f of None \<Rightarrow> False | Some t \<Rightarrow> t > e_now en - seconds min_interval))"

text \<open>The claim of \<open>refresh_external_subscription_feed\<close>; the token is random.\<close>

definition claim_refresh :: "env \<Rightarrow> string \<Rightarrow> bool \<Rightarrow> int \<Rightarrow> pk \<Rightarrow> db \<Rightarrow> (refresh_summary option \<times> db) option" where
  "claim_refresh en token force min_interval fk d =
     (case row (db_feeds d) fk of
        None \<Rightarrow> None
      | Some f \<Rightarrow>
          if claim_refused en force min_interval f d
          then Some (Some (skipped RefreshNotAvailable (summary fk f None d)), d)
          else Some (None, d\<lparr>db_feeds := put fk (f\<lparr>fd_refresh_token := token,
                 fd_refresh_lease_until := Some (e_now en + seconds lease_seconds),
                 fd_last_attempt_at := Some (e_now en)\<rparr>) (db_feeds d)\<rparr>))"

definition release_refresh :: "string \<Rightarrow> pk \<Rightarrow> db \<Rightarrow> db" where
  "release_refresh token fk d =
     d\<lparr>db_feeds := modify_where (\<lambda>k f. k = fk \<and> fd_refresh_token f = token)
         (\<lambda>f. f\<lparr>fd_refresh_token := [], fd_refresh_lease_until := None\<rparr>) (db_feeds d)\<rparr>"

text \<open>The test at the start of a write: the feed carries the token and the lease has not run out.\<close>

definition superseded :: "env \<Rightarrow> string option \<Rightarrow> feed \<Rightarrow> bool" where
  "superseded en token f \<longleftrightarrow>
     (case token of
        None \<Rightarrow> False
      | Some tk \<Rightarrow> fd_refresh_token f \<noteq> tk \<or> (case fd_refresh_lease_until f of None \<Rightarrow> True | Some t \<Rightarrow> t \<le> e_now en))"

section \<open>Writing the outcome\<close>

definition failed_feed :: "env \<Rightarrow> link_reader \<Rightarrow> refresh_code \<Rightarrow> filter_result option \<Rightarrow> pk \<Rightarrow> feed \<Rightarrow> feed" where
  "failed_feed en lr c r fk f =
     (let n = Suc (fd_consecutive_failures f);
          f1 = f\<lparr>fd_last_attempt_at := Some (e_now en), fd_consecutive_failures := n,
                 fd_status := (if feed_error_threshold \<le> n then FeedError else FeedDegraded),
                 fd_last_error_code := refresh_code_text c,
                 fd_last_seen_upstream_count := (case r of None \<Rightarrow> fd_last_seen_upstream_count f | Some x \<Rightarrow> fl_upstream_count x),
                 fd_last_filtered_count := (case r of None \<Rightarrow> fd_last_filtered_count f | Some x \<Rightarrow> fl_filtered_count x)\<rparr>;
          meta = dset ''last_refresh_error'' (JObj [(''code'', JStr (refresh_code_text c)), (''at'', JInt (e_now en)),
                   (''kept_last_good'', JBool True)]) (fd_metadata f)
      in f1\<lparr>fd_next_refresh_at := Some (next_refresh_at_for_feed lr (e_now en) None fk f1),
            fd_metadata := (case r of None \<Rightarrow> meta | Some x \<Rightarrow> dset ''last_filter_preview'' (filter_json x) meta)\<rparr>)"

text \<open>\<open>orig\<close> is the feed as it was read before the fetch. \<open>None\<close>: the row is gone.\<close>

definition mark_feed_failure ::
  "env \<Rightarrow> link_reader \<Rightarrow> string option \<Rightarrow> pk \<Rightarrow> feed \<Rightarrow> refresh_code \<Rightarrow> filter_result option \<Rightarrow> db \<Rightarrow> (refresh_summary \<times> db) option" where
  "mark_feed_failure en lr token fk orig c r d =
     (case row (db_feeds d) fk of
        None \<Rightarrow> None
      | Some f \<Rightarrow>
          if superseded en token f then Some (skipped RefreshSuperseded (summary fk f r d), d)
          else if \<not> feed_cup_accessible en f d \<or> (\<not> feed_unavailable orig \<and> feed_unavailable f)
          then Some (skipped FeedIsDisabled (summary fk f r d), d)
          else
            let f1 = failed_feed en lr c r fk f
            in Some ((summary fk f1 r d)\<lparr>sr_kept_last_good := True, sr_code := c\<rparr>,
                     d\<lparr>db_feeds := put fk f1 (db_feeds d)\<rparr>))"

definition config_metadata :: "pk \<Rightarrow> feed \<Rightarrow> native \<Rightarrow> nat \<Rightarrow> dict" where
  "config_metadata fk f n pos =
     [(''source'', JStr ''external_subscription_feed''), (''external_feed_id'', JInt (int fk)), (''provider'', JStr (fd_provider f)),
      (''position'', JInt (int pos)), (''protocol'', JStr (nv_protocol n)), (''security'', JStr (nv_security n)),
      (''transport'', JStr (nv_transport n)), (''host'', JStr (nv_host n)), (''port'', jint_opt (nv_port n)),
      (''remark'', JStr (nv_remark n)), (''has_pbk'', JBool (nv_has_pbk n)), (''semantic_fingerprint'', JStr (nv_fingerprint n))]"

definition write_native :: "link_reader \<Rightarrow> pk \<Rightarrow> feed \<Rightarrow> native \<Rightarrow> nat \<Rightarrow> config_link \<Rightarrow> config_link" where
  "write_native lr fk f n pos l =
     (apply_config_link_parse lr (nv_raw_link n) ExternalSubscription (fd_panel f) None (fd_vpn_client f) (Some (Some fk))
        (config_metadata fk f n pos) l)\<lparr>cl_protocol := nv_protocol n, cl_remark := nv_remark n, cl_host := nv_host n,
        cl_port := nv_port n\<rparr>"

fun feed_entries :: "link_reader \<Rightarrow> pk \<Rightarrow> feed \<Rightarrow> nat \<Rightarrow> native list \<Rightarrow> entry list" where
  "feed_entries lr fk f pos [] = []"
| "feed_entries lr fk f pos (n # ns) =
     \<lparr>ey_raw_link = nv_raw_link n, ey_position = pos, ey_reason = ''external_subscription_feed'',
      ey_metadata = config_metadata fk f n pos, ey_write = write_native lr fk f n pos\<rparr> # feed_entries lr fk f (Suc pos) ns"

definition base_position :: "pk \<Rightarrow> feed \<Rightarrow> db \<Rightarrow> nat" where
  "base_position fk f d =
     (case map (\<lambda>(_, i, _). ci_position i) (linked_items (feed_items fk (fd_cup f)) d) of
        p # ps \<Rightarrow> Min (set (p # ps))
      | [] \<Rightarrow>
          Suc (foldr max (map (\<lambda>(_, i, _). ci_position i)
            (linked_items (\<lambda>i l. ci_cup i = fd_cup f \<and> ci_is_active i \<and> cl_external_feed l \<noteq> Some fk) d)) 0))"

text \<open>The links and items of the feed brought in line with the selected configurations.\<close>

definition reconcile_items :: "link_reader \<Rightarrow> pk \<Rightarrow> feed \<Rightarrow> native list \<Rightarrow> db \<Rightarrow> db" where
  "reconcile_items lr fk f ns d =
     (let existing = linked_items (feed_items fk (fd_cup f)) d;
          (placed, d1) = place_entries (fd_cup f) (feed_entries lr fk f (base_position fk f d) ns) existing d;
          stale = filter (\<lambda>(ik, _, _). ik \<notin> set (map fst placed)) existing;
          d2 = retire_items (\<lambda>ik _. ik \<in> set (map fst stale)) d1
      in d2\<lparr>db_config_links := modify_where
           (\<lambda>lk l. lk \<in> set (map (\<lambda>(_, i, _). ci_config_link i) stale) \<and> cl_external_feed l = Some fk)
           (\<lambda>l. l\<lparr>cl_is_active := False\<rparr>) (db_config_links d2)\<rparr>)"

definition dpop :: "string \<Rightarrow> dict \<Rightarrow> dict" where
  "dpop k d = filter (\<lambda>(j, _). j \<noteq> k) d"

definition refreshed_feed :: "env \<Rightarrow> link_reader \<Rightarrow> filter_result \<Rightarrow> pk \<Rightarrow> feed \<Rightarrow> feed" where
  "refreshed_feed en lr r fk f =
     (let h = fp_refresh_interval_hours (fl_policy r);
          f1 = f\<lparr>fd_status := FeedHealthy, fd_active := True, fd_last_attempt_at := Some (e_now en),
                 fd_last_success_at := Some (e_now en), fd_consecutive_failures := 0, fd_last_error_code := [],
                 fd_last_good_config_count := fl_selected_count r, fd_last_seen_upstream_count := fl_upstream_count r,
                 fd_last_filtered_count := fl_filtered_count r, fd_refresh_interval_hours := h\<rparr>
      in f1\<lparr>fd_next_refresh_at := Some (next_refresh_at_for_feed lr (e_now en) (Some h) fk f1),
            fd_metadata := dpop ''last_refresh_error''
              (dset ''last_successful_refresh'' (JObj ((''at'', JInt (e_now en)) # as_dict (filter_json r))) (fd_metadata f))\<rparr>)"

definition source_changed :: "feed \<Rightarrow> feed \<Rightarrow> bool" where
  "source_changed orig f \<longleftrightarrow>
     fd_cup f \<noteq> fd_cup orig \<or> fd_panel f \<noteq> fd_panel orig \<or> fd_vpn_client f \<noteq> fd_vpn_client orig \<or>
     fd_protected_subscription_url f \<noteq> fd_protected_subscription_url orig \<or>
     fd_resolved_filter_policy f \<noteq> fd_resolved_filter_policy orig"

definition reconcile_success ::
  "env \<Rightarrow> link_reader \<Rightarrow> string option \<Rightarrow> bool \<Rightarrow> pk \<Rightarrow> feed \<Rightarrow> filter_result \<Rightarrow> db \<Rightarrow> (refresh_summary \<times> db) option" where
  "reconcile_success en lr token allow_disabled fk orig r d =
     (case (row (db_feeds d) fk, row (db_cups d) (fd_cup orig)) of
        (Some f, Some _) \<Rightarrow>
          if superseded en token f then Some (skipped RefreshSuperseded (summary fk f (Some r) d), d)
          else if source_changed orig f then Some (skipped RefreshSourceChanged (summary fk f (Some r) d), d)
          else if \<not> feed_cup_accessible en f d \<or> (feed_unavailable f \<and> \<not> allow_disabled)
          then Some (skipped FeedIsDisabled (summary fk f (Some r) d), d)
          else
            let d1 = reconcile_items lr fk f (fl_selected r) d; f1 = refreshed_feed en lr r fk f;
                d2 = d1\<lparr>db_feeds := put fk f1 (db_feeds d1)\<rparr>
            in Some ((summary fk f1 (Some r) d2)\<lparr>sr_ok := True, sr_status := FeedHealthy\<rparr>, d2)
      | _ \<Rightarrow> None)"

section \<open>A refresh\<close>

text \<open>
  The code compares the number of lost links with \<open>previous_count * 0.70\<close>, a product of doubles. The
  double nearest to \<open>0.70\<close> is \<open>6305039478318694 / 2^53\<close>, and the product is rounded to 53 bits, ties to
  even: for some counts that are multiples of ten the bound is just below seven tenths.
\<close>

fun bit_count :: "nat \<Rightarrow> nat" where
  "bit_count n = (if n = 0 then 0 else Suc (bit_count (n div 2)))"

declare bit_count.simps [simp del]

definition round_to_53_bits :: "nat \<Rightarrow> nat" where
  "round_to_53_bits n =
     (let k = bit_count n - 53; q = n div 2 ^ k; r = n mod 2 ^ k
      in if k = 0 then n else (if 2 * r > 2 ^ k \<or> (2 * r = 2 ^ k \<and> odd q) then Suc q else q) * 2 ^ k)"

definition exceeds_drop_ratio :: "nat \<Rightarrow> nat \<Rightarrow> bool" where
  "exceeds_drop_ratio previous selected \<longleftrightarrow>
     (int previous - int selected) * 2 ^ 53 > int (round_to_53_bits (previous * 6305039478318694))"

definition should_block_massive_drop :: "bool \<Rightarrow> pk \<Rightarrow> feed \<Rightarrow> filter_result \<Rightarrow> db \<Rightarrow> bool" where
  "should_block_massive_drop force fk f r d \<longleftrightarrow>
     (let previous = (if fd_last_good_config_count f \<noteq> 0 then fd_last_good_config_count f else source_owned_cup_item_count fk f d)
      in \<not> force \<and> previous \<ge> drop_protection_min_previous_count \<and> exceeds_drop_ratio previous (fl_selected_count r))"

text \<open>\<open>Inl\<close> is the code of an \<open>ExternalSubscriptionRefreshError\<close>; \<open>fetch\<close> reads from a panel.\<close>

definition fetch_native_links ::
  "(pk \<times> panel \<Rightarrow> string \<Rightarrow> string + string list) \<Rightarrow> feed \<Rightarrow> db \<Rightarrow> string + string list" where
  "fetch_native_links fetch f d =
     (if lower (strip (fd_provider f)) \<noteq> ''pasarguard'' then Inl ''external_feed_provider_unsupported''
      else case the_row (db_panels d) (fd_panel f) of
             None \<Rightarrow> Inl ''external_feed_panel_missing''
           | Some pn \<Rightarrow>
               let url = strip (fd_protected_subscription_url f)
               in if url = [] then Inl ''external_feed_subscription_url_missing'' else fetch pn url)"

definition failure_code :: "bool \<Rightarrow> pk \<Rightarrow> feed \<Rightarrow> filter_result \<Rightarrow> db \<Rightarrow> refresh_code" where
  "failure_code force fk f r d =
     (if fl_selected_count r = 0 then if fl_upstream_count r = 0 then UpstreamEmpty else FilterResultEmpty
      else if should_block_massive_drop force fk f r d then SuspiciousDrop else NoCode)"

text \<open>
  What a refresher writes once it holds the answer of the upstream: \<open>snap\<close> is the feed and \<open>d0\<close> the
  database it read before the fetch, \<open>d\<close> the database at the time of the write.
\<close>

datatype refresh_end = Crashed | Finished refresh_summary

definition write_outcome ::
  "env \<Rightarrow> link_reader \<Rightarrow> string option \<Rightarrow> bool \<Rightarrow> pk \<Rightarrow> feed \<Rightarrow> string + string list \<Rightarrow> db \<Rightarrow> refresh_end \<times> db" where
  "write_outcome en lr token force fk snap answer d =
     (let finish = (\<lambda>x. case x of None \<Rightarrow> (Crashed, d) | Some (s, d1) \<Rightarrow> (Finished s, d1))
      in case answer of
           Inl e \<Rightarrow> finish (mark_feed_failure en lr token fk snap (FetchFailed e) None d)
         | Inr raws \<Rightarrow>
             (case filter_native_configs lr raws (fd_resolved_filter_policy snap) of
                None \<Rightarrow> (Crashed, d)
              | Some r \<Rightarrow>
                  let c = failure_code force fk snap r d
                  in if c \<noteq> NoCode then finish (mark_feed_failure en lr token fk snap c (Some r) d)
                     else finish (reconcile_success en lr token (force \<and> feed_unavailable snap) fk snap r d)))"

text \<open>\<open>refresh_external_subscription_feed\<close> when no other request comes between its steps.\<close>

definition refresh_external_subscription_feed ::
  "env \<Rightarrow> link_reader \<Rightarrow> (pk \<times> panel \<Rightarrow> string \<Rightarrow> string + string list) \<Rightarrow> string \<Rightarrow> bool \<Rightarrow> int \<Rightarrow> pk \<Rightarrow> db \<Rightarrow>
   refresh_end \<times> db" where
  "refresh_external_subscription_feed en lr fetch token force min_interval fk d =
     (case claim_refresh en token force min_interval fk d of
        None \<Rightarrow> (Crashed, d)
      | Some (Some s, d1) \<Rightarrow> (Finished s, d1)
      | Some (None, d1) \<Rightarrow>
          (case row (db_feeds d1) fk of
             None \<Rightarrow> (Crashed, d1)
           | Some snap \<Rightarrow>
               if feed_unavailable snap \<and> \<not> force
               then (Finished ((summary fk snap None d1)\<lparr>sr_skipped := True, sr_status := FeedDisabled, sr_code := FeedIsDisabled\<rparr>),
                     release_refresh token fk d1)
               else
                 (case write_outcome en lr (Some token) force fk snap (fetch_native_links fetch snap d1) d1 of
                    (e, d2) \<Rightarrow> (e, release_refresh token fk d2))))"

text \<open>The preview of a refresh: it takes no lease and writes nothing.\<close>

definition preview_refresh ::
  "link_reader \<Rightarrow> (pk \<times> panel \<Rightarrow> string \<Rightarrow> string + string list) \<Rightarrow> bool \<Rightarrow> pk \<Rightarrow> db \<Rightarrow> refresh_end" where
  "preview_refresh lr fetch force fk d =
     (case row (db_feeds d) fk of
        None \<Rightarrow> Crashed
      | Some f \<Rightarrow>
          if feed_unavailable f \<and> \<not> force
          then Finished ((summary fk f None d)\<lparr>sr_skipped := True, sr_status := FeedDisabled, sr_code := FeedIsDisabled\<rparr>)
          else
            (case fetch_native_links fetch f d of
               Inl e \<Rightarrow> Finished ((summary fk f None d)\<lparr>sr_dry_run := True, sr_kept_last_good := True, sr_code := FetchFailed e\<rparr>)
             | Inr raws \<Rightarrow>
                 (case filter_native_configs lr raws (fd_resolved_filter_policy f) of
                    None \<Rightarrow> Crashed
                  | Some r \<Rightarrow>
                      let c = failure_code force fk f r d
                      in Finished ((summary fk f (Some r) d)\<lparr>sr_dry_run := True, sr_ok := c = NoCode,
                           sr_kept_last_good := c \<noteq> NoCode, sr_code := c\<rparr>))))"

text \<open>The due feeds are refreshed in turn; each draws its token from a stream.\<close>

definition due_feeds :: "env \<Rightarrow> bool \<Rightarrow> db \<Rightarrow> (pk \<times> feed) list" where
  "due_feeds en force d =
     ordered_where (\<lambda>(k, f). (fd_next_refresh_at f, k))
       (\<lambda>_ f. fd_active f \<and> fd_status f \<noteq> FeedDisabled \<and>
          (case cup_of_feed d f of
             None \<Rightarrow> False
           | Some c \<Rightarrow> cp_status c = CupActive \<and> (case cp_expires_at c of None \<Rightarrow> True | Some t \<Rightarrow> t > e_now en)) \<and>
          (force \<or> (case fd_next_refresh_at f of None \<Rightarrow> True | Some t \<Rightarrow> t \<le> e_now en))) (db_feeds d)"

fun refresh_each ::
  "env \<Rightarrow> link_reader \<Rightarrow> (pk \<times> panel \<Rightarrow> string \<Rightarrow> string + string list) \<Rightarrow> (nat \<Rightarrow> string) \<Rightarrow> nat \<Rightarrow> bool \<Rightarrow> pk list \<Rightarrow> db \<Rightarrow>
   refresh_end list \<times> db" where
  "refresh_each en lr fetch tokens n force [] d = ([], d)"
| "refresh_each en lr fetch tokens n force (fk # fks) d =
     (let (e, d1) = refresh_external_subscription_feed en lr fetch (tokens n) force 0 fk d;
          (es, d2) = refresh_each en lr fetch tokens (Suc n) force fks d1
      in (e # es, d2))"

definition refresh_due_external_subscription_feeds ::
  "env \<Rightarrow> link_reader \<Rightarrow> (pk \<times> panel \<Rightarrow> string \<Rightarrow> string + string list) \<Rightarrow> (nat \<Rightarrow> string) \<Rightarrow> bool \<Rightarrow> nat option \<Rightarrow> db \<Rightarrow>
   refresh_end list \<times> db" where
  "refresh_due_external_subscription_feeds en lr fetch tokens force limit d =
     (let due = map fst (due_feeds en force d); due1 = (case limit of None \<Rightarrow> due | Some n \<Rightarrow> if n = 0 then due else take n due)
      in refresh_each en lr fetch tokens 0 force due1 d)"

end
