(* ===== verification/Cup_Facts.thy ===== *)
theory Cup_Facts
  imports Subscription_Feeds "HOL-Library.Multiset"
begin

text \<open>
  Facts about the items of cups: what a query over them returns, the invariant of their tables, and
  what listing a sequence of entries does to them.
\<close>

section \<open>Queries over items\<close>

definition item_key :: "linked_item \<Rightarrow> nat \<times> pk" where
  "item_key x = (ci_position (fst (snd x)), fst x)"

lemma linked_items_eq:
  "linked_items P d = sort_key item_key (filter (\<lambda>(k, i, l). P i l) (List.map_filter (with_link d) (db_cup_items d)))"
proof -
  have "(\<lambda>(k, i, l). (ci_position i, k)) = item_key" by (auto simp: item_key_def fun_eq_iff)
  then show ?thesis by (simp add: linked_items_def)
qed

lemma set_linked_items:
  "(k, i, l) \<in> set (linked_items P d) \<longleftrightarrow>
   (k, i) \<in> set (db_cup_items d) \<and> row (db_config_links d) (ci_config_link i) = Some l \<and> P i l"
  by (force simp: linked_items_def with_link_def List.map_filter_def)

lemma sorted_linked_items [simp]: "sorted (map item_key (linked_items P d))"
  by (simp add: linked_items_eq)

lemma linked_keys_subset:
  "map fst (filter Q (List.map_filter (with_link d) t)) = map fst (filter (\<lambda>ki. \<exists>x. with_link d ki = Some x \<and> Q x) t)"
  by (induction t) (auto simp: List.map_filter_simps with_link_def split: option.splits)

lemma distinct_linked_items [simp]: "wf_table (db_cup_items d) \<Longrightarrow> distinct (map fst (linked_items P d))"
proof -
  assume wf: "wf_table (db_cup_items d)"
  let ?xs = "filter (\<lambda>(k, i, l). P i l) (List.map_filter (with_link d) (db_cup_items d))"
  have "distinct (map fst ?xs)"
    using wf unfolding linked_keys_subset wf_table_def by (rule distinct_map_filter)
  then show ?thesis
    unfolding linked_items_eq by (metis distinct_map mset_sort mset_eq_imp_distinct_iff mset_map)
qed

lemma distinct_item_key: "distinct (map fst xs) \<Longrightarrow> distinct (map item_key xs)"
  by (induction xs) (auto simp: item_key_def)

lemma linked_items_unique:
  assumes "wf_table (db_cup_items d)" and "sorted (map item_key xs)" and "distinct (map fst xs)"
    and "\<And>k i l. (k, i, l) \<in> set xs \<longleftrightarrow> (k, i) \<in> set (db_cup_items d) \<and> row (db_config_links d) (ci_config_link i) = Some l \<and> P i l"
  shows "linked_items P d = xs"
proof (rule map_sorted_distinct_set_unique)
  have "set (linked_items P d) = set xs" using assms(4) by (auto simp: set_linked_items)
  then show "set (linked_items P d) = set xs" .
  have "distinct (map item_key (linked_items P d))" using assms(1) by (simp add: distinct_item_key)
  then show "distinct (map item_key (linked_items P d))" .
  show "distinct (map item_key xs)" using assms(3) by (rule distinct_item_key)
  have "inj_on item_key (set (linked_items P d))" using \<open>distinct (map item_key (linked_items P d))\<close> by (simp add: distinct_map)
  then show "inj_on item_key (set (linked_items P d) \<union> set xs)" using \<open>set (linked_items P d) = set xs\<close> by simp
qed (use assms(2) in simp_all)

text \<open>The same query on two databases with the same answers row by row.\<close>

lemma linked_items_cong:
  assumes "wf_table (db_cup_items d)" "wf_table (db_cup_items d')"
    and "\<And>k i l. (k, i) \<in> set (db_cup_items d) \<and> row (db_config_links d) (ci_config_link i) = Some l \<and> P i l \<longleftrightarrow>
      (k, i) \<in> set (db_cup_items d') \<and> row (db_config_links d') (ci_config_link i) = Some l \<and> Q i l"
  shows "linked_items P d = linked_items Q d'"
  by (rule linked_items_unique [OF assms(1)]) (use assms in \<open>auto simp: set_linked_items\<close>)

section \<open>The invariant of the tables\<close>

definition items_ok :: "db \<Rightarrow> bool" where
  "items_ok d \<longleftrightarrow>
     wf_table (db_cup_items d) \<and> wf_table (db_config_links d) \<and>
     (\<forall>(k, i) \<in> set (db_cup_items d). row (db_config_links d) (ci_config_link i) \<noteq> None) \<and>
     (\<forall>(k, i) \<in> set (db_cup_items d). \<forall>(k', i') \<in> set (db_cup_items d).
        ci_cup i = ci_cup i' \<and> ci_config_link i = ci_config_link i' \<longrightarrow> k = k')"

lemma items_okD:
  assumes "items_ok d"
  shows "wf_table (db_cup_items d)" "wf_table (db_config_links d)"
    "row (db_cup_items d) k = Some i \<Longrightarrow> row (db_config_links d) (ci_config_link i) \<noteq> None"
    "row (db_cup_items d) k = Some i \<Longrightarrow> row (db_cup_items d) k' = Some i' \<Longrightarrow> ci_cup i = ci_cup i' \<Longrightarrow>
     ci_config_link i = ci_config_link i' \<Longrightarrow> k = k'"
  using assms by (fastforce simp: items_ok_def dest: row_Some_in)+

lemma items_okI:
  assumes "wf_table (db_cup_items d)" "wf_table (db_config_links d)"
    and "\<And>k i. row (db_cup_items d) k = Some i \<Longrightarrow> row (db_config_links d) (ci_config_link i) \<noteq> None"
    and "\<And>k i k' i'. row (db_cup_items d) k = Some i \<Longrightarrow> row (db_cup_items d) k' = Some i' \<Longrightarrow> ci_cup i = ci_cup i' \<Longrightarrow>
     ci_config_link i = ci_config_link i' \<Longrightarrow> k = k'"
  shows "items_ok d"
  unfolding items_ok_def using assms by (blast dest: in_row_Some [OF assms(1)])

lemma item_row: "items_ok d \<Longrightarrow> (k, i) \<in> set (db_cup_items d) \<longleftrightarrow> row (db_cup_items d) k = Some i"
  by (auto dest: items_okD(1) in_row_Some row_Some_in)

lemma items_ok_empty: "items_ok empty_db"
  by (simp add: items_ok_def empty_db_def wf_table_def)

section \<open>Placing an entry\<close>

text \<open>What may be reused: items of the cup, with their links, each once.\<close>

definition reusable_ok :: "pk \<Rightarrow> linked_item list \<Rightarrow> db \<Rightarrow> bool" where
  "reusable_ok c xs d \<longleftrightarrow>
     distinct (map fst xs) \<and>
     (\<forall>(k, i, l) \<in> set xs. row (db_cup_items d) k = Some i \<and> row (db_config_links d) (ci_config_link i) = Some l \<and> ci_cup i = c)"

lemma reusable_linked:
  assumes "items_ok d" "\<And>i l. P i l \<Longrightarrow> ci_cup i = c"
  shows "reusable_ok c (linked_items P d) d"
  unfolding reusable_ok_def using assms by (auto simp: set_linked_items item_row items_okD(1))

lemma pop_match_Some:
  "pop_match raw xs = Some (x, ys) \<Longrightarrow> \<exists>us vs. xs = us @ x # vs \<and> ys = us @ vs \<and> cl_raw_link (snd (snd x)) = raw"
proof (induction xs arbitrary: ys)
  case (Cons a xs)
  show ?case
  proof (cases "cl_raw_link (snd (snd a)) = raw")
    case True
    then show ?thesis using Cons.prems by (intro exI [of _ "[]"] exI [of _ xs]) auto
  next
    case False
    then obtain zs where z: "pop_match raw xs = Some (x, zs)" "ys = a # zs" using Cons.prems by auto
    from Cons.IH [OF z(1)] obtain us vs where "xs = us @ x # vs" "zs = us @ vs" "cl_raw_link (snd (snd x)) = raw" by blast
    then show ?thesis using z(2) by (intro exI [of _ "a # us"] exI [of _ vs]) auto
  qed
qed simp

lemma pop_match_None: "pop_match raw xs = None \<longleftrightarrow> (\<forall>x \<in> set xs. cl_raw_link (snd (snd x)) \<noteq> raw)"
  by (induction xs) auto

text \<open>An entry in its place: the item and the link with the given keys.\<close>

definition entry_placed :: "pk \<Rightarrow> db \<Rightarrow> config_link set \<Rightarrow> entry \<Rightarrow> pk \<times> pk \<Rightarrow> bool" where
  "entry_placed c d ls e p \<longleftrightarrow>
     row (db_cup_items d) (fst p) = Some \<lparr>ci_cup = c, ci_config_link = snd p, ci_position = ey_position e, ci_is_active = True,
        ci_added_reason = ey_reason e, ci_metadata = ey_metadata e\<rparr> \<and>
     (\<exists>l \<in> ls. row (db_config_links d) (snd p) = Some (ey_write e l))"

definition reused_or_new :: "linked_item list \<Rightarrow> db \<Rightarrow> pk \<times> pk \<Rightarrow> bool" where
  "reused_or_new xs d p \<longleftrightarrow>
     (\<exists>i l. (fst p, i, l) \<in> set xs \<and> ci_config_link i = snd p) \<or>
     (row (db_cup_items d) (fst p) = None \<and> row (db_config_links d) (snd p) = None)"

definition old_links :: "linked_item list \<Rightarrow> config_link set" where
  "old_links xs = insert new_config_link ((\<lambda>(_, _, l). l) ` set xs)"

text \<open>The database without its links and items: what listing leaves alone.\<close>

definition beside_items :: "db \<Rightarrow> db" where
  "beside_items d = d\<lparr>db_config_links := [], db_cup_items := []\<rparr>"

lemma beside_items_eqD:
  assumes "beside_items d' = beside_items d"
  shows "db_cups d' = db_cups d" "db_feeds d' = db_feeds d" "db_orders d' = db_orders d" "db_panels d' = db_panels d"
    "db_clients d' = db_clients d"
  using arg_cong [OF assms, of db_cups] arg_cong [OF assms, of db_feeds] arg_cong [OF assms, of db_orders]
    arg_cong [OF assms, of db_panels] arg_cong [OF assms, of db_clients] by (simp_all add: beside_items_def)

lemma place_new:
  assumes ok: "items_ok d" and "lk = fresh_pk (db_config_links d)" "ik = fresh_pk (db_cup_items d)" "ci_config_link i = lk"
  shows "items_ok (d\<lparr>db_config_links := db_config_links d @ [(lk, l)], db_cup_items := db_cup_items d @ [(ik, i)]\<rparr>)"
    (is "items_ok ?d")
proof (rule items_okI)
  have "row (db_cup_items d) k = Some j \<Longrightarrow> ci_config_link j \<noteq> lk" for k j
    using items_okD(3) [OF ok, of k j] row_fresh [of "db_config_links d"] assms(2) by auto
  then show "k = k'" if "row (db_cup_items ?d) k = Some j" "row (db_cup_items ?d) k' = Some j'" "ci_cup j = ci_cup j'"
    "ci_config_link j = ci_config_link j'" for k j k' j'
    using that assms(2,3,4) items_okD(4) [OF ok] by (auto simp: row_append_fresh split: if_splits)
  show "row (db_config_links ?d) (ci_config_link j) \<noteq> None" if "row (db_cup_items ?d) k = Some j" for k j
    using that assms(2,3,4) items_okD(3) [OF ok] by (auto simp: row_append_fresh split: if_splits)
qed (use ok assms in \<open>simp_all add: items_okD\<close>)

lemma place_old:
  assumes ok: "items_ok d" and i: "row (db_cup_items d) ik = Some i" and "ci_cup j = ci_cup i" "ci_config_link j = ci_config_link i"
  shows "items_ok (d\<lparr>db_config_links := put (ci_config_link i) l (db_config_links d), db_cup_items := put ik j (db_cup_items d)\<rparr>)"
    (is "items_ok ?d")
proof (rule items_okI)
  show "row (db_config_links ?d) (ci_config_link x) \<noteq> None" if "row (db_cup_items ?d) k = Some x" for k x
    using that assms items_okD(3) [OF ok] by (auto simp: row_put split: if_splits)
  show "k = k'" if "row (db_cup_items ?d) k = Some x" "row (db_cup_items ?d) k' = Some x'" "ci_cup x = ci_cup x'"
    "ci_config_link x = ci_config_link x'" for k x k' x'
    using that assms(3,4) items_okD(4) [OF ok i] items_okD(4) [OF ok _ i] items_okD(4) [OF ok]
    by (auto simp: row_put split: if_splits)
qed (use ok in \<open>simp_all add: items_okD\<close>)

lemma place_entry_all:
  assumes "place_entry c e xs d = (p, ys, d')" and ok: "items_ok d" and xs: "reusable_ok c xs d"
  shows "items_ok d' \<and> reusable_ok c ys d' \<and> set ys \<subseteq> set xs \<and> beside_items d' = beside_items d \<and>
    entry_placed c d' (old_links xs) e p \<and> reused_or_new xs d p \<and> fst p \<notin> fst ` set ys \<and>
    (\<forall>k. k \<noteq> fst p \<longrightarrow> row (db_cup_items d') k = row (db_cup_items d) k) \<and>
    (\<forall>k. k \<noteq> snd p \<longrightarrow> row (db_config_links d') k = row (db_config_links d) k) \<and>
    (\<forall>k i l. (k, i, l) \<in> set ys \<longrightarrow> ci_config_link i \<noteq> snd p)"
proof (cases "pop_match (ey_raw_link e) xs")
  case None
  then have p: "p = (fresh_pk (db_cup_items d), fresh_pk (db_config_links d))" and "ys = xs"
    and d': "d' = d\<lparr>db_config_links := db_config_links d @ [(snd p, ey_write e new_config_link)],
      db_cup_items := db_cup_items d @ [(fst p, \<lparr>ci_cup = c, ci_config_link = snd p, ci_position = ey_position e, ci_is_active = True,
        ci_added_reason = ey_reason e, ci_metadata = ey_metadata e\<rparr>)]\<rparr>"
    using assms(1) by (auto simp: place_entry_def add_row_def)
  have new: "row (db_cup_items d) (fst p) = None" "row (db_config_links d) (snd p) = None" by (simp_all add: p)
  have ok': "items_ok d'" unfolding d' by (rule place_new [OF ok]) (simp_all add: p)
  have rows: "row (db_cup_items d') k = (if k = fst p then Some \<lparr>ci_cup = c, ci_config_link = snd p, ci_position = ey_position e,
      ci_is_active = True, ci_added_reason = ey_reason e, ci_metadata = ey_metadata e\<rparr> else row (db_cup_items d) k)"
    "row (db_config_links d') k = (if k = snd p then Some (ey_write e new_config_link) else row (db_config_links d) k)" for k
    by (simp_all add: d' p row_append_fresh)
  have apart: "k \<noteq> fst p \<and> ci_config_link i \<noteq> snd p" if "(k, i, l) \<in> set xs" for k i l
    using xs that new by (force simp: reusable_ok_def)
  show ?thesis
  proof (intro conjI allI impI)
    show "reusable_ok c ys d'"
      using xs apart by (fastforce simp: reusable_ok_def rows \<open>ys = xs\<close>)
    show "beside_items d' = beside_items d" by (simp add: d' beside_items_def)
    show "entry_placed c d' (old_links xs) e p" by (simp add: entry_placed_def rows old_links_def)
    show "reused_or_new xs d p" using new by (simp add: reused_or_new_def)
    show "fst p \<notin> fst ` set ys" by (auto simp: \<open>ys = xs\<close> dest: apart)
    show "items_ok d'" by (rule ok')
    show "set ys \<subseteq> set xs" by (simp add: \<open>ys = xs\<close>)
    show "ci_config_link i \<noteq> snd p" if "(k, i, l) \<in> set ys" for k i l using that apart by (auto simp: \<open>ys = xs\<close>)
  qed (simp_all add: rows)
next
  case (Some r)
  obtain ik i l rest where r: "r = ((ik, i, l), rest)" by (metis prod.exhaust)
  then obtain us vs where split: "xs = us @ (ik, i, l) # vs" "rest = us @ vs"
    using pop_match_Some [OF Some [unfolded r]] by blast
  have p: "p = (ik, ci_config_link i)" and "ys = rest"
    and d': "d' = d\<lparr>db_config_links := put (ci_config_link i) (ey_write e l) (db_config_links d),
      db_cup_items := put ik (listed e i) (db_cup_items d)\<rparr>"
    using assms(1) Some r by (auto simp: place_entry_def)
  have i: "row (db_cup_items d) ik = Some i" "ci_cup i = c" using xs split(1) by (auto simp: reusable_ok_def)
  have ok': "items_ok d'" unfolding d' by (rule place_old [OF ok i(1)]) (simp_all add: listed_def)
  have rows: "row (db_cup_items d') k = (if k = fst p then Some (listed e i) else row (db_cup_items d) k)"
    "row (db_config_links d') k = (if k = snd p then Some (ey_write e l) else row (db_config_links d) k)" for k
    by (simp_all add: d' p row_put)
  have sub: "set ys \<subseteq> set xs" by (auto simp: \<open>ys = rest\<close> split)
  have "ik \<notin> fst ` set ys" using xs by (auto simp: reusable_ok_def split \<open>ys = rest\<close>)
  have apart: "k \<noteq> fst p \<and> ci_config_link j \<noteq> snd p" if "(k, j, m) \<in> set ys" for k j m
  proof -
    have "k \<noteq> ik" using \<open>ik \<notin> fst ` set ys\<close> that by force
    moreover have "row (db_cup_items d) k = Some j" "ci_cup j = c" using xs sub that by (auto simp: reusable_ok_def)
    ultimately show ?thesis using items_okD(4) [OF ok, of k j ik i] i by (auto simp: p)
  qed
  show ?thesis
  proof (intro conjI allI impI)
    have "distinct (map fst ys)" using xs by (auto simp: reusable_ok_def split \<open>ys = rest\<close>)
    then show "reusable_ok c ys d'"
      using xs sub apart unfolding reusable_ok_def rows by fastforce
    show "beside_items d' = beside_items d" by (simp add: d' beside_items_def)
    have "listed e i = \<lparr>ci_cup = c, ci_config_link = snd p, ci_position = ey_position e, ci_is_active = True,
        ci_added_reason = ey_reason e, ci_metadata = ey_metadata e\<rparr>"
      by (cases i) (use i(2) in \<open>simp add: listed_def p\<close>)
    then show "entry_placed c d' (old_links xs) e p"
      by (auto simp: entry_placed_def rows old_links_def split)
    show "reused_or_new xs d p" by (auto simp: reused_or_new_def p split)
    show "fst p \<notin> fst ` set ys" by (auto dest: apart)
    show "items_ok d'" by (rule ok')
    show "set ys \<subseteq> set xs" by (rule sub)
    show "ci_config_link j \<noteq> snd p" if "(k, j, m) \<in> set ys" for k j m using that apart by blast
  qed (simp_all add: rows)
qed

lemma place_entry_spec:
  assumes "place_entry c e xs d = (p, ys, d')" "items_ok d" "reusable_ok c xs d"
  shows "items_ok d'" "reusable_ok c ys d'" "set ys \<subseteq> set xs" "beside_items d' = beside_items d"
    "entry_placed c d' (old_links xs) e p" "reused_or_new xs d p" "fst p \<notin> fst ` set ys"
    "\<And>k. k \<noteq> fst p \<Longrightarrow> row (db_cup_items d') k = row (db_cup_items d) k"
    "\<And>k. k \<noteq> snd p \<Longrightarrow> row (db_config_links d') k = row (db_config_links d) k"
    "\<And>k i l. (k, i, l) \<in> set ys \<Longrightarrow> ci_config_link i \<noteq> snd p"
  using place_entry_all [OF assms] by blast+

lemma place_entries_spec:
  assumes "place_entries c es xs d = (ps, d')" and "items_ok d" and "reusable_ok c xs d"
  shows "items_ok d' \<and> beside_items d' = beside_items d \<and> list_all2 (entry_placed c d' (old_links xs)) es ps \<and>
    distinct (map fst ps) \<and> distinct (map snd ps) \<and> (\<forall>p \<in> set ps. reused_or_new xs d p) \<and>
    (\<forall>k. k \<notin> fst ` set ps \<longrightarrow> row (db_cup_items d') k = row (db_cup_items d) k) \<and>
    (\<forall>k. k \<notin> snd ` set ps \<longrightarrow> row (db_config_links d') k = row (db_config_links d) k)"
  using assms
proof (induction es arbitrary: xs d d' ps)
  case Nil
  then show ?case by simp
next
  case (Cons e es)
  obtain p ys d1 where step: "place_entry c e xs d = (p, ys, d1)" by (rule prod_cases3)
  obtain qs d2 where rest: "place_entries c es ys d1 = (qs, d2)" by (rule prod.exhaust)
  have ps: "ps = p # qs" and d2: "d2 = d'" using Cons.prems(1) by (simp_all add: step rest)
  note sp = place_entry_spec [OF step Cons.prems(2,3)]
  note ih = Cons.IH [OF rest [unfolded d2] sp(1,2)]
  have old: "old_links ys \<subseteq> old_links xs" using sp(3) by (force simp: old_links_def)
  have item: "row (db_cup_items d1) (fst p) = Some \<lparr>ci_cup = c, ci_config_link = snd p, ci_position = ey_position e,
      ci_is_active = True, ci_added_reason = ey_reason e, ci_metadata = ey_metadata e\<rparr>"
    and link: "row (db_config_links d1) (snd p) \<noteq> None"
    using sp(5) by (auto simp: entry_placed_def)
  have apart: "fst q \<noteq> fst p \<and> snd q \<noteq> snd p" if "q \<in> set qs" for q
  proof -
    have "reused_or_new ys d1 q" using ih that by blast
    then show ?thesis
      using sp(7,10) item link unfolding reused_or_new_def by (metis fst_conv image_eqI option.distinct(1))
  qed
  have later: "reused_or_new xs d q" if "q \<in> set qs" for q
  proof -
    have "reused_or_new ys d1 q" using ih that by blast
    then consider i l where "(fst q, i, l) \<in> set ys" "ci_config_link i = snd q"
      | "row (db_cup_items d1) (fst q) = None" "row (db_config_links d1) (snd q) = None"
      unfolding reused_or_new_def by (elim disjE exE conjE) (simp_all)
    then show ?thesis
    proof cases
      case 1
      then show ?thesis using sp(3) unfolding reused_or_new_def by blast
    next
      case 2
      then show ?thesis using sp(8,9) apart [OF that] unfolding reused_or_new_def by simp
    qed
  qed
  have "fst p \<notin> fst ` set qs" "snd p \<notin> snd ` set qs" using apart by fastforce+
  then have "row (db_cup_items d') (fst p) = row (db_cup_items d1) (fst p)"
    "row (db_config_links d') (snd p) = row (db_config_links d1) (snd p)" using ih by blast+
  then have first: "entry_placed c d' (old_links xs) e p" using sp(5) unfolding entry_placed_def by simp
  have mono: "entry_placed c d' (old_links ys) x y \<Longrightarrow> entry_placed c d' (old_links xs) x y" for x y
    using old unfolding entry_placed_def by blast
  have "list_all2 (entry_placed c d' (old_links ys)) es qs" using ih by blast
  then have "list_all2 (entry_placed c d' (old_links xs)) es qs" by (rule list_all2_mono) (rule mono)
  then have placed: "list_all2 (entry_placed c d' (old_links xs)) (e # es) (p # qs)" using first by simp
  show ?case
    unfolding ps
  proof (intro conjI)
    show "distinct (map fst (p # qs))" "distinct (map snd (p # qs))"
      using ih \<open>fst p \<notin> fst ` set qs\<close> \<open>snd p \<notin> snd ` set qs\<close> by simp_all
    show "\<forall>x \<in> set (p # qs). reused_or_new xs d x" using sp(6) later by simp
    show "beside_items d' = beside_items d" using ih sp(4) by simp
    show "\<forall>k. k \<notin> fst ` set (p # qs) \<longrightarrow> row (db_cup_items d') k = row (db_cup_items d) k"
      using ih sp(8) by simp
    show "\<forall>k. k \<notin> snd ` set (p # qs) \<longrightarrow> row (db_config_links d') k = row (db_config_links d) k"
      using ih sp(9) by simp
  qed (use ih placed in simp_all)
qed

section \<open>What is listed afterwards\<close>

lemma linked_items_placed:
  assumes ok: "items_ok d" and placed: "list_all2 (entry_placed c d ls) es ps" and dist: "distinct (map fst ps)"
    and pos: "sorted (map ey_position es)" "distinct (map ey_position es)"
    and all: "\<And>k i l. row (db_cup_items d) k = Some i \<Longrightarrow> row (db_config_links d) (ci_config_link i) = Some l \<Longrightarrow>
      Q i l \<longleftrightarrow> k \<in> fst ` set ps"
  shows "list_all2 (\<lambda>e x. \<exists>l \<in> ls. snd (snd x) = ey_write e l) es (linked_items Q d)"
    "map fst (linked_items Q d) = map fst ps"
proof -
  define view where "view p = (fst p, the (row (db_cup_items d) (fst p)), the (row (db_config_links d) (snd p)))" for p
  have view: "list_all2 (\<lambda>e p. ci_position (fst (snd (view p))) = ey_position e \<and> ci_config_link (fst (snd (view p))) = snd p \<and>
      row (db_cup_items d) (fst p) = Some (fst (snd (view p))) \<and> row (db_config_links d) (snd p) = Some (snd (snd (view p))) \<and>
      (\<exists>l \<in> ls. snd (snd (view p)) = ey_write e l)) es ps"
    using placed by (rule list_all2_mono) (auto simp: entry_placed_def view_def)
  have "map (ci_position \<circ> fst \<circ> snd) (map view ps) = map ey_position es"
    using view by (induction rule: list_all2_induct) simp_all
  then have "sorted (map (ci_position \<circ> fst \<circ> snd) (map view ps))" "distinct (map (ci_position \<circ> fst \<circ> snd) (map view ps))"
    using pos by simp_all
  then have sorted: "sorted (map item_key (map view ps))"
    by (induction ps) (auto simp: item_key_def less_eq_prod_def order_le_less)
  have rows: "row (db_cup_items d) (fst p) = Some (fst (snd (view p)))" "row (db_config_links d) (snd p) = Some (snd (snd (view p)))"
    "ci_config_link (fst (snd (view p))) = snd p" if "p \<in> set ps" for p
    using view that by (auto simp: list_all2_conv_all_nth in_set_conv_nth)
  have "linked_items Q d = map view ps"
  proof (rule linked_items_unique [OF items_okD(1) [OF ok] sorted])
    show "distinct (map fst (map view ps))" using dist by (simp add: view_def comp_def)
    show "(k, i, l) \<in> set (map view ps) \<longleftrightarrow>
      (k, i) \<in> set (db_cup_items d) \<and> row (db_config_links d) (ci_config_link i) = Some l \<and> Q i l" (is "?L \<longleftrightarrow> ?R") for k i l
    proof
      assume ?L
      then obtain p where p: "p \<in> set ps" "(k, i, l) = view p" by auto
      then have k: "k = fst p" by (simp add: view_def)
      have "i = fst (snd (view p))" "l = snd (snd (view p))" using p(2) [symmetric] by simp_all
      with rows [OF p(1)] have "row (db_cup_items d) k = Some i" "row (db_config_links d) (ci_config_link i) = Some l" by (simp_all add: k)
      then show ?R using all p(1) by (simp add: item_row [OF ok] k)
    next
      assume r: ?R
      then have "k \<in> fst ` set ps" using all [of k i l] by (simp add: item_row [OF ok])
      then obtain p where "p \<in> set ps" "k = fst p" by auto
      then have "i = fst (snd (view p))" using rows(1) [of p] r by (simp add: item_row [OF ok])
      moreover from this have "l = snd (snd (view p))" using rows(2,3) [OF \<open>p \<in> set ps\<close>] r by simp
      ultimately have "(k, i, l) = view p" using \<open>k = fst p\<close> by (simp add: view_def)
      then show ?L using \<open>p \<in> set ps\<close> by auto
    qed
  qed
  moreover have "list_all2 (\<lambda>e x. \<exists>l \<in> ls. snd (snd x) = ey_write e l) es (map view ps)"
    using view unfolding list_all2_map2 by (rule list_all2_mono) simp
  ultimately show "list_all2 (\<lambda>e x. \<exists>l \<in> ls. snd (snd x) = ey_write e l) es (linked_items Q d)"
    "map fst (linked_items Q d) = map fst ps" by (simp_all add: view_def comp_def)
qed

lemma items_ok_retire [simp]: "items_ok d \<Longrightarrow> items_ok (retire_items P d)"
proof (rule items_okI)
  assume ok: "items_ok d"
  have row: "\<exists>j. row (db_cup_items d) k = Some j \<and> ci_cup j = ci_cup i \<and> ci_config_link j = ci_config_link i"
    if "row (db_cup_items (retire_items P d)) k = Some i" for k i
    using that by (auto simp: retire_items_def row_modify_where split: if_splits)
  show "wf_table (db_cup_items (retire_items P d))" "wf_table (db_config_links (retire_items P d))"
    using ok by (simp_all add: retire_items_def items_okD)
  show "row (db_config_links (retire_items P d)) (ci_config_link i) \<noteq> None"
    if "row (db_cup_items (retire_items P d)) k = Some i" for k i
    using row [OF that] items_okD(3) [OF ok, of k] by (metis retire_items_def db.select_convs(16) db.surjective db.update_convs(18))
  show "k = k'" if "row (db_cup_items (retire_items P d)) k = Some i" "row (db_cup_items (retire_items P d)) k' = Some i'"
    "ci_cup i = ci_cup i'" "ci_config_link i = ci_config_link i'" for k i k' i'
    using row [OF that(1)] row [OF that(2)] that(3,4) items_okD(4) [OF ok] by metis
qed

lemma beside_retire [simp]: "beside_items (retire_items P d) = beside_items d"
  by (simp add: beside_items_def retire_items_def)

lemma row_retire: "row (db_cup_items (retire_items P d)) k =
   map_option (\<lambda>i. if P k i then i\<lparr>ci_is_active := False\<rparr> else i) (row (db_cup_items d) k)"
  "db_config_links (retire_items P d) = db_config_links d"
  by (simp_all add: retire_items_def row_modify_where)

section \<open>The entries of a cup\<close>

lemma cup_entries_simps:
  "map ey_raw_link (cup_entries lr ck client reason pos es) = map ce_raw_link es"
  "map ey_position (cup_entries lr ck client reason pos es) = [pos..<pos + length es]"
  "length (cup_entries lr ck client reason pos es) = length es"
  by (induction es arbitrary: pos) (simp_all add: upt_conv_Cons del: upt_Suc)

lemma apply_parse_simps [simp]:
  "cl_raw_link (apply_config_link_parse lr raw src panel inb client fd meta l) = strip raw"
  "cl_is_active (apply_config_link_parse lr raw src panel inb client fd meta l)"
  "cl_external_feed (apply_config_link_parse lr raw src panel inb client fd meta l) = (case fd of None \<Rightarrow> cl_external_feed l | Some f \<Rightarrow> f)"
  "cl_source_panel (apply_config_link_parse lr raw src panel inb client fd meta l) = panel"
  by (simp_all add: apply_config_link_parse_def parse_config_link_def Let_def split: prod.splits)

lemma cup_entry_write:
  "e \<in> set (cup_entries lr ck client reason pos es) \<Longrightarrow>
   cl_raw_link (ey_write e l) = strip (ey_raw_link e) \<and> cl_is_active (ey_write e l) \<and> cl_external_feed (ey_write e l) = cl_external_feed l"
  by (induction es arbitrary: pos) auto

lemma unmanaged_reusable: "items_ok d \<Longrightarrow> reusable_ok c (linked_items (unmanaged c) d) d"
  by (rule reusable_linked) (simp_all add: unmanaged_def)

lemma unmanaged_links: "l \<in> old_links (linked_items (unmanaged c) d) \<Longrightarrow> cl_external_feed l = None"
  by (auto simp: old_links_def new_config_link_def set_linked_items unmanaged_def)

definition kept_entries :: "pk \<Rightarrow> pk option \<Rightarrow> config_entry list \<Rightarrow> db \<Rightarrow> config_entry list" where
  "kept_entries ck client entries d = filter (\<lambda>e. (ce_source_panel e, client) \<notin> set (managed_pairs ck d)) entries"

lemma list_entries_placed:
  assumes ok: "items_ok d"
  obtains ps d1 where
    "place_entries ck (cup_entries lr ck client reason 1 (kept_entries ck client entries d)) (linked_items (unmanaged ck) d) d = (ps, d1)"
    "list_entries lr ck client reason entries d = retire_items (\<lambda>ik i. ci_cup i = ck \<and> ik \<notin> set (map fst ps) \<and>
       (case row (db_config_links d1) (ci_config_link i) of None \<Rightarrow> False | Some l \<Rightarrow> cl_external_feed l = None)) d1"
    "items_ok d1" "beside_items d1 = beside_items d"
    "list_all2 (entry_placed ck d1 (old_links (linked_items (unmanaged ck) d))) (cup_entries lr ck client reason 1 (kept_entries ck client entries d)) ps"
    "distinct (map fst ps)" "\<And>p. p \<in> set ps \<Longrightarrow> reused_or_new (linked_items (unmanaged ck) d) d p"
    "\<And>k. k \<notin> fst ` set ps \<Longrightarrow> row (db_cup_items d1) k = row (db_cup_items d) k"
    "\<And>k. k \<notin> snd ` set ps \<Longrightarrow> row (db_config_links d1) k = row (db_config_links d) k"
proof -
  obtain ps d1 where p: "place_entries ck (cup_entries lr ck client reason 1 (kept_entries ck client entries d)) (linked_items (unmanaged ck) d) d = (ps, d1)"
    by (rule prod.exhaust)
  show thesis
    by (rule that [OF p]) (use place_entries_spec [OF p ok unmanaged_reusable [OF ok]] p in
      \<open>simp_all add: list_entries_def kept_entries_def [symmetric] Let_def\<close>)
qed

lemma placed_member:
  assumes "list_all2 (entry_placed c d ls) es ps" "p \<in> set ps"
  obtains e l where "e \<in> set es" "l \<in> ls"
    "row (db_cup_items d) (fst p) = Some \<lparr>ci_cup = c, ci_config_link = snd p, ci_position = ey_position e, ci_is_active = True,
       ci_added_reason = ey_reason e, ci_metadata = ey_metadata e\<rparr>"
    "row (db_config_links d) (snd p) = Some (ey_write e l)"
  using assms by (auto simp: list_all2_conv_all_nth in_set_conv_nth entry_placed_def) (metis nth_mem)

lemma placed_link:
  assumes "list_all2 (entry_placed c d ls) es ps" "p \<in> set ps" "row (db_cup_items d) (fst p) = Some i"
  shows "ci_config_link i = snd p"
  by (rule placed_member [OF assms(1,2)]) (use assms(3) in simp)

text \<open>The links of a cup that no feed keeps are exactly the entries, in their order.\<close>

lemma list_entries_lists:
  assumes ok: "items_ok d" and d': "list_entries lr ck client reason entries d = d'"
  shows "items_ok d' \<and> beside_items d' = beside_items d \<and>
    map (\<lambda>(_, _, l). cl_raw_link l) (linked_items (\<lambda>i l. shown ck i l \<and> cl_external_feed l = None) d') =
      map (\<lambda>e. strip (ce_raw_link e)) (kept_entries ck client entries d) \<and>
    linked_items (\<lambda>i l. ci_cup i = ck \<and> cl_external_feed l \<noteq> None) d' = linked_items (\<lambda>i l. ci_cup i = ck \<and> cl_external_feed l \<noteq> None) d"
proof -
  obtain ps d1 where
    p: "place_entries ck (cup_entries lr ck client reason 1 (kept_entries ck client entries d)) (linked_items (unmanaged ck) d) d = (ps, d1)"
    and listed: "list_entries lr ck client reason entries d = retire_items (\<lambda>ik i. ci_cup i = ck \<and> ik \<notin> set (map fst ps) \<and>
       (case row (db_config_links d1) (ci_config_link i) of None \<Rightarrow> False | Some l \<Rightarrow> cl_external_feed l = None)) d1"
    and ok1: "items_ok d1" and beside: "beside_items d1 = beside_items d"
    and placed: "list_all2 (entry_placed ck d1 (old_links (linked_items (unmanaged ck) d))) (cup_entries lr ck client reason 1 (kept_entries ck client entries d)) ps"
    and dist: "distinct (map fst ps)" and new: "\<And>p. p \<in> set ps \<Longrightarrow> reused_or_new (linked_items (unmanaged ck) d) d p"
    and items: "\<And>k. k \<notin> fst ` set ps \<Longrightarrow> row (db_cup_items d1) k = row (db_cup_items d) k"
    and links: "\<And>k. k \<notin> snd ` set ps \<Longrightarrow> row (db_config_links d1) k = row (db_config_links d) k"
    by (rule list_entries_placed [OF ok, where ck = ck and lr = lr and client = client and reason = reason and entries = entries]) (rule that)
  note place = listed [unfolded d']
  let ?es = "cup_entries lr ck client reason 1 (kept_entries ck client entries d)"
  let ?Q = "\<lambda>i l. shown ck i l \<and> cl_external_feed l = None"
  have ok': "items_ok d'" using ok1 by (simp add: place)
  have link_rows: "db_config_links d' = db_config_links d1" by (simp add: place row_retire)
  have written: "cl_is_active m \<and> cl_external_feed m = None \<and> ci_cup i = ck \<and> ci_is_active i \<and> ci_config_link i = snd p"
    if prem: "p \<in> set ps" "row (db_cup_items d1) (fst p) = Some i" "row (db_config_links d1) (snd p) = Some m" for p i m
  proof -
    obtain e l where "e \<in> set ?es" and l: "l \<in> old_links (linked_items (unmanaged ck) d)"
      and rows: "row (db_cup_items d1) (fst p) = Some \<lparr>ci_cup = ck, ci_config_link = snd p, ci_position = ey_position e, ci_is_active = True,
         ci_added_reason = ey_reason e, ci_metadata = ey_metadata e\<rparr>" "row (db_config_links d1) (snd p) = Some (ey_write e l)"
      by (rule placed_member [OF placed prem(1)])
    then show ?thesis using prem(2,3) cup_entry_write [of e lr ck client reason 1 _ l] unmanaged_links [OF l] by auto
  qed
  have item_rows: "row (db_cup_items d') k = row (db_cup_items d1) k" if "k \<in> fst ` set ps" for k
    using that by (cases "row (db_cup_items d1) k") (simp_all add: place row_retire)
  have placed': "list_all2 (entry_placed ck d' (old_links (linked_items (unmanaged ck) d))) ?es ps"
    using placed item_rows unfolding list_all2_conv_all_nth entry_placed_def link_rows by (metis image_eqI nth_mem)
  have "?Q i l \<longleftrightarrow> k \<in> fst ` set ps"
    if i: "row (db_cup_items d') k = Some i" and l: "row (db_config_links d') (ci_config_link i) = Some l" for k i l
  proof
    assume "k \<in> fst ` set ps"
    then obtain p where p: "p \<in> set ps" "k = fst p" by auto
    have i1: "row (db_cup_items d1) (fst p) = Some i" using i item_rows [OF \<open>k \<in> fst ` set ps\<close>] by (simp add: p(2))
    then have "ci_config_link i = snd p" by (rule placed_link [OF placed p(1)])
    with written [OF p(1) i1] l show "?Q i l" by (simp add: link_rows shown_def)
  next
    assume q: "?Q i l"
    show "k \<in> fst ` set ps"
    proof (rule ccontr)
      assume "k \<notin> fst ` set ps"
      let ?P = "\<lambda>ik i. ci_cup i = ck \<and> ik \<notin> set (map fst ps) \<and>
         (case row (db_config_links d1) (ci_config_link i) of None \<Rightarrow> False | Some l \<Rightarrow> cl_external_feed l = None)"
      from i obtain j where j: "i = (if ?P k j then j\<lparr>ci_is_active := False\<rparr> else j)"
        unfolding place row_retire by (cases "row (db_cup_items d1) k") auto
      then have "ci_cup j = ci_cup i" "ci_config_link j = ci_config_link i" by simp_all
      then have "?P k j" using q l \<open>k \<notin> fst ` set ps\<close> by (simp add: shown_def link_rows)
      then have "\<not> ci_is_active i" using j by simp
      then show False using q by (simp add: shown_def)
    qed
  qed
  then have list: "list_all2 (\<lambda>e x. \<exists>l \<in> old_links (linked_items (unmanaged ck) d). snd (snd x) = ey_write e l) ?es (linked_items ?Q d')"
    by (intro linked_items_placed(1) [OF ok' placed' dist]) (simp_all only: cup_entries_simps sorted_upt distinct_upt)
  have "map (\<lambda>(_, _, l). cl_raw_link l) (linked_items ?Q d') = map (\<lambda>e. strip (ey_raw_link e)) ?es"
  proof (rule nth_equalityI)
    fix n assume "n < length (map (\<lambda>(_, _, l). cl_raw_link l) (linked_items ?Q d'))"
    then have n: "n < length (linked_items ?Q d')" "n < length ?es" using list_all2_lengthD [OF list] by simp_all
    obtain l where "snd (snd (linked_items ?Q d' ! n)) = ey_write (?es ! n) l" using list_all2_nthD [OF list n(2)] by blast
    then show "map (\<lambda>(_, _, l). cl_raw_link l) (linked_items ?Q d') ! n = map (\<lambda>e. strip (ey_raw_link e)) ?es ! n"
      using n cup_entry_write [OF nth_mem [OF n(2)]] by (simp add: case_prod_beta)
  qed (use list_all2_lengthD [OF list] in simp)
  also have "\<dots> = map strip (map ey_raw_link ?es)" by simp
  finally have raws: "map (\<lambda>(_, _, l). cl_raw_link l) (linked_items ?Q d') = map (\<lambda>e. strip (ce_raw_link e)) (kept_entries ck client entries d)"
    by (simp add: cup_entries_simps)
  have none: "cl_external_feed l = None" if p: "p \<in> set ps" and l: "row (db_config_links d) (snd p) = Some l" for p l
    using new [OF p] l unfolding reused_or_new_def by (auto simp: set_linked_items unmanaged_def)
  have managed: "linked_items (\<lambda>i l. ci_cup i = ck \<and> cl_external_feed l \<noteq> None) d' =
    linked_items (\<lambda>i l. ci_cup i = ck \<and> cl_external_feed l \<noteq> None) d"
  proof (rule linked_items_cong [OF items_okD(1) [OF ok'] items_okD(1) [OF ok]], unfold item_row [OF ok'] item_row [OF ok])
    fix k i l
    show "row (db_cup_items d') k = Some i \<and> row (db_config_links d') (ci_config_link i) = Some l \<and> ci_cup i = ck \<and> cl_external_feed l \<noteq> None \<longleftrightarrow>
      row (db_cup_items d) k = Some i \<and> row (db_config_links d) (ci_config_link i) = Some l \<and> ci_cup i = ck \<and> cl_external_feed l \<noteq> None"
    proof (cases "k \<in> fst ` set ps")
      case True
      then obtain p where p: "p \<in> set ps" "k = fst p" by auto
      have "cl_external_feed l = None" if "row (db_cup_items d') k = Some i" "row (db_config_links d') (ci_config_link i) = Some l"
      proof -
        have i1: "row (db_cup_items d1) (fst p) = Some i" using that(1) item_rows [OF True] by (simp add: p(2))
        then have "ci_config_link i = snd p" by (rule placed_link [OF placed p(1)])
        with written [OF p(1) i1] that(2) show ?thesis by (simp add: link_rows)
      qed
      moreover have "cl_external_feed l = None" if "row (db_cup_items d) k = Some i" "row (db_config_links d) (ci_config_link i) = Some l"
        using new [OF p(1)] that none [OF p(1)] unfolding reused_or_new_def
        by (auto simp: p(2) set_linked_items item_row [OF ok])
      ultimately show ?thesis by (intro iffI) (elim conjE, simp)+
    next
      case out: False
      have same: "row (db_cup_items d1) k = row (db_cup_items d) k" by (rule items [OF out])
      show ?thesis
      proof (cases "ci_config_link i \<in> snd ` set ps")
        case True
        then obtain p where p: "p \<in> set ps" "ci_config_link i = snd p" by auto
        have "cl_external_feed l = None" if "row (db_config_links d') (ci_config_link i) = Some l"
        proof (rule placed_member [OF placed p(1)])
          fix e m assume "e \<in> set ?es" and m: "m \<in> old_links (linked_items (unmanaged ck) d)"
            and "row (db_config_links d1) (snd p) = Some (ey_write e m)"
          then show ?thesis
            using that p(2) cup_entry_write [of e lr ck client reason 1 _ m] unmanaged_links [OF m] by (simp add: link_rows)
        qed
        then show ?thesis using none [OF p(1)] p(2) by metis
      next
        case False
        then have "row (db_config_links d') (ci_config_link i) = row (db_config_links d) (ci_config_link i)"
          using links by (simp add: link_rows)
        then have l1: "row (db_config_links d1) (ci_config_link i) = row (db_config_links d) (ci_config_link i)" by (simp add: link_rows)
        let ?P = "\<lambda>ik i. ci_cup i = ck \<and> ik \<notin> set (map fst ps) \<and>
           (case row (db_config_links d1) (ci_config_link i) of None \<Rightarrow> False | Some l \<Rightarrow> cl_external_feed l = None)"
        have retired: "row (db_cup_items d') k = map_option (\<lambda>i. if ?P k i then i\<lparr>ci_is_active := False\<rparr> else i) (row (db_cup_items d) k)"
          unfolding place row_retire same ..
        have "row (db_cup_items d') k = Some i \<longleftrightarrow> row (db_cup_items d) k = Some i"
          if l: "row (db_config_links d) (ci_config_link i) = Some l" "cl_external_feed l \<noteq> None"
        proof
          assume "row (db_cup_items d') k = Some i"
          then obtain j where j: "row (db_cup_items d) k = Some j" "i = (if ?P k j then j\<lparr>ci_is_active := False\<rparr> else j)"
            unfolding retired by auto
          then have "ci_config_link j = ci_config_link i" by simp
          then have "\<not> ?P k j" using l by (simp add: l1)
          then have "i = j" using j(2) by (simp only: if_False)
          with j(1) show "row (db_cup_items d) k = Some i" by simp
        next
          assume "row (db_cup_items d) k = Some i"
          moreover have "\<not> ?P k i" using l by (simp add: l1)
          ultimately show "row (db_cup_items d') k = Some i" unfolding retired by (simp only: option.map if_False)
        qed
        then show ?thesis unfolding link_rows l1 by (intro iffI; elim conjE; intro conjI; simp)
      qed
    qed
  qed
  show ?thesis using ok' beside raws managed by (simp add: place)
qed

lemma list_entries_facts:
  assumes "items_ok d"
  shows "items_ok (list_entries lr ck client reason entries d)"
    "beside_items (list_entries lr ck client reason entries d) = beside_items d"
    "map (\<lambda>(_, _, l). cl_raw_link l) (linked_items (\<lambda>i l. shown ck i l \<and> cl_external_feed l = None) (list_entries lr ck client reason entries d)) =
      map (\<lambda>e. strip (ce_raw_link e)) (kept_entries ck client entries d)"
    "linked_items (\<lambda>i l. ci_cup i = ck \<and> cl_external_feed l \<noteq> None) (list_entries lr ck client reason entries d) =
      linked_items (\<lambda>i l. ci_cup i = ck \<and> cl_external_feed l \<noteq> None) d"
proof -
  note f = list_entries_lists [OF assms refl, where lr = lr and ck = ck and client = client and reason = reason and entries = entries]
  show "items_ok (list_entries lr ck client reason entries d)" by (rule conjunct1 [OF f])
  show "beside_items (list_entries lr ck client reason entries d) = beside_items d" by (rule conjunct1 [OF conjunct2 [OF f]])
  show "map (\<lambda>(_, _, l). cl_raw_link l) (linked_items (\<lambda>i l. shown ck i l \<and> cl_external_feed l = None) (list_entries lr ck client reason entries d)) =
      map (\<lambda>e. strip (ce_raw_link e)) (kept_entries ck client entries d)" by (rule conjunct1 [OF conjunct2 [OF conjunct2 [OF f]]])
  show "linked_items (\<lambda>i l. ci_cup i = ck \<and> cl_external_feed l \<noteq> None) (list_entries lr ck client reason entries d) =
      linked_items (\<lambda>i l. ci_cup i = ck \<and> cl_external_feed l \<noteq> None) d" by (rule conjunct2 [OF conjunct2 [OF conjunct2 [OF f]]])
qed

section \<open>Binding leaves what is listed\<close>

definition link_view :: "config_link \<Rightarrow> config_link" where
  "link_view l = l\<lparr>cl_external_feed := None, cl_vpn_client := None\<rparr>"

definition viewed :: "db \<Rightarrow> db" where
  "viewed d = d\<lparr>db_config_links := map (\<lambda>(k, l). (k, link_view l)) (db_config_links d), db_feeds := []\<rparr>"

lemma map_sort_key:
  assumes "\<And>x. f (h x) = f x"
  shows "map h (sort_key f xs) = sort_key f (map h xs)"
proof (induction xs)
  case (Cons x xs)
  have "map h (insort_key f x ys) = insort_key f (h x) (map h ys)" for ys by (induction ys) (simp_all add: assms)
  with Cons show ?case by simp
qed simp

lemma row_viewed: "row (db_config_links (viewed d)) k = map_option link_view (row (db_config_links d) k)"
  by (simp add: viewed_def row_def map_of_map)

lemma linked_items_viewed:
  assumes "\<And>i l. P i (link_view l) = P i l"
  shows "map (\<lambda>(k, i, l). (k, i, link_view l)) (linked_items P d) = linked_items P (viewed d)"
proof -
  let ?h = "\<lambda>(k, i, l). (k, i, link_view l) :: linked_item"
  have "map ?h (filter (\<lambda>(k, i, l). P i l) (List.map_filter (with_link d) t)) =
        filter (\<lambda>(k, i, l). P i l) (List.map_filter (with_link (viewed d)) t)" for t
    by (induction t) (auto simp: List.map_filter_simps with_link_def row_viewed assms split: option.splits)
  then show ?thesis
    unfolding linked_items_eq by (subst map_sort_key) (auto simp: item_key_def viewed_def)
qed

lemma shown_view: "shown c i (link_view l) = shown c i l"
  by (simp add: shown_def link_view_def)

lemma active_links_viewed: "active_cup_links c d = active_cup_links c (viewed d)"
proof -
  have "map (\<lambda>(_, _, l). strip (cl_raw_link l)) (linked_items (shown c) d) =
    map (\<lambda>(_, _, l). strip (cl_raw_link l)) (map (\<lambda>(k, i, l). (k, i, link_view l)) (linked_items (shown c) d))"
    by (simp add: case_prod_beta link_view_def)
  then show ?thesis unfolding active_cup_links_def linked_items_viewed [where P = "shown c", OF shown_view] by simp
qed

lemma viewed_adopt: "viewed (adopt_links fk g d) = viewed d"
  by (simp add: viewed_def adopt_links_def modify_where_def link_view_def case_prod_beta comp_def)

lemma viewed_feed_for_group: "feed_for_group en t kc g d = Some (r, d') \<Longrightarrow> viewed d' = viewed d"
  by (auto simp: feed_for_group_def add_row_def Let_def viewed_def split: option.splits prod.splits)

lemma viewed_bind_groups: "bind_groups en t kc gs r d = Some (r', d') \<Longrightarrow> viewed d' = viewed d"
  by (induction en t kc gs r d rule: bind_groups.induct)
    (auto split: option.splits prod.splits dest!: viewed_feed_for_group simp: viewed_adopt)

lemma viewed_ensure: "ensure_pasarguard_feeds_for_cup en lr t ck d = Some (r, d') \<Longrightarrow> viewed d' = viewed d"
  by (auto simp: ensure_pasarguard_feeds_for_cup_def Let_def split: option.splits if_splits prod.splits dest!: viewed_bind_groups)

lemma viewed_eqD:
  assumes "viewed d' = viewed d"
  shows "db_cup_items d' = db_cup_items d" "db_cups d' = db_cups d" "map fst (db_config_links d') = map fst (db_config_links d)"
    "active_cup_links c d' = active_cup_links c d"
proof -
  show "db_cup_items d' = db_cup_items d" "db_cups d' = db_cups d"
    using arg_cong [OF assms, of db_cup_items] arg_cong [OF assms, of db_cups] by (simp_all add: viewed_def)
  have "map fst (db_config_links (viewed d')) = map fst (db_config_links (viewed d))" by (simp add: assms)
  then show "map fst (db_config_links d') = map fst (db_config_links d)" by (simp add: viewed_def case_prod_beta comp_def)
  show "active_cup_links c d' = active_cup_links c d" by (subst (1 2) active_links_viewed) (simp add: assms)
qed

lemma items_ok_viewed:
  assumes v: "viewed d' = viewed d" and ok: "items_ok d"
  shows "items_ok d'"
proof (rule items_okI)
  note same = viewed_eqD [OF v]
  show "wf_table (db_cup_items d')" "wf_table (db_config_links d')"
    using items_okD(1,2) [OF ok] same by (simp_all add: wf_table_def)
  have dom: "row (db_config_links d') j = None \<longleftrightarrow> row (db_config_links d) j = None" for j
    using arg_cong [OF same(3), of set] by (simp add: row_None_iff)
  show "row (db_config_links d') (ci_config_link i) \<noteq> None" if "row (db_cup_items d') k = Some i" for k i
    using that items_okD(3) [OF ok, of k i] by (simp add: dom same del: not_None_eq)
  show "k = k'" if "row (db_cup_items d') k = Some i" "row (db_cup_items d') k' = Some i'" "ci_cup i = ci_cup i'"
    "ci_config_link i = ci_config_link i'" for k i k' i'
    using that items_okD(4) [OF ok, of k i k' i'] by (simp add: same)
qed

end
