(* ===== verification/Cup_Laws.thy ===== *)
theory Cup_Laws
  imports Cup_Facts Samples
begin

text \<open>What a customer reads from a cup: the rebuilt links, their serialisation and the feeds they may be bound to.\<close>

section \<open>A cup to read\<close>

definition sample_reader :: link_reader where
  "sample_reader = \<lparr>lr_sha = (\<lambda>s. s), lr_digest = (\<lambda>_. ''digest''), lr_vmess = (\<lambda>_. []), lr_ip = (\<lambda>_. True)\<rparr>"

definition no_tables :: delivery_tables where
  "no_tables = \<lparr>dt_configs = [], dt_sources = [], dt_recipes = [], dt_rules = [],
     dt_inventory = \<lparr>iv_pools = [], iv_assets = [], iv_allocations = []\<rparr>\<rparr>"

definition sample_entries :: "config_entry list" where
  "sample_entries = [\<lparr>ce_raw_link = ''vless://b'', ce_source_inbound = Some 1, ce_source_panel = Some 1, ce_metadata = []\<rparr>,
     \<lparr>ce_raw_link = ''vless://a'', ce_source_inbound = Some 1, ce_source_panel = Some 1, ce_metadata = []\<rparr>]"

lemma strip_sample: "strip ''vless://b'' = ''vless://b''" "strip ''vless://a'' = ''vless://a''"
  by (simp_all add: strip_def blank_def chr_code_def)

text \<open>A cup with one listed link of a client on a PasarGuard panel, for a verified order.\<close>

definition guard_cup :: cup where
  "guard_cup = (new_cup sample_env ''tok'')\<lparr>cp_customer := Some 2, cp_order := Some 1, cp_plan := Some 1, cp_vpn_client := Some 1\<rparr>"

definition guard_link :: config_link where
  "guard_link = new_config_link\<lparr>cl_raw_link := ''vless://a'', cl_protocol := ''vless'', cl_source_type := PanelGenerated,
     cl_source_panel := Some 1, cl_vpn_client := Some 1\<rparr>"

definition guard_db :: db where
  "guard_db = sample_db\<lparr>db_panels := [(1, sample_panel\<lparr>pn_family := FamPasarguard\<rparr>)],
     db_orders := [(1, sample_order\<lparr>o_status := Completed, o_verification_status := VerVerified\<rparr>)],
     db_clients := [(1, sample_client\<lparr>vc_sub_link := ''https://up/x''\<rparr>)], db_cups := [(1, guard_cup)],
     db_config_links := [(1, guard_link)],
     db_cup_items := [(1, \<lparr>ci_cup = 1, ci_config_link = 1, ci_position = 1, ci_is_active = True, ci_added_reason = [], ci_metadata = []\<rparr>)]\<rparr>"

lemmas guard_defs = guard_db_def guard_cup_def guard_link_def new_cup_def new_config_link_def sample_defs table_defs

lemma guard_links: "active_cup_links 1 guard_db = [''vless://a'']"
  by (simp add: active_cup_links_def linked_items_def with_link_def shown_def guard_defs List.map_filter_simps strip_sample)

section \<open>Rebuilding\<close>

lemma obtain_cup_facts:
  assumes "obtain_cup en ord client force d = (ck, d1)"
  shows "db_cup_items d1 = db_cup_items d" "db_config_links d1 = db_config_links d" "db_feeds d1 = db_feeds d"
    "db_panels d1 = db_panels d"
    "\<exists>c. row (db_cups d1) ck = Some (update_cup en d ord client force c) \<and>
       (\<forall>j. j \<noteq> ck \<longrightarrow> row (db_cups d1) j = row (db_cups d) j) \<and>
       (row (db_cups d) ck = None \<or> cup_for_target (map_option fst ord) (map_option fst client) d = Some (ck, c))"
proof -
  have "db_cup_items d1 = db_cup_items d \<and> db_config_links d1 = db_config_links d \<and> db_feeds d1 = db_feeds d \<and> db_panels d1 = db_panels d \<and>
    (\<exists>c. row (db_cups d1) ck = Some (update_cup en d ord client force c) \<and>
       (\<forall>j. j \<noteq> ck \<longrightarrow> row (db_cups d1) j = row (db_cups d) j) \<and>
       (row (db_cups d) ck = None \<or> cup_for_target (map_option fst ord) (map_option fst client) d = Some (ck, c)))"
  proof (cases "cup_for_target (map_option fst ord) (map_option fst client) d")
    case None
    then show ?thesis
      using assms by (auto simp: obtain_cup_def draw_def add_row_def Let_def row_append_fresh)
  next
    case (Some kc)
    then show ?thesis
      using assms by (cases kc) (auto simp: obtain_cup_def row_put)
  qed
  then show "db_cup_items d1 = db_cup_items d" "db_config_links d1 = db_config_links d" "db_feeds d1 = db_feeds d"
    "db_panels d1 = db_panels d"
    "\<exists>c. row (db_cups d1) ck = Some (update_cup en d ord client force c) \<and>
       (\<forall>j. j \<noteq> ck \<longrightarrow> row (db_cups d1) j = row (db_cups d) j) \<and>
       (row (db_cups d) ck = None \<or> cup_for_target (map_option fst ord) (map_option fst client) d = Some (ck, c))"
    by blast+
qed

lemma items_ok_same:
  "db_cup_items d' = db_cup_items d \<Longrightarrow> db_config_links d' = db_config_links d \<Longrightarrow> items_ok d' = items_ok d"
  by (simp add: items_ok_def)

lemma linked_items_same:
  "db_cup_items d' = db_cup_items d \<Longrightarrow> db_config_links d' = db_config_links d \<Longrightarrow> linked_items P d' = linked_items P d"
proof -
  assume same: "db_cup_items d' = db_cup_items d" "db_config_links d' = db_config_links d"
  then have "with_link d' = with_link d" by (simp add: fun_eq_iff with_link_def)
  then show ?thesis by (simp add: linked_items_def same)
qed

definition order_of_target :: "(pk \<times> order) option \<Rightarrow> (pk \<times> vpn_client) option \<Rightarrow> db \<Rightarrow> (pk \<times> order) option" where
  "order_of_target ord client d =
     (case ord of Some x \<Rightarrow> Some x | None \<Rightarrow> Option.bind client (\<lambda>(_, v). the_row (db_orders d) (vc_order v)))"

text \<open>The steps of a rebuild.\<close>

lemma rebuild_cup_steps:
  assumes "rebuild_cup en lr t ord client entries force reason d = Some (ck, d')"
  obtains d1 d2 r where "obtain_cup en (order_of_target ord client d) client force d = (ck, d1)"
    "d2 = list_entries lr ck (map_option fst client) reason entries d1"
    "ensure_pasarguard_feeds_for_cup en lr t ck d2 = Some (r, d')"
  using assms by (auto simp: rebuild_cup_def order_of_target_def Let_def split: prod.splits)

definition feedless :: "pk \<Rightarrow> db \<Rightarrow> bool" where
  "feedless ck d \<longleftrightarrow> managed_pairs ck d = [] \<and> linked_items (\<lambda>i l. ci_cup i = ck \<and> cl_external_feed l \<noteq> None) d = []"

lemma shown_unmanaged:
  assumes ok: "items_ok d" and none: "linked_items (\<lambda>i l. ci_cup i = ck \<and> cl_external_feed l \<noteq> None) d = []"
  shows "linked_items (shown ck) d = linked_items (\<lambda>i l. shown ck i l \<and> cl_external_feed l = None) d"
proof (rule linked_items_cong [OF items_okD(1) [OF ok] items_okD(1) [OF ok]])
  fix k i l
  have "cl_external_feed l = None"
    if "(k, i) \<in> set (db_cup_items d)" "row (db_config_links d) (ci_config_link i) = Some l" "shown ck i l"
  proof (rule ccontr)
    assume "cl_external_feed l \<noteq> None"
    then have "(k, i, l) \<in> set (linked_items (\<lambda>i l. ci_cup i = ck \<and> cl_external_feed l \<noteq> None) d)"
      using that by (simp add: set_linked_items shown_def)
    then show False unfolding none by simp
  qed
  then show "(k, i) \<in> set (db_cup_items d) \<and> row (db_config_links d) (ci_config_link i) = Some l \<and> shown ck i l \<longleftrightarrow>
    (k, i) \<in> set (db_cup_items d) \<and> row (db_config_links d) (ci_config_link i) = Some l \<and> shown ck i l \<and> cl_external_feed l = None"
    by auto
qed

lemma list_entries_active:
  assumes ok: "items_ok d" and none: "feedless ck d"
  shows "active_cup_links ck (list_entries lr ck client reason entries d) =
    filter (\<lambda>s. s \<noteq> []) (map (\<lambda>e. strip (ce_raw_link e)) entries)"
proof -
  let ?d = "list_entries lr ck client reason entries d"
  have facts: "items_ok ?d" "map (\<lambda>(_, _, l). cl_raw_link l) (linked_items (\<lambda>i l. shown ck i l \<and> cl_external_feed l = None) ?d) =
      map (\<lambda>e. strip (ce_raw_link e)) entries"
    "linked_items (\<lambda>i l. ci_cup i = ck \<and> cl_external_feed l \<noteq> None) ?d = []"
    using list_entries_lists [OF ok refl, of lr ck client reason entries] none by (simp_all add: feedless_def kept_entries_def)
  have "map (\<lambda>(_, _, l). strip (cl_raw_link l)) (linked_items (shown ck) ?d) =
    map strip (map (\<lambda>(_, _, l). cl_raw_link l) (linked_items (\<lambda>i l. shown ck i l \<and> cl_external_feed l = None) ?d))"
    unfolding shown_unmanaged [OF facts(1,3)] by (simp add: case_prod_beta comp_def)
  also have "\<dots> = map (\<lambda>e. strip (ce_raw_link e)) entries" unfolding facts(2) by simp
  finally show ?thesis by (simp add: active_cup_links_def)
qed

text \<open>Listing the same links again reuses their rows.\<close>

definition raws :: "linked_item list \<Rightarrow> string list" where
  "raws xs = map (\<lambda>(_, _, l). cl_raw_link l) xs"

lemma pop_match_counts:
  assumes "pop_match raw xs = Some (x, ys)"
  shows "count_list (raws xs) r = count_list (raws ys) r + (if r = raw then 1 else 0)"
  using pop_match_Some [OF assms] by (auto simp: raws_def case_prod_beta)

definition same_keys :: "db \<Rightarrow> db \<Rightarrow> bool" where
  "same_keys d d' \<longleftrightarrow>
     map fst (db_cup_items d') = map fst (db_cup_items d) \<and> map fst (db_config_links d') = map fst (db_config_links d)"

lemma keys_put_row: "row t k = Some r \<Longrightarrow> map fst (put k x t) = map fst t"
  by (simp add: put_def update_keys) (metis option.distinct(1) row_None_iff)

lemma place_entries_reuse:
  assumes "place_entries c es xs d = (ps, d')" "items_ok d" "reusable_ok c xs d"
    "\<And>r. count_list (map ey_raw_link es) r \<le> count_list (raws xs) r"
  shows "same_keys d d'"
  using assms
proof (induction es arbitrary: xs d ps d')
  case Nil
  then show ?case by (simp add: same_keys_def)
next
  case (Cons e es)
  obtain p ys d1 where step: "place_entry c e xs d = (p, ys, d1)" by (rule prod_cases3)
  obtain qs where rest: "place_entries c es ys d1 = (qs, d')" using Cons.prems(1) step by (auto split: prod.splits)
  have "count_list (raws xs) (ey_raw_link e) \<noteq> 0" using Cons.prems(4) [of "ey_raw_link e"] by simp
  then have "ey_raw_link e \<in> set (raws xs)" by (simp add: count_list_0_iff)
  then obtain x where "x \<in> set xs" "cl_raw_link (snd (snd x)) = ey_raw_link e" by (auto simp: raws_def case_prod_beta)
  then have "pop_match (ey_raw_link e) xs \<noteq> None" unfolding pop_match_None by blast
  then obtain ik i l zs where pop: "pop_match (ey_raw_link e) xs = Some ((ik, i, l), zs)" by auto
  then have "ys = zs" and d1: "d1 = d\<lparr>db_config_links := put (ci_config_link i) (ey_write e l) (db_config_links d),
      db_cup_items := put ik (listed e i) (db_cup_items d)\<rparr>"
    using step by (auto simp: place_entry_def)
  obtain us vs where "xs = us @ (ik, i, l) # vs" using pop_match_Some [OF pop] by blast
  then have "row (db_cup_items d) ik = Some i" "row (db_config_links d) (ci_config_link i) = Some l"
    using Cons.prems(3) by (auto simp: reusable_ok_def)
  then have keys: "same_keys d d1" by (simp add: same_keys_def d1 keys_put_row)
  have "count_list (map ey_raw_link es) r \<le> count_list (raws ys) r" for r
    using Cons.prems(4) [of r] pop_match_counts [OF pop, of r] by (simp add: \<open>ys = zs\<close> split: if_splits)
  then have "same_keys d1 d'"
    by (rule Cons.IH [OF rest place_entry_spec(1,2) [OF step Cons.prems(2,3)]])
  with keys show ?case by (simp add: same_keys_def)
qed

lemma linked_items_filter:
  "linked_items (\<lambda>i l. P i l \<and> R i l) d = filter (\<lambda>(k, i, l). R i l) (linked_items P d)"
  unfolding linked_items_eq filter_sort filter_filter by (rule arg_cong [of _ _ "sort_key item_key"], rule filter_cong) auto

lemma count_list_filter: "count_list (map f (filter P xs)) r \<le> count_list (map f xs) r"
  by (induction xs) auto

lemma cup_entries_raws: "raws (linked_items (\<lambda>i l. shown ck i l \<and> cl_external_feed l = None) d) = map ce_raw_link es \<Longrightarrow>
  count_list (map ey_raw_link (cup_entries lr ck client reason 1 es)) r \<le> count_list (raws (linked_items (unmanaged ck) d)) r"
proof -
  assume eq: "raws (linked_items (\<lambda>i l. shown ck i l \<and> cl_external_feed l = None) d) = map ce_raw_link es"
  have "(\<lambda>i l. shown ck i l \<and> cl_external_feed l = None) = (\<lambda>i l. unmanaged ck i l \<and> (ci_is_active i \<and> cl_is_active l))"
    by (auto simp: fun_eq_iff shown_def unmanaged_def)
  then have "linked_items (\<lambda>i l. shown ck i l \<and> cl_external_feed l = None) d =
    filter (\<lambda>(k, i, l). ci_is_active i \<and> cl_is_active l) (linked_items (unmanaged ck) d)"
    by (simp only: linked_items_filter)
  then show ?thesis
    unfolding cup_entries_simps(1) eq [symmetric] raws_def by (simp only: count_list_filter)
qed

lemma keys_retire [simp]: "same_keys d (retire_items P d') = same_keys d d'"
  by (simp add: same_keys_def retire_items_def)

lemma list_entries_again:
  assumes ok: "items_ok d" and none: "feedless ck d"
    and raw: "raws (linked_items (\<lambda>i l. shown ck i l \<and> cl_external_feed l = None) d) = map ce_raw_link es"
  shows "same_keys d (list_entries lr ck client reason es d)"
proof -
  obtain ps d1 where
    p: "place_entries ck (cup_entries lr ck client reason 1 (kept_entries ck client es d)) (linked_items (unmanaged ck) d) d = (ps, d1)"
    by (rule prod.exhaust)
  have "same_keys d d1"
    by (rule place_entries_reuse [OF p ok unmanaged_reusable [OF ok]])
      (use none cup_entries_raws [OF raw] in \<open>simp add: feedless_def kept_entries_def\<close>)
  then show ?thesis using p by (simp add: list_entries_def kept_entries_def [symmetric])
qed

text \<open>Without a PasarGuard panel no link is bound.\<close>

definition no_pasarguard :: "db \<Rightarrow> bool" where
  "no_pasarguard d \<longleftrightarrow> (\<forall>(k, p) \<in> set (db_panels d). pn_family p \<noteq> FamPasarguard)"

lemma classify_irrelevant: "no_pasarguard d \<Longrightarrow> classify_link lr kc lk l d = Irrelevant"
  by (auto simp: classify_link_def Let_def no_pasarguard_def the_row_def split: option.splits bind_splits dest!: row_Some_in)

lemma group_links_none: "no_pasarguard d \<Longrightarrow> group_links lr kc d xs (gs, r) = (gs, r)"
  by (induction xs arbitrary: gs r) (simp_all add: classify_irrelevant)

lemma ensure_none:
  "no_pasarguard d \<Longrightarrow> row (db_cups d) ck = Some c \<Longrightarrow> ensure_pasarguard_feeds_for_cup en lr t ck d = Some (empty_report, d)"
  by (simp add: ensure_pasarguard_feeds_for_cup_def group_links_none)

text \<open>A cup that was rebuilt is found again for its target.\<close>

lemma ordered_where_put:
  assumes "wf_table t" "first_of (ordered_where f P t) = Some (k, r)" "P k r'" "f (k, r') = f (k, r)"
  shows "first_of (ordered_where f P (put k r' t)) = Some (k, r')"
proof -
  let ?h = "\<lambda>(j, q). (j, if j = k then r' else q)"
  have in_t: "(k, r) \<in> set t" "P k r" using first_of_Some [OF assms(2)] by (simp_all add: set_ordered_where)
  then have t': "put k r' t = map ?h t"
    using put_existing [OF assms(1)] by (force simp: modify_where_def)
  have uniq: "q = r" if "(k, q) \<in> set t" for q
    using in_row_Some [OF assms(1) that] in_row_Some [OF assms(1) in_t(1)] by simp
  have "P a (if a = k then r' else b) = P a b" if "(a, b) \<in> set t" for a b
    using that uniq [of b] in_t(2) assms(3) by (cases "a = k") simp_all
  then have rows: "rows_where P (map ?h t) = map ?h (rows_where P t)"
    unfolding rows_where_def filter_map comp_def
    by (intro arg_cong [of _ _ "map ?h"] filter_cong) auto
  have sort: "map ?h (sort_key f xs) = sort_key f (map ?h xs)" if "set xs \<subseteq> set t" for xs
    using that
  proof (induction xs)
    case (Cons x xs)
    have key: "f (?h y) = f y" if "y \<in> set t" for y 
    proof (cases y)
      case (Pair j q)
      then show ?thesis using that uniq [of q] assms(4) by (cases "j = k") simp_all
    qed
    have "map ?h (insort_key f x ys) = insort_key f (?h x) (map ?h ys)" if "set ys \<subseteq> set t" for ys
      using that Cons.prems by (induction ys) (auto simp: key)
    with Cons show ?case by simp
  qed simp
  have "set (rows_where P t) \<subseteq> set t" by (auto simp: rows_where_def)
  then have "ordered_where f P (put k r' t) = map ?h (ordered_where f P t)"
    unfolding t' ordered_where_def rows by (rule sort [symmetric])
  then show ?thesis using assms(2) by (cases "ordered_where f P t") auto
qed

lemma ordered_where_add:
  assumes "first_of (ordered_where f P t) = None" "P (fresh_pk t) r"
  shows "first_of (ordered_where f P (t @ [(fresh_pk t, r)])) = Some (fresh_pk t, r)"
proof -
  have "rows_where P t = []" using assms(1) by (metis first_of_None ordered_where_def set_empty2 set_sort)
  then show ?thesis using assms(2) by (simp add: ordered_where_def rows_where_def)
qed

lemma obtain_cup_found:
  assumes "obtain_cup en ord client force d = (ck, d1)" "wf_table (db_cups d)"
  shows "\<exists>c. cup_for_target (map_option fst ord) (map_option fst client) d1 = Some (ck, c)"
proof (cases "cup_for_target (map_option fst ord) (map_option fst client) d")
  case None
  let ?c = "update_cup en d ord client force (new_cup en (e_uuid en (db_draws d)))"
  have "ck = fresh_pk (db_cups d)" "db_cups d1 = db_cups d @ [(fresh_pk (db_cups d), ?c)]"
    using assms(1) None by (auto simp: obtain_cup_def draw_def add_row_def Let_def)
  then show ?thesis
    using ordered_where_add [OF None [unfolded cup_for_target_def], of ?c]
    by (auto simp: cup_for_target_def update_cup_def Let_def split: option.splits)
next
  case (Some kc)
  obtain c where kc: "kc = (ck, c)" and d1: "db_cups d1 = put ck (update_cup en d ord client force c) (db_cups d)"
    using assms(1) Some by (cases kc) (auto simp: obtain_cup_def)
  show ?thesis
    using ordered_where_put [OF assms(2) Some [unfolded cup_for_target_def kc], of "update_cup en d ord client force c"]
    by (auto simp: cup_for_target_def d1 update_cup_def Let_def split: option.splits)
qed

lemma no_pasarguard_beside:
  assumes "beside_items d' = beside_items d"
  shows "no_pasarguard d' = no_pasarguard d"
  by (simp add: no_pasarguard_def beside_items_eqD [OF assms])

lemma cup_for_target_same: "db_cups d' = db_cups d \<Longrightarrow> cup_for_target o1 v d' = cup_for_target o1 v d"
  by (simp add: cup_for_target_def)

lemma order_of_target_beside: "db_orders d' = db_orders d \<Longrightarrow> order_of_target ord client d' = order_of_target ord client d"
  unfolding order_of_target_def by (rule option.case_cong) auto

text \<open>A rebuild when no panel is a PasarGuard panel: nothing is bound after the listing.\<close>

lemma rebuild_plain:
  assumes "no_pasarguard d" "items_ok d" and cup: "obtain_cup en (order_of_target ord client d) client force d = (ck, d1)"
  shows "rebuild_cup en lr t ord client entries force reason d =
    Some (ck, list_entries lr ck (map_option fst client) reason entries d1)"
proof -
  let ?d2 = "list_entries lr ck (map_option fst client) reason entries d1"
  note facts = obtain_cup_facts [OF cup]
  have "items_ok d1" using assms(2) by (simp add: items_ok_same [OF facts(1,2)])
  then have b: "beside_items ?d2 = beside_items d1" by (rule list_entries_facts(2))
  then have "no_pasarguard ?d2" "db_cups ?d2 = db_cups d1"
    using assms(1) facts(4) by (simp_all add: no_pasarguard_def beside_items_eqD [OF b])
  moreover obtain c where "row (db_cups d1) ck = Some c" using facts(5) by blast
  ultimately show ?thesis
    using cup ensure_none [of ?d2 ck] by (simp add: rebuild_cup_def order_of_target_def Let_def)
qed

text \<open>
  C28. Rebuilding a cup that no feed keeps makes it serve exactly the links of its client or order: the
  customer reads the entries in their order, without blanks and empty ones, whatever the cup listed
  before; the cup has the customer, plan, limits and expiry of the target and is found again for it.
  The tables of links and items stay well formed.
\<close>

theorem rebuild_lists_links:
  assumes "items_ok d" "rebuild_cup en lr t ord client entries force reason d = Some (ck, d')" "feedless ck d"
  shows "items_ok d' \<and>
    active_cup_links ck d' = filter (\<lambda>s. s \<noteq> []) (map (\<lambda>e. strip (ce_raw_link e)) entries) \<and>
    (\<exists>c. row (db_cups d') ck = Some (update_cup en d (order_of_target ord client d) client force c) \<and>
       (row (db_cups d) ck = None \<or>
        cup_for_target (map_option fst (order_of_target ord client d)) (map_option fst client) d = Some (ck, c))) \<and>
    (\<forall>j. j \<noteq> ck \<longrightarrow> row (db_cups d') j = row (db_cups d) j)"
proof -
  obtain d1 d2 r where steps: "obtain_cup en (order_of_target ord client d) client force d = (ck, d1)"
    "d2 = list_entries lr ck (map_option fst client) reason entries d1"
    "ensure_pasarguard_feeds_for_cup en lr t ck d2 = Some (r, d')"
    by (rule rebuild_cup_steps [OF assms(2)])
  note cup = obtain_cup_facts [OF steps(1)] and view = viewed_ensure [OF steps(3)]
  have ok1: "items_ok d1" using assms(1) by (simp add: items_ok_same [OF cup(1,2)])
  have less: "feedless ck d1"
    using assms(3) by (simp add: feedless_def managed_pairs_def cup(3) linked_items_same [OF cup(1,2)])
  have listed: "items_ok d2" "beside_items d2 = beside_items d1"
    unfolding steps(2) by (rule list_entries_facts [OF ok1])+
  have cups: "db_cups d' = db_cups d1"
    using viewed_eqD(2) [OF view] beside_items_eqD(1) [OF listed(2)] by simp
  have "active_cup_links ck d' = filter (\<lambda>s. s \<noteq> []) (map (\<lambda>e. strip (ce_raw_link e)) entries)"
    using list_entries_active [OF ok1 less] viewed_eqD(4) [OF view] by (simp add: steps(2))
  moreover have "items_ok d'" by (rule items_ok_viewed [OF view listed(1)])
  ultimately show ?thesis using cup(5) unfolding cups by blast
qed

lemma sample_items: "items_ok sample_db" "wf_table (db_cups sample_db)" "no_pasarguard sample_db" "feedless k sample_db"
  by (simp_all add: items_ok_def no_pasarguard_def feedless_def managed_pairs_def linked_items_def sample_defs wf_table_def rows_where_def
      List.map_filter_simps)

lemma rebuild_lists_links_witness:
  "\<exists>ck d'. rebuild_cup sample_env sample_reader no_tables None (Some (1, sample_client)) sample_entries True ''rebuild'' sample_db = Some (ck, d') \<and>
     active_cup_links ck d' = [''vless://b'', ''vless://a'']"
proof -
  obtain ck d1 where "obtain_cup sample_env (order_of_target None (Some (1, sample_client)) sample_db) (Some (1, sample_client)) True sample_db = (ck, d1)"
    by (rule prod.exhaust)
  from rebuild_plain [OF sample_items(3,1) this] obtain d' where
    r: "rebuild_cup sample_env sample_reader no_tables None (Some (1, sample_client)) sample_entries True ''rebuild'' sample_db = Some (ck, d')"
    by blast
  from rebuild_lists_links [OF sample_items(1) r sample_items(4)] r show ?thesis
    by (intro exI [of _ ck] exI [of _ d']) (simp add: sample_entries_def strip_sample)
qed

text \<open>
  Rebuilding is idempotent on the rows: when a cup without feeds is rebuilt a second time for the same
  links (written without surrounding blanks, on panels of other families), at any later time and under any
  settings, the same cup is found, no cup, item or link is created, and the customer reads the same links.
\<close>

theorem rebuild_again_creates_nothing:
  assumes "items_ok d" "wf_table (db_cups d)" "no_pasarguard d"
    "rebuild_cup en lr t ord client entries force reason d = Some (ck, d')" "feedless ck d"
    "\<forall>e \<in> set entries. strip (ce_raw_link e) = ce_raw_link e"
  shows "\<exists>d2. rebuild_cup en2 lr t ord client entries force2 reason2 d' = Some (ck, d2) \<and>
    map fst (db_cups d2) = map fst (db_cups d') \<and> map fst (db_cup_items d2) = map fst (db_cup_items d') \<and>
    map fst (db_config_links d2) = map fst (db_config_links d') \<and> active_cup_links ck d2 = active_cup_links ck d'"
proof -
  let ?o = "order_of_target ord client d"
  obtain d1 where cup: "obtain_cup en ?o client force d = (ck, d1)"
    and d': "d' = list_entries lr ck (map_option fst client) reason entries d1"
    using assms(4) rebuild_plain [OF assms(3,1)] by (metis Pair_inject option.inject prod.exhaust)
  note cf = obtain_cup_facts [OF cup]
  have ok1: "items_ok d1" and less1: "feedless ck d1" and no1: "no_pasarguard d1"
    using assms(1,3,5) by (simp_all add: items_ok_same [OF cf(1,2)] feedless_def managed_pairs_def cf(3,4) linked_items_same [OF cf(1,2)] no_pasarguard_def)
  note ll = list_entries_facts [OF ok1, where lr = lr and ck = ck and client = "map_option fst client" and reason = reason and entries = entries, folded d']
  note ok' = ll(1) and beside = ll(2)
  have no': "no_pasarguard d'" using no1 by (simp add: no_pasarguard_beside [OF beside])
  have less': "feedless ck d'" using less1 ll(4) by (simp add: feedless_def managed_pairs_def beside_items_eqD [OF beside])
  have "map ce_raw_link entries = map (\<lambda>e. strip (ce_raw_link e)) entries" using assms(6) by simp
  then have raw: "raws (linked_items (\<lambda>i l. shown ck i l \<and> cl_external_feed l = None) d') = map ce_raw_link entries"
    using ll(3) less1 by (simp add: raws_def kept_entries_def feedless_def)
  have cups: "db_cups d' = db_cups d1" and orders: "db_orders d' = db_orders d1" by (simp_all add: beside_items_eqD [OF beside])
  have "db_orders d1 = db_orders d" using cup by (auto simp: obtain_cup_def draw_def add_row_def Let_def split: option.splits)
  then have o': "order_of_target ord client d' = ?o" using orders by (intro order_of_target_beside) simp
  obtain c where "cup_for_target (map_option fst ?o) (map_option fst client) d1 = Some (ck, c)"
    using obtain_cup_found [OF cup assms(2)] by blast
  then have found: "cup_for_target (map_option fst ?o) (map_option fst client) d' = Some (ck, c)"
    by (simp add: cup_for_target_same [OF cups])
  let ?d1 = "d'\<lparr>db_cups := put ck (update_cup en2 d' ?o client force2 c) (db_cups d')\<rparr>"
  have cup2: "obtain_cup en2 (order_of_target ord client d') client force2 d' = (ck, ?d1)"
    unfolding o' by (simp add: obtain_cup_def found)
  let ?d2 = "list_entries lr ck (map_option fst client) reason2 entries ?d1"
  have again: "rebuild_cup en2 lr t ord client entries force2 reason2 d' = Some (ck, ?d2)"
    by (rule rebuild_plain [OF no' ok' cup2])
  note same = linked_items_same [of ?d1 d', simplified]
  have ok2: "items_ok ?d1" and less2: "feedless ck ?d1"
    using ok' less' by (simp_all add: items_ok_same [of ?d1 d', simplified] feedless_def managed_pairs_def same)
  have keys: "same_keys ?d1 ?d2" by (rule list_entries_again [OF ok2 less2]) (simp add: same raw)
  have active: "active_cup_links ck ?d2 = active_cup_links ck d'"
  proof -
    have "active_cup_links ck d' = filter (\<lambda>s. s \<noteq> []) (map (\<lambda>e. strip (ce_raw_link e)) entries)"
      unfolding d' by (rule list_entries_active [OF ok1 less1])
    then show ?thesis using list_entries_active [OF ok2 less2] by (simp only:)
  qed
  have "beside_items ?d2 = beside_items ?d1" by (rule list_entries_facts(2) [OF ok2])
  then have "db_cups ?d2 = db_cups ?d1" by (rule beside_items_eqD(1))
  moreover have "row (db_cups d') ck = Some c"
  proof -
    have "(ck, c) \<in> set (db_cups d')" using found first_of_Some by (fastforce simp: cup_for_target_def set_ordered_where)
    moreover have "wf_table (db_cups d')"
      unfolding cups using cup assms(2) by (auto simp: obtain_cup_def draw_def add_row_def Let_def split: option.splits)
    ultimately show ?thesis by (rule in_row_Some [rotated])
  qed
  ultimately have "map fst (db_cups ?d2) = map fst (db_cups d')" by (simp add: keys_put_row)
  then show ?thesis using again keys active by (intro exI [of _ ?d2]) (simp add: same_keys_def)
qed

lemma rebuild_again_creates_nothing_witness:
  "\<exists>ck d' d2. rebuild_cup sample_env sample_reader no_tables None (Some (1, sample_client)) sample_entries True ''rebuild'' sample_db = Some (ck, d') \<and>
     rebuild_cup (sample_env\<lparr>e_now := 5\<rparr>) sample_reader no_tables None (Some (1, sample_client)) sample_entries False ''again'' d' = Some (ck, d2) \<and>
     map fst (db_cup_items d2) = map fst (db_cup_items d')"
proof -
  obtain ck d1 where "obtain_cup sample_env (order_of_target None (Some (1, sample_client)) sample_db) (Some (1, sample_client)) True sample_db = (ck, d1)"
    by (rule prod.exhaust)
  from rebuild_plain [OF sample_items(3,1) this] obtain d' where
    r: "rebuild_cup sample_env sample_reader no_tables None (Some (1, sample_client)) sample_entries True ''rebuild'' sample_db = Some (ck, d')"
    by blast
  have "\<forall>e \<in> set sample_entries. strip (ce_raw_link e) = ce_raw_link e" by (simp add: sample_entries_def strip_sample)
  from rebuild_again_creates_nothing [OF sample_items(1-3) r sample_items(4) this, of "sample_env\<lparr>e_now := 5\<rparr>" False "''again''"] r
  show ?thesis by blast
qed

section \<open>Binding\<close>

text \<open>What a successful classification says of a link.\<close>

lemma classify_Bindable:
  assumes "classify_link lr kc lk l d = Bindable p v url"
  shows "\<not> shared_link (fst kc) lk d \<and>
    (\<exists>pn. row (db_panels d) p = Some pn \<and> pn_family pn = FamPasarguard \<and> owned_client (snd kc) (Some v) (p, pn) d) \<and>
    url = upstream_url lr (snd kc) (snd v) \<and> url \<noteq> []"
  using assms
  by (auto simp: classify_link_def Let_def the_row_def split: option.splits bind_splits if_splits prod.splits)

definition group_ok :: "link_reader \<Rightarrow> pk \<times> cup \<Rightarrow> db \<Rightarrow> feed_group \<Rightarrow> bool" where
  "group_ok lr kc d g \<longleftrightarrow>
     (\<forall>(k, i, l) \<in> set (fg_items g). \<exists>v url. classify_link lr kc (ci_config_link i) l d = Bindable (fg_panel g) v url \<and>
        fst v = fst (fg_client g) \<and> (k, i, l) \<in> set (linked_items (bindable_item (fst kc)) d))"

lemma group_into_ok:
  assumes "\<forall>g \<in> set gs. group_ok lr kc d g" "classify_link lr kc (ci_config_link i) l d = Bindable p v url"
    "(k, i, l) \<in> set (linked_items (bindable_item (fst kc)) d)"
  shows "\<forall>g \<in> set (group_into p v url (k, i, l) gs). group_ok lr kc d g"
  using assms(1)
proof (induction gs)
  case Nil
  then show ?case using assms(2,3) by (cases v) (simp add: group_ok_def)
next
  case (Cons g gs)
  then show ?case using assms(2,3) by (cases v) (auto simp: group_ok_def)
qed

lemma group_links_ok:
  assumes "\<forall>g \<in> set gs. group_ok lr kc d g" "set xs \<subseteq> set (linked_items (bindable_item (fst kc)) d)"
    "group_links lr kc d xs (gs, r) = (gs', r')"
  shows "\<forall>g \<in> set gs'. group_ok lr kc d g"
  using assms
proof (induction xs arbitrary: gs r)
  case (Cons x xs)
  obtain k i l where x: "x = (k, i, l)" by (rule prod_cases3)
  show ?case
  proof (cases "classify_link lr kc (ci_config_link i) l d")
    case (Bindable p v url)
    have "\<forall>g \<in> set (group_into p v url (k, i, l) gs). group_ok lr kc d g"
      by (rule group_into_ok [OF Cons.prems(1) Bindable]) (use Cons.prems(2) in \<open>simp add: x\<close>)
    then show ?thesis using Cons.IH [of "group_into p v url (k, i, l) gs" r] Cons.prems Bindable by (simp add: x)
  qed (use Cons.IH [of gs] Cons.prems in \<open>simp_all add: x\<close>)
qed simp

text \<open>Binding a group changes a link only when it is in the group and has no feed yet.\<close>

definition bound_in :: "pk \<Rightarrow> feed_group list \<Rightarrow> db \<Rightarrow> db \<Rightarrow> bool" where
  "bound_in ck gs d d' \<longleftrightarrow>
     (\<forall>k. row (db_config_links d') k = row (db_config_links d) k \<or>
        (\<exists>l g fk. row (db_config_links d) k = Some l \<and> cl_external_feed l = None \<and> g \<in> set gs \<and>
           k \<in> set (map (\<lambda>(_, i, _). ci_config_link i) (fg_items g)) \<and>
           row (db_config_links d') k = Some (l\<lparr>cl_external_feed := Some fk, cl_vpn_client := Some (fst (fg_client g))\<rparr>) \<and>
           (\<exists>f. row (db_feeds d') fk = Some f \<and> fd_cup f = ck \<and> fd_panel f = Some (fg_panel g) \<and>
              fd_vpn_client f = Some (fst (fg_client g)) \<and> \<not> feed_unavailable f)))"

lemma feed_for_group_facts:
  assumes "feed_for_group en t kc g d = Some (r, d')" "wf_table (db_feeds d)"
  shows "db_config_links d' = db_config_links d" "wf_table (db_feeds d')"
    "\<And>k f. row (db_feeds d) k = Some f \<Longrightarrow> row (db_feeds d') k = Some f"
    "\<And>fk b. r = Some (fk, b) \<Longrightarrow> \<exists>f. row (db_feeds d') fk = Some f \<and> fd_cup f = fst kc \<and> fd_panel f = Some (fg_panel g) \<and>
       fd_vpn_client f = Some (fst (fg_client g)) \<and> \<not> feed_unavailable f"
proof -
  let ?P = "\<lambda>_ f. fd_cup f = fst kc \<and> fd_panel f = Some (fg_panel g) \<and> fd_vpn_client f = Some (fst (fg_client g)) \<and> fd_provider f = ''pasarguard''"
  have "db_config_links d' = db_config_links d \<and> wf_table (db_feeds d') \<and>
    (\<forall>k f. row (db_feeds d) k = Some f \<longrightarrow> row (db_feeds d') k = Some f) \<and>
    (\<forall>fk b. r = Some (fk, b) \<longrightarrow> (\<exists>f. row (db_feeds d') fk = Some f \<and> fd_cup f = fst kc \<and> fd_panel f = Some (fg_panel g) \<and>
       fd_vpn_client f = Some (fst (fg_client g)) \<and> \<not> feed_unavailable f))"
  proof (cases "first_of (ordered_where fst ?P (db_feeds d))")
    case None
    then show ?thesis
      using assms row_fresh [of "db_feeds d"]
      by (auto simp: feed_for_group_def Let_def add_row_def row_append_fresh new_feed_def feed_unavailable_def)
  next
    case (Some kf)
    obtain fk f where kf: "kf = (fk, f)" by (rule prod.exhaust)
    have "(fk, f) \<in> set (db_feeds d)" "?P fk f" using first_of_Some [OF Some [unfolded kf]] by (simp_all add: set_ordered_where)
    then have f: "row (db_feeds d) fk = Some f" using in_row_Some [OF assms(2)] by blast
    then show ?thesis
      using assms Some \<open>?P fk f\<close> by (auto simp: feed_for_group_def kf split: if_splits)
  qed
  then show "db_config_links d' = db_config_links d" "wf_table (db_feeds d')"
    "\<And>k f. row (db_feeds d) k = Some f \<Longrightarrow> row (db_feeds d') k = Some f"
    "\<And>fk b. r = Some (fk, b) \<Longrightarrow> \<exists>f. row (db_feeds d') fk = Some f \<and> fd_cup f = fst kc \<and> fd_panel f = Some (fg_panel g) \<and>
       fd_vpn_client f = Some (fst (fg_client g)) \<and> \<not> feed_unavailable f" by blast+
qed

lemma row_adopt: "row (db_config_links (adopt_links fk g d)) k =
   map_option (\<lambda>l. if k \<in> set (map (\<lambda>(_, i, _). ci_config_link i) (fg_items g)) \<and> cl_external_feed l = None
      then l\<lparr>cl_external_feed := Some fk, cl_vpn_client := Some (fst (fg_client g))\<rparr> else l) (row (db_config_links d) k)"
  unfolding adopt_links_def by (simp add: row_modify_where)

lemma bound_in_kept:
  assumes "bound_in ck gs d d'" "row (db_config_links d) k = Some l" "cl_external_feed l \<noteq> None"
  shows "row (db_config_links d') k = Some l"
  using assms(1) [unfolded bound_in_def, THEN spec, of k] assms(2,3) by auto

lemma bind_groups_bound:
  assumes "bind_groups en t kc gs r d = Some (r', d')" "wf_table (db_feeds d)"
  shows "wf_table (db_feeds d') \<and> (\<forall>k f. row (db_feeds d) k = Some f \<longrightarrow> row (db_feeds d') k = Some f) \<and> bound_in (fst kc) gs d d'"
  using assms
proof (induction gs arbitrary: r d)
  case Nil
  then show ?case by (simp add: bound_in_def)
next
  case (Cons g gs)
  obtain q d1 where q: "feed_for_group en t kc g d = Some (q, d1)" using Cons.prems(1) by (auto split: option.splits)
  note ff = feed_for_group_facts [OF q Cons.prems(2)]
  have weaken: "bound_in (fst kc) (g # gs) d0 d'" if "bound_in (fst kc) gs d0 d'" for d0
    using that unfolding bound_in_def by (meson list.set_intros(2))
  show ?case
  proof (cases q)
    case None
    then obtain r1 where "bind_groups en t kc gs r1 d1 = Some (r', d')" using Cons.prems(1) q by auto
    from Cons.IH [OF this ff(2)] have ih: "wf_table (db_feeds d')" "\<And>k f. row (db_feeds d1) k = Some f \<Longrightarrow> row (db_feeds d') k = Some f"
      "bound_in (fst kc) gs d1 d'" by blast+
    then have "bound_in (fst kc) (g # gs) d1 d'" by (intro weaken)
    then have "bound_in (fst kc) (g # gs) d d'" unfolding bound_in_def ff(1) .
    then show ?thesis using ih(1,2) ff(3) by blast
  next
    case (Some fb)
    obtain fk b where fb: "fb = (fk, b)" by (rule prod.exhaust)
    let ?d2 = "adopt_links fk g d1"
    have feeds: "db_feeds ?d2 = db_feeds d1" by (simp add: adopt_links_def)
    obtain r1 where b: "bind_groups en t kc gs r1 ?d2 = Some (r', d')" using Cons.prems(1) q Some by (auto simp: fb)
    from Cons.IH [OF b] ff(2) feeds have ih: "wf_table (db_feeds d')" "\<And>k f. row (db_feeds d1) k = Some f \<Longrightarrow> row (db_feeds d') k = Some f"
      "bound_in (fst kc) gs ?d2 d'" by auto
    obtain f where f: "row (db_feeds d1) fk = Some f" "fd_cup f = fst kc" "fd_panel f = Some (fg_panel g)"
      "fd_vpn_client f = Some (fst (fg_client g))" "\<not> feed_unavailable f"
      using ff(4) Some fb by blast
    have later: "bound_in (fst kc) (g # gs) ?d2 d'" using ih(3) by (intro weaken)
    have "bound_in (fst kc) (g # gs) d d'"
      unfolding bound_in_def
    proof
      fix k
      let ?in = "k \<in> set (map (\<lambda>(_, i, _). ci_config_link i) (fg_items g))"
      show "row (db_config_links d') k = row (db_config_links d) k \<or>
        (\<exists>l ga fk. row (db_config_links d) k = Some l \<and> cl_external_feed l = None \<and> ga \<in> set (g # gs) \<and>
           k \<in> set (map (\<lambda>(_, i, _). ci_config_link i) (fg_items ga)) \<and>
           row (db_config_links d') k = Some (l\<lparr>cl_external_feed := Some fk, cl_vpn_client := Some (fst (fg_client ga))\<rparr>) \<and>
           (\<exists>f. row (db_feeds d') fk = Some f \<and> fd_cup f = fst kc \<and> fd_panel f = Some (fg_panel ga) \<and>
              fd_vpn_client f = Some (fst (fg_client ga)) \<and> \<not> feed_unavailable f))"
      proof (cases "?in \<and> (\<exists>l. row (db_config_links d) k = Some l \<and> cl_external_feed l = None)")
        case True
        then obtain l where l: ?in "row (db_config_links d) k = Some l" "cl_external_feed l = None" by blast
        then have "row (db_config_links ?d2) k = Some (l\<lparr>cl_external_feed := Some fk, cl_vpn_client := Some (fst (fg_client g))\<rparr>)"
          by (simp add: row_adopt ff(1))
        moreover from this have "row (db_config_links d') k = row (db_config_links ?d2) k"
          using bound_in_kept [OF later] by simp
        ultimately have "row (db_config_links d') k = Some (l\<lparr>cl_external_feed := Some fk, cl_vpn_client := Some (fst (fg_client g))\<rparr>)" by simp
        moreover have "row (db_feeds d') fk = Some f" by (rule ih(2) [OF f(1)])
        ultimately show ?thesis using l f(2-5) by (intro disjI2 exI [of _ l] exI [of _ g] exI [of _ fk] conjI exI [of _ f]) simp_all
      next
        case False
        then have "row (db_config_links ?d2) k = row (db_config_links d) k"
          by (cases "row (db_config_links d) k") (auto simp: row_adopt ff(1))
        then show ?thesis using later [unfolded bound_in_def, THEN spec, of k] by (simp only:)
      qed
    qed
    then show ?thesis using ih(1,2) ff(3) by blast
  qed
qed

lemma owned_clientD:
  assumes "owned_client c (Some v) pn d"
  shows "\<exists>ok o1. orelse (cp_order c) (vc_order (snd v)) = Some ok \<and> get_order d ok = Some o1 \<and>
      o_status o1 \<in> {Completed, Confirmed} \<and> o_verification_status o1 = VerVerified \<and> o_store o1 = vc_store (snd v)"
    "vc_status (snd v) \<noteq> ClDeleted"
  using assms unfolding owned_client_def by (cases v; auto split: option.splits)+

text \<open>
  C29. Only links with a provable owner are bound to a feed: after binding the feeds of a cup, every link of
  the database is as before, or it had no feed, belongs to no other cup, and was bound to an available feed
  of this cup for a PasarGuard panel and a live client whose order is completed or confirmed, verified and
  of the client's shop, and which has an upstream address. Binding never changes what any cup serves.
\<close>

theorem bound_links_owned:
  assumes "wf_table (db_feeds d)" "ensure_pasarguard_feeds_for_cup en lr t ck d = Some (r, d')" "row (db_cups d) ck = Some c"
  shows "(\<forall>k. row (db_config_links d') k = row (db_config_links d) k \<or>
      (\<exists>l fk f p pn v ok o1.
         row (db_config_links d) k = Some l \<and> cl_external_feed l = None \<and> \<not> shared_link ck k d \<and> cup_is_accessible en c \<and>
         row (db_config_links d') k = Some (l\<lparr>cl_external_feed := Some fk, cl_vpn_client := Some (fst v)\<rparr>) \<and>
         row (db_feeds d') fk = Some f \<and> fd_cup f = ck \<and> fd_panel f = Some p \<and> fd_vpn_client f = Some (fst v) \<and>
         \<not> feed_unavailable f \<and> row (db_panels d) p = Some pn \<and> pn_family pn = FamPasarguard \<and>
         owned_client c (Some v) (p, pn) d \<and> upstream_url lr c (snd v) \<noteq> [] \<and>
         orelse (cp_order c) (vc_order (snd v)) = Some ok \<and> get_order d ok = Some o1 \<and> o_status o1 \<in> {Completed, Confirmed} \<and>
         o_verification_status o1 = VerVerified \<and> o_store o1 = vc_store (snd v) \<and> vc_status (snd v) \<noteq> ClDeleted)) \<and>
    (\<forall>c2. active_cup_links c2 d' = active_cup_links c2 d)"
proof (intro conjI allI)
  show "active_cup_links c2 d' = active_cup_links c2 d" for c2
    by (rule viewed_eqD(4) [OF viewed_ensure [OF assms(2)]])
  fix k
  let ?same = "row (db_config_links d') k = row (db_config_links d) k"
  show "?same \<or> (\<exists>l fk f p pn v ok o1.
         row (db_config_links d) k = Some l \<and> cl_external_feed l = None \<and> \<not> shared_link ck k d \<and> cup_is_accessible en c \<and>
         row (db_config_links d') k = Some (l\<lparr>cl_external_feed := Some fk, cl_vpn_client := Some (fst v)\<rparr>) \<and>
         row (db_feeds d') fk = Some f \<and> fd_cup f = ck \<and> fd_panel f = Some p \<and> fd_vpn_client f = Some (fst v) \<and>
         \<not> feed_unavailable f \<and> row (db_panels d) p = Some pn \<and> pn_family pn = FamPasarguard \<and>
         owned_client c (Some v) (p, pn) d \<and> upstream_url lr c (snd v) \<noteq> [] \<and>
         orelse (cp_order c) (vc_order (snd v)) = Some ok \<and> get_order d ok = Some o1 \<and> o_status o1 \<in> {Completed, Confirmed} \<and>
         o_verification_status o1 = VerVerified \<and> o_store o1 = vc_store (snd v) \<and> vc_status (snd v) \<noteq> ClDeleted)"
  proof (cases "cup_is_accessible en c")
    case False
    then show ?thesis using assms(2,3) by (simp add: ensure_pasarguard_feeds_for_cup_def)
  next
    case access: True
    obtain gs r1 where g: "group_links lr (ck, c) d (linked_items (bindable_item ck) d) ([], empty_report) = (gs, r1)" by (rule prod.exhaust)
    have b: "bind_groups en t (ck, c) gs r1 d = Some (r, d')"
      using assms(2,3) access g by (simp add: ensure_pasarguard_feeds_for_cup_def)
    have gok: "group_ok lr (ck, c) d x" if "x \<in> set gs" for x
      using group_links_ok [OF _ _ g] that by simp
    have "bound_in ck gs d d'" using bind_groups_bound [OF b assms(1)] by simp
    then consider ?same | l g fk f where "row (db_config_links d) k = Some l" "cl_external_feed l = None" "g \<in> set gs"
        "k \<in> set (map (\<lambda>(_, i, _). ci_config_link i) (fg_items g))"
        "row (db_config_links d') k = Some (l\<lparr>cl_external_feed := Some fk, cl_vpn_client := Some (fst (fg_client g))\<rparr>)"
        "row (db_feeds d') fk = Some f" "fd_cup f = ck" "fd_panel f = Some (fg_panel g)"
        "fd_vpn_client f = Some (fst (fg_client g))" "\<not> feed_unavailable f"
      unfolding bound_in_def by blast
    then show ?thesis
    proof cases
      case 2
      from 2(4) obtain ik i m where item: "(ik, i, m) \<in> set (fg_items g)" "ci_config_link i = k" by auto
      from gok [OF 2(3)] item(1) obtain v url where v: "classify_link lr (ck, c) (ci_config_link i) m d = Bindable (fg_panel g) v url"
        "fst v = fst (fg_client g)"
        unfolding group_ok_def by blast
      from classify_Bindable [OF v(1)] obtain pn where pn: "\<not> shared_link ck k d" "row (db_panels d) (fg_panel g) = Some pn"
        "pn_family pn = FamPasarguard" "owned_client c (Some v) (fg_panel g, pn) d" "upstream_url lr c (snd v) \<noteq> []"
        by (auto simp: item(2))
      from owned_clientD [OF pn(4)] obtain ok o1 where o1: "orelse (cp_order c) (vc_order (snd v)) = Some ok" "get_order d ok = Some o1"
        "o_status o1 \<in> {Completed, Confirmed}" "o_verification_status o1 = VerVerified" "o_store o1 = vc_store (snd v)"
        "vc_status (snd v) \<noteq> ClDeleted"
        by blast
      show ?thesis
        by (intro disjI2 exI [of _ l] exI [of _ fk] exI [of _ f] exI [of _ "fg_panel g"] exI [of _ pn] exI [of _ v] exI [of _ ok]
            exI [of _ o1] conjI 2 pn o1 access) (use 2(5,9) in \<open>simp_all add: v(2)\<close>)
    qed blast
  qed
qed

definition guard_client :: vpn_client where
  "guard_client = sample_client\<lparr>vc_sub_link := ''https://up/x''\<rparr>"

lemma guard_url: "upstream_url sample_reader guard_cup guard_client = ''https://up/x''"
proof -
  have strip: "strip ''https://up/x'' = ''https://up/x''" by (simp add: strip_def blank_def chr_code_def)
  have "urlsplit sample_reader ''https://up/x'' =
    Some \<lparr>u_scheme = ''https'', u_netloc = ''up'', u_path = ''/x'', u_query = [], u_fragment = []\<rparr>"
    by (simp add: urlsplit_def Let_def url_scheme_def before_def after_def is_alpha_def is_upper_def is_lower_def scheme_char_def
        is_digit_def lower_def lower_char_def chr_code_def)
  moreover have "hostname \<lparr>u_scheme = ''https'', u_netloc = ''up'', u_path = ''/x'', u_query = [], u_fragment = []\<rparr> \<noteq> []"
    by (simp add: hostname_def host_info_def cut_last_def before_def Let_def lower_def)
  ultimately show ?thesis
    by (simp add: upstream_url_def guard_client_def sample_defs strip ends_with_def guard_cup_def new_cup_def)
qed

lemma guard_rows:
  "row (db_clients guard_db) 1 = Some guard_client" "row (db_panels guard_db) 1 = Some (sample_panel\<lparr>pn_family := FamPasarguard\<rparr>)"
  "cp_vpn_client guard_cup = Some 1" "cl_vpn_client guard_link = Some 1" "cl_source_panel guard_link = Some 1"
  "\<not> shared_link 1 1 guard_db" "row (db_cups guard_db) 1 = Some guard_cup" "cup_is_accessible sample_env guard_cup"
  "linked_items (bindable_item 1) guard_db =
    [(1, \<lparr>ci_cup = 1, ci_config_link = 1, ci_position = 1, ci_is_active = True, ci_added_reason = [], ci_metadata = []\<rparr>, guard_link)]"
  "owned_client guard_cup (Some (1, guard_client)) (1, sample_panel\<lparr>pn_family := FamPasarguard\<rparr>) guard_db"
  by (simp_all add: guard_defs guard_client_def shared_link_def cup_is_accessible_def cup_is_expired_def linked_items_def with_link_def
      bindable_item_def shown_def List.map_filter_simps owned_client_def get_order_def)

lemma guard_classified: "classify_link sample_reader (1, guard_cup) 1 guard_link guard_db = Bindable 1 (1, guard_client) ''https://up/x''"
  by (simp add: classify_link_def the_row_def link_panel_def guard_rows guard_url Let_def del: One_nat_def)

lemma default_policy: "\<exists>p. resolved_filter_policy_for_source None = Some p"
  by (simp add: resolved_filter_policy_for_source_def policy_of_source_def dget_def normalize_external_subscription_filter_policy_def normalize_values_def)

lemma guard_bound:
  "\<exists>r d'. ensure_pasarguard_feeds_for_cup sample_env sample_reader no_tables 1 guard_db = Some (r, d') \<and> br_adopted r = 1"
proof -
  obtain p where p: "resolved_filter_policy_for_source None = Some p" using default_policy by blast
  let ?g = "\<lparr>fg_panel = 1, fg_client = (1, guard_client), fg_url = ''https://up/x'',
     fg_items = [(1, \<lparr>ci_cup = 1, ci_config_link = 1, ci_position = 1, ci_is_active = True, ci_added_reason = [], ci_metadata = []\<rparr>, guard_link)]\<rparr>"
  have "source_of_group guard_cup ?g no_tables = None"
    by (simp add: source_of_group_def no_tables_def ordered_where_def rows_where_def)
  moreover have "db_feeds guard_db = []" by (simp add: guard_defs)
  ultimately have "\<exists>d1. feed_for_group sample_env no_tables (1, guard_cup) ?g guard_db = Some (Some (1, True), d1)"
    by (simp add: feed_for_group_def p ordered_where_def rows_where_def add_row_def fresh_pk_def Let_def)
  then obtain d1 where "feed_for_group sample_env no_tables (1, guard_cup) ?g guard_db = Some (Some (1, True), d1)" by blast
  then show ?thesis
    by (simp add: ensure_pasarguard_feeds_for_cup_def guard_rows guard_classified empty_report_def del: One_nat_def)
qed

lemma bound_links_owned_witness:
  "\<exists>r d'. ensure_pasarguard_feeds_for_cup sample_env sample_reader no_tables 1 guard_db = Some (r, d') \<and> br_adopted r = 1 \<and>
     active_cup_links 1 d' = [''vless://a'']"
proof -
  obtain r d' where e: "ensure_pasarguard_feeds_for_cup sample_env sample_reader no_tables 1 guard_db = Some (r, d')" "br_adopted r = 1"
    using guard_bound by blast
  have "wf_table (db_feeds guard_db)" by (simp add: guard_defs wf_table_def)
  from bound_links_owned [OF this e(1) guard_rows(7)] guard_links e show ?thesis by (intro exI [of _ r] exI [of _ d']) simp
qed

section \<open>Serialisation\<close>

text \<open>The decoder inverts the encoder.\<close>

lemma chr_code_char: "n < 256 \<Longrightarrow> chr_code (char_of n) = n"
  by (simp add: chr_code_def)

lemma chr_code_less: "chr_code c < 256"
  by (simp add: chr_code_def)

lemma char_of_chr_code [simp]: "char_of (chr_code c) = c"
  by (simp add: chr_code_def)

lemma b64_value_char: "n < 64 \<Longrightarrow> b64_value (b64_char n) = Some n"
  by (auto simp: b64_value_def b64_char_def Let_def chr_code_char)

lemma b64_char_not_pad: "n < 64 \<Longrightarrow> b64_char n \<noteq> CHR ''=''"
proof
  assume "n < 64" "b64_char n = CHR ''=''"
  then show False using b64_value_char [of n] by (simp add: b64_value_def chr_code_def)
qed

lemma sextets:
  assumes "x < 256" "y < 256" "z < (256::nat)"
  shows "x div 4 < 64" "x mod 4 * 16 + y div 16 < 64" "y mod 16 * 4 + z div 64 < 64" "z mod 64 < 64"
    "(x mod 4 * 16 + y div 16) div 16 = x mod 4" "(x mod 4 * 16 + y div 16) mod 16 = y div 16"
    "(y mod 16 * 4 + z div 64) div 4 = y mod 16" "(y mod 16 * 4 + z div 64) mod 4 = z div 64"
  using assms by (simp_all add: less_mult_imp_div_less)

lemma b64decode_encode: "b64decode (b64encode s) = Some s"
proof (induction s rule: b64encode.induct)
  case (2 a)
  then show ?case
    using sextets [OF chr_code_less [of a], of 0 0] by (simp add: Let_def b64_value_char)
next
  case (3 a b)
  have "b64_char (chr_code b mod 16 * 4) \<noteq> CHR ''=''" by (rule b64_char_not_pad) presburger
  then show ?case
    using sextets [OF chr_code_less [of a] chr_code_less [of b], of 0] by (simp add: Let_def b64_value_char)
next
  case (4 a b c s)
  note sx = sextets [OF chr_code_less [of a] chr_code_less [of b] chr_code_less [of c]]
  have "b64_char (chr_code b mod 16 * 4 + chr_code c div 64) \<noteq> CHR ''=''" "b64_char (chr_code c mod 64) \<noteq> CHR ''=''"
    by (rule b64_char_not_pad [OF sx(3)], rule b64_char_not_pad [OF sx(4)])
  then show ?case using sx 4 by (simp add: Let_def b64_value_char)
qed simp








text \<open>
  The hypothesis is needed: a link may contain a vertical tab, which Python's \<open>splitlines\<close> takes for the
  end of a line, and then the check raises for a cup that is served correctly.
\<close>

definition tab_db :: db where
  "tab_db = guard_db\<lparr>db_config_links := [(1, guard_link\<lparr>cl_raw_link := ''a'' @ [CHR 0x0B] @ ''b''\<rparr>)]\<rparr>"

lemma separator_in_link_fails_check: "\<not> serialization_agrees 1 tab_db"
proof -
  have "active_cup_links 1 tab_db = [''a'' @ [CHR 0x0B] @ ''b'']"
    by (simp add: active_cup_links_def linked_items_def with_link_def shown_def tab_db_def guard_defs List.map_filter_simps strip_def blank_def chr_code_def)
  moreover have "serialization_agrees 1 tab_db \<longleftrightarrow> text_lines (render_subscription_cup_raw 1 True tab_db) = active_cup_links 1 tab_db"
    by (simp only: serialization_agrees_def render_subscription_cup_base64_def b64decode_encode option.map option.inject)
  ultimately show ?thesis by (simp add: render_subscription_cup_raw_def text_lines_def Let_def chr_code_def)
qed

end
