(* ===== verification/Feed_Facts.thy ===== *)
theory Feed_Facts
  imports Cup_Facts
begin

text \<open>What a refresh does to the links and items of its feed, and what it leaves alone.\<close>

section \<open>The entries of a feed\<close>

lemma feed_entries_simps:
  "map ey_raw_link (feed_entries lr fk f pos ns) = map nv_raw_link ns"
  "map ey_position (feed_entries lr fk f pos ns) = [pos..<pos + length ns]"
  "length (feed_entries lr fk f pos ns) = length ns"
  by (induction ns arbitrary: pos) (simp_all add: upt_conv_Cons del: upt_Suc)

lemma feed_entry_write:
  "e \<in> set (feed_entries lr fk f pos ns) \<Longrightarrow>
   cl_raw_link (ey_write e l) = strip (ey_raw_link e) \<and> cl_is_active (ey_write e l) \<and> cl_external_feed (ey_write e l) = Some fk"
  by (induction ns arbitrary: pos) (auto simp: write_native_def)

lemma feed_items_reusable: "items_ok d \<Longrightarrow> reusable_ok c (linked_items (feed_items fk c) d) d"
  by (rule reusable_linked) (simp_all add: feed_items_def)

lemma list_all2_raws:
  assumes "list_all2 (\<lambda>e x. \<exists>l \<in> ls. snd (snd x) = ey_write e l) es xs" "\<And>e l. e \<in> set es \<Longrightarrow> cl_raw_link (ey_write e l) = strip (ey_raw_link e)"
  shows "map (\<lambda>(_, _, l). cl_raw_link l) xs = map strip (map ey_raw_link es)"
  using assms by (induction rule: list_all2_induct) (auto simp: case_prod_beta)

definition feed_links :: "pk \<Rightarrow> pk \<Rightarrow> db \<Rightarrow> string list" where
  "feed_links fk c d = map (\<lambda>(_, _, l). cl_raw_link l) (linked_items (\<lambda>i l. shown c i l \<and> cl_external_feed l = Some fk) d)"

text \<open>The links that are not of the feed, and their items, before and after.\<close>

definition foreign_same :: "pk \<Rightarrow> db \<Rightarrow> db \<Rightarrow> bool" where
  "foreign_same fk d d' \<longleftrightarrow>
     (\<forall>k l. cl_external_feed l \<noteq> Some fk \<longrightarrow> row (db_config_links d') k = Some l \<longleftrightarrow> row (db_config_links d) k = Some l) \<and>
     (\<forall>k i l. cl_external_feed l \<noteq> Some fk \<longrightarrow>
        row (db_cup_items d') k = Some i \<and> row (db_config_links d') (ci_config_link i) = Some l \<longleftrightarrow>
        row (db_cup_items d) k = Some i \<and> row (db_config_links d) (ci_config_link i) = Some l)"

lemma reconcile_items_lists:
  assumes ok: "items_ok d" and d': "reconcile_items lr fk f ns d = d'"
  shows "items_ok d' \<and> feed_links fk (fd_cup f) d' = map (\<lambda>n. strip (nv_raw_link n)) ns \<and> foreign_same fk d d'"
proof -
  let ?c = "fd_cup f"
  let ?ex = "linked_items (feed_items fk ?c) d"
  let ?es = "feed_entries lr fk f (base_position fk f d) ns"
  obtain ps d1 where p: "place_entries ?c ?es ?ex d = (ps, d1)" by (rule prod.exhaust)
  let ?stale = "filter (\<lambda>(ik, _, _). ik \<notin> set (map fst ps)) ?ex"
  let ?P = "\<lambda>ik (_ :: cup_item). ik \<in> set (map fst ?stale)"
  let ?L = "\<lambda>lk (l :: config_link). lk \<in> set (map (\<lambda>(_, i, _). ci_config_link i) ?stale) \<and> cl_external_feed l = Some fk"
  have d'_eq: "d' = (retire_items ?P d1)\<lparr>db_config_links := modify_where ?L (\<lambda>l. l\<lparr>cl_is_active := False\<rparr>) (db_config_links d1)\<rparr>"
    using d' p by (simp add: reconcile_items_def Let_def row_retire)
  have spec: "items_ok d1" "beside_items d1 = beside_items d" "list_all2 (entry_placed ?c d1 (old_links ?ex)) ?es ps"
    "distinct (map fst ps)" "\<And>p. p \<in> set ps \<Longrightarrow> reused_or_new ?ex d p"
    "\<And>k. k \<notin> fst ` set ps \<Longrightarrow> row (db_cup_items d1) k = row (db_cup_items d) k"
    "\<And>k. k \<notin> snd ` set ps \<Longrightarrow> row (db_config_links d1) k = row (db_config_links d) k"
    using place_entries_spec [OF p ok feed_items_reusable [OF ok]] by simp_all
  have items': "row (db_cup_items d') k = map_option (\<lambda>i. if ?P k i then i\<lparr>ci_is_active := False\<rparr> else i) (row (db_cup_items d1) k)" for k
    unfolding d'_eq by (simp add: row_retire)
  have links': "row (db_config_links d') k = map_option (\<lambda>l. if ?L k l then l\<lparr>cl_is_active := False\<rparr> else l) (row (db_config_links d1) k)" for k
    unfolding d'_eq by (simp add: row_modify_where)
  have stale: "row (db_cup_items d) k = Some i \<and> row (db_config_links d) (ci_config_link i) = Some l \<and> ci_cup i = ?c \<and>
      cl_external_feed l = Some fk \<and> k \<notin> fst ` set ps" if "(k, i, l) \<in> set ?stale" for k i l
    using that by (auto simp: set_linked_items feed_items_def item_row [OF ok])
  have placed_rows: "\<exists>i. row (db_cup_items d1) (fst p) = Some i \<and> ci_cup i = ?c \<and> ci_config_link i = snd p \<and> ci_is_active i"
    "\<exists>m. row (db_config_links d1) (snd p) = Some m \<and> cl_is_active m \<and> cl_external_feed m = Some fk" if prem: "p \<in> set ps" for p
  proof -
    obtain e m where em: "e \<in> set ?es" "m \<in> old_links ?ex"
      and rows: "row (db_cup_items d1) (fst p) = Some \<lparr>ci_cup = ?c, ci_config_link = snd p, ci_position = ey_position e, ci_is_active = True,
         ci_added_reason = ey_reason e, ci_metadata = ey_metadata e\<rparr>" "row (db_config_links d1) (snd p) = Some (ey_write e m)"
      by (rule placed_member [OF spec(3) prem])
    show "\<exists>i. row (db_cup_items d1) (fst p) = Some i \<and> ci_cup i = ?c \<and> ci_config_link i = snd p \<and> ci_is_active i"
      using rows(1) by simp
    show "\<exists>m. row (db_config_links d1) (snd p) = Some m \<and> cl_is_active m \<and> cl_external_feed m = Some fk"
      using rows(2) feed_entry_write [OF em(1)] by blast
  qed
  text \<open>An item that was not placed does not share its link with one that was, within the cup.\<close>
  have apart: "ci_config_link i \<noteq> snd p" if prem: "(k, i, l) \<in> set ?stale" "p \<in> set ps" for k i l p
  proof
    assume eq: "ci_config_link i = snd p"
    note st = stale [OF prem(1)]
    have "row (db_cup_items d1) k = Some i" using st spec(6) by simp
    moreover obtain j where "row (db_cup_items d1) (fst p) = Some j" "ci_cup j = ?c" "ci_config_link j = snd p"
      using placed_rows(1) [OF prem(2)] by blast
    ultimately have "k = fst p" using items_okD(4) [OF spec(1), of k i "fst p" j] st eq by simp
    then show False using st prem(2) by simp
  qed
  have ok': "items_ok d'"
  proof (rule items_okI)
    have before: "\<exists>j. row (db_cup_items d1) k = Some j \<and> ci_cup j = ci_cup i \<and> ci_config_link j = ci_config_link i"
      if "row (db_cup_items d') k = Some i" for k i
      using that by (auto simp: items' split: if_splits)
    show "wf_table (db_cup_items d')" "wf_table (db_config_links d')"
      using items_okD(1,2) [OF spec(1)] by (simp_all add: d'_eq retire_items_def)
    show "row (db_config_links d') (ci_config_link i) \<noteq> None" if "row (db_cup_items d') k = Some i" for k i
      using before [OF that] items_okD(3) [OF spec(1), of k] by (auto simp: links')
    show "k = k'" if "row (db_cup_items d') k = Some i" "row (db_cup_items d') k' = Some i'" "ci_cup i = ci_cup i'"
      "ci_config_link i = ci_config_link i'" for k i k' i'
      using before [OF that(1)] before [OF that(2)] that(3,4) items_okD(4) [OF spec(1)] by metis
  qed
  have kept_item: "row (db_cup_items d') k = row (db_cup_items d1) k" if "k \<notin> fst ` set ?stale" for k
    using that by (cases "row (db_cup_items d1) k") (simp_all add: items')
  have placed_item: "k \<notin> fst ` set ?stale" if "k \<in> fst ` set ps" for k
    using that by force
  have placed_link: "row (db_config_links d') (snd p) = row (db_config_links d1) (snd p)" if "p \<in> set ps" for p
  proof -
    have "snd p \<notin> set (map (\<lambda>(_, i, _). ci_config_link i) ?stale)"
    proof
      assume "snd p \<in> set (map (\<lambda>(_, i, _). ci_config_link i) ?stale)"
      then obtain x where x: "x \<in> set ?stale" "snd p = ci_config_link (fst (snd x))" by (auto simp: case_prod_beta)
      show False by (rule notE [OF apart [of "fst x" "fst (snd x)" "snd (snd x)" p]]) (use x that in simp_all)
    qed
    then show ?thesis by (cases "row (db_config_links d1) (snd p)") (simp_all only: links' option.map if_False simp_thms)
  qed
  have placed': "list_all2 (entry_placed ?c d' (old_links ?ex)) ?es ps"
  proof (rule list_all2_all_nthI)
    show "length ?es = length ps" by (rule list_all2_lengthD [OF spec(3)])
    fix n assume n: "n < length ?es"
    then have p: "ps ! n \<in> set ps" using list_all2_lengthD [OF spec(3)] by simp
    have item: "row (db_cup_items d') (fst (ps ! n)) = row (db_cup_items d1) (fst (ps ! n))"
      by (rule kept_item, rule placed_item, rule imageI, rule p)
    show "entry_placed ?c d' (old_links ?ex) (?es ! n) (ps ! n)"
      using list_all2_nthD [OF spec(3) n] unfolding entry_placed_def placed_link [OF p] item .
  qed
  let ?Q = "\<lambda>i l. shown ?c i l \<and> cl_external_feed l = Some fk"
  have only_placed: "?Q i l \<longleftrightarrow> k \<in> fst ` set ps"
    if i: "row (db_cup_items d') k = Some i" and l: "row (db_config_links d') (ci_config_link i) = Some l" for k i l
  proof
    assume "k \<in> fst ` set ps"
    then obtain p where p: "p \<in> set ps" "k = fst p" by auto
    obtain j where j: "row (db_cup_items d1) (fst p) = Some j" "ci_cup j = ?c" "ci_config_link j = snd p" "ci_is_active j"
      using placed_rows(1) [OF p(1)] by blast
    have "i = j" using i j(1) kept_item [OF placed_item [OF \<open>k \<in> fst ` set ps\<close>]] by (simp add: p(2))
    moreover obtain m where "row (db_config_links d1) (snd p) = Some m" "cl_is_active m" "cl_external_feed m = Some fk"
      using placed_rows(2) [OF p(1)] by blast
    ultimately show "?Q i l" using l placed_link [OF p(1)] j by (simp add: shown_def)
  next
    assume q: "?Q i l"
    show "k \<in> fst ` set ps"
    proof (rule ccontr)
      assume out: "k \<notin> fst ` set ps"
      show False
      proof (cases "k \<in> fst ` set ?stale")
        case True
        then have "row (db_cup_items d') k = map_option (\<lambda>i. i\<lparr>ci_is_active := False\<rparr>) (row (db_cup_items d1) k)"
          by (cases "row (db_cup_items d1) k") (simp_all add: items')
        then have "\<not> ci_is_active i" using i by (cases "row (db_cup_items d1) k") auto
        then show False using q by (simp add: shown_def)
      next
        case False
        then have i0: "row (db_cup_items d) k = Some i" using i kept_item spec(6) [OF out] by simp
        have "ci_cup i = ?c" using q by (simp add: shown_def)
        have apart_i: "ci_config_link i \<notin> snd ` set ps"
        proof
          assume "ci_config_link i \<in> snd ` set ps"
          then obtain p where p: "p \<in> set ps" "ci_config_link i = snd p" by auto
          obtain j where "row (db_cup_items d1) (fst p) = Some j" "ci_cup j = ?c" "ci_config_link j = snd p"
            using placed_rows(1) [OF p(1)] by blast
          then have "k = fst p"
            using items_okD(4) [OF spec(1), of k i "fst p" j] i0 spec(6) [OF out] \<open>ci_cup i = ?c\<close> p(2) by simp
          then show False using out p(1) by simp
        qed
        obtain m where m: "row (db_config_links d1) (ci_config_link i) = Some m" "cl_external_feed m = cl_external_feed l"
          using l by (auto simp: links' split: if_splits)
        then have "row (db_config_links d) (ci_config_link i) = Some m" using spec(7) [OF apart_i] by simp
        then have "(k, i, m) \<in> set ?ex"
          using i0 m(2) q \<open>ci_cup i = ?c\<close> by (simp add: set_linked_items item_row [OF ok] feed_items_def)
        then have "(k, i, m) \<in> set ?stale" using out by simp
        then show False using False by force
      qed
    qed
  qed
  have "list_all2 (\<lambda>e x. \<exists>l \<in> old_links ?ex. snd (snd x) = ey_write e l) ?es (linked_items ?Q d')"
    by (rule linked_items_placed(1) [OF ok' placed' spec(4)])
      (simp_all only: feed_entries_simps sorted_upt distinct_upt only_placed)
  then have "map (\<lambda>(_, _, l). cl_raw_link l) (linked_items ?Q d') = map strip (map ey_raw_link ?es)"
    by (rule list_all2_raws) (use feed_entry_write in blast)
  then have raws: "map (\<lambda>(_, _, l). cl_raw_link l) (linked_items ?Q d') = map (\<lambda>n. strip (nv_raw_link n)) ns"
    by (simp add: feed_entries_simps comp_def)
  have foreign: "snd p \<noteq> k" if "p \<in> set ps" "row (db_config_links d) k = Some l" "cl_external_feed l \<noteq> Some fk" for p k l
    using spec(5) [OF that(1)] that(2,3) by (auto simp: reused_or_new_def set_linked_items feed_items_def)
  have placed_foreign: "False" if prem: "p \<in> set ps" "row (db_config_links d') (snd p) = Some l" "cl_external_feed l \<noteq> Some fk" for p l
    using placed_rows(2) [OF prem(1)] placed_link [OF prem(1)] prem(2,3) by auto
  have frame: "row (db_config_links d') k = Some l \<longleftrightarrow> row (db_config_links d) k = Some l" if l: "cl_external_feed l \<noteq> Some fk" for k l
  proof (cases "k \<in> snd ` set ps")
    case True
    then obtain p where p: "p \<in> set ps" "k = snd p" by auto
    then show ?thesis using placed_foreign [of p l] foreign [of p k l] l by auto
  next
    case False
    then have same: "row (db_config_links d1) k = row (db_config_links d) k" by (rule spec(7))
    show ?thesis
    proof (cases "row (db_config_links d1) k")
      case None
      then show ?thesis using same by (simp add: links')
    next
      case (Some m)
      show ?thesis
      proof (cases "?L k m")
        case True
        then have "row (db_config_links d') k = Some (m\<lparr>cl_is_active := False\<rparr>)" by (subst links', subst Some, subst option.map(2), subst if_P [OF True]) (rule refl)
        then show ?thesis using l True same Some by auto
      next
        case False
        then have "row (db_config_links d') k = Some m" by (subst links', subst Some, subst option.map(2), subst if_not_P [OF False]) (rule refl)
        then show ?thesis using same Some by simp
      qed
    qed
  qed
  have frame_items: "row (db_cup_items d') k = Some i \<longleftrightarrow> row (db_cup_items d) k = Some i"
    if l: "cl_external_feed l \<noteq> Some fk" "row (db_config_links d) (ci_config_link i) = Some l" for k i l
  proof (cases "k \<in> fst ` set ps")
    case True
    then obtain p where p: "p \<in> set ps" "k = fst p" by auto
    have "row (db_cup_items d) k \<noteq> Some i"
      using spec(5) [OF p(1)] l by (auto simp: reused_or_new_def set_linked_items feed_items_def item_row [OF ok] p(2))
    moreover have "row (db_cup_items d') k \<noteq> Some i"
    proof
      assume "row (db_cup_items d') k = Some i"
      then have "ci_config_link i = snd p"
        using placed_rows(1) [OF p(1)] kept_item [OF placed_item [OF True]] by (auto simp: p(2))
      with l(2) foreign [OF p(1) _ l(1), of "snd p"] show False by simp
    qed
    ultimately show ?thesis by simp
  next
    case out: False
    show ?thesis
    proof (cases "k \<in> fst ` set ?stale")
      case True
      then obtain x where "x \<in> set ?stale" "k = fst x" by (rule imageE) simp
      then have "(k, fst (snd x), snd (snd x)) \<in> set ?stale" by simp
      note st = stale [OF this]
      have "row (db_cup_items d') k = Some ((fst (snd x))\<lparr>ci_is_active := False\<rparr>)"
        using True st spec(6) [OF out] by (simp add: items')
      then show ?thesis using st l by auto
    next
      case False
      then show ?thesis using kept_item [of k] spec(6) [OF out] by simp
    qed
  qed
  have "foreign_same fk d d'"
    unfolding foreign_same_def
  proof (intro conjI allI impI)
    fix k i and l :: config_link
    assume l: "cl_external_feed l \<noteq> Some fk"
    show "row (db_config_links d') k = Some l \<longleftrightarrow> row (db_config_links d) k = Some l" by (rule frame [OF l])
    show "row (db_cup_items d') k = Some i \<and> row (db_config_links d') (ci_config_link i) = Some l \<longleftrightarrow>
        row (db_cup_items d) k = Some i \<and> row (db_config_links d) (ci_config_link i) = Some l"
      using frame [OF l, of "ci_config_link i"] frame_items [OF l, of i k] by blast
  qed
  with ok' raws show ?thesis by (simp only: feed_links_def simp_thms)
qed

lemma reconcile_facts:
  assumes "items_ok d"
  shows "items_ok (reconcile_items lr fk f ns d)"
    "feed_links fk (fd_cup f) (reconcile_items lr fk f ns d) = map (\<lambda>n. strip (nv_raw_link n)) ns"
    "foreign_same fk d (reconcile_items lr fk f ns d)"
  using reconcile_items_lists [OF assms refl] by blast+

lemma place_entries_beside: "place_entries c es xs d = (ps, d') \<Longrightarrow> beside_items d' = beside_items d"
proof (induction es arbitrary: xs d ps d')
  case (Cons e es)
  then show ?case
    by (auto simp: place_entry_def beside_items_def Let_def add_row_def split: prod.splits option.splits)
qed simp

lemma reconcile_beside [simp]: "beside_items (reconcile_items lr fk f ns d) = beside_items d"
  by (auto simp: reconcile_items_def Let_def beside_items_def retire_items_def split: prod.splits dest!: place_entries_beside)

text \<open>Queries over the links of other feeds.\<close>

lemma foreign_links:
  assumes "items_ok d" "items_ok d'" "foreign_same fk d d'" "\<And>i l. P i l \<Longrightarrow> cl_external_feed l \<noteq> Some fk"
  shows "linked_items P d' = linked_items P d"
proof (rule linked_items_cong [OF items_okD(1) [OF assms(2)] items_okD(1) [OF assms(1)]], unfold item_row [OF assms(1)] item_row [OF assms(2)])
  fix k i l
  have "cl_external_feed l \<noteq> Some fk \<longrightarrow>
        row (db_cup_items d') k = Some i \<and> row (db_config_links d') (ci_config_link i) = Some l \<longleftrightarrow>
        row (db_cup_items d) k = Some i \<and> row (db_config_links d) (ci_config_link i) = Some l"
    using assms(3) unfolding foreign_same_def by blast
  then show "row (db_cup_items d') k = Some i \<and> row (db_config_links d') (ci_config_link i) = Some l \<and> P i l \<longleftrightarrow>
        row (db_cup_items d) k = Some i \<and> row (db_config_links d) (ci_config_link i) = Some l \<and> P i l"
    using assms(4) by blast
qed

end
