(* ===== verification/Feed_Laws.thy ===== *)
theory Feed_Laws
  imports Feed_Facts Cup_Laws
begin

text \<open>Refreshing a feed: what a success lists, what a failure keeps, and how refreshers exclude each other.\<close>

section \<open>The write of a refresher\<close>

lemma reconcile_parts [simp]:
  "db_feeds (reconcile_items lr fk f ns d) = db_feeds d" "db_cups (reconcile_items lr fk f ns d) = db_cups d"
  "db_panels (reconcile_items lr fk f ns d) = db_panels d"
  using beside_items_eqD [OF reconcile_beside] by simp_all

definition write_failure :: "env \<Rightarrow> link_reader \<Rightarrow> string option \<Rightarrow> pk \<Rightarrow> db \<Rightarrow> db \<Rightarrow> bool" where
  "write_failure en lr token fk d d' \<longleftrightarrow>
     (\<exists>f c r. row (db_feeds d) fk = Some f \<and> \<not> superseded en token f \<and>
        d' = d\<lparr>db_feeds := put fk (failed_feed en lr c r fk f) (db_feeds d)\<rparr>)"

lemma mark_failure_cases:
  assumes "mark_feed_failure en lr token fk orig c r d = Some (s, d')"
  shows "\<not> sr_ok s \<and> (d' = d \<or> write_failure en lr token fk d d')"
  using assms by (auto simp: mark_feed_failure_def write_failure_def summary_def skipped_def Let_def split: option.splits if_splits)

lemma reconcile_success_cases:
  assumes "reconcile_success en lr token a fk orig r d = Some (s, d')"
  shows "(\<not> sr_ok s \<and> d' = d) \<or>
    (\<exists>f. row (db_feeds d) fk = Some f \<and> \<not> superseded en token f \<and> \<not> source_changed orig f \<and> feed_cup_accessible en f d \<and> sr_ok s \<and>
      d' = (reconcile_items lr fk f (fl_selected r) d)\<lparr>db_feeds := put fk (refreshed_feed en lr r fk f) (db_feeds d)\<rparr>)"
  using assms by (auto simp: reconcile_success_def summary_def skipped_def Let_def split: option.splits if_splits)

lemma write_outcome_ok:
  assumes "write_outcome en lr token force fk snap answer d = (Finished s, d')" "sr_ok s"
  shows "\<exists>f offered r. answer = Inr offered \<and> filter_native_configs lr offered (fd_resolved_filter_policy snap) = Some r \<and>
    failure_code force fk snap r d = NoCode \<and> row (db_feeds d) fk = Some f \<and> \<not> superseded en token f \<and>
    \<not> source_changed snap f \<and> feed_cup_accessible en f d \<and>
    d' = (reconcile_items lr fk f (fl_selected r) d)\<lparr>db_feeds := put fk (refreshed_feed en lr r fk f) (db_feeds d)\<rparr>"
  using assms
  by (auto simp: write_outcome_def Let_def split: sum.splits option.splits if_splits
      dest!: mark_failure_cases reconcile_success_cases)

lemma write_outcome_kept:
  assumes "write_outcome en lr token force fk snap answer d = (e, d')" "\<And>s. e = Finished s \<Longrightarrow> \<not> sr_ok s"
  shows "d' = d \<or> write_failure en lr token fk d d'"
  using assms
  by (auto simp: write_outcome_def Let_def split: sum.splits option.splits if_splits
      dest!: mark_failure_cases reconcile_success_cases)

lemma write_outcome_cases:
  assumes "write_outcome en lr token force fk snap answer d = (e, d')"
  obtains (kept) "d' = d" | (failed) "write_failure en lr token fk d d'"
    | (listed) f r where "row (db_feeds d) fk = Some f" "\<not> superseded en token f"
      "d' = (reconcile_items lr fk f (fl_selected r) d)\<lparr>db_feeds := put fk (refreshed_feed en lr r fk f) (db_feeds d)\<rparr>"
proof (cases "\<exists>s. e = Finished s \<and> sr_ok s")
  case True
  then obtain s where e: "e = Finished s" "sr_ok s" by blast
  show ?thesis by (use write_outcome_ok [OF assms [unfolded e(1)] e(2)] in \<open>elim exE conjE\<close>) (rule listed)
next
  case False
  then have "\<And>s. e = Finished s \<Longrightarrow> \<not> sr_ok s" by blast
  from write_outcome_kept [OF assms this] kept failed show ?thesis by (rule disjE)
qed

lemma feed_fields [simp]:
  "fd_refresh_token (failed_feed en lr c r fk f) = fd_refresh_token f"
  "fd_refresh_lease_until (failed_feed en lr c r fk f) = fd_refresh_lease_until f"
  "fd_active (failed_feed en lr c r fk f) = fd_active f" "fd_cup (failed_feed en lr c r fk f) = fd_cup f"
  "fd_last_good_config_count (failed_feed en lr c r fk f) = fd_last_good_config_count f"
  "fd_last_success_at (failed_feed en lr c r fk f) = fd_last_success_at f"
  "fd_resolved_filter_policy (failed_feed en lr c r fk f) = fd_resolved_filter_policy f"
  "fd_refresh_token (refreshed_feed en lr x fk f) = fd_refresh_token f"
  "fd_refresh_lease_until (refreshed_feed en lr x fk f) = fd_refresh_lease_until f"
  "fd_cup (refreshed_feed en lr x fk f) = fd_cup f"
  "fd_status (refreshed_feed en lr x fk f) = FeedHealthy" "fd_active (refreshed_feed en lr x fk f)"
  "fd_consecutive_failures (refreshed_feed en lr x fk f) = 0"
  "fd_last_good_config_count (refreshed_feed en lr x fk f) = length (fl_selected x)"
  "fd_last_success_at (refreshed_feed en lr x fk f) = Some (e_now en)"
  by (simp_all add: failed_feed_def refreshed_feed_def Let_def fl_selected_count_def)

section \<open>A whole refresh\<close>

definition claimed :: "env \<Rightarrow> string \<Rightarrow> feed \<Rightarrow> feed" where
  "claimed en token f = f\<lparr>fd_refresh_token := token, fd_refresh_lease_until := Some (e_now en + seconds lease_seconds),
     fd_last_attempt_at := Some (e_now en)\<rparr>"

lemma claim_cases:
  assumes "claim_refresh en token force mi fk d = Some (r, d1)"
  obtains (refused) f s where "row (db_feeds d) fk = Some f" "claim_refused en force mi f d" "r = Some s" "\<not> sr_ok s" "d1 = d"
    | (taken) f where "row (db_feeds d) fk = Some f" "\<not> claim_refused en force mi f d" "r = None"
      "d1 = d\<lparr>db_feeds := put fk (claimed en token f) (db_feeds d)\<rparr>"
proof (cases "row (db_feeds d) fk")
  case None
  then show ?thesis using assms by (simp add: claim_refresh_def)
next
  case (Some f)
  show ?thesis
  proof (cases "claim_refused en force mi f d")
    case True
    then have r: "r = Some (skipped RefreshNotAvailable (summary fk f None d))" "d1 = d"
      using assms Some by (auto simp: claim_refresh_def)
    show ?thesis by (rule refused [OF Some True r(1) _ r(2)]) (simp add: skipped_def summary_def)
  next
    case False
    then show ?thesis using assms Some by (intro taken [OF Some False]) (simp_all add: claim_refresh_def claimed_def)
  qed
qed

lemma refresh_steps:
  assumes "refresh_external_subscription_feed en lr fetch token force mi fk d = (e, d')"
  obtains (unclaimed) "d' = d" "\<And>s. e = Finished s \<Longrightarrow> \<not> sr_ok s"
    | (disabled) f d1 where "row (db_feeds d) fk = Some f" "d1 = d\<lparr>db_feeds := put fk (claimed en token f) (db_feeds d)\<rparr>"
      "d' = release_refresh token fk d1" "\<And>s. e = Finished s \<Longrightarrow> \<not> sr_ok s"
    | (written) f d1 d2 where "row (db_feeds d) fk = Some f" "d1 = d\<lparr>db_feeds := put fk (claimed en token f) (db_feeds d)\<rparr>"
      "write_outcome en lr (Some token) force fk (claimed en token f) (fetch_native_links fetch (claimed en token f) d1) d1 = (e, d2)"
      "d' = release_refresh token fk d2"
proof (cases "claim_refresh en token force mi fk d")
  case None
  then show ?thesis using assms unclaimed by (auto simp: refresh_external_subscription_feed_def)
next
  case (Some rd)
  obtain r d1 where rd: "rd = (r, d1)" by (rule prod.exhaust)
  from Some [unfolded rd] show ?thesis
  proof (cases rule: claim_cases)
    case (refused f s)
    then show ?thesis using assms Some rd unclaimed by (auto simp: refresh_external_subscription_feed_def)
  next
    case (taken f)
    then show ?thesis
      using assms Some rd disabled [of f d1] written [of f d1]
      by (auto simp: refresh_external_subscription_feed_def summary_def split: if_splits prod.splits)
  qed
qed

text \<open>What a refresh writes, and nothing else.\<close>

lemma claimed_fields [simp]:
  "fd_cup (claimed en token f) = fd_cup f" "fd_refresh_token (claimed en token f) = token"
  "fd_resolved_filter_policy (claimed en token f) = fd_resolved_filter_policy f"
  "fd_last_good_config_count (claimed en token f) = fd_last_good_config_count f" "fd_active (claimed en token f) = fd_active f"
  "fd_status (claimed en token f) = fd_status f" "fd_last_success_at (claimed en token f) = fd_last_success_at f"
  "fetch_native_links fetch (claimed en token f) (d\<lparr>db_feeds := t\<rparr>) = fetch_native_links fetch f d"
  by (simp_all add: claimed_def fetch_native_links_def Let_def split: option.splits)

lemma release_parts [simp]:
  "db_cup_items (release_refresh token fk d) = db_cup_items d" "db_config_links (release_refresh token fk d) = db_config_links d"
  "db_cups (release_refresh token fk d) = db_cups d"
  "row (db_feeds (release_refresh token fk d)) k =
     map_option (\<lambda>f. if k = fk \<and> fd_refresh_token f = token then f\<lparr>fd_refresh_token := [], fd_refresh_lease_until := None\<rparr> else f)
       (row (db_feeds d) k)"
  by (simp_all add: release_refresh_def row_modify_where)

lemma feed_links_same:
  "db_cup_items d' = db_cup_items d \<Longrightarrow> db_config_links d' = db_config_links d \<Longrightarrow> feed_links fk c d' = feed_links fk c d"
  by (simp add: feed_links_def linked_items_same [of d' d])

lemma foreign_same_parts:
  assumes "foreign_same fk d d'" "db_cup_items d1 = db_cup_items d" "db_config_links d1 = db_config_links d"
    "db_cup_items d2 = db_cup_items d'" "db_config_links d2 = db_config_links d'"
  shows "foreign_same fk d1 d2"
  using assms(1) unfolding foreign_same_def assms(2-5) .

lemma native_raw [simp]: "nv_raw_link (parse_native_config lr raw) = raw"
  by (simp add: parse_native_config_def parse_vmess_def parse_url_style_def parsed_native_def Let_def split: option.splits prod.splits)

lemma first_copies_subset: "set (first_copies seen ns) \<subseteq> set ns"
  by (induction ns arbitrary: seen) auto

lemma selected_from_upstream:
  assumes "filter_native_configs lr offered policy = Some r" "n \<in> set (fl_selected r)"
  shows "nv_raw_link n \<in> set offered \<and> nv_valid n \<and> native_selected (fl_policy r) n"
proof -
  let ?ok = "filter nv_valid (map (parse_native_config lr) (filter (\<lambda>r. r \<noteq> []) offered))"
  define p where "p = fl_policy r"
  have p: "fl_selected r = (let kept = filter (native_selected p) (if fp_deduplicate_exact p then first_copies [] ?ok else ?ok)
       in case fp_max_configs p of None \<Rightarrow> kept | Some m \<Rightarrow> take (nat m) kept)"
  proof (cases "normalize_external_subscription_filter_policy policy")
    case None
    then show ?thesis using assms(1) by (simp add: filter_native_configs_def)
  next
    case (Some q)
    note r = sym [OF assms(1) [unfolded filter_native_configs_def Some option.map option.inject]]
    show ?thesis unfolding p_def r Let_def by (simp only: filter_result.select_convs)
  qed
  have "n \<in> set (filter (native_selected p) (if fp_deduplicate_exact p then first_copies [] ?ok else ?ok))"
    using assms(2) unfolding p Let_def by (cases "fp_max_configs p") (simp_all only: option.case, (drule in_set_takeD, assumption)?)
  then have "n \<in> set ?ok \<and> native_selected p n"
    using first_copies_subset [of "[]" ?ok] by (auto split: if_splits)
  then show ?thesis by (auto simp: p_def)
qed

lemma refresh_ok_answered:
  assumes "refresh_external_subscription_feed en lr fetch token force mi fk d = (Finished s, d')" "sr_ok s"
    "row (db_feeds d) fk = Some f"
  shows "\<exists>offered. fetch_native_links fetch f d = Inr offered"
  using assms(1)
proof (cases rule: refresh_steps)
  case (written f0 d1 d2)
  then show ?thesis using write_outcome_ok [OF written(3) assms(2)] assms(3) by auto
qed (use assms(2) in blast)+

text \<open>
  C31. A successful refresh lists exactly what the upstream offers and the policy selects: the links of the
  feed in its cup become the selected configurations in the order of the upstream, at least one, each valid,
  taken from the answer of the upstream and accepted by the policy. The feed is healthy and its lease is
  released. The links of every other origin, their items and all other feeds stay as they were.
\<close>

theorem refresh_lists_selection:
  assumes "items_ok d" "refresh_external_subscription_feed en lr fetch token force mi fk d = (Finished s, d')" "sr_ok s"
    "row (db_feeds d) fk = Some f"
  shows "\<exists>offered r f'. fetch_native_links fetch f d = Inr offered \<and>
    filter_native_configs lr offered (fd_resolved_filter_policy f) = Some r \<and>
    feed_links fk (fd_cup f) d' = map (\<lambda>n. strip (nv_raw_link n)) (fl_selected r) \<and> fl_selected r \<noteq> [] \<and>
    (\<forall>n \<in> set (fl_selected r). nv_raw_link n \<in> set offered \<and> nv_valid n \<and> native_selected (fl_policy r) n) \<and>
    row (db_feeds d') fk = Some f' \<and> fd_status f' = FeedHealthy \<and> fd_consecutive_failures f' = 0 \<and>
    fd_last_good_config_count f' = length (fl_selected r) \<and> fd_refresh_lease_until f' = None \<and>
    items_ok d' \<and> foreign_same fk d d' \<and> (\<forall>j. j \<noteq> fk \<longrightarrow> row (db_feeds d') j = row (db_feeds d) j)"
  using assms(2)
proof (cases rule: refresh_steps)
  case (written f0 d1 d2)
  then have f0: "f0 = f" and feeds1: "row (db_feeds d1) fk = Some (claimed en token f)" using assms(4) by simp_all
  have same1: "db_cup_items d1 = db_cup_items d" "db_config_links d1 = db_config_links d" by (simp_all add: written(2))
  have ok1: "items_ok d1" using assms(1) by (simp add: items_ok_same [OF same1])
  let ?c = "claimed en token f"
  obtain offered r where answer: "fetch_native_links fetch f d = Inr offered"
    and r: "filter_native_configs lr offered (fd_resolved_filter_policy f) = Some r" "failure_code force fk ?c r d1 = NoCode"
    and d2: "d2 = (reconcile_items lr fk ?c (fl_selected r) d1)\<lparr>db_feeds := put fk (refreshed_feed en lr r fk ?c) (db_feeds d1)\<rparr>"
    using write_outcome_ok [OF written(3) assms(3)] feeds1 by (auto simp: written(2) f0)
  note rec = reconcile_facts [OF ok1, where lr = lr and fk = fk and f = ?c and ns = "fl_selected r"]
  have same2: "db_cup_items d' = db_cup_items (reconcile_items lr fk ?c (fl_selected r) d1)"
    "db_config_links d' = db_config_links (reconcile_items lr fk ?c (fl_selected r) d1)"
    by (simp_all add: written(4) d2)
  have feed': "row (db_feeds d') fk = Some ((refreshed_feed en lr r fk ?c)\<lparr>fd_refresh_token := [], fd_refresh_lease_until := None\<rparr>)"
    by (simp add: written(4) d2)
  have "fl_selected r \<noteq> []" using r(2) by (auto simp: failure_code_def fl_selected_count_def split: if_splits)
  moreover have "feed_links fk (fd_cup f) d' = map (\<lambda>n. strip (nv_raw_link n)) (fl_selected r)"
    using rec(2) by (simp add: feed_links_same [OF same2])
  moreover have "items_ok d'" using rec(1) by (simp add: items_ok_same [OF same2])
  moreover have "foreign_same fk d d'" by (rule foreign_same_parts [OF rec(3)]) (simp_all add: same1 same2)
  moreover have "\<forall>j. j \<noteq> fk \<longrightarrow> row (db_feeds d') j = row (db_feeds d) j"
    by (auto simp: written(2,4) d2 row_put option.map_ident)
  moreover have "\<forall>n \<in> set (fl_selected r). nv_raw_link n \<in> set offered \<and> nv_valid n \<and> native_selected (fl_policy r) n"
    using selected_from_upstream [OF r(1)] by blast
  ultimately show ?thesis
    by (intro exI [of _ offered] exI [of _ r] exI conjI) (rule answer r(1) feed' | assumption | simp)+
qed (use assms(3) in blast)+

text \<open>A write that nothing refuses.\<close>

lemma write_succeeds:
  assumes "row (db_feeds d) fk = Some f" "row (db_cups d) (fd_cup f) = Some c" "\<not> superseded en token f" "\<not> source_changed snap f"
    "feed_cup_accessible en f d" "\<not> feed_unavailable f"
    "filter_native_configs lr offered (fd_resolved_filter_policy snap) = Some r" "failure_code force fk snap r d = NoCode"
  shows "\<exists>s. write_outcome en lr token force fk snap (Inr offered) d =
      (Finished s, (reconcile_items lr fk f (fl_selected r) d)\<lparr>db_feeds := put fk (refreshed_feed en lr r fk f) (db_feeds d)\<rparr>) \<and> sr_ok s"
proof -
  have "fd_cup snap = fd_cup f" using assms(4) by (simp add: source_changed_def)
  then show ?thesis using assms by (simp add: write_outcome_def reconcile_success_def Let_def)
qed

lemma refresh_succeeds:
  assumes "row (db_feeds d) fk = Some f" "\<not> claim_refused en force mi f d" "\<not> feed_unavailable f"
    "fetch_native_links fetch f d = Inr offered"
    "filter_native_configs lr offered (fd_resolved_filter_policy f) = Some r" "failure_code force fk f r d = NoCode"
  shows "\<exists>s d'. refresh_external_subscription_feed en lr fetch token force mi fk d = (Finished s, d') \<and> sr_ok s"
proof -
  let ?c = "claimed en token f"
  let ?d = "d\<lparr>db_feeds := put fk ?c (db_feeds d)\<rparr>"
  have claim: "claim_refresh en token force mi fk d = Some (None, ?d)"
    using assms(1,2) by (simp add: claim_refresh_def claimed_def)
  obtain c where c: "row (db_cups d) (fd_cup f) = Some c" "feed_cup_accessible en f d"
    using assms(2) by (auto simp: claim_refused_def feed_cup_accessible_def cup_of_feed_def split: option.splits)
  have count: "source_owned_cup_item_count fk ?c ?d = source_owned_cup_item_count fk f d"
    by (simp add: source_owned_cup_item_count_def linked_items_same [of ?d d])
  have un: "\<not> feed_unavailable ?c" using assms(3) by (simp add: feed_unavailable_def claimed_def)
  have "\<exists>s. write_outcome en lr (Some token) force fk ?c (Inr offered) ?d =
      (Finished s, (reconcile_items lr fk ?c (fl_selected r) ?d)\<lparr>db_feeds := put fk (refreshed_feed en lr r fk ?c) (db_feeds ?d)\<rparr>) \<and> sr_ok s"
  proof (rule write_succeeds)
    show "row (db_cups ?d) (fd_cup ?c) = Some c" using c(1) by simp
    show "\<not> superseded en (Some token) ?c" by (simp add: superseded_def claimed_def seconds_def lease_seconds_def)
    show "feed_cup_accessible en ?c ?d" using c(2) by (simp add: feed_cup_accessible_def cup_of_feed_def)
    have "should_block_massive_drop force fk ?c r ?d = should_block_massive_drop force fk f r d"
      unfolding should_block_massive_drop_def count claimed_fields(4) ..
    then show "failure_code force fk ?c r ?d = NoCode" using assms(6) by (simp only: failure_code_def)
  qed (use assms(5) un in \<open>simp_all add: source_changed_def\<close>)
  then obtain s d2 where "write_outcome en lr (Some token) force fk ?c (Inr offered) ?d = (Finished s, d2)" "sr_ok s" by blast
  then show ?thesis
    using un assms(4) by (simp add: refresh_external_subscription_feed_def claim)
qed

text \<open>A feed whose upstream offers two configurations.\<close>

definition guard_feed :: feed where
  "guard_feed = new_feed\<lparr>fd_provider := ''pasarguard'', fd_cup := 1, fd_panel := Some 1, fd_vpn_client := Some 1,
     fd_protected_subscription_url := ''https://up/x'', fd_last_good_config_count := 6\<rparr>"

definition feed_db :: db where
  "feed_db = guard_db\<lparr>db_feeds := [(1, guard_feed)]\<rparr>"

definition guard_fetch :: "pk \<times> panel \<Rightarrow> string \<Rightarrow> string + string list" where
  "guard_fetch pn url = Inr [''trojan://b'', ''trojan://c'']"

lemma strip_trojan: "strip ''trojan://b'' = ''trojan://b''" "strip ''trojan://c'' = ''trojan://c''"
  by (simp_all add: strip_def blank_def chr_code_def)

lemma trojan_urls:
  "urlsplit sample_reader ''trojan://b'' = Some \<lparr>u_scheme = ''trojan'', u_netloc = ''b'', u_path = [], u_query = [], u_fragment = []\<rparr>"
  "urlsplit sample_reader ''trojan://c'' = Some \<lparr>u_scheme = ''trojan'', u_netloc = ''c'', u_path = [], u_query = [], u_fragment = []\<rparr>"
  by (simp_all add: urlsplit_def Let_def url_scheme_def before_def after_def is_alpha_def is_upper_def is_lower_def scheme_char_def
        is_digit_def lower_def lower_char_def chr_code_def)

lemma trojan_hosts:
  "hostname \<lparr>u_scheme = ''trojan'', u_netloc = ''b'', u_path = [], u_query = [], u_fragment = []\<rparr> = ''b''"
  "hostname \<lparr>u_scheme = ''trojan'', u_netloc = ''c'', u_path = [], u_query = [], u_fragment = []\<rparr> = ''c''"
  by (simp_all add: hostname_def host_info_def cut_last_def before_def after_def Let_def lower_def lower_char_def is_upper_def chr_code_def)

lemma trojan_parsed:
  "parse_native_config sample_reader ''trojan://b'' = parsed_native sample_reader ''trojan://b'' ''trojan'' ''none'' ''tcp'' [] ''b'' None False True []"
  "parse_native_config sample_reader ''trojan://c'' = parsed_native sample_reader ''trojan://c'' ''trojan'' ''none'' ''tcp'' [] ''c'' None False True []"
  by (simp_all add: parse_native_config_def strip_trojan scheme_sep_def canonical_protocol_def parse_url_style_def trojan_urls
      trojan_hosts config_protocols_def query_fields_def query_has_def query_values_def safe_port_def host_info_def
      before_def after_def cut_last_def str_or_def Let_def lower_def lower_char_def is_upper_def chr_code_def strip_def blank_def)

definition default_policy :: filter_policy where
  "default_policy = \<lparr>fp_protocols = config_protocols, fp_security = dynamic_security, fp_transport = dynamic_transports,
     fp_remark_include = [], fp_remark_exclude = [], fp_require_reality_pbk = True, fp_max_configs = None,
     fp_deduplicate_exact = True, fp_refresh_interval_hours = 1\<rparr>"

lemma no_policy: "normalize_external_subscription_filter_policy [] = Some default_policy"
  by (simp add: normalize_external_subscription_filter_policy_def default_policy_def dget_def normalize_values_def as_bool_def
      as_positive_int_def strip_def)

lemma trojan_native:
  "parsed_native sample_reader raw ''trojan'' ''none'' ''tcp'' [] host None False True [] =
     \<lparr>nv_raw_link = raw, nv_protocol = ''trojan'', nv_security = ''none'', nv_transport = ''tcp'', nv_remark = [],
      nv_host = take 255 host, nv_port = None, nv_has_pbk = False, nv_fingerprint = ''digest'', nv_valid = True, nv_reason = []\<rparr>"
  by (simp add: parsed_native_def canonical_protocol_def semantic_fingerprint_def sample_reader_def str_or_def Let_def
      lower_def lower_char_def is_upper_def chr_code_def strip_def blank_def)

definition trojan_result :: filter_result where
  "trojan_result = \<lparr>fl_policy = default_policy, fl_upstream_count = 2, fl_invalid_count = 0, fl_deduplicated_count = 0,
     fl_filtered_count = 2, fl_selected = [parse_native_config sample_reader ''trojan://b'', parse_native_config sample_reader ''trojan://c'']\<rparr>"

lemma guard_filter: "filter_native_configs sample_reader [''trojan://b'', ''trojan://c''] [] = Some trojan_result"
  by (simp add: filter_native_configs_def no_policy trojan_result_def trojan_parsed trojan_native Let_def native_selected_def
      default_policy_def config_protocols_def dynamic_security_def dynamic_transports_def remark_matches_def strip_def lower_def)

lemma small_drop: "\<not> exceeds_drop_ratio 6 2"
  by (simp add: exceeds_drop_ratio_def round_to_53_bits_def bit_count.simps Let_def)

lemma guard_not_blocked: "failure_code False 1 guard_feed trojan_result d = NoCode"
proof -
  have n: "fl_selected_count trojan_result = 2" "fd_last_good_config_count guard_feed = 6"
    by (simp_all add: fl_selected_count_def trojan_result_def guard_feed_def)
  then have "\<not> should_block_massive_drop False 1 guard_feed trojan_result d"
    unfolding should_block_massive_drop_def Let_def n using small_drop by simp
  then show ?thesis by (simp add: failure_code_def n)
qed

lemma feed_db_links: "db_cup_items feed_db = db_cup_items guard_db" "db_config_links feed_db = db_config_links guard_db"
  by (simp_all add: feed_db_def)

lemma guard_feed_rows:
  "row (db_feeds feed_db) 1 = Some guard_feed" "\<not> claim_refused sample_env False 0 guard_feed feed_db" "\<not> feed_unavailable guard_feed"
  "fetch_native_links guard_fetch guard_feed feed_db = Inr [''trojan://b'', ''trojan://c'']" "items_ok feed_db"
  "fd_resolved_filter_policy guard_feed = []"
proof -
  show "fetch_native_links guard_fetch guard_feed feed_db = Inr [''trojan://b'', ''trojan://c'']"
    by (simp add: fetch_native_links_def guard_fetch_def guard_feed_def feed_db_def guard_defs the_row_def new_feed_def
        strip_def blank_def lower_def lower_char_def is_upper_def chr_code_def Let_def)
qed (simp_all add: feed_db_def guard_feed_def guard_defs new_feed_def claim_refused_def feed_cup_accessible_def cup_of_feed_def
      feed_unavailable_def cup_is_accessible_def cup_is_expired_def items_ok_def wf_table_def)

lemma guard_refresh:
  "\<exists>s d'. refresh_external_subscription_feed sample_env sample_reader guard_fetch ''t'' False 0 1 feed_db = (Finished s, d') \<and> sr_ok s"
  using refresh_succeeds [OF guard_feed_rows(1-4), of sample_reader trojan_result "''t''"] guard_filter guard_not_blocked
    guard_feed_rows(6) by auto

lemma refresh_lists_selection_witness:
  "\<exists>s d'. refresh_external_subscription_feed sample_env sample_reader guard_fetch ''t'' False 0 1 feed_db = (Finished s, d') \<and>
     feed_links 1 1 d' = [''trojan://b'', ''trojan://c'']"
proof -
  note g = guard_feed_rows
  obtain s d' where r: "refresh_external_subscription_feed sample_env sample_reader guard_fetch ''t'' False 0 1 feed_db = (Finished s, d')" "sr_ok s"
    using guard_refresh by blast
  have "fd_cup guard_feed = 1" by (simp add: guard_feed_def)
  note law = refresh_lists_selection [OF g(5) r g(1), unfolded g(4) g(6) this]
  obtain offered x where "Inr [''trojan://b'', ''trojan://c''] = (Inr offered :: string + string list)"
    "filter_native_configs sample_reader offered [] = Some x" "feed_links 1 1 d' = map (\<lambda>n. strip (nv_raw_link n)) (fl_selected x)"
    using law by (elim exE conjE) (rule that)
  then have "feed_links 1 1 d' = [''trojan://b'', ''trojan://c'']"
    by (auto simp: guard_filter trojan_result_def strip_trojan)
  then show ?thesis using r(1) by blast
qed

text \<open>
  C32. A refresh that does not succeed keeps what it had: whatever the upstream answers (nothing, an error,
  only unwanted configurations, a suspicious drop), and also when the refresh crashes, no link, item or cup
  changes, every cup serves the same links, other feeds stay as they were, and of the feed itself the
  policy, the activation, the last success and its count are kept; a lease it took is released.
\<close>

theorem failed_refresh_keeps_links:
  assumes "refresh_external_subscription_feed en lr fetch token force mi fk d = (e, d')" "\<forall>s. e = Finished s \<longrightarrow> \<not> sr_ok s"
    "row (db_feeds d) fk = Some f"
  shows "db_cup_items d' = db_cup_items d \<and> db_config_links d' = db_config_links d \<and> db_cups d' = db_cups d \<and>
    (\<forall>c. active_cup_links c d' = active_cup_links c d) \<and> (\<forall>j. j \<noteq> fk \<longrightarrow> row (db_feeds d') j = row (db_feeds d) j) \<and>
    (\<exists>f'. row (db_feeds d') fk = Some f' \<and> (f' = f \<or> fd_refresh_lease_until f' = None) \<and>
       fd_active f' = fd_active f \<and> fd_resolved_filter_policy f' = fd_resolved_filter_policy f \<and>
       fd_last_success_at f' = fd_last_success_at f \<and> fd_last_good_config_count f' = fd_last_good_config_count f)"
proof -
  have served: "active_cup_links c d' = active_cup_links c d"
    if "db_cup_items d' = db_cup_items d" "db_config_links d' = db_config_links d" for c
    by (simp add: active_cup_links_def linked_items_same [OF that])
  have bad: "\<And>s. e = Finished s \<Longrightarrow> \<not> sr_ok s" using assms(2) by blast
  show ?thesis
    using assms(1)
  proof (cases rule: refresh_steps)
    case unclaimed
    then show ?thesis using assms(3) by simp
  next
    case (disabled f0 d1)
    have same: "db_cup_items d' = db_cup_items d" "db_config_links d' = db_config_links d" "db_cups d' = db_cups d"
      by (simp_all add: disabled(2,3))
    then show ?thesis using assms(3) disabled(1) served
      by (auto simp: disabled(2,3) row_put option.map_ident)
  next
    case (written f0 d1 d2)
    have f0: "f0 = f" using written(1) assms(3) by simp
    consider "d2 = d1" | "write_failure en lr (Some token) fk d1 d2" using write_outcome_kept [OF written(3) bad] by blast
    then obtain f2 where d2: "d2 = d1\<lparr>db_feeds := put fk f2 (db_feeds d1)\<rparr> \<or> d2 = d1" "row (db_feeds d2) fk = Some f2"
      "fd_refresh_token f2 = token" "fd_active f2 = fd_active f" "fd_resolved_filter_policy f2 = fd_resolved_filter_policy f"
      "fd_last_success_at f2 = fd_last_success_at f" "fd_last_good_config_count f2 = fd_last_good_config_count f"
    proof cases
      case 1
      show ?thesis by (rule that [of "claimed en token f"]) (simp_all add: 1 written(2) f0)
    next
      case 2
      then obtain c r where "d2 = d1\<lparr>db_feeds := put fk (failed_feed en lr c r fk (claimed en token f)) (db_feeds d1)\<rparr>"
        by (auto simp: write_failure_def written(2) f0)
      then show ?thesis by (intro that [of "failed_feed en lr c r fk (claimed en token f)"]) simp_all
    qed
    have same: "db_cup_items d' = db_cup_items d" "db_config_links d' = db_config_links d" "db_cups d' = db_cups d"
      using d2(1) by (auto simp: written(2,4))
    have other: "row (db_feeds d') j = row (db_feeds d) j" if "j \<noteq> fk" for j
      using d2(1) that by (auto simp: written(2,4) row_put option.map_ident)
    have "row (db_feeds d') fk = Some (f2\<lparr>fd_refresh_token := [], fd_refresh_lease_until := None\<rparr>)"
      using d2(2,3) by (simp add: written(4))
    with same other served [OF same(1,2)] d2(4-7) show ?thesis by simp
  qed
qed

lemma failed_refresh_keeps_links_witness:
  "\<exists>e d'. refresh_external_subscription_feed sample_env sample_reader (\<lambda>_ _. Inl ''panel_offline'') ''t'' False 0 1 feed_db = (e, d') \<and>
     active_cup_links 1 d' = [''vless://a'']"
proof -
  let ?fetch = "\<lambda>_ _. Inl ''panel_offline''"
  note g = guard_feed_rows
  obtain e d' where r: "refresh_external_subscription_feed sample_env sample_reader ?fetch ''t'' False 0 1 feed_db = (e, d')"
    by (rule prod.exhaust)
  have offline: "fetch_native_links ?fetch guard_feed feed_db = Inl ''panel_offline''"
    using g(4) by (auto simp: fetch_native_links_def Let_def guard_fetch_def split: option.splits if_splits)
  have "\<forall>s. e = Finished s \<longrightarrow> \<not> sr_ok s"
  proof (intro allI impI notI)
    fix s
    assume "e = Finished s" "sr_ok s"
    with refresh_ok_answered [OF _ _ g(1), of sample_env sample_reader ?fetch "''t''" False 0 s d'] r offline show False by auto
  qed
  with failed_refresh_keeps_links [OF r _ g(1)] have "active_cup_links 1 d' = active_cup_links 1 feed_db" by blast
  moreover have "active_cup_links 1 feed_db = active_cup_links 1 guard_db"
    unfolding active_cup_links_def linked_items_same [of feed_db guard_db, OF feed_db_links] ..
  ultimately show ?thesis using r guard_links by auto
qed

end
