(* ===== verification/Lease_Laws.thy ===== *)
theory Lease_Laws
  imports Feed_Laws
begin

text \<open>Several refreshers at work: the lease of a feed, and the bounds a refresh keeps.\<close>

section \<open>Interleaved refreshers\<close>

text \<open>
  A step of the refresher with the given token: its claim, its write (of any answer, for any copy of the
  feed it may have read) or its release. A refresher that crashes takes no further step.
\<close>

inductive lease_step :: "link_reader \<Rightarrow> string \<Rightarrow> pk \<Rightarrow> instant \<Rightarrow> db \<Rightarrow> db \<Rightarrow> bool" for lr where
  claims: "claim_refresh en token force mi fk d = Some (r, d') \<Longrightarrow> lease_step lr token fk (e_now en) d d'"
| writes: "write_outcome en lr (Some token) force fk snap answer d = (e, d') \<Longrightarrow> lease_step lr token fk (e_now en) d d'"
| releases: "lease_step lr token fk now d (release_refresh token fk d)"

text \<open>Steps of refreshers whose tokens are not among the excluded ones, the clock never going back.\<close>

inductive refresh_run :: "link_reader \<Rightarrow> string set \<Rightarrow> instant \<Rightarrow> db \<Rightarrow> instant \<Rightarrow> db \<Rightarrow> bool" for lr absent t d where
  start: "refresh_run lr absent t d t d"
| step: "refresh_run lr absent t d t1 d1 \<Longrightarrow> token \<notin> absent \<Longrightarrow> t1 \<le> t2 \<Longrightarrow> lease_step lr token fk t2 d1 d2 \<Longrightarrow>
    refresh_run lr absent t d t2 d2"

lemma run_clock: "refresh_run lr absent t d t1 d1 \<Longrightarrow> t \<le> t1"
  by (induction rule: refresh_run.induct) auto

definition leased :: "string \<Rightarrow> instant \<Rightarrow> feed \<Rightarrow> bool" where
  "leased token until f \<longleftrightarrow> fd_refresh_token f = token \<and> fd_refresh_lease_until f = Some until"

text \<open>A step of another refresher during the lease leaves the feed, its links and their items alone.\<close>

definition untouched :: "pk \<Rightarrow> db \<Rightarrow> db \<Rightarrow> bool" where
  "untouched fk d d' \<longleftrightarrow>
     row (db_feeds d') fk = row (db_feeds d) fk \<and> db_cups d' = db_cups d \<and>
     (\<forall>c. linked_items (\<lambda>i l. ci_cup i = c \<and> cl_external_feed l = Some fk) d' =
          linked_items (\<lambda>i l. ci_cup i = c \<and> cl_external_feed l = Some fk) d) \<and>
     (\<forall>c. feed_links fk c d' = feed_links fk c d)"

lemma untouched_refl: "untouched fk d d" by (simp add: untouched_def)

lemma untouched_trans: "untouched fk d d1 \<Longrightarrow> untouched fk d1 d2 \<Longrightarrow> untouched fk d d2" by (simp add: untouched_def)

lemma untouched_same_links:
  assumes "row (db_feeds d') fk = row (db_feeds d) fk" "db_cups d' = db_cups d" "db_cup_items d' = db_cup_items d"
    "db_config_links d' = db_config_links d"
  shows "untouched fk d d'"
  unfolding untouched_def using assms(1,2) by (simp add: feed_links_same [OF assms(3,4)] linked_items_same [OF assms(3,4)])

lemma feeds_only [simp]:
  "items_ok (d\<lparr>db_feeds := t\<rparr>) = items_ok d" "items_ok (release_refresh token fk d) = items_ok d"
  "feed_links k c (d\<lparr>db_feeds := t\<rparr>) = feed_links k c d"
  by (simp_all add: items_ok_def feed_links_same [of "d\<lparr>db_feeds := t\<rparr>" d])

lemma claim_same_links:
  assumes "claim_refresh en token force mi fk d = Some (r, d')"
  shows "db_cup_items d' = db_cup_items d" "db_config_links d' = db_config_links d" "db_cups d' = db_cups d"
    "j \<noteq> fk \<Longrightarrow> row (db_feeds d') j = row (db_feeds d) j"
proof -
  obtain t where "d' = d\<lparr>db_feeds := t\<rparr>" "j \<noteq> fk \<Longrightarrow> row t j = row (db_feeds d) j"
    using assms by (cases rule: claim_cases) (auto simp: row_put intro: that [of "db_feeds d"] that)
  then show "db_cup_items d' = db_cup_items d" "db_config_links d' = db_config_links d" "db_cups d' = db_cups d"
    "j \<noteq> fk \<Longrightarrow> row (db_feeds d') j = row (db_feeds d) j" by simp_all
qed

lemma other_step_untouched:
  assumes "lease_step lr tk k now d d'" "items_ok d" "row (db_feeds d) fk = Some f" "leased token until f" "tk \<noteq> token" "now < until"
  shows "items_ok d' \<and> untouched fk d d'"
  using assms(1)
proof cases
  case (claims en force mi r)
  from claims(2) show ?thesis
  proof (cases rule: claim_cases)
    case (refused f0 s)
    then show ?thesis using assms(2) by (simp add: untouched_refl)
  next
    case (taken f0)
    have "k \<noteq> fk"
    proof
      assume "k = fk"
      then have "f0 = f" using taken(1) assms(3) by simp
      then show False using taken(2) assms(4,6) claims(1) by (simp add: claim_refused_def leased_def)
    qed
    then show ?thesis
      using assms(2) by (intro conjI untouched_same_links) (simp_all add: taken(4) row_put)
  qed
next
  case (writes en force snap answer e)
  from writes(2) show ?thesis
  proof (cases rule: write_outcome_cases)
    case kept
    then show ?thesis using assms(2) by (simp add: untouched_refl)
  next
    case failed
    then obtain f0 c r where f0: "row (db_feeds d) k = Some f0" "\<not> superseded en (Some tk) f0"
      and d': "d' = d\<lparr>db_feeds := put k (failed_feed en lr c r k f0) (db_feeds d)\<rparr>" by (auto simp: write_failure_def)
    have "k \<noteq> fk" using f0 assms(3-5) by (auto simp: superseded_def leased_def)
    then show ?thesis
      using assms(2) by (intro conjI untouched_same_links) (simp_all add: d' row_put)
  next
    case (listed f0 r)
    have k: "k \<noteq> fk" using listed(1,2) assms(3-5) by (auto simp: superseded_def leased_def)
    note rec = reconcile_facts [OF assms(2), where lr = lr and fk = k and f = f0 and ns = "fl_selected r"]
    have same: "db_cup_items d' = db_cup_items (reconcile_items lr k f0 (fl_selected r) d)"
      "db_config_links d' = db_config_links (reconcile_items lr k f0 (fl_selected r) d)"
      by (simp_all add: listed(3))
    have ok': "items_ok d'" using rec(1) by (simp add: items_ok_same [OF same])
    have "foreign_same k d d'" by (rule foreign_same_parts [OF rec(3)]) (simp_all add: same)
    then have other: "linked_items P d' = linked_items P d" if "\<And>i l. P i l \<Longrightarrow> cl_external_feed l \<noteq> Some k" for P
      by (rule foreign_links [OF assms(2) ok']) (rule that)
    have "linked_items (\<lambda>i l. ci_cup i = c \<and> cl_external_feed l = Some fk) d' =
          linked_items (\<lambda>i l. ci_cup i = c \<and> cl_external_feed l = Some fk) d" for c
      by (rule other) (use k in auto)
    moreover have "feed_links fk c d' = feed_links fk c d" for c
      unfolding feed_links_def by (subst other) (use k in auto)
    ultimately show ?thesis using ok' k by (simp add: untouched_def listed(3) row_put)
  qed
next
  case releases
  have "row (db_feeds d') fk = row (db_feeds d) fk" using assms(3-5) by (auto simp: releases leased_def)
  then show ?thesis
    using assms(2) by (intro conjI untouched_same_links) (simp_all add: releases)
qed

lemma run_untouched:
  assumes "refresh_run lr {token} t d t1 d1" "items_ok d" "row (db_feeds d) fk = Some f" "leased token until f" "t1 < until"
  shows "items_ok d1 \<and> untouched fk d d1"
  using assms
proof (induction rule: refresh_run.induct)
  case start
  then show ?case by (simp add: untouched_refl)
next
  case (step t1 d1 tk t2 k d2)
  have ih: "items_ok d1" "untouched fk d d1" using step by auto
  have "row (db_feeds d1) fk = Some f" using ih(2) step.prems(2) by (simp add: untouched_def)
  from other_step_untouched [OF step.hyps(4) ih(1) this step.prems(3) _ step.prems(4)] step.hyps(2) ih(2)
  show ?case by (auto intro: untouched_trans)
qed

text \<open>
  C33. The lease excludes every other refresher: from the claim of a refresher until ninety seconds later,
  whatever steps refreshers with other tokens take for this or any other feed, in any order and also when
  they are forced, the feed stays as the claim left it, and its links and their items are not touched.
\<close>

theorem lease_excludes_others:
  assumes "items_ok d" "claim_refresh en token force mi fk d = Some (None, d1)"
    "refresh_run lr {token} (e_now en) d1 t d2" "t < e_now en + seconds 90"
  shows "items_ok d2 \<and> row (db_feeds d2) fk = row (db_feeds d1) fk \<and> (\<forall>c. feed_links fk c d2 = feed_links fk c d) \<and>
    (\<forall>c. linked_items (\<lambda>i l. ci_cup i = c \<and> cl_external_feed l = Some fk) d2 =
         linked_items (\<lambda>i l. ci_cup i = c \<and> cl_external_feed l = Some fk) d)"
proof -
  note same = claim_same_links(1,2) [OF assms(2)]
  have ok1: "items_ok d1" using assms(1) by (simp add: items_ok_same [OF same])
  obtain f where f: "row (db_feeds d1) fk = Some f" "leased token (e_now en + seconds 90) f"
    using assms(2) by (cases rule: claim_cases) (auto simp: leased_def claimed_def lease_seconds_def)
  from run_untouched [OF assms(3) ok1 f assms(4)] show ?thesis
    by (simp add: untouched_def feed_links_same [OF same] linked_items_same [OF same])
qed

definition claimed_db :: db where
  "claimed_db = feed_db\<lparr>db_feeds := put 1 (claimed sample_env ''t'' guard_feed) (db_feeds feed_db)\<rparr>"

lemma guard_claim: "claim_refresh sample_env ''t'' False 0 1 feed_db = Some (None, claimed_db)"
  using guard_feed_rows(1,2) by (simp add: claim_refresh_def claimed_db_def claimed_def)

text \<open>A second refresher, also a forced one, is turned away and then releases nothing.\<close>

lemma guard_run: "refresh_run sample_reader {''t''} (e_now sample_env) claimed_db (e_now sample_env) (release_refresh ''u'' 1 claimed_db)"
proof -
  have "claim_refused sample_env True 0 (claimed sample_env ''t'' guard_feed) claimed_db"
    by (simp add: claim_refused_def claimed_def seconds_def lease_seconds_def)
  then have "claim_refresh sample_env ''u'' True 0 1 claimed_db =
      Some (Some (skipped RefreshNotAvailable (summary 1 (claimed sample_env ''t'' guard_feed) None claimed_db)), claimed_db)"
    by (simp add: claim_refresh_def claimed_db_def)
  from refresh_run.step [OF refresh_run.start _ order_refl lease_step.claims [OF this]]
  have "refresh_run sample_reader {''t''} (e_now sample_env) claimed_db (e_now sample_env) claimed_db" by simp
  from refresh_run.step [OF this _ order_refl lease_step.releases, of "''u''"] show ?thesis by simp
qed

lemma lease_excludes_others_witness:
  "feed_links 1 1 (release_refresh ''u'' 1 claimed_db) = feed_links 1 1 feed_db"
  using lease_excludes_others [OF guard_feed_rows(5) guard_claim guard_run] by (simp add: seconds_def)

section \<open>Progress\<close>

lemma owned_count: "source_owned_cup_item_count fk f d = length (feed_links fk (fd_cup f) d)"
  by (simp add: source_owned_cup_item_count_def feed_links_def)

lemma failure_code_same:
  "feed_links fk (fd_cup f) d' = feed_links fk (fd_cup f) d \<Longrightarrow> failure_code force fk f r d' = failure_code force fk f r d"
  by (simp only: failure_code_def should_block_massive_drop_def owned_count)

text \<open>
  C34. A refresher that answers within its lease always gets its configurations in: whatever other refreshers
  do between its claim and its write, the write succeeds and the feed lists the selected configurations,
  provided the cup is still accessible and the answer itself is acceptable.
\<close>

theorem lease_holder_succeeds:
  assumes "items_ok d" "claim_refresh en token force mi fk d = Some (None, d1)" "row (db_feeds d1) fk = Some snap"
    "\<not> feed_unavailable snap" "refresh_run lr {token} (e_now en) d1 t d2" "t \<le> e_now en2" "e_now en2 < e_now en + seconds 90"
    "feed_cup_accessible en2 snap d2" "filter_native_configs lr offered (fd_resolved_filter_policy snap) = Some r"
    "failure_code force fk snap r d1 = NoCode"
  shows "\<exists>s d3. write_outcome en2 lr (Some token) force fk snap (Inr offered) d2 = (Finished s, d3) \<and> sr_ok s \<and> items_ok d3 \<and>
    feed_links fk (fd_cup snap) d3 = map (\<lambda>n. strip (nv_raw_link n)) (fl_selected r)"
proof -
  note same = claim_same_links(1,2) [OF assms(2)]
  have ok1: "items_ok d1" using assms(1) by (simp add: items_ok_same [OF same])
  have lease: "leased token (e_now en + seconds 90) snap"
    using assms(2,3) by (cases rule: claim_cases) (auto simp: leased_def claimed_def lease_seconds_def)
  have "t < e_now en + seconds 90" using assms(6,7) by simp
  note run = run_untouched [OF assms(5) ok1 assms(3) lease this]
  have ok2: "items_ok d2" and feed: "row (db_feeds d2) fk = Some snap" and "db_cups d2 = db_cups d1"
    and links: "feed_links fk c d2 = feed_links fk c d1" for c
    using run assms(3) by (simp_all add: untouched_def)
  obtain c where c: "row (db_cups d2) (fd_cup snap) = Some c"
    using assms(8) by (auto simp: feed_cup_accessible_def cup_of_feed_def split: option.splits)
  have held: "\<not> superseded en2 (Some token) snap" using lease assms(7) by (simp add: superseded_def leased_def)
  have code: "failure_code force fk snap r d2 = NoCode" using assms(10) by (simp add: failure_code_same [OF links])
  have "\<not> source_changed snap snap" by (simp add: source_changed_def)
  then obtain s where s: "sr_ok s"
    "write_outcome en2 lr (Some token) force fk snap (Inr offered) d2 =
      (Finished s, (reconcile_items lr fk snap (fl_selected r) d2)\<lparr>db_feeds := put fk (refreshed_feed en2 lr r fk snap) (db_feeds d2)\<rparr>)"
    using write_succeeds [OF feed c held _ assms(8,4,9) code] by blast
  note rec = reconcile_facts [OF ok2, where lr = lr and fk = fk and f = snap and ns = "fl_selected r"]
  show ?thesis
    by (intro exI conjI, rule s(2), rule s(1)) (simp_all add: rec)
qed

lemma lease_holder_succeeds_witness:
  "\<exists>s d3. write_outcome sample_env sample_reader (Some ''t'') False 1 (claimed sample_env ''t'' guard_feed)
       (Inr [''trojan://b'', ''trojan://c'']) (release_refresh ''u'' 1 claimed_db) = (Finished s, d3) \<and>
     feed_links 1 1 d3 = [''trojan://b'', ''trojan://c'']"
proof -
  have feed: "row (db_feeds claimed_db) 1 = Some (claimed sample_env ''t'' guard_feed)" by (simp add: claimed_db_def)
  have un: "\<not> feed_unavailable (claimed sample_env ''t'' guard_feed)"
    using guard_feed_rows(3) by (simp add: feed_unavailable_def claimed_def)
  have open_cup: "feed_cup_accessible sample_env (claimed sample_env ''t'' guard_feed) (release_refresh ''u'' 1 claimed_db)"
    using guard_feed_rows(2) by (simp add: claim_refused_def feed_cup_accessible_def cup_of_feed_def claimed_db_def)
  have selected: "filter_native_configs sample_reader [''trojan://b'', ''trojan://c'']
      (fd_resolved_filter_policy (claimed sample_env ''t'' guard_feed)) = Some trojan_result"
    using guard_filter guard_feed_rows(6) by simp
  have "should_block_massive_drop False 1 (claimed sample_env ''t'' guard_feed) trojan_result claimed_db =
      should_block_massive_drop False 1 guard_feed trojan_result claimed_db"
    by (simp add: should_block_massive_drop_def Let_def guard_feed_def)
  then have code: "failure_code False 1 (claimed sample_env ''t'' guard_feed) trojan_result claimed_db = NoCode"
    using guard_not_blocked [of claimed_db] by (simp only: failure_code_def)
  have "e_now sample_env < e_now sample_env + seconds 90" by (simp add: seconds_def)
  note law = lease_holder_succeeds [OF guard_feed_rows(5) guard_claim feed un guard_run order_refl this open_cup selected code]
  have "fd_cup (claimed sample_env ''t'' guard_feed) = 1" by (simp add: guard_feed_def)
  with law show ?thesis by (auto simp: trojan_result_def strip_trojan)
qed

text \<open>Leases end at most ninety seconds after the clock.\<close>

definition leases_bounded :: "instant \<Rightarrow> db \<Rightarrow> bool" where
  "leases_bounded t d \<longleftrightarrow>
     (\<forall>k f u. row (db_feeds d) k = Some f \<and> fd_refresh_lease_until f = Some u \<longrightarrow> u \<le> t + seconds lease_seconds)"

lemma leases_bounded_put:
  assumes "leases_bounded t d" "t \<le> t'" "\<And>u. fd_refresh_lease_until f = Some u \<Longrightarrow> u \<le> t' + seconds lease_seconds"
    "db_feeds d' = put k f (db_feeds d)"
  shows "leases_bounded t' d'"
  using assms(1-3) by (fastforce simp: leases_bounded_def assms(4) row_put split: if_splits)

lemma leases_bounded_later: "leases_bounded t d \<Longrightarrow> t \<le> t' \<Longrightarrow> leases_bounded t' d"
  by (fastforce simp: leases_bounded_def)

lemma leases_boundedD:
  "leases_bounded t d \<Longrightarrow> row (db_feeds d) k = Some f \<Longrightarrow> fd_refresh_lease_until f = Some u \<Longrightarrow> u \<le> t + seconds lease_seconds"
  by (simp add: leases_bounded_def)

lemma step_leases:
  assumes "lease_step lr token k t' d d'" "leases_bounded t d" "t \<le> t'"
  shows "leases_bounded t' d'"
  using assms(1)
proof cases
  case (claims en force mi r)
  from claims(2) show ?thesis
  proof (cases rule: claim_cases)
    case (refused f s)
    then show ?thesis using assms(2,3) leases_bounded_later by blast
  next
    case (taken f)
    then show ?thesis
      by (intro leases_bounded_put [OF assms(2,3), of "claimed en token f" d' k]) (auto simp: claimed_def claims(1))
  qed
next
  case (writes en force snap answer e)
  from writes(2) show ?thesis
  proof (cases rule: write_outcome_cases)
    case kept
    then show ?thesis using assms(2,3) leases_bounded_later by blast
  next
    case failed
    then obtain f c r where "row (db_feeds d) k = Some f" "d' = d\<lparr>db_feeds := put k (failed_feed en lr c r k f) (db_feeds d)\<rparr>"
      by (auto simp: write_failure_def)
    then show ?thesis
      using leases_boundedD [OF leases_bounded_later [OF assms(2,3)]]
      by (intro leases_bounded_put [OF assms(2,3), of "failed_feed en lr c r k f" d' k]) auto
  next
    case (listed f r)
    then show ?thesis
      using leases_boundedD [OF leases_bounded_later [OF assms(2,3)]]
      by (intro leases_bounded_put [OF assms(2,3), of "refreshed_feed en lr r k f" d' k]) auto
  qed
next
  case releases
  then show ?thesis
    using leases_bounded_later [OF assms(2,3)] by (auto simp: leases_bounded_def releases split: if_splits)
qed

lemma run_leases: "refresh_run lr absent t d t1 d1 \<Longrightarrow> leases_bounded t d \<Longrightarrow> leases_bounded t1 d1"
  by (induction rule: refresh_run.induct) (auto intro: step_leases)

text \<open>
  C35. A refresher that crashes blocks nobody for long: in whatever state a run of refreshers is stopped, with
  leases left behind by crashed ones, the next refresher gets the feed ninety seconds later, unforced,
  when the feed is available and its cup accessible, and holds the lease alone.
\<close>

theorem feed_free_after_lease:
  assumes "leases_bounded t d" "refresh_run lr absent t d t1 d1" "row (db_feeds d1) fk = Some f" "\<not> feed_unavailable f"
    "t1 + seconds 90 \<le> e_now en" "feed_cup_accessible en f d1"
  shows "\<exists>d2. claim_refresh en token False 0 fk d1 = Some (None, d2) \<and>
    row (db_feeds d2) fk = Some (claimed en token f) \<and> leased token (e_now en + seconds 90) (claimed en token f)"
proof -
  have "\<not> u > e_now en" if "fd_refresh_lease_until f = Some u" for u
    using leases_boundedD [OF run_leases [OF assms(2,1)] assms(3) that] assms(5) by (simp add: lease_seconds_def)
  then have "\<not> claim_refused en False 0 f d1"
    using assms(4,6) by (auto simp: claim_refused_def split: option.splits)
  then show ?thesis using assms(3) by (simp add: claim_refresh_def claimed_def leased_def lease_seconds_def)
qed

lemma feed_free_after_lease_witness:
  "\<exists>d2. claim_refresh (sample_env\<lparr>e_now := e_now sample_env + seconds 90\<rparr>) ''v'' False 0 1 claimed_db = Some (None, d2) \<and>
     fd_refresh_token (the (row (db_feeds d2) 1)) = ''v''"
proof -
  let ?en = "sample_env\<lparr>e_now := e_now sample_env + seconds 90\<rparr>"
  have bounded: "leases_bounded (e_now sample_env) claimed_db"
    by (rule leases_bounded_put [where d = empty_db and f = "claimed sample_env ''t'' guard_feed" and k = 1, OF _ order_refl])
      (simp_all add: leases_bounded_def claimed_db_def feed_db_def claimed_def empty_db_def put_def row_def)
  have feed: "row (db_feeds claimed_db) 1 = Some (claimed sample_env ''t'' guard_feed)" by (simp add: claimed_db_def)
  have un: "\<not> feed_unavailable (claimed sample_env ''t'' guard_feed)"
    using guard_feed_rows(3) by (simp add: feed_unavailable_def claimed_def)
  have open_cup: "feed_cup_accessible ?en (claimed sample_env ''t'' guard_feed) claimed_db"
    by (simp add: feed_cup_accessible_def cup_of_feed_def claimed_db_def feed_db_def guard_feed_def guard_defs
        cup_is_accessible_def cup_is_expired_def)
  from feed_free_after_lease [OF bounded refresh_run.start feed un _ open_cup, of "''v''"] show ?thesis by auto
qed

end
