(* ===== verification/Policy_Laws.thy ===== *)
theory Policy_Laws
  imports Feed_Laws
begin

text \<open>The filter policies of feeds, and the bound the drop protection keeps.\<close>

section \<open>Filter policies\<close>

definition values_ok :: "string list \<Rightarrow> string list \<Rightarrow> bool" where
  "values_ok defaults xs \<longleftrightarrow> xs \<noteq> [] \<and> set xs \<subseteq> set defaults \<and> distinct xs"

definition policy_ok :: "filter_policy \<Rightarrow> bool" where
  "policy_ok p \<longleftrightarrow>
     values_ok config_protocols (fp_protocols p) \<and> values_ok dynamic_security (fp_security p) \<and>
     values_ok dynamic_transports (fp_transport p) \<and> length (fp_remark_include p) \<le> 200 \<and> length (fp_remark_exclude p) \<le> 200 \<and>
     (case fp_max_configs p of None \<Rightarrow> True | Some n \<Rightarrow> 1 \<le> n \<and> n \<le> 1000) \<and>
     1 \<le> fp_refresh_interval_hours p \<and> fp_refresh_interval_hours p \<le> 720"

lemma pick_values_ok:
  "values_ok defaults defaults \<Longrightarrow> acc = [] \<or> values_ok defaults acc \<Longrightarrow> values_ok defaults (pick_values defaults aliases acc xs)"
proof (induction xs arbitrary: acc)
  case (Cons x xs)
  have more: "acc @ [v] = [] \<or> values_ok defaults (acc @ [v])" if "v \<in> set defaults" "v \<notin> set acc" for v
    using Cons.prems(2) that by (auto simp: values_ok_def)
  then show ?case using Cons by (simp add: Let_def)
qed auto

text \<open>Names in their normal form are picked as they are.\<close>

definition plain_name :: "(string \<times> string) list \<Rightarrow> string \<Rightarrow> bool" where
  "plain_name aliases x \<longleftrightarrow> strip x = x \<and> lower x = x \<and> map_of aliases x = None \<and> x \<notin> {''*'', ''all''}"

lemma pick_values_plain:
  "list_all (plain_name aliases) xs \<Longrightarrow> set xs \<subseteq> set defaults \<Longrightarrow> distinct (acc @ xs) \<Longrightarrow> acc @ xs \<noteq> [] \<Longrightarrow>
   pick_values defaults aliases acc xs = acc @ xs"
  by (induction xs arbitrary: acc) (auto simp: plain_name_def Let_def)

lemma plain_names:
  "list_all (plain_name [(''hy2'', ''hysteria2'')]) config_protocols" "list_all (plain_name []) dynamic_security"
  "list_all (plain_name []) dynamic_transports"
  by (simp_all add: plain_name_def config_protocols_def dynamic_security_def dynamic_transports_def strip_def blank_def
      lower_def lower_char_def is_upper_def chr_code_def)

lemma defaults_ok: "values_ok config_protocols config_protocols" "values_ok dynamic_security dynamic_security"
  "values_ok dynamic_transports dynamic_transports"
  by (simp_all add: values_ok_def config_protocols_def dynamic_security_def dynamic_transports_def)

lemma normalize_values_ok:
  "values_ok defaults defaults \<Longrightarrow> normalize_values v defaults aliases = Some xs \<Longrightarrow> values_ok defaults xs"
  by (auto simp: normalize_values_def pick_values_ok split: if_splits json.splits)

lemma normalize_values_plain:
  assumes "values_ok defaults xs" "list_all (plain_name aliases) defaults"
  shows "normalize_values (JList (map JStr xs)) defaults aliases = Some xs"
proof -
  have plain: "list_all (plain_name aliases) xs" using assms by (auto simp: values_ok_def list_all_iff)
  then have "map (\<lambda>x. strip (py_text x)) (map JStr xs) = xs" by (induction xs) (auto simp: plain_name_def)
  then show ?thesis
    using assms(1) pick_values_plain [OF plain, of defaults "[]"] by (simp add: normalize_values_def values_ok_def comp_def)
qed

lemma length_strip: "length (strip s) \<le> length s"
  by (metis (no_types, lifting) strip_def length_rev length_dropWhile_le order_trans)

lemma strip_short: "length s \<le> 200 \<Longrightarrow> take 200 (strip s) = strip s"
  using length_strip [of s] by simp

text \<open>
  C36. Normalising a filter policy gives a well-formed policy whatever the administrator wrote: nonempty lists
  of distinct known names, a limit between 1 and 1000 or none, an interval between 1 and 720 hours, and
  remarks of at most 200 characters; and the policy stored on a feed reads back as itself, its remarks without
  surrounding blanks.
\<close>

theorem policies_well_formed:
  assumes "normalize_external_subscription_filter_policy p = Some q"
  shows "policy_ok q \<and>
    normalize_external_subscription_filter_policy (policy_dict q) =
      Some (q\<lparr>fp_remark_include := strip (fp_remark_include q), fp_remark_exclude := strip (fp_remark_exclude q)\<rparr>)"
proof -
  obtain t pr se tr where v: "normalize_values (dget ''protocols'' p) config_protocols [(''hy2'', ''hysteria2'')] = Some pr"
    "normalize_values (dget ''security'' p) dynamic_security [] = Some se" "normalize_values t dynamic_transports [] = Some tr"
    and q: "fp_protocols q = pr" "fp_security q = se" "fp_transport q = tr"
      "fp_remark_include q = take 200 (strip (py_text (dget ''remark_include'' p)))"
      "fp_remark_exclude q = take 200 (strip (py_text (dget ''remark_exclude'' p)))"
      "fp_max_configs q = as_positive_int (dget ''max_configs'' p) None (Some 1000)"
      "fp_refresh_interval_hours q =
         (case as_positive_int (dget ''refresh_interval_hours'' p) (Some 1) (Some 720) of None \<Rightarrow> 1 | Some n \<Rightarrow> n)"
    using assms by (auto simp: normalize_external_subscription_filter_policy_def Let_def split: option.splits)
  have "values_ok config_protocols pr" "values_ok dynamic_security se" "values_ok dynamic_transports tr"
    by (rule normalize_values_ok [OF defaults_ok(1) v(1)], rule normalize_values_ok [OF defaults_ok(2) v(2)],
        rule normalize_values_ok [OF defaults_ok(3) v(3)])
  then have ok: "policy_ok q"
    by (simp add: policy_ok_def q as_positive_int_def split: option.split)
  have names: "normalize_values (JList (map JStr (fp_protocols q))) config_protocols [(''hy2'', ''hysteria2'')] = Some (fp_protocols q)"
    "normalize_values (JList (map JStr (fp_security q))) dynamic_security [] = Some (fp_security q)"
    "normalize_values (JList (map JStr (fp_transport q))) dynamic_transports [] = Some (fp_transport q)"
    using ok plain_names by (auto simp: policy_ok_def intro!: normalize_values_plain)
  have "truthy (JList (map JStr (fp_transport q)))" using ok by (simp add: policy_ok_def values_ok_def)
  moreover have "as_positive_int (jint_opt (fp_max_configs q)) None (Some 1000) = fp_max_configs q"
    using ok by (cases "fp_max_configs q") (auto simp: policy_ok_def as_positive_int_def)
  moreover have "as_positive_int (JInt (fp_refresh_interval_hours q)) (Some 1) (Some 720) = Some (fp_refresh_interval_hours q)"
    using ok by (auto simp: policy_ok_def as_positive_int_def)
  moreover have "take 200 (strip (fp_remark_include q)) = strip (fp_remark_include q)"
    "take 200 (strip (fp_remark_exclude q)) = strip (fp_remark_exclude q)"
    using ok by (simp_all only: policy_ok_def strip_short)
  ultimately have "normalize_external_subscription_filter_policy (policy_dict q) =
      Some (q\<lparr>fp_remark_include := strip (fp_remark_include q), fp_remark_exclude := strip (fp_remark_exclude q)\<rparr>)"
    by (cases q) (use names in \<open>simp add: normalize_external_subscription_filter_policy_def policy_dict_def dget_def as_bool_def\<close>)
  with ok show ?thesis by blast
qed

lemma policies_well_formed_witness: "policy_ok default_policy"
  using policies_well_formed [OF no_policy] by blast

section \<open>The drop protection\<close>

lemma bit_count_0 [simp]: "bit_count 0 = 0"
  by (subst bit_count.simps) simp

lemma bit_count_bound: "0 < n \<Longrightarrow> 2 ^ (bit_count n - 1) \<le> n"
proof (induction n rule: less_induct)
  case (less n)
  show ?case
  proof (cases "n div 2 = 0")
    case True
    then show ?thesis using less.prems by (simp add: bit_count.simps [of n])
  next
    case False
    then have "2 ^ (bit_count (n div 2) - 1) \<le> n div 2" using less.prems by (intro less.IH) auto
    moreover have "bit_count (n div 2) \<noteq> 0" using False by (simp add: bit_count.simps [of "n div 2"])
    moreover have "bit_count n = Suc (bit_count (n div 2))" using less.prems by (simp add: bit_count.simps [of n])
    ultimately show ?thesis by (cases "bit_count (n div 2)") (simp_all del: One_nat_def)
  qed
qed

lemma round_bound: "round_to_53_bits n * 2 ^ 52 \<le> n * 2 ^ 52 + n"
proof (cases "bit_count n - 53")
  case 0
  then show ?thesis by (simp add: round_to_53_bits_def)
next
  case (Suc j)
  let ?k = "bit_count n - 53"
  have "n \<noteq> 0" using Suc by (intro notI) simp
  have exp: "bit_count n - 1 = ?k + 52" using Suc by simp
  have "0 < n" using \<open>n \<noteq> 0\<close> by simp
  then have big: "2 ^ ?k * 2 ^ 52 \<le> n" by (rule bit_count_bound [of n, unfolded exp power_add])
  have "n div 2 ^ ?k * 2 ^ ?k \<le> n" by simp
  moreover have "round_to_53_bits n \<le> Suc (n div 2 ^ ?k) * 2 ^ ?k"
  proof -
    have "?k \<noteq> 0" using Suc by simp
    then show ?thesis unfolding round_to_53_bits_def Let_def by (simp only: if_False) (rule mult_le_mono1, simp only: split: if_split, simp)
  qed
  ultimately have "round_to_53_bits n \<le> n + 2 ^ ?k" unfolding mult_Suc by linarith
  then have "round_to_53_bits n * 2 ^ 52 \<le> (n + 2 ^ ?k) * 2 ^ 52" by (rule mult_le_mono1)
  also have "\<dots> \<le> n * 2 ^ 52 + n" unfolding add_mult_distrib using big by (rule add_left_mono)
  finally show ?thesis .
qed

lemma kept_ratio:
  assumes "\<not> exceeds_drop_ratio n m" "n < 2 ^ 31"
  shows "3 * n \<le> 10 * m"
proof -
  let ?x = "n * 6305039478318694"
  have "(int n - int m) * 2 ^ 53 \<le> int (round_to_53_bits ?x)" using assms(1) by (simp add: exceeds_drop_ratio_def)
  moreover have "int (round_to_53_bits ?x * 2 ^ 52) \<le> int (?x * 2 ^ 52 + ?x)"
    using round_bound [of ?x] by (simp only: of_nat_le_iff)
  then have "int (round_to_53_bits ?x) * 2 ^ 52 \<le> int ?x * 2 ^ 52 + int ?x"
    by (simp only: of_nat_add of_nat_mult of_nat_power of_nat_numeral)
  moreover from calculation(1) have "(int n - int m) * 2 ^ 53 * 2 ^ 52 \<le> int (round_to_53_bits ?x) * 2 ^ 52"
    by (rule mult_right_mono) simp
  ultimately have "(int n - int m) * 2 ^ 53 * 2 ^ 52 \<le> int ?x * 2 ^ 52 + int ?x" by (blast intro: order_trans)
  moreover have "int n < 2147483648" using assms(2) by simp
  ultimately show ?thesis by simp
qed

text \<open>
  C37. An unforced refresh never loses more than seven tenths of a feed: when a feed had at least five
  configurations (fewer than the database's integers can count), a refresh that succeeds without force
  keeps at least three tenths of that number, although the code compares with a product of doubles.
\<close>

theorem unforced_refresh_drop_bounded:
  assumes "refresh_external_subscription_feed en lr fetch token False mi fk d = (Finished s, d')" "sr_ok s"
    "row (db_feeds d) fk = Some f" "5 \<le> fd_last_good_config_count f" "fd_last_good_config_count f < 2 ^ 31"
  shows "\<exists>f'. row (db_feeds d') fk = Some f' \<and> 3 * fd_last_good_config_count f \<le> 10 * fd_last_good_config_count f'"
  using assms(1)
proof (cases rule: refresh_steps)
  case (written f0 d1 d2)
  then have f0: "f0 = f" and feeds1: "row (db_feeds d1) fk = Some (claimed en token f)" using assms(3) by simp_all
  let ?c = "claimed en token f"
  obtain r where r: "failure_code False fk ?c r d1 = NoCode"
    and d2: "d2 = (reconcile_items lr fk ?c (fl_selected r) d1)\<lparr>db_feeds := put fk (refreshed_feed en lr r fk ?c) (db_feeds d1)\<rparr>"
    using write_outcome_ok [OF written(3) assms(2)] feeds1 by (auto simp: f0)
  have "\<not> should_block_massive_drop False fk ?c r d1" using r by (auto simp: failure_code_def split: if_splits)
  then have "\<not> exceeds_drop_ratio (fd_last_good_config_count f) (length (fl_selected r))"
    using assms(4) by (simp add: should_block_massive_drop_def drop_protection_min_previous_count_def fl_selected_count_def Let_def)
  from kept_ratio [OF this assms(5)] show ?thesis by (simp add: written(4) d2)
qed (use assms(2) in blast)+

lemma unforced_refresh_drop_bounded_witness:
  "\<exists>s d' f'. refresh_external_subscription_feed sample_env sample_reader guard_fetch ''t'' False 0 1 feed_db = (Finished s, d') \<and>
     row (db_feeds d') 1 = Some f' \<and> 18 \<le> 10 * fd_last_good_config_count f'"
proof -
  note g = guard_feed_rows
  obtain s d' where r: "refresh_external_subscription_feed sample_env sample_reader guard_fetch ''t'' False 0 1 feed_db = (Finished s, d')" "sr_ok s"
    using guard_refresh by blast
  have n: "fd_last_good_config_count guard_feed = 6" by (simp add: guard_feed_def)
  from unforced_refresh_drop_bounded [OF r g(1)] r(1) show ?thesis unfolding n by auto
qed

end
