(* ===== verification/Recipe_Fulfillment.thy ===== *)
theory Recipe_Fulfillment
  imports Subscription_Cups
begin

text \<open>
  \<open>store/cup_fulfillment_services.py\<close>: delivering an order by the recipe of its plan. The rules of the
  recipe fill the cup of the order in turn, with links of new panel clients or of allocated assets; the
  order is completed or marked failed by the failure policy. Messages are values. The identity and the
  name prefix sent to a panel are left out, as the answers of a panel are arbitrary.
\<close>

section \<open>The panel\<close>

text \<open>
  The adapter of a panel: whether it exists (\<open>get_safe_panel_adapter\<close> raises when it does not), and the
  answers to the requests of a run, numbered like those of \<open>remote\<close>. A report is \<open>None\<close> when asking for
  it raised, else whether clients, and clients on several inbounds, can be created.
\<close>

record recipe_remote =
  rq_supported :: "panel \<Rightarrow> bool"
  rq_report :: "nat \<Rightarrow> (bool \<times> bool) option"
  rq_lookup :: "nat \<Rightarrow> string + dict option"
  rq_create :: "nat \<Rightarrow> string + dict"

section \<open>Results\<close>

datatype recipe_error =
    PanelRuleIncomplete | RuleInboundForeign | RealityKeyAbsent | CreateUnsupported | MultiCreateUnsupported
  | BundlePartlyCreated | DirectLinksMissing | PanelRaised string
  | PoolNotSet | InventoryRefused inventory_error | SourceUnsupported | NoActiveRules

definition recipe_error_text :: "recipe_error \<Rightarrow> string" where
  "recipe_error_text e =
     (case e of
        PanelRuleIncomplete \<Rightarrow> ''panel_rule_incomplete'' | RuleInboundForeign \<Rightarrow> ''rule_inbound_foreign''
      | RealityKeyAbsent \<Rightarrow> ''reality_key_absent'' | CreateUnsupported \<Rightarrow> ''create_unsupported''
      | MultiCreateUnsupported \<Rightarrow> ''multi_create_unsupported'' | BundlePartlyCreated \<Rightarrow> ''bundle_partly_created''
      | DirectLinksMissing \<Rightarrow> ''direct_links_missing'' | PanelRaised s \<Rightarrow> s | PoolNotSet \<Rightarrow> ''pool_not_set''
      | InventoryRefused _ \<Rightarrow> ''inventory_refused'' | SourceUnsupported \<Rightarrow> ''source_unsupported''
      | NoActiveRules \<Rightarrow> ''no_active_rules'')"

record rule_outcome =
  ro_rule :: pk
  ro_source_type :: source_type
  ro_position :: nat
  ro_required :: bool
  ro_success :: bool
  ro_created :: nat
  ro_inventory :: nat
  ro_panel :: nat
  ro_errors :: "recipe_error list"

definition new_outcome :: "pk \<times> filler_rule \<Rightarrow> rule_outcome" where
  "new_outcome kr = \<lparr>ro_rule = fst kr, ro_source_type = fr_source_type (snd kr), ro_position = fr_position (snd kr),
     ro_required = fr_required (snd kr), ro_success = False, ro_created = 0, ro_inventory = 0, ro_panel = 0, ro_errors = []\<rparr>"

definition rule_error :: "recipe_error \<Rightarrow> rule_outcome \<Rightarrow> rule_outcome" where
  "rule_error e o1 = o1\<lparr>ro_errors := ro_errors o1 @ [e]\<rparr>"

text \<open>The state a recipe works on: the inventory beside the database.\<close>

type_synonym stock = "inventory \<times> db"

section \<open>Filling a cup\<close>

definition next_position :: "pk \<Rightarrow> db \<Rightarrow> nat" where
  "next_position c d = Suc (foldr max (map (\<lambda>(_, i). ci_position i) (rows_where (\<lambda>_ i. ci_cup i = c) (db_cup_items d))) 0)"

text \<open>\<open>create_config_link_from_raw\<close> and \<open>CupItem.objects.get_or_create\<close>.\<close>

definition list_new_link ::
  "link_reader \<Rightarrow> pk \<Rightarrow> string \<Rightarrow> link_source \<Rightarrow> pk option \<Rightarrow> pk option \<Rightarrow> dict \<Rightarrow> string \<Rightarrow> dict \<Rightarrow> db \<Rightarrow> db" where
  "list_new_link lr c raw src panel inb link_meta reason item_meta d =
     (let (lk, links) = add_row (apply_config_link_parse lr raw src panel inb None None link_meta new_config_link) (db_config_links d);
          d1 = d\<lparr>db_config_links := links\<rparr>
      in if exists_where (\<lambda>_ i. ci_cup i = c \<and> ci_config_link i = lk) (db_cup_items d1) then d1
         else d1\<lparr>db_cup_items := snd (add_row \<lparr>ci_cup = c, ci_config_link = lk, ci_position = next_position c d1, ci_is_active = True,
                ci_added_reason = reason, ci_metadata = item_meta\<rparr> (db_cup_items d1))\<rparr>)"

section \<open>Panel rules\<close>

definition fulfilment_inbounds :: "db \<Rightarrow> filler_rule \<Rightarrow> (pk \<times> inbound) list" where
  "fulfilment_inbounds d r =
     (let chosen = ordered_where fst (\<lambda>k _. k \<in> set (fr_inbounds r)) (db_inbounds d)
      in if chosen = [] \<and> fr_panel r \<noteq> None
         then take 1 (ordered_where fst
                (\<lambda>_ i. ib_panel i = fr_panel r \<and> ib_is_active i \<and> ib_available_for_new_orders i) (db_inbounds d))
         else chosen)"

definition missing_reality_key :: "db \<Rightarrow> inbound \<Rightarrow> bool" where
  "missing_reality_key d i \<longleftrightarrow>
     (case panel_of d i of None \<Rightarrow> True | Some p \<Rightarrow> pn_family p \<noteq> FamPasarguard) \<and>
     ib_security i = SecReality \<and> strip (ib_pbk i) = []"

definition py_str :: "json \<Rightarrow> string" where
  "py_str v = (case v of JStr s \<Rightarrow> s | _ \<Rightarrow> py_repr v)"

text \<open>The links of an answer, with the inbound and the part of the answer each belongs to.\<close>

type_synonym link_entry = "pk option \<times> dict \<times> string"

fun bundle_links :: "dict \<Rightarrow> pk list \<Rightarrow> json list \<Rightarrow> link_entry list" where
  "bundle_links ans [] rs = []"
| "bundle_links ans (i # is) rs =
     (let item = (case rs of JObj r # _ \<Rightarrow> r | _ \<Rightarrow> [])
      in (Some i, if item = [] then ans else item, strip (py_text (dget ''direct_link'' item))) # bundle_links ans is (tl rs))"

fun raw_entries :: "dict \<Rightarrow> pk option \<Rightarrow> pk list \<Rightarrow> string list \<Rightarrow> link_entry list" where
  "raw_entries ans fallback is [] = []"
| "raw_entries ans fallback is (l # ls) =
     (case is of
        i # js \<Rightarrow> (Some i, ans, l) # raw_entries ans fallback js ls
      | [] \<Rightarrow> (fallback, ans, l) # raw_entries ans fallback [] ls)"

definition direct_link_entries :: "dict \<Rightarrow> pk list \<Rightarrow> link_entry list" where
  "direct_link_entries ans inbs =
     (let links = filter (\<lambda>s. s \<noteq> []) (map (\<lambda>v. strip (py_str v)) (as_list (dget ''raw_links'' ans)))
      in if links \<noteq> [] then raw_entries ans (first_of inbs) inbs links
         else if length inbs \<le> 1 then [(first_of inbs, ans, strip (py_text (dget ''direct_link'' ans)))]
         else bundle_links ans inbs (as_list (dget ''bundle_inbound_results'' ans)))"

definition panel_link_metadata :: "pk \<times> filler_rule \<Rightarrow> pk \<Rightarrow> pk option \<Rightarrow> dict \<Rightarrow> dict" where
  "panel_link_metadata kr p i ans =
     [(''source'', JStr ''cup_fulfillment_recipe''), (''recipe_id'', JInt (int (fr_recipe (snd kr)))), (''rule_id'', JInt (int (fst kr))),
      (''panel_id'', JInt (int p)), (''inbound_pk'', jpk i), (''remote_email_saved'', JBool (truthy (dget ''email'' ans))),
      (''remote_sub_link_saved'', JBool (truthy (dget ''sub_link'' ans)))]"

definition panel_item_metadata :: "pk \<times> filler_rule \<Rightarrow> pk \<Rightarrow> pk option \<Rightarrow> dict" where
  "panel_item_metadata kr p i =
     [(''source'', JStr ''cup_fulfillment_recipe''), (''recipe_id'', JInt (int (fr_recipe (snd kr)))), (''rule_id'', JInt (int (fst kr))),
      (''panel_id'', JInt (int p)), (''inbound_pk'', jpk i)]"

fun list_entries_of_rule :: "link_reader \<Rightarrow> pk \<Rightarrow> pk \<times> filler_rule \<Rightarrow> pk \<Rightarrow> link_entry list \<Rightarrow> db \<Rightarrow> db" where
  "list_entries_of_rule lr c kr p [] d = d"
| "list_entries_of_rule lr c kr p ((i, ans, l) # es) d =
     list_entries_of_rule lr c kr p es
       (list_new_link lr c l PanelGenerated (Some p) i (panel_link_metadata kr p i ans) ''fulfillment_recipe_panel''
          (panel_item_metadata kr p i) d)"

text \<open>The remote clients that may exist from an earlier attempt; \<open>Inl\<close> is a raised error.\<close>

fun look_up_all :: "recipe_remote \<Rightarrow> nat \<Rightarrow> db \<Rightarrow> (string + dict option list) \<times> db" where
  "look_up_all rq 0 d = (Inr [], d)"
| "look_up_all rq (Suc n) d =
     (case ask (rq_lookup rq) d of
        (Inl e, d1) \<Rightarrow> (Inl e, d1)
      | (Inr x, d1) \<Rightarrow> (case look_up_all rq n d1 of (Inl e, d2) \<Rightarrow> (Inl e, d2) | (Inr xs, d2) \<Rightarrow> (Inr (x # xs), d2)))"

text \<open>The answer for one client of a rule: found again when all parts exist, created when none does.\<close>

definition remote_client :: "recipe_remote \<Rightarrow> bool \<Rightarrow> nat \<Rightarrow> db \<Rightarrow> (recipe_error + dict) \<times> db" where
  "remote_client rq look n d =
     (let (found, d1) = (if look then look_up_all rq n d else (Inr [], d))
      in case found of
           Inl e \<Rightarrow> (Inl (PanelRaised e), d1)
         | Inr xs \<Rightarrow>
             if xs \<noteq> [] \<and> None \<notin> set xs then
               (Inr (if n > 1 then dset ''bundle_inbound_results'' (JList (map (\<lambda>x. JObj (the x)) xs)) (the (hd xs)) else the (hd xs)), d1)
             else if list_ex (\<lambda>x. x \<noteq> None) xs then (Inl BundlePartlyCreated, d1)
             else (case ask (rq_create rq) d1 of
                     (Inl e, d2) \<Rightarrow> (Inl (PanelRaised e), d2)
                   | (Inr ans, d2) \<Rightarrow> (Inr ans, d2)))"

fun create_clients ::
  "link_reader \<Rightarrow> recipe_remote \<Rightarrow> bool \<Rightarrow> pk \<Rightarrow> pk \<times> filler_rule \<Rightarrow> pk \<Rightarrow> pk list \<Rightarrow> nat \<Rightarrow> rule_outcome \<Rightarrow> db \<Rightarrow> rule_outcome \<times> db" where
  "create_clients lr rq look c kr p inbs 0 o1 d = (o1\<lparr>ro_success := True\<rparr>, d)"
| "create_clients lr rq look c kr p inbs (Suc n) o1 d =
     (case remote_client rq look (length inbs) d of
        (Inl e, d1) \<Rightarrow> (rule_error e o1, d1)
      | (Inr ans, d1) \<Rightarrow>
          let es = direct_link_entries ans inbs
          in if list_ex (\<lambda>(_, _, l). l = []) es then (rule_error DirectLinksMissing o1, d1)
             else create_clients lr rq look c kr p inbs n
                    (o1\<lparr>ro_created := ro_created o1 + length es, ro_panel := ro_panel o1 + length es\<rparr>)
                    (list_entries_of_rule lr c kr p es d1))"

text \<open>\<open>Inl\<close>: there is no adapter for the panel, which ends the whole fulfilment.\<close>

definition create_panel_links_for_rule ::
  "link_reader \<Rightarrow> recipe_remote \<Rightarrow> order \<Rightarrow> pk \<Rightarrow> pk \<times> filler_rule \<Rightarrow> db \<Rightarrow> (string + rule_outcome) \<times> db" where
  "create_panel_links_for_rule lr rq ord c kr d =
     (let r = snd kr; kis = fulfilment_inbounds d r; o1 = new_outcome kr
      in case (the_row (db_panels d) (orelse (fr_panel r) (Option.bind (first_of kis) (\<lambda>(_, i). ib_panel i))), kis) of
           (None, _) \<Rightarrow> (Inr (rule_error PanelRuleIncomplete o1), d)
         | (Some _, []) \<Rightarrow> (Inr (rule_error PanelRuleIncomplete o1), d)
         | (Some (p, pn), _ # _) \<Rightarrow>
             if list_ex (\<lambda>(_, i). ib_panel i \<noteq> Some p) kis then (Inr (rule_error RuleInboundForeign o1), d)
             else if list_ex (\<lambda>(_, i). missing_reality_key d i) kis then (Inr (rule_error RealityKeyAbsent o1), d)
             else if \<not> rq_supported rq pn then (Inl ''panel_not_supported'', d)
             else
               (case ask (rq_report rq) d of
                  (report, d1) \<Rightarrow>
                    if (case report of None \<Rightarrow> False | Some (single, _) \<Rightarrow> \<not> single) then (Inr (rule_error CreateUnsupported o1), d1)
                    else if length kis > 1 \<and> (case report of None \<Rightarrow> False | Some (_, multi) \<Rightarrow> \<not> multi)
                    then (Inr (rule_error MultiCreateUnsupported o1), d1)
                    else
                      (case create_clients lr rq (o_provisioning_attempts ord > 1 \<and> pn_family pn \<noteq> FamPasarguard) c kr p (map fst kis)
                              (quantity_or_one (fr_quantity r)) o1 d1 of
                         (o2, d2) \<Rightarrow> (Inr o2, d2))))"

section \<open>Inventory rules\<close>

definition allocations_of_rule :: "pk \<Rightarrow> pk \<Rightarrow> pk \<Rightarrow> inventory \<Rightarrow> pk list" where
  "allocations_of_rule k c rk iv =
     map fst (ordered_where fst (\<lambda>_ a. al_order a = Some k \<and> al_cup a = Some c \<and>
       dget ''recipe_rule_id'' (al_metadata a) = JInt (int rk) \<and> al_status a = AlActive) (iv_allocations iv))"

definition mark_rule :: "pk \<Rightarrow> pk list \<Rightarrow> inventory \<Rightarrow> inventory" where
  "mark_rule rk aks iv = iv\<lparr>iv_allocations := modify_where (\<lambda>j _. j \<in> set aks)
     (\<lambda>a. a\<lparr>al_metadata := dset ''recipe_rule_id'' (JInt (int rk)) (al_metadata a)\<rparr>) (iv_allocations iv)\<rparr>"

definition allocation_mode_text :: "allocation_mode \<Rightarrow> string" where
  "allocation_mode_text m =
     (case m of Exclusive \<Rightarrow> ''exclusive'' | SharedLimited \<Rightarrow> ''shared_limited'' | SharedUnlimited \<Rightarrow> ''shared_unlimited'')"

text \<open>The asset of an allocation always exists (a foreign key).\<close>

definition list_allocation :: "link_reader \<Rightarrow> pk \<Rightarrow> pk \<times> filler_rule \<Rightarrow> pk \<Rightarrow> inventory \<Rightarrow> pk \<Rightarrow> db \<Rightarrow> db" where
  "list_allocation lr c kr pool_pk iv ak d =
     (case row (iv_allocations iv) ak of
        None \<Rightarrow> d
      | Some a \<Rightarrow>
          (case row (iv_assets iv) (al_asset a) of
             None \<Rightarrow> d
           | Some x \<Rightarrow>
               list_new_link lr c (as_raw_link x) ImportedSubscription None None
                 [(''source'', JStr ''config_inventory_pool''), (''pool_id'', JInt (int pool_pk)), (''asset_id'', JInt (int (al_asset a))),
                  (''allocation_id'', JInt (int ak)), (''allocation_mode'', JStr (allocation_mode_text (al_mode a)))]
                 ''fulfillment_recipe_inventory''
                 [(''source'', JStr ''config_inventory_pool''), (''recipe_id'', JInt (int (fr_recipe (snd kr)))),
                  (''rule_id'', JInt (int (fst kr))), (''pool_id'', JInt (int pool_pk)), (''asset_id'', JInt (int (al_asset a))),
                  (''allocation_id'', JInt (int ak))] d))"

definition create_inventory_links_for_rule ::
  "env \<Rightarrow> link_reader \<Rightarrow> pk \<Rightarrow> pk \<Rightarrow> pk \<times> filler_rule \<Rightarrow> stock \<Rightarrow> rule_outcome \<times> stock" where
  "create_inventory_links_for_rule en lr k c kr s =
     (let (iv, d) = s; r = snd kr; o1 = new_outcome kr
      in case the_row (iv_pools iv) (fr_inventory_pool r) of
           None \<Rightarrow> (rule_error PoolNotSet o1, s)
         | Some (pool_pk, _) \<Rightarrow>
             let held = allocations_of_rule k c (fst kr) iv; missing = quantity_or_one (fr_quantity r) - length held;
                 (added, iv1) = (if missing = 0 then (Inr [], iv)
                   else (case allocate_assets_from_pool en pool_pk (int missing) (Some c) (Some k)
                                 (case fr_allocation_mode r of None \<Rightarrow> PoolMode | Some m \<Rightarrow> UseMode m) iv of
                           (Inl e, iv1) \<Rightarrow> (Inl e, iv1)
                         | (Inr ar, iv1) \<Rightarrow> (Inr (ar_allocations ar), mark_rule (fst kr) (ar_allocations ar) iv1)))
             in case added of
                  Inl e \<Rightarrow> (rule_error (InventoryRefused e) o1, (iv1, d))
                | Inr js \<Rightarrow>
                    let aks = held @ js
                    in (o1\<lparr>ro_success := True, ro_created := length aks, ro_inventory := length aks\<rparr>,
                        (iv1, fold (list_allocation lr c kr pool_pk iv1) aks d)))"

section \<open>Running the rules\<close>

definition source_type_text :: "source_type \<Rightarrow> string" where
  "source_type_text s =
     (case s of PanelInbound \<Rightarrow> ''panel_inbounds'' | InventoryPool \<Rightarrow> ''inventory_pool'' | UnknownSource \<Rightarrow> ''unknown'')"

text \<open>What an order's metadata keeps of an outcome; its \<open>metadata\<close> (keys of the panel, the inbounds or the pool) is left out.\<close>

definition outcome_json :: "rule_outcome \<Rightarrow> json" where
  "outcome_json r =
     JObj [(''rule_id'', JInt (int (ro_rule r))), (''source_type'', JStr (source_type_text (ro_source_type r))),
       (''position'', JInt (int (ro_position r))), (''required'', JBool (ro_required r)), (''success'', JBool (ro_success r)),
       (''created_link_count'', JInt (int (ro_created r))), (''inventory_allocation_count'', JInt (int (ro_inventory r))),
       (''panel_generated_count'', JInt (int (ro_panel r))), (''errors'', JList (map (\<lambda>e. JStr (recipe_error_text e)) (ro_errors r)))]"

definition json_count :: "json \<Rightarrow> nat" where
  "json_count v = (case v of JInt n \<Rightarrow> nat n | _ \<Rightarrow> 0)"

text \<open>The outcome the order's metadata records of an earlier success of the rule.\<close>

definition completed_rule :: "order \<Rightarrow> pk \<Rightarrow> dict option" where
  "completed_rule ord rk =
     first_of (List.map_filter (\<lambda>v. case v of
         JObj r \<Rightarrow> if dget ''rule_id'' r = JInt (int rk) \<and> truthy (dget ''success'' r) then Some r else None
       | _ \<Rightarrow> None)
       (as_list (dget ''rule_results'' (as_dict (dget ''cup_fulfillment_recipe'' (o_metadata ord))))))"

definition rule_listed :: "pk \<Rightarrow> pk \<Rightarrow> db \<Rightarrow> bool" where
  "rule_listed c rk d = exists_where (\<lambda>_ i. ci_cup i = c \<and> ci_is_active i \<and> dget ''rule_id'' (ci_metadata i) = JInt (int rk)) (db_cup_items d)"

definition run_fresh_rule ::
  "env \<Rightarrow> link_reader \<Rightarrow> recipe_remote \<Rightarrow> pk \<times> order \<Rightarrow> pk \<Rightarrow> pk \<times> filler_rule \<Rightarrow> stock \<Rightarrow> (string + rule_outcome) \<times> stock" where
  "run_fresh_rule en lr rq ko c kr s =
     (case fr_source_type (snd kr) of
        PanelInbound \<Rightarrow>
          (case create_panel_links_for_rule lr rq (snd ko) c kr (snd s) of (r, d1) \<Rightarrow> (r, (fst s, d1)))
      | InventoryPool \<Rightarrow> (case create_inventory_links_for_rule en lr (fst ko) c kr s of (r, s1) \<Rightarrow> (Inr r, s1))
      | UnknownSource \<Rightarrow> (Inr (rule_error SourceUnsupported (new_outcome kr)), s))"

definition run_rule ::
  "env \<Rightarrow> link_reader \<Rightarrow> recipe_remote \<Rightarrow> pk \<times> order \<Rightarrow> pk \<Rightarrow> pk \<times> filler_rule \<Rightarrow> stock \<Rightarrow> (string + rule_outcome) \<times> stock" where
  "run_rule en lr rq ko c kr s =
     (case completed_rule (snd ko) (fst kr) of
        Some r \<Rightarrow>
          if rule_listed c (fst kr) (snd s)
          then (Inr ((new_outcome kr)\<lparr>ro_success := True, ro_created := json_count (dget ''created_link_count'' r),
                  ro_panel := json_count (dget ''panel_generated_count'' r),
                  ro_inventory := json_count (dget ''inventory_allocation_count'' r)\<rparr>), s)
          else run_fresh_rule en lr rq ko c kr s
      | None \<Rightarrow> run_fresh_rule en lr rq ko c kr s)"

text \<open>The rules in turn; under the strict policy the first failure of a required rule ends the loop.\<close>

fun run_rules ::
  "env \<Rightarrow> link_reader \<Rightarrow> recipe_remote \<Rightarrow> bool \<Rightarrow> pk \<times> order \<Rightarrow> pk \<Rightarrow> (pk \<times> filler_rule) list \<Rightarrow> stock \<Rightarrow>
   (string + rule_outcome list) \<times> stock" where
  "run_rules en lr rq strict ko c [] s = (Inr [], s)"
| "run_rules en lr rq strict ko c (kr # krs) s =
     (case run_rule en lr rq ko c kr s of
        (Inl e, s1) \<Rightarrow> (Inl e, s1)
      | (Inr o1, s1) \<Rightarrow>
          if strict \<and> ro_errors o1 \<noteq> [] \<and> fr_required (snd kr) then (Inr [o1], s1)
          else (case run_rules en lr rq strict ko c krs s1 of
                  (Inl e, s2) \<Rightarrow> (Inl e, s2)
                | (Inr os, s2) \<Rightarrow> (Inr (o1 # os), s2)))"

section \<open>Fulfilling an order\<close>

datatype recipe_status = RecipeSuccess | RecipePartial | RecipeFailed | RecipeNotConfigured

record fulfilment =
  fu_status :: recipe_status
  fu_cup :: "pk option"
  fu_recipe :: "pk option"
  fu_created :: nat
  fu_inventory :: nat
  fu_panel :: nat
  fu_outcomes :: "rule_outcome list"
  fu_errors :: "recipe_error list"
  fu_warnings :: "recipe_error list"

definition not_configured :: fulfilment where
  "not_configured = \<lparr>fu_status = RecipeNotConfigured, fu_cup = None, fu_recipe = None, fu_created = 0, fu_inventory = 0, fu_panel = 0,
     fu_outcomes = [], fu_errors = [], fu_warnings = []\<rparr>"

definition fulfilment_ok :: "fulfilment \<Rightarrow> bool" where
  "fulfilment_ok f \<longleftrightarrow> fu_status f \<in> {RecipeSuccess, RecipePartial}"

definition cup_expires_at_of :: "env \<Rightarrow> plan \<Rightarrow> instant option" where
  "cup_expires_at_of en p = (if pl_duration_days p = 0 then None else Some (e_now en + days (int (pl_duration_days p))))"

definition fill_cup :: "env \<Rightarrow> order \<Rightarrow> plan \<Rightarrow> pk \<times> recipe \<Rightarrow> cup \<Rightarrow> cup" where
  "fill_cup en ord p kr c =
     c\<lparr>cp_customer := o_customer ord, cp_plan := o_plan ord, cp_status := CupActive,
       cp_title := str_or (re_title (snd kr)) (pl_name p), cp_traffic_limit_bytes := traffic_limit_bytes p,
       cp_device_limit := Some (pl_device_limit p), cp_expires_at := orelse (cp_expires_at c) (cup_expires_at_of en p),
       cp_metadata := dset ''last_fulfilled_at'' (JInt (e_now en)) (dset ''recipe_title'' (JStr (re_title (snd kr)))
         (dset ''recipe_id'' (JInt (int (fst kr))) (dset ''source'' (JStr ''cup_fulfillment_recipe'') (cp_metadata c))))\<rparr>"

definition create_or_reuse_order_cup :: "env \<Rightarrow> pk \<Rightarrow> order \<Rightarrow> pk \<times> recipe \<Rightarrow> db \<Rightarrow> pk \<times> db" where
  "create_or_reuse_order_cup en k ord kr d =
     (let p = order_plan d ord
      in case cup_for_target (Some k) None d of
           Some (c, x) \<Rightarrow> (c, d\<lparr>db_cups := put c (fill_cup en ord p kr x) (db_cups d)\<rparr>)
         | None \<Rightarrow>
             let (token, d1) = draw (e_uuid en) d;
                 (c, cups) = add_row (fill_cup en ord p kr ((new_cup en token)\<lparr>cp_order := Some k\<rparr>)) (db_cups d1)
             in (c, d1\<lparr>db_cups := cups\<rparr>))"

definition required_failed :: "rule_outcome list \<Rightarrow> bool" where
  "required_failed os \<longleftrightarrow> list_ex (\<lambda>x. ro_required x \<and> ro_errors x \<noteq> []) os"

definition recipe_result :: "pk \<Rightarrow> pk \<times> recipe \<Rightarrow> bool \<Rightarrow> rule_outcome list \<Rightarrow> fulfilment" where
  "recipe_result c kr no_rules os =
     (let created = sum_list (map ro_created os)
      in \<lparr>fu_status =
            (if created \<noteq> 0 \<and> (\<not> required_failed os \<or> re_failure_policy (snd kr) = PartialAllowed)
             then if required_failed os then RecipePartial else RecipeSuccess else RecipeFailed),
          fu_cup = Some c, fu_recipe = Some (fst kr), fu_created = created, fu_inventory = sum_list (map ro_inventory os),
          fu_panel = sum_list (map ro_panel os), fu_outcomes = os,
          fu_errors = (if no_rules then [NoActiveRules] else []) @ concat (map (\<lambda>x. if ro_required x then ro_errors x else []) os),
          fu_warnings = concat (map (\<lambda>x. if ro_required x then [] else ro_errors x) os)\<rparr>)"

definition recipe_status_text :: "recipe_status \<Rightarrow> string" where
  "recipe_status_text s =
     (case s of RecipeSuccess \<Rightarrow> ''success'' | RecipePartial \<Rightarrow> ''partial'' | RecipeFailed \<Rightarrow> ''failed''
      | RecipeNotConfigured \<Rightarrow> ''not_configured'')"

definition metadata_for_order :: "fulfilment \<Rightarrow> json" where
  "metadata_for_order f =
     JObj [(''recipe_id'', jpk (fu_recipe f)), (''status'', JStr (recipe_status_text (fu_status f))),
       (''created_link_count'', JInt (int (fu_created f))), (''inventory_allocation_count'', JInt (int (fu_inventory f))),
       (''panel_generated_count'', JInt (int (fu_panel f))),
       (''errors'', JList (map (\<lambda>e. JStr (recipe_error_text e)) (fu_errors f))),
       (''warnings'', JList (map (\<lambda>e. JStr (recipe_error_text e)) (fu_warnings f))),
       (''rule_results'', JList (map outcome_json (fu_outcomes f)))]"

fun joined_errors :: "string list \<Rightarrow> string" where
  "joined_errors [] = []"
| "joined_errors [s] = s"
| "joined_errors (s # ss) = s @ ''; '' @ joined_errors ss"

definition record_result :: "env \<Rightarrow> pk option \<Rightarrow> fulfilment \<Rightarrow> order \<Rightarrow> order" where
  "record_result en actor f ord =
     (let ord1 =
        (if fulfilment_ok f
         then (mark_payment_verified en actor ord)\<lparr>o_provisioning_status := ProvProvisioned, o_last_provisioning_error := [],
                o_provisioned_at := Some (e_now en)\<rparr>
         else ord\<lparr>o_is_paid := True, o_verification_status := VerVerified,
                o_status := (if o_status ord = Completed then Completed else Confirmed), o_provisioning_status := ProvFailed,
                o_last_provisioning_error :=
                  str_or (joined_errors (map recipe_error_text (take 3 (fu_errors f)))) ''recipe_failed''\<rparr>)
      in ord1\<lparr>o_metadata := dset ''panel_provisioning_reason'' (JStr (if fulfilment_ok f then [] else ''cup_fulfillment_recipe_failed''))
           (dset ''panel_provisioning_deferred'' (JBool False)
             (dset ''cup_fulfillment_recipe'' (metadata_for_order f) (o_metadata ord)))\<rparr>)"

definition attach_allocations :: "pk \<Rightarrow> pk \<Rightarrow> inventory \<Rightarrow> inventory" where
  "attach_allocations k c iv = iv\<lparr>iv_allocations :=
     modify_where (\<lambda>_ a. al_cup a = Some c \<and> al_order a = None) (\<lambda>a. a\<lparr>al_order := Some k\<rparr>) (iv_allocations iv)\<rparr>"

text \<open>An exception (\<open>Inl\<close>) rolls the transaction back; the requests made remain.\<close>

definition fulfill_order_with_recipe ::
  "env \<Rightarrow> link_reader \<Rightarrow> recipe_remote \<Rightarrow> pk option \<Rightarrow> delivery_tables \<Rightarrow> pk \<Rightarrow> stock \<Rightarrow> (string + fulfilment) \<times> stock" where
  "fulfill_order_with_recipe en lr rq actor t k s =
     (case get_order (snd s) k of
        None \<Rightarrow> (Inl ''order_missing'', s)
      | Some ord0 \<Rightarrow>
          (case Option.bind (o_plan ord0) (\<lambda>p. get_active_recipe_for_plan p t) of
             None \<Rightarrow> (Inr not_configured, s)
           | Some kr \<Rightarrow>
               let ord = ord0\<lparr>o_provisioning_attempts := Suc (o_provisioning_attempts ord0)\<rparr>;
                   (c, d1) = create_or_reuse_order_cup en k ord kr (save_order en k ord (snd s));
                   rules = active_rules (fst kr) t
               in case run_rules en lr rq (re_failure_policy (snd kr) = Strict) (k, ord) c rules (fst s, d1) of
                    (Inl e, s1) \<Rightarrow> (Inl e, (fst s, rollback (snd s) (snd s1)))
                  | (Inr os, (iv1, d2)) \<Rightarrow>
                      let f = recipe_result c kr (rules = []) os
                      in (Inr f, (attach_allocations k c iv1, save_order en k (record_result en actor f ord) d2))))"

text \<open>The preview an administrator sees; of the stock only the capacity is kept.\<close>

datatype recipe_warning = RuleWithoutInbounds nat | StockInsufficient nat

definition preview_warnings :: "env \<Rightarrow> inventory \<Rightarrow> filler_rule \<Rightarrow> recipe_warning list" where
  "preview_warnings en iv r =
     (case fr_source_type r of
        PanelInbound \<Rightarrow> if fr_inbounds r = [] then [RuleWithoutInbounds (fr_position r)] else []
      | InventoryPool \<Rightarrow>
          (case the_row (iv_pools iv) (fr_inventory_pool r) of
             None \<Rightarrow> []
           | Some (pool_pk, p) \<Rightarrow>
               (case ss_available_capacity (get_pool_stock_summary en pool_pk p iv) of
                  None \<Rightarrow> []
                | Some n \<Rightarrow> if n = 0 \<or> n < quantity_or_one (fr_quantity r) then [StockInsufficient (fr_position r)] else []))
      | UnknownSource \<Rightarrow> [])"

definition preview_fulfillment_recipe :: "env \<Rightarrow> delivery_tables \<Rightarrow> inventory \<Rightarrow> pk \<Rightarrow> (pk \<times> filler_rule) list \<times> recipe_warning list" where
  "preview_fulfillment_recipe en t iv rk =
     (let rules = ordered_where (\<lambda>(k, r). (fr_position r, k)) (\<lambda>_ r. fr_recipe r = rk) (dt_rules t)
      in (rules, concat (map (\<lambda>(_, r). preview_warnings en iv r) rules)))"

end
