(* ===== verification/Recipe_Facts.thy ===== *)
theory Recipe_Facts
  imports Recipe_Fulfillment Feed_Facts Cup_Laws
begin

text \<open>What the rules of a recipe do to a cup: new links at its end, the other cups as they were.\<close>

section \<open>A link at the end of a cup\<close>

definition fills :: "pk \<Rightarrow> string list \<Rightarrow> db \<Rightarrow> db \<Rightarrow> bool" where
  "fills c ls d d' \<longleftrightarrow>
     items_ok d' \<and> raws (linked_items (shown c) d') = raws (linked_items (shown c) d) @ map strip ls \<and>
     (\<forall>x. x \<noteq> c \<longrightarrow> linked_items (shown x) d' = linked_items (shown x) d) \<and>
     db_orders d' = db_orders d \<and> db_cups d' = db_cups d \<and> db_plans d' = db_plans d \<and>
     (\<forall>r. rule_listed c r d \<longrightarrow> rule_listed c r d')"

lemma fills_trans: "fills c ls d d1 \<Longrightarrow> fills c ls' d1 d2 \<Longrightarrow> fills c (ls @ ls') d d2"
  by (simp add: fills_def)

lemma fills_nothing: "items_ok d \<Longrightarrow> fills c [] d d"
  by (simp add: fills_def)

lemma fills_ok: "fills c ls d d' \<Longrightarrow> items_ok d'"
  by (simp add: fills_def)

lemma ask_fills: "ask f d = (x, d') \<Longrightarrow> items_ok d \<Longrightarrow> fills c [] d d'"
proof -
  assume a: "ask f d = (x, d')" and ok: "items_ok d"
  then have d': "d' = d\<lparr>db_draws := Suc (db_draws d)\<rparr>" by (auto simp: ask_def)
  have same: "db_cup_items d' = db_cup_items d" "db_config_links d' = db_config_links d" by (simp_all add: d')
  have "linked_items P d' = linked_items P d" for P by (rule linked_items_same [OF same])
  moreover have "items_ok d'" using ok by (simp only: items_ok_same [OF same])
  ultimately show ?thesis by (simp add: fills_def rule_listed_def d')
qed

lemma positions_below:
  assumes "(k, i) \<in> set (db_cup_items d)" "ci_cup i = c"
  shows "ci_position i < next_position c d"
proof -
  have "(k, i) \<in> set (rows_where (\<lambda>_ i. ci_cup i = c) (db_cup_items d))" using assms by (simp add: rows_where_def)
  then have "ci_position i \<in> set (map (\<lambda>(_, i). ci_position i) (rows_where (\<lambda>_ i. ci_cup i = c) (db_cup_items d)))" by force
  moreover have "x \<in> set ns \<Longrightarrow> x \<le> foldr max ns 0" for x and ns :: "nat list" by (induction ns) auto
  ultimately show ?thesis by (simp add: next_position_def less_Suc_eq_le)
qed

lemma list_new_link_rows:
  assumes ok: "items_ok d"
  shows "list_new_link lr c raw src panel inb lm rs im d =
    d\<lparr>db_config_links := db_config_links d @ [(fresh_pk (db_config_links d),
        apply_config_link_parse lr raw src panel inb None None lm new_config_link)],
      db_cup_items := db_cup_items d @ [(fresh_pk (db_cup_items d), \<lparr>ci_cup = c, ci_config_link = fresh_pk (db_config_links d),
        ci_position = next_position c d, ci_is_active = True, ci_added_reason = rs, ci_metadata = im\<rparr>)]\<rparr>"
proof -
  have "\<not> exists_where (\<lambda>_ i. ci_cup i = c \<and> ci_config_link i = fresh_pk (db_config_links d)) (db_cup_items d)"
  proof
    assume "exists_where (\<lambda>_ i. ci_cup i = c \<and> ci_config_link i = fresh_pk (db_config_links d)) (db_cup_items d)"
    then obtain k i where "(k, i) \<in> set (db_cup_items d)" "ci_config_link i = fresh_pk (db_config_links d)"
      by (auto simp: exists_where_def list_ex_iff)
    then show False using items_okD(3) [OF ok, of k i] row_fresh [of "db_config_links d"] by (simp add: item_row [OF ok])
  qed
  then show ?thesis by (simp add: list_new_link_def add_row_def next_position_def)
qed

lemma list_new_link_fills:
  assumes ok: "items_ok d"
  shows "fills c [raw] d (list_new_link lr c raw src panel inb lm rs im d) \<and>
    (dget ''rule_id'' im = JInt (int r) \<longrightarrow> rule_listed c r (list_new_link lr c raw src panel inb lm rs im d))"
proof -
  define lk where "lk = fresh_pk (db_config_links d)"
  define ik where "ik = fresh_pk (db_cup_items d)"
  define l0 where "l0 = apply_config_link_parse lr raw src panel inb None None lm new_config_link"
  define i0 where "i0 = \<lparr>ci_cup = c, ci_config_link = lk, ci_position = next_position c d, ci_is_active = True,
    ci_added_reason = rs, ci_metadata = im\<rparr>"
  define d0 where "d0 = d\<lparr>db_config_links := db_config_links d @ [(lk, l0)], db_cup_items := db_cup_items d @ [(ik, i0)]\<rparr>"
  have i0: "ci_cup i0 = c" "ci_config_link i0 = lk" "ci_position i0 = next_position c d" "ci_is_active i0" "ci_metadata i0 = im"
    by (simp_all add: i0_def)
  have l0: "cl_is_active l0" "cl_raw_link l0 = strip raw" by (simp_all add: l0_def)
  have ok': "items_ok d0" unfolding d0_def by (rule place_new [OF ok]) (simp_all add: lk_def ik_def i0)
  have items: "row (db_cup_items d0) k = (if k = ik then Some i0 else row (db_cup_items d) k)" for k
    by (simp add: d0_def ik_def row_append_fresh)
  have links: "row (db_config_links d0) k = (if k = lk then Some l0 else row (db_config_links d) k)" for k
    by (simp add: d0_def lk_def row_append_fresh)
  have fresh: "row (db_cup_items d) ik = None" "row (db_config_links d) lk = None" by (simp_all add: ik_def lk_def)
  have old_link: "row (db_config_links d0) (ci_config_link i) = row (db_config_links d) (ci_config_link i)"
    if "row (db_cup_items d) k = Some i" for k i
    using items_okD(3) [OF ok that] fresh(2) by (auto simp: links)
  have old_row: "row (db_cup_items d0) k = Some i \<and> row (db_config_links d0) (ci_config_link i) = Some l \<longleftrightarrow>
      row (db_cup_items d) k = Some i \<and> row (db_config_links d) (ci_config_link i) = Some l" if "k \<noteq> ik" for k i l
    using old_link [of k i] that by (auto simp: items)
  have new_row: "row (db_cup_items d0) ik = Some i \<and> row (db_config_links d0) (ci_config_link i) = Some l \<longleftrightarrow> i = i0 \<and> l = l0" for i l
    using i0(2) by (auto simp: items links)
  have others: "linked_items (shown x) d0 = linked_items (shown x) d" if "x \<noteq> c" for x
  proof (rule linked_items_cong [OF items_okD(1) [OF ok'] items_okD(1) [OF ok]], unfold item_row [OF ok] item_row [OF ok'])
    fix k i l
    have "\<not> shown x i0 l" using that by (simp add: shown_def i0)
    then show "row (db_cup_items d0) k = Some i \<and> row (db_config_links d0) (ci_config_link i) = Some l \<and> shown x i l \<longleftrightarrow>
        row (db_cup_items d) k = Some i \<and> row (db_config_links d) (ci_config_link i) = Some l \<and> shown x i l"
      using old_row [of k i l] new_row [of i l] fresh(1) by (cases "k = ik") auto
  qed
  have mine: "linked_items (shown c) d0 = linked_items (shown c) d @ [(ik, i0, l0)]"
  proof (rule linked_items_unique [OF items_okD(1) [OF ok']])
    have "item_key x \<le> item_key (ik, i0, l0)" if x: "x \<in> set (linked_items (shown c) d)" for x
    proof -
      have "(fst x, fst (snd x)) \<in> set (db_cup_items d)" "shown c (fst (snd x)) (snd (snd x))"
        using x set_linked_items [of "fst x" "fst (snd x)" "snd (snd x)" "shown c" d] by simp_all
      then have "ci_position (fst (snd x)) < next_position c d"
        by (intro positions_below [of "fst x"]) (simp_all add: shown_def)
      then show ?thesis by (simp add: item_key_def less_eq_prod_def i0)
    qed
    then show "sorted (map item_key (linked_items (shown c) d @ [(ik, i0, l0)]))" by (auto simp: sorted_append)
    have "ik \<notin> fst ` set (linked_items (shown c) d)"
      using fresh(1) by (auto simp: set_linked_items item_row [OF ok])
    then show "distinct (map fst (linked_items (shown c) d @ [(ik, i0, l0)]))" using items_okD(1) [OF ok] by simp
    fix k i l
    have "(k, i, l) \<in> set (linked_items (shown c) d) \<longleftrightarrow> k \<noteq> ik \<and>
        row (db_cup_items d0) k = Some i \<and> row (db_config_links d0) (ci_config_link i) = Some l \<and> shown c i l"
      using old_row [of k i l] fresh(1) by (cases "k = ik") (auto simp: set_linked_items item_row [OF ok])
    moreover have "shown c i0 l0" by (simp add: shown_def i0 l0)
    ultimately show "(k, i, l) \<in> set (linked_items (shown c) d @ [(ik, i0, l0)]) \<longleftrightarrow>
        (k, i) \<in> set (db_cup_items d0) \<and> row (db_config_links d0) (ci_config_link i) = Some l \<and> shown c i l"
      using new_row [of i l] unfolding item_row [OF ok'] by (cases "k = ik") auto
  qed
  have whole: "list_new_link lr c raw src panel inb lm rs im d = d0"
    unfolding list_new_link_rows [OF ok] d0_def i0_def l0_def lk_def ik_def ..
  have listed: "rule_listed c q d0 \<longleftrightarrow> rule_listed c q d \<or> dget ''rule_id'' im = JInt (int q)" for q
    by (simp add: rule_listed_def exists_where_def d0_def i0)
  have "raws (linked_items (shown c) d0) = raws (linked_items (shown c) d) @ [strip raw]"
    unfolding mine by (simp add: raws_def l0)
  then have "fills c [raw] d d0" unfolding fills_def using ok' others listed by (simp add: d0_def)
  then show ?thesis unfolding whole using listed by simp
qed

section \<open>The links of a rule\<close>

lemma entries_fill:
  "items_ok d \<Longrightarrow> fills c (map (\<lambda>(_, _, l). l) es) d (list_entries_of_rule lr c kr p es d) \<and>
     (es \<noteq> [] \<longrightarrow> rule_listed c (fst kr) (list_entries_of_rule lr c kr p es d))"
proof (induction es arbitrary: d)
  case Nil
  then show ?case by (simp add: fills_nothing)
next
  case (Cons e es)
  obtain i ans l where e: "e = (i, ans, l)" by (rule prod_cases3)
  let ?d = "list_new_link lr c l PanelGenerated (Some p) i (panel_link_metadata kr p i ans) ''fulfillment_recipe_panel'' (panel_item_metadata kr p i) d"
  have "dget ''rule_id'' (panel_item_metadata kr p i) = JInt (int (fst kr))" by (simp add: panel_item_metadata_def dget_def)
  then have new: "fills c [l] d ?d" "rule_listed c (fst kr) ?d"
    using list_new_link_fills [OF Cons.prems, of c l lr PanelGenerated "Some p" i "panel_link_metadata kr p i ans"
        "''fulfillment_recipe_panel''" "panel_item_metadata kr p i" "fst kr"] by simp_all
  note rest = Cons.IH [OF fills_ok [OF new(1)]]
  from fills_trans [OF new(1) conjunct1 [OF rest]] rest new(2) show ?case by (auto simp: e fills_def)
qed

lemma entries_nonempty: "inbs \<noteq> [] \<Longrightarrow> direct_link_entries ans inbs \<noteq> []"
proof -
  have "raw_entries ans f is ls \<noteq> []" if "ls \<noteq> []" for f "is" ls using that by (cases ls; cases "is") auto
  moreover have "bundle_links ans inbs rs \<noteq> []" if "inbs \<noteq> []" for rs using that by (cases inbs) (auto simp: Let_def)
  moreover assume "inbs \<noteq> []"
  ultimately show ?thesis by (simp add: direct_link_entries_def Let_def)
qed

lemma look_up_fills: "look_up_all rq n d = (r, d') \<Longrightarrow> items_ok d \<Longrightarrow> fills c [] d d'"
proof (induction n arbitrary: d r d')
  case (Suc n)
  obtain x d1 where a: "ask (rq_lookup rq) d = (x, d1)" by (rule prod.exhaust)
  note f1 = ask_fills [OF a Suc.prems(2), of c]
  show ?case
  proof (cases x)
    case (Inl e)
    then show ?thesis using Suc.prems(1) a f1 by simp
  next
    case (Inr y)
    obtain z d2 where b: "look_up_all rq n d1 = (z, d2)" by (rule prod.exhaust)
    have "d' = d2" using Suc.prems(1) a Inr b by (auto split: sum.splits)
    then show ?thesis using fills_trans [OF f1 Suc.IH [OF b fills_ok [OF f1]]] by simp
  qed
qed (simp add: fills_nothing)

lemma remote_client_fills:
  assumes "remote_client rq look n d = (r, d')" "items_ok d"
  shows "fills c [] d d'"
proof -
  obtain x d1 where l: "(if look then look_up_all rq n d else (Inr [], d)) = (x, d1)" by (rule prod.exhaust)
  have f1: "fills c [] d d1" using l assms(2) by (auto simp: fills_nothing look_up_fills split: if_splits)
  obtain y d2 where a: "ask (rq_create rq) d1 = (y, d2)" by (rule prod.exhaust)
  have f2: "fills c [] d d2" using fills_trans [OF f1 ask_fills [OF a fills_ok [OF f1]]] by simp
  have "d' = d1 \<or> d' = d2" using assms(1) l a by (auto simp: remote_client_def split: sum.splits if_splits)
  then show ?thesis using f1 f2 by blast
qed

lemma create_clients_fill:
  "create_clients lr rq look c kr p inbs n o1 d = (o2, d') \<Longrightarrow> items_ok d \<Longrightarrow>
   \<exists>ls. fills c ls d d' \<and> ro_created o2 = ro_created o1 + length ls \<and> ro_rule o2 = ro_rule o1 \<and> ro_required o2 = ro_required o1 \<and>
     (ro_errors o2 = ro_errors o1 \<longleftrightarrow> ro_success o2) \<and> (ls \<noteq> [] \<longrightarrow> rule_listed c (fst kr) d') \<and>
     (ro_success o2 \<and> inbs \<noteq> [] \<and> 0 < n \<longrightarrow> ls \<noteq> [])"
  if "\<not> ro_success o1"
  using that
proof (induction n arbitrary: o1 d)
  case 0
  then show ?case by (intro exI [of _ "[]"]) (auto simp: fills_nothing)
next
  case (Suc n)
  obtain x d1 where r: "remote_client rq look (length inbs) d = (x, d1)" by (rule prod.exhaust)
  note f1 = remote_client_fills [OF r Suc.prems(2), of c]
  show ?case
  proof (cases x)
    case (Inl e)
    then show ?thesis using Suc.prems r f1 by (intro exI [of _ "[]"]) (auto simp: rule_error_def)
  next
    case (Inr ans)
    let ?es = "direct_link_entries ans inbs"
    show ?thesis
    proof (cases "list_ex (\<lambda>(_, _, l). l = []) ?es")
      case True
      then show ?thesis using Suc.prems r f1 Inr by (intro exI [of _ "[]"]) (auto simp: rule_error_def)
    next
      case False
      let ?d2 = "list_entries_of_rule lr c kr p ?es d1"
      let ?o = "o1\<lparr>ro_created := ro_created o1 + length ?es, ro_panel := ro_panel o1 + length ?es\<rparr>"
      note e = entries_fill [OF fills_ok [OF f1], of c ?es lr kr p]
      have f2: "fills c (map (\<lambda>(_, _, l). l) ?es) d ?d2" using fills_trans [OF f1 conjunct1 [OF e]] by simp
      have "create_clients lr rq look c kr p inbs n ?o ?d2 = (o2, d')" using Suc.prems(1) r Inr False by (simp add: Let_def)
      from Suc.IH [OF this fills_ok [OF f2]] Suc.prems(3) obtain ls where ls: "fills c ls ?d2 d'" "ro_created o2 = ro_created ?o + length ls"
        "ro_rule o2 = ro_rule ?o" "ro_required o2 = ro_required ?o" "ro_errors o2 = ro_errors ?o \<longleftrightarrow> ro_success o2"
        "ls \<noteq> [] \<longrightarrow> rule_listed c (fst kr) d'" by auto
      have "rule_listed c (fst kr) d'" if "?es \<noteq> []" using that e ls(1) by (simp add: fills_def)
      then show ?thesis
        using fills_trans [OF f2 ls(1)] ls entries_nonempty [of inbs ans]
        by (intro exI [of _ "map (\<lambda>(_, _, l). l) ?es @ ls"]) auto
    qed
  qed
qed

section \<open>The inventory\<close>

definition stock_ok :: "inventory \<Rightarrow> bool" where
  "stock_ok iv \<longleftrightarrow> wf_table (iv_assets iv) \<and> wf_table (iv_allocations iv) \<and>
     (\<forall>k a. row (iv_allocations iv) k = Some a \<longrightarrow> row (iv_assets iv) (al_asset a) \<noteq> None)"

lemma add_allocations_stored:
  "add_allocations f xs t = (js, t') \<Longrightarrow> wf_table t \<Longrightarrow>
   wf_table t' \<and> (\<forall>j a. row t j = Some a \<longrightarrow> row t' j = Some a) \<and> (\<forall>j \<in> set js. row t' j \<noteq> None) \<and>
   (\<forall>j a. row t' j = Some a \<longrightarrow> row t j = Some a \<or> a \<in> f ` set xs)"
proof (induction xs arbitrary: t js t')
  case (Cons x xs)
  define u where "u = t @ [(fresh_pk t, f x)]"
  obtain ks t2 where r: "add_allocations f xs u = (ks, t2)" by (rule prod.exhaust)
  have rows: "row u j = (if j = fresh_pk t then Some (f x) else row t j)" for j by (simp add: u_def row_append_fresh)
  have "wf_table u" using Cons.prems(2) by (simp add: u_def)
  note ih = Cons.IH [OF r this]
  have keep: "row u j = Some a" if "row t j = Some a" for j a
    using that row_fresh [of t] by (auto simp: rows)
  have "row u (fresh_pk t) = Some (f x)" by (simp add: rows)
  then have "row t2 (fresh_pk t) \<noteq> None" using ih by auto
  moreover have "row t j = Some a \<or> a = f x" if "row u j = Some a" for j a using that by (simp add: rows split: if_splits)
  moreover have "js = fresh_pk t # ks" "t' = t2" using Cons.prems(1) r by (auto simp: Let_def add_row_def u_def)
  ultimately show ?case using ih keep unfolding \<open>js = fresh_pk t # ks\<close> \<open>t' = t2\<close> by fastforce
qed simp

lemma allocate_stock:
  assumes "stock_ok iv" "allocate_assets_from_pool en pk q cup ord req iv = (Inr ar, iv')"
  shows "stock_ok iv' \<and> length (ar_allocations ar) = nat q \<and> (\<forall>j \<in> set (ar_allocations ar). row (iv_allocations iv') j \<noteq> None) \<and>
    (\<forall>j a. row (iv_allocations iv) j = Some a \<longrightarrow> row (iv_allocations iv') j = Some a)"
proof -
  obtain p mode assets where sel: "select_assets en mode pk p (nat q) iv = Inr assets"
    and rec: "record_allocations en ''inventory_pool'' pk cup ord mode assets iv = (ar, iv')"
    using assms(2) by (rule allocate_cases)
  have wf: "wf_table (iv_assets iv)" "wf_table (iv_allocations iv)" using assms(1) by (simp_all add: stock_ok_def)
  obtain js t where add: "add_allocations (new_allocation en ''inventory_pool'' pk cup ord mode) assets (iv_allocations iv) = (js, t)"
    by (rule prod.exhaust)
  have iv': "ar_allocations ar = js" "iv_allocations iv' = t" "iv_assets iv' = fold assign_asset (selected_asset_counts assets) (iv_assets iv)"
    using rec add by (auto simp: record_allocations_def)
  note st = add_allocations_stored [OF add wf(2)] and rows = selected_rows [OF wf(1) sel]
  have assets: "row (iv_assets iv') j \<noteq> None" if "row (iv_assets iv) j \<noteq> None" for j
    using that by (auto simp: iv'(3) row_assigned)
  have "wf_table (fold assign_asset cs u) = wf_table u" for cs u
    by (induction cs arbitrary: u) (auto simp: assign_asset_def split: prod.splits)
  moreover have "row (iv_assets iv') (al_asset a) \<noteq> None" if "row t k = Some a" for k a
  proof -
    from st that consider "row (iv_allocations iv) k = Some a"
      | x where "x \<in> set assets" "a = new_allocation en ''inventory_pool'' pk cup ord mode x" by blast
    then show ?thesis
    proof cases
      case 1
      then show ?thesis using assms(1) assets by (simp add: stock_ok_def)
    next
      case 2
      then have "row (iv_assets iv) (fst x) = Some (snd x)" using rows(2) [of "fst x" "snd x"] by simp
      then show ?thesis using 2(2) assets [of "fst x"] by (cases x) (simp add: new_allocation_def)
    qed
  qed
  ultimately have "stock_ok iv'" using wf(1) st by (simp add: stock_ok_def iv')
  then show ?thesis using st add_allocations_rows [OF add] rows(1) by (simp add: iv')
qed

lemma mark_rule_stock:
  "stock_ok iv \<Longrightarrow> stock_ok (mark_rule rk js iv)"
  "row (iv_allocations (mark_rule rk js iv)) j = None \<longleftrightarrow> row (iv_allocations iv) j = None"
  by (auto simp: stock_ok_def mark_rule_def row_modify_where split: if_splits)

lemma list_allocation_fills:
  assumes "stock_ok iv" "row (iv_allocations iv) ak \<noteq> None" "items_ok d"
  shows "\<exists>l. fills c [l] d (list_allocation lr c kr p iv ak d) \<and> rule_listed c (fst kr) (list_allocation lr c kr p iv ak d)"
proof -
  obtain a where a: "row (iv_allocations iv) ak = Some a" using assms(2) by blast
  then obtain x where x: "row (iv_assets iv) (al_asset a) = Some x" using assms(1) by (auto simp: stock_ok_def)
  let ?im = "[(''source'', JStr ''config_inventory_pool''), (''recipe_id'', JInt (int (fr_recipe (snd kr)))),
                  (''rule_id'', JInt (int (fst kr))), (''pool_id'', JInt (int p)), (''asset_id'', JInt (int (al_asset a))),
                  (''allocation_id'', JInt (int ak))]"
  have "dget ''rule_id'' ?im = JInt (int (fst kr))" by (simp add: dget_def)
  then show ?thesis
    using list_new_link_fills [OF assms(3), where im = ?im and r = "fst kr"] by (auto simp: list_allocation_def a x intro!: exI [of _ "as_raw_link x"])
qed

lemma list_allocations_fill:
  assumes "stock_ok iv"
  shows "\<forall>ak \<in> set aks. row (iv_allocations iv) ak \<noteq> None \<Longrightarrow> items_ok d \<Longrightarrow>
    \<exists>ls. length ls = length aks \<and> fills c ls d (fold (list_allocation lr c kr p iv) aks d) \<and>
      (aks \<noteq> [] \<longrightarrow> rule_listed c (fst kr) (fold (list_allocation lr c kr p iv) aks d))"
proof (induction aks arbitrary: d)
  case (Cons ak aks)
  obtain l where l: "fills c [l] d (list_allocation lr c kr p iv ak d)" "rule_listed c (fst kr) (list_allocation lr c kr p iv ak d)"
    using list_allocation_fills [OF assms, of ak d c lr kr p] Cons.prems by auto
  obtain ls where ls: "length ls = length aks"
    "fills c ls (list_allocation lr c kr p iv ak d) (fold (list_allocation lr c kr p iv) aks (list_allocation lr c kr p iv ak d))"
    using Cons.IH [OF _ fills_ok [OF l(1)]] Cons.prems(1) by auto
  have "rule_listed c (fst kr) (fold (list_allocation lr c kr p iv) aks (list_allocation lr c kr p iv ak d))"
    using ls(2) l(2) by (simp add: fills_def)
  with fills_trans [OF l(1) ls(2)] ls(1) show ?case by (intro exI [of _ "l # ls"]) simp
qed (auto intro: fills_nothing)

section \<open>Rules\<close>

text \<open>The effect of a rule that was not completed before.\<close>

definition rule_effect :: "pk \<Rightarrow> pk \<times> filler_rule \<Rightarrow> rule_outcome \<Rightarrow> string list \<Rightarrow> db \<Rightarrow> db \<Rightarrow> bool" where
  "rule_effect c kr o1 ls d d' \<longleftrightarrow>
     fills c ls d d' \<and> ro_created o1 = length ls \<and> ro_rule o1 = fst kr \<and> ro_required o1 = fr_required (snd kr) \<and>
     (ro_errors o1 = [] \<longleftrightarrow> ro_success o1) \<and> (ls \<noteq> [] \<longrightarrow> rule_listed c (fst kr) d') \<and> (ro_success o1 \<longrightarrow> ls \<noteq> [])"

lemma no_effect: "items_ok d \<Longrightarrow> rule_effect c kr (rule_error e (new_outcome kr)) [] d d"
  by (simp add: rule_effect_def fills_nothing rule_error_def new_outcome_def)

lemma quantity_positive [simp]: "0 < quantity_or_one n"
  by (simp add: quantity_or_one_def)

lemma inventory_rule_effect:
  assumes "create_inventory_links_for_rule en lr k c kr (iv, d) = (o2, (iv', d'))" "stock_ok iv" "items_ok d"
  shows "stock_ok iv' \<and> (\<exists>ls. rule_effect c kr o2 ls d d')"
proof (cases "the_row (iv_pools iv) (fr_inventory_pool (snd kr))")
  case None
  then show ?thesis using assms no_effect [of d c kr] by (auto simp: create_inventory_links_for_rule_def)
next
  case (Some kp)
  obtain pool_pk pool where kp: "kp = (pool_pk, pool)" by (rule prod.exhaust)
  let ?held = "allocations_of_rule k c (fst kr) iv"
  let ?missing = "quantity_or_one (fr_quantity (snd kr)) - length ?held"
  have held: "row (iv_allocations iv) ak \<noteq> None" if "ak \<in> set ?held" for ak
    using that assms(2) in_row_Some by (fastforce simp: allocations_of_rule_def set_ordered_where stock_ok_def)
  obtain x iv1 where alloc: "allocate_assets_from_pool en pool_pk (int ?missing) (Some c) (Some k)
      (case fr_allocation_mode (snd kr) of None \<Rightarrow> PoolMode | Some m \<Rightarrow> UseMode m) iv = (x, iv1)" by (rule prod.exhaust)
  have listed: ?thesis if js: "o2 = (new_outcome kr)\<lparr>ro_success := True, ro_created := length (?held @ js), ro_inventory := length (?held @ js)\<rparr>"
    "iv' = iv2" "d' = fold (list_allocation lr c kr pool_pk iv2) (?held @ js) d" "stock_ok iv2" "?held @ js \<noteq> []"
    "\<forall>ak \<in> set (?held @ js). row (iv_allocations iv2) ak \<noteq> None" for js iv2
  proof -
    obtain ls where "length ls = length (?held @ js)" "fills c ls d d'" "rule_listed c (fst kr) d'"
      using list_allocations_fill [OF js(4,6) assms(3), of c lr kr pool_pk] js(3,5) by blast
    then have "rule_effect c kr o2 ls d d'" using js(1,5) by (auto simp: rule_effect_def new_outcome_def)
    then show ?thesis using js(2,4) by blast
  qed
  show ?thesis
  proof (cases "?missing = 0")
    case True
    then have "?held \<noteq> []" using quantity_positive [of "fr_quantity (snd kr)"] by (intro notI) simp
    then show ?thesis
      using assms(1,2) Some kp True held
      by (intro listed [of "[]" iv]) (auto simp: create_inventory_links_for_rule_def Let_def)
  next
    case False
    show ?thesis
    proof (cases x)
      case (Inl e)
      then have "iv1 = iv" using alloc by (auto simp: allocate_assets_from_pool_def split: option.splits if_splits sum.splits prod.splits)
      then show ?thesis
        using assms Some kp False alloc Inl no_effect [of d c kr] by (auto simp: create_inventory_links_for_rule_def Let_def)
    next
      case (Inr ar)
      note st = allocate_stock [OF assms(2) alloc [unfolded Inr]]
      have "ar_allocations ar \<noteq> []" using st False by auto
      moreover have "\<forall>ak \<in> set (?held @ ar_allocations ar). row (iv_allocations (mark_rule (fst kr) (ar_allocations ar) iv1)) ak \<noteq> None"
        unfolding mark_rule_stock(2) using st held by fastforce
      ultimately show ?thesis
        using assms(1) Some kp False alloc Inr mark_rule_stock(1) [of iv1] st
        by (intro listed [of "ar_allocations ar" "mark_rule (fst kr) (ar_allocations ar) iv1"])
          (auto simp: create_inventory_links_for_rule_def Let_def)
    qed
  qed
qed

lemma panel_rule_effect:
  assumes "create_panel_links_for_rule lr rq ord c kr d = (Inr o2, d')" "items_ok d"
  shows "\<exists>ls. rule_effect c kr o2 ls d d'"
proof -
  let ?kis = "fulfilment_inbounds d (snd kr)"
  have none: "\<exists>ls. rule_effect c kr o2 ls d d'" if "o2 = rule_error e (new_outcome kr)" "fills c [] d d'" for e
    using that no_effect [of d c kr e] assms(2) by (intro exI [of _ "[]"]) (simp add: rule_effect_def)
  show ?thesis
  proof (cases "the_row (db_panels d) (orelse (fr_panel (snd kr)) (Option.bind (first_of ?kis) (\<lambda>(_, i). ib_panel i)))")
    case None
    then show ?thesis using assms none [of PanelRuleIncomplete] fills_nothing [of d c] by (simp add: create_panel_links_for_rule_def Let_def)
  next
    case (Some pp)
    obtain p pn where pp: "pp = (p, pn)" by (rule prod.exhaust)
    show ?thesis
    proof (cases ?kis)
      case Nil
      then show ?thesis using assms Some none [of PanelRuleIncomplete] fills_nothing [of d c] by (auto simp: create_panel_links_for_rule_def Let_def)
    next
      case (Cons x xs)
      obtain report d1 where a: "ask (rq_report rq) d = (report, d1)" by (rule prod.exhaust)
      note f1 = ask_fills [OF a assms(2), of c]
      let ?look = "o_provisioning_attempts ord > 1 \<and> pn_family pn \<noteq> FamPasarguard"
      obtain o3 d3 where cc: "create_clients lr rq ?look c kr p (map fst ?kis) (quantity_or_one (fr_quantity (snd kr))) (new_outcome kr) d1 = (o3, d3)"
        by (rule prod.exhaust)
      have "\<not> ro_success (new_outcome kr)" by (simp add: new_outcome_def)
      from create_clients_fill [OF this cc fills_ok [OF f1]] obtain ls where ls: "fills c ls d1 d3"
        "ro_created o3 = length ls" "ro_rule o3 = fst kr" "ro_required o3 = fr_required (snd kr)" "ro_errors o3 = [] \<longleftrightarrow> ro_success o3"
        "ls \<noteq> [] \<longrightarrow> rule_listed c (fst kr) d3" "ro_success o3 \<longrightarrow> ls \<noteq> []"
        using Cons by (auto simp: new_outcome_def)
      have made: "rule_effect c kr o3 ls d d3" using fills_trans [OF f1 ls(1)] ls(2-7) by (simp add: rule_effect_def)
      have "(\<exists>e. o2 = rule_error e (new_outcome kr) \<and> (d' = d \<or> d' = d1)) \<or> (o2 = o3 \<and> d' = d3)"
        using assms(1) Some pp Cons a cc [unfolded Cons]
        by (auto simp: create_panel_links_for_rule_def Let_def split: if_splits)
      then show ?thesis using none f1 fills_nothing [OF assms(2)] made by blast
    qed
  qed
qed

lemma fresh_rule_effect:
  assumes "run_fresh_rule en lr rq ko c kr (iv, d) = (Inr o2, (iv', d'))" "stock_ok iv" "items_ok d"
  shows "stock_ok iv' \<and> (\<exists>ls. rule_effect c kr o2 ls d d')"
proof (cases "fr_source_type (snd kr)")
  case PanelInbound
  then show ?thesis
    using assms panel_rule_effect [of lr rq "snd ko" c kr d o2 d'] by (auto simp: run_fresh_rule_def split: prod.splits)
next
  case InventoryPool
  then show ?thesis
    using assms inventory_rule_effect [of en lr "fst ko" c kr iv d o2 iv' d'] by (auto simp: run_fresh_rule_def split: prod.splits)
next
  case UnknownSource
  then show ?thesis using assms no_effect [of d c kr] by (auto simp: run_fresh_rule_def)
qed

definition outcome_ok :: "pk \<Rightarrow> db \<Rightarrow> rule_outcome \<Rightarrow> bool" where
  "outcome_ok c d x \<longleftrightarrow> (ro_errors x = [] \<longleftrightarrow> ro_success x) \<and> (ro_success x \<longrightarrow> rule_listed c (ro_rule x) d \<and> 0 < ro_created x)"

lemma outcome_ok_mono: "outcome_ok c d x \<Longrightarrow> fills c ls d d' \<Longrightarrow> outcome_ok c d' x"
  by (auto simp: outcome_ok_def fills_def)

lemma run_rules_effect:
  "run_rules en lr rq strict ko c krs (iv, d) = (Inr os, (iv', d')) \<Longrightarrow> \<forall>kr \<in> set krs. completed_rule (snd ko) (fst kr) = None \<Longrightarrow>
   stock_ok iv \<Longrightarrow> items_ok d \<Longrightarrow>
   stock_ok iv' \<and> (\<exists>ls. fills c ls d d' \<and> sum_list (map ro_created os) = length ls) \<and> (\<forall>x \<in> set os. outcome_ok c d' x) \<and>
   (\<not> (strict \<and> required_failed os) \<longrightarrow> map ro_rule os = map fst krs)"
proof (induction krs arbitrary: iv d os)
  case Nil
  then show ?case by (auto simp: fills_nothing)
next
  case (Cons kr krs)
  obtain x s1 where r: "run_rule en lr rq ko c kr (iv, d) = (x, s1)" by (rule prod.exhaust)
  obtain iv1 d1 where s1: "s1 = (iv1, d1)" by (rule prod.exhaust)
  obtain o1 where x: "x = Inr o1" using Cons.prems(1) r by (cases x) auto
  have "run_fresh_rule en lr rq ko c kr (iv, d) = (Inr o1, (iv1, d1))" using r x s1 Cons.prems(2) by (simp add: run_rule_def)
  from fresh_rule_effect [OF this Cons.prems(3,4)] obtain ls where st: "stock_ok iv1" and e: "rule_effect c kr o1 ls d d1" by blast
  have f1: "fills c ls d d1" and ok1: "outcome_ok c d1 o1" using e by (auto simp: rule_effect_def outcome_ok_def)
  show ?case
  proof (cases "strict \<and> ro_errors o1 \<noteq> [] \<and> fr_required (snd kr)")
    case True
    then have "os = [o1]" "iv' = iv1" "d' = d1" using Cons.prems(1) r x s1 by auto
    then show ?thesis using True st f1 ok1 e by (auto simp: rule_effect_def required_failed_def)
  next
    case False
    obtain y s2 where rest: "run_rules en lr rq strict ko c krs (iv1, d1) = (y, s2)" by (rule prod.exhaust)
    obtain os2 where os: "y = Inr os2" "os = o1 # os2" "s2 = (iv', d')"
      using Cons.prems(1) r x s1 False rest by (auto split: sum.splits)
    from Cons.IH [OF rest [unfolded os(1,3)] _ st fills_ok [OF f1]] Cons.prems(2) obtain ls2 where ih: "stock_ok iv'" "fills c ls2 d1 d'"
      "sum_list (map ro_created os2) = length ls2" "\<forall>x \<in> set os2. outcome_ok c d' x"
      "\<not> (strict \<and> required_failed os2) \<longrightarrow> map ro_rule os2 = map fst krs" by auto
    have "\<exists>ls. fills c ls d d' \<and> sum_list (map ro_created os) = length ls"
      using fills_trans [OF f1 ih(2)] ih(3) e by (intro exI [of _ "ls @ ls2"]) (simp add: os(2) rule_effect_def)
    moreover have "\<forall>x \<in> set os. outcome_ok c d' x" using ih(4) outcome_ok_mono [OF ok1 ih(2)] by (simp add: os(2))
    moreover have "ro_rule o1 = fst kr" using e by (simp add: rule_effect_def)
    ultimately show ?thesis using ih(1,5) by (auto simp: os(2) required_failed_def)
  qed
qed

end
