(* ===== verification/Recipe_Laws.thy ===== *)
theory Recipe_Laws
  imports Recipe_Facts Inventory_Laws Order_Creation_Facts
begin

text \<open>Delivery by a recipe: what the cup gets, what the order records, and what a second run does.\<close>

section \<open>A fulfilment, step by step\<close>

lemma fulfil_steps:
  assumes "fulfill_order_with_recipe en lr rq actor t k s = (Inr f, s')" "fu_cup f = Some c0"
  obtains ord0 kr ord c d1 os iv1 d2 where "get_order (snd s) k = Some ord0"
    "Option.bind (o_plan ord0) (\<lambda>p. get_active_recipe_for_plan p t) = Some kr"
    "ord = ord0\<lparr>o_provisioning_attempts := Suc (o_provisioning_attempts ord0)\<rparr>"
    "create_or_reuse_order_cup en k ord kr (save_order en k ord (snd s)) = (c, d1)"
    "run_rules en lr rq (re_failure_policy (snd kr) = Strict) (k, ord) c (active_rules (fst kr) t) (fst s, d1) = (Inr os, (iv1, d2))"
    "f = recipe_result c kr (active_rules (fst kr) t = []) os"
    "s' = (attach_allocations k c iv1, save_order en k (record_result en actor f ord) d2)"
  using assms
  by (auto simp: fulfill_order_with_recipe_def not_configured_def Let_def split: option.splits prod.splits sum.splits)

lemma fulfil_raised:
  assumes "fulfill_order_with_recipe en lr rq actor t k s = (Inl e, s')"
  shows "fst s' = fst s \<and> same_data (snd s) (snd s')"
  using assms
  by (auto simp: fulfill_order_with_recipe_def Let_def split: option.splits prod.splits sum.splits)

lemma reuse_cup_facts:
  assumes "create_or_reuse_order_cup en k ord kr d = (c, d1)"
  shows "db_cup_items d1 = db_cup_items d" "db_config_links d1 = db_config_links d" "db_orders d1 = db_orders d"
    "wf_table (db_cups d) \<Longrightarrow> wf_table (db_cups d1)"
    "wf_table (db_cups d) \<Longrightarrow> \<exists>x. cup_for_target (Some k) None d1 = Some (c, x)"
proof -
  show "db_cup_items d1 = db_cup_items d" "db_config_links d1 = db_config_links d" "db_orders d1 = db_orders d"
    "wf_table (db_cups d) \<Longrightarrow> wf_table (db_cups d1)"
    using assms by (auto simp: create_or_reuse_order_cup_def draw_def add_row_def Let_def split: option.splits)
  assume wf: "wf_table (db_cups d)"
  show "\<exists>x. cup_for_target (Some k) None d1 = Some (c, x)"
  proof (cases "cup_for_target (Some k) None d")
    case (Some cx)
    obtain x where cx: "cx = (c, x)" "d1 = d\<lparr>db_cups := put c (fill_cup en ord (order_plan d ord) kr x) (db_cups d)\<rparr>"
      using assms Some by (cases cx) (auto simp: create_or_reuse_order_cup_def Let_def)
    have "cp_order x = Some k" "cp_vpn_client x = None"
      using first_of_Some [OF Some [unfolded cx(1) cup_for_target_def]] by (simp_all add: set_ordered_where)
    then show ?thesis
      using ordered_where_put [OF wf Some [unfolded cx(1) cup_for_target_def], of "fill_cup en ord (order_plan d ord) kr x"]
      by (auto simp: cup_for_target_def cx(2) fill_cup_def)
  next
    case None
    obtain x where "c = fresh_pk (db_cups d)" "d1 = d\<lparr>db_draws := Suc (db_draws d), db_cups := db_cups d @ [(fresh_pk (db_cups d), x)]\<rparr>"
      "cp_order x = Some k" "cp_vpn_client x = None"
      using assms None by (auto simp: create_or_reuse_order_cup_def Let_def draw_def add_row_def fill_cup_def new_cup_def)
    then show ?thesis
      using ordered_where_add [OF None [unfolded cup_for_target_def]] by (auto simp: cup_for_target_def)
  qed
qed

definition first_run :: "order \<Rightarrow> bool" where
  "first_run ord \<longleftrightarrow> dget ''cup_fulfillment_recipe'' (o_metadata ord) = JNull"

lemma first_run_rules: "first_run ord \<Longrightarrow> completed_rule (ord\<lparr>o_provisioning_attempts := n\<rparr>) rk = None"
  by (simp add: first_run_def completed_rule_def List.map_filter_def dget_def)

section \<open>A recipe to run\<close>

definition panel_rule :: filler_rule where
  "panel_rule = \<lparr>fr_recipe = 1, fr_position = 1, fr_source_type = PanelInbound, fr_quantity = 1, fr_required = True,
     fr_panel = Some 1, fr_inbounds = [1], fr_inventory_pool = None, fr_allocation_mode = None, fr_is_active = True\<rparr>"

definition recipe_tables :: "filler_rule \<Rightarrow> delivery_tables" where
  "recipe_tables r = \<lparr>dt_configs = [], dt_sources = [],
     dt_recipes = [(1, \<lparr>re_plan = 1, re_title = ''R'', re_is_active = True, re_priority = 1, re_failure_policy = Strict\<rparr>)],
     dt_rules = [(1, r)], dt_inventory = sample_inventory\<rparr>"

text \<open>A panel that creates one client and then fails.\<close>

definition flaky :: recipe_remote where
  "flaky = \<lparr>rq_supported = (\<lambda>_. True), rq_report = (\<lambda>_. None),
     rq_lookup = (\<lambda>_. Inr (Some [(''direct_link'', JStr ''vless://a'')])),
     rq_create = (\<lambda>n. if n = 2 then Inr [(''direct_link'', JStr ''vless://a'')] else Inl ''timeout'')\<rparr>"

definition flaky_run :: "filler_rule \<Rightarrow> stock \<Rightarrow> (string + fulfilment) \<times> stock" where
  "flaky_run r s = fulfill_order_with_recipe inventory_env sample_reader flaky None (recipe_tables r) 1 s"

abbreviation sample_stock :: stock where
  "sample_stock \<equiv> (sample_inventory, sample_db)"

lemma sample_stock_ok:
  "items_ok (snd sample_stock)" "stock_ok (fst sample_stock)" "wf_table (db_cups (snd sample_stock))"
  "wf_table (dt_rules (recipe_tables r))" "get_order (snd sample_stock) 1 = Some sample_order" "first_run sample_order"
  by (simp_all add: items_ok_def stock_ok_def wf_table_def sample_db_def empty_db_def sample_inventory_def recipe_tables_def
      get_order_def row_def first_run_def sample_order_def new_order_def dget_def)

lemma sample_run:
  obtains f s' where "flaky_run panel_rule sample_stock = (Inr f, s')" "fu_status f = RecipeSuccess" "fu_cup f = Some 1"
    "fu_created f = 1" "fu_warnings f = []"
proof -
  have "case fst (flaky_run panel_rule sample_stock) of Inl e \<Rightarrow> False
    | Inr f \<Rightarrow> fu_status f = RecipeSuccess \<and> fu_cup f = Some 1 \<and> fu_created f = 1 \<and> fu_warnings f = []" by code_simp
  then show ?thesis using that by (cases "flaky_run panel_rule sample_stock") (auto split: sum.splits)
qed

text \<open>
  A retry after a partial failure lists again what the first attempt had listed: the client it finds on the
  panel gets a new link row, which no item of the cup refers to.
\<close>

lemma retry_lists_again:
  "active_cup_links 1 (snd (snd (flaky_run (panel_rule\<lparr>fr_quantity := 2\<rparr>) sample_stock))) = [''vless://a''] \<and>
   active_cup_links 1 (snd (snd (flaky_run (panel_rule\<lparr>fr_quantity := 2\<rparr>) (snd (flaky_run (panel_rule\<lparr>fr_quantity := 2\<rparr>) sample_stock))))) =
     [''vless://a'', ''vless://a'', ''vless://a'']"
  by code_simp

lemma attach_stock: "stock_ok iv \<Longrightarrow> stock_ok (attach_allocations k c iv)"
  by (auto simp: stock_ok_def attach_allocations_def row_modify_where split: if_splits)

text \<open>
  C38. The first delivery by a recipe appends to the cup of the order, in the order of the rules, exactly as many
  links as it reports, whether it succeeds or not, and leaves the links already in the cup, every other cup,
  and the tables of links, items and allocations well formed.
\<close>

theorem recipe_fills_cup:
  assumes "items_ok (snd s)" "stock_ok (fst s)" "fulfill_order_with_recipe en lr rq actor t k s = (Inr f, s')" "fu_cup f = Some c"
    "get_order (snd s) k = Some ord" "first_run ord"
  shows "\<exists>ls. length ls = fu_created f \<and>
    raws (linked_items (shown c) (snd s')) = raws (linked_items (shown c) (snd s)) @ map strip ls \<and>
    (\<forall>x. x \<noteq> c \<longrightarrow> active_cup_links x (snd s') = active_cup_links x (snd s)) \<and> items_ok (snd s') \<and> stock_ok (fst s')"
proof -
  obtain ord0 kr ord1 c1 d1 os iv1 d2 where st: "get_order (snd s) k = Some ord0"
    "ord1 = ord0\<lparr>o_provisioning_attempts := Suc (o_provisioning_attempts ord0)\<rparr>"
    "create_or_reuse_order_cup en k ord1 kr (save_order en k ord1 (snd s)) = (c1, d1)"
    "run_rules en lr rq (re_failure_policy (snd kr) = Strict) (k, ord1) c1 (active_rules (fst kr) t) (fst s, d1) = (Inr os, (iv1, d2))"
    "f = recipe_result c1 kr (active_rules (fst kr) t = []) os"
    "s' = (attach_allocations k c1 iv1, save_order en k (record_result en actor f ord1) d2)"
    by (rule fulfil_steps [OF assms(3,4)])
  have c: "c1 = c" using assms(4) st(5) by (simp add: recipe_result_def Let_def)
  have same1: "db_cup_items d1 = db_cup_items (snd s)" "db_config_links d1 = db_config_links (snd s)"
    using reuse_cup_facts(1,2) [OF st(3)] by simp_all
  have ok1: "items_ok d1" using assms(1) by (simp only: items_ok_same [OF same1])
  have "\<forall>kr \<in> set (active_rules (fst kr) t). completed_rule (snd (k, ord1)) (fst kr) = None"
    using first_run_rules [OF assms(6)] st(1,2) assms(5) by simp
  from run_rules_effect [OF st(4) this assms(2) ok1] obtain ls where run: "stock_ok iv1" "fills c ls d1 d2"
    "sum_list (map ro_created os) = length ls" by (auto simp: c)
  have same2: "db_cup_items (snd s') = db_cup_items d2" "db_config_links (snd s') = db_config_links d2" by (simp_all add: st(6))
  have "active_cup_links x (snd s') = active_cup_links x (snd s)" if "x \<noteq> c" for x
    using run(2) that by (simp add: active_cup_links_def linked_items_same [OF same2] linked_items_same [OF same1] fills_def)
  moreover have "raws (linked_items (shown c) (snd s')) = raws (linked_items (shown c) (snd s)) @ map strip ls"
    using run(2) by (simp add: linked_items_same [OF same2] linked_items_same [OF same1] fills_def)
  moreover have "items_ok (snd s')" using fills_ok [OF run(2)] by (simp only: items_ok_same [OF same2])
  moreover have "fu_created f = length ls" using run(3) by (simp add: st(5) recipe_result_def Let_def)
  ultimately show ?thesis using attach_stock [OF run(1)] by (intro exI [of _ ls]) (simp add: st(6))
qed

theorem recipe_fills_cup_witness:
  "\<exists>f s' l. flaky_run panel_rule sample_stock = (Inr f, s') \<and> fu_created f = 1 \<and>
     raws (linked_items (shown 1) (snd s')) = raws (linked_items (shown 1) sample_db) @ [l]"
proof -
  obtain f s' where run: "flaky_run panel_rule sample_stock = (Inr f, s')" "fu_cup f = Some 1" "fu_created f = 1"
    by (rule sample_run)
  from recipe_fills_cup [OF sample_stock_ok(1,2) run(1) [unfolded flaky_run_def] run(2) sample_stock_ok(5,6)] obtain ls where
    "length ls = 1" "raws (linked_items (shown 1) (snd s')) = raws (linked_items (shown 1) (snd sample_stock)) @ map strip ls"
    unfolding run(3) by blast
  then show ?thesis using run by (cases ls) auto
qed

lemma joined_nonempty: "xs \<noteq> [] \<Longrightarrow> [] \<notin> set xs \<Longrightarrow> joined_errors xs \<noteq> []"
  by (cases xs rule: joined_errors.cases) auto

text \<open>
  C39. A delivery by a recipe is recorded on the order exactly as it went: a success completes, pays and
  verifies the order and clears its error, with at least one link created; a failure leaves the order paid
  and verified but not completed (unless it was before), with the provisioning status failed and an error text;
  and an exception keeps the database and the inventory as they were.
\<close>

theorem recipe_result_recorded:
  assumes "fulfill_order_with_recipe en lr rq actor t k s = (r, s')" "get_order (snd s) k = Some ord"
  shows "case r of
      Inl e \<Rightarrow> fst s' = fst s \<and> same_data (snd s) (snd s')
    | Inr f \<Rightarrow>
        if fu_status f = RecipeNotConfigured then s' = s
        else \<exists>o1. get_order (snd s') k = Some o1 \<and> o_is_paid o1 \<and> o_verification_status o1 = VerVerified \<and>
          (if fulfilment_ok f
           then 0 < fu_created f \<and> o_status o1 = Completed \<and> o_provisioning_status o1 = ProvProvisioned \<and> o_last_provisioning_error o1 = []
           else o_status o1 = (if o_status ord = Completed then Completed else Confirmed) \<and>
                o_provisioning_status o1 = ProvFailed \<and> o_last_provisioning_error o1 \<noteq> [])"
proof (cases r)
  case (Inl e)
  then show ?thesis using fulfil_raised assms(1) by auto
next
  case (Inr f)
  show ?thesis
  proof (cases "fu_cup f")
    case None
    then have "f = not_configured \<and> s' = s"
      using assms Inr by (auto simp: fulfill_order_with_recipe_def Let_def recipe_result_def split: option.splits prod.splits sum.splits)
    then show ?thesis using Inr by (simp add: not_configured_def)
  next
    case (Some c0)
    obtain ord0 kr ord1 c1 d1 os iv1 d2 where st: "get_order (snd s) k = Some ord0"
      "ord1 = ord0\<lparr>o_provisioning_attempts := Suc (o_provisioning_attempts ord0)\<rparr>"
      "f = recipe_result c1 kr (active_rules (fst kr) t = []) os"
      "s' = (attach_allocations k c1 iv1, save_order en k (record_result en actor f ord1) d2)"
      by (rule fulfil_steps [OF assms(1) [unfolded Inr] Some])
    have "get_order (snd s') k = Some (normalize_on_save en d2 (record_result en actor f ord1))" by (simp add: st(4) save_get)
    moreover have "fulfilment_ok f \<Longrightarrow> 0 < fu_created f" "fu_status f \<noteq> RecipeNotConfigured"
      by (auto simp: st(3) recipe_result_def fulfilment_ok_def Let_def split: if_splits)
    moreover have "ord0 = ord" using st(1) assms(2) by simp
    ultimately show ?thesis using Inr by (auto simp: record_result_def mark_payment_verified_def st(2) str_or_def)
  qed
qed

theorem recipe_result_recorded_witness:
  "\<exists>f s' o1. flaky_run panel_rule sample_stock = (Inr f, s') \<and> get_order (snd s') 1 = Some o1 \<and> o_status o1 = Completed \<and>
     o_provisioning_status o1 = ProvProvisioned"
proof -
  obtain f s' where run: "flaky_run panel_rule sample_stock = (Inr f, s')" "fu_status f = RecipeSuccess"
    by (rule sample_run)
  show ?thesis
    using recipe_result_recorded [OF run(1) [unfolded flaky_run_def] sample_stock_ok(5)] run by (auto simp: fulfilment_ok_def)
qed

section \<open>A second run\<close>

definition outcome_dict :: "rule_outcome \<Rightarrow> dict" where
  "outcome_dict x = (case outcome_json x of JObj d \<Rightarrow> d | _ \<Rightarrow> [])"

lemma outcome_dict_simps:
  "outcome_json x = JObj (outcome_dict x)" "dget ''rule_id'' (outcome_dict x) = JInt (int (ro_rule x))"
  "dget ''success'' (outcome_dict x) = JBool (ro_success x)" "json_count (dget ''created_link_count'' (outcome_dict x)) = ro_created x"
  "json_count (dget ''panel_generated_count'' (outcome_dict x)) = ro_panel x"
  "json_count (dget ''inventory_allocation_count'' (outcome_dict x)) = ro_inventory x"
  by (simp_all add: outcome_dict_def outcome_json_def dget_def json_count_def)

lemma completed_recorded:
  assumes "distinct (map ro_rule os)" "x \<in> set os" "\<forall>y \<in> set os. ro_success y"
    "dget ''cup_fulfillment_recipe'' (o_metadata ord) = metadata_for_order f" "fu_outcomes f = os"
  shows "completed_rule ord (ro_rule x) = Some (outcome_dict x)"
proof -
  let ?Q = "\<lambda>v. case v of JObj r \<Rightarrow> if dget ''rule_id'' r = JInt (int (ro_rule x)) \<and> truthy (dget ''success'' r) then Some r else None | _ \<Rightarrow> None"
  have "first_of (List.map_filter ?Q (map outcome_json os)) = Some (outcome_dict x)"
    using assms(1-3) by (induction os) (auto simp: List.map_filter_simps outcome_dict_simps)
  moreover have "as_list (dget ''rule_results'' (as_dict (dget ''cup_fulfillment_recipe'' (o_metadata ord)))) = map outcome_json os"
    using assms(4,5) by (simp add: metadata_for_order_def dget_def)
  ultimately show ?thesis by (simp add: completed_rule_def)
qed

definition again :: "pk \<times> filler_rule \<Rightarrow> rule_outcome \<Rightarrow> rule_outcome" where
  "again kr x = (new_outcome kr)\<lparr>ro_success := True, ro_created := ro_created x, ro_panel := ro_panel x, ro_inventory := ro_inventory x\<rparr>"

lemma rules_again:
  "map ro_rule os = map fst krs \<Longrightarrow> \<forall>x \<in> set os. completed_rule (snd ko) (ro_rule x) = Some (outcome_dict x) \<and> rule_listed c (ro_rule x) (snd s) \<Longrightarrow>
   run_rules en lr rq strict ko c krs s = (Inr (map2 again krs os), s)"
proof (induction krs arbitrary: os)
  case (Cons kr krs)
  then obtain x xs where os: "os = x # xs" "ro_rule x = fst kr" "map ro_rule xs = map fst krs" by (cases os) auto
  have "run_rule en lr rq ko c kr s = (Inr (again kr x), s)"
    using Cons.prems(2) os(2) by (simp add: os(1) run_rule_def again_def outcome_dict_simps)
  moreover have "ro_errors (again kr x) = []" by (simp add: again_def new_outcome_def)
  ultimately show ?case using Cons.IH [OF os(3)] Cons.prems(2) by (simp add: os(1))
qed simp

lemma again_sums:
  "map ro_rule os = map fst krs \<Longrightarrow> map ro_created (map2 again krs os) = map ro_created os \<and> \<not> required_failed (map2 again krs os)"
proof (induction krs arbitrary: os)
  case (Cons kr krs)
  then obtain x xs where "os = x # xs" "map ro_rule xs = map fst krs" by (cases os) auto
  with Cons.IH [of xs] show ?case by (simp add: again_def new_outcome_def required_failed_def)
qed (simp add: required_failed_def)

lemma distinct_rules: "wf_table (dt_rules t) \<Longrightarrow> distinct (map fst (active_rules rk t))"
  unfolding active_rules_def distinct_map using distinct_ordered_where candidates_wf by blast

lemma rule_listed_cong: "db_cup_items d' = db_cup_items d \<Longrightarrow> rule_listed c r d' = rule_listed c r d"
  by (simp add: rule_listed_def)

lemma attach_again: "attach_allocations k c (attach_allocations k c iv) = attach_allocations k c iv"
proof -
  let ?P = "\<lambda>_ a :: allocation. al_cup a = Some c \<and> al_order a = None" and ?g = "\<lambda>a :: allocation. a\<lparr>al_order := Some k\<rparr>"
  have "modify_where ?P ?g (modify_where ?P ?g t) = modify_where ?P ?g t" for t
    by (induction t) (auto simp: modify_where_def)
  then show ?thesis by (simp add: attach_allocations_def)
qed

lemma recipe_status_cases:
  "(if n \<noteq> (0::nat) \<and> (\<not> b \<or> p) then if b then RecipePartial else RecipeSuccess else RecipeFailed) = RecipeSuccess
   \<longleftrightarrow> n \<noteq> 0 \<and> \<not> b"
  by auto

lemma recipe_result_simps:
  "fu_created (recipe_result c kr b os) = sum_list (map ro_created os)" "fu_cup (recipe_result c kr b os) = Some c"
  "fu_outcomes (recipe_result c kr b os) = os"
  "fu_status (recipe_result c kr b os) = RecipeSuccess \<longleftrightarrow> sum_list (map ro_created os) \<noteq> 0 \<and> \<not> required_failed os"
  unfolding recipe_result_def Let_def fulfilment.select_convs recipe_status_cases by (rule refl)+

text \<open>
  C40. Delivering again what a recipe has fully delivered makes no request and creates nothing: a second run,
  at any time, whatever the panels would answer and whoever asks, finds the same cup, reports the same
  success and number of links, and leaves links, items, cups and the inventory as they are.
\<close>

theorem refulfilment_creates_nothing:
  assumes "items_ok (snd s)" "stock_ok (fst s)" "wf_table (db_cups (snd s))" "wf_table (dt_rules t)"
    "fulfill_order_with_recipe en lr rq actor t k s = (Inr f, s')" "get_order (snd s) k = Some ord" "first_run ord"
    "fu_status f = RecipeSuccess" "fu_warnings f = []"
  shows "\<exists>f2 s2. (\<forall>rq2. fulfill_order_with_recipe en2 lr2 rq2 actor2 t k s' = (Inr f2, s2)) \<and>
    fu_status f2 = RecipeSuccess \<and> fu_cup f2 = fu_cup f \<and> fu_created f2 = fu_created f \<and> fst s2 = fst s' \<and>
    db_cup_items (snd s2) = db_cup_items (snd s') \<and> db_config_links (snd s2) = db_config_links (snd s') \<and>
    map fst (db_cups (snd s2)) = map fst (db_cups (snd s'))"
proof -
  obtain c0 where c0: "fu_cup f = Some c0"
    using assms(5,8) by (auto simp: fulfill_order_with_recipe_def not_configured_def recipe_result_def Let_def
        split: option.splits prod.splits sum.splits)
  obtain ord0 kr ord1 c d1 os iv1 d2 where st: "get_order (snd s) k = Some ord0"
    "Option.bind (o_plan ord0) (\<lambda>p. get_active_recipe_for_plan p t) = Some kr"
    "ord1 = ord0\<lparr>o_provisioning_attempts := Suc (o_provisioning_attempts ord0)\<rparr>"
    "create_or_reuse_order_cup en k ord1 kr (save_order en k ord1 (snd s)) = (c, d1)"
    "run_rules en lr rq (re_failure_policy (snd kr) = Strict) (k, ord1) c (active_rules (fst kr) t) (fst s, d1) = (Inr os, (iv1, d2))"
    "f = recipe_result c kr (active_rules (fst kr) t = []) os"
    "s' = (attach_allocations k c iv1, save_order en k (record_result en actor f ord1) d2)"
    by (rule fulfil_steps [OF assms(5) c0])
  let ?rules = "active_rules (fst kr) t"
  have same1: "db_cup_items d1 = db_cup_items (snd s)" "db_config_links d1 = db_config_links (snd s)"
    using reuse_cup_facts(1,2) [OF st(4)] by simp_all
  have ok1: "items_ok d1" using assms(1) by (simp only: items_ok_same [OF same1])
  have "\<forall>kr \<in> set ?rules. completed_rule (snd (k, ord1)) (fst kr) = None"
    using first_run_rules [OF assms(7)] st(1,3) assms(6) by simp
  from run_rules_effect [OF st(5) this assms(2) ok1] obtain ls where run: "fills c ls d1 d2" "\<forall>x \<in> set os. outcome_ok c d2 x"
    "\<not> (re_failure_policy (snd kr) = Strict \<and> required_failed os) \<longrightarrow> map ro_rule os = map fst ?rules" by blast
  have nofail: "\<not> required_failed os" using assms(8) by (auto simp: st(6) recipe_result_def Let_def split: if_splits)
  then have rules: "map ro_rule os = map fst ?rules" using run(3) by blast
  have "ro_errors x = []" if "x \<in> set os" for x
    using nofail assms(9) that by (cases "ro_required x") (auto simp: required_failed_def list_ex_iff st(6) recipe_result_def Let_def)
  then have success: "\<forall>x \<in> set os. ro_success x \<and> rule_listed c (ro_rule x) d2" using run(2) by (auto simp: outcome_ok_def)
  have distinct: "distinct (map ro_rule os)" unfolding rules by (rule distinct_rules [OF assms(4)])
  let ?o = "normalize_on_save en d2 (record_result en actor f ord1)"
  let ?o2 = "?o\<lparr>o_provisioning_attempts := Suc (o_provisioning_attempts ?o)\<rparr>"
  have o2: "get_order (snd s') k = Some ?o" by (simp add: st(7) save_get)
  have kr2: "Option.bind (o_plan ?o) (\<lambda>p. get_active_recipe_for_plan p t) = Some kr"
    using st(2) by (simp add: record_result_def mark_payment_verified_def st(3) Let_def)
  have meta: "dget ''cup_fulfillment_recipe'' (o_metadata ?o2) = metadata_for_order f"
    by (simp add: record_result_def Let_def dget_dset)
  have recorded: "\<forall>x \<in> set os. completed_rule ?o2 (ro_rule x) = Some (outcome_dict x)"
    using completed_recorded [OF distinct _ _ meta] success by (simp add: st(6) recipe_result_def Let_def)
  have wf1: "wf_table (db_cups d1)" using reuse_cup_facts(4) [OF st(4)] assms(3) by simp
  obtain x where x: "cup_for_target (Some k) None d1 = Some (c, x)" using reuse_cup_facts(5) [OF st(4)] assms(3) by auto
  let ?d3 = "save_order en2 k ?o2 (snd s')"
  have cups3: "db_cups ?d3 = db_cups d1" "db_cups (snd s') = db_cups d1" using run(1) by (simp_all add: st(7) fills_def)
  have found: "cup_for_target (Some k) None ?d3 = Some (c, x)" using x by (simp only: cup_for_target_def cups3)
  let ?d4 = "?d3\<lparr>db_cups := put c (fill_cup en2 ?o2 (order_plan ?d3 ?o2) kr x) (db_cups ?d3)\<rparr>"
  have reuse: "create_or_reuse_order_cup en2 k ?o2 kr ?d3 = (c, ?d4)" using found by (simp add: create_or_reuse_order_cup_def Let_def)
  have items4: "rule_listed c q ?d4 = rule_listed c q d2" for q by (rule rule_listed_cong) (simp add: st(7))
  have listed: "\<forall>x \<in> set os. completed_rule (snd (k, ?o2)) (ro_rule x) = Some (outcome_dict x) \<and> rule_listed c (ro_rule x) (snd (fst s', ?d4))"
    unfolding snd_conv items4 using recorded success by blast
  let ?os = "map2 again ?rules os"
  let ?f = "recipe_result c kr (?rules = []) ?os"
  let ?s2 = "(attach_allocations k c (fst s'), save_order en2 k (record_result en2 actor2 ?f ?o2) ?d4)"
  have whole: "fulfill_order_with_recipe en2 lr2 rq2 actor2 t k s' = (Inr ?f, ?s2)" for rq2
    unfolding fulfill_order_with_recipe_def o2 option.case kr2 Let_def reuse prod.case rules_again [OF rules listed] sum.case prod.collapse ..
  have status: "fu_status ?f = RecipeSuccess" "fu_created ?f = fu_created f" "fu_cup ?f = fu_cup f"
    using again_sums [OF rules] assms(8) nofail by (simp_all only: st(6) recipe_result_simps simp_thms)
  have "c \<in> fst ` set (db_cups d1)"
    using first_of_Some [OF x [unfolded cup_for_target_def]] by (force simp: set_ordered_where)
  then have "map fst (db_cups (snd ?s2)) = map fst (db_cups (snd s'))" by (simp add: cups3 keys_put)
  moreover have "fst ?s2 = fst s'" by (simp add: st(7) attach_again)
  moreover have "db_cup_items (snd ?s2) = db_cup_items (snd s')" "db_config_links (snd ?s2) = db_config_links (snd s')" by simp_all
  ultimately show ?thesis using whole status by (intro exI [of _ ?f] exI [of _ ?s2] conjI allI) assumption+
qed

theorem refulfilment_creates_nothing_witness:
  "\<exists>f s' f2 s2. flaky_run panel_rule sample_stock = (Inr f, s') \<and> flaky_run panel_rule s' = (Inr f2, s2) \<and>
     fu_created f2 = 1 \<and> db_config_links (snd s2) = db_config_links (snd s')"
proof -
  obtain f s' where run: "flaky_run panel_rule sample_stock = (Inr f, s')" "fu_status f = RecipeSuccess" "fu_created f = 1"
    "fu_warnings f = []" by (rule sample_run)
  from refulfilment_creates_nothing [OF sample_stock_ok(1-4) run(1) [unfolded flaky_run_def] sample_stock_ok(5,6) run(2,4)]
  obtain f2 s2 where "\<forall>rq2. fulfill_order_with_recipe inventory_env sample_reader rq2 None (recipe_tables panel_rule) 1 s' = (Inr f2, s2)"
    "fu_created f2 = fu_created f" "db_config_links (snd s2) = db_config_links (snd s')" by blast
  then have "flaky_run panel_rule s' = (Inr f2, s2)" "fu_created f2 = 1" using run(3) by (simp_all only: flaky_run_def)
  then show ?thesis using run(1) \<open>db_config_links (snd s2) = db_config_links (snd s')\<close> by blast
qed

end
