(* ===== verification/Spec2Isabelle.thy ===== *)
theory Spec2Isabelle
  imports Sales_Laws Selection_Laws Delivery_Laws Review_Laws Inventory_Laws Route_Laws
    Plan_Delivery_Laws Creation_Laws Sms_Matching_Laws Setup_Laws Cup_Laws Feed_Laws Lease_Laws Policy_Laws Recipe_Laws
begin

text \<open>
  A verification development of the order core of Qasedak (a shop for VPN subscriptions: Django
  models and services under \<open>src/store\<close>).
\<close>

end
